(* ===== verification/Prelude.thy ===== *)
theory Prelude
  imports Main "HOL-Library.Finite_Map" "HOL-Library.List_Lexorder" "HOL-Library.Char_ord"
    "HOL-Library.Option_ord" "HOL-Library.Product_Lexorder" "HOL-Library.Sublist"
begin

text \<open>
  Shared vocabulary of the development: the Rust standard-library types the crates use and the
  lemmas every component proof rests on.

  \<^item> \<open>BTreeMap\<close> is a finite map (\<^typ>\<open>('k, 'v) fmap\<close>) read in key order by \<open>bt_entries\<close>, and
    \<open>BTreeSet\<close> a finite set (\<^typ>\<open>'a fset\<close>) read in order by \<open>bt_elements\<close>. Both are extensional, as
    Rust's equality on them is; the order of iteration, which decides the order of a plan, is the
    linear order of the key type.
  \<^item> \<open>Result<T, E>\<close> is \<^typ>\<open>'e + 'a\<close>; the \<open>?\<close> operator is \<open>bind_r\<close>, a loop whose body uses \<open>?\<close> is
    \<open>for_each\<close>, and a loop that also updates a state is \<open>fold_r\<close>.
  \<^item> \<open>String\<close> is its UTF-8 bytes, a \<^typ>\<open>string\<close>; \<open>chars\<close> splits it into the byte groups of its
    Unicode scalar values. Comparison of strings is bytewise and lexicographic, as in Rust.
\<close>

named_theorems container_simps \<open>reading BTreeMap and BTreeSet operations through lookup and membership\<close>
named_theorems result_simps \<open>when a fallible computation returns without an error\<close>


section \<open>Ordered containers\<close>

type_synonym ('k, 'v) btreemap = "('k, 'v) fmap"
type_synonym 'a btreeset = "'a fset"

definition bt_entries :: "('k::linorder, 'v) btreemap \<Rightarrow> ('k \<times> 'v) list" where
  "bt_entries m = sorted_list_of_fmap m"

definition bt_keys :: "('k::linorder, 'v) btreemap \<Rightarrow> 'k list" where
  "bt_keys m = sorted_list_of_fset (fmdom m)"

definition bt_elements :: "'a::linorder btreeset \<Rightarrow> 'a list" where
  "bt_elements s = sorted_list_of_fset s"

definition contains_key :: "('k, 'v) btreemap \<Rightarrow> 'k \<Rightarrow> bool" where
  "contains_key m k = (fmlookup m k \<noteq> None)"

text \<open>\<open>m.get(k).cloned().unwrap_or_default()\<close> for a map whose values are sets.\<close>

definition get_or_default :: "('k, 'a btreeset) btreemap \<Rightarrow> 'k \<Rightarrow> 'a btreeset" where
  "get_or_default m k = (case fmlookup m k of None \<Rightarrow> {||} | Some s \<Rightarrow> s)"

text \<open>\<open>m.entry(k).or_default().extend(s)\<close>.\<close>

definition entry_extend :: "'k \<Rightarrow> 'a btreeset \<Rightarrow> ('k, 'a btreeset) btreemap \<Rightarrow> ('k, 'a btreeset) btreemap" where
  "entry_extend k s m = fmupd k (get_or_default m k |\<union>| s) m"

text \<open>\<open>iter.collect::<BTreeMap<_, _>>()\<close>: a later pair replaces an earlier one with the same key.\<close>

definition collect_map :: "('k \<times> 'v) list \<Rightarrow> ('k, 'v) btreemap" where
  "collect_map ps = fold (\<lambda>(k, v) m. fmupd k v m) ps fmempty"

text \<open>\<open>iter.flat_map(..).collect::<BTreeSet<_>>()\<close> over a list of sets.\<close>

definition union_all :: "'a btreeset list \<Rightarrow> 'a btreeset" where
  "union_all ss = foldr (|\<union>|) ss {||}"

text \<open>\<open>m.range(start..)\<close>.\<close>

definition range_from :: "'k::linorder \<Rightarrow> ('k, 'v) btreemap \<Rightarrow> ('k \<times> 'v) list" where
  "range_from start m = dropWhile (\<lambda>(k, _). k < start) (bt_entries m)"

definition range_from_set :: "'a::linorder \<Rightarrow> 'a btreeset \<Rightarrow> 'a list" where
  "range_from_set start s = dropWhile (\<lambda>k. k < start) (bt_elements s)"


subsection \<open>Code equations\<close>

lemma sorted_list_of_fset_code [code]: "sorted_list_of_fset S = sorted_list_of_set (fset S)"
  by (rule sorted_list_of_fset.rep_eq)


subsection \<open>Reading containers\<close>

lemma set_bt_elements [simp, container_simps]: "set (bt_elements s) = fset s"
  by (simp add: bt_elements_def)

lemma distinct_bt_elements [simp]: "distinct (bt_elements s)"
  by (simp add: bt_elements_def sorted_list_of_fset.rep_eq)

lemma sorted_bt_elements [simp]: "sorted (bt_elements s)"
  by (simp add: bt_elements_def sorted_list_of_fset.rep_eq)

lemma bt_elements_empty [simp]: "bt_elements {||} = []"
  by (simp add: bt_elements_def sorted_list_of_fset.rep_eq)

lemma bt_keys_entries: "bt_keys m = map fst (bt_entries m)"
  by (simp add: bt_keys_def bt_entries_def sorted_list_of_fmap_def comp_def)

lemma distinct_bt_keys [simp]: "distinct (bt_keys m)"
  by (simp add: bt_keys_def sorted_list_of_fset.rep_eq)

lemma sorted_bt_keys [simp]: "sorted (bt_keys m)"
  by (simp add: bt_keys_def sorted_list_of_fset.rep_eq)

lemma set_bt_keys [simp, container_simps]: "k \<in> set (bt_keys m) \<longleftrightarrow> contains_key m k"
  by (auto simp: bt_keys_def contains_key_def fmdom_notI fmdomI dest: fmdom_notD)

lemma distinct_bt_entries [simp]: "distinct (map fst (bt_entries m))"
  by (simp flip: bt_keys_entries)

lemma sorted_bt_entries [simp]: "sorted (map fst (bt_entries m))"
  by (simp flip: bt_keys_entries)

lemma map_of_bt_entries [simp]: "map_of (bt_entries m) = fmlookup m"
  by (simp add: bt_entries_def)

lemma in_bt_entries_iff [simp, container_simps]: "(k, v) \<in> set (bt_entries m) \<longleftrightarrow> fmlookup m k = Some v"
  using map_of_is_SomeI[OF distinct_bt_entries, of k v m] map_of_SomeD[of "bt_entries m" k v] by auto

lemma bt_entries_empty [simp]: "bt_entries fmempty = []"
  by (simp add: bt_entries_def sorted_list_of_fmap_def sorted_list_of_fset.rep_eq)

lemma bt_keys_empty [simp]: "bt_keys fmempty = []"
  by (simp add: bt_keys_entries)

lemma contains_key_upd [simp]: "contains_key (fmupd k v m) k' \<longleftrightarrow> k = k' \<or> contains_key m k'"
  by (simp add: contains_key_def)

lemma contains_key_empty [simp]: "\<not> contains_key fmempty k"
  by (simp add: contains_key_def)

lemma get_or_default_empty [simp]: "get_or_default fmempty k = {||}"
  by (simp add: get_or_default_def)

lemma get_or_default_extend [simp]:
  "get_or_default (entry_extend k s m) k' = (if k = k' then get_or_default m k |\<union>| s else get_or_default m k')"
  by (simp add: entry_extend_def get_or_default_def)

lemma contains_key_extend [simp]:
  "contains_key (entry_extend k s m) k' \<longleftrightarrow> k = k' \<or> contains_key m k'"
  by (simp add: entry_extend_def)

lemma get_or_default_absent: "\<not> contains_key m k \<Longrightarrow> get_or_default m k = {||}"
  by (simp add: contains_key_def get_or_default_def)

lemma get_or_default_Some: "fmlookup m k = Some s \<Longrightarrow> get_or_default m k = s"
  by (simp add: get_or_default_def)

lemma contains_key_iff: "contains_key m k \<longleftrightarrow> (\<exists>v. fmlookup m k = Some v)"
  by (auto simp: contains_key_def)

lemma union_all_simps [simp]: "union_all [] = {||}" "union_all (s # ss) = s |\<union>| union_all ss"
  by (simp_all add: union_all_def)

lemma fset_union_all [simp, container_simps]: "fset (union_all ss) = (\<Union>s\<in>set ss. fset s)"
  by (induction ss) auto

lemma btreemap_eqI: "(\<And>k. fmlookup m k = fmlookup n k) \<Longrightarrow> m = n"
  by (rule fmap_ext)


subsection \<open>Collecting\<close>

lemma fold_fmupd_lookup:
  "fmlookup (fold (\<lambda>(k, v) m. fmupd k v m) ps m0) k =
     (case map_of (rev ps) k of None \<Rightarrow> fmlookup m0 k | Some v \<Rightarrow> Some v)"
proof (induction ps arbitrary: m0)
  case (Cons p ps)
  then show ?case by (cases p) (auto simp: map_of_append split: option.splits)
qed simp

lemma lookup_collect_map: "fmlookup (collect_map ps) k = map_of (rev ps) k"
  by (simp add: collect_map_def fold_fmupd_lookup split: option.splits)

lemma lookup_collect_map_distinct:
  assumes "distinct (map fst ps)"
  shows "fmlookup (collect_map ps) k = map_of ps k"
  using assms by (simp add: lookup_collect_map map_of_inject_set distinct_map rev_map
      fun_cong[OF map_of_inject_set[THEN iffD2], of "rev ps" ps])

lemma contains_key_collect_map: "contains_key (collect_map ps) k \<longleftrightarrow> k \<in> fst ` set ps"
  using map_of_eq_None_iff[of "rev ps" k] by (auto simp: contains_key_def lookup_collect_map)

text \<open>
  A loop of \<open>revokes.entry(key).or_default().extend(..)\<close> accumulates, per key, the union of what
  was added for it.
\<close>

lemma get_or_default_fold_extend:
  "fset (get_or_default (fold (\<lambda>x m. entry_extend (f x) (g x) m) xs m0) k) =
     fset (get_or_default m0 k) \<union> (\<Union>x\<in>{x \<in> set xs. f x = k}. fset (g x))"
proof (induction xs arbitrary: m0)
  case (Cons x xs)
  then show ?case by (auto split: if_splits)
qed simp


subsection \<open>Range scans over a key prefix\<close>

text \<open>
  The crates scan all the keys that share a prefix by \<open>range(start..).take_while(in_scope)\<close>. When
  the keys in scope form an interval of the key order whose least element is \<open>start\<close>, the scan
  visits exactly the keys in scope.
\<close>

lemma takeWhile_dropWhile_interval:
  assumes sorted: "sorted (map f xs)"
    and low: "\<And>x. x \<in> set xs \<Longrightarrow> P (f x) \<Longrightarrow> start \<le> f x"
    and conv: "\<And>x y. x \<in> set xs \<Longrightarrow> y \<in> set xs \<Longrightarrow> start \<le> f x \<Longrightarrow> f x \<le> f y \<Longrightarrow> P (f y) \<Longrightarrow> P (f x)"
  shows "takeWhile (\<lambda>x. P (f x)) (dropWhile (\<lambda>x. f x < (start :: 'k::linorder)) xs) = filter (\<lambda>x. P (f x)) xs"
  using assms
proof (induction xs)
  case (Cons x xs)
  have IH: "takeWhile (\<lambda>x. P (f x)) (dropWhile (\<lambda>x. f x < start) xs) = filter (\<lambda>x. P (f x)) xs"
    by (rule Cons.IH) (use Cons.prems in \<open>auto\<close>)
  show ?case
  proof (cases "f x < start")
    case True
    then have "\<not> P (f x)" using Cons.prems(2)[of x] by auto
    then show ?thesis using True IH by simp
  next
    case False
    then have ge: "\<And>y. y \<in> set xs \<Longrightarrow> start \<le> f y"
      using Cons.prems(1) by (auto intro: order_trans)
    then have drop: "dropWhile (\<lambda>x. f x < start) xs = xs"
      by (metis dropWhile_eq_self_iff hd_in_set leD)
    show ?thesis
    proof (cases "P (f x)")
      case True
      then show ?thesis using False IH drop by simp
    next
      case notP: False
      have "\<And>y. y \<in> set xs \<Longrightarrow> \<not> P (f y)"
        using Cons.prems(1) Cons.prems(3)[of x] False notP by (auto simp: not_less)
      then show ?thesis using False notP by (simp add: filter_empty_conv)
    qed
  qed
qed simp


section \<open>Results\<close>

fun bind_r :: "'e + 'a \<Rightarrow> ('a \<Rightarrow> 'e + 'b) \<Rightarrow> 'e + 'b" where
  "bind_r (Inl e) f = Inl e"
| "bind_r (Inr x) f = f x"

fun for_each :: "('a \<Rightarrow> 'e + unit) \<Rightarrow> 'a list \<Rightarrow> 'e + unit" where
  "for_each f [] = Inr ()"
| "for_each f (x # xs) = bind_r (f x) (\<lambda>_. for_each f xs)"

fun map_r :: "('a \<Rightarrow> 'e + 'b) \<Rightarrow> 'a list \<Rightarrow> 'e + 'b list" where
  "map_r f [] = Inr []"
| "map_r f (x # xs) = bind_r (f x) (\<lambda>y. bind_r (map_r f xs) (\<lambda>ys. Inr (y # ys)))"

fun fold_r :: "('a \<Rightarrow> 's \<Rightarrow> 'e + 's) \<Rightarrow> 'a list \<Rightarrow> 's \<Rightarrow> 'e + 's" where
  "fold_r f [] s = Inr s"
| "fold_r f (x # xs) s = bind_r (f x s) (fold_r f xs)"

text \<open>\<open>ensure b e\<close> is \<open>if b then Ok(()) else return Err(e)\<close>.\<close>

definition ensure_r :: "bool \<Rightarrow> 'e \<Rightarrow> 'e + unit" where
  "ensure_r b e = (if b then Inr () else Inl e)"

text \<open>\<open>if let Some(x) = v { f(x)? }\<close>.\<close>

definition when_some :: "'a option \<Rightarrow> ('a \<Rightarrow> 'e + unit) \<Rightarrow> 'e + unit" where
  "when_some v f = (case v of None \<Rightarrow> Inr () | Some x \<Rightarrow> f x)"

text \<open>A block of fallible statements, run in order up to the first error.\<close>

definition sequence_r :: "('e + unit) list \<Rightarrow> 'e + unit" where
  "sequence_r cs = for_each (\<lambda>c. c) cs"

lemma bind_r_Inr_iff [simp, result_simps]:
  "bind_r r f = Inr y \<longleftrightarrow> (\<exists>x. r = Inr x \<and> f x = Inr y)"
  by (cases r) auto

lemma bind_r_Inl_iff: "bind_r r f = Inl e \<longleftrightarrow> r = Inl e \<or> (\<exists>x. r = Inr x \<and> f x = Inl e)"
  by (cases r) auto

lemma for_each_Inr_iff [simp, result_simps]:
  "for_each f xs = Inr u \<longleftrightarrow> (\<forall>x\<in>set xs. f x = Inr ())"
  by (induction xs) auto

lemma sequence_r_Inr_iff [simp, result_simps]:
  "sequence_r cs = Inr u \<longleftrightarrow> (\<forall>c\<in>set cs. c = Inr ())"
  by (simp add: sequence_r_def)

lemma ensure_r_Inr_iff [simp, result_simps]: "ensure_r b e = Inr u \<longleftrightarrow> b"
  by (simp add: ensure_r_def)

lemma when_some_Inr_iff [simp, result_simps]:
  "when_some v f = Inr u \<longleftrightarrow> (\<forall>x. v = Some x \<longrightarrow> f x = Inr ())"
  by (cases v) (auto simp: when_some_def)

lemma map_r_Inr_iff: "map_r f xs = Inr ys \<longleftrightarrow> list_all2 (\<lambda>x y. f x = Inr y) xs ys"
  by (induction xs arbitrary: ys) (auto simp: list_all2_Cons1)

lemma map_r_setD: "map_r f xs = Inr ys \<Longrightarrow> y \<in> set ys \<Longrightarrow> \<exists>x\<in>set xs. f x = Inr y"
  by (induction xs arbitrary: ys) auto

lemma for_each_total: "(\<exists>e. for_each f xs = Inl e) \<or> for_each f xs = Inr ()"
  by (cases "for_each f xs") auto

text \<open>A loop that stops at the first error keeps any invariant its body keeps.\<close>

lemma fold_r_invariant:
  assumes "fold_r f xs s = Inr t" and "P s"
    and "\<And>x s t. x \<in> set xs \<Longrightarrow> P s \<Longrightarrow> f x s = Inr t \<Longrightarrow> P t"
  shows "P t"
  using assms
proof (induction xs arbitrary: s)
  case (Cons x xs)
  then obtain s' where s': "f x s = Inr s'" "fold_r f xs s' = Inr t" by auto
  show ?case by (rule Cons.IH[OF s'(2)]) (use Cons.prems s' in auto)
qed simp

text \<open>The same for an invariant that also speaks of the elements handled so far.\<close>

lemma fold_r_processed:
  assumes "fold_r f xs s = Inr t" and "P S s"
    and "\<And>S x s t. x \<in> set xs \<Longrightarrow> P S s \<Longrightarrow> f x s = Inr t \<Longrightarrow> P (insert x S) t"
  shows "P (S \<union> set xs) t"
  using assms
proof (induction xs arbitrary: s S)
  case (Cons x xs)
  then obtain s' where s': "f x s = Inr s'" "fold_r f xs s' = Inr t" by auto
  have "P (insert x S) s'" using Cons.prems(2,3) s'(1) by simp
  then have "P (insert x S \<union> set xs) t" by (rule Cons.IH[OF s'(2)]) (use Cons.prems(3) in auto)
  then show ?case by simp
qed simp

lemma fold_r_append: "fold_r f (xs @ ys) s = bind_r (fold_r f xs s) (fold_r f ys)"
proof (induction xs arbitrary: s)
  case (Cons x xs)
  then show ?case by (cases "f x s") auto
qed simp


section \<open>Strings\<close>

subsection \<open>UTF-8\<close>

text \<open>
  A continuation byte has the form \<open>10xxxxxx\<close>. Every other byte starts a scalar value, so on
  well-formed UTF-8 the groups of \<open>chars\<close> are the encodings of the string's \<open>char\<close> values.
\<close>

definition is_continuation :: "char \<Rightarrow> bool" where
  "is_continuation c = (128 \<le> (of_char c :: nat) \<and> (of_char c :: nat) < 192)"

type_synonym rust_char = string

function chars :: "string \<Rightarrow> rust_char list" where
  "chars [] = []"
| "chars (c # cs) = (c # takeWhile is_continuation cs) # chars (dropWhile is_continuation cs)"
  by pat_completeness auto
termination by (relation "measure length") (auto simp: le_imp_less_Suc length_dropWhile_le)

definition chars_count :: "string \<Rightarrow> nat" where
  "chars_count s = length (chars s)"

lemma concat_chars [simp]: "concat (chars s) = s"
  by (induction s rule: chars.induct) auto

lemma chars_count_le: "chars_count s \<le> length s"
proof (induction s rule: chars.induct)
  case (2 c cs)
  then show ?case
    using length_dropWhile_le[of is_continuation cs] by (simp add: chars_count_def)
qed (simp add: chars_count_def)


declare chars.simps(2) [simp del]


subsection \<open>Searching and replacing\<close>

definition starts_with :: "string \<Rightarrow> string \<Rightarrow> bool" where
  "starts_with s p = prefix p s"

fun contains_str :: "string \<Rightarrow> string \<Rightarrow> bool" where
  "contains_str [] p = prefix p []"
| "contains_str (c # cs) p = (prefix p (c # cs) \<or> contains_str cs p)"

text \<open>
  \<open>str::replace\<close> scans from the left and continues after each match. The patterns of the source
  are non-empty literals; for an empty one the scan below returns the string unchanged.
\<close>

function replace_str :: "string \<Rightarrow> string \<Rightarrow> string \<Rightarrow> string" where
  "replace_str [] p t = []"
| "replace_str (c # cs) p t =
     (if p \<noteq> [] \<and> prefix p (c # cs) then t @ replace_str (drop (length p) (c # cs)) p t
      else c # replace_str cs p t)"
  by pat_completeness auto
termination by (relation "measure (\<lambda>(s, _, _). length s)") auto

text \<open>\<open>str::replace\<close> with a single-character pattern.\<close>

definition replace_char :: "char \<Rightarrow> string \<Rightarrow> string \<Rightarrow> string" where
  "replace_char q t s = concat (map (\<lambda>c. if c = q then t else [c]) s)"

fun join_str :: "string \<Rightarrow> string list \<Rightarrow> string" where
  "join_str sep [] = []"
| "join_str sep [x] = x"
| "join_str sep (x # y # ys) = x @ sep @ join_str sep (y # ys)"

text \<open>\<open>str::split\<close> on one character: always at least one segment.\<close>

fun split_on :: "char \<Rightarrow> string \<Rightarrow> string list" where
  "split_on d [] = [[]]"
| "split_on d (c # cs) =
     (if c = d then [] # split_on d cs
      else (case split_on d cs of [] \<Rightarrow> [[c]] | seg # segs \<Rightarrow> (c # seg) # segs))"


subsection \<open>ASCII classes and decimal rendering\<close>

definition is_ascii_lowercase :: "char \<Rightarrow> bool" where
  "is_ascii_lowercase c = (97 \<le> (of_char c :: nat) \<and> (of_char c :: nat) \<le> 122)"

definition is_ascii_uppercase :: "char \<Rightarrow> bool" where
  "is_ascii_uppercase c = (65 \<le> (of_char c :: nat) \<and> (of_char c :: nat) \<le> 90)"

definition is_ascii_digit :: "char \<Rightarrow> bool" where
  "is_ascii_digit c = (48 \<le> (of_char c :: nat) \<and> (of_char c :: nat) \<le> 57)"

definition is_ascii_alphabetic :: "char \<Rightarrow> bool" where
  "is_ascii_alphabetic c = (is_ascii_lowercase c \<or> is_ascii_uppercase c)"

definition is_ascii_alphanumeric :: "char \<Rightarrow> bool" where
  "is_ascii_alphanumeric c = (is_ascii_alphabetic c \<or> is_ascii_digit c)"

definition to_ascii_lowercase_char :: "char \<Rightarrow> char" where
  "to_ascii_lowercase_char c = (if is_ascii_uppercase c then char_of ((of_char c :: nat) + 32) else c)"

definition to_ascii_lowercase :: "string \<Rightarrow> string" where
  "to_ascii_lowercase s = map to_ascii_lowercase_char s"

definition eq_ignore_ascii_case :: "string \<Rightarrow> string \<Rightarrow> bool" where
  "eq_ignore_ascii_case s t = (to_ascii_lowercase s = to_ascii_lowercase t)"

fun show_nat :: "nat \<Rightarrow> string" where
  "show_nat n =
     (if n < 10 then [char_of (48 + n)] else show_nat (n div 10) @ [char_of (48 + n mod 10)])"

declare show_nat.simps [simp del]

definition show_int :: "int \<Rightarrow> string" where
  "show_int i = (if i < 0 then CHR ''-'' # show_nat (nat (- i)) else show_nat (nat i))"

abbreviation DQ :: char where "DQ \<equiv> CHR 0x22"
abbreviation SQ :: char where "SQ \<equiv> CHR 0x27"

text \<open>A name between double quotes, as the messages write it.\<close>

definition dq :: "string \<Rightarrow> string" where
  "dq s = [DQ] @ s @ [DQ]"


subsection \<open>String lemmas\<close>

lemma replace_char_Nil [simp]: "replace_char q t [] = []"
  by (simp add: replace_char_def)

lemma replace_char_Cons [simp]:
  "replace_char q t (c # cs) = (if c = q then t else [c]) @ replace_char q t cs"
  by (simp add: replace_char_def)

lemma to_ascii_lowercase_char_idem [simp]:
  "to_ascii_lowercase_char (to_ascii_lowercase_char c) = to_ascii_lowercase_char c"
proof (cases "is_ascii_uppercase c")
  case True
  then have "\<not> is_ascii_uppercase (char_of ((of_char c :: nat) + 32))"
    by (auto simp: is_ascii_uppercase_def)
  then show ?thesis by (simp add: to_ascii_lowercase_char_def)
qed (simp add: to_ascii_lowercase_char_def)

lemma to_ascii_lowercase_idem [simp]: "to_ascii_lowercase (to_ascii_lowercase s) = to_ascii_lowercase s"
  by (simp add: to_ascii_lowercase_def)

end
