(* ===== verification/Types.thy ===== *)
theory Types
  imports Prelude
begin

text \<open>
  The vocabulary shared by every crate: object types, privileges, \<open>ensure\<close>
  (\<open>crates/pgroles-core/src/manifest.rs\<close>), grantees and default-privilege scopes
  (\<open>crates/pgroles-core/src/model.rs\<close>), with their \<open>Display\<close> renderings and their orders. The orders
  decide the order in which a \<open>BTreeMap\<close> is read, so they are instances of \<open>linorder\<close>:
  object types and privileges compare by their rendering, grantees and scopes by the derived order.
\<close>

section \<open>Enumerations\<close>

datatype object_type = Table | View | MaterializedView | Sequence | Function | Schema | Database | Type

fun show_object_type :: "object_type \<Rightarrow> string" where
  "show_object_type Table = ''table''"
| "show_object_type View = ''view''"
| "show_object_type MaterializedView = ''materialized_view''"
| "show_object_type Sequence = ''sequence''"
| "show_object_type Function = ''function''"
| "show_object_type Schema = ''schema''"
| "show_object_type Database = ''database''"
| "show_object_type Type = ''type''"

datatype privilege = Select | Insert | Update | Delete | Truncate | References | Trigger
  | Execute | Usage | Create | Connect | Temporary

fun show_privilege :: "privilege \<Rightarrow> string" where
  "show_privilege Select = ''SELECT''"
| "show_privilege Insert = ''INSERT''"
| "show_privilege Update = ''UPDATE''"
| "show_privilege Delete = ''DELETE''"
| "show_privilege Truncate = ''TRUNCATE''"
| "show_privilege References = ''REFERENCES''"
| "show_privilege Trigger = ''TRIGGER''"
| "show_privilege Execute = ''EXECUTE''"
| "show_privilege Usage = ''USAGE''"
| "show_privilege Create = ''CREATE''"
| "show_privilege Connect = ''CONNECT''"
| "show_privilege Temporary = ''TEMPORARY''"

datatype ensure = Present | Absent

datatype grantee = Public | Role string

definition PUBLIC_ROLE :: string where
  "PUBLIC_ROLE = ''PUBLIC''"

definition grantee_parse :: "string \<Rightarrow> grantee" where
  "grantee_parse s = (if s = PUBLIC_ROLE then Public else Role s)"

definition is_public :: "grantee \<Rightarrow> bool" where
  "is_public g = (case g of Public \<Rightarrow> True | Role _ \<Rightarrow> False)"

definition grantee_as_str :: "grantee \<Rightarrow> string" where
  "grantee_as_str g = (case g of Public \<Rightarrow> PUBLIC_ROLE | Role name \<Rightarrow> name)"

datatype default_privilege_scope = Global | SchemaScope string

fun scope_schema :: "default_privilege_scope \<Rightarrow> string option" where
  "scope_schema Global = None"
| "scope_schema (SchemaScope schema) = Some schema"

fun show_scope :: "default_privilege_scope \<Rightarrow> string" where
  "show_scope Global = ''global scope''"
| "show_scope (SchemaScope schema) = ''schema '' @ dq schema"


section \<open>Orders\<close>

lemma show_object_type_inject [simp]: "show_object_type a = show_object_type b \<longleftrightarrow> a = b"
  by (cases a; cases b) simp_all

lemma show_privilege_inject [simp]: "show_privilege a = show_privilege b \<longleftrightarrow> a = b"
  by (cases a; cases b) simp_all

instantiation object_type :: linorder
begin

definition less_eq_object_type :: "object_type \<Rightarrow> object_type \<Rightarrow> bool" where
  "less_eq_object_type a b = (show_object_type a \<le> show_object_type b)"

definition less_object_type :: "object_type \<Rightarrow> object_type \<Rightarrow> bool" where
  "less_object_type a b = (show_object_type a < show_object_type b)"

instance
  by standard (auto simp: less_eq_object_type_def less_object_type_def dest: order.antisym)

end

instantiation privilege :: linorder
begin

definition less_eq_privilege :: "privilege \<Rightarrow> privilege \<Rightarrow> bool" where
  "less_eq_privilege a b = (show_privilege a \<le> show_privilege b)"

definition less_privilege :: "privilege \<Rightarrow> privilege \<Rightarrow> bool" where
  "less_privilege a b = (show_privilege a < show_privilege b)"

instance
  by standard (auto simp: less_eq_privilege_def less_privilege_def dest: order.antisym)

end

text \<open>The derived orders compare the variant first; \<open>Public\<close> and \<open>Global\<close> come first.\<close>

definition grantee_rank :: "grantee \<Rightarrow> string option" where
  "grantee_rank g = (case g of Public \<Rightarrow> None | Role name \<Rightarrow> Some name)"

lemma grantee_rank_inject [simp]: "grantee_rank a = grantee_rank b \<longleftrightarrow> a = b"
  by (simp add: grantee_rank_def split: grantee.splits)

instantiation grantee :: linorder
begin

definition less_eq_grantee :: "grantee \<Rightarrow> grantee \<Rightarrow> bool" where
  "less_eq_grantee a b = (grantee_rank a \<le> grantee_rank b)"

definition less_grantee :: "grantee \<Rightarrow> grantee \<Rightarrow> bool" where
  "less_grantee a b = (grantee_rank a < grantee_rank b)"

instance
  by standard (auto simp: less_eq_grantee_def less_grantee_def dest: order.antisym)

end

lemma scope_schema_inject [simp]: "scope_schema a = scope_schema b \<longleftrightarrow> a = b"
  by (cases a; cases b) simp_all

instantiation default_privilege_scope :: linorder
begin

definition less_eq_default_privilege_scope :: "default_privilege_scope \<Rightarrow> default_privilege_scope \<Rightarrow> bool" where
  "less_eq_default_privilege_scope a b = (scope_schema a \<le> scope_schema b)"

definition less_default_privilege_scope :: "default_privilege_scope \<Rightarrow> default_privilege_scope \<Rightarrow> bool" where
  "less_default_privilege_scope a b = (scope_schema a < scope_schema b)"

instance
  by standard (auto simp: less_eq_default_privilege_scope_def less_default_privilege_scope_def dest: order.antisym)

end


section \<open>Grantees\<close>

lemma is_public_simps [simp]: "is_public Public" "\<not> is_public (Role name)"
  by (simp_all add: is_public_def)

lemma is_public_iff: "is_public g \<longleftrightarrow> g = Public"
  by (cases g) simp_all

text \<open>
  Parsing and printing are inverse on every grantee but a role literally named \<open>PUBLIC\<close>, which
  manifest validation refuses.
\<close>

lemma grantee_parse_as_str: "g \<noteq> Role PUBLIC_ROLE \<Longrightarrow> grantee_parse (grantee_as_str g) = g"
  by (cases g) (auto simp: grantee_parse_def grantee_as_str_def)

lemma grantee_as_str_parse [simp]: "grantee_as_str (grantee_parse s) = s"
  by (simp add: grantee_parse_def grantee_as_str_def)

lemma grantee_parse_inject [simp]: "grantee_parse s = grantee_parse t \<longleftrightarrow> s = t"
  by (metis grantee_as_str_parse)

end
