(* ===== verification/Manifest.thy ===== *)
theory Manifest
  imports Types
begin

text \<open>
  The policy manifest (\<open>crates/pgroles-core/src/manifest.rs\<close>, \<open>crates/pgroles-core/src/bounds.rs\<close>):
  the types of the YAML file after parsing, the content bounds, the expansion of profiles over
  schemas, and every validation of \<open>expand_manifest\<close> with its error.

  A Rust panic on the way is the value \<open>Panic\<close> of \<open>manifest_error\<close>; every other constructor is the
  variant of \<open>ManifestError\<close> with the same name. YAML parsing is not modelled, so the two variants
  it raises do not occur.
\<close>

section \<open>Errors\<close>

datatype manifest_error =
    DuplicateRole string
  | DuplicateSchema string
  | UndefinedProfile string string
  | InvalidRolePattern string
  | MissingDefaultPrivilegeRole string
  | DuplicateRetirement string
  | RetirementRoleStillDesired string
  | RetirementSelfReassign string
  | PasswordWithoutLogin string
  | InvalidValidUntil string string
  | InvalidConfigParameter string string
  | SetRoleWithoutMembership string string
  | TooManyEntries string nat nat
  | ValueTooLong string string nat nat
  | ReservedPublicName string
  | ConflictingGrantEnsure string string
  | ConflictingWildcardEnsure string string
  | ConflictingDefaultPrivilegeEnsure string string
  | DefaultPrivilegeScopeConflict string
  | DefaultPrivilegeScopeMissing string
  | DefaultPrivilegeScopeSchemaMissing
  | DefaultPrivilegeScopeSchemaForbidden string
  | InvalidDefaultPrivilegeOnType string string
  | ProfileAbsentDefaultPrivilege string
  | ProfileAbsentGrant string
  | DatabaseGrantMissingName
  | PredefinedRoleNotExternal string
  | ExclusiveMembershipOnManagedRole string
  | Panic string

definition is_predefined_role :: "string \<Rightarrow> bool" where
  "is_predefined_role name = starts_with name ''pg_''"


section \<open>Manifest types\<close>

datatype auth_provider =
    CloudSqlIam "string option"
  | AlloyDbIam "string option" "string option"
  | RdsIam "string option"
  | AzureAd "string option"
  | Supabase "string option"
  | PlanetScale "string option"

record profile_object_target =
  pot_object_type :: object_type
  pot_name :: "string option"

record profile_grant =
  pg_privileges :: "privilege list"
  pg_object :: profile_object_target
  pg_ensure :: ensure

record default_privilege_grant =
  dpg_role :: "string option"
  dpg_privileges :: "privilege list"
  dpg_on_type :: object_type
  dpg_ensure :: ensure

record profile =
  p_login :: "bool option"
  p_inherit :: "bool option"
  p_grants :: "profile_grant list"
  p_default_privileges :: "default_privilege_grant list"
  p_config :: "(string, string) btreemap"

record schema_binding =
  sb_name :: string
  sb_profiles :: "string list"
  sb_role_pattern :: "string option"
  sb_owner :: "string option"

datatype schema_binding_facet = FacetOwner | FacetBindings

record role_definition =
  rd_name :: string
  rd_external :: bool
  rd_preserve_undeclared_grants :: bool
  rd_login :: "bool option"
  rd_superuser :: "bool option"
  rd_createdb :: "bool option"
  rd_createrole :: "bool option"
  rd_inherit :: "bool option"
  rd_replication :: "bool option"
  rd_bypassrls :: "bool option"
  rd_connection_limit :: "int option"
  rd_comment :: "string option"
  rd_password :: "string option"
  rd_password_valid_until :: "string option"
  rd_config :: "(string, string) btreemap"

record object_target =
  ot_object_type :: object_type
  ot_schema :: "string option"
  ot_name :: "string option"

record grant =
  g_role :: string
  g_privileges :: "privilege list"
  g_object :: object_target
  g_ensure :: ensure

datatype default_privilege_scope_type = GlobalType | SchemaType

record default_privilege_scope_spec =
  dss_scope_type :: default_privilege_scope_type
  dss_schema :: "string option"

record default_privilege =
  dp_owner :: "string option"
  dp_schema :: "string option"
  dp_scope :: "default_privilege_scope_spec option"
  dp_grant :: "default_privilege_grant list"

record member_spec =
  ms_name :: string
  ms_inherit :: "bool option"
  ms_admin :: "bool option"

record membership =
  m_role :: string
  m_members :: "member_spec list"
  m_exclusive :: bool

record role_retirement =
  rr_role :: string
  rr_reassign_owned_to :: "string option"
  rr_drop_owned :: bool
  rr_terminate_sessions :: bool

record policy_manifest =
  pm_role_pattern :: "string option"
  pm_default_owner :: "string option"
  pm_auth_providers :: "auth_provider list"
  pm_profiles :: "(string, profile) btreemap"
  pm_schemas :: "schema_binding list"
  pm_roles :: "role_definition list"
  pm_grants :: "grant list"
  pm_default_privileges :: "default_privilege list"
  pm_memberships :: "membership list"
  pm_retirements :: "role_retirement list"

record expanded_schema =
  es_name :: string
  es_owner :: "string option"

record expanded_manifest =
  em_schemas :: "expanded_schema list"
  em_roles :: "role_definition list"
  em_grants :: "grant list"
  em_default_privileges :: "default_privilege list"
  em_memberships :: "membership list"

fun unwrap_or :: "'a option \<Rightarrow> 'a \<Rightarrow> 'a" where
  "unwrap_or None d = d"
| "unwrap_or (Some x) d = x"

text \<open>\<open>a.or(b)\<close> on options.\<close>

fun or_option :: "'a option \<Rightarrow> 'a option \<Rightarrow> 'a option" where
  "or_option None b = b"
| "or_option (Some x) b = Some x"

definition member_inherit :: "member_spec \<Rightarrow> bool" where
  "member_inherit m = unwrap_or (ms_inherit m) True"

definition member_admin :: "member_spec \<Rightarrow> bool" where
  "member_admin m = unwrap_or (ms_admin m) False"

definition owner_context :: "default_privilege \<Rightarrow> string" where
  "owner_context dp = unwrap_or (dp_owner dp) ''(default owner)''"

definition resolved_scope :: "default_privilege \<Rightarrow> manifest_error + default_privilege_scope" where
  "resolved_scope dp =
     (case (dp_schema dp, dp_scope dp) of
        (Some _, Some _) \<Rightarrow> Inl (DefaultPrivilegeScopeConflict (owner_context dp))
      | (None, None) \<Rightarrow> Inl (DefaultPrivilegeScopeMissing (owner_context dp))
      | (Some schema, None) \<Rightarrow> Inr (SchemaScope schema)
      | (None, Some spec) \<Rightarrow>
          (case (dss_scope_type spec, dss_schema spec) of
             (GlobalType, None) \<Rightarrow> Inr Global
           | (GlobalType, Some schema) \<Rightarrow> Inl (DefaultPrivilegeScopeSchemaForbidden schema)
           | (SchemaType, Some schema) \<Rightarrow> Inr (SchemaScope schema)
           | (SchemaType, None) \<Rightarrow> Inl DefaultPrivilegeScopeSchemaMissing))"


section \<open>Content bounds\<close>

definition MAX_IDENTIFIER :: nat where "MAX_IDENTIFIER = 63"
definition MAX_OBJECT_NAME :: nat where "MAX_OBJECT_NAME = 256"
definition MAX_CONFIG_VALUE :: nat where "MAX_CONFIG_VALUE = 256"
definition MAX_CONFIG_ENTRIES :: nat where "MAX_CONFIG_ENTRIES = 32"
definition MAX_ROLE_PATTERN :: nat where "MAX_ROLE_PATTERN = 128"
definition MAX_TIMESTAMP :: nat where "MAX_TIMESTAMP = 64"
definition MAX_ROLES :: nat where "MAX_ROLES = 1024"
definition MAX_GRANTS :: nat where "MAX_GRANTS = 4096"
definition MAX_PRIVILEGES :: nat where "MAX_PRIVILEGES = 16"
definition MAX_MEMBERSHIPS :: nat where "MAX_MEMBERSHIPS = 2048"
definition MAX_MEMBERS :: nat where "MAX_MEMBERS = 512"
definition MAX_DEFAULT_PRIVILEGES :: nat where "MAX_DEFAULT_PRIVILEGES = 512"
definition MAX_DEFAULT_PRIVILEGE_GRANTS :: nat where "MAX_DEFAULT_PRIVILEGE_GRANTS = 64"
definition MAX_PROFILES :: nat where "MAX_PROFILES = 128"
definition MAX_PROFILE_GRANTS :: nat where "MAX_PROFILE_GRANTS = 64"
definition MAX_PROFILE_DEFAULT_PRIVILEGES :: nat where "MAX_PROFILE_DEFAULT_PRIVILEGES = 32"
definition MAX_SCHEMAS :: nat where "MAX_SCHEMAS = 1024"
definition MAX_SCHEMA_PROFILES :: nat where "MAX_SCHEMA_PROFILES = 64"
definition MAX_RETIREMENTS :: nat where "MAX_RETIREMENTS = 512"

lemmas max_defs = MAX_IDENTIFIER_def MAX_OBJECT_NAME_def MAX_CONFIG_VALUE_def MAX_CONFIG_ENTRIES_def
  MAX_ROLE_PATTERN_def MAX_TIMESTAMP_def MAX_ROLES_def MAX_GRANTS_def MAX_PRIVILEGES_def
  MAX_MEMBERSHIPS_def MAX_MEMBERS_def MAX_DEFAULT_PRIVILEGES_def MAX_DEFAULT_PRIVILEGE_GRANTS_def
  MAX_PROFILES_def MAX_PROFILE_GRANTS_def MAX_PROFILE_DEFAULT_PRIVILEGES_def MAX_SCHEMAS_def
  MAX_SCHEMA_PROFILES_def MAX_RETIREMENTS_def

definition validate_role_pattern :: "string \<Rightarrow> manifest_error + unit" where
  "validate_role_pattern pattern =
     sequence_r
       [ensure_r (chars_count pattern \<le> MAX_ROLE_PATTERN)
          (ValueTooLong ''role_pattern'' pattern (chars_count pattern) MAX_ROLE_PATTERN),
        ensure_r (contains_str pattern ''{profile}'') (InvalidRolePattern pattern)]"

definition DEFAULT_ROLE_PATTERN :: string where
  "DEFAULT_ROLE_PATTERN = ''{schema}-{profile}''"

definition substitute_placeholders :: "string \<Rightarrow> string \<Rightarrow> string \<Rightarrow> string" where
  "substitute_placeholders value schema profile =
     replace_str (replace_str value ''{schema}'' schema) ''{profile}'' profile"

text \<open>The local functions \<open>entries\<close>, \<open>text\<close> and \<open>config\<close> of \<open>validate_bounds\<close>.\<close>

definition bounds_entries :: "string \<Rightarrow> nat \<Rightarrow> nat \<Rightarrow> manifest_error + unit" where
  "bounds_entries collection actual limit =
     ensure_r (actual \<le> limit) (TooManyEntries collection actual limit)"

definition bounds_text :: "string \<Rightarrow> string \<Rightarrow> nat \<Rightarrow> manifest_error + unit" where
  "bounds_text ctxt value limit =
     sequence_r
       [ensure_r (chars_count value \<le> limit) (ValueTooLong ctxt value (chars_count value) limit),
        ensure_r (\<not> (limit = MAX_IDENTIFIER \<and> length value > limit))
          (ValueTooLong (ctxt @ '' (bytes; PostgreSQL identifiers are limited to 63 bytes)'')
             value (length value) limit)]"

definition bounds_config :: "string \<Rightarrow> (string, string) btreemap \<Rightarrow> manifest_error + unit" where
  "bounds_config ctxt config =
     sequence_r
       [bounds_entries (ctxt @ ''.config'') (length (bt_keys config)) MAX_CONFIG_ENTRIES,
        for_each (\<lambda>(key, value). sequence_r
            [bounds_text (ctxt @ ''.config key'') key MAX_IDENTIFIER,
             bounds_text (ctxt @ ''.config['' @ key @ '']'') value MAX_CONFIG_VALUE])
          (bt_entries config)]"

definition bounds_profile :: "string \<Rightarrow> profile \<Rightarrow> manifest_error + unit" where
  "bounds_profile name profile =
     sequence_r
       [bounds_text ''profile name'' name MAX_IDENTIFIER,
        bounds_entries (''profiles.'' @ name @ ''.grants'') (length (p_grants profile)) MAX_PROFILE_GRANTS,
        for_each (\<lambda>grant. sequence_r
            [bounds_entries (''profiles.'' @ name @ ''.grants[].privileges'')
               (length (pg_privileges grant)) MAX_PRIVILEGES,
             when_some (pot_name (pg_object grant))
               (\<lambda>object_name. bounds_text ''grant object name'' object_name MAX_OBJECT_NAME)])
          (p_grants profile),
        bounds_entries (''profiles.'' @ name @ ''.default_privileges'')
          (length (p_default_privileges profile)) MAX_PROFILE_DEFAULT_PRIVILEGES,
        for_each (\<lambda>grant. sequence_r
            [bounds_entries (''profiles.'' @ name @ ''.default_privileges[].privileges'')
               (length (dpg_privileges grant)) MAX_PRIVILEGES,
             when_some (dpg_role grant)
               (\<lambda>role. bounds_text ''default privilege role'' role MAX_IDENTIFIER)])
          (p_default_privileges profile),
        bounds_config (''profiles.'' @ name) (p_config profile)]"

definition bounds_schema_binding :: "schema_binding \<Rightarrow> manifest_error + unit" where
  "bounds_schema_binding binding =
     sequence_r
       [bounds_text ''schema name'' (sb_name binding) MAX_IDENTIFIER,
        bounds_entries (''schemas.'' @ sb_name binding @ ''.profiles'')
          (length (sb_profiles binding)) MAX_SCHEMA_PROFILES,
        for_each (\<lambda>profile. bounds_text ''profile reference'' profile MAX_IDENTIFIER) (sb_profiles binding),
        when_some (sb_role_pattern binding) validate_role_pattern,
        when_some (sb_owner binding) (\<lambda>owner. bounds_text ''schema owner'' owner MAX_IDENTIFIER)]"

definition bounds_role :: "role_definition \<Rightarrow> manifest_error + unit" where
  "bounds_role role =
     sequence_r
       [bounds_text ''role name'' (rd_name role) MAX_IDENTIFIER,
        when_some (rd_comment role)
          (\<lambda>comment. bounds_text (''roles.'' @ rd_name role @ ''.comment'') comment MAX_OBJECT_NAME),
        when_some (rd_password_valid_until role)
          (\<lambda>valid_until. bounds_text (''roles.'' @ rd_name role @ ''.password_valid_until'')
             valid_until MAX_TIMESTAMP),
        bounds_config (''roles.'' @ rd_name role) (rd_config role)]"

definition bounds_grant :: "grant \<Rightarrow> manifest_error + unit" where
  "bounds_grant grant =
     sequence_r
       [bounds_text ''grant role'' (g_role grant) MAX_IDENTIFIER,
        bounds_entries ''grants[].privileges'' (length (g_privileges grant)) MAX_PRIVILEGES,
        when_some (ot_schema (g_object grant))
          (\<lambda>schema. bounds_text ''grant object schema'' schema MAX_IDENTIFIER),
        when_some (ot_name (g_object grant))
          (\<lambda>name. bounds_text ''grant object name'' name MAX_OBJECT_NAME)]"

definition bounds_default_privilege :: "default_privilege \<Rightarrow> manifest_error + unit" where
  "bounds_default_privilege dp =
     sequence_r
       [when_some (dp_schema dp) (\<lambda>schema. bounds_text ''default privilege schema'' schema MAX_IDENTIFIER),
        when_some (Option.bind (dp_scope dp) dss_schema)
          (\<lambda>schema. bounds_text ''default privilege scope schema'' schema MAX_IDENTIFIER),
        when_some (dp_owner dp) (\<lambda>owner. bounds_text ''default privilege owner'' owner MAX_IDENTIFIER),
        bounds_entries ''default_privileges[].grant'' (length (dp_grant dp)) MAX_DEFAULT_PRIVILEGE_GRANTS,
        for_each (\<lambda>grant. sequence_r
            [bounds_entries ''default_privileges[].grant[].privileges''
               (length (dpg_privileges grant)) MAX_PRIVILEGES,
             when_some (dpg_role grant)
               (\<lambda>role. bounds_text ''default privilege role'' role MAX_IDENTIFIER)])
          (dp_grant dp)]"

definition bounds_membership :: "membership \<Rightarrow> manifest_error + unit" where
  "bounds_membership membership =
     sequence_r
       [bounds_text ''membership role'' (m_role membership) MAX_IDENTIFIER,
        bounds_entries (''memberships.'' @ m_role membership @ ''.members'')
          (length (m_members membership)) MAX_MEMBERS,
        for_each (\<lambda>member. bounds_text ''member name'' (ms_name member) MAX_IDENTIFIER)
          (m_members membership)]"

definition bounds_retirement :: "role_retirement \<Rightarrow> manifest_error + unit" where
  "bounds_retirement retirement =
     sequence_r
       [bounds_text ''retirement role'' (rr_role retirement) MAX_IDENTIFIER,
        when_some (rr_reassign_owned_to retirement)
          (\<lambda>successor. bounds_text ''reassign_owned_to'' successor MAX_IDENTIFIER)]"

definition validate_bounds :: "policy_manifest \<Rightarrow> manifest_error + unit" where
  "validate_bounds manifest =
     sequence_r
       [bounds_entries ''profiles'' (length (bt_keys (pm_profiles manifest))) MAX_PROFILES,
        for_each (\<lambda>(name, profile). bounds_profile name profile) (bt_entries (pm_profiles manifest)),
        bounds_entries ''schemas'' (length (pm_schemas manifest)) MAX_SCHEMAS,
        for_each bounds_schema_binding (pm_schemas manifest),
        when_some (pm_role_pattern manifest) validate_role_pattern,
        when_some (pm_default_owner manifest) (\<lambda>owner. bounds_text ''default_owner'' owner MAX_IDENTIFIER),
        bounds_entries ''roles'' (length (pm_roles manifest)) MAX_ROLES,
        for_each bounds_role (pm_roles manifest),
        bounds_entries ''grants'' (length (pm_grants manifest)) MAX_GRANTS,
        for_each bounds_grant (pm_grants manifest),
        bounds_entries ''default_privileges'' (length (pm_default_privileges manifest)) MAX_DEFAULT_PRIVILEGES,
        for_each bounds_default_privilege (pm_default_privileges manifest),
        bounds_entries ''memberships'' (length (pm_memberships manifest)) MAX_MEMBERSHIPS,
        for_each bounds_membership (pm_memberships manifest),
        bounds_entries ''retirements'' (length (pm_retirements manifest)) MAX_RETIREMENTS,
        for_each bounds_retirement (pm_retirements manifest)]"

end
