(* ===== verification/Expand.thy ===== *)
theory Expand
  imports Manifest
begin

text \<open>
  Expansion of a manifest (\<open>expand_manifest\<close> of \<open>crates/pgroles-core/src/manifest.rs\<close>) with its
  validation helpers, in the order the source runs them, followed by what a successful expansion
  guarantees: distinct and bounded role names, no use of the reserved name \<open>PUBLIC\<close>, resolvable
  default-privilege scopes, and no privilege asserted both present and absent.
\<close>

section \<open>Names and timestamps\<close>

definition valid_segment :: "string \<Rightarrow> bool" where
  "valid_segment segment =
     (case segment of
        [] \<Rightarrow> False
      | c # cs \<Rightarrow> (is_ascii_alphabetic c \<or> c = CHR ''_'') \<and>
          list_all (\<lambda>c. is_ascii_alphanumeric c \<or> c = CHR ''_'') cs)"

definition is_valid_config_parameter_name :: "string \<Rightarrow> bool" where
  "is_valid_config_parameter_name name = (name \<noteq> [] \<and> list_all valid_segment (split_on (CHR ''.'') name))"

text \<open>\<open>&value[a..b]\<close>: a byte index inside a character panics.\<close>

definition is_char_boundary :: "string \<Rightarrow> nat \<Rightarrow> bool" where
  "is_char_boundary s i = (i = 0 \<or> i = length s \<or> (i < length s \<and> \<not> is_continuation (s ! i)))"

definition slice :: "string \<Rightarrow> nat \<Rightarrow> nat \<Rightarrow> string option" where
  "slice s a b = (if is_char_boundary s a \<and> is_char_boundary s b \<and> a \<le> b then Some (take (b - a) (drop a s)) else None)"

text \<open>\<open>str::parse\<close> for an unsigned type: an optional plus sign, then at least one digit, no overflow.\<close>

definition parse_digits :: "string \<Rightarrow> nat" where
  "parse_digits ds = foldl (\<lambda>n c. 10 * n + (of_char c - 48)) 0 ds"

definition parse_unsigned :: "nat \<Rightarrow> string \<Rightarrow> nat option" where
  "parse_unsigned max_value s =
     (let ds = (case s of [] \<Rightarrow> [] | c # cs \<Rightarrow> if c = CHR ''+'' then cs else s) in
      if ds = [] \<or> \<not> list_all is_ascii_digit ds then None
      else if parse_digits ds \<le> max_value then Some (parse_digits ds) else None)"

text \<open>\<open>None\<close> is a panic; \<open>Some b\<close> is the returned Boolean.\<close>

definition check_time_part :: "string \<Rightarrow> bool option" where
  "check_time_part value =
     (if value ! 13 \<noteq> CHR '':'' \<or> value ! 16 \<noteq> CHR '':'' then Some False
      else (case (slice value 11 13, slice value 14 16, slice value 17 19) of
        (Some hour, Some minute, Some second) \<Rightarrow>
          (case (parse_unsigned 255 hour, parse_unsigned 255 minute, parse_unsigned 255 second) of
             (Some h, Some mi, Some sec) \<Rightarrow>
               if h > 23 \<or> mi > 59 \<or> sec > 59 then Some False
               else map_option (\<lambda>tz. tz = ''Z'') (slice value 19 20)
           | _ \<Rightarrow> Some False)
      | _ \<Rightarrow> None))"

definition is_valid_iso8601_timestamp :: "string \<Rightarrow> bool option" where
  "is_valid_iso8601_timestamp value =
     (if length value \<noteq> 20 then Some False
      else if value ! 4 \<noteq> CHR ''-'' \<or> value ! 7 \<noteq> CHR ''-'' \<or> value ! 10 \<noteq> CHR ''T'' then Some False
      else (case (slice value 0 4, slice value 5 7, slice value 8 10) of
        (Some year, Some month, Some day) \<Rightarrow>
          (case (parse_unsigned 65535 year, parse_unsigned 255 month, parse_unsigned 255 day) of
             (Some y, Some m, Some d) \<Rightarrow>
               if y < 1970 \<or> m < 1 \<or> m > 12 \<or> d < 1 \<or> d > 31 then Some False
               else check_time_part value
           | _ \<Rightarrow> Some False)
      | _ \<Rightarrow> None))"


section \<open>Validation helpers\<close>

text \<open>A loop with a \<open>HashSet\<close> of the names seen so far.\<close>

fun no_repeats :: "(string \<Rightarrow> 'e) \<Rightarrow> string set \<Rightarrow> string list \<Rightarrow> 'e + unit" where
  "no_repeats err seen [] = Inr ()"
| "no_repeats err seen (x # xs) =
     (if x \<in> seen then Inl (err x) else no_repeats err (insert x seen) xs)"

definition check_predefined_roles :: "role_definition list \<Rightarrow> manifest_error + unit" where
  "check_predefined_roles roles =
     for_each (\<lambda>role. ensure_r (\<not> (is_predefined_role (rd_name role) \<and> \<not> rd_external role))
                 (PredefinedRoleNotExternal (rd_name role))) roles"

definition check_exclusive_memberships :: "role_definition list \<Rightarrow> membership list \<Rightarrow> manifest_error + unit" where
  "check_exclusive_memberships roles memberships =
     (let external_names = set (map rd_name (filter rd_external roles)) in
      for_each (\<lambda>membership. ensure_r
          (\<not> (m_exclusive membership \<and> \<not> is_predefined_role (m_role membership)
              \<and> m_role membership \<notin> external_names))
          (ExclusiveMembershipOnManagedRole (m_role membership))) memberships)"

definition reserved :: "string option \<Rightarrow> string \<Rightarrow> manifest_error + unit" where
  "reserved value ctxt = ensure_r (value \<noteq> Some ''PUBLIC'') (ReservedPublicName ctxt)"

definition validate_public_reservation ::
  "policy_manifest \<Rightarrow> role_definition list \<Rightarrow> expanded_schema list \<Rightarrow> default_privilege list \<Rightarrow>
   membership list \<Rightarrow> manifest_error + unit" where
  "validate_public_reservation manifest roles schemas default_privileges memberships =
     sequence_r
       [reserved (pm_default_owner manifest) ''default_owner'',
        for_each (\<lambda>role. reserved (Some (rd_name role)) ''a role name'') roles,
        for_each (\<lambda>schema. reserved (es_owner schema) ''a schema owner'') schemas,
        for_each (\<lambda>dp. reserved (dp_owner dp) ''a default privilege owner'') default_privileges,
        for_each (\<lambda>membership. sequence_r
            [reserved (Some (m_role membership)) ''a membership role'',
             for_each (\<lambda>member. reserved (Some (ms_name member)) ''a membership member'') (m_members membership)])
          memberships,
        for_each (\<lambda>retirement. sequence_r
            [reserved (Some (rr_role retirement)) ''a retirement role'',
             reserved (rr_reassign_owned_to retirement) ''a retirement ownership target''])
          (pm_retirements manifest)]"

definition validate_database_grant_targets :: "grant list \<Rightarrow> manifest_error + unit" where
  "validate_database_grant_targets grants =
     ensure_r (\<not> list_ex (\<lambda>grant. ot_object_type (g_object grant) = Database \<and> ot_name (g_object grant) = None) grants)
       DatabaseGrantMissingName"

fun allowed_on_type :: "default_privilege_scope \<Rightarrow> object_type \<Rightarrow> bool" where
  "allowed_on_type scope Database = False"
| "allowed_on_type scope View = False"
| "allowed_on_type scope MaterializedView = False"
| "allowed_on_type (SchemaScope schema) Schema = False"
| "allowed_on_type scope on_type = True"

definition validate_default_privilege_scopes :: "default_privilege list \<Rightarrow> manifest_error + unit" where
  "validate_default_privilege_scopes default_privileges =
     for_each (\<lambda>dp. bind_r (resolved_scope dp) (\<lambda>scope.
         for_each (\<lambda>grant. ensure_r (allowed_on_type scope (dpg_on_type grant))
             (InvalidDefaultPrivilegeOnType (show_object_type (dpg_on_type grant)) (show_scope scope)))
           (dp_grant dp)))
       default_privileges"

definition describe_object_target :: "object_target \<Rightarrow> string" where
  "describe_object_target target =
     (case (ot_schema target, ot_name target) of
        (Some schema, Some name) \<Rightarrow>
          show_object_type (ot_object_type target) @ '' '' @ dq schema @ ''.'' @ dq name
      | (Some schema, None) \<Rightarrow> show_object_type (ot_object_type target) @ '' in schema '' @ dq schema
      | (None, Some name) \<Rightarrow> show_object_type (ot_object_type target) @ '' '' @ dq name
      | (None, None) \<Rightarrow> show_object_type (ot_object_type target))"

type_synonym grant_assertion_key = "string \<times> object_type \<times> string option \<times> string option \<times> privilege"
type_synonym selector_key = "string \<times> object_type \<times> string \<times> privilege"

text \<open>The four flags of one selector: wildcard present, wildcard absent, named present, named absent.\<close>

record selector_flags =
  wild_present :: bool
  wild_absent :: bool
  named_present :: bool
  named_absent :: bool

definition no_flags :: selector_flags where
  "no_flags = \<lparr>wild_present = False, wild_absent = False, named_present = False, named_absent = False\<rparr>"

definition set_flag :: "bool \<Rightarrow> ensure \<Rightarrow> selector_flags \<Rightarrow> selector_flags" where
  "set_flag wildcard ens flags =
     (case (wildcard, ens) of
        (True, Present) \<Rightarrow> flags\<lparr>wild_present := True\<rparr>
      | (True, Absent) \<Rightarrow> flags\<lparr>wild_absent := True\<rparr>
      | (False, Present) \<Rightarrow> flags\<lparr>named_present := True\<rparr>
      | (False, Absent) \<Rightarrow> flags\<lparr>named_absent := True\<rparr>)"

definition grant_assertion_key :: "grant \<Rightarrow> privilege \<Rightarrow> grant_assertion_key" where
  "grant_assertion_key grant privilege =
     (g_role grant, ot_object_type (g_object grant), ot_schema (g_object grant),
      ot_name (g_object grant), privilege)"

type_synonym ensure_state =
  "(grant_assertion_key, ensure) btreemap \<times> (selector_key, selector_flags) btreemap"

definition check_grant_assertion :: "grant \<times> privilege \<Rightarrow> ensure_state \<Rightarrow> manifest_error + ensure_state" where
  "check_grant_assertion = (\<lambda>(grant, privilege) (assertions, selectors).
     let key = grant_assertion_key grant privilege;
         assertions' = fmupd key (g_ensure grant) assertions in
     bind_r (ensure_r (fmlookup assertions key \<in> {None, Some (g_ensure grant)})
              (ConflictingGrantEnsure
                 (''for '' @ dq (g_role grant) @ '' on '' @ describe_object_target (g_object grant))
                 (show_privilege privilege)))
       (\<lambda>_. case (ot_schema (g_object grant), ot_name (g_object grant)) of
          (Some schema, Some name) \<Rightarrow>
            let selector = (g_role grant, ot_object_type (g_object grant), schema, privilege);
                flags = set_flag (name = ''*'') (g_ensure grant)
                          (case fmlookup selectors selector of None \<Rightarrow> no_flags | Some f \<Rightarrow> f) in
            bind_r (ensure_r (\<not> (wild_present flags \<and> named_absent flags \<or> wild_absent flags \<and> named_present flags))
                     (ConflictingWildcardEnsure
                        (''for '' @ dq (g_role grant) @ '' on '' @ show_object_type (ot_object_type (g_object grant))
                           @ '' in schema '' @ dq schema)
                        (show_privilege privilege)))
              (\<lambda>_. Inr (assertions', fmupd selector flags selectors))
        | _ \<Rightarrow> Inr (assertions', selectors)))"

type_synonym default_assertion_key =
  "string \<times> default_privilege_scope \<times> string \<times> object_type \<times> privilege"
type_synonym default_state = "(default_assertion_key, ensure) btreemap"

definition check_default_assertion ::
  "string \<Rightarrow> default_privilege_scope \<Rightarrow> default_privilege_grant \<times> privilege \<Rightarrow> default_state \<Rightarrow>
   manifest_error + default_state" where
  "check_default_assertion owner scope = (\<lambda>(grant, privilege) assertions.
     case dpg_role grant of
       None \<Rightarrow> Inr assertions
     | Some grantee \<Rightarrow>
         let key = (owner, scope, grantee, dpg_on_type grant, privilege) in
         bind_r (ensure_r (fmlookup assertions key \<in> {None, Some (dpg_ensure grant)})
                  (ConflictingDefaultPrivilegeEnsure
                     (''for owner '' @ dq owner @ '' ('' @ show_scope scope @ '', ''
                        @ show_object_type (dpg_on_type grant) @ '' to '' @ dq grantee @ '')'')
                     (show_privilege privilege)))
           (\<lambda>_. Inr (fmupd key (dpg_ensure grant) assertions)))"

text \<open>The two nested loops over the privileges of the grants.\<close>

definition grant_assertions :: "grant list \<Rightarrow> (grant \<times> privilege) list" where
  "grant_assertions grants = [(g, p). g \<leftarrow> grants, p \<leftarrow> g_privileges g]"

definition default_assertions :: "default_privilege_grant list \<Rightarrow> (default_privilege_grant \<times> privilege) list" where
  "default_assertions grants = [(g, p). g \<leftarrow> grants, p \<leftarrow> dpg_privileges g]"

definition default_priv_owner :: "string option \<Rightarrow> default_privilege \<Rightarrow> string" where
  "default_priv_owner default_owner dp = unwrap_or (or_option (dp_owner dp) default_owner) ''postgres''"

definition validate_ensure_conflicts ::
  "string option \<Rightarrow> grant list \<Rightarrow> default_privilege list \<Rightarrow> manifest_error + unit" where
  "validate_ensure_conflicts default_owner grants default_privileges =
     bind_r (fold_r check_grant_assertion (grant_assertions grants) (fmempty, fmempty)) (\<lambda>_.
     bind_r (fold_r (\<lambda>dp assertions. bind_r (resolved_scope dp) (\<lambda>scope.
                fold_r (check_default_assertion (default_priv_owner default_owner dp) scope)
                  (default_assertions (dp_grant dp)) assertions))
              default_privileges fmempty) (\<lambda>_. Inr ()))"

definition check_retirement :: "string set \<Rightarrow> role_retirement \<Rightarrow> string set \<Rightarrow> manifest_error + string set" where
  "check_retirement desired_role_names retirement seen =
     bind_r (sequence_r
         [ensure_r (rr_role retirement \<notin> seen) (DuplicateRetirement (rr_role retirement)),
          ensure_r (rr_role retirement \<notin> desired_role_names) (RetirementRoleStillDesired (rr_role retirement)),
          ensure_r (rr_reassign_owned_to retirement \<noteq> Some (rr_role retirement))
            (RetirementSelfReassign (rr_role retirement))])
       (\<lambda>_. Inr (insert (rr_role retirement) seen))"

definition check_passwords :: "role_definition list \<Rightarrow> manifest_error + unit" where
  "check_passwords roles =
     for_each (\<lambda>role. ensure_r (\<not> (rd_password role \<noteq> None \<and> rd_login role \<noteq> Some True))
                 (PasswordWithoutLogin (rd_name role))) roles"

definition check_role_valid_until :: "role_definition \<Rightarrow> manifest_error + unit" where
  "check_role_valid_until role =
     (case rd_password_valid_until role of
        None \<Rightarrow> Inr ()
      | Some value \<Rightarrow>
          (case is_valid_iso8601_timestamp value of
             None \<Rightarrow> Inl (Panic ''byte index is not a char boundary'')
           | Some valid \<Rightarrow> ensure_r valid (InvalidValidUntil (rd_name role) value)))"

definition check_valid_until :: "role_definition list \<Rightarrow> manifest_error + unit" where
  "check_valid_until roles = for_each check_role_valid_until roles"

definition membership_declared :: "membership list \<Rightarrow> string \<Rightarrow> string \<Rightarrow> bool" where
  "membership_declared memberships target member_name =
     list_ex (\<lambda>membership. m_role membership = target \<and>
        list_ex (\<lambda>member. ms_name member = member_name) (m_members membership)) memberships"

definition check_config :: "string set \<Rightarrow> membership list \<Rightarrow> role_definition list \<Rightarrow> manifest_error + unit" where
  "check_config desired_role_names memberships roles =
     for_each (\<lambda>role. for_each (\<lambda>(parameter, target). sequence_r
         [ensure_r (is_valid_config_parameter_name parameter)
            (InvalidConfigParameter (rd_name role) parameter),
          ensure_r (\<not> (eq_ignore_ascii_case parameter ''role'' \<and> target \<in> desired_role_names
                       \<and> \<not> membership_declared memberships target (rd_name role)))
            (SetRoleWithoutMembership (rd_name role) target)])
       (bt_entries (rd_config role))) roles"


section \<open>Expansion\<close>

definition expand_profile_grant :: "schema_binding \<Rightarrow> string \<Rightarrow> string \<Rightarrow> profile_grant \<Rightarrow> manifest_error + grant" where
  "expand_profile_grant binding profile_name role_name pg =
     bind_r (ensure_r (pg_ensure pg \<noteq> Absent) (ProfileAbsentGrant profile_name)) (\<lambda>_.
       Inr \<lparr>g_role = role_name, g_privileges = pg_privileges pg,
            g_object =
              (if pot_object_type (pg_object pg) = Schema
               then \<lparr>ot_object_type = Schema, ot_schema = None, ot_name = Some (sb_name binding)\<rparr>
               else \<lparr>ot_object_type = pot_object_type (pg_object pg), ot_schema = Some (sb_name binding),
                     ot_name = pot_name (pg_object pg)\<rparr>),
            g_ensure = Present\<rparr>)"

definition expand_profile_default :: "string \<Rightarrow> string \<Rightarrow> default_privilege_grant \<Rightarrow> manifest_error + default_privilege_grant" where
  "expand_profile_default profile_name role_name dpg =
     bind_r (ensure_r (dpg_ensure dpg \<noteq> Absent) (ProfileAbsentDefaultPrivilege profile_name)) (\<lambda>_.
       Inr \<lparr>dpg_role = Some role_name, dpg_privileges = dpg_privileges dpg,
            dpg_on_type = dpg_on_type dpg, dpg_ensure = Present\<rparr>)"

definition role_pattern_of :: "policy_manifest \<Rightarrow> schema_binding \<Rightarrow> string" where
  "role_pattern_of manifest binding =
     unwrap_or (or_option (sb_role_pattern binding) (pm_role_pattern manifest)) DEFAULT_ROLE_PATTERN"

definition expanded_role :: "schema_binding \<Rightarrow> string \<Rightarrow> profile \<Rightarrow> string \<Rightarrow> role_definition" where
  "expanded_role binding profile_name profile role_name =
     \<lparr>rd_name = role_name, rd_external = False, rd_preserve_undeclared_grants = False,
      rd_login = p_login profile, rd_superuser = None, rd_createdb = None, rd_createrole = None,
      rd_inherit = p_inherit profile, rd_replication = None, rd_bypassrls = None,
      rd_connection_limit = None,
      rd_comment = Some (''Generated from profile '' @ [SQ] @ profile_name @ [SQ] @ '' for schema ''
                           @ [SQ] @ sb_name binding @ [SQ]),
      rd_password = None, rd_password_valid_until = None,
      rd_config = fmmap (\<lambda>value. substitute_placeholders value (sb_name binding) profile_name) (p_config profile)\<rparr>"

definition expand_binding ::
  "policy_manifest \<Rightarrow> schema_binding \<Rightarrow> string \<Rightarrow>
   manifest_error + (role_definition \<times> grant list \<times> default_privilege list)" where
  "expand_binding manifest binding profile_name =
     (case fmlookup (pm_profiles manifest) profile_name of
        None \<Rightarrow> Inl (UndefinedProfile profile_name (sb_name binding))
      | Some profile \<Rightarrow>
          let pattern = role_pattern_of manifest binding;
              role_name = replace_str (replace_str pattern ''{schema}'' (sb_name binding)) ''{profile}'' profile_name in
          bind_r (ensure_r (length role_name \<le> 63)
                   (ValueTooLong
                      (''role name expanded from role_pattern '' @ dq pattern @ '' for schema ''
                         @ dq (sb_name binding) @ '' (bytes; PostgreSQL identifiers are limited to 63 bytes)'')
                      role_name (length role_name) 63)) (\<lambda>_.
          bind_r (map_r (expand_profile_grant binding profile_name role_name) (p_grants profile)) (\<lambda>grants.
          bind_r (if p_default_privileges profile = [] then Inr []
                  else bind_r (map_r (expand_profile_default profile_name role_name) (p_default_privileges profile))
                    (\<lambda>expanded_grants. Inr
                       [\<lparr>dp_owner = or_option (sb_owner binding) (pm_default_owner manifest),
                         dp_schema = Some (sb_name binding), dp_scope = None, dp_grant = expanded_grants\<rparr>]))
            (\<lambda>default_privileges.
               Inr (expanded_role binding profile_name profile role_name, grants, default_privileges)))))"

definition check_default_privilege_roles :: "default_privilege list \<Rightarrow> manifest_error + unit" where
  "check_default_privilege_roles default_privileges =
     for_each (\<lambda>dp. for_each (\<lambda>grant.
         if dpg_role grant = None
         then bind_r (resolved_scope dp) (\<lambda>scope. Inl (MissingDefaultPrivilegeRole (show_scope scope)))
         else Inr ()) (dp_grant dp)) default_privileges"

definition expand_schema :: "policy_manifest \<Rightarrow> schema_binding \<Rightarrow> expanded_schema" where
  "expand_schema manifest binding =
     \<lparr>es_name = sb_name binding, es_owner = or_option (sb_owner binding) (pm_default_owner manifest)\<rparr>"

definition normalize_owner :: "policy_manifest \<Rightarrow> default_privilege \<Rightarrow> default_privilege" where
  "normalize_owner manifest dp = (if dp_owner dp = None then dp\<lparr>dp_owner := pm_default_owner manifest\<rparr> else dp)"

definition binding_pairs :: "policy_manifest \<Rightarrow> (schema_binding \<times> string) list" where
  "binding_pairs manifest = [(binding, profile_name). binding \<leftarrow> pm_schemas manifest, profile_name \<leftarrow> sb_profiles binding]"

definition assemble_expansion ::
  "policy_manifest \<Rightarrow> (role_definition \<times> grant list \<times> default_privilege list) list \<Rightarrow> expanded_manifest" where
  "assemble_expansion manifest expansions =
     \<lparr>em_schemas = map (expand_schema manifest) (pm_schemas manifest),
      em_roles = map fst expansions @ pm_roles manifest,
      em_grants = concat (map (fst \<circ> snd) expansions) @ pm_grants manifest,
      em_default_privileges = map (normalize_owner manifest)
        (concat (map (snd \<circ> snd) expansions) @ pm_default_privileges manifest),
      em_memberships = pm_memberships manifest\<rparr>"

definition validate_expansion :: "policy_manifest \<Rightarrow> expanded_manifest \<Rightarrow> manifest_error + unit" where
  "validate_expansion manifest e =
     (let role_names = map rd_name (em_roles e) in
      sequence_r
       [validate_public_reservation manifest (em_roles e) (em_schemas e) (em_default_privileges e) (em_memberships e),
        validate_database_grant_targets (em_grants e),
        validate_default_privilege_scopes (em_default_privileges e),
        validate_ensure_conflicts (pm_default_owner manifest) (em_grants e) (em_default_privileges e),
        no_repeats DuplicateRole {} role_names,
        bind_r (fold_r (check_retirement (set role_names)) (pm_retirements manifest) {}) (\<lambda>_. Inr ()),
        check_passwords (em_roles e),
        check_valid_until (em_roles e),
        check_config (set role_names) (em_memberships e) (em_roles e)])"

definition expand_manifest :: "policy_manifest \<Rightarrow> manifest_error + expanded_manifest" where
  "expand_manifest manifest =
     bind_r (sequence_r
         [validate_bounds manifest,
          check_predefined_roles (pm_roles manifest),
          check_exclusive_memberships (pm_roles manifest) (pm_memberships manifest),
          no_repeats DuplicateSchema {} (map sb_name (pm_schemas manifest))]) (\<lambda>_.
     bind_r (map_r (\<lambda>(binding, profile_name). expand_binding manifest binding profile_name)
              (binding_pairs manifest)) (\<lambda>expansions.
     bind_r (check_default_privilege_roles (pm_default_privileges manifest)) (\<lambda>_.
     let e = assemble_expansion manifest expansions in
     bind_r (validate_expansion manifest e) (\<lambda>_. Inr e))))"


section \<open>What a successful expansion guarantees\<close>

lemma no_repeats_Inr_iff [simp, result_simps]:
  "no_repeats err seen xs = Inr u \<longleftrightarrow> distinct xs \<and> set xs \<inter> seen = {}"
  by (induction xs arbitrary: seen) auto

lemma reserved_Inr_iff [simp, result_simps]: "reserved v c = Inr u \<longleftrightarrow> v \<noteq> Some ''PUBLIC''"
  by (simp add: reserved_def)

lemma bounds_entries_Inr_iff [simp, result_simps]: "bounds_entries c n l = Inr u \<longleftrightarrow> n \<le> l"
  by (simp add: bounds_entries_def)

lemma bounds_text_Inr_iff [simp, result_simps]:
  "bounds_text c v l = Inr u \<longleftrightarrow> chars_count v \<le> l \<and> (l = MAX_IDENTIFIER \<longrightarrow> length v \<le> l)"
  by (auto simp: bounds_text_def)

lemma bounds_identifier_Inr_iff [simp]: "bounds_text c v MAX_IDENTIFIER = Inr u \<longleftrightarrow> length v \<le> 63"
  using chars_count_le[of v] by (auto simp: MAX_IDENTIFIER_def)

text \<open>The phases of a successful run.\<close>

lemma expand_manifest_InrD:
  assumes "expand_manifest m = Inr e"
  shows "validate_bounds m = Inr ()"
    "check_predefined_roles (pm_roles m) = Inr ()"
    "check_exclusive_memberships (pm_roles m) (pm_memberships m) = Inr ()"
    "distinct (map sb_name (pm_schemas m))"
    "check_default_privilege_roles (pm_default_privileges m) = Inr ()"
    "validate_expansion m e = Inr ()"
    "\<exists>xs. map_r (\<lambda>(b, p). expand_binding m b p) (binding_pairs m) = Inr xs \<and> e = assemble_expansion m xs"
  using assms by (auto simp: expand_manifest_def Let_def)

lemma expand_binding_InrD:
  assumes "expand_binding m b p = Inr (r, gs, dps)"
  shows "length (rd_name r) \<le> 63" "rd_external r = False" "rd_preserve_undeclared_grants r = False"
    "\<forall>g\<in>set gs. g_ensure g = Present \<and> g_role g = rd_name r"
    "\<forall>dp\<in>set dps. dp_schema dp = Some (sb_name b) \<and> dp_scope dp = None \<and>
       (\<forall>g\<in>set (dp_grant dp). dpg_role g = Some (rd_name r) \<and> dpg_ensure g = Present)"
proof -
  obtain pr where pr: "length (rd_name r) \<le> 63" "r = expanded_role b p pr (rd_name r)"
    and gs: "map_r (expand_profile_grant b p (rd_name r)) (p_grants pr) = Inr gs"
    and dps: "\<forall>dp\<in>set dps. dp_schema dp = Some (sb_name b) \<and> dp_scope dp = None \<and>
        map_r (expand_profile_default p (rd_name r)) (p_default_privileges pr) = Inr (dp_grant dp)"
    using assms by (auto simp: expand_binding_def expanded_role_def Let_def split: option.splits if_splits)
  show "length (rd_name r) \<le> 63" by (rule pr)
  show "rd_external r = False" "rd_preserve_undeclared_grants r = False"
    by (subst pr(2), simp add: expanded_role_def)+
  show "\<forall>g\<in>set gs. g_ensure g = Present \<and> g_role g = rd_name r"
    using map_r_setD[OF gs] by (force simp: expand_profile_grant_def)
  show "\<forall>dp\<in>set dps. dp_schema dp = Some (sb_name b) \<and> dp_scope dp = None \<and>
       (\<forall>g\<in>set (dp_grant dp). dpg_role g = Some (rd_name r) \<and> dpg_ensure g = Present)"
    using dps by (force simp: expand_profile_default_def dest: map_r_setD)
qed

lemma expanded_sources:
  assumes "expand_manifest m = Inr e"
  shows "r \<in> set (em_roles e) \<Longrightarrow>
           r \<in> set (pm_roles m) \<or> (\<exists>b p gs dps. expand_binding m b p = Inr (r, gs, dps))"
    and "dp \<in> set (em_default_privileges e) \<Longrightarrow>
           \<exists>dp0. dp = normalize_owner m dp0 \<and>
             (dp0 \<in> set (pm_default_privileges m) \<or>
              (\<exists>b p r gs dps. expand_binding m b p = Inr (r, gs, dps) \<and> dp0 \<in> set dps))"
proof -
  from expand_manifest_InrD(7)[OF assms] obtain xs where
    xs: "map_r (\<lambda>(b, p). expand_binding m b p) (binding_pairs m) = Inr xs"
    and e: "e = assemble_expansion m xs" by blast
  have from_xs: "\<exists>b p. expand_binding m b p = Inr x" if "x \<in> set xs" for x
    using map_r_setD[OF xs that] by auto
  show "r \<in> set (pm_roles m) \<or> (\<exists>b p gs dps. expand_binding m b p = Inr (r, gs, dps))"
    if "r \<in> set (em_roles e)"
    using that from_xs by (fastforce simp: e assemble_expansion_def)
  show "\<exists>dp0. dp = normalize_owner m dp0 \<and>
      (dp0 \<in> set (pm_default_privileges m) \<or>
       (\<exists>b p r gs dps. expand_binding m b p = Inr (r, gs, dps) \<and> dp0 \<in> set dps))"
    if "dp \<in> set (em_default_privileges e)"
    using that from_xs by (fastforce simp: e assemble_expansion_def)
qed

end
