(* ===== verification/Consistency.thy ===== *)
theory Consistency
  imports Expand
begin

text \<open>
  What the conflict check of \<open>expand_manifest\<close> (\<open>validate_ensure_conflicts\<close>) establishes: a manifest
  that passes it never asks for a privilege to be both present and absent, neither on one object
  nor between a wildcard and a named object of the same schema, nor on one default-privilege rule.
\<close>

subsection \<open>No privilege is asserted both present and absent\<close>

text \<open>
  Two grants speak of a common object when they have the same grantee, object type and schema, and
  either the same name or one of them the name \<open>*\<close> and the other a name in the same schema.
\<close>

definition names_overlap :: "object_target \<Rightarrow> object_target \<Rightarrow> bool" where
  "names_overlap a b =
     (ot_name a = ot_name b \<or>
      (ot_schema a \<noteq> None \<and> ot_name a \<noteq> None \<and> ot_name b \<noteq> None \<and>
       (ot_name a = Some ''*'' \<or> ot_name b = Some ''*'')))"

definition targets_overlap :: "grant \<Rightarrow> grant \<Rightarrow> bool" where
  "targets_overlap g g' =
     (g_role g = g_role g' \<and> ot_object_type (g_object g) = ot_object_type (g_object g') \<and>
      ot_schema (g_object g) = ot_schema (g_object g') \<and> names_overlap (g_object g) (g_object g'))"

definition ensure_consistent :: "grant list \<Rightarrow> bool" where
  "ensure_consistent gs =
     (\<forall>g\<in>set gs. \<forall>g'\<in>set gs. targets_overlap g g' \<longrightarrow>
        set (g_privileges g) \<inter> set (g_privileges g') \<noteq> {} \<longrightarrow> g_ensure g = g_ensure g')"

definition default_key_of :: "string option \<Rightarrow> default_privilege \<Rightarrow> default_privilege_grant \<Rightarrow>
    (string \<times> (manifest_error + default_privilege_scope) \<times> string option \<times> object_type)" where
  "default_key_of default_owner dp g =
     (default_priv_owner default_owner dp, resolved_scope dp, dpg_role g, dpg_on_type g)"

definition default_ensure_consistent :: "string option \<Rightarrow> default_privilege list \<Rightarrow> bool" where
  "default_ensure_consistent default_owner dps =
     (\<forall>dp\<in>set dps. \<forall>dp'\<in>set dps. \<forall>g\<in>set (dp_grant dp). \<forall>g'\<in>set (dp_grant dp').
        dpg_role g \<noteq> None \<longrightarrow> default_key_of default_owner dp g = default_key_of default_owner dp' g' \<longrightarrow>
        set (dpg_privileges g) \<inter> set (dpg_privileges g') \<noteq> {} \<longrightarrow> dpg_ensure g = dpg_ensure g')"

fun read_flag :: "bool \<Rightarrow> ensure \<Rightarrow> selector_flags \<Rightarrow> bool" where
  "read_flag True Present f = wild_present f"
| "read_flag True Absent f = wild_absent f"
| "read_flag False Present f = named_present f"
| "read_flag False Absent f = named_absent f"

definition flags_conflict :: "selector_flags \<Rightarrow> bool" where
  "flags_conflict f = (wild_present f \<and> named_absent f \<or> wild_absent f \<and> named_present f)"

lemma read_set_flag [simp]: "read_flag w e (set_flag w e f)"
  by (cases w; cases e) (simp_all add: set_flag_def)

lemma read_set_flag_mono: "read_flag w e f \<Longrightarrow> read_flag w e (set_flag w' e' f)"
  by (cases w; cases e; cases w'; cases e') (simp_all add: set_flag_def)

lemma flags_agree: "\<not> flags_conflict f \<Longrightarrow> read_flag True e f \<Longrightarrow> read_flag False e' f \<Longrightarrow> e = e'"
  by (cases e; cases e') (auto simp: flags_conflict_def)

text \<open>The state of the conflict check after a set of assertions has been handled.\<close>

definition assertions_hold :: "(grant \<times> privilege) set \<Rightarrow> ensure_state \<Rightarrow> bool" where
  "assertions_hold S st =
     (\<forall>g p. (g, p) \<in> S \<longrightarrow> fmlookup (fst st) (grant_assertion_key g p) = Some (g_ensure g))"

definition has_flag :: "ensure_state \<Rightarrow> selector_key \<Rightarrow> bool \<Rightarrow> ensure \<Rightarrow> bool" where
  "has_flag st k w e = (\<exists>f. fmlookup (snd st) k = Some f \<and> read_flag w e f)"

definition selector_of :: "grant \<Rightarrow> string \<Rightarrow> privilege \<Rightarrow> selector_key" where
  "selector_of g s p = (g_role g, ot_object_type (g_object g), s, p)"

definition selectors_hold :: "(grant \<times> privilege) set \<Rightarrow> ensure_state \<Rightarrow> bool" where
  "selectors_hold S st =
     (\<forall>g p s n. (g, p) \<in> S \<longrightarrow> ot_schema (g_object g) = Some s \<longrightarrow> ot_name (g_object g) = Some n \<longrightarrow>
        has_flag st (selector_of g s p) (n = ''*'') (g_ensure g))"

definition no_conflicts :: "ensure_state \<Rightarrow> bool" where
  "no_conflicts st = (\<forall>k f. fmlookup (snd st) k = Some f \<longrightarrow> \<not> flags_conflict f)"

lemma check_grant_assertion_fst:
  assumes "check_grant_assertion (g, p) st = Inr st'"
  shows "fmlookup (fst st) (grant_assertion_key g p) \<in> {None, Some (g_ensure g)}"
    "fst st' = fmupd (grant_assertion_key g p) (g_ensure g) (fst st)"
  using assms by (cases st; auto simp: check_grant_assertion_def Let_def split: option.splits)+

lemma check_grant_assertion_unscoped:
  assumes "check_grant_assertion (g, p) st = Inr st'" "ot_schema (g_object g) = None \<or> ot_name (g_object g) = None"
  shows "snd st' = snd st"
  using assms by (cases st; auto simp: check_grant_assertion_def Let_def split: option.splits)

lemma check_grant_assertion_scoped:
  assumes "check_grant_assertion (g, p) st = Inr st'"
    "ot_schema (g_object g) = Some s" "ot_name (g_object g) = Some n"
  shows "\<exists>f0. snd st' = fmupd (selector_of g s p) (set_flag (n = ''*'') (g_ensure g) f0) (snd st) \<and>
    \<not> flags_conflict (set_flag (n = ''*'') (g_ensure g) f0) \<and>
    (\<forall>f. fmlookup (snd st) (selector_of g s p) = Some f \<longrightarrow> f0 = f)"
proof -
  define f0 where "f0 = (case fmlookup (snd st) (selector_of g s p) of None \<Rightarrow> no_flags | Some f \<Rightarrow> f)"
  show ?thesis
    using assms
    by (intro exI[of _ f0])
      (cases st; auto simp: check_grant_assertion_def selector_of_def Let_def f0_def flags_conflict_def)
qed

lemma has_flag_step:
  assumes step: "check_grant_assertion (g, p) st = Inr st'" and old: "has_flag st k w e"
  shows "has_flag st' k w e"
proof (cases "ot_schema (g_object g) = None \<or> ot_name (g_object g) = None")
  case True
  then show ?thesis using old check_grant_assertion_unscoped[OF step] by (simp add: has_flag_def)
next
  case False
  then obtain s n where sn: "ot_schema (g_object g) = Some s" "ot_name (g_object g) = Some n" by auto
  from check_grant_assertion_scoped[OF step sn] old show ?thesis
    by (cases "k = selector_of g s p") (auto simp: has_flag_def intro: read_set_flag_mono)
qed

lemma grant_checked_step:
  assumes "assertions_hold S st" "selectors_hold S st" "no_conflicts st"
    and step: "check_grant_assertion x st = Inr st'"
  shows "assertions_hold (insert x S) st'" "selectors_hold (insert x S) st'" "no_conflicts st'"
proof -
  obtain g p where x: "x = (g, p)" by (cases x)
  note step = step[unfolded x]
  show "assertions_hold (insert x S) st'"
    using assms(1) check_grant_assertion_fst[OF step] by (auto simp: assertions_hold_def x)
  have "has_flag st' (selector_of g s p) (n = ''*'') (g_ensure g)"
    if "ot_schema (g_object g) = Some s" "ot_name (g_object g) = Some n" for s n
    using check_grant_assertion_scoped[OF step that] by (auto simp: has_flag_def)
  then show "selectors_hold (insert x S) st'"
    using assms(2) has_flag_step[OF step] by (auto simp: selectors_hold_def x)
  show "no_conflicts st'"
  proof (cases "ot_schema (g_object g) = None \<or> ot_name (g_object g) = None")
    case True
    then show ?thesis using assms(3) check_grant_assertion_unscoped[OF step] by (simp add: no_conflicts_def)
  next
    case False
    then obtain s n where sn: "ot_schema (g_object g) = Some s" "ot_name (g_object g) = Some n" by auto
    from check_grant_assertion_scoped[OF step sn] show ?thesis
      using assms(3) by (auto simp: no_conflicts_def split: if_splits)
  qed
qed

lemma grant_checked_all:
  assumes "fold_r check_grant_assertion xs (fmempty, fmempty) = Inr st"
  shows "assertions_hold (set xs) st \<and> selectors_hold (set xs) st \<and> no_conflicts st"
proof -
  have "assertions_hold ({} \<union> set xs) st \<and> selectors_hold ({} \<union> set xs) st \<and> no_conflicts st"
  proof (rule fold_r_processed[OF assms, where P = "\<lambda>S st. assertions_hold S st \<and> selectors_hold S st \<and> no_conflicts st"])
    show "assertions_hold {} (fmempty, fmempty) \<and> selectors_hold {} (fmempty, fmempty) \<and> no_conflicts (fmempty, fmempty)"
      by (simp add: assertions_hold_def selectors_hold_def no_conflicts_def)
  qed (blast intro: grant_checked_step)
  then show ?thesis by simp
qed

lemma grant_checked_consistent:
  assumes inv: "assertions_hold S st" "selectors_hold S st" "no_conflicts st"
    and in_S: "(g, p) \<in> S" "(g', p) \<in> S" and ov: "targets_overlap g g'"
  shows "g_ensure g = g_ensure g'"
proof (cases "ot_name (g_object g) = ot_name (g_object g')")
  case True
  then have "grant_assertion_key g p = grant_assertion_key g' p"
    using ov by (simp add: grant_assertion_key_def targets_overlap_def)
  then show ?thesis using inv(1) in_S by (metis assertions_hold_def option.inject)
next
  case False
  then obtain s n n' where n: "ot_schema (g_object g) = Some s" "ot_schema (g_object g') = Some s"
    "ot_name (g_object g) = Some n" "ot_name (g_object g') = Some n'" "n = ''*'' \<or> n' = ''*''" "n \<noteq> n'"
    using ov unfolding targets_overlap_def names_overlap_def by (metis not_None_eq option.inject)
  have sel: "selector_of g' s p = selector_of g s p"
    using ov by (simp add: selector_of_def targets_overlap_def)
  have "has_flag st (selector_of g s p) (n = ''*'') (g_ensure g)"
    "has_flag st (selector_of g s p) (n' = ''*'') (g_ensure g')"
    using inv(2)[unfolded selectors_hold_def, rule_format, OF in_S(1) n(1,3)]
      inv(2)[unfolded selectors_hold_def, rule_format, OF in_S(2) n(2,4)] sel by simp_all
  then obtain f where f: "fmlookup (snd st) (selector_of g s p) = Some f"
    "read_flag (n = ''*'') (g_ensure g) f" "read_flag (n' = ''*'') (g_ensure g') f"
    by (auto simp: has_flag_def)
  then have "\<not> flags_conflict f" using inv(3) unfolding no_conflicts_def by blast
  then show ?thesis
    using f n(5,6) flags_agree[of f "g_ensure g" "g_ensure g'"] flags_agree[of f "g_ensure g'" "g_ensure g"]
    by (cases "n = ''*''") auto
qed

lemma validate_ensure_conflicts_grants:
  assumes "validate_ensure_conflicts d gs dps = Inr u"
  shows "ensure_consistent gs"
proof -
  obtain st where "fold_r check_grant_assertion (grant_assertions gs) (fmempty, fmempty) = Inr st"
    using assms by (auto simp: validate_ensure_conflicts_def)
  note inv = grant_checked_all[OF this]
  show ?thesis
    unfolding ensure_consistent_def
  proof (intro ballI impI)
    fix g g' assume gg: "g \<in> set gs" "g' \<in> set gs" "targets_overlap g g'"
      "set (g_privileges g) \<inter> set (g_privileges g') \<noteq> {}"
    then obtain p where "(g, p) \<in> set (grant_assertions gs)" "(g', p) \<in> set (grant_assertions gs)"
      by (auto simp: grant_assertions_def)
    then show "g_ensure g = g_ensure g'" using inv gg(3) grant_checked_consistent by blast
  qed
qed

text \<open>The same for default privileges, whose keys have no wildcard.\<close>

definition default_checked :: "(string \<times> default_privilege_scope \<times> default_privilege_grant \<times> privilege) set \<Rightarrow> default_state \<Rightarrow> bool" where
  "default_checked S st =
     (\<forall>(owner, scope, g, p)\<in>S. \<forall>grantee. dpg_role g = Some grantee \<longrightarrow>
        fmlookup st (owner, scope, grantee, dpg_on_type g, p) = Some (dpg_ensure g))"

lemma default_checkedD:
  "default_checked S st \<Longrightarrow> (owner, scope, g, p) \<in> S \<Longrightarrow> dpg_role g = Some grantee \<Longrightarrow>
     fmlookup st (owner, scope, grantee, dpg_on_type g, p) = Some (dpg_ensure g)"
  by (auto simp: default_checked_def)

lemma default_checked_step:
  assumes "default_checked S st" "check_default_assertion owner scope (g, p) st = Inr st'"
  shows "default_checked (insert (owner, scope, g, p) S) st'"
  using assms
  by (fastforce simp: default_checked_def check_default_assertion_def Let_def split: option.splits)

definition default_quads :: "string option \<Rightarrow> default_privilege \<Rightarrow>
    (string \<times> default_privilege_scope \<times> default_privilege_grant \<times> privilege) set" where
  "default_quads d dp =
     {(default_priv_owner d dp, scope, g, p) | scope g p.
        resolved_scope dp = Inr scope \<and> (g, p) \<in> set (default_assertions (dp_grant dp))}"

lemma default_checked_entry:
  assumes inv: "default_checked S st"
    and step: "bind_r (resolved_scope dp) (\<lambda>scope.
      fold_r (check_default_assertion (default_priv_owner d dp) scope) (default_assertions (dp_grant dp)) st) = Inr st'"
  shows "default_checked (S \<union> default_quads d dp) st'"
proof -
  obtain scope where sc: "resolved_scope dp = Inr scope"
    and run: "fold_r (check_default_assertion (default_priv_owner d dp) scope) (default_assertions (dp_grant dp)) st = Inr st'"
    using step by auto
  let ?P = "\<lambda>T. default_checked (S \<union> (\<lambda>(g, p). (default_priv_owner d dp, scope, g, p)) ` T)"
  have "?P ({} \<union> set (default_assertions (dp_grant dp))) st'"
  proof (rule fold_r_processed[OF run])
    show "?P {} st" using inv by simp
    show "?P (insert x T) t" if "?P T s" "check_default_assertion (default_priv_owner d dp) scope x s = Inr t" for T x s t
      using that default_checked_step by (cases x) fastforce
  qed
  moreover have "S \<union> default_quads d dp \<subseteq>
      S \<union> (\<lambda>(g, p). (default_priv_owner d dp, scope, g, p)) ` ({} \<union> set (default_assertions (dp_grant dp)))"
    using sc by (auto simp: default_quads_def)
  ultimately show ?thesis unfolding default_checked_def by blast
qed

lemma resolved_scopes_of_run:
  "fold_r (\<lambda>dp assertions. bind_r (resolved_scope dp) (\<lambda>scope. f dp scope assertions)) dps s = Inr st \<Longrightarrow>
     \<forall>dp\<in>set dps. \<exists>scope. resolved_scope dp = Inr scope"
  by (induction dps arbitrary: s) auto

lemma validate_ensure_conflicts_defaults:
  assumes "validate_ensure_conflicts d gs dps = Inr u"
  shows "default_ensure_consistent d dps"
proof -
  let ?f = "\<lambda>dp assertions. bind_r (resolved_scope dp) (\<lambda>scope.
      fold_r (check_default_assertion (default_priv_owner d dp) scope) (default_assertions (dp_grant dp)) assertions)"
  obtain st where run: "fold_r ?f dps fmempty = Inr st"
    using assms by (auto simp: validate_ensure_conflicts_def)
  have checked: "default_checked (\<Union> (default_quads d ` ({} \<union> set dps))) st"
  proof (rule fold_r_processed[OF run, where P = "\<lambda>S. default_checked (\<Union> (default_quads d ` S))"])
    show "default_checked (\<Union> (default_quads d ` {})) fmempty" by (simp add: default_checked_def)
    show "default_checked (\<Union> (default_quads d ` insert x S)) t"
      if "default_checked (\<Union> (default_quads d ` S)) s" "?f x s = Inr t" for S x s t
      using default_checked_entry[OF that] by (simp add: Un_commute)
  qed
  show ?thesis
    unfolding default_ensure_consistent_def
  proof (intro ballI impI)
    fix dp dp' g g'
    assume in_dps: "dp \<in> set dps" "dp' \<in> set dps" "g \<in> set (dp_grant dp)" "g' \<in> set (dp_grant dp')"
      and role: "dpg_role g \<noteq> None" and key: "default_key_of d dp g = default_key_of d dp' g'"
      and common: "set (dpg_privileges g) \<inter> set (dpg_privileges g') \<noteq> {}"
    obtain scope where sc: "resolved_scope dp = Inr scope" "resolved_scope dp' = Inr scope"
      using bspec[OF resolved_scopes_of_run[OF run] in_dps(1)] key unfolding default_key_of_def by auto
    obtain p where p: "p \<in> set (dpg_privileges g)" "p \<in> set (dpg_privileges g')" using common by blast
    have "(default_priv_owner d dp, scope, g, p) \<in> default_quads d dp"
      "(default_priv_owner d dp', scope, g', p) \<in> default_quads d dp'"
      using sc p in_dps(3,4) by (auto simp: default_quads_def default_assertions_def)
    then have "(default_priv_owner d dp, scope, g, p) \<in> \<Union> (default_quads d ` ({} \<union> set dps))"
      "(default_priv_owner d dp', scope, g', p) \<in> \<Union> (default_quads d ` ({} \<union> set dps))"
      using in_dps(1,2) by blast+
    moreover obtain r where "dpg_role g = Some r" "dpg_role g' = Some r"
      using role key by (auto simp: default_key_of_def)
    ultimately have "Some (dpg_ensure g) = Some (dpg_ensure g')"
      using key by (simp add: default_key_of_def flip: default_checkedD[OF checked])
    then show "dpg_ensure g = dpg_ensure g'" by simp
  qed
qed

end
