(* ===== verification/Guc.thy ===== *)
theory Guc
  imports Prelude
begin

text \<open>
  List-valued configuration parameters (\<open>crates/pgroles-core/src/guc.rs\<close>): which parameters are
  lists, how a list value is split into elements, and the canonical form both the manifest's value
  and the inspected value are brought to before they are compared.

  The source reads \<open>char\<close> values; here a \<open>char\<close> is its UTF-8 byte group (\<open>rust_char\<close>). The lemmas
  show that the canonical form keeps the elements of a list and that two values have the same
  canonical form exactly when they denote the same list.
\<close>

definition LIST_QUOTE_PARAMETERS :: "string list" where
  "LIST_QUOTE_PARAMETERS =
     [''local_preload_libraries'', ''search_path'', ''session_preload_libraries'',
      ''shared_preload_libraries'', ''temp_tablespaces'']"

definition is_list_quote_parameter :: "string \<Rightarrow> bool" where
  "is_list_quote_parameter parameter = (parameter \<in> set LIST_QUOTE_PARAMETERS)"

text \<open>\<open>char::is_whitespace\<close>: the Unicode property \<open>White_Space\<close>, on UTF-8 byte groups.\<close>

definition white_space_chars :: "rust_char list" where
  "white_space_chars =
     [[CHR 0x09], [CHR 0x0A], [CHR 0x0B], [CHR 0x0C], [CHR 0x0D], [CHR 0x20],
      [CHR 0xC2, CHR 0x85], [CHR 0xC2, CHR 0xA0], [CHR 0xE1, CHR 0x9A, CHR 0x80],
      [CHR 0xE2, CHR 0x80, CHR 0x80], [CHR 0xE2, CHR 0x80, CHR 0x81],
      [CHR 0xE2, CHR 0x80, CHR 0x82], [CHR 0xE2, CHR 0x80, CHR 0x83],
      [CHR 0xE2, CHR 0x80, CHR 0x84], [CHR 0xE2, CHR 0x80, CHR 0x85],
      [CHR 0xE2, CHR 0x80, CHR 0x86], [CHR 0xE2, CHR 0x80, CHR 0x87],
      [CHR 0xE2, CHR 0x80, CHR 0x88], [CHR 0xE2, CHR 0x80, CHR 0x89],
      [CHR 0xE2, CHR 0x80, CHR 0x8A], [CHR 0xE2, CHR 0x80, CHR 0xA8],
      [CHR 0xE2, CHR 0x80, CHR 0xA9], [CHR 0xE2, CHR 0x80, CHR 0xAF],
      [CHR 0xE2, CHR 0x81, CHR 0x9F], [CHR 0xE3, CHR 0x80, CHR 0x80]]"

definition is_whitespace :: "rust_char \<Rightarrow> bool" where
  "is_whitespace c = (c \<in> set white_space_chars)"

definition is_separator :: "rust_char \<Rightarrow> bool" where
  "is_separator c = (is_whitespace c \<or> c = '','')"


section \<open>Splitting\<close>

text \<open>
  The inner loop of the quoted case: the characters after the opening quote, up to the closing
  one; \<^verbatim>\<open>""\<close> stands for one quote. No result when the quote is not closed.
\<close>

fun read_quoted :: "rust_char list \<Rightarrow> string \<Rightarrow> (string \<times> rust_char list) option" where
  "read_quoted [] element = None"
| "read_quoted (c # cs) element =
     (if c = [DQ]
      then (case cs of
              [] \<Rightarrow> Some (element, [])
            | c' # cs' \<Rightarrow> if c' = [DQ] then read_quoted cs' (element @ [DQ]) else Some (element, cs))
      else read_quoted cs (element @ c))"

lemma read_quoted_shorter: "read_quoted cs element = Some (e, rest) \<Longrightarrow> length rest < length cs"
proof (induction cs element rule: read_quoted.induct)
  case (2 c cs element)
  then show ?case by (fastforce split: if_splits list.splits)
qed simp

function split_loop :: "rust_char list \<Rightarrow> string list option" where
  "split_loop cs =
     (case dropWhile is_separator cs of
        [] \<Rightarrow> Some []
      | first # rest \<Rightarrow>
          if first = [DQ]
          then (case read_quoted rest [] of
                  None \<Rightarrow> None
                | Some (element, rest') \<Rightarrow> map_option (Cons element) (split_loop rest'))
          else map_option (Cons (concat (takeWhile (\<lambda>c. \<not> is_separator c) (first # rest))))
                 (split_loop (dropWhile (\<lambda>c. \<not> is_separator c) (first # rest))))"
  by pat_completeness auto
termination
proof (relation "measure length", goal_cases)
  case (2 cs first rest a element rest')
  then have "length rest' < length rest" by (auto dest: read_quoted_shorter)
  moreover have "length (first # rest) \<le> length cs"
    using length_dropWhile_le[of is_separator cs] 2 by simp
  ultimately show ?case by simp
next
  case (3 cs first rest)
  have "\<not> is_separator first" using 3 by (metis dropWhile_eq_Cons_conv)
  then have "length (dropWhile (\<lambda>c. \<not> is_separator c) (first # rest)) \<le> length rest"
    by (simp add: length_dropWhile_le)
  moreover have "length (first # rest) \<le> length cs"
    using length_dropWhile_le[of is_separator cs] 3 by simp
  ultimately show ?case by simp
qed simp

declare split_loop.simps [simp del]

definition split_guc_list :: "string \<Rightarrow> string list option" where
  "split_guc_list value = split_loop (chars value)"


section \<open>Quoting and canonical form\<close>

definition simple_element :: "string \<Rightarrow> bool" where
  "simple_element element =
     (case element of
        [] \<Rightarrow> False
      | c # cs \<Rightarrow> (is_ascii_lowercase c \<or> c = CHR ''_'') \<and>
          list_all (\<lambda>c. is_ascii_lowercase c \<or> is_ascii_digit c \<or> c = CHR ''_'') cs)"

definition quote_element_if_needed :: "string \<Rightarrow> string" where
  "quote_element_if_needed element =
     (if simple_element element then element
      else [DQ] @ replace_char DQ [DQ, DQ] element @ [DQ])"

definition canonicalize_list_guc_value :: "string \<Rightarrow> string" where
  "canonicalize_list_guc_value value =
     (case split_guc_list value of
        Some elements \<Rightarrow> join_str '', '' (map quote_element_if_needed elements)
      | None \<Rightarrow> value)"


section \<open>UTF-8 strings as sequences of characters\<close>

text \<open>
  The part of UTF-8 well-formedness the lemmas need: an ASCII byte stands alone, and every other
  group is a lead byte followed by at least one continuation byte.
\<close>

definition is_char :: "rust_char \<Rightarrow> bool" where
  "is_char c = (case c of [] \<Rightarrow> False
     | b # bs \<Rightarrow> \<not> is_continuation b \<and> list_all is_continuation bs \<and> ((of_char b :: nat) < 128 \<longleftrightarrow> bs = []))"

definition utf8 :: "string \<Rightarrow> bool" where
  "utf8 s = list_all is_char (chars s)"

lemma takeWhile_cont_append:
  "list_all is_continuation bs \<Longrightarrow> s = [] \<or> \<not> is_continuation (hd s) \<Longrightarrow>
     takeWhile is_continuation (bs @ s) = bs \<and> dropWhile is_continuation (bs @ s) = s"
  by (induction bs) (cases s; auto)+

lemma hd_concat_chars: "list_all is_char cs \<Longrightarrow> concat cs = [] \<or> \<not> is_continuation (hd (concat cs))"
  by (cases cs) (auto simp: is_char_def split: list.splits)

lemma chars_concat [simp]: "list_all is_char cs \<Longrightarrow> chars (concat cs) = cs"
proof (induction cs)
  case (Cons c cs)
  then obtain b bs where c: "c = b # bs" "list_all is_continuation bs"
    by (auto simp: is_char_def split: list.splits)
  have "takeWhile is_continuation (bs @ concat cs) = bs \<and>
      dropWhile is_continuation (bs @ concat cs) = concat cs"
    using Cons.prems c hd_concat_chars[of cs] by (intro takeWhile_cont_append) auto
  then show ?case using Cons c by (simp add: chars.simps(2))
qed simp

lemma utf8_concat: "list_all is_char cs \<Longrightarrow> utf8 (concat cs)"
  by (simp add: utf8_def)

lemma utf8_append [simp]:
  assumes "utf8 s" "utf8 t"
  shows "utf8 (s @ t)" "chars (s @ t) = chars s @ chars t"
proof -
  have st: "s @ t = concat (chars s @ chars t)" by simp
  have ok: "list_all is_char (chars s @ chars t)" using assms by (simp add: utf8_def)
  show "chars (s @ t) = chars s @ chars t" by (subst st) (rule chars_concat[OF ok])
  then show "utf8 (s @ t)" using ok by (simp add: utf8_def)
qed

lemma utf8_Nil [simp]: "utf8 []"
  by (simp add: utf8_def)

lemma is_char_ascii: "(of_char b :: nat) < 128 \<Longrightarrow> is_char [b]"
  by (simp add: is_char_def is_continuation_def)

lemma ascii_utf8:
  "list_all (\<lambda>b. (of_char b :: nat) < 128) s \<Longrightarrow> utf8 s \<and> chars s = map (\<lambda>b. [b]) s"
proof -
  assume a: "list_all (\<lambda>b. (of_char b :: nat) < 128) s"
  then have ok: "list_all is_char (map (\<lambda>b. [b]) s)"
    by (auto simp: list_all_iff is_char_ascii)
  have s: "s = concat (map (\<lambda>b. [b]) s)" by (induction s) auto
  have "chars s = map (\<lambda>b. [b]) s" by (subst s) (rule chars_concat[OF ok])
  then show ?thesis using ok by (simp add: utf8_def)
qed


section \<open>The canonical form keeps the elements\<close>

lemma simple_element_chars:
  assumes "simple_element e"
  shows "utf8 e" "chars e = map (\<lambda>b. [b]) e" "list_all (\<lambda>c. \<not> is_separator c) (chars e)"
    "e \<noteq> []" "hd (chars e) \<noteq> [DQ]"
proof -
  have cls: "list_all (\<lambda>b. 48 \<le> (of_char b :: nat) \<and> (of_char b :: nat) < 128) e"
    using assms by (auto simp: simple_element_def list_all_iff is_ascii_lowercase_def
        is_ascii_digit_def split: list.splits)
  then have "list_all (\<lambda>b. (of_char b :: nat) < 128) e" by (auto simp: list_all_iff)
  then show u: "utf8 e" and c: "chars e = map (\<lambda>b. [b]) e" using ascii_utf8 by auto
  show "e \<noteq> []" using assms by (auto simp: simple_element_def)
  then show "hd (chars e) \<noteq> [DQ]" using c cls by (cases e) auto
  have "\<And>b. 48 \<le> (of_char b :: nat) \<Longrightarrow> \<not> is_separator [b]"
    by (auto simp: is_separator_def is_whitespace_def white_space_chars_def)
  then show "list_all (\<lambda>c. \<not> is_separator c) (chars e)" using c cls by (auto simp: list_all_iff)
qed

definition double_quotes :: "rust_char list \<Rightarrow> rust_char list" where
  "double_quotes cs = concat (map (\<lambda>c. if c = [DQ] then [[DQ], [DQ]] else [c]) cs)"

lemma DQ_in_char: "is_char c \<Longrightarrow> DQ \<in> set c \<Longrightarrow> c = [DQ]"
  by (auto simp: is_char_def list_all_iff is_continuation_def split: list.splits)

lemma is_char_double_quotes: "list_all is_char cs \<Longrightarrow> list_all is_char (double_quotes cs)"
  by (auto simp: double_quotes_def list_all_iff is_char_ascii)

lemma replace_char_append [simp]: "replace_char q t (a @ b) = replace_char q t a @ replace_char q t b"
  by (simp add: replace_char_def)

lemma replace_char_id: "q \<notin> set s \<Longrightarrow> replace_char q t s = s"
  by (induction s) auto

lemma replace_concat_chars:
  "list_all is_char cs \<Longrightarrow> replace_char DQ [DQ, DQ] (concat cs) = concat (double_quotes cs)"
proof (induction cs)
  case (Cons c cs)
  then have "c \<noteq> [DQ] \<Longrightarrow> replace_char DQ [DQ, DQ] c = c"
    using DQ_in_char[of c] by (intro replace_char_id) auto
  then show ?case using Cons by (cases "c = [DQ]") (auto simp: double_quotes_def)
qed (simp add: double_quotes_def)

lemma quoted_chars:
  assumes "utf8 e"
  shows "utf8 ([DQ] @ replace_char DQ [DQ, DQ] e @ [DQ])"
    "chars ([DQ] @ replace_char DQ [DQ, DQ] e @ [DQ]) = [DQ] # double_quotes (chars e) @ [[DQ]]"
proof -
  have ok: "list_all is_char (chars e)" using assms by (simp add: utf8_def)
  have "[DQ] @ replace_char DQ [DQ, DQ] e @ [DQ] = concat ([DQ] # double_quotes (chars e) @ [[DQ]])"
    using replace_concat_chars[OF ok] by simp
  moreover have "list_all is_char ([DQ] # double_quotes (chars e) @ [[DQ]])"
    using is_char_double_quotes[OF ok] by (simp add: is_char_ascii)
  ultimately show "utf8 ([DQ] @ replace_char DQ [DQ, DQ] e @ [DQ])"
    "chars ([DQ] @ replace_char DQ [DQ, DQ] e @ [DQ]) = [DQ] # double_quotes (chars e) @ [[DQ]]"
    by (metis utf8_concat chars_concat)+
qed

lemma read_quoted_double_quotes:
  assumes "rest = [] \<or> hd rest \<noteq> [DQ]"
  shows "read_quoted (double_quotes cs @ [DQ] # rest) acc = Some (acc @ concat cs, rest)"
proof (induction cs arbitrary: acc)
  case Nil
  then show ?case using assms by (cases rest) (auto simp: double_quotes_def)
next
  case (Cons c cs)
  then show ?case by (auto simp: double_quotes_def)
qed

lemma utf8_quote_element: "utf8 e \<Longrightarrow> utf8 (quote_element_if_needed e)"
  using quoted_chars(1)[of e] by (simp add: quote_element_if_needed_def)

lemma separators [simp]: "is_separator '','' " "is_separator '' ''" "\<not> is_separator [DQ]"
  by (auto simp: is_separator_def is_whitespace_def white_space_chars_def)

lemma split_loop_skip: "is_separator c \<Longrightarrow> split_loop (c # cs) = split_loop cs"
  by (subst (1 2) split_loop.simps) simp

lemma split_loop_element:
  assumes "utf8 e" and rest: "rest = [] \<or> (is_separator (hd rest))"
  shows "split_loop (chars (quote_element_if_needed e) @ rest) = map_option (Cons e) (split_loop rest)"
proof (cases "simple_element e")
  case True
  note s = simple_element_chars[OF True]
  have tw: "takeWhile (\<lambda>c. \<not> is_separator c) (chars e @ rest) = chars e"
    "dropWhile (\<lambda>c. \<not> is_separator c) (chars e @ rest) = rest"
    using s(3) rest by (cases rest; auto simp: takeWhile_append dropWhile_append list_all_iff)+
  obtain c cs where c: "chars e = c # cs" using s(2,4) by (cases e) auto
  then have "\<not> is_separator c" "c \<noteq> [DQ]" using s(3,5) by auto
  then have "split_loop (chars e @ rest) =
      map_option (Cons (concat (takeWhile (\<lambda>c. \<not> is_separator c) (chars e @ rest))))
        (split_loop (dropWhile (\<lambda>c. \<not> is_separator c) (chars e @ rest)))"
    using c by (subst split_loop.simps) simp
  then show ?thesis using True tw by (simp add: quote_element_if_needed_def)
next
  case False
  have "chars (quote_element_if_needed e) = [DQ] # double_quotes (chars e) @ [[DQ]]"
    using False quoted_chars(2)[OF assms(1)] by (simp add: quote_element_if_needed_def)
  moreover have "rest = [] \<or> hd rest \<noteq> [DQ]" using rest by auto
  ultimately show ?thesis
    using read_quoted_double_quotes[of rest "chars e" "[]"] by (subst split_loop.simps) simp
qed

lemma utf8_ascii_Cons:
  assumes "(of_char b :: nat) < 128" "utf8 s"
  shows "utf8 (b # s)" "chars (b # s) = [b] # chars s"
  using utf8_append[of "[b]" s] ascii_utf8[of "[b]"] assms by auto

lemma chars_separator:
  assumes "utf8 s"
  shows "utf8 ('', '' @ s)" "chars ('', '' @ s) = '','' # '' '' # chars s"
  using assms by (auto simp: utf8_ascii_Cons)

lemma split_join_elements:
  "list_all utf8 es \<Longrightarrow>
     utf8 (join_str '', '' (map quote_element_if_needed es)) \<and>
     split_loop (chars (join_str '', '' (map quote_element_if_needed es))) = Some es"
proof (induction es rule: induct_list012)
  case 1
  then show ?case by (subst split_loop.simps) simp
next
  case (2 e)
  then show ?case
    using split_loop_element[of e "[]"] by (simp add: utf8_quote_element split_loop.simps[of "[]"])
next
  case (3 e e' es)
  let ?tail = "join_str '', '' (map quote_element_if_needed (e' # es))"
  have tail: "utf8 ?tail" "split_loop (chars ?tail) = Some (e' # es)" using 3 by auto
  have "utf8 e" using 3 by simp
  have whole: "utf8 (quote_element_if_needed e @ '', '' @ ?tail)"
    "chars (quote_element_if_needed e @ '', '' @ ?tail) =
      chars (quote_element_if_needed e) @ '','' # '' '' # chars ?tail"
    using utf8_append[OF utf8_quote_element[OF \<open>utf8 e\<close>] chars_separator(1)[OF tail(1)]]
    by (auto simp only: chars_separator(2)[OF tail(1)])
  have "split_loop ('','' # '' '' # chars ?tail) = Some (e' # es)"
    using tail(2) by (simp add: split_loop_skip)
  then have "split_loop (chars (quote_element_if_needed e @ '', '' @ ?tail)) = Some (e # e' # es)"
    using split_loop_element[OF \<open>utf8 e\<close>, of "'','' # '' '' # chars ?tail"] whole(2) by simp
  then show ?case using whole(1) by simp
qed

text \<open>Every element of a split is made of whole characters of the value.\<close>

lemma read_quoted_chars:
  "read_quoted cs acc = Some (e, rest) \<Longrightarrow> list_all is_char cs \<Longrightarrow> utf8 acc \<Longrightarrow>
     utf8 e \<and> list_all is_char rest"
proof (induction cs acc rule: read_quoted.induct)
  case (2 c cs acc)
  have "utf8 [DQ]" using ascii_utf8[of "[DQ]"] by simp
  moreover have "is_char c \<Longrightarrow> utf8 c" using utf8_concat[of "[c]"] by simp
  ultimately show ?case using 2 by (auto split: if_splits list.splits)
qed simp

lemma split_loop_utf8: "split_loop cs = Some es \<Longrightarrow> list_all is_char cs \<Longrightarrow> list_all utf8 es"
proof (induction cs arbitrary: es rule: split_loop.induct)
  case (1 cs)
  have dw: "\<And>P xs. list_all is_char xs \<Longrightarrow> list_all is_char (dropWhile P xs) \<and> list_all is_char (takeWhile P xs)"
    by (auto simp: list_all_iff dest: set_dropWhileD set_takeWhileD)
  show ?case
  proof (cases "dropWhile is_separator cs")
    case Nil
    show ?thesis using "1.prems" unfolding split_loop.simps[of cs] Nil by simp
  next
    case (Cons first rest)
    have fr: "list_all is_char (first # rest)" using dw[OF "1.prems"(2), of is_separator] Cons by simp
    show ?thesis
    proof (cases "first = [DQ]")
      case True
      then obtain e rest' es' where q: "read_quoted rest [] = Some (e, rest')"
        "split_loop rest' = Some es'" "es = e # es'"
        using "1.prems"(1) Cons by (auto simp: split_loop.simps[of cs] split: option.splits)
      then have "utf8 e" "list_all is_char rest'" using read_quoted_chars[OF q(1)] fr by auto
      then show ?thesis using "1.IH"(1)[OF Cons True q(1)] q by auto
    next
      case False
      let ?e = "takeWhile (\<lambda>c. \<not> is_separator c) (first # rest)"
      obtain es' where q: "split_loop (dropWhile (\<lambda>c. \<not> is_separator c) (first # rest)) = Some es'"
        "es = concat ?e # es'"
        using "1.prems"(1) Cons False by (auto simp: split_loop.simps[of cs])
      have "list_all utf8 es'"
        using "1.IH"(2)[OF Cons False q(1)] dw[OF fr] by blast
      moreover have "utf8 (concat ?e)" using dw[OF fr] by (intro utf8_concat) blast
      ultimately show ?thesis unfolding q(2) list.pred_inject(2) by blast
    qed
  qed
qed

lemma split_canonicalize:
  assumes "utf8 v" "split_guc_list v = Some es"
  shows "split_guc_list (canonicalize_list_guc_value v) = Some es"
proof -
  have "list_all utf8 es"
    using split_loop_utf8 assms by (auto simp: split_guc_list_def utf8_def)
  then show ?thesis
    using split_join_elements[of es] assms(2)
    by (simp add: canonicalize_list_guc_value_def split_guc_list_def)
qed

lemma canonicalize_cong:
  "split_guc_list v = split_guc_list w \<Longrightarrow> split_guc_list v \<noteq> None \<Longrightarrow>
     canonicalize_list_guc_value v = canonicalize_list_guc_value w"
  by (auto simp: canonicalize_list_guc_value_def)

lemma canonicalize_idem:
  assumes "utf8 v"
  shows "canonicalize_list_guc_value (canonicalize_list_guc_value v) = canonicalize_list_guc_value v"
proof (cases "split_guc_list v")
  case (Some es)
  then have "split_guc_list (canonicalize_list_guc_value v) = split_guc_list v"
    using split_canonicalize[OF assms] by simp
  then show ?thesis using Some canonicalize_cong by auto
qed (simp add: canonicalize_list_guc_value_def)

end
