(* ===== verification/Model.thy ===== *)
theory Model
  imports Consistency Guc
begin

text \<open>
  The normalized role graph (\<open>crates/pgroles-core/src/model.rs\<close>): role attributes, grant and
  default-privilege keys with their orders, membership edges, and the graph itself, which holds the
  desired state built from a manifest (\<open>from_expanded\<close>) as well as the current state read from a
  database. The one-field structs \<open>GrantState\<close> and \<open>DefaultPrivState\<close> are their privilege set.
\<close>

section \<open>Role attributes\<close>

record role_state =
  rs_login :: bool
  rs_superuser :: bool
  rs_createdb :: bool
  rs_createrole :: bool
  rs_inherit :: bool
  rs_replication :: bool
  rs_bypassrls :: bool
  rs_connection_limit :: int
  rs_comment :: "string option"
  rs_password_valid_until :: "string option"
  rs_config :: "(string, string) btreemap"

definition default_role_state :: role_state where
  "default_role_state =
     \<lparr>rs_login = False, rs_superuser = False, rs_createdb = False, rs_createrole = False,
      rs_inherit = True, rs_replication = False, rs_bypassrls = False, rs_connection_limit = -1,
      rs_comment = None, rs_password_valid_until = None, rs_config = fmempty\<rparr>"

definition normalize_config :: "string \<times> string \<Rightarrow> string \<times> string" where
  "normalize_config = (\<lambda>(name, value).
     let name' = to_ascii_lowercase name in
     (name', if is_list_quote_parameter name' then canonicalize_list_guc_value value else value))"

definition from_definition :: "role_definition \<Rightarrow> role_state" where
  "from_definition d =
     \<lparr>rs_login = unwrap_or (rd_login d) (rs_login default_role_state),
      rs_superuser = unwrap_or (rd_superuser d) (rs_superuser default_role_state),
      rs_createdb = unwrap_or (rd_createdb d) (rs_createdb default_role_state),
      rs_createrole = unwrap_or (rd_createrole d) (rs_createrole default_role_state),
      rs_inherit = unwrap_or (rd_inherit d) (rs_inherit default_role_state),
      rs_replication = unwrap_or (rd_replication d) (rs_replication default_role_state),
      rs_bypassrls = unwrap_or (rd_bypassrls d) (rs_bypassrls default_role_state),
      rs_connection_limit = unwrap_or (rd_connection_limit d) (rs_connection_limit default_role_state),
      rs_comment = rd_comment d,
      rs_password_valid_until = rd_password_valid_until d,
      rs_config = collect_map (map normalize_config (bt_entries (rd_config d)))\<rparr>"

datatype role_attribute =
    Login bool
  | Superuser bool
  | Createdb bool
  | Createrole bool
  | Inherit bool
  | Replication bool
  | Bypassrls bool
  | ConnectionLimit int
  | ValidUntil "string option"
  | SetConfig string string
  | ResetConfig string

definition changed_attributes :: "role_state \<Rightarrow> role_state \<Rightarrow> role_attribute list" where
  "changed_attributes self other =
     (if rs_login self \<noteq> rs_login other then [Login (rs_login other)] else []) @
     (if rs_superuser self \<noteq> rs_superuser other then [Superuser (rs_superuser other)] else []) @
     (if rs_createdb self \<noteq> rs_createdb other then [Createdb (rs_createdb other)] else []) @
     (if rs_createrole self \<noteq> rs_createrole other then [Createrole (rs_createrole other)] else []) @
     (if rs_inherit self \<noteq> rs_inherit other then [Inherit (rs_inherit other)] else []) @
     (if rs_replication self \<noteq> rs_replication other then [Replication (rs_replication other)] else []) @
     (if rs_bypassrls self \<noteq> rs_bypassrls other then [Bypassrls (rs_bypassrls other)] else []) @
     (if rs_connection_limit self \<noteq> rs_connection_limit other
      then [ConnectionLimit (rs_connection_limit other)] else []) @
     (if rs_password_valid_until self \<noteq> rs_password_valid_until other
      then [ValidUntil (rs_password_valid_until other)] else []) @
     [SetConfig parameter value. (parameter, value) \<leftarrow> bt_entries (rs_config other),
        fmlookup (rs_config self) parameter \<noteq> Some value] @
     [ResetConfig parameter. parameter \<leftarrow> bt_keys (rs_config self),
        \<not> contains_key (rs_config other) parameter]"


section \<open>Keys and edges\<close>

record schema_state =
  ss_owner :: "string option"
  ss_owner_privileges :: "privilege btreeset"

type_synonym grant_state = "privilege btreeset"
type_synonym default_priv_state = "privilege btreeset"

record grant_key =
  gk_role :: grantee
  gk_object_type :: object_type
  gk_schema :: "string option"
  gk_name :: "string option"

record default_priv_key =
  dk_owner :: string
  dk_scope :: default_privilege_scope
  dk_on_type :: object_type
  dk_grantee :: grantee

record membership_edge =
  me_role :: string
  me_member :: string
  me_inherit :: bool
  me_admin :: bool

record membership_options =
  mo_inherit :: bool
  mo_admin :: bool
  mo_set :: bool

text \<open>The derived \<open>Ord\<close> instances: field by field, in the order of declaration.\<close>

definition grant_key_fields :: "'a grant_key_scheme \<Rightarrow> grantee \<times> object_type \<times> string option \<times> string option \<times> 'a" where
  "grant_key_fields k = (gk_role k, gk_object_type k, gk_schema k, gk_name k, grant_key.more k)"

lemma grant_key_fields_inject [simp]: "grant_key_fields a = grant_key_fields b \<longleftrightarrow> a = b"
  by (auto simp: grant_key_fields_def intro: grant_key.equality)

instantiation grant_key_ext :: (linorder) linorder
begin

definition less_eq_grant_key_ext :: "'a grant_key_scheme \<Rightarrow> 'a grant_key_scheme \<Rightarrow> bool" where
  "less_eq_grant_key_ext a b = (grant_key_fields a \<le> grant_key_fields b)"

definition less_grant_key_ext :: "'a grant_key_scheme \<Rightarrow> 'a grant_key_scheme \<Rightarrow> bool" where
  "less_grant_key_ext a b = (grant_key_fields a < grant_key_fields b)"

instance
  by standard (auto simp: less_eq_grant_key_ext_def less_grant_key_ext_def dest: order.antisym)

end

definition default_priv_key_fields :: "'a default_priv_key_scheme \<Rightarrow> string \<times> default_privilege_scope \<times> object_type \<times> grantee \<times> 'a" where
  "default_priv_key_fields k = (dk_owner k, dk_scope k, dk_on_type k, dk_grantee k, default_priv_key.more k)"

lemma default_priv_key_fields_inject [simp]: "default_priv_key_fields a = default_priv_key_fields b \<longleftrightarrow> a = b"
  by (auto simp: default_priv_key_fields_def intro: default_priv_key.equality)

instantiation default_priv_key_ext :: (linorder) linorder
begin

definition less_eq_default_priv_key_ext :: "'a default_priv_key_scheme \<Rightarrow> 'a default_priv_key_scheme \<Rightarrow> bool" where
  "less_eq_default_priv_key_ext a b = (default_priv_key_fields a \<le> default_priv_key_fields b)"

definition less_default_priv_key_ext :: "'a default_priv_key_scheme \<Rightarrow> 'a default_priv_key_scheme \<Rightarrow> bool" where
  "less_default_priv_key_ext a b = (default_priv_key_fields a < default_priv_key_fields b)"

instance
  by standard (auto simp: less_eq_default_priv_key_ext_def less_default_priv_key_ext_def dest: order.antisym)

end

definition membership_edge_fields :: "'a membership_edge_scheme \<Rightarrow> string \<times> string \<times> bool \<times> bool \<times> 'a" where
  "membership_edge_fields k = (me_role k, me_member k, me_inherit k, me_admin k, membership_edge.more k)"

lemma membership_edge_fields_inject [simp]: "membership_edge_fields a = membership_edge_fields b \<longleftrightarrow> a = b"
  by (auto simp: membership_edge_fields_def intro: membership_edge.equality)

instantiation membership_edge_ext :: (linorder) linorder
begin

definition less_eq_membership_edge_ext :: "'a membership_edge_scheme \<Rightarrow> 'a membership_edge_scheme \<Rightarrow> bool" where
  "less_eq_membership_edge_ext a b = (membership_edge_fields a \<le> membership_edge_fields b)"

definition less_membership_edge_ext :: "'a membership_edge_scheme \<Rightarrow> 'a membership_edge_scheme \<Rightarrow> bool" where
  "less_membership_edge_ext a b = (membership_edge_fields a < membership_edge_fields b)"

instance
  by standard (auto simp: less_eq_membership_edge_ext_def less_membership_edge_ext_def dest: order.antisym)

end


section \<open>The role graph\<close>

record role_graph =
  rg_routine_aliases :: "(string \<times> string, string) btreemap"
  rg_roles :: "(string, role_state) btreemap"
  rg_schemas :: "(string, schema_state) btreemap"
  rg_grants :: "(grant_key, grant_state) btreemap"
  rg_default_privileges :: "(default_priv_key, default_priv_state) btreemap"
  rg_memberships :: "membership_edge btreeset"
  rg_grant_absences :: "(grant_key, privilege btreeset) btreemap"
  rg_default_privilege_absences :: "(default_priv_key, privilege btreeset) btreemap"
  rg_exclusive_membership_roles :: "string btreeset"
  rg_inherent_grants :: "grant_key btreeset"
  rg_membership_edge_grantors :: "(string \<times> string, string btreeset) btreemap"
  rg_membership_edge_options :: "(string \<times> string, (string, membership_options) btreemap) btreemap"
  rg_executor_authority_edges :: "(string \<times> string \<times> string) btreeset"
  rg_grant_entry_grantors :: "(grant_key, (string, privilege btreeset) btreemap) btreemap"

definition empty_graph :: role_graph where
  "empty_graph =
     \<lparr>rg_routine_aliases = fmempty, rg_roles = fmempty, rg_schemas = fmempty, rg_grants = fmempty,
      rg_default_privileges = fmempty, rg_memberships = {||}, rg_grant_absences = fmempty,
      rg_default_privilege_absences = fmempty, rg_exclusive_membership_roles = {||},
      rg_inherent_grants = {||}, rg_membership_edge_grantors = fmempty,
      rg_membership_edge_options = fmempty, rg_executor_authority_edges = {||},
      rg_grant_entry_grantors = fmempty\<rparr>"

definition complete_membership_options ::
  "role_graph \<Rightarrow> string \<Rightarrow> string \<Rightarrow> (string, membership_options) btreemap option" where
  "complete_membership_options graph role member =
     (case (fmlookup (rg_membership_edge_grantors graph) (role, member),
            fmlookup (rg_membership_edge_options graph) (role, member)) of
        (Some grantors, Some options) \<Rightarrow>
          if grantors \<noteq> {||} \<and> bt_elements grantors = bt_keys options then Some options else None
      | _ \<Rightarrow> None)"

definition resolve_alias :: "(string \<times> string, string) btreemap \<Rightarrow> grant_key \<Rightarrow> grant_key" where
  "resolve_alias aliases key =
     (if gk_object_type key = Function
      then (case (gk_schema key, gk_name key) of
              (Some schema, Some name) \<Rightarrow>
                (case fmlookup aliases (schema, name) of
                   Some canonical \<Rightarrow> key\<lparr>gk_name := Some canonical\<rparr>
                 | None \<Rightarrow> key)
            | _ \<Rightarrow> key)
      else key)"

definition rekey :: "(grant_key \<Rightarrow> grant_key) \<Rightarrow> (grant_key, privilege btreeset) btreemap \<Rightarrow>
    (grant_key, privilege btreeset) btreemap" where
  "rekey f m = fold (\<lambda>(key, privileges) acc. entry_extend (f key) privileges acc) (bt_entries m) fmempty"

definition resolve_routine_aliases ::
  "role_graph \<Rightarrow> (string \<times> string, string) btreemap \<Rightarrow> role_graph" where
  "resolve_routine_aliases graph aliases =
     (if aliases = fmempty then graph
      else if \<not> list_ex (\<lambda>key. resolve_alias aliases key \<noteq> key)
                (bt_keys (rg_grants graph) @ bt_keys (rg_grant_absences graph)) then graph
      else graph\<lparr>rg_grants := rekey (resolve_alias aliases) (rg_grants graph),
                 rg_grant_absences := rekey (resolve_alias aliases) (rg_grant_absences graph)\<rparr>)"

definition grant_key_from_manifest :: "grant \<Rightarrow> grant_key" where
  "grant_key_from_manifest g =
     \<lparr>gk_role = grantee_parse (g_role g), gk_object_type = ot_object_type (g_object g),
      gk_schema = ot_schema (g_object g), gk_name = ot_name (g_object g)\<rparr>"

definition default_schema_owner_privileges :: "string \<Rightarrow> privilege btreeset" where
  "default_schema_owner_privileges owner = {|Create, Usage|}"

definition schema_state_of :: "expanded_schema \<Rightarrow> schema_state" where
  "schema_state_of schema =
     \<lparr>ss_owner = es_owner schema,
      ss_owner_privileges = (case es_owner schema of None \<Rightarrow> {||} | Some owner \<Rightarrow> default_schema_owner_privileges owner)\<rparr>"

definition add_grant :: "grant \<Rightarrow> role_graph \<Rightarrow> role_graph" where
  "add_grant g graph =
     (let key = grant_key_from_manifest g; privileges = fset_of_list (g_privileges g) in
      case g_ensure g of
        Present \<Rightarrow> graph\<lparr>rg_grants := entry_extend key privileges (rg_grants graph)\<rparr>
      | Absent \<Rightarrow> graph\<lparr>rg_grant_absences := entry_extend key privileges (rg_grant_absences graph)\<rparr>)"

definition add_default_grant ::
  "string \<Rightarrow> default_privilege_scope \<Rightarrow> default_privilege_grant \<Rightarrow> role_graph \<Rightarrow> manifest_error + role_graph" where
  "add_default_grant owner scope g graph =
     (case dpg_role g of
        None \<Rightarrow> Inl (MissingDefaultPrivilegeRole (show_scope scope))
      | Some role \<Rightarrow>
          let key = \<lparr>dk_owner = owner, dk_scope = scope, dk_on_type = dpg_on_type g, dk_grantee = grantee_parse role\<rparr>;
              privileges = fset_of_list (dpg_privileges g) in
          Inr (case dpg_ensure g of
                 Present \<Rightarrow> graph\<lparr>rg_default_privileges := entry_extend key privileges (rg_default_privileges graph)\<rparr>
               | Absent \<Rightarrow> graph\<lparr>rg_default_privilege_absences :=
                              entry_extend key privileges (rg_default_privilege_absences graph)\<rparr>))"

definition add_default_privilege :: "string option \<Rightarrow> default_privilege \<Rightarrow> role_graph \<Rightarrow> manifest_error + role_graph" where
  "add_default_privilege default_owner dp graph =
     bind_r (resolved_scope dp) (\<lambda>scope.
       fold_r (add_default_grant (default_priv_owner default_owner dp) scope) (dp_grant dp) graph)"

definition add_membership :: "membership \<Rightarrow> role_graph \<Rightarrow> role_graph" where
  "add_membership m graph =
     graph\<lparr>rg_exclusive_membership_roles :=
              (if m_exclusive m then finsert (m_role m) (rg_exclusive_membership_roles graph)
               else rg_exclusive_membership_roles graph),
           rg_memberships := fold (\<lambda>spec. finsert
                \<lparr>me_role = m_role m, me_member = ms_name spec, me_inherit = member_inherit spec,
                 me_admin = member_admin spec\<rparr>) (m_members m) (rg_memberships graph)\<rparr>"

definition from_expanded :: "expanded_manifest \<Rightarrow> string option \<Rightarrow> manifest_error + role_graph" where
  "from_expanded expanded default_owner =
     (let graph = empty_graph\<lparr>
            rg_roles := collect_map (map (\<lambda>d. (rd_name d, from_definition d)) (em_roles expanded)),
            rg_schemas := collect_map (map (\<lambda>s. (es_name s, schema_state_of s)) (em_schemas expanded))\<rparr>;
          graph = fold add_grant (em_grants expanded) graph in
      bind_r (fold_r (add_default_privilege default_owner) (em_default_privileges expanded) graph) (\<lambda>graph.
        Inr (fold add_membership (em_memberships expanded) graph)))"

end
