(* ===== verification/Change.thy ===== *)
theory Change
  imports Model
begin

text \<open>
  The changes of a plan (\<open>Change\<close> of \<open>crates/pgroles-core/src/diff.rs\<close>, with the binding of a
  membership-option change from \<open>crates/pgroles-core/src/membership_options.rs\<close>), the reconciliation
  modes, and the two constructors the diff engine builds grants and revokes with.
\<close>

datatype membership_expected_state = ExpectAbsent | ExpectPresent membership_options

datatype membership_set_effect = PreserveSet | CreateFalse

record membership_option_binding =
  mb_executor :: string
  mb_set_effect :: membership_set_effect
  mb_expected :: membership_expected_state
  mb_expected_edges :: "(string, membership_options) btreemap"

text \<open>
  The arguments of each constructor are the source's fields in the order of declaration:
  \<open>Grant role privileges object_type schema name\<close>,
  \<open>Revoke role privileges object_type schema name grantor\<close>,
  \<open>SetDefaultPrivilege owner scope on_type grantee privileges\<close>,
  \<open>AddMember role member inherit admin\<close>,
  \<open>UpdateMemberOptions role member grantor inherit admin binding\<close>,
  \<open>RemoveMember role member grantor\<close>.
\<close>

datatype change =
    CreateRole string role_state
  | CreateSchema string "string option"
  | AlterSchemaOwner string string
  | EnsureSchemaOwnerPrivileges string string "privilege btreeset"
  | AlterRole string "role_attribute list"
  | SetComment string "string option"
  | Grant grantee "privilege btreeset" object_type "string option" "string option"
  | Revoke grantee "privilege btreeset" object_type "string option" "string option" "string option"
  | SetDefaultPrivilege string default_privilege_scope object_type grantee "privilege btreeset"
  | RevokeDefaultPrivilege string default_privilege_scope object_type grantee "privilege btreeset"
  | AddMember string string bool bool
  | UpdateMemberOptions string string string "bool option" "bool option" "membership_option_binding option"
  | RemoveMember string string "string option"
  | ReassignOwned string string
  | DropOwned string
  | TerminateSessions string
  | SetPassword string string
  | DropRole string

datatype reconciliation_mode = Authoritative | Additive | Adopt

definition change_grant :: "grant_key \<Rightarrow> privilege btreeset \<Rightarrow> change" where
  "change_grant key privileges =
     Grant (gk_role key) privileges (gk_object_type key) (gk_schema key) (gk_name key)"

definition change_revoke :: "grant_key \<Rightarrow> privilege btreeset \<Rightarrow> string option \<Rightarrow> change" where
  "change_revoke key privileges grantor =
     Revoke (gk_role key) privileges (gk_object_type key) (gk_schema key) (gk_name key) grantor"

definition change_set_default :: "default_priv_key \<Rightarrow> privilege btreeset \<Rightarrow> change" where
  "change_set_default key privileges =
     SetDefaultPrivilege (dk_owner key) (dk_scope key) (dk_on_type key) (dk_grantee key) privileges"

definition change_revoke_default :: "default_priv_key \<Rightarrow> privilege btreeset \<Rightarrow> change" where
  "change_revoke_default key privileges =
     RevokeDefaultPrivilege (dk_owner key) (dk_scope key) (dk_on_type key) (dk_grantee key) privileges"

definition format_privileges :: "privilege btreeset \<Rightarrow> string" where
  "format_privileges privileges = join_str '', '' (map show_privilege (bt_elements privileges))"

abbreviation grant_key_of :: "grantee \<Rightarrow> object_type \<Rightarrow> string option \<Rightarrow> string option \<Rightarrow> grant_key" where
  "grant_key_of role object_type schema name \<equiv>
     \<lparr>gk_role = role, gk_object_type = object_type, gk_schema = schema, gk_name = name\<rparr>"

abbreviation default_key :: "string \<Rightarrow> default_privilege_scope \<Rightarrow> object_type \<Rightarrow> grantee \<Rightarrow> default_priv_key" where
  "default_key owner scope on_type grantee \<equiv>
     \<lparr>dk_owner = owner, dk_scope = scope, dk_on_type = on_type, dk_grantee = grantee\<rparr>"

lemma grant_key_collapse [simp]: "grant_key_of (gk_role k) (gk_object_type k) (gk_schema k) (gk_name k) = k"
  by (cases k) simp

lemma default_key_collapse [simp]: "default_key (dk_owner k) (dk_scope k) (dk_on_type k) (dk_grantee k) = k"
  by (cases k) simp

end
