(* ===== verification/Diff.thy ===== *)
theory Diff
  imports Change
begin

text \<open>
  The convergent diff engine (\<open>diff\<close> of \<open>crates/pgroles-core/src/diff.rs\<close>): the plan that takes the
  current role graph to the desired one. Each loop of the source that pushes onto an output vector
  is the list of what it pushes, in the order of iteration; the accumulator of revokes is a map
  extended in the order of the three loops that fill it.
\<close>

section \<open>Roles\<close>

definition set_config_attributes :: "role_state \<Rightarrow> role_attribute list" where
  "set_config_attributes st = map (\<lambda>(parameter, value). SetConfig parameter value) (bt_entries (rs_config st))"

definition diff_role_creates :: "role_graph \<Rightarrow> role_graph \<Rightarrow> change list" where
  "diff_role_creates current desired =
     concat (map (\<lambda>(name, st). if contains_key (rg_roles current) name then [] else [CreateRole name st])
       (bt_entries (rg_roles desired)))"

definition role_alters :: "role_graph \<Rightarrow> string \<times> role_state \<Rightarrow> change list" where
  "role_alters current = (\<lambda>(name, desired_state).
     case fmlookup (rg_roles current) name of
       None \<Rightarrow> if rs_config desired_state \<noteq> fmempty
               then [AlterRole name (set_config_attributes desired_state)] else []
     | Some current_state \<Rightarrow>
         (let attribute_changes = changed_attributes current_state desired_state in
          if attribute_changes \<noteq> [] then [AlterRole name attribute_changes] else []) @
         (if rs_comment current_state \<noteq> rs_comment desired_state
          then [SetComment name (rs_comment desired_state)] else []))"

definition diff_role_alters :: "role_graph \<Rightarrow> role_graph \<Rightarrow> change list" where
  "diff_role_alters current desired = concat (map (role_alters current) (bt_entries (rg_roles desired)))"

definition diff_role_drops :: "role_graph \<Rightarrow> role_graph \<Rightarrow> change list" where
  "diff_role_drops current desired =
     map DropRole (filter (\<lambda>name. \<not> contains_key (rg_roles desired) name) (bt_keys (rg_roles current)))"


section \<open>Schemas\<close>

definition schema_changes :: "role_graph \<Rightarrow> string \<times> schema_state \<Rightarrow> change list" where
  "schema_changes current = (\<lambda>(name, desired_state).
     case fmlookup (rg_schemas current) name of
       None \<Rightarrow> [CreateSchema name (ss_owner desired_state)]
     | Some current_state \<Rightarrow>
         (case ss_owner desired_state of
            Some owner \<Rightarrow>
              if ss_owner current_state \<noteq> Some owner then [AlterSchemaOwner name owner] else []
          | None \<Rightarrow> []))"

definition schema_grants :: "role_graph \<Rightarrow> string \<times> schema_state \<Rightarrow> change list" where
  "schema_grants current = (\<lambda>(name, desired_state).
     case (ss_owner desired_state, fmlookup (rg_schemas current) name) of
       (Some owner, Some current_state) \<Rightarrow>
         (let owner_changed = (ss_owner current_state \<noteq> ss_owner desired_state);
              expected_privileges = default_schema_owner_privileges owner;
              current_privileges = (if owner_changed then {||} else ss_owner_privileges current_state);
              missing_privileges = expected_privileges |-| current_privileges in
          if missing_privileges \<noteq> {||}
          then [EnsureSchemaOwnerPrivileges name owner missing_privileges] else [])
     | _ \<Rightarrow> [])"

definition diff_schema_changes :: "role_graph \<Rightarrow> role_graph \<Rightarrow> change list" where
  "diff_schema_changes current desired = concat (map (schema_changes current) (bt_entries (rg_schemas desired)))"

definition diff_schema_grants :: "role_graph \<Rightarrow> role_graph \<Rightarrow> change list" where
  "diff_schema_grants current desired = concat (map (schema_grants current) (bt_entries (rg_schemas desired)))"


section \<open>Grants\<close>

type_synonym selector = "grantee \<times> string option \<times> object_type"

definition selector_of_key :: "grant_key \<Rightarrow> selector" where
  "selector_of_key key = (gk_role key, gk_schema key, gk_object_type key)"

definition is_wildcard :: "grant_key \<Rightarrow> bool" where
  "is_wildcard key = (gk_name key = Some ''*'')"

definition wildcard_index :: "(grant_key, privilege btreeset) btreemap \<Rightarrow> (selector, privilege btreeset) btreemap" where
  "wildcard_index m =
     collect_map (map (\<lambda>(k, v). (selector_of_key k, v))
       (filter (\<lambda>(k, _). is_wildcard k \<and> gk_schema k \<noteq> None) (bt_entries m)))"

definition shadow_filter :: "role_graph \<Rightarrow> grant_key \<Rightarrow> privilege btreeset \<Rightarrow> privilege btreeset" where
  "shadow_filter desired key candidate =
     (if is_wildcard key then candidate
      else (candidate |-| get_or_default (wildcard_index (rg_grants desired)) (selector_of_key key))
             |-| get_or_default (wildcard_index (rg_grant_absences desired)) (selector_of_key key))"

definition diff_grants_added :: "role_graph \<Rightarrow> role_graph \<Rightarrow> change list" where
  "diff_grants_added current desired =
     concat (map (\<lambda>(key, desired_privileges).
         case fmlookup (rg_grants current) key of
           None \<Rightarrow> [change_grant key desired_privileges]
         | Some current_privileges \<Rightarrow>
             (let to_add = desired_privileges |-| current_privileges in
              if to_add \<noteq> {||} then [change_grant key to_add] else []))
       (bt_entries (rg_grants desired)))"

text \<open>A pair is emitted only for a non-empty set, as the source guards each \<open>extend\<close>.\<close>

definition pending_revoke :: "grant_key \<Rightarrow> privilege btreeset \<Rightarrow> (grant_key \<times> privilege btreeset) list" where
  "pending_revoke key privileges = (if privileges \<noteq> {||} then [(key, privileges)] else [])"

definition matched_revokes :: "role_graph \<Rightarrow> role_graph \<Rightarrow> (grant_key \<times> privilege btreeset) list" where
  "matched_revokes current desired =
     concat (map (\<lambda>(key, desired_privileges).
         case fmlookup (rg_grants current) key of
           None \<Rightarrow> []
         | Some current_privileges \<Rightarrow>
             if is_public (gk_role key) then []
             else if key |\<in>| rg_inherent_grants current then []
             else pending_revoke key (shadow_filter desired key (current_privileges |-| desired_privileges)))
       (bt_entries (rg_grants desired)))"

definition unmatched_revokes :: "role_graph \<Rightarrow> role_graph \<Rightarrow> (grant_key \<times> privilege btreeset) list" where
  "unmatched_revokes current desired =
     concat (map (\<lambda>(key, current_privileges).
         if contains_key (rg_grants desired) key \<or> is_public (gk_role key) then []
         else if key |\<in>| rg_inherent_grants current then []
         else pending_revoke key (shadow_filter desired key current_privileges))
       (bt_entries (rg_grants current)))"

definition scope_start :: "grant_key \<Rightarrow> grant_key" where
  "scope_start key = key\<lparr>gk_name := None\<rparr>"

definition in_scope :: "grant_key \<Rightarrow> grant_key \<Rightarrow> bool" where
  "in_scope key candidate =
     (gk_role candidate = gk_role key \<and> gk_object_type candidate = gk_object_type key \<and>
      gk_schema candidate = gk_schema key)"

text \<open>\<open>m.range(start..).take_while(|(k, _)| in_scope(k))\<close>.\<close>

definition scan_scope :: "grant_key \<Rightarrow> (grant_key, 'v) btreemap \<Rightarrow> (grant_key \<times> 'v) list" where
  "scan_scope key m = takeWhile (\<lambda>(k, _). in_scope key k) (range_from (scope_start key) m)"

definition held_privileges :: "role_graph \<Rightarrow> grant_key \<Rightarrow> privilege btreeset" where
  "held_privileges current key =
     (if is_wildcard key
      then union_all (map snd (filter (\<lambda>(k, _). \<not> k |\<in>| rg_inherent_grants current)
             (scan_scope key (rg_grants current))))
      else if key |\<in>| rg_inherent_grants current then {||}
      else get_or_default (rg_grants current) key)"

definition absence_revokes :: "role_graph \<Rightarrow> role_graph \<Rightarrow> (grant_key \<times> privilege btreeset) list" where
  "absence_revokes current desired =
     concat (map (\<lambda>(key, absent_privileges). pending_revoke key (absent_privileges |\<inter>| held_privileges current key))
       (bt_entries (rg_grant_absences desired)))"

definition pending_revokes :: "role_graph \<Rightarrow> role_graph \<Rightarrow> (grant_key, privilege btreeset) btreemap" where
  "pending_revokes current desired =
     fold (\<lambda>(key, privileges) revokes. entry_extend key privileges revokes)
       (matched_revokes current desired @ unmatched_revokes current desired @ absence_revokes current desired)
       fmempty"

text \<open>
  \<open>push_revokes_split_by_grantor\<close> calls itself once for each concrete object behind a wildcard. The
  targets of these calls are never wildcards, so the part after the wildcard branch is a function
  of its own.
\<close>

definition owner_transferred :: "role_graph \<Rightarrow> role_graph \<Rightarrow> grant_key \<Rightarrow> bool" where
  "owner_transferred current desired key =
     (gk_object_type key = Schema \<and>
      (case gk_name key of
         None \<Rightarrow> False
       | Some name \<Rightarrow>
           (case (fmlookup (rg_schemas current) name, fmlookup (rg_schemas desired) name) of
              (Some current_schema, Some desired_schema) \<Rightarrow>
                ss_owner desired_schema \<noteq> None \<and> ss_owner desired_schema \<noteq> ss_owner current_schema
            | _ \<Rightarrow> False)))"

definition push_revokes_entry :: "role_graph \<Rightarrow> role_graph \<Rightarrow> grant_key \<Rightarrow> privilege btreeset \<Rightarrow> change list" where
  "push_revokes_entry current desired key privileges =
     (if owner_transferred current desired key then [change_revoke key privileges None]
      else case fmlookup (rg_grant_entry_grantors current) key of
        None \<Rightarrow> [change_revoke key privileges None]
      | Some per_grantor \<Rightarrow>
          (let covered = union_all (map (\<lambda>(_, grantor_privileges). privileges |\<inter>| grantor_privileges) (bt_entries per_grantor));
               remainder = privileges |-| covered in
           concat (map (\<lambda>(grantor, grantor_privileges).
               let subset = privileges |\<inter>| grantor_privileges in
               if subset \<noteq> {||} then [change_revoke key subset (Some grantor)] else [])
             (bt_entries per_grantor)) @
           (if remainder \<noteq> {||} then [change_revoke key remainder None] else [])))"

definition concrete_targets :: "role_graph \<Rightarrow> grant_key \<Rightarrow> (grant_key, privilege btreeset) btreemap" where
  "concrete_targets current key =
     fold (\<lambda>(target, privileges) m. entry_extend target privileges m)
       (filter (\<lambda>(target, _). \<not> is_wildcard target)
          (map (\<lambda>(target, grantors). (target, union_all (map snd (bt_entries grantors))))
             (scan_scope key (rg_grant_entry_grantors current))
           @ scan_scope key (rg_grants current)))
       fmempty"

definition has_inherent :: "role_graph \<Rightarrow> grant_key \<Rightarrow> bool" where
  "has_inherent current key =
     (takeWhile (in_scope key) (range_from_set (scope_start key) (rg_inherent_grants current)) \<noteq> [])"

definition push_revokes_split_by_grantor ::
  "role_graph \<Rightarrow> role_graph \<Rightarrow> grant_key \<Rightarrow> privilege btreeset \<Rightarrow> change list" where
  "push_revokes_split_by_grantor current desired key privileges =
     (if is_wildcard key \<and> (concrete_targets current key \<noteq> fmempty \<or> has_inherent current key)
      then concat (map (\<lambda>(target, held).
             if target |\<in>| rg_inherent_grants current then []
             else (let subset = privileges |\<inter>| held in
                   if subset \<noteq> {||} then push_revokes_entry current desired target subset else []))
           (bt_entries (concrete_targets current key)))
      else push_revokes_entry current desired key privileges)"

definition diff_grants_revoked :: "role_graph \<Rightarrow> role_graph \<Rightarrow> change list" where
  "diff_grants_revoked current desired =
     concat (map (\<lambda>(key, privileges). push_revokes_split_by_grantor current desired key privileges)
       (bt_entries (pending_revokes current desired)))"


section \<open>Default privileges\<close>

definition builtin_defaults_for_new_owner :: "role_graph \<Rightarrow> role_graph \<Rightarrow> default_priv_key \<Rightarrow> privilege btreeset" where
  "builtin_defaults_for_new_owner current desired key =
     (if contains_key (rg_roles current) (dk_owner key) \<or> \<not> contains_key (rg_roles desired) (dk_owner key)
         \<or> dk_scope key \<noteq> Global \<or> \<not> is_public (dk_grantee key)
      then {||}
      else (case dk_on_type key of Function \<Rightarrow> {|Execute|} | Type \<Rightarrow> {|Usage|} | _ \<Rightarrow> {||}))"

definition diff_defaults_set :: "role_graph \<Rightarrow> role_graph \<Rightarrow> change list" where
  "diff_defaults_set current desired =
     concat (map (\<lambda>(key, desired_privileges).
         case fmlookup (rg_default_privileges current) key of
           None \<Rightarrow> [change_set_default key desired_privileges]
         | Some current_privileges \<Rightarrow>
             (let to_add = desired_privileges |-| current_privileges in
              if to_add \<noteq> {||} then [change_set_default key to_add] else []))
       (bt_entries (rg_default_privileges desired)))"

definition matched_default_revokes :: "role_graph \<Rightarrow> role_graph \<Rightarrow> (default_priv_key \<times> privilege btreeset) list" where
  "matched_default_revokes current desired =
     concat (map (\<lambda>(key, desired_privileges).
         case fmlookup (rg_default_privileges current) key of
           None \<Rightarrow> []
         | Some current_privileges \<Rightarrow>
             if is_public (dk_grantee key) then []
             else (let to_remove = current_privileges |-| desired_privileges in
                   if to_remove \<noteq> {||} then [(key, to_remove)] else []))
       (bt_entries (rg_default_privileges desired)))"

definition unmatched_default_revokes :: "role_graph \<Rightarrow> role_graph \<Rightarrow> (default_priv_key \<times> privilege btreeset) list" where
  "unmatched_default_revokes current desired =
     concat (map (\<lambda>(key, current_privileges).
         if contains_key (rg_default_privileges desired) key \<or> is_public (dk_grantee key) then []
         else [(key, current_privileges)])
       (bt_entries (rg_default_privileges current)))"

definition absence_default_revokes :: "role_graph \<Rightarrow> role_graph \<Rightarrow> (default_priv_key \<times> privilege btreeset) list" where
  "absence_default_revokes current desired =
     concat (map (\<lambda>(key, absent_privileges).
         let current_privileges =
               (case fmlookup (rg_default_privileges current) key of
                  Some privileges \<Rightarrow> privileges
                | None \<Rightarrow> builtin_defaults_for_new_owner current desired key);
             to_revoke = absent_privileges |\<inter>| current_privileges in
         if to_revoke \<noteq> {||} then [(key, to_revoke)] else [])
       (bt_entries (rg_default_privilege_absences desired)))"

definition diff_defaults_revoked :: "role_graph \<Rightarrow> role_graph \<Rightarrow> change list" where
  "diff_defaults_revoked current desired =
     map (\<lambda>(key, privileges). change_revoke_default key privileges)
       (bt_entries (fold (\<lambda>(key, privileges) revokes. entry_extend key privileges revokes)
          (matched_default_revokes current desired @ unmatched_default_revokes current desired
             @ absence_default_revokes current desired) fmempty))"


section \<open>Memberships\<close>

definition edge_map :: "membership_edge btreeset \<Rightarrow> (string \<times> string, membership_edge) btreemap" where
  "edge_map edges = collect_map (map (\<lambda>edge. ((me_role edge, me_member edge), edge)) (bt_elements edges))"

definition executor_authority :: "role_graph \<Rightarrow> string \<Rightarrow> string \<Rightarrow> string \<Rightarrow> bool" where
  "executor_authority current role member grantor = ((role, member, grantor) |\<in>| rg_executor_authority_edges current)"

definition remove_all_edges :: "role_graph \<Rightarrow> string \<Rightarrow> string \<Rightarrow> change list" where
  "remove_all_edges current role member =
     (case fmlookup (rg_membership_edge_grantors current) (role, member) of
        None \<Rightarrow> [RemoveMember role member None]
      | Some grantors \<Rightarrow>
          if grantors = {||} then [RemoveMember role member None]
          else map (\<lambda>grantor. RemoveMember role member (Some grantor))
                 (filter (\<lambda>grantor. \<not> executor_authority current role member grantor) (bt_elements grantors)))"

text \<open>\<open>cond.then_some(v)\<close>.\<close>

definition then_some :: "bool \<Rightarrow> 'a \<Rightarrow> 'a option" where
  "then_some b v = (if b then Some v else None)"

definition option_reduction :: "role_graph \<Rightarrow> membership_edge \<Rightarrow> membership_edge \<Rightarrow> string \<Rightarrow> change list" where
  "option_reduction current current_edge desired_edge grantor =
     (let role = me_role desired_edge; member = me_member desired_edge;
          live = Option.bind (fmlookup (rg_membership_edge_options current) (role, member)) (\<lambda>edges. fmlookup edges grantor);
          inherit = then_some (me_inherit current_edge \<and> \<not> me_inherit desired_edge \<and>
                      (case live of None \<Rightarrow> True | Some edge \<Rightarrow> mo_inherit edge)) False;
          admin = then_some (me_admin current_edge \<and> \<not> me_admin desired_edge \<and>
                      (case live of None \<Rightarrow> True | Some edge \<Rightarrow> mo_admin edge) \<and>
                      \<not> executor_authority current role member grantor) False in
      if inherit \<noteq> None \<or> admin \<noteq> None
      then [UpdateMemberOptions role member grantor inherit admin None] else [])"

definition edge_removals :: "role_graph \<Rightarrow> (string \<times> string) \<times> membership_edge \<Rightarrow> change list" where
  "edge_removals current = (\<lambda>((role, member), desired_edge).
     case fmlookup (edge_map (rg_memberships current)) (role, member) of
       None \<Rightarrow> []
     | Some current_edge \<Rightarrow>
         if me_inherit current_edge \<noteq> me_inherit desired_edge \<or> me_admin current_edge \<noteq> me_admin desired_edge
         then (case fmlookup (rg_membership_edge_grantors current) (role, member) of
                 Some grantors \<Rightarrow>
                   if grantors \<noteq> {||}
                   then concat (map (option_reduction current current_edge desired_edge) (bt_elements grantors))
                   else remove_all_edges current role member
               | None \<Rightarrow> remove_all_edges current role member)
         else [])"

definition edge_additions :: "role_graph \<Rightarrow> (string \<times> string) \<times> membership_edge \<Rightarrow> change list" where
  "edge_additions current = (\<lambda>((role, member), desired_edge).
     let add = AddMember (me_role desired_edge) (me_member desired_edge) (me_inherit desired_edge) (me_admin desired_edge) in
     case fmlookup (edge_map (rg_memberships current)) (role, member) of
       None \<Rightarrow> [add]
     | Some current_edge \<Rightarrow>
         if me_inherit current_edge \<noteq> me_inherit desired_edge \<or> me_admin current_edge \<noteq> me_admin desired_edge
         then (case fmlookup (rg_membership_edge_grantors current) (role, member) of
                 Some grantors \<Rightarrow>
                   (case bt_elements grantors of
                      first # _ \<Rightarrow>
                        (let inherit = then_some (\<not> me_inherit current_edge \<and> me_inherit desired_edge) True;
                             admin = then_some (\<not> me_admin current_edge \<and> me_admin desired_edge) True in
                         if inherit \<noteq> None \<or> admin \<noteq> None
                         then [UpdateMemberOptions role member first inherit admin None] else [])
                    | [] \<Rightarrow> [add])
               | None \<Rightarrow> [add])
         else [])"

definition diff_members_added :: "role_graph \<Rightarrow> role_graph \<Rightarrow> change list" where
  "diff_members_added current desired =
     concat (map (edge_additions current) (bt_entries (edge_map (rg_memberships desired))))"

definition diff_members_removed :: "role_graph \<Rightarrow> role_graph \<Rightarrow> change list" where
  "diff_members_removed current desired =
     concat (map (edge_removals current) (bt_entries (edge_map (rg_memberships desired)))) @
     concat (map (\<lambda>(role, member).
         if contains_key (edge_map (rg_memberships desired)) (role, member) then []
         else remove_all_edges current role member)
       (bt_keys (edge_map (rg_memberships current))))"


section \<open>The plan\<close>

definition incoming_owners :: "change list \<Rightarrow> (string \<times> string) list" where
  "incoming_owners changes =
     concat (map (\<lambda>change. case change of AlterSchemaOwner name owner \<Rightarrow> [(name, owner)] | _ \<Rightarrow> []) changes)"

definition keeps_revoke :: "(string \<times> string) list \<Rightarrow> change \<Rightarrow> bool" where
  "keeps_revoke incoming change =
     (case change of
        Revoke role privileges object_type schema name grantor \<Rightarrow>
          (case (object_type, name) of
             (Schema, Some schema_name) \<Rightarrow> (schema_name, grantee_as_str role) \<notin> set incoming
           | _ \<Rightarrow> True)
      | _ \<Rightarrow> True)"

text \<open>The body of \<open>diff\<close> once routine aliases have been resolved.\<close>

definition diff_resolved :: "role_graph \<Rightarrow> role_graph \<Rightarrow> change list" where
  "diff_resolved current desired =
     (let schema_out = diff_schema_changes current desired;
          revokes = diff_grants_revoked current desired;
          incoming = incoming_owners schema_out;
          revokes = (if incoming \<noteq> [] then filter (keeps_revoke incoming) revokes else revokes) in
      diff_role_creates current desired @
      diff_role_alters current desired @
      schema_out @
      diff_schema_grants current desired @
      diff_grants_added current desired @
      diff_defaults_set current desired @
      revokes @
      diff_members_removed current desired @
      diff_members_added current desired @
      diff_defaults_revoked current desired @
      diff_role_drops current desired)"

definition diff :: "role_graph \<Rightarrow> role_graph \<Rightarrow> change list" where
  "diff current desired =
     diff_resolved current (resolve_routine_aliases desired (rg_routine_aliases current))"

end
