(* ===== verification/Plan.thy ===== *)
theory Plan
  imports Diff
begin

text \<open>
  From a diff to the plan that is executed (\<open>crates/pgroles-core/src/diff.rs\<close>): reconciliation modes,
  role retirements, the filters for external roles and for roles that preserve undeclared grants,
  the warnings about absences no plan can enforce, and the injection of passwords.
\<close>

section \<open>Reconciliation modes\<close>

definition is_destructive :: "change \<Rightarrow> bool" where
  "is_destructive change =
     (case change of
        UpdateMemberOptions role member grantor inherit admin binding \<Rightarrow> inherit = Some False \<or> admin = Some False
      | AlterSchemaOwner _ _ \<Rightarrow> True
      | Revoke _ _ _ _ _ _ \<Rightarrow> True
      | RevokeDefaultPrivilege _ _ _ _ _ \<Rightarrow> True
      | RemoveMember _ _ _ \<Rightarrow> True
      | DropRole _ \<Rightarrow> True
      | DropOwned _ \<Rightarrow> True
      | ReassignOwned _ _ \<Rightarrow> True
      | TerminateSessions _ \<Rightarrow> True
      | _ \<Rightarrow> False)"

definition is_role_drop_or_retirement :: "change \<Rightarrow> bool" where
  "is_role_drop_or_retirement change =
     (case change of
        DropRole _ \<Rightarrow> True
      | DropOwned _ \<Rightarrow> True
      | ReassignOwned _ _ \<Rightarrow> True
      | TerminateSessions _ \<Rightarrow> True
      | _ \<Rightarrow> False)"

definition owner_transfers :: "change list \<Rightarrow> (string \<times> string) list" where
  "owner_transfers changes =
     concat (map (\<lambda>change. case change of AlterSchemaOwner name owner \<Rightarrow> [(name, owner)] | _ \<Rightarrow> []) changes)"

definition created_roles :: "change list \<Rightarrow> string list" where
  "created_roles changes = concat (map (\<lambda>change. case change of CreateRole name _ \<Rightarrow> [name] | _ \<Rightarrow> []) changes)"

text \<open>The first pass of \<open>filter_additive_changes\<close>: option updates lose their reductions.\<close>

definition additive_options :: "change \<Rightarrow> change option" where
  "additive_options change =
     (case change of
        UpdateMemberOptions role member grantor inherit admin binding \<Rightarrow>
          (let inherit' = (if inherit = Some False then None else inherit);
               admin' = (if admin = Some False then None else admin) in
           if inherit' = None \<and> admin' = None then None
           else Some (UpdateMemberOptions role member grantor inherit' admin' binding))
      | _ \<Rightarrow> Some change)"

fun is_set_config :: "role_attribute \<Rightarrow> bool" where
  "is_set_config (SetConfig _ _) = True"
| "is_set_config _ = False"

definition additive_keeps :: "(string \<times> string) list \<Rightarrow> string list \<Rightarrow> change \<Rightarrow> bool" where
  "additive_keeps skipped created change =
     (case change of
        EnsureSchemaOwnerPrivileges name owner _ \<Rightarrow> (name, owner) \<notin> set skipped
      | SetDefaultPrivilege owner scope _ _ _ \<Rightarrow>
          (case scope of SchemaScope schema \<Rightarrow> (schema, owner) \<notin> set skipped | Global \<Rightarrow> \<not> is_destructive change)
      | AlterRole name attributes \<Rightarrow> name \<in> set created \<and> list_all is_set_config attributes
      | SetComment _ _ \<Rightarrow> False
      | _ \<Rightarrow> \<not> is_destructive change)"

definition filter_additive_changes :: "change list \<Rightarrow> change list" where
  "filter_additive_changes changes =
     filter (additive_keeps (owner_transfers changes) (created_roles changes)) (List.map_filter additive_options changes)"

definition filter_changes :: "change list \<Rightarrow> reconciliation_mode \<Rightarrow> change list" where
  "filter_changes changes mode =
     (case mode of
        Authoritative \<Rightarrow> changes
      | Additive \<Rightarrow> filter_additive_changes changes
      | Adopt \<Rightarrow> filter (\<lambda>change. \<not> is_role_drop_or_retirement change) changes)"

definition adopt_schema_owner_transfers :: "reconciliation_mode \<Rightarrow> change list \<Rightarrow> (string \<times> string) list" where
  "adopt_schema_owner_transfers mode changes = (if mode \<noteq> Adopt then [] else owner_transfers changes)"

definition additive_ignores_absence_assertions :: "role_graph \<Rightarrow> reconciliation_mode \<Rightarrow> bool" where
  "additive_ignores_absence_assertions desired mode =
     (mode = Additive \<and>
      (rg_grant_absences desired \<noteq> fmempty \<or> rg_default_privilege_absences desired \<noteq> fmempty \<or>
       rg_exclusive_membership_roles desired \<noteq> {||}))"


section \<open>Retirements\<close>

definition retirement_by_role :: "role_retirement list \<Rightarrow> (string, role_retirement) btreemap" where
  "retirement_by_role retirements = collect_map (map (\<lambda>r. (rr_role r, r)) retirements)"

definition retirement_steps :: "string \<Rightarrow> role_retirement \<Rightarrow> change list" where
  "retirement_steps name r =
     (if rr_terminate_sessions r then [TerminateSessions name] else []) @
     (case rr_reassign_owned_to r of Some successor \<Rightarrow> [ReassignOwned name successor] | None \<Rightarrow> []) @
     (if rr_drop_owned r then [DropOwned name] else [])"

definition apply_role_retirements :: "change list \<Rightarrow> role_retirement list \<Rightarrow> change list" where
  "apply_role_retirements changes retirements =
     (if retirements = [] then changes
      else concat (map (\<lambda>change.
        (case change of
           DropRole name \<Rightarrow>
             (case fmlookup (retirement_by_role retirements) name of
                Some r \<Rightarrow> retirement_steps name r
              | None \<Rightarrow> [])
         | _ \<Rightarrow> []) @ [change]) changes))"


section \<open>External roles\<close>

definition external_roles :: "role_definition list \<Rightarrow> string list" where
  "external_roles roles = map rd_name (filter rd_external roles)"

definition exclusive_roles :: "membership list \<Rightarrow> string list" where
  "exclusive_roles memberships = map m_role (filter m_exclusive memberships)"

definition declared_edges :: "membership list \<Rightarrow> (string \<times> string) list" where
  "declared_edges memberships = concat (map (\<lambda>m. map (\<lambda>s. (m_role m, ms_name s)) (m_members m)) memberships)"

definition unmanaged :: "role_definition list \<Rightarrow> string \<Rightarrow> bool" where
  "unmanaged roles name = (name \<in> set (external_roles roles) \<or> is_predefined_role name)"

definition keeps_external :: "role_definition list \<Rightarrow> membership list \<Rightarrow> change \<Rightarrow> bool" where
  "keeps_external roles memberships change =
     (case change of
        CreateRole name _ \<Rightarrow> \<not> unmanaged roles name
      | AlterRole name _ \<Rightarrow> \<not> unmanaged roles name
      | SetComment name _ \<Rightarrow> \<not> unmanaged roles name
      | SetPassword name _ \<Rightarrow> \<not> unmanaged roles name
      | DropRole name \<Rightarrow> \<not> unmanaged roles name
      | TerminateSessions role \<Rightarrow> \<not> unmanaged roles role
      | DropOwned role \<Rightarrow> \<not> unmanaged roles role
      | ReassignOwned role _ \<Rightarrow> \<not> unmanaged roles role
      | AddMember role member _ _ \<Rightarrow> \<not> unmanaged roles role \<or> (role, member) \<in> set (declared_edges memberships)
      | UpdateMemberOptions role member _ _ _ _ \<Rightarrow>
          \<not> unmanaged roles role \<or> (role, member) \<in> set (declared_edges memberships)
      | RemoveMember role member _ \<Rightarrow>
          \<not> unmanaged roles role \<or> (role, member) \<in> set (declared_edges memberships)
            \<or> (role \<in> set (exclusive_roles memberships) \<and> \<not> is_predefined_role member)
      | _ \<Rightarrow> True)"

definition filter_external_role_changes :: "change list \<Rightarrow> role_definition list \<Rightarrow> membership list \<Rightarrow> change list" where
  "filter_external_role_changes changes roles memberships = filter (keeps_external roles memberships) changes"


section \<open>Preserved grants\<close>

definition preserved_roles :: "role_definition list \<Rightarrow> string list" where
  "preserved_roles roles = map rd_name (filter rd_preserve_undeclared_grants roles)"

text \<open>What is left of a revoke against a preserved role: its asserted absences.\<close>

definition enforced_revokes :: "role_graph \<Rightarrow> grant_key \<Rightarrow> privilege btreeset \<Rightarrow> string option \<Rightarrow> change list" where
  "enforced_revokes desired key privileges grantor =
     (let wildcard_enforced = privileges |\<inter>| get_or_default (rg_grant_absences desired) (key\<lparr>gk_name := Some ''*''\<rparr>) in
      if gk_name key \<noteq> Some ''*''
      then (let enforced = wildcard_enforced |\<union>| (privileges |\<inter>| get_or_default (rg_grant_absences desired) key) in
            if enforced \<noteq> {||} then [change_revoke key enforced grantor] else [])
      else (if wildcard_enforced \<noteq> {||} then [change_revoke key wildcard_enforced grantor] else []) @
        concat (map (\<lambda>(absence_key, absent).
            if gk_role absence_key \<noteq> gk_role key \<or> gk_object_type absence_key \<noteq> gk_object_type key
               \<or> gk_schema absence_key \<noteq> gk_schema key \<or> gk_name absence_key \<in> {None, Some ''*''}
            then []
            else (let exact = (privileges |\<inter>| absent) |-| wildcard_enforced in
                  if exact \<noteq> {||} then [change_revoke (key\<lparr>gk_name := gk_name absence_key\<rparr>) exact grantor] else []))
          (bt_entries (rg_grant_absences desired))))"

definition preserve_revoke :: "string list \<Rightarrow> role_graph \<Rightarrow> change \<Rightarrow> change list" where
  "preserve_revoke preserved desired change =
     (case change of
        Revoke role privileges object_type schema name grantor \<Rightarrow>
          if grantee_as_str role \<notin> set preserved then [change]
          else enforced_revokes desired (grant_key_of role object_type schema name) privileges grantor
      | _ \<Rightarrow> [change])"

definition filter_preserved_grant_revokes :: "change list \<Rightarrow> role_definition list \<Rightarrow> role_graph \<Rightarrow> change list" where
  "filter_preserved_grant_revokes changes roles desired =
     (if preserved_roles roles = [] then changes
      else concat (map (preserve_revoke (preserved_roles roles) desired) changes))"


section \<open>The plan\<close>

definition plan_changes ::
  "role_graph \<Rightarrow> role_graph \<Rightarrow> policy_manifest \<Rightarrow> expanded_manifest \<Rightarrow> reconciliation_mode \<Rightarrow> change list" where
  "plan_changes current desired manifest expanded mode =
     (let desired = resolve_routine_aliases desired (rg_routine_aliases current);
          changes = apply_role_retirements (diff current desired) (pm_retirements manifest);
          changes = filter_changes changes mode;
          changes = filter_external_role_changes changes (em_roles expanded) (em_memberships expanded) in
      filter_preserved_grant_revokes changes (em_roles expanded) desired)"

text \<open>The dash of the warning texts, in UTF-8.\<close>

definition em_dash :: string where
  "em_dash = [CHR 0xE2, CHR 0x80, CHR 0x94]"

definition unenforceable_absence_warnings :: "role_graph \<Rightarrow> role_graph \<Rightarrow> string list" where
  "unenforceable_absence_warnings current desired =
     (let desired = resolve_routine_aliases desired (rg_routine_aliases current) in
      concat (map (\<lambda>(key, absent).
        if gk_name key = Some ''*''
        then (if list_ex (\<lambda>(held_key, privileges). held_key |\<in>| rg_inherent_grants current \<and> privileges |\<inter>| absent \<noteq> {||})
                   (scan_scope key (rg_grants current))
              then [''ensure: absent of '' @ format_privileges absent @ '' on '' @ show_object_type (gk_object_type key)
                      @ '' '' @ dq (case gk_schema key of Some schema \<Rightarrow> schema | None \<Rightarrow> []) @ ''.'' @ dq ''*'' @ '' for ''
                      @ dq (grantee_as_str (gk_role key)) @ '' cannot be fully enforced '' @ em_dash
                      @ '' the grantee owns some covered objects, so those privileges are inherent'']
              else [])
        else if key |\<in>| rg_inherent_grants current \<and>
                (case fmlookup (rg_grants current) key of Some privileges \<Rightarrow> privileges |\<inter>| absent \<noteq> {||} | None \<Rightarrow> False)
        then [''ensure: absent of '' @ format_privileges absent @ '' on '' @ show_object_type (gk_object_type key)
                @ '' for '' @ dq (grantee_as_str (gk_role key)) @ '' cannot be enforced '' @ em_dash
                @ '' the grantee owns the object, so those privileges are inherent'']
        else [])
      (bt_entries (rg_grant_absences desired))))"


section \<open>Passwords\<close>

datatype password_resolution_error = MissingEnvVar string string | EmptyPassword string string

text \<open>\<open>env\<close> is \<open>std::env::var\<close>; \<open>None\<close> is its error.\<close>

definition resolve_password ::
  "(string \<Rightarrow> string option) \<Rightarrow> role_definition \<Rightarrow> (string, string) btreemap \<Rightarrow>
   password_resolution_error + (string, string) btreemap" where
  "resolve_password env role resolved =
     (if rd_external role then Inr resolved
      else case rd_password role of
        None \<Rightarrow> Inr resolved
      | Some from_env \<Rightarrow>
          (case env from_env of
             None \<Rightarrow> Inl (MissingEnvVar (rd_name role) from_env)
           | Some value \<Rightarrow>
               if value = [] then Inl (EmptyPassword (rd_name role) from_env)
               else Inr (fmupd (rd_name role) value resolved)))"

definition resolve_passwords ::
  "(string \<Rightarrow> string option) \<Rightarrow> role_definition list \<Rightarrow> password_resolution_error + (string, string) btreemap" where
  "resolve_passwords env roles = fold_r (resolve_password env) roles fmempty"

text \<open>
  \<open>verifier name password\<close> is the SCRAM verifier \<open>compute_verifier\<close> returns for that role; its salt is
  random, so it is a parameter of the role as well.
\<close>

definition inject_password_changes ::
  "(string \<Rightarrow> string \<Rightarrow> string) \<Rightarrow> change list \<Rightarrow> (string, string) btreemap \<Rightarrow> change list" where
  "inject_password_changes verifier changes resolved_passwords =
     (if resolved_passwords = fmempty then changes
      else concat (map (\<lambda>change. change #
             (case change of
                CreateRole name _ \<Rightarrow>
                  (case fmlookup resolved_passwords name of
                     Some password \<Rightarrow> [SetPassword name (verifier name password)]
                   | None \<Rightarrow> [])
              | _ \<Rightarrow> [])) changes) @
           concat (map (\<lambda>(role_name, password).
             if role_name \<in> set (created_roles changes) then []
             else [SetPassword role_name (verifier role_name password)]) (bt_entries resolved_passwords)))"

end
