(* ===== verification/Apply.thy ===== *)
theory Apply
  imports Diff
begin

text \<open>
  The pure-data meaning of a plan, as the repository's own property tests give it
  (\<open>apply_attribute\<close> and \<open>apply_changes\<close> of \<open>crates/pgroles-core/tests/diff_property.rs\<close>). A panic of
  the interpreter is \<open>None\<close>: an alteration of an absent role or schema, or a change \<open>diff\<close> is not
  meant to emit for graphs without grantor attribution.

  Each field of the graph is changed by its own effect function, so that the run of a plan can be
  followed one field at a time.
\<close>

section \<open>The interpreter\<close>

fun apply_attribute :: "role_attribute \<Rightarrow> role_state \<Rightarrow> role_state" where
  "apply_attribute (Login v) st = st\<lparr>rs_login := v\<rparr>"
| "apply_attribute (Superuser v) st = st\<lparr>rs_superuser := v\<rparr>"
| "apply_attribute (Createdb v) st = st\<lparr>rs_createdb := v\<rparr>"
| "apply_attribute (Createrole v) st = st\<lparr>rs_createrole := v\<rparr>"
| "apply_attribute (Inherit v) st = st\<lparr>rs_inherit := v\<rparr>"
| "apply_attribute (Replication v) st = st\<lparr>rs_replication := v\<rparr>"
| "apply_attribute (Bypassrls v) st = st\<lparr>rs_bypassrls := v\<rparr>"
| "apply_attribute (ConnectionLimit v) st = st\<lparr>rs_connection_limit := v\<rparr>"
| "apply_attribute (ValidUntil v) st = st\<lparr>rs_password_valid_until := v\<rparr>"
| "apply_attribute (SetConfig k v) st = st\<lparr>rs_config := fmupd k v (rs_config st)\<rparr>"
| "apply_attribute (ResetConfig k) st = st\<lparr>rs_config := fmdrop k (rs_config st)\<rparr>"

text \<open>Removing privileges from an entry; an emptied entry disappears.\<close>

definition remove_privileges :: "'k \<Rightarrow> 'a btreeset \<Rightarrow> ('k, 'a btreeset) btreemap \<Rightarrow> ('k, 'a btreeset) btreemap" where
  "remove_privileges k ps m =
     (case fmlookup m k of
        None \<Rightarrow> m
      | Some held \<Rightarrow> if held |-| ps = {||} then fmdrop k m else fmupd k (held |-| ps) m)"

definition affected_keys :: "grant_key \<Rightarrow> (grant_key, grant_state) btreemap \<Rightarrow> grant_key list" where
  "affected_keys key grants =
     (if gk_name key = Some ''*'' then filter (in_scope key) (bt_keys grants) else [key])"

definition retain_other_edges :: "string \<Rightarrow> string \<Rightarrow> membership_edge btreeset \<Rightarrow> membership_edge btreeset" where
  "retain_other_edges role member edges = ffilter (\<lambda>e. \<not> (me_role e = role \<and> me_member e = member)) edges"

fun apply_change :: "change \<Rightarrow> role_graph \<Rightarrow> role_graph option" where
  "apply_change (CreateRole name st) g = Some (g\<lparr>rg_roles := fmupd name st (rg_roles g)\<rparr>)"
| "apply_change (AlterRole name attributes) g =
     (case fmlookup (rg_roles g) name of
        None \<Rightarrow> None
      | Some st \<Rightarrow> Some (g\<lparr>rg_roles := fmupd name (fold apply_attribute attributes st) (rg_roles g)\<rparr>))"
| "apply_change (SetComment name comment) g =
     (case fmlookup (rg_roles g) name of
        None \<Rightarrow> None
      | Some st \<Rightarrow> Some (g\<lparr>rg_roles := fmupd name (st\<lparr>rs_comment := comment\<rparr>) (rg_roles g)\<rparr>))"
| "apply_change (DropRole name) g = Some (g\<lparr>rg_roles := fmdrop name (rg_roles g)\<rparr>)"
| "apply_change (CreateSchema name owner) g =
     Some (g\<lparr>rg_schemas := fmupd name
        \<lparr>ss_owner = owner,
         ss_owner_privileges = (case owner of Some o' \<Rightarrow> default_schema_owner_privileges o' | None \<Rightarrow> {||})\<rparr>
        (rg_schemas g)\<rparr>)"
| "apply_change (AlterSchemaOwner name owner) g =
     (case fmlookup (rg_schemas g) name of
        None \<Rightarrow> None
      | Some st \<Rightarrow> Some (g\<lparr>rg_schemas := fmupd name (st\<lparr>ss_owner := Some owner, ss_owner_privileges := {|Create, Usage|}\<rparr>) (rg_schemas g),
                            rg_grants := fmdrop (grant_key_of (Role owner) Schema None (Some name)) (rg_grants g)\<rparr>))"
| "apply_change (EnsureSchemaOwnerPrivileges name owner privileges) g =
     (case fmlookup (rg_schemas g) name of
        None \<Rightarrow> None
      | Some st \<Rightarrow> Some (g\<lparr>rg_schemas := fmupd name
                    (st\<lparr>ss_owner_privileges := ss_owner_privileges st |\<union>| privileges\<rparr>) (rg_schemas g)\<rparr>))"
| "apply_change (Grant role privileges object_type schema name) g =
     Some (g\<lparr>rg_grants := entry_extend (grant_key_of role object_type schema name) privileges (rg_grants g)\<rparr>)"
| "apply_change (Revoke role privileges object_type schema name grantor) g =
     Some (g\<lparr>rg_grants := fold (\<lambda>key. remove_privileges key privileges)
        (affected_keys (grant_key_of role object_type schema name) (rg_grants g)) (rg_grants g)\<rparr>)"
| "apply_change (SetDefaultPrivilege owner scope on_type grantee privileges) g =
     Some (g\<lparr>rg_default_privileges := entry_extend (default_key owner scope on_type grantee) privileges (rg_default_privileges g)\<rparr>)"
| "apply_change (RevokeDefaultPrivilege owner scope on_type grantee privileges) g =
     Some (g\<lparr>rg_default_privileges := remove_privileges (default_key owner scope on_type grantee) privileges (rg_default_privileges g)\<rparr>)"
| "apply_change (AddMember role member inherit admin) g =
     Some (g\<lparr>rg_memberships := finsert
        \<lparr>me_role = role, me_member = member, me_inherit = inherit, me_admin = admin\<rparr>
        (retain_other_edges role member (rg_memberships g))\<rparr>)"
| "apply_change (RemoveMember role member grantor) g =
     Some (g\<lparr>rg_memberships := retain_other_edges role member (rg_memberships g)\<rparr>)"
| "apply_change (UpdateMemberOptions role member grantor inherit admin binding) g = None"
| "apply_change (SetPassword name password) g = None"
| "apply_change (ReassignOwned from_role to_role) g = None"
| "apply_change (DropOwned role) g = None"
| "apply_change (TerminateSessions role) g = None"

fun apply_changes :: "role_graph \<Rightarrow> change list \<Rightarrow> role_graph option" where
  "apply_changes g [] = Some g"
| "apply_changes g (c # cs) = (case apply_change c g of None \<Rightarrow> None | Some g' \<Rightarrow> apply_changes g' cs)"


section \<open>Effects, one field at a time\<close>

fun eff_roles :: "change \<Rightarrow> (string, role_state) btreemap \<Rightarrow> (string, role_state) btreemap" where
  "eff_roles (CreateRole name st) m = fmupd name st m"
| "eff_roles (AlterRole name attributes) m =
     (case fmlookup m name of None \<Rightarrow> m | Some st \<Rightarrow> fmupd name (fold apply_attribute attributes st) m)"
| "eff_roles (SetComment name comment) m =
     (case fmlookup m name of None \<Rightarrow> m | Some st \<Rightarrow> fmupd name (st\<lparr>rs_comment := comment\<rparr>) m)"
| "eff_roles (DropRole name) m = fmdrop name m"
| "eff_roles _ m = m"

fun eff_schemas :: "change \<Rightarrow> (string, schema_state) btreemap \<Rightarrow> (string, schema_state) btreemap" where
  "eff_schemas (CreateSchema name owner) m =
     fmupd name \<lparr>ss_owner = owner,
       ss_owner_privileges = (case owner of Some o' \<Rightarrow> default_schema_owner_privileges o' | None \<Rightarrow> {||})\<rparr> m"
| "eff_schemas (AlterSchemaOwner name owner) m =
     (case fmlookup m name of None \<Rightarrow> m
      | Some st \<Rightarrow> fmupd name (st\<lparr>ss_owner := Some owner, ss_owner_privileges := {|Create, Usage|}\<rparr>) m)"
| "eff_schemas (EnsureSchemaOwnerPrivileges name owner privileges) m =
     (case fmlookup m name of None \<Rightarrow> m
      | Some st \<Rightarrow> fmupd name (st\<lparr>ss_owner_privileges := ss_owner_privileges st |\<union>| privileges\<rparr>) m)"
| "eff_schemas _ m = m"

fun eff_grants :: "change \<Rightarrow> (grant_key, grant_state) btreemap \<Rightarrow> (grant_key, grant_state) btreemap" where
  "eff_grants (AlterSchemaOwner name owner) m = fmdrop (grant_key_of (Role owner) Schema None (Some name)) m"
| "eff_grants (Grant role privileges object_type schema name) m =
     entry_extend (grant_key_of role object_type schema name) privileges m"
| "eff_grants (Revoke role privileges object_type schema name grantor) m =
     fold (\<lambda>key. remove_privileges key privileges) (affected_keys (grant_key_of role object_type schema name) m) m"
| "eff_grants _ m = m"

fun eff_defaults :: "change \<Rightarrow> (default_priv_key, default_priv_state) btreemap \<Rightarrow> (default_priv_key, default_priv_state) btreemap" where
  "eff_defaults (SetDefaultPrivilege owner scope on_type grantee privileges) m =
     entry_extend (default_key owner scope on_type grantee) privileges m"
| "eff_defaults (RevokeDefaultPrivilege owner scope on_type grantee privileges) m =
     remove_privileges (default_key owner scope on_type grantee) privileges m"
| "eff_defaults _ m = m"

fun eff_members :: "change \<Rightarrow> membership_edge btreeset \<Rightarrow> membership_edge btreeset" where
  "eff_members (AddMember role member inherit admin) m =
     finsert \<lparr>me_role = role, me_member = member, me_inherit = inherit, me_admin = admin\<rparr> (retain_other_edges role member m)"
| "eff_members (RemoveMember role member grantor) m = retain_other_edges role member m"
| "eff_members _ m = m"

definition effect :: "change \<Rightarrow> role_graph \<Rightarrow> role_graph" where
  "effect c g =
     g\<lparr>rg_roles := eff_roles c (rg_roles g), rg_schemas := eff_schemas c (rg_schemas g),
       rg_grants := eff_grants c (rg_grants g), rg_default_privileges := eff_defaults c (rg_default_privileges g),
       rg_memberships := eff_members c (rg_memberships g)\<rparr>"

text \<open>When the interpreter does not panic on a change.\<close>

fun applicable :: "change \<Rightarrow> role_graph \<Rightarrow> bool" where
  "applicable (AlterRole name attributes) g = contains_key (rg_roles g) name"
| "applicable (SetComment name comment) g = contains_key (rg_roles g) name"
| "applicable (AlterSchemaOwner name owner) g = contains_key (rg_schemas g) name"
| "applicable (EnsureSchemaOwnerPrivileges name owner privileges) g = contains_key (rg_schemas g) name"
| "applicable (UpdateMemberOptions role member grantor inherit admin binding) g = False"
| "applicable (SetPassword name password) g = False"
| "applicable (ReassignOwned from_role to_role) g = False"
| "applicable (DropOwned role) g = False"
| "applicable (TerminateSessions role) g = False"
| "applicable _ g = True"

lemma apply_change_effect: "apply_change c g = (if applicable c g then Some (effect c g) else None)"
  by (cases c) (auto simp: effect_def contains_key_def split: option.splits)

definition run :: "change list \<Rightarrow> role_graph \<Rightarrow> role_graph" where
  "run cs g = fold effect cs g"

lemma run_Nil [simp]: "run [] g = g"
  by (simp add: run_def)

lemma run_Cons [simp]: "run (c # cs) g = run cs (effect c g)"
  by (simp add: run_def)

lemma run_append [simp]: "run (xs @ ys) g = run ys (run xs g)"
  by (simp add: run_def)

lemma effect_fields [simp]:
  "rg_roles (effect c g) = eff_roles c (rg_roles g)"
  "rg_schemas (effect c g) = eff_schemas c (rg_schemas g)"
  "rg_grants (effect c g) = eff_grants c (rg_grants g)"
  "rg_default_privileges (effect c g) = eff_defaults c (rg_default_privileges g)"
  "rg_memberships (effect c g) = eff_members c (rg_memberships g)"
  "rg_inherent_grants (effect c g) = rg_inherent_grants g"
  "rg_routine_aliases (effect c g) = rg_routine_aliases g"
  "rg_membership_edge_grantors (effect c g) = rg_membership_edge_grantors g"
  "rg_grant_entry_grantors (effect c g) = rg_grant_entry_grantors g"
  by (simp_all add: effect_def)

lemma run_fields [simp]:
  "rg_roles (run cs g) = fold eff_roles cs (rg_roles g)"
  "rg_schemas (run cs g) = fold eff_schemas cs (rg_schemas g)"
  "rg_grants (run cs g) = fold eff_grants cs (rg_grants g)"
  "rg_default_privileges (run cs g) = fold eff_defaults cs (rg_default_privileges g)"
  "rg_memberships (run cs g) = fold eff_members cs (rg_memberships g)"
  "rg_inherent_grants (run cs g) = rg_inherent_grants g"
  "rg_routine_aliases (run cs g) = rg_routine_aliases g"
  "rg_membership_edge_grantors (run cs g) = rg_membership_edge_grantors g"
  "rg_grant_entry_grantors (run cs g) = rg_grant_entry_grantors g"
  by (induction cs arbitrary: g) simp_all

text \<open>A plan runs through when every change of it is applicable where it is reached.\<close>

fun applicable_run :: "change list \<Rightarrow> role_graph \<Rightarrow> bool" where
  "applicable_run [] g = True"
| "applicable_run (c # cs) g = (applicable c g \<and> applicable_run cs (effect c g))"

lemma apply_changes_run: "apply_changes g cs = (if applicable_run cs g then Some (run cs g) else None)"
  by (induction cs arbitrary: g) (auto simp: apply_change_effect)

lemma applicable_run_append [simp]:
  "applicable_run (xs @ ys) g \<longleftrightarrow> applicable_run xs g \<and> applicable_run ys (run xs g)"
  by (induction xs arbitrary: g) auto

text \<open>Only \<open>DropRole\<close> makes a role disappear, and no change makes a schema disappear.\<close>

lemma effect_keeps_roles:
  "\<forall>name. c \<noteq> DropRole name \<Longrightarrow> contains_key (rg_roles g) n \<Longrightarrow> contains_key (rg_roles (effect c g)) n"
  by (cases c) (auto split: option.splits)

lemma effect_keeps_schemas: "contains_key (rg_schemas g) n \<Longrightarrow> contains_key (rg_schemas (effect c g)) n"
  by (cases c) (auto split: option.splits)

lemma applicable_mono:
  "applicable c g \<Longrightarrow> (\<And>n. contains_key (rg_roles g) n \<Longrightarrow> contains_key (rg_roles h) n) \<Longrightarrow>
     (\<And>n. contains_key (rg_schemas g) n \<Longrightarrow> contains_key (rg_schemas h) n) \<Longrightarrow> applicable c h"
  by (cases c) auto

lemma applicable_runI:
  assumes "\<forall>c\<in>set cs. applicable c g" and "\<forall>c\<in>set cs. \<forall>name. c \<noteq> DropRole name"
  shows "applicable_run cs g"
  using assms
proof (induction cs arbitrary: g)
  case (Cons c cs)
  have "applicable c' (effect c g)" if "c' \<in> set cs" for c'
    using Cons.prems that applicable_mono[of c' g "effect c g"] effect_keeps_roles[of c g] effect_keeps_schemas[of g _ c]
    by auto
  then show ?case using Cons by auto
qed simp


section \<open>Adding and removing privileges by key\<close>

lemma get_or_default_fmdrop [simp]:
  "get_or_default (fmdrop k m) k' = (if k = k' then {||} else get_or_default m k')"
  by (simp add: get_or_default_def)

lemma get_or_default_remove [simp]:
  "get_or_default (remove_privileges k ps m) k' =
     (if k = k' then get_or_default m k |-| ps else get_or_default m k')"
  by (auto simp: remove_privileges_def get_or_default_def split: option.splits)

lemma lookup_remove_privileges:
  "fmlookup (remove_privileges k ps m) k' =
     (if k \<noteq> k' then fmlookup m k'
      else case fmlookup m k of None \<Rightarrow> None | Some held \<Rightarrow> if held |-| ps = {||} then None else Some (held |-| ps))"
  by (auto simp: remove_privileges_def split: option.splits)

text \<open>
  Grants and default privileges are both maps from keys to privilege sets that a plan changes by
  additions and removals at one key. The laws of the two kinds of change are all that the run of a
  plan needs.
\<close>

locale privilege_changes =
  fixes eff :: "'c \<Rightarrow> ('k, 'a btreeset) btreemap \<Rightarrow> ('k, 'a btreeset) btreemap"
    and add :: "'k \<Rightarrow> 'a btreeset \<Rightarrow> 'c"
    and remove :: "'k \<Rightarrow> 'a btreeset \<Rightarrow> 't \<Rightarrow> 'c"
    and plain :: "'k \<Rightarrow> bool"
  assumes eff_add: "eff (add k ps) m = entry_extend k ps m"
    and eff_remove: "plain k \<Longrightarrow> eff (remove k ps t) m = remove_privileges k ps m"
    and add_inject: "add k ps = add k' ps' \<longleftrightarrow> k = k' \<and> ps = ps'"
    and remove_inject: "remove k ps t = remove k' ps' t' \<longleftrightarrow> k = k' \<and> ps = ps' \<and> t = t'"
begin

text \<open>What a list of changes adds to a key, and what it removes from it.\<close>

definition added :: "'c list \<Rightarrow> 'k \<Rightarrow> 'a set" where
  "added cs k = (\<Union>ps\<in>{ps. add k ps \<in> set cs}. fset ps)"

definition removed :: "'c list \<Rightarrow> 'k \<Rightarrow> 'a set" where
  "removed cs k = (\<Union>ps\<in>{ps. \<exists>t. remove k ps t \<in> set cs}. fset ps)"

lemma added_Cons: "added (add k' ps # cs) k = (if k' = k then fset ps else {}) \<union> added cs k"
  by (auto simp: added_def add_inject)

lemma removed_Cons: "removed (remove k' ps t # cs) k = (if k' = k then fset ps else {}) \<union> removed cs k"
  by (auto simp: removed_def remove_inject)

lemma removed_append [simp]: "removed (xs @ ys) k = removed xs k \<union> removed ys k"
  by (auto simp: removed_def)

lemma removed_concat: "removed (concat xss) k = (\<Union>xs\<in>set xss. removed xs k)"
  by (auto simp: removed_def)

lemma removed_Nil [simp]: "removed [] k = {}"
  by (simp add: removed_def)

lemma run_additions:
  assumes "\<forall>c\<in>set cs. \<exists>k ps. c = add k ps"
  shows "fset (get_or_default (fold eff cs m) k) = fset (get_or_default m k) \<union> added cs k"
  using assms
proof (induction cs arbitrary: m)
  case (Cons c cs)
  then obtain k' ps where c: "c = add k' ps" by auto
  show ?case using Cons by (auto simp: c eff_add added_Cons)
qed (simp add: added_def)

lemma run_additions_key:
  assumes "\<forall>c\<in>set cs. \<exists>k ps. c = add k ps"
  shows "contains_key (fold eff cs m) k \<longleftrightarrow> contains_key m k \<or> (\<exists>ps. add k ps \<in> set cs)"
  using assms
proof (induction cs arbitrary: m)
  case (Cons c cs)
  then obtain k' ps where c: "c = add k' ps" by auto
  show ?case using Cons by (auto simp: c eff_add add_inject)
qed simp

lemma run_removals:
  assumes "\<forall>c\<in>set cs. \<exists>k ps t. c = remove k ps t \<and> plain k"
  shows "fset (get_or_default (fold eff cs m) k) = fset (get_or_default m k) - removed cs k"
  using assms
proof (induction cs arbitrary: m)
  case (Cons c cs)
  then obtain k' ps t where c: "c = remove k' ps t" "plain k'" by auto
  show ?case using Cons by (auto simp: c eff_remove removed_Cons)
qed (simp add: removed_def)

text \<open>A removal that empties an entry deletes it, so no removal leaves an empty entry behind.\<close>

lemma run_removals_no_empty:
  assumes "\<forall>c\<in>set cs. \<exists>k ps t. c = remove k ps t \<and> plain k"
    and "\<forall>k. fmlookup m k \<noteq> Some {||}"
  shows "fmlookup (fold eff cs m) k \<noteq> Some {||}"
  using assms
proof (induction cs arbitrary: m)
  case (Cons c cs)
  then obtain k' ps t where c: "c = remove k' ps t" "plain k'" by auto
  have "\<forall>k. fmlookup (eff c m) k \<noteq> Some {||}"
    using Cons.prems(2) c by (auto simp: eff_remove lookup_remove_privileges split: option.splits)
  then show ?case using Cons by simp
qed simp

lemma run_additions_no_empty:
  assumes "\<forall>c\<in>set cs. \<exists>k ps. c = add k ps \<and> ps \<noteq> {||}"
    and "\<forall>k. fmlookup m k \<noteq> Some {||}"
  shows "fmlookup (fold eff cs m) k \<noteq> Some {||}"
  using assms
proof (induction cs arbitrary: m)
  case (Cons c cs)
  then obtain k' ps where c: "c = add k' ps" "ps \<noteq> {||}" by auto
  have "\<forall>k. fmlookup (eff c m) k \<noteq> Some {||}"
    using Cons.prems(2) c by (auto simp: eff_add entry_extend_def)
  then show ?case using Cons by simp
qed simp

end

lemma affected_keys_plain: "\<not> is_wildcard k \<Longrightarrow> affected_keys k m = [k]"
  by (simp add: affected_keys_def is_wildcard_def)

interpretation grant_changes: privilege_changes eff_grants change_grant change_revoke "\<lambda>k. \<not> is_wildcard k"
  by unfold_locales
    (auto simp: change_grant_def change_revoke_def affected_keys_plain intro: grant_key.equality)

interpretation default_changes: privilege_changes eff_defaults change_set_default
    "\<lambda>k ps (_ :: unit). change_revoke_default k ps" "\<lambda>_. True"
  by unfold_locales
    (auto simp: change_set_default_def change_revoke_default_def intro: default_priv_key.equality)

lemma no_empty_eqI:
  assumes "\<And>k. fset (get_or_default m k) = fset (get_or_default n k)"
    and "\<forall>k. fmlookup m k \<noteq> Some {||}" and "\<forall>k. fmlookup n k \<noteq> Some {||}"
  shows "m = n"
proof (rule btreemap_eqI)
  fix k
  have "get_or_default m k = get_or_default n k" using assms(1) by (simp add: fset_inject)
  then show "fmlookup m k = fmlookup n k"
    using assms(2,3) by (auto simp: get_or_default_def split: option.splits)
qed


section \<open>Changes that update one key\<close>

text \<open>
  The effect of a change on a map is pointwise: what it leaves at a key depends only on what was at
  that key. A run of changes is then followed key by key.
\<close>

lemma fold_unchanged: "(\<And>c. c \<in> set cs \<Longrightarrow> f c x = x) \<Longrightarrow> fold f cs x = x"
  by (induction cs) auto

locale pointwise_effect =
  fixes eff :: "'c \<Rightarrow> 's \<Rightarrow> 's"
    and upd :: "'c \<Rightarrow> 'k \<Rightarrow> 'v \<Rightarrow> 'v"
    and view :: "'s \<Rightarrow> 'k \<Rightarrow> 'v"
  assumes pointwise: "view (eff c s) k = upd c k (view s k)"
begin

lemma run_pointwise: "view (fold eff cs s) k = fold (\<lambda>c. upd c k) cs (view s k)"
  by (induction cs arbitrary: s) (simp_all add: pointwise)

text \<open>
  A phase of the plan that visits each key of a map once and changes only the key it visits.
\<close>

lemma run_keyed:
  assumes distinct: "distinct (map fst xs)"
    and local: "\<And>k' v c x. (k', v) \<in> set xs \<Longrightarrow> k' \<noteq> k \<Longrightarrow> c \<in> set (f (k', v)) \<Longrightarrow> upd c k x = x"
  shows "view (fold eff (concat (map f xs)) s) k =
    (case map_of xs k of None \<Rightarrow> view s k | Some v \<Rightarrow> fold (\<lambda>c. upd c k) (f (k, v)) (view s k))"
  using assms
proof (induction xs arbitrary: s)
  case (Cons p xs)
  obtain k' v where p: "p = (k', v)" by (cases p)
  have IH: "view (fold eff (concat (map f xs)) s') k =
      (case map_of xs k of None \<Rightarrow> view s' k | Some v \<Rightarrow> fold (\<lambda>c. upd c k) (f (k, v)) (view s' k))" for s'
    by (rule Cons.IH) (use Cons.prems in auto)
  have other: "k' \<noteq> k \<Longrightarrow> fold (\<lambda>c. upd c k) (f (k', v)) x = x" for x
    using Cons.prems(2)[of k' v] p by (intro fold_unchanged) auto
  have "k' = k \<Longrightarrow> map_of xs k = None"
    using Cons.prems(1) p by (auto simp: map_of_eq_None_iff)
  then show ?case
    using run_pointwise[of "f (k', v)" s k] by (auto simp: p IH other split: option.splits)
qed simp

end

fun upd_role :: "change \<Rightarrow> string \<Rightarrow> role_state option \<Rightarrow> role_state option" where
  "upd_role (CreateRole name st) k v = (if name = k then Some st else v)"
| "upd_role (AlterRole name attributes) k v = (if name = k then map_option (fold apply_attribute attributes) v else v)"
| "upd_role (SetComment name comment) k v = (if name = k then map_option (\<lambda>st. st\<lparr>rs_comment := comment\<rparr>) v else v)"
| "upd_role (DropRole name) k v = (if name = k then None else v)"
| "upd_role _ k v = v"

fun upd_schema :: "change \<Rightarrow> string \<Rightarrow> schema_state option \<Rightarrow> schema_state option" where
  "upd_schema (CreateSchema name owner) k v =
     (if name = k then Some \<lparr>ss_owner = owner,
       ss_owner_privileges = (case owner of Some o' \<Rightarrow> default_schema_owner_privileges o' | None \<Rightarrow> {||})\<rparr> else v)"
| "upd_schema (AlterSchemaOwner name owner) k v =
     (if name = k then map_option (\<lambda>st. st\<lparr>ss_owner := Some owner, ss_owner_privileges := {|Create, Usage|}\<rparr>) v else v)"
| "upd_schema (EnsureSchemaOwnerPrivileges name owner privileges) k v =
     (if name = k then map_option (\<lambda>st. st\<lparr>ss_owner_privileges := ss_owner_privileges st |\<union>| privileges\<rparr>) v else v)"
| "upd_schema _ k v = v"

text \<open>A membership is identified by its role and its member; a change replaces the edges of one pair.\<close>

definition edges_of :: "membership_edge btreeset \<Rightarrow> string \<times> string \<Rightarrow> membership_edge set" where
  "edges_of edges p = {e \<in> fset edges. (me_role e, me_member e) = p}"

fun upd_edges :: "change \<Rightarrow> string \<times> string \<Rightarrow> membership_edge set \<Rightarrow> membership_edge set" where
  "upd_edges (AddMember role member inherit admin) p v =
     (if (role, member) = p
      then {\<lparr>me_role = role, me_member = member, me_inherit = inherit, me_admin = admin\<rparr>} else v)"
| "upd_edges (RemoveMember role member grantor) p v = (if (role, member) = p then {} else v)"
| "upd_edges _ p v = v"

interpretation role_changes: pointwise_effect eff_roles upd_role fmlookup
proof
  show "fmlookup (eff_roles c m) k = upd_role c k (fmlookup m k)" for c m k
    by (cases c) (auto split: option.splits)
qed

interpretation schema_changes: pointwise_effect eff_schemas upd_schema fmlookup
proof
  show "fmlookup (eff_schemas c m) k = upd_schema c k (fmlookup m k)" for c m k
    by (cases c) (auto split: option.splits)
qed

interpretation member_changes: pointwise_effect eff_members upd_edges edges_of
proof
  show "edges_of (eff_members c m) p = upd_edges c p (edges_of m p)" for c m p
    by (cases c; cases p) (auto simp: edges_of_def retain_other_edges_def)
qed

end
