(* ===== verification/Phases.thy ===== *)
theory Phases
  imports Apply
begin

text \<open>
  What each phase of \<open>diff\<close> emits, and with it which phases change which field of the graph. The
  convergence proofs of the fields start from these facts.
\<close>

section \<open>The phases of a plan\<close>

definition kept_revokes :: "role_graph \<Rightarrow> role_graph \<Rightarrow> change list" where
  "kept_revokes current desired =
     filter (keeps_revoke (incoming_owners (diff_schema_changes current desired))) (diff_grants_revoked current desired)"

lemma keeps_revoke_Nil [simp]: "keeps_revoke [] c"
  by (auto simp: keeps_revoke_def split: change.splits object_type.splits option.splits)

lemma diff_resolved_phases:
  "diff_resolved c d =
     diff_role_creates c d @ diff_role_alters c d @ diff_schema_changes c d @ diff_schema_grants c d @
     diff_grants_added c d @ diff_defaults_set c d @ kept_revokes c d @ diff_members_removed c d @
     diff_members_added c d @ diff_defaults_revoked c d @ diff_role_drops c d"
proof -
  have "filter (keeps_revoke []) xs = xs" for xs by (simp add: filter_id_conv)
  then show ?thesis by (simp add: diff_resolved_def kept_revokes_def Let_def)
qed


section \<open>Pending revokes as a map\<close>

definition extend_all :: "('k \<times> 'a btreeset) list \<Rightarrow> ('k, 'a btreeset) btreemap" where
  "extend_all xs = fold (\<lambda>(k, s) m. entry_extend k s m) xs fmempty"

lemma fset_extend_all: "fset (get_or_default (extend_all xs) k) = (\<Union>s\<in>{s. (k, s) \<in> set xs}. fset s)"
proof -
  have "fset (get_or_default (fold (\<lambda>(k, s) m. entry_extend k s m) xs m) k) =
      fset (get_or_default m k) \<union> (\<Union>s\<in>{s. (k, s) \<in> set xs}. fset s)" for m
    by (induction xs arbitrary: m) (auto split: if_splits)
  then show ?thesis by (simp add: extend_all_def)
qed

lemma contains_extend_all: "contains_key (extend_all xs) k \<longleftrightarrow> k \<in> fst ` set xs"
proof -
  have "contains_key (fold (\<lambda>(k, s) m. entry_extend k s m) xs m) k \<longleftrightarrow> contains_key m k \<or> k \<in> fst ` set xs" for m
    by (induction xs arbitrary: m) auto
  then show ?thesis by (simp add: extend_all_def)
qed

lemma lookup_extend_all:
  "fmlookup (extend_all xs) k = Some s \<Longrightarrow> fset s = (\<Union>s\<in>{s. (k, s) \<in> set xs}. fset s) \<and> k \<in> fst ` set xs"
  using fset_extend_all[of xs k] contains_extend_all[of xs k] by (simp add: get_or_default_def contains_key_def)

lemma fset_get_or_default: "fset (get_or_default m k) = (\<Union>s\<in>{s. fmlookup m k = Some s}. fset s)"
  by (auto simp: get_or_default_def split: option.splits)


section \<open>What a phase emits\<close>

lemma in_concat_entries:
  "x \<in> set (concat (map f (bt_entries m))) \<longleftrightarrow> (\<exists>k v. fmlookup m k = Some v \<and> x \<in> set (f (k, v)))"
  by (force simp: in_bt_entries_iff[symmetric] simp del: in_bt_entries_iff)

lemma role_creates_shape:
  "x \<in> set (diff_role_creates c d) \<longleftrightarrow>
     (\<exists>n st. x = CreateRole n st \<and> fmlookup (rg_roles d) n = Some st \<and> \<not> contains_key (rg_roles c) n)"
  unfolding diff_role_creates_def in_concat_entries by auto

lemma role_alters_shape:
  assumes "x \<in> set (role_alters c (n, st))"
  shows "(\<exists>attributes. x = AlterRole n attributes) \<or> x = SetComment n (rs_comment st)"
  using assms by (auto simp: role_alters_def Let_def split: option.splits if_splits)

lemma diff_role_alters_shape:
  assumes "x \<in> set (diff_role_alters c d)"
  shows "\<exists>n. contains_key (rg_roles d) n \<and> ((\<exists>attributes. x = AlterRole n attributes) \<or> (\<exists>comment. x = SetComment n comment))"
proof -
  obtain n st where n: "fmlookup (rg_roles d) n = Some st" "x \<in> set (role_alters c (n, st))"
    using assms by (auto simp: diff_role_alters_def)
  then have "contains_key (rg_roles d) n" by (simp add: contains_key_def)
  then show ?thesis using role_alters_shape[OF n(2)] by blast
qed

lemma role_drops_shape:
  "x \<in> set (diff_role_drops c d) \<longleftrightarrow>
     (\<exists>n. x = DropRole n \<and> contains_key (rg_roles c) n \<and> \<not> contains_key (rg_roles d) n)"
  by (auto simp: diff_role_drops_def)

lemma schema_changes_shape:
  assumes "x \<in> set (diff_schema_changes c d)"
  shows "\<exists>n st. fmlookup (rg_schemas d) n = Some st \<and>
     (x = CreateSchema n (ss_owner st) \<and> \<not> contains_key (rg_schemas c) n \<or>
      (\<exists>owner st'. x = AlterSchemaOwner n owner \<and> ss_owner st = Some owner \<and>
         fmlookup (rg_schemas c) n = Some st' \<and> ss_owner st' \<noteq> Some owner))"
  using assms by (auto simp: diff_schema_changes_def schema_changes_def contains_key_def split: option.splits if_splits)

lemma schema_grants_shape:
  assumes "x \<in> set (diff_schema_grants c d)"
  shows "\<exists>n owner privileges. x = EnsureSchemaOwnerPrivileges n owner privileges \<and> contains_key (rg_schemas c) n"
  using assms by (auto simp: diff_schema_grants_def schema_grants_def Let_def contains_key_def split: option.splits if_splits)

lemma grants_added_shape:
  "x \<in> set (diff_grants_added c d) \<longleftrightarrow>
     (\<exists>k ps. x = change_grant k (ps |-| get_or_default (rg_grants c) k) \<and> fmlookup (rg_grants d) k = Some ps \<and>
        (contains_key (rg_grants c) k \<longrightarrow> ps |-| get_or_default (rg_grants c) k \<noteq> {||}))"
proof -
  let ?emit = "\<lambda>k ps. case fmlookup (rg_grants c) k of None \<Rightarrow> [change_grant k ps]
     | Some held \<Rightarrow> (let to_add = ps |-| held in if to_add \<noteq> {||} then [change_grant k to_add] else [])"
  have "x \<in> set (?emit k ps) \<longleftrightarrow> x = change_grant k (ps |-| get_or_default (rg_grants c) k) \<and>
      (contains_key (rg_grants c) k \<longrightarrow> ps |-| get_or_default (rg_grants c) k \<noteq> {||})" for k ps
    by (cases "fmlookup (rg_grants c) k") (auto simp: get_or_default_def contains_key_def Let_def)
  then show ?thesis unfolding diff_grants_added_def in_concat_entries prod.case by blast
qed

lemma defaults_set_shape:
  "x \<in> set (diff_defaults_set c d) \<longleftrightarrow>
     (\<exists>k ps. x = change_set_default k (ps |-| get_or_default (rg_default_privileges c) k) \<and>
        fmlookup (rg_default_privileges d) k = Some ps \<and>
        (contains_key (rg_default_privileges c) k \<longrightarrow> ps |-| get_or_default (rg_default_privileges c) k \<noteq> {||}))"
proof -
  let ?emit = "\<lambda>k ps. case fmlookup (rg_default_privileges c) k of None \<Rightarrow> [change_set_default k ps]
     | Some held \<Rightarrow> (let to_add = ps |-| held in if to_add \<noteq> {||} then [change_set_default k to_add] else [])"
  have "x \<in> set (?emit k ps) \<longleftrightarrow> x = change_set_default k (ps |-| get_or_default (rg_default_privileges c) k) \<and>
      (contains_key (rg_default_privileges c) k \<longrightarrow> ps |-| get_or_default (rg_default_privileges c) k \<noteq> {||})" for k ps
    by (cases "fmlookup (rg_default_privileges c) k") (auto simp: get_or_default_def contains_key_def Let_def)
  then show ?thesis unfolding diff_defaults_set_def in_concat_entries prod.case by blast
qed

lemma push_revokes_entry_shape:
  "x \<in> set (push_revokes_entry c d k ps) \<Longrightarrow> \<exists>ps' t. x = change_revoke k ps' t \<and> ps' |\<subseteq>| ps"
  by (auto simp: push_revokes_entry_def Let_def split: option.splits if_splits)

lemma grants_revoked_shape:
  "x \<in> set (diff_grants_revoked c d) \<Longrightarrow> \<exists>k ps t. x = change_revoke k ps t"
  by (auto simp: diff_grants_revoked_def push_revokes_split_by_grantor_def Let_def
      dest!: push_revokes_entry_shape split: if_splits)

lemma defaults_revoked_shape:
  "x \<in> set (diff_defaults_revoked c d) \<Longrightarrow> \<exists>k ps. x = change_revoke_default k ps"
  by (auto simp: diff_defaults_revoked_def)

lemma remove_all_edges_shape:
  "x \<in> set (remove_all_edges c role member) \<Longrightarrow> \<exists>grantor. x = RemoveMember role member grantor"
  by (auto simp: remove_all_edges_def split: option.splits if_splits)

lemma option_reduction_shape:
  "x \<in> set (option_reduction c e e' grantor) \<Longrightarrow>
     \<exists>inherit admin. x = UpdateMemberOptions (me_role e') (me_member e') grantor inherit admin None"
  by (auto simp: option_reduction_def Let_def split: if_splits)

lemma members_removed_shape:
  assumes "x \<in> set (diff_members_removed c d)"
  shows "(\<exists>role member grantor. x = RemoveMember role member grantor) \<or>
    (\<exists>role member grantor inherit admin. x = UpdateMemberOptions role member grantor inherit admin None)"
proof -
  consider role member e where "x \<in> set (edge_removals c ((role, member), e))" | role member where "x \<in> set (remove_all_edges c role member)"
    using assms by (auto simp: diff_members_removed_def split: if_splits)
  then show ?thesis
    by cases (auto simp: edge_removals_def split: option.splits if_splits dest!: remove_all_edges_shape option_reduction_shape)
qed

lemma members_added_shape:
  assumes "x \<in> set (diff_members_added c d)"
  shows "(\<exists>role member inherit admin. x = AddMember role member inherit admin) \<or>
    (\<exists>role member grantor inherit admin. x = UpdateMemberOptions role member grantor inherit admin None)"
proof -
  obtain role member e where "x \<in> set (edge_additions c ((role, member), e))"
    using assms unfolding diff_members_added_def in_concat_entries by auto
  then show ?thesis
    by (auto simp: edge_additions_def Let_def split: option.splits if_splits list.splits)
qed

lemma kept_revokes_shape: "x \<in> set (kept_revokes c d) \<Longrightarrow> \<exists>k ps t. x = change_revoke k ps t"
  using grants_revoked_shape by (auto simp: kept_revokes_def)

lemmas phase_shapes = diff_role_alters_shape schema_changes_shape schema_grants_shape
  grants_revoked_shape kept_revokes_shape defaults_revoked_shape members_removed_shape members_added_shape

lemmas phase_shape_iffs = role_creates_shape role_drops_shape grants_added_shape defaults_set_shape

lemmas change_constructor_defs = change_grant_def change_revoke_def change_set_default_def change_revoke_default_def


section \<open>Which phases change a field\<close>

lemma run_roles:
  "fold eff_roles (diff_resolved c d) m =
     fold eff_roles (diff_role_drops c d) (fold eff_roles (diff_role_alters c d) (fold eff_roles (diff_role_creates c d) m))"
proof -
  have "fold eff_roles (diff_schema_changes c d) m = m" "fold eff_roles (diff_schema_grants c d) m = m"
    "fold eff_roles (diff_grants_added c d) m = m" "fold eff_roles (diff_defaults_set c d) m = m"
    "fold eff_roles (kept_revokes c d) m = m" "fold eff_roles (diff_members_removed c d) m = m"
    "fold eff_roles (diff_members_added c d) m = m" "fold eff_roles (diff_defaults_revoked c d) m = m" for m
    by (rule fold_unchanged; auto simp: phase_shape_iffs change_constructor_defs dest!: phase_shapes)+
  then show ?thesis by (simp add: diff_resolved_phases)
qed

lemma run_schemas:
  "fold eff_schemas (diff_resolved c d) m = fold eff_schemas (diff_schema_grants c d) (fold eff_schemas (diff_schema_changes c d) m)"
proof -
  have "fold eff_schemas (diff_role_creates c d) m = m" "fold eff_schemas (diff_role_alters c d) m = m"
    "fold eff_schemas (diff_grants_added c d) m = m" "fold eff_schemas (diff_defaults_set c d) m = m"
    "fold eff_schemas (kept_revokes c d) m = m" "fold eff_schemas (diff_members_removed c d) m = m"
    "fold eff_schemas (diff_members_added c d) m = m" "fold eff_schemas (diff_defaults_revoked c d) m = m"
    "fold eff_schemas (diff_role_drops c d) m = m" for m
    by (rule fold_unchanged; auto simp: phase_shape_iffs change_constructor_defs dest!: phase_shapes)+
  then show ?thesis by (simp add: diff_resolved_phases)
qed

lemma run_grants:
  "fold eff_grants (diff_resolved c d) m =
     fold eff_grants (kept_revokes c d) (fold eff_grants (diff_grants_added c d) (fold eff_grants (diff_schema_changes c d) m))"
proof -
  have "fold eff_grants (diff_role_creates c d) m = m" "fold eff_grants (diff_role_alters c d) m = m"
    "fold eff_grants (diff_schema_grants c d) m = m" "fold eff_grants (diff_defaults_set c d) m = m"
    "fold eff_grants (diff_members_removed c d) m = m" "fold eff_grants (diff_members_added c d) m = m"
    "fold eff_grants (diff_defaults_revoked c d) m = m" "fold eff_grants (diff_role_drops c d) m = m" for m
    by (rule fold_unchanged; auto simp: phase_shape_iffs change_constructor_defs dest!: phase_shapes)+
  then show ?thesis by (simp add: diff_resolved_phases)
qed

lemma run_defaults:
  "fold eff_defaults (diff_resolved c d) m =
     fold eff_defaults (diff_defaults_revoked c d) (fold eff_defaults (diff_defaults_set c d) m)"
proof -
  have "fold eff_defaults (diff_role_creates c d) m = m" "fold eff_defaults (diff_role_alters c d) m = m"
    "fold eff_defaults (diff_schema_changes c d) m = m" "fold eff_defaults (diff_schema_grants c d) m = m"
    "fold eff_defaults (diff_grants_added c d) m = m" "fold eff_defaults (kept_revokes c d) m = m"
    "fold eff_defaults (diff_members_removed c d) m = m" "fold eff_defaults (diff_members_added c d) m = m"
    "fold eff_defaults (diff_role_drops c d) m = m" for m
    by (rule fold_unchanged; auto simp: phase_shape_iffs change_constructor_defs dest!: phase_shapes)+
  then show ?thesis by (simp add: diff_resolved_phases)
qed

lemma run_members:
  "fold eff_members (diff_resolved c d) m =
     fold eff_members (diff_members_added c d) (fold eff_members (diff_members_removed c d) m)"
proof -
  have "fold eff_members (diff_role_creates c d) m = m" "fold eff_members (diff_role_alters c d) m = m"
    "fold eff_members (diff_schema_changes c d) m = m" "fold eff_members (diff_schema_grants c d) m = m"
    "fold eff_members (diff_grants_added c d) m = m" "fold eff_members (kept_revokes c d) m = m"
    "fold eff_members (diff_defaults_set c d) m = m" "fold eff_members (diff_defaults_revoked c d) m = m"
    "fold eff_members (diff_role_drops c d) m = m" for m
    by (rule fold_unchanged; auto simp: phase_shape_iffs change_constructor_defs dest!: phase_shapes)+
  then show ?thesis by (simp add: diff_resolved_phases)
qed

end
