(* ===== verification/RolesConverge.thy ===== *)
theory RolesConverge
  imports Phases
begin

text \<open>
  Roles and schemas reach the desired state whatever the two graphs are: \<open>changed_attributes\<close> is an
  exact difference of two attribute sets, and the create, alter and drop phases of \<open>diff\<close> visit each
  role once. The plan never reaches an alteration of a role or schema that does not exist.
\<close>

section \<open>Attribute differences\<close>

lemma fold_set_config:
  "fold apply_attribute (map (\<lambda>(k, v). SetConfig k v) ps) st =
     st\<lparr>rs_config := fold (\<lambda>(k, v) m. fmupd k v m) ps (rs_config st)\<rparr>"
  by (induction ps arbitrary: st) auto

lemma fold_reset_config:
  "fold apply_attribute (map ResetConfig ks) st = st\<lparr>rs_config := fold fmdrop ks (rs_config st)\<rparr>"
  by (induction ks arbitrary: st) auto

lemma lookup_fold_fmdrop: "fmlookup (fold fmdrop ks m) k = (if k \<in> set ks then None else fmlookup m k)"
  by (induction ks arbitrary: m) auto

definition config_sets :: "role_state \<Rightarrow> role_state \<Rightarrow> (string \<times> string) list" where
  "config_sets self other = filter (\<lambda>(k, v). fmlookup (rs_config self) k \<noteq> Some v) (bt_entries (rs_config other))"

definition config_resets :: "role_state \<Rightarrow> role_state \<Rightarrow> string list" where
  "config_resets self other = filter (\<lambda>k. \<not> contains_key (rs_config other) k) (bt_keys (rs_config self))"

lemma config_comprehensions:
  "[SetConfig parameter value. (parameter, value) \<leftarrow> xs, fmlookup m parameter \<noteq> Some value] =
     map (\<lambda>(k, v). SetConfig k v) (filter (\<lambda>(k, v). fmlookup m k \<noteq> Some v) xs)"
  "[ResetConfig parameter. parameter \<leftarrow> ks, \<not> contains_key n parameter] =
     map ResetConfig (filter (\<lambda>k. \<not> contains_key n k) ks)"
  by (induction xs; force) (induction ks; simp)

lemma map_of_filter_distinct:
  assumes "distinct (map fst entries)"
  shows "map_of (filter keep entries) key = Option.bind (map_of entries key) (\<lambda>v. if keep (key, v) then Some v else None)"
  using assms by (induction entries) (auto simp: map_of_eq_None_iff image_iff split: prod.splits)

lemma config_update:
  "fold fmdrop (config_resets self other) (fold (\<lambda>(k, v) m. fmupd k v m) (config_sets self other) (rs_config self)) = rs_config other"
proof (rule btreemap_eqI)
  fix k
  have "map_of (rev (config_sets self other)) k = map_of (config_sets self other) k"
    by (rule fun_cong, rule map_of_inject_set[THEN iffD2])
      (auto simp: config_sets_def rev_map rev_filter distinct_map_filter simp flip: rev_filter rev_map)
  also have "\<dots> = (case fmlookup (rs_config other) k of None \<Rightarrow> None
      | Some v \<Rightarrow> if fmlookup (rs_config self) k \<noteq> Some v then Some v else None)"
    by (auto simp: config_sets_def map_of_filter_distinct split: option.splits Option.bind_splits)
  finally show "fmlookup (fold fmdrop (config_resets self other)
      (fold (\<lambda>(k, v) m. fmupd k v m) (config_sets self other) (rs_config self))) k = fmlookup (rs_config other) k"
    by (auto simp: lookup_fold_fmdrop fold_fmupd_lookup config_resets_def contains_key_def split: option.splits)
qed

text \<open>The attributes \<open>changed_attributes\<close> lists turn one state into the other, all but the comment.\<close>

lemma changed_attributes_apply:
  "fold apply_attribute (changed_attributes self other) self = other\<lparr>rs_comment := rs_comment self\<rparr>"
proof -
  have scalars: "fold apply_attribute (if a then [x] else []) st = (if a then apply_attribute x st else st)" for a x st
    by simp
  have "fold apply_attribute (map (\<lambda>(k, v). SetConfig k v) (config_sets self other) @ map ResetConfig (config_resets self other)) st
      = st\<lparr>rs_config := rs_config other\<rparr>" if "rs_config st = rs_config self" for st
    using that config_update[of self other] by (simp add: fold_set_config fold_reset_config)
  then show ?thesis
    unfolding changed_attributes_def config_comprehensions
    by (auto simp: scalars config_sets_def config_resets_def intro!: role_state.equality)
qed

lemma changed_attributes_Nil_iff:
  "changed_attributes self other = [] \<longleftrightarrow> other\<lparr>rs_comment := rs_comment self\<rparr> = self"
proof
  assume "changed_attributes self other = []"
  then show "other\<lparr>rs_comment := rs_comment self\<rparr> = self"
    using changed_attributes_apply[of self other] by simp
next
  assume "other\<lparr>rs_comment := rs_comment self\<rparr> = self"
  then obtain "other = self\<lparr>rs_comment := rs_comment other\<rparr>" by (cases self; cases other) simp
  then have eq: "rs_login other = rs_login self" "rs_superuser other = rs_superuser self"
    "rs_createdb other = rs_createdb self" "rs_createrole other = rs_createrole self"
    "rs_inherit other = rs_inherit self" "rs_replication other = rs_replication self"
    "rs_bypassrls other = rs_bypassrls self" "rs_connection_limit other = rs_connection_limit self"
    "rs_password_valid_until other = rs_password_valid_until self" "rs_config other = rs_config self"
    by (cases self; cases other; simp)+
  show "changed_attributes self other = []"
    unfolding changed_attributes_def config_comprehensions eq by (auto simp: filter_empty_conv)
qed


section \<open>Roles\<close>

lemma role_alters_local:
  "k' \<noteq> k \<Longrightarrow> x \<in> set (role_alters c (k', st)) \<Longrightarrow> upd_role x k v = v"
  by (auto dest!: role_alters_shape)

lemma fold_apply_set_config: "fold apply_attribute (set_config_attributes st) st = st"
proof -
  have "fold (\<lambda>(k, v) m. fmupd k v m) (bt_entries (rs_config st)) (rs_config st) = rs_config st"
  proof (rule btreemap_eqI)
    fix k
    have "map_of (rev (bt_entries (rs_config st))) k = fmlookup (rs_config st) k"
      by (subst map_of_inject_set[THEN iffD2, of _ "bt_entries (rs_config st)"]) (simp_all add: rev_map[symmetric])
    then show "fmlookup (fold (\<lambda>(k, v) m. fmupd k v m) (bt_entries (rs_config st)) (rs_config st)) k = fmlookup (rs_config st) k"
      by (simp add: fold_fmupd_lookup split: option.splits)
  qed
  then show ?thesis by (simp add: set_config_attributes_def fold_set_config)
qed

lemma roles_after_creates:
  "fmlookup (fold eff_roles (diff_role_creates c d) (rg_roles c)) k =
     (case fmlookup (rg_roles c) k of Some st \<Rightarrow> Some st | None \<Rightarrow> fmlookup (rg_roles d) k)"
  unfolding diff_role_creates_def
  by (subst role_changes.run_keyed) (auto simp: contains_key_def split: option.splits if_splits)

lemma roles_after_alters:
  "fmlookup (fold eff_roles (diff_role_alters c d) (fold eff_roles (diff_role_creates c d) (rg_roles c))) k =
     (case fmlookup (rg_roles d) k of Some st \<Rightarrow> Some st | None \<Rightarrow> fmlookup (rg_roles c) k)"
proof -
  have "fold (\<lambda>x. upd_role x k) (role_alters c (k, st)) (case fmlookup (rg_roles c) k of Some st \<Rightarrow> Some st | None \<Rightarrow> Some st) = Some st" for st
  proof (cases "fmlookup (rg_roles c) k")
    case None
    then show ?thesis by (simp add: role_alters_def fold_apply_set_config)
  next
    case (Some st')
    let ?as = "changed_attributes st' st"
    have altered: "fold (\<lambda>x. upd_role x k) (if ?as \<noteq> [] then [AlterRole k ?as] else []) (Some st') =
        Some (st\<lparr>rs_comment := rs_comment st'\<rparr>)"
      using changed_attributes_apply[of st' st] by (cases ?as) simp_all
    have "st\<lparr>rs_comment := rs_comment st\<rparr> = st" by simp
    then show ?thesis
      using altered Some by (cases "rs_comment st' = rs_comment st") (simp_all add: role_alters_def Let_def)
  qed
  then show ?thesis
    unfolding diff_role_alters_def
    by (subst role_changes.run_keyed)
      (auto simp: roles_after_creates role_alters_local split: option.splits)
qed

lemma upd_role_drops:
  "fold (\<lambda>x. upd_role x k) (map DropRole ns) v = (if k \<in> set ns then None else v)"
  by (induction ns arbitrary: v) auto

lemma roles_converge: "fold eff_roles (diff_resolved c d) (rg_roles c) = rg_roles d"
proof (rule btreemap_eqI)
  fix k
  have "fmlookup (fold eff_roles (diff_role_drops c d) m) k =
      (if contains_key (rg_roles c) k \<and> \<not> contains_key (rg_roles d) k then None else fmlookup m k)" for m
    by (simp add: role_changes.run_pointwise diff_role_drops_def upd_role_drops)
  then show "fmlookup (fold eff_roles (diff_resolved c d) (rg_roles c)) k = fmlookup (rg_roles d) k"
    by (auto simp: run_roles roles_after_alters contains_key_def split: option.splits)
qed


section \<open>Schemas\<close>

text \<open>
  Schemas are never dropped. A schema that is declared gets the declared owner when there is one,
  and its owner then holds at least the default owner privileges.
\<close>

definition merged_schema :: "schema_state option \<Rightarrow> schema_state option \<Rightarrow> schema_state option" where
  "merged_schema current desired =
     (case (current, desired) of
        (c, None) \<Rightarrow> c
      | (None, Some d) \<Rightarrow> Some (d\<lparr>ss_owner_privileges :=
           (case ss_owner d of None \<Rightarrow> {||} | Some owner \<Rightarrow> default_schema_owner_privileges owner)\<rparr>)
      | (Some c, Some d) \<Rightarrow>
          (case ss_owner d of
             None \<Rightarrow> Some c
           | Some owner \<Rightarrow> Some \<lparr>ss_owner = Some owner,
               ss_owner_privileges = (if ss_owner c = Some owner then ss_owner_privileges c else {||})
                 |\<union>| default_schema_owner_privileges owner\<rparr>))"

lemma schema_changes_local:
  "k' \<noteq> k \<Longrightarrow> x \<in> set (schema_changes c (k', st)) \<Longrightarrow> upd_schema x k v = v"
  "k' \<noteq> k \<Longrightarrow> x \<in> set (schema_grants c (k', st)) \<Longrightarrow> upd_schema x k v = v"
  by (auto simp: schema_changes_def schema_grants_def Let_def split: option.splits if_splits)

lemma schemas_after:
  "fmlookup (fold eff_schemas (diff_resolved c d) (rg_schemas c)) k =
     merged_schema (fmlookup (rg_schemas c) k) (fmlookup (rg_schemas d) k)"
proof -
  let ?v = "fmlookup (rg_schemas c) k"
  have "fold (\<lambda>x. upd_schema x k) (schema_grants c (k, st)) (fold (\<lambda>x. upd_schema x k) (schema_changes c (k, st)) ?v) =
      merged_schema ?v (Some st)" for st
    by (cases ?v; cases "ss_owner st")
      (auto simp: schema_changes_def schema_grants_def merged_schema_def Let_def
        default_schema_owner_privileges_def intro!: schema_state.equality)
  moreover have "merged_schema v None = v" for v by (cases v) (simp_all add: merged_schema_def)
  moreover have "fmlookup (fold eff_schemas (diff_schema_changes c d) m) k =
      (case fmlookup (rg_schemas d) k of None \<Rightarrow> fmlookup m k
       | Some st \<Rightarrow> fold (\<lambda>x. upd_schema x k) (schema_changes c (k, st)) (fmlookup m k))" for m
    unfolding diff_schema_changes_def by (subst schema_changes.run_keyed) (auto simp: schema_changes_local)
  moreover have "fmlookup (fold eff_schemas (diff_schema_grants c d) m) k =
      (case fmlookup (rg_schemas d) k of None \<Rightarrow> fmlookup m k
       | Some st \<Rightarrow> fold (\<lambda>x. upd_schema x k) (schema_grants c (k, st)) (fmlookup m k))" for m
    unfolding diff_schema_grants_def by (subst schema_changes.run_keyed) (auto simp: schema_changes_local)
  ultimately show ?thesis by (simp add: run_schemas split: option.splits)
qed

end
