(* ===== verification/DefaultsConverge.thy ===== *)
theory DefaultsConverge
  imports Phases
begin

text \<open>
  Default privileges after the plan: exactly the declared privileges for a named grantee, and for
  \<open>PUBLIC\<close> the declared ones on top of what was there, less the asserted absences.
\<close>

section \<open>The set phase\<close>

abbreviation held_default :: "role_graph \<Rightarrow> default_priv_key \<Rightarrow> privilege set" where
  "held_default g k \<equiv> fset (get_or_default (rg_default_privileges g) k)"

abbreviation absent_default :: "role_graph \<Rightarrow> default_priv_key \<Rightarrow> privilege set" where
  "absent_default g k \<equiv> fset (get_or_default (rg_default_privilege_absences g) k)"

lemma defaults_added:
  "default_changes.added (diff_defaults_set c d) k = held_default d k - held_default c k"
proof -
  have "change_set_default k ps \<in> set (diff_defaults_set c d) \<longleftrightarrow>
    (\<exists>ps'. ps = ps' |-| get_or_default (rg_default_privileges c) k \<and> fmlookup (rg_default_privileges d) k = Some ps' \<and>
      (contains_key (rg_default_privileges c) k \<longrightarrow> ps \<noteq> {||}))" for ps
    unfolding defaults_set_shape default_changes.add_inject by blast
  then show ?thesis
    unfolding default_changes.added_def fset_get_or_default[of "rg_default_privileges d"]
    by (auto simp: get_or_default_absent)
qed

section \<open>The revoke phase\<close>

definition default_revokes :: "role_graph \<Rightarrow> role_graph \<Rightarrow> (default_priv_key \<times> privilege btreeset) list" where
  "default_revokes c d = matched_default_revokes c d @ unmatched_default_revokes c d @ absence_default_revokes c d"

text \<open>What the absence loop sees as held.\<close>

definition assertable_default :: "role_graph \<Rightarrow> role_graph \<Rightarrow> default_priv_key \<Rightarrow> privilege set" where
  "assertable_default c d k =
     (if contains_key (rg_default_privileges c) k then held_default c k
      else fset (builtin_defaults_for_new_owner c d k))"

lemma matched_default_revokes_iff:
  "(k, s) \<in> set (matched_default_revokes c d) \<longleftrightarrow>
     (\<exists>held wanted. fmlookup (rg_default_privileges c) k = Some held \<and> fmlookup (rg_default_privileges d) k = Some wanted \<and>
        \<not> is_public (dk_grantee k) \<and> s = held |-| wanted \<and> s \<noteq> {||})"
proof -
  let ?emit = "\<lambda>k wanted. case fmlookup (rg_default_privileges c) k of None \<Rightarrow> []
     | Some held \<Rightarrow> if is_public (dk_grantee k) then [] else (let r = held |-| wanted in if r \<noteq> {||} then [(k, r)] else [])"
  have emit: "(k, s) \<in> set (?emit k' wanted) \<longleftrightarrow> k = k' \<and> (\<exists>held. fmlookup (rg_default_privileges c) k' = Some held \<and>
      \<not> is_public (dk_grantee k') \<and> s = held |-| wanted \<and> s \<noteq> {||})" for k' wanted
    by (cases "fmlookup (rg_default_privileges c) k'") (auto simp: Let_def)
  show ?thesis unfolding matched_default_revokes_def in_concat_entries prod.case emit by blast
qed

lemma unmatched_default_revokes_iff:
  "(k, s) \<in> set (unmatched_default_revokes c d) \<longleftrightarrow>
     fmlookup (rg_default_privileges c) k = Some s \<and> \<not> contains_key (rg_default_privileges d) k \<and> \<not> is_public (dk_grantee k)"
  unfolding unmatched_default_revokes_def in_concat_entries by (auto split: if_splits)

lemma absence_default_revokes_iff:
  "(k, s) \<in> set (absence_default_revokes c d) \<longleftrightarrow>
     (\<exists>absent. fmlookup (rg_default_privilege_absences d) k = Some absent \<and> s \<noteq> {||} \<and>
        s = absent |\<inter>| (case fmlookup (rg_default_privileges c) k of Some privileges \<Rightarrow> privileges
                          | None \<Rightarrow> builtin_defaults_for_new_owner c d k))"
  unfolding absence_default_revokes_def in_concat_entries by (auto simp: Let_def split: if_splits)

lemma matched_defaults_union:
  "(\<Union>s\<in>{s. (k, s) \<in> set (matched_default_revokes c d @ unmatched_default_revokes c d)}. fset s) =
     (if is_public (dk_grantee k) then {} else held_default c k - held_default d k)"
  by (cases "fmlookup (rg_default_privileges c) k"; cases "fmlookup (rg_default_privileges d) k")
    (auto simp: matched_default_revokes_iff unmatched_default_revokes_iff get_or_default_def contains_key_def)

lemma absence_defaults_union:
  "(\<Union>s\<in>{s. (k, s) \<in> set (absence_default_revokes c d)}. fset s) = absent_default d k \<inter> assertable_default c d k"
  by (cases "fmlookup (rg_default_privileges c) k"; cases "fmlookup (rg_default_privilege_absences d) k")
    (auto simp: absence_default_revokes_iff assertable_default_def get_or_default_def contains_key_def)

lemma pending_defaults:
  "fset (get_or_default (extend_all (default_revokes c d)) k) =
     (if is_public (dk_grantee k) then {} else held_default c k - held_default d k) \<union>
     (absent_default d k \<inter> assertable_default c d k)"
proof -
  have "{s. (k, s) \<in> set (default_revokes c d)} =
    {s. (k, s) \<in> set (matched_default_revokes c d @ unmatched_default_revokes c d)} \<union> {s. (k, s) \<in> set (absence_default_revokes c d)}"
    by (auto simp: default_revokes_def)
  then show ?thesis
    unfolding fset_extend_all matched_defaults_union[symmetric] absence_defaults_union[symmetric] by auto
qed

lemma diff_defaults_revoked_entries:
  "diff_defaults_revoked c d = map (\<lambda>(k, s). change_revoke_default k s) (bt_entries (extend_all (default_revokes c d)))"
  by (simp add: diff_defaults_revoked_def extend_all_def default_revokes_def)

lemma revoke_default_in:
  "change_revoke_default k s \<in> set (diff_defaults_revoked c d) \<longleftrightarrow> fmlookup (extend_all (default_revokes c d)) k = Some s"
proof -
  have "change_revoke_default k s = change_revoke_default k' s' \<longleftrightarrow> k = k' \<and> s = s'" for k' s'
    using default_changes.remove_inject by auto
  then show ?thesis by (force simp: diff_defaults_revoked_entries image_iff in_bt_entries_iff[symmetric] simp del: in_bt_entries_iff)
qed

lemma defaults_removed:
  "default_changes.removed (diff_defaults_revoked c d) k = fset (get_or_default (extend_all (default_revokes c d)) k)"
  unfolding default_changes.removed_def revoke_default_in by (auto simp: get_or_default_def split: option.splits)

section \<open>The state after the plan\<close>

lemma defaults_after:
  "fset (get_or_default (fold eff_defaults (diff_resolved c d) (rg_default_privileges c)) k) =
     (held_default c k \<union> held_default d k)
       - ((if is_public (dk_grantee k) then {} else held_default c k - held_default d k) \<union>
          (absent_default d k \<inter> assertable_default c d k))"
proof -
  have adds: "\<forall>x\<in>set (diff_defaults_set c d). \<exists>k ps. x = change_set_default k ps"
    using defaults_set_shape by blast
  have removes: "\<forall>x\<in>set (diff_defaults_revoked c d). \<exists>k ps (t :: unit). x = change_revoke_default k ps \<and> True"
    by (auto dest: defaults_revoked_shape)
  show ?thesis
    unfolding run_defaults default_changes.run_removals[OF removes] default_changes.run_additions[OF adds]
      defaults_added defaults_removed pending_defaults by blast
qed

lemma defaults_converge:
  assumes consistent: "held_default d k \<inter> absent_default d k = {}"
  shows "fset (get_or_default (fold eff_defaults (diff_resolved c d) (rg_default_privileges c)) k) =
    (if is_public (dk_grantee k) then held_default d k \<union> (held_default c k - absent_default d k) else held_default d k)"
proof -
  have "contains_key (rg_default_privileges c) k \<or> held_default c k = {}" by (auto simp: get_or_default_absent)
  then show ?thesis using consistent unfolding defaults_after assertable_default_def by auto
qed

end
