(* ===== verification/GrantsConverge.thy ===== *)
theory GrantsConverge
  imports Phases
begin

text \<open>
  Object privileges after the plan. The revokes of \<open>diff\<close> are computed from the desired grants, the
  wildcard selectors that shadow concrete objects, the asserted absences and the inherent grants
  of the current graph, and are then split by grantor and by concrete object; the lemmas below follow
  the set of privileges each of these steps removes from one key.
\<close>

section \<open>Scans over a scope\<close>

abbreviation wild :: "grant_key \<Rightarrow> grant_key" where
  "wild k \<equiv> k\<lparr>gk_name := Some ''*''\<rparr>"

lemma in_scope_wild [simp]: "in_scope (wild k) k" "in_scope k (wild k)" "is_wildcard (wild k)"
  by (simp_all add: in_scope_def is_wildcard_def)

lemma in_scope_refl [simp]: "in_scope k k"
  by (simp add: in_scope_def)

lemma in_scope_wildcard: "is_wildcard K \<Longrightarrow> in_scope K k \<longleftrightarrow> K = wild k"
  by (cases K; cases k) (auto simp: in_scope_def is_wildcard_def)

lemma scope_start_le: "in_scope key k \<Longrightarrow> scope_start key \<le> k"
  by (cases key; cases k)
    (auto simp: in_scope_def scope_start_def less_eq_grant_key_ext_def grant_key_fields_def)

lemma scope_convex:
  assumes "scope_start key \<le> x" and "x \<le> y" and "in_scope key y"
  shows "in_scope key x"
  using assms
  by (cases key; cases x; cases y)
    (auto simp: in_scope_def scope_start_def less_eq_grant_key_ext_def grant_key_fields_def)

lemma scan_scope_filter: "scan_scope key m = filter (\<lambda>(k, _). in_scope key k) (bt_entries m)"
proof -
  have "takeWhile (\<lambda>x. in_scope key (fst x)) (dropWhile (\<lambda>x. fst x < scope_start key) (bt_entries m)) =
      filter (\<lambda>x. in_scope key (fst x)) (bt_entries m)"
    by (rule takeWhile_dropWhile_interval) (auto intro: scope_start_le scope_convex)
  then show ?thesis by (simp add: scan_scope_def range_from_def case_prod_beta')
qed

lemma has_inherent_iff: "has_inherent c key \<longleftrightarrow> (\<exists>k. k |\<in>| rg_inherent_grants c \<and> in_scope key k)"
proof -
  have "takeWhile (in_scope key) (dropWhile (\<lambda>x. x < scope_start key) (bt_elements (rg_inherent_grants c))) =
      filter (in_scope key) (bt_elements (rg_inherent_grants c))"
    using takeWhile_dropWhile_interval[where f = id and P = "in_scope key" and start = "scope_start key"
        and xs = "bt_elements (rg_inherent_grants c)"]
    by (simp add: scope_start_le scope_convex)
  then show ?thesis by (auto simp: has_inherent_def range_from_set_def filter_empty_conv)
qed


section \<open>Wildcard selectors\<close>

lemma lookup_collect_inj:
  assumes "distinct (map fst xs)" and "inj_on f (fst ` set xs)" and "k \<in> fst ` set xs"
  shows "fmlookup (collect_map (map (\<lambda>(k, v). (f k, v)) xs)) (f k) = map_of xs k"
proof -
  obtain v where v: "(k, v) \<in> set xs" using assms(3) by auto
  have fsts: "map fst (map (\<lambda>(k, v). (f k, v)) xs) = map f (map fst xs)" by auto
  have "distinct (map fst (map (\<lambda>(k, v). (f k, v)) xs))"
    unfolding fsts by (subst distinct_map) (use assms(1,2) in simp)
  then have "fmlookup (collect_map (map (\<lambda>(k, v). (f k, v)) xs)) (f k) = map_of (map (\<lambda>(k, v). (f k, v)) xs) (f k)"
    by (rule lookup_collect_map_distinct)
  also have "\<dots> = Some v"
    using \<open>distinct (map fst (map (\<lambda>(k, v). (f k, v)) xs))\<close> v by (intro map_of_is_SomeI) force+
  finally show ?thesis using v assms(1) by simp
qed

lemma wildcard_index_lookup:
  "get_or_default (wildcard_index m) (selector_of_key k) =
     (if gk_schema k = None then {||} else get_or_default m (wild k))"
proof -
  let ?xs = "filter (\<lambda>(k, _). is_wildcard k \<and> gk_schema k \<noteq> None) (bt_entries m)"
  have keys: "k' \<in> fst ` set ?xs \<longleftrightarrow> is_wildcard k' \<and> gk_schema k' \<noteq> None \<and> contains_key m k'" for k'
    by (force simp: contains_key_iff)
  have inj: "inj_on selector_of_key (fst ` set ?xs)"
    by (rule inj_onI) (auto simp: keys selector_of_key_def is_wildcard_def intro: grant_key.equality)
  have dist: "distinct (map fst ?xs)" by (simp add: distinct_map_filter)
  have sel: "selector_of_key k' = selector_of_key k \<and> is_wildcard k' \<longleftrightarrow> k' = wild k" for k'
    by (cases k'; cases k) (auto simp: selector_of_key_def is_wildcard_def)
  have idx: "wildcard_index m = collect_map (map (\<lambda>(k, v). (selector_of_key k, v)) ?xs)" by (simp add: wildcard_index_def)
  show ?thesis
  proof (cases "wild k \<in> fst ` set ?xs")
    case True
    have "selector_of_key (wild k) = selector_of_key k" using sel[of "wild k"] by simp
    then have "fmlookup (wildcard_index m) (selector_of_key k) = map_of ?xs (wild k)"
      using lookup_collect_inj[OF dist inj True] idx by simp
    moreover obtain v where v: "(wild k, v) \<in> set ?xs" using True by auto
    then have "map_of ?xs (wild k) = fmlookup m (wild k)" using dist by (simp add: map_of_is_SomeI)
    moreover have "gk_schema k \<noteq> None" using True unfolding keys by simp
    ultimately show ?thesis by (auto simp: get_or_default_def)
  next
    case False
    have "\<not> contains_key (wildcard_index m) (selector_of_key k)"
      using False sel unfolding idx contains_key_collect_map by (force simp: keys)
    moreover have "gk_schema k = None \<or> \<not> contains_key m (wild k)" using False unfolding keys by auto
    ultimately show ?thesis by (auto simp: get_or_default_absent)
  qed
qed


section \<open>The additions\<close>

abbreviation held_grant :: "role_graph \<Rightarrow> grant_key \<Rightarrow> privilege set" where
  "held_grant g k \<equiv> fset (get_or_default (rg_grants g) k)"

abbreviation absent_grant :: "role_graph \<Rightarrow> grant_key \<Rightarrow> privilege set" where
  "absent_grant g k \<equiv> fset (get_or_default (rg_grant_absences g) k)"

abbreviation inherent :: "role_graph \<Rightarrow> grant_key \<Rightarrow> bool" where
  "inherent g k \<equiv> k |\<in>| rg_inherent_grants g"

lemma grants_added_privileges:
  "grant_changes.added (diff_grants_added c d) k = held_grant d k - held_grant c k"
proof -
  have "change_grant k ps \<in> set (diff_grants_added c d) \<longleftrightarrow>
    (\<exists>ps'. ps = ps' |-| get_or_default (rg_grants c) k \<and> fmlookup (rg_grants d) k = Some ps' \<and>
      (contains_key (rg_grants c) k \<longrightarrow> ps \<noteq> {||}))" for ps
    unfolding grants_added_shape grant_changes.add_inject by blast
  then show ?thesis
    unfolding grant_changes.added_def fset_get_or_default[of "rg_grants d"]
    by (auto simp: get_or_default_absent)
qed


section \<open>Pending revokes\<close>

text \<open>What the wildcard selectors of the desired graph keep the plan from revoking at a key.\<close>

definition shadowed :: "role_graph \<Rightarrow> grant_key \<Rightarrow> privilege set" where
  "shadowed d k =
     (if is_wildcard k \<or> gk_schema k = None then {} else held_grant d (wild k) \<union> absent_grant d (wild k))"

lemma fset_shadow_filter: "fset (shadow_filter d k s) = fset s - shadowed d k"
  by (auto simp: shadow_filter_def shadowed_def wildcard_index_lookup)

lemma pending_revoke_iff: "(k, s) \<in> set (pending_revoke k' s') \<longleftrightarrow> k = k' \<and> s = s' \<and> s \<noteq> {||}"
  by (auto simp: pending_revoke_def)

lemma matched_revokes_iff:
  "(k, s) \<in> set (matched_revokes c d) \<longleftrightarrow>
     (\<exists>held wanted. fmlookup (rg_grants c) k = Some held \<and> fmlookup (rg_grants d) k = Some wanted \<and>
        \<not> is_public (gk_role k) \<and> \<not> inherent c k \<and> s = shadow_filter d k (held |-| wanted) \<and> s \<noteq> {||})"
proof -
  let ?emit = "\<lambda>k wanted. case fmlookup (rg_grants c) k of None \<Rightarrow> []
     | Some held \<Rightarrow> if is_public (gk_role k) then [] else if inherent c k then []
         else pending_revoke k (shadow_filter d k (held |-| wanted))"
  have emit: "(k, s) \<in> set (?emit k' wanted) \<longleftrightarrow> k = k' \<and> (\<exists>held. fmlookup (rg_grants c) k' = Some held \<and>
      \<not> is_public (gk_role k') \<and> \<not> inherent c k' \<and> s = shadow_filter d k' (held |-| wanted) \<and> s \<noteq> {||})" for k' wanted
    by (cases "fmlookup (rg_grants c) k'") (auto simp: pending_revoke_iff)
  show ?thesis unfolding matched_revokes_def in_concat_entries prod.case emit by blast
qed

lemma unmatched_revokes_iff:
  "(k, s) \<in> set (unmatched_revokes c d) \<longleftrightarrow>
     (\<exists>held. fmlookup (rg_grants c) k = Some held \<and> \<not> contains_key (rg_grants d) k \<and>
        \<not> is_public (gk_role k) \<and> \<not> inherent c k \<and> s = shadow_filter d k held \<and> s \<noteq> {||})"
proof -
  let ?emit = "\<lambda>k held. if contains_key (rg_grants d) k \<or> is_public (gk_role k) then []
     else if inherent c k then [] else pending_revoke k (shadow_filter d k held)"
  have emit: "(k, s) \<in> set (?emit k' held) \<longleftrightarrow> k = k' \<and> \<not> contains_key (rg_grants d) k' \<and>
      \<not> is_public (gk_role k') \<and> \<not> inherent c k' \<and> s = shadow_filter d k' held \<and> s \<noteq> {||}" for k' held
    by (auto simp: pending_revoke_iff)
  show ?thesis unfolding unmatched_revokes_def in_concat_entries prod.case emit by blast
qed

lemma absence_revokes_iff:
  "(k, s) \<in> set (absence_revokes c d) \<longleftrightarrow>
     (\<exists>absent. fmlookup (rg_grant_absences d) k = Some absent \<and> s = absent |\<inter>| held_privileges c k \<and> s \<noteq> {||})"
  unfolding absence_revokes_def in_concat_entries prod.case pending_revoke_iff by blast

lemma fset_held_privileges:
  "fset (held_privileges c k) =
     (if is_wildcard k then (\<Union>k'\<in>{k'. in_scope k k' \<and> \<not> inherent c k'}. held_grant c k')
      else if inherent c k then {} else held_grant c k)"
proof -
  have "(\<Union>s\<in>set (map snd (filter (\<lambda>(k, _). \<not> inherent c k) (scan_scope k (rg_grants c)))). fset s) =
      (\<Union>k'\<in>{k'. in_scope k k' \<and> \<not> inherent c k'}. held_grant c k')"
    unfolding scan_scope_filter by (force simp: fset_get_or_default)
  then show ?thesis by (simp add: held_privileges_def)
qed

definition revoke_list :: "role_graph \<Rightarrow> role_graph \<Rightarrow> (grant_key \<times> privilege btreeset) list" where
  "revoke_list c d = matched_revokes c d @ unmatched_revokes c d @ absence_revokes c d"

lemma pending_revokes_extend: "pending_revokes c d = extend_all (revoke_list c d)"
  by (simp add: pending_revokes_def extend_all_def revoke_list_def)

lemma matched_grants_union:
  "(\<Union>s\<in>{s. (k, s) \<in> set (matched_revokes c d @ unmatched_revokes c d)}. fset s) =
     (if is_public (gk_role k) \<or> inherent c k then {} else held_grant c k - held_grant d k - shadowed d k)"
proof (cases "is_public (gk_role k) \<or> inherent c k \<or> \<not> contains_key (rg_grants c) k")
  case True
  then show ?thesis by (auto simp: matched_revokes_iff unmatched_revokes_iff contains_key_def get_or_default_def)
next
  case False
  then obtain held where held: "fmlookup (rg_grants c) k = Some held" by (auto simp: contains_key_def)
  have ex: "(\<Union>s\<in>{s. s = t \<and> s \<noteq> {||}}. fset s) = fset t" for t :: "privilege btreeset" by auto
  show ?thesis
  proof (cases "fmlookup (rg_grants d) k")
    case None
    have "{s. (k, s) \<in> set (matched_revokes c d @ unmatched_revokes c d)} = {s. s = shadow_filter d k held \<and> s \<noteq> {||}}"
      using False held None by (auto simp: matched_revokes_iff unmatched_revokes_iff contains_key_def)
    then show ?thesis using False held None by (simp only: ex) (simp add: fset_shadow_filter get_or_default_def)
  next
    case (Some wanted)
    have "{s. (k, s) \<in> set (matched_revokes c d @ unmatched_revokes c d)} =
        {s. s = shadow_filter d k (held |-| wanted) \<and> s \<noteq> {||}}"
      using False held Some by (auto simp: matched_revokes_iff unmatched_revokes_iff contains_key_def)
    then show ?thesis using False held Some by (simp only: ex) (simp add: fset_shadow_filter get_or_default_def)
  qed
qed

lemma absence_grants_union:
  "(\<Union>s\<in>{s. (k, s) \<in> set (absence_revokes c d)}. fset s) = absent_grant d k \<inter> fset (held_privileges c k)"
  by (auto simp: absence_revokes_iff fset_get_or_default)

lemma pending_grants:
  "fset (get_or_default (pending_revokes c d) k) =
     (if is_public (gk_role k) \<or> inherent c k then {} else held_grant c k - held_grant d k - shadowed d k) \<union>
     (absent_grant d k \<inter> fset (held_privileges c k))"
proof -
  have "{s. (k, s) \<in> set (revoke_list c d)} =
    {s. (k, s) \<in> set (matched_revokes c d @ unmatched_revokes c d)} \<union> {s. (k, s) \<in> set (absence_revokes c d)}"
    by (auto simp: revoke_list_def)
  then show ?thesis
    unfolding pending_revokes_extend fset_extend_all matched_grants_union[symmetric] absence_grants_union[symmetric] by auto
qed

lemma revoke_list_nonempty: "(k, s) \<in> set (revoke_list c d) \<Longrightarrow> s \<noteq> {||}"
  by (auto simp: revoke_list_def matched_revokes_iff unmatched_revokes_iff absence_revokes_iff)

lemma pending_nonempty: "fmlookup (pending_revokes c d) k = Some s \<Longrightarrow> s \<noteq> {||}"
  using lookup_extend_all[of "revoke_list c d" k s] revoke_list_nonempty[of k _ c d]
  by (fastforce simp: pending_revokes_extend)


section \<open>The revokes that are emitted\<close>

lemma removed_entries:
  "x \<in> grant_changes.removed (concat (map f (bt_entries m))) k \<longleftrightarrow>
     (\<exists>K v. fmlookup m K = Some v \<and> x \<in> grant_changes.removed (f (K, v)) k)"
proof -
  have "x \<in> grant_changes.removed (concat (map f (bt_entries m))) k \<longleftrightarrow>
      (\<exists>p\<in>set (bt_entries m). x \<in> grant_changes.removed (f p) k)"
    unfolding grant_changes.removed_concat by simp
  then show ?thesis by (metis in_bt_entries_iff surj_pair)
qed

lemma removed_push_revokes_entry:
  "grant_changes.removed (push_revokes_entry c d k' ps) k = (if k' = k then fset ps else {})"
proof (cases "owner_transferred c d k' \<or> fmlookup (rg_grant_entry_grantors c) k' = None")
  case True
  then show ?thesis
    by (auto simp: push_revokes_entry_def grant_changes.removed_Cons split: option.splits)
next
  case False
  then obtain pg where pg: "fmlookup (rg_grant_entry_grantors c) k' = Some pg" by auto
  let ?one = "\<lambda>(grantor, gps). let subset = ps |\<inter>| gps in if subset \<noteq> {||} then [change_revoke k' subset (Some grantor)] else []"
  let ?covered = "union_all (map (\<lambda>(_, gps). ps |\<inter>| gps) (bt_entries pg))"
  have one: "grant_changes.removed (?one x) k = (if k' = k then fset (ps |\<inter>| snd x) else {})" for x
    by (cases x) (auto simp: Let_def grant_changes.removed_Cons)
  have "grant_changes.removed (concat (map ?one (bt_entries pg))) k = (if k' = k then fset ?covered else {})"
    unfolding grant_changes.removed_concat set_map image_image one by auto
  moreover have "grant_changes.removed (if r \<noteq> {||} then [change_revoke k' r None] else []) k = (if k' = k then fset r else {})" for r
    by (auto simp: grant_changes.removed_Cons)
  moreover have "fset ?covered \<union> fset (ps |-| ?covered) = fset ps" by auto
  moreover have "push_revokes_entry c d k' ps = concat (map ?one (bt_entries pg)) @
      (if ps |-| ?covered \<noteq> {||} then [change_revoke k' (ps |-| ?covered) None] else [])"
    using False pg by (simp add: push_revokes_entry_def Let_def)
  ultimately show ?thesis by (simp only: grant_changes.removed_append) auto
qed

definition target_list :: "role_graph \<Rightarrow> grant_key \<Rightarrow> (grant_key \<times> privilege btreeset) list" where
  "target_list c key = filter (\<lambda>(target, _). \<not> is_wildcard target)
     (map (\<lambda>(target, grantors). (target, union_all (map snd (bt_entries grantors))))
        (scan_scope key (rg_grant_entry_grantors c)) @ scan_scope key (rg_grants c))"

lemma concrete_targets_extend: "concrete_targets c key = extend_all (target_list c key)"
  by (simp add: concrete_targets_def extend_all_def target_list_def)

lemma in_scan_scope: "(k, s) \<in> set (scan_scope key m) \<longleftrightarrow> in_scope key k \<and> fmlookup m k = Some s"
  by (auto simp: scan_scope_filter)

lemma in_target_list:
  "(k, s) \<in> set (target_list c key) \<longleftrightarrow> \<not> is_wildcard k \<and> in_scope key k \<and>
     (fmlookup (rg_grants c) k = Some s \<or>
      (\<exists>g. fmlookup (rg_grant_entry_grantors c) k = Some g \<and> s = union_all (map snd (bt_entries g))))"
proof -
  have "(k, s) \<in> set (map (\<lambda>(target, grantors). (target, union_all (map snd (bt_entries grantors)))) xs) \<longleftrightarrow>
      (\<exists>g. (k, g) \<in> set xs \<and> s = union_all (map snd (bt_entries g)))"
    for xs :: "(grant_key \<times> (string, privilege btreeset) btreemap) list"
    by (force simp: image_iff)
  then show ?thesis by (auto simp: target_list_def in_scan_scope simp del: set_map)
qed

text \<open>Privileges recorded at a key, by whatever grantor.\<close>

definition recorded :: "role_graph \<Rightarrow> grant_key \<Rightarrow> privilege set" where
  "recorded c k = held_grant c k \<union>
     (case fmlookup (rg_grant_entry_grantors c) k of None \<Rightarrow> {}
      | Some grantors \<Rightarrow> (\<Union>s\<in>set (map snd (bt_entries grantors)). fset s))"

lemma contains_concrete_targets:
  "contains_key (concrete_targets c key) k \<longleftrightarrow>
     \<not> is_wildcard k \<and> in_scope key k \<and> (contains_key (rg_grant_entry_grantors c) k \<or> contains_key (rg_grants c) k)"
proof -
  have fsts: "k \<in> fst ` set xs \<longleftrightarrow> (\<exists>s. (k, s) \<in> set xs)" for xs :: "(grant_key \<times> privilege btreeset) list" by force
  show ?thesis
    unfolding concrete_targets_extend contains_extend_all fsts in_target_list
    unfolding contains_key_iff by auto
qed

lemma fset_concrete_targets:
  assumes "\<not> is_wildcard k" and "in_scope key k"
  shows "fset (get_or_default (concrete_targets c key) k) = recorded c k"
proof -
  have "{s. (k, s) \<in> set (target_list c key)} = {s. fmlookup (rg_grants c) k = Some s} \<union>
     {s. \<exists>g. fmlookup (rg_grant_entry_grantors c) k = Some g \<and> s = union_all (map snd (bt_entries g))}"
    using assms by (auto simp: in_target_list)
  then show ?thesis
    unfolding concrete_targets_extend fset_extend_all recorded_def fset_get_or_default[of "rg_grants c"]
    by (cases "fmlookup (rg_grant_entry_grantors c) k") auto
qed

lemma removed_wildcard_split:
  assumes "is_wildcard K" and "concrete_targets c K \<noteq> fmempty \<or> has_inherent c K" and "\<not> is_wildcard k"
  shows "grant_changes.removed (push_revokes_split_by_grantor c d K ps) k =
    (if in_scope K k \<and> \<not> inherent c k then fset ps \<inter> recorded c k else {})"
proof -
  let ?f = "\<lambda>(target, held). if inherent c target then []
      else (let subset = ps |\<inter>| held in if subset \<noteq> {||} then push_revokes_entry c d target subset else [])"
  have one: "grant_changes.removed (?f (t, h)) k = (if t = k \<and> \<not> inherent c k then fset ps \<inter> fset h else {})" for t h
    by (auto simp: Let_def removed_push_revokes_entry)
  have removed: "x \<in> grant_changes.removed (concat (map ?f (bt_entries m))) k \<longleftrightarrow>
      \<not> inherent c k \<and> x \<in> fset ps \<and> x \<in> fset (get_or_default m k)" for m x
    unfolding removed_entries one fset_get_or_default by (auto split: if_splits)
  have out: "get_or_default (concrete_targets c K) k = {||}" if "\<not> in_scope K k"
    using that contains_concrete_targets[of c K k] by (simp add: get_or_default_absent)
  have "push_revokes_split_by_grantor c d K ps = concat (map ?f (bt_entries (concrete_targets c K)))"
    using assms(1,2) by (simp add: push_revokes_split_by_grantor_def)
  then have "x \<in> grant_changes.removed (push_revokes_split_by_grantor c d K ps) k \<longleftrightarrow>
      \<not> inherent c k \<and> x \<in> fset ps \<and> x \<in> fset (get_or_default (concrete_targets c K) k)" for x
    by (simp only: removed)
  then show ?thesis
    using out fset_concrete_targets[OF assms(3), of K c] by (cases "in_scope K k") auto
qed

lemma removed_direct:
  assumes "\<not> (is_wildcard K \<and> (concrete_targets c K \<noteq> fmempty \<or> has_inherent c K))"
  shows "grant_changes.removed (push_revokes_split_by_grantor c d K ps) k = (if K = k then fset ps else {})"
  using assms by (auto simp: push_revokes_split_by_grantor_def removed_push_revokes_entry)

text \<open>
  A graph read from a database has a key for each object and no wildcard key. The only pending
  revokes at wildcard keys are then asserted absences, and each has a concrete object behind it.
\<close>

definition no_wildcard_grants :: "role_graph \<Rightarrow> bool" where
  "no_wildcard_grants c = (\<forall>k\<in>set (bt_keys (rg_grants c)). \<not> is_wildcard k)"

lemma wildcard_not_held: "no_wildcard_grants c \<Longrightarrow> is_wildcard k \<Longrightarrow> \<not> contains_key (rg_grants c) k"
  by (auto simp: no_wildcard_grants_def)

lemma pending_wildcard:
  assumes "no_wildcard_grants c" and "is_wildcard K"
  shows "fset (get_or_default (pending_revokes c d) K) = absent_grant d K \<inter> fset (held_privileges c K)"
  using wildcard_not_held[OF assms] by (simp add: pending_grants get_or_default_absent)

lemma pending_wildcard_target:
  assumes "no_wildcard_grants c" and "is_wildcard K" and "contains_key (pending_revokes c d) K"
  shows "concrete_targets c K \<noteq> fmempty"
proof -
  obtain s where "fmlookup (pending_revokes c d) K = Some s" "s \<noteq> {||}"
    using assms(3) pending_nonempty by (auto simp: contains_key_iff)
  then have "fset (get_or_default (pending_revokes c d) K) \<noteq> {}" by (auto simp: get_or_default_def)
  then obtain k' where k': "in_scope K k'" "held_grant c k' \<noteq> {}"
    using pending_wildcard[OF assms(1,2)] assms(2) by (auto simp: fset_held_privileges)
  then have "contains_key (rg_grants c) k'" using get_or_default_absent by force
  then have "contains_key (concrete_targets c K) k'"
    using k'(1) wildcard_not_held[OF assms(1)] by (auto simp: contains_concrete_targets)
  then show ?thesis by auto
qed

lemma grants_removed:
  assumes "no_wildcard_grants c" and "\<not> is_wildcard k"
  shows "grant_changes.removed (diff_grants_revoked c d) k =
    fset (get_or_default (pending_revokes c d) k) \<union>
    (if inherent c k then {} else fset (get_or_default (pending_revokes c d) (wild k)) \<inter> recorded c k)"
proof -
  let ?p = "pending_revokes c d"
  let ?r = "\<lambda>K ps. grant_changes.removed (push_revokes_split_by_grantor c d K ps) k"
  have wild: "?r K ps = (if K = wild k \<and> \<not> inherent c k then fset ps \<inter> recorded c k else {})"
    if "is_wildcard K" "fmlookup ?p K = Some ps" for K ps
    using removed_wildcard_split[OF that(1) _ assms(2)] pending_wildcard_target[OF assms(1) that(1), of d] that
      in_scope_wildcard[of K k] by (auto simp: contains_key_def)
  have plain: "?r K ps = (if K = k then fset ps else {})" if "\<not> is_wildcard K" for K ps
    using removed_direct[of K c d ps k] that by simp
  have split: "x \<in> grant_changes.removed (diff_grants_revoked c d) k \<longleftrightarrow> (\<exists>K ps. fmlookup ?p K = Some ps \<and> x \<in> ?r K ps)" for x
    unfolding diff_grants_revoked_def removed_entries by simp
  have "x \<in> grant_changes.removed (diff_grants_revoked c d) k \<longleftrightarrow>
      (\<exists>ps. fmlookup ?p k = Some ps \<and> x \<in> fset ps) \<or>
      (\<exists>ps. fmlookup ?p (wild k) = Some ps \<and> \<not> inherent c k \<and> x \<in> fset ps \<inter> recorded c k)" (is "?L x \<longleftrightarrow> ?R x") for x
  proof
    assume "?L x"
    then obtain K ps where K: "fmlookup ?p K = Some ps" "x \<in> ?r K ps" using split by blast
    then show "?R x" using wild[of K ps] plain[of K ps] by (cases "is_wildcard K") (auto split: if_splits)
  next
    assume "?R x"
    then show "?L x" unfolding split using wild[of "wild k"] plain[OF assms(2)] by (metis in_scope_wild(3))
  qed
  then show ?thesis by (auto simp: fset_get_or_default)
qed


section \<open>The state after the plan\<close>

text \<open>
  A schema grant to the role that becomes the schema's owner is absorbed by the ownership transfer:
  the plan neither keeps nor revokes it.
\<close>

definition absorbed :: "role_graph \<Rightarrow> role_graph \<Rightarrow> grant_key \<Rightarrow> bool" where
  "absorbed c d k =
     (gk_object_type k = Schema \<and>
      (case gk_name k of None \<Rightarrow> False
       | Some n \<Rightarrow> (n, grantee_as_str (gk_role k)) \<in> set (incoming_owners (diff_schema_changes c d))))"

lemma keeps_change_revoke:
  "keeps_revoke (incoming_owners (diff_schema_changes c d)) (change_revoke k ps t) \<longleftrightarrow> \<not> absorbed c d k"
  by (auto simp: keeps_revoke_def change_revoke_def absorbed_def split: object_type.splits option.splits)

lemma fold_keeps_lookup:
  "(\<And>x m. x \<in> set cs \<Longrightarrow> fmlookup (eff x m) k = fmlookup m k) \<Longrightarrow> fmlookup (fold eff cs m) k = fmlookup m k"
  by (induction cs arbitrary: m) auto

lemma schema_phase_grants:
  assumes "\<not> absorbed c d k"
  shows "fmlookup (fold eff_grants (diff_schema_changes c d) m) k = fmlookup m k"
proof (rule fold_keeps_lookup)
  fix x m assume x: "x \<in> set (diff_schema_changes c d)"
  show "fmlookup (eff_grants x m) k = fmlookup m k"
  proof (cases "\<exists>n o'. x = AlterSchemaOwner n o'")
    case True
    then obtain n o' where alter: "x = AlterSchemaOwner n o'" by auto
    then have "(n, o') \<in> set (incoming_owners (diff_schema_changes c d))"
      using x by (auto simp: incoming_owners_def intro!: bexI[of _ x])
    then have "grant_key_of (Role o') Schema None (Some n) \<noteq> k"
      using assms by (auto simp: absorbed_def grantee_as_str_def)
    then show ?thesis using alter by simp
  next
    case False
    then show ?thesis using schema_changes_shape[OF x] by auto
  qed
qed

lemma emitted_revoke_source:
  assumes "change_revoke k ps t \<in> set (diff_grants_revoked c d)"
  obtains (direct) s where "fmlookup (pending_revokes c d) k = Some s" "ps |\<subseteq>| s"
      "is_wildcard k \<Longrightarrow> concrete_targets c k = fmempty \<and> \<not> has_inherent c k"
    | (target) s where "\<not> is_wildcard k" "\<not> inherent c k" "fmlookup (pending_revokes c d) (wild k) = Some s"
      "fset ps \<subseteq> fset s \<inter> recorded c k"
proof -
  obtain K s where K: "fmlookup (pending_revokes c d) K = Some s"
      "change_revoke k ps t \<in> set (push_revokes_split_by_grantor c d K s)"
    using assms unfolding diff_grants_revoked_def in_concat_entries by auto
  show thesis
  proof (cases "is_wildcard K \<and> (concrete_targets c K \<noteq> fmempty \<or> has_inherent c K)")
    case True
    then obtain target held where th: "fmlookup (concrete_targets c K) target = Some held" "\<not> inherent c target"
        "change_revoke k ps t \<in> set (push_revokes_entry c d target (s |\<inter>| held))"
      using K(2) unfolding push_revokes_split_by_grantor_def by (auto simp: Let_def split: if_splits)
    then have k: "k = target" "ps |\<subseteq>| s |\<inter>| held"
      using push_revokes_entry_shape[OF th(3)] grant_changes.remove_inject by auto
    have scope: "\<not> is_wildcard k" "in_scope K k"
      using th(1) k(1) contains_concrete_targets[of c K k] by (auto simp: contains_key_def)
    then have "fset held = recorded c k" using fset_concrete_targets[of k K c] th(1) k(1) by (simp add: get_or_default_def)
    then show thesis using target[of s] scope k th(2) K(1) in_scope_wildcard[of K k] True by auto
  next
    case False
    then have "change_revoke k ps t \<in> set (push_revokes_entry c d K s)"
      using K(2) by (auto simp: push_revokes_split_by_grantor_def)
    then show thesis
      using push_revokes_entry_shape[of "change_revoke k ps t" c d K s] grant_changes.remove_inject direct[of s] K(1) False by auto
  qed
qed

lemma emitted_revoke_plain:
  assumes "no_wildcard_grants c" and "change_revoke k ps t \<in> set (diff_grants_revoked c d)"
  shows "\<not> is_wildcard k"
  using assms(2)
proof (cases rule: emitted_revoke_source)
  case (direct s)
  then show ?thesis using pending_wildcard_target[OF assms(1), of k d] by (auto simp: contains_key_def)
qed simp

lemma kept_revokes_removed:
  assumes "\<not> absorbed c d k"
  shows "grant_changes.removed (kept_revokes c d) k = grant_changes.removed (diff_grants_revoked c d) k"
  using assms by (simp add: grant_changes.removed_def kept_revokes_def keeps_change_revoke)

definition expected_grant :: "role_graph \<Rightarrow> role_graph \<Rightarrow> grant_key \<Rightarrow> privilege set" where
  "expected_grant c d k =
     (if inherent c k then held_grant c k \<union> held_grant d k
      else held_grant d k \<union>
        ((if is_public (gk_role k) then held_grant c k
          else if gk_schema k = None then {}
          else held_grant c k \<inter> held_grant d (wild k))
         - absent_grant d k - absent_grant d (wild k)))"

lemma grants_converge:
  assumes c: "no_wildcard_grants c" and k: "\<not> is_wildcard k" "\<not> absorbed c d k"
    and consistent: "held_grant d k \<inter> (absent_grant d k \<union> absent_grant d (wild k)) = {}"
  shows "fset (get_or_default (fold eff_grants (diff_resolved c d) (rg_grants c)) k) = expected_grant c d k"
proof -
  let ?m = "fold eff_grants (diff_schema_changes c d) (rg_grants c)"
  have adds: "\<forall>x\<in>set (diff_grants_added c d). \<exists>k ps. x = change_grant k ps"
    using grants_added_shape by blast
  have removes: "\<forall>x\<in>set (kept_revokes c d). \<exists>k ps t. x = change_revoke k ps t \<and> \<not> is_wildcard k"
    using kept_revokes_shape emitted_revoke_plain[OF c] by (fastforce simp: kept_revokes_def)
  have start: "get_or_default ?m k = get_or_default (rg_grants c) k"
    using schema_phase_grants[OF k(2)] by (simp add: get_or_default_def)
  have held: "held_grant c k \<subseteq> fset (held_privileges c (wild k))" if "\<not> inherent c k"
    unfolding fset_held_privileges if_P[OF in_scope_wild(3)] using that by (intro UN_upper) simp
  have "held_grant c k \<subseteq> recorded c k" by (simp add: recorded_def)
  then show ?thesis
    using held consistent
    unfolding run_grants grant_changes.run_removals[OF removes] grant_changes.run_additions[OF adds]
      grants_added_privileges kept_revokes_removed[OF k(2)] start grants_removed[OF c k(1)]
      pending_wildcard[OF c in_scope_wild(3)[of k]] pending_grants[of c d k] fset_held_privileges[of c k] expected_grant_def shadowed_def
    using k(1) by (cases "inherent c k"; cases "is_public (gk_role k)") auto
qed


section \<open>Safety of the emitted revokes\<close>

text \<open>The objects a revoke reaches.\<close>

definition covers :: "grant_key \<Rightarrow> grant_key \<Rightarrow> bool" where
  "covers K k = (if is_wildcard K then in_scope K k else K = k)"

lemma revoke_spares_inherent:
  assumes "change_revoke K ps t \<in> set (diff_grants_revoked c d)" and "inherent c k"
  shows "\<not> covers K k"
  using assms(1)
proof (cases rule: emitted_revoke_source)
  case (direct s)
  show ?thesis
  proof (cases "is_wildcard K")
    case True
    then show ?thesis using direct(3) assms(2) by (auto simp: covers_def has_inherent_iff)
  next
    case False
    have "\<not> inherent c K"
    proof
      assume "inherent c K"
      then have "fset (get_or_default (pending_revokes c d) K) = {}"
        using False by (simp add: pending_grants fset_held_privileges)
      then show False using direct(1) pending_nonempty[OF direct(1)] by (auto simp: get_or_default_def)
    qed
    then show ?thesis using False assms(2) by (auto simp: covers_def)
  qed
next
  case (target s)
  then show ?thesis using assms(2) by (auto simp: covers_def)
qed

lemma public_revoke_asserted:
  assumes "change_revoke k ps t \<in> set (diff_grants_revoked c d)" and "is_public (gk_role k)"
  shows "fset ps \<subseteq> absent_grant d k \<union> absent_grant d (wild k)"
proof -
  have pend: "fmlookup (pending_revokes c d) K = Some s \<Longrightarrow> is_public (gk_role K) \<Longrightarrow> fset s \<subseteq> absent_grant d K" for K s
    using pending_grants[of c d K] by (auto simp: get_or_default_def)
  show ?thesis using assms(1)
  proof (cases rule: emitted_revoke_source)
    case (direct s)
    then show ?thesis using pend[OF direct(1) assms(2)] by auto
  next
    case (target s)
    then show ?thesis using pend[OF target(3)] assms(2) by auto
  qed
qed

lemma revoke_spares_declared:
  assumes "no_wildcard_grants c" and "change_revoke k ps t \<in> set (diff_grants_revoked c d)"
    and "held_grant d k \<inter> (absent_grant d k \<union> absent_grant d (wild k)) = {}"
  shows "fset ps \<inter> held_grant d k = {}"
  using assms(2)
proof (cases rule: emitted_revoke_source)
  case (direct s)
  have "fset s \<inter> held_grant d k = {}"
    using pending_grants[of c d k] direct(1) assms(3) by (auto simp: get_or_default_def split: if_splits)
  then show ?thesis using direct(2) by auto
next
  case (target s)
  have "fset s \<subseteq> absent_grant d (wild k)"
    using pending_wildcard[OF assms(1), of "wild k" d] target(3) by (simp add: get_or_default_def)
  then show ?thesis using target(4) assms(3) by auto
qed

end
