(* ===== verification/MembersConverge.thy ===== *)
theory MembersConverge
  imports Phases
begin

text \<open>
  Memberships after the plan, for graphs that record no grantor of a membership edge: the edges are
  exactly the declared ones, with the declared \<open>INHERIT\<close> and \<open>ADMIN\<close> options.
\<close>

text \<open>A graph read from a database has at most one edge for a role and a member.\<close>

definition one_edge_per_pair :: "membership_edge btreeset \<Rightarrow> bool" where
  "one_edge_per_pair edges =
     (\<forall>a\<in>set (bt_elements edges). \<forall>b\<in>set (bt_elements edges). me_role a = me_role b \<and> me_member a = me_member b \<longrightarrow> a = b)"

lemma lookup_edge_mapD:
  "fmlookup (edge_map edges) p = Some e \<Longrightarrow> e |\<in>| edges \<and> (me_role e, me_member e) = p"
  by (auto simp: edge_map_def lookup_collect_map dest!: map_of_SomeD)

lemma contains_edge_map: "contains_key (edge_map edges) p \<longleftrightarrow> edges_of edges p \<noteq> {}"
  unfolding edge_map_def contains_key_collect_map by (force simp: edges_of_def)

lemma lookup_edge_map:
  assumes "one_edge_per_pair edges"
  shows "edges_of edges p = (case fmlookup (edge_map edges) p of None \<Rightarrow> {} | Some e \<Rightarrow> {e})"
proof (cases "fmlookup (edge_map edges) p")
  case None
  then show ?thesis using contains_edge_map[of edges p] by (simp add: contains_key_def)
next
  case (Some e)
  then show ?thesis
    using assms lookup_edge_mapD[OF Some] by (auto simp: edges_of_def one_edge_per_pair_def)
qed

lemma edges_of_inject: "(\<And>p. edges_of a p = edges_of b p) \<Longrightarrow> a = b"
  by (auto simp: edges_of_def fset_eq_iff)

section \<open>The two phases\<close>

lemma edge_removals_local:
  assumes "(q, e) \<in> set (bt_entries (edge_map edges))" and "q \<noteq> p" and "x \<in> set (edge_removals c (q, e))"
  shows "upd_edges x p v = v"
  using assms(2,3) lookup_edge_mapD[of edges q e] assms(1)
  by (cases q) (auto simp: edge_removals_def split: option.splits if_splits
      dest!: remove_all_edges_shape option_reduction_shape)

lemma edge_additions_local:
  assumes "(q, e) \<in> set (bt_entries (edge_map edges))" and "q \<noteq> p" and "x \<in> set (edge_additions c (q, e))"
  shows "upd_edges x p v = v"
  using assms(2,3) lookup_edge_mapD[of edges q e] assms(1)
  by (cases q) (auto simp: edge_additions_def Let_def split: option.splits if_splits list.splits)

lemma members_after_removals:
  "edges_of (fold eff_members (diff_members_removed c d) s) p =
     (case fmlookup (edge_map (rg_memberships d)) p of
        Some e \<Rightarrow> fold (\<lambda>x. upd_edges x p) (edge_removals c (p, e)) (edges_of s p)
      | None \<Rightarrow> if contains_key (edge_map (rg_memberships c)) p
                then fold (\<lambda>x. upd_edges x p) (remove_all_edges c (fst p) (snd p)) (edges_of s p) else edges_of s p)"
proof -
  let ?D = "edge_map (rg_memberships d)" and ?C = "edge_map (rg_memberships c)"
  let ?f = "\<lambda>(role, member). if contains_key ?D (role, member) then [] else remove_all_edges c role member"
  have first: "edges_of (fold eff_members (concat (map (edge_removals c) (bt_entries ?D))) s) p =
      (case fmlookup ?D p of None \<Rightarrow> edges_of s p
       | Some e \<Rightarrow> fold (\<lambda>x. upd_edges x p) (edge_removals c (p, e)) (edges_of s p))" for s
    by (subst member_changes.run_keyed) (rule distinct_bt_entries, erule (2) edge_removals_local, simp)
  have "edges_of (fold eff_members (concat (map (\<lambda>x. ?f (fst x)) (bt_entries ?C))) s) p =
      (case fmlookup ?C p of None \<Rightarrow> edges_of s p | Some _ \<Rightarrow> fold (\<lambda>x. upd_edges x p) (?f p) (edges_of s p))" for s
    by (subst member_changes.run_keyed)
      (rule distinct_bt_entries, force dest!: remove_all_edges_shape split: if_splits, simp split: option.splits)
  then have second: "edges_of (fold eff_members (concat (map ?f (bt_keys ?C))) s) p =
      (case fmlookup ?C p of None \<Rightarrow> edges_of s p | Some _ \<Rightarrow> fold (\<lambda>x. upd_edges x p) (?f p) (edges_of s p))" for s
    by (simp add: bt_keys_entries comp_def)
  show ?thesis
    unfolding diff_members_removed_def fold_append o_apply second first
    by (cases p; cases "fmlookup ?D p"; cases "fmlookup ?C p") (simp_all add: contains_key_def)
qed

lemma members_after_additions:
  "edges_of (fold eff_members (diff_members_added c d) s) p =
     (case fmlookup (edge_map (rg_memberships d)) p of
        Some e \<Rightarrow> fold (\<lambda>x. upd_edges x p) (edge_additions c (p, e)) (edges_of s p)
      | None \<Rightarrow> edges_of s p)"
  unfolding diff_members_added_def
  by (subst member_changes.run_keyed) (rule distinct_bt_entries, erule (2) edge_additions_local, simp)

section \<open>The state after the plan\<close>

lemma members_converge_pair:
  assumes "rg_membership_edge_grantors c = fmempty" and "one_edge_per_pair (rg_memberships c)"
  shows "edges_of (fold eff_members (diff_resolved c d) (rg_memberships c)) p =
    (case fmlookup (edge_map (rg_memberships d)) p of None \<Rightarrow> {} | Some e \<Rightarrow> {e})"
proof -
  have start: "edges_of (rg_memberships c) p = (case fmlookup (edge_map (rg_memberships c)) p of None \<Rightarrow> {} | Some e \<Rightarrow> {e})"
    by (rule lookup_edge_map[OF assms(2)])
  have remove: "remove_all_edges c r m = [RemoveMember r m None]" for r m
    by (simp add: remove_all_edges_def assms(1))
  show ?thesis
  proof (cases "fmlookup (edge_map (rg_memberships d)) p")
    case None
    then show ?thesis
      using start by (cases p) (auto simp: run_members members_after_removals members_after_additions remove contains_key_def
          split: option.splits)
  next
    case (Some e)
    note e = lookup_edge_mapD[OF Some]
    have e_eq: "\<lparr>me_role = me_role e, me_member = me_member e, me_inherit = me_inherit e, me_admin = me_admin e\<rparr> = e"
      by simp
    show ?thesis
    proof (cases "fmlookup (edge_map (rg_memberships c)) p")
      case None
      then show ?thesis
        using Some e start by (auto simp: run_members members_after_removals members_after_additions edge_removals_def
            edge_additions_def Let_def)
    next
      case current: (Some e')
      note e' = lookup_edge_mapD[OF current]
      have "me_inherit e' = me_inherit e \<Longrightarrow> me_admin e' = me_admin e \<Longrightarrow> e' = e"
        using e e' by (cases e; cases e') auto
      then have same: "\<not> (me_inherit e' \<noteq> me_inherit e \<or> me_admin e' \<noteq> me_admin e) \<Longrightarrow> e' = e" by auto
      have grantors: "fmlookup (rg_membership_edge_grantors c) p = None" by (simp add: assms(1))
      have p: "p = (me_role e, me_member e)" using e by simp
      show ?thesis
        using Some current start same grantors unfolding p
        by (cases "me_inherit e' \<noteq> me_inherit e \<or> me_admin e' \<noteq> me_admin e")
          (simp_all add: run_members members_after_removals members_after_additions edge_removals_def
            edge_additions_def remove Let_def)
    qed
  qed
qed

lemma members_converge:
  assumes "rg_membership_edge_grantors c = fmempty" and "one_edge_per_pair (rg_memberships c)"
    and "one_edge_per_pair (rg_memberships d)"
  shows "fold eff_members (diff_resolved c d) (rg_memberships c) = rg_memberships d"
  by (rule edges_of_inject) (simp add: members_converge_pair[OF assms(1,2)] lookup_edge_map[OF assms(3)])

end
