(* ===== verification/Convergence.thy ===== *)
theory Convergence
  imports RolesConverge DefaultsConverge GrantsConverge MembersConverge
begin

text \<open>
  The two laws the diff engine is built for: a plan can be run from start to end and takes the
  current graph to the desired one, and the plan computed afterwards is empty.
\<close>

section \<open>Plans run to the end\<close>

lemma no_option_updates:
  assumes "rg_membership_edge_grantors c = fmempty"
  shows "x \<in> set (diff_members_removed c d) \<Longrightarrow> \<exists>role member. x = RemoveMember role member None"
    and "x \<in> set (diff_members_added c d) \<Longrightarrow> \<exists>role member inherit admin. x = AddMember role member inherit admin"
proof -
  have remove: "remove_all_edges c r m = [RemoveMember r m None]" for r m
    by (simp add: remove_all_edges_def assms)
  show "\<exists>role member. x = RemoveMember role member None" if x: "x \<in> set (diff_members_removed c d)"
  proof -
    consider p e where "x \<in> set (edge_removals c (p, e))" | r m where "x \<in> set (remove_all_edges c r m)"
      using x by (auto simp: diff_members_removed_def split: if_splits)
    then show ?thesis
      by cases (auto simp: edge_removals_def assms remove split: option.splits if_splits prod.splits)
  qed
  show "\<exists>role member inherit admin. x = AddMember role member inherit admin" if x: "x \<in> set (diff_members_added c d)"
  proof -
    obtain p e where "x \<in> set (edge_additions c (p, e))"
      using x unfolding diff_members_added_def in_concat_entries by auto
    then show ?thesis by (auto simp: edge_additions_def assms Let_def split: option.splits if_splits prod.splits)
  qed
qed

lemma applicable_drops: "\<forall>x\<in>set cs. \<exists>n. x = DropRole n \<Longrightarrow> applicable_run cs g"
  by (induction cs arbitrary: g) auto

lemma diff_applicable:
  assumes "rg_membership_edge_grantors c = fmempty"
  shows "applicable_run (diff_resolved c d) c"
proof -
  let ?creates = "diff_role_creates c d"
  let ?middle = "diff_role_alters c d @ diff_schema_changes c d @ diff_schema_grants c d @ diff_grants_added c d @
     diff_defaults_set c d @ kept_revokes c d @ diff_members_removed c d @ diff_members_added c d @ diff_defaults_revoked c d"
  let ?g = "run ?creates c"
  have split: "diff_resolved c d = ?creates @ ?middle @ diff_role_drops c d" by (simp add: diff_resolved_phases)
  have roles: "contains_key (rg_roles ?g) n" if "contains_key (rg_roles d) n" for n
    using that by (auto simp: contains_key_def roles_after_creates split: option.splits)
  have schemas: "rg_schemas ?g = rg_schemas c"
    by (simp, rule fold_unchanged) (auto simp: role_creates_shape)
  have "applicable_run ?creates c"
    by (rule applicable_runI) (auto simp: role_creates_shape)
  moreover have "\<forall>x\<in>set ?middle. applicable x ?g \<and> (\<forall>n. x \<noteq> DropRole n)"
  proof
    fix x assume "x \<in> set ?middle"
    then consider "x \<in> set (diff_role_alters c d)" | "x \<in> set (diff_schema_changes c d)" | "x \<in> set (diff_schema_grants c d)"
      | "x \<in> set (diff_grants_added c d)" | "x \<in> set (diff_defaults_set c d)" | "x \<in> set (kept_revokes c d)"
      | "x \<in> set (diff_members_removed c d)" | "x \<in> set (diff_members_added c d)" | "x \<in> set (diff_defaults_revoked c d)"
      by auto
    then show "applicable x ?g \<and> (\<forall>n. x \<noteq> DropRole n)"
      by cases (auto simp: phase_shape_iffs change_constructor_defs schemas contains_key_def[of "rg_schemas c"]
          simp del: run_fields dest!: diff_role_alters_shape schema_changes_shape schema_grants_shape kept_revokes_shape
          defaults_revoked_shape no_option_updates[OF assms] dest: roles)
  qed
  then have "applicable_run ?middle ?g" by (intro applicable_runI) auto
  moreover have "applicable_run (diff_role_drops c d) g" for g
    by (rule applicable_drops) (auto simp: role_drops_shape)
  ultimately show ?thesis unfolding split by (simp del: run_append)
qed


section \<open>Well-formed graphs\<close>

definition no_empty_entries :: "('k::linorder, 'a btreeset) btreemap \<Rightarrow> bool" where
  "no_empty_entries m = (\<forall>(k, s)\<in>set (bt_entries m). s \<noteq> {||})"

lemma no_empty_entries_iff: "no_empty_entries m \<longleftrightarrow> (\<forall>k. fmlookup m k \<noteq> Some {||})"
  unfolding no_empty_entries_def by (metis (mono_tags, lifting) case_prodD case_prodI2 in_bt_entries_iff)

text \<open>
  A current graph as inspection produces it: a key for each object, an entry only where a privilege
  is held, one edge for a role and a member. Grantor attribution of memberships is left out, as the
  interpreter has no meaning for the changes it leads to.
\<close>

definition wf_current :: "role_graph \<Rightarrow> bool" where
  "wf_current c \<longleftrightarrow> no_wildcard_grants c \<and> no_empty_entries (rg_grants c) \<and>
     no_empty_entries (rg_default_privileges c) \<and> one_edge_per_pair (rg_memberships c) \<and>
     rg_membership_edge_grantors c = fmempty"

text \<open>
  A desired graph: no entry without a privilege, nothing declared both present and absent (also
  through a wildcard), one edge for a role and a member.
\<close>

definition consistent_grants :: "role_graph \<Rightarrow> bool" where
  "consistent_grants d \<longleftrightarrow>
     (\<forall>k\<in>set (bt_keys (rg_grants d)). get_or_default (rg_grants d) k |\<inter>|
        (get_or_default (rg_grant_absences d) k |\<union>| get_or_default (rg_grant_absences d) (wild k)) = {||})"

definition consistent_defaults :: "role_graph \<Rightarrow> bool" where
  "consistent_defaults d \<longleftrightarrow>
     (\<forall>k\<in>set (bt_keys (rg_default_privileges d)).
        get_or_default (rg_default_privileges d) k |\<inter>| get_or_default (rg_default_privilege_absences d) k = {||})"

definition wf_desired :: "role_graph \<Rightarrow> bool" where
  "wf_desired d \<longleftrightarrow> no_empty_entries (rg_grants d) \<and> no_empty_entries (rg_default_privileges d) \<and>
     consistent_grants d \<and> consistent_defaults d \<and> one_edge_per_pair (rg_memberships d)"

text \<open>
  No schema privilege is declared for, or recorded with a schema qualifier of, the role an ownership
  transfer makes the owner of that schema.
\<close>

definition transfers_clean :: "role_graph \<Rightarrow> role_graph \<Rightarrow> bool" where
  "transfers_clean c d \<longleftrightarrow>
     (\<forall>k\<in>set (bt_keys (rg_grants c) @ bt_keys (rg_grants d)).
        absorbed c d k \<longrightarrow> \<not> contains_key (rg_grants d) k \<and> gk_schema k = None \<and> \<not> is_public (gk_role k))"

lemma consistent_grantsD:
  "consistent_grants d \<Longrightarrow> held_grant d k \<inter> (absent_grant d k \<union> absent_grant d (wild k)) = {}"
proof (cases "contains_key (rg_grants d) k")
  case True
  assume "consistent_grants d"
  then have "fset (get_or_default (rg_grants d) k |\<inter>|
        (get_or_default (rg_grant_absences d) k |\<union>| get_or_default (rg_grant_absences d) (wild k))) = fset {||}"
    using True by (simp only: consistent_grants_def set_bt_keys)
  then show ?thesis by simp
qed (simp add: get_or_default_absent)

lemma consistent_defaultsD: "consistent_defaults d \<Longrightarrow> held_default d k \<inter> absent_default d k = {}"
proof (cases "contains_key (rg_default_privileges d) k")
  case True
  assume "consistent_defaults d"
  then have "fset (get_or_default (rg_default_privileges d) k |\<inter>| get_or_default (rg_default_privilege_absences d) k) = fset {||}"
    using True by (simp only: consistent_defaults_def set_bt_keys)
  then show ?thesis by simp
qed (simp add: get_or_default_absent)


section \<open>Grants at the remaining keys\<close>

lemma revokes_plain:
  assumes "no_wildcard_grants c"
  shows "\<forall>x\<in>set (kept_revokes c d). \<exists>k ps t. x = change_revoke k ps t \<and> \<not> is_wildcard k"
  using kept_revokes_shape emitted_revoke_plain[OF assms] by (fastforce simp: kept_revokes_def)

lemma grants_are_additions: "\<forall>x\<in>set (diff_grants_added c d). \<exists>k ps. x = change_grant k ps"
  using grants_added_shape by blast

lemma grants_after_run:
  assumes "no_wildcard_grants c"
  shows "fset (get_or_default (fold eff_grants (diff_resolved c d) (rg_grants c)) k) =
    fset (get_or_default (fold eff_grants (diff_schema_changes c d) (rg_grants c)) k)
      \<union> (held_grant d k - held_grant c k) - grant_changes.removed (kept_revokes c d) k"
  unfolding run_grants grant_changes.run_removals[OF revokes_plain[OF assms]]
    grant_changes.run_additions[OF grants_are_additions] grants_added_privileges ..

text \<open>A wildcard selector of the desired graph is stored as declared.\<close>

lemma wildcard_grants_after:
  assumes "no_wildcard_grants c" and "is_wildcard k" and "\<not> absorbed c d k"
  shows "fset (get_or_default (fold eff_grants (diff_resolved c d) (rg_grants c)) k) = held_grant d k"
proof -
  have "grant_changes.removed (kept_revokes c d) k = {}"
    using emitted_revoke_plain[OF assms(1)] assms(2) by (auto simp: grant_changes.removed_def kept_revokes_def)
  moreover have "get_or_default (fold eff_grants (diff_schema_changes c d) (rg_grants c)) k = {||}"
    using schema_phase_grants[OF assms(3)] wildcard_not_held[OF assms(1,2)]
    by (simp add: get_or_default_def contains_key_def)
  ultimately show ?thesis
    using wildcard_not_held[OF assms(1,2)] by (simp add: grants_after_run[OF assms(1)] get_or_default_absent)
qed

lemma schema_phase_shrinks:
  assumes "set cs \<subseteq> set (diff_schema_changes c d)"
  shows "fmlookup m k = None \<Longrightarrow> fmlookup (fold eff_grants cs m) k = None"
  using assms
proof (induction cs arbitrary: m)
  case (Cons x cs)
  have "fmlookup (eff_grants x m) k = None"
    using Cons.prems schema_changes_shape[of x c d] by auto
  then show ?case using Cons by simp
qed simp

lemma absorbed_grants_after:
  assumes "no_wildcard_grants c" and "absorbed c d k"
    and "gk_schema k = None" and "\<not> is_public (gk_role k)" and "\<not> contains_key (rg_grants d) k"
  shows "fset (get_or_default (fold eff_grants (diff_resolved c d) (rg_grants c)) k) = {}"
proof -
  obtain n o' where n: "gk_object_type k = Schema" "gk_name k = Some n" "gk_role k = Role o'"
      "(n, o') \<in> set (incoming_owners (diff_schema_changes c d))"
    using assms(2,4) by (cases "gk_role k") (auto simp: absorbed_def grantee_as_str_def split: option.splits)
  then have k: "grant_key_of (Role o') Schema None (Some n) = k" using assms(3) by (cases k) simp
  have "AlterSchemaOwner n o' \<in> set (diff_schema_changes c d)"
    using n(4) by (auto simp: incoming_owners_def split: change.splits)
  then obtain xs ys where split: "diff_schema_changes c d = xs @ AlterSchemaOwner n o' # ys" by (meson split_list)
  have "fmlookup (fold eff_grants (diff_schema_changes c d) (rg_grants c)) k = None"
    using schema_phase_shrinks[of ys c d "eff_grants (AlterSchemaOwner n o') (fold eff_grants xs (rg_grants c))" k]
    by (auto simp: split k)
  then have "\<not> contains_key (fold eff_grants (diff_schema_changes c d) (rg_grants c)) k" by (simp add: contains_key_def)
  then show ?thesis
    using assms(5) by (simp add: grants_after_run[OF assms(1)] get_or_default_absent)
qed

lemma grants_after:
  assumes "no_wildcard_grants c" and "consistent_grants d" and "transfers_clean c d"
  shows "fset (get_or_default (fold eff_grants (diff_resolved c d) (rg_grants c)) k) =
    (if absorbed c d k then {} else if is_wildcard k then held_grant d k else expected_grant c d k)"
proof (cases "absorbed c d k")
  case True
  show ?thesis
  proof (cases "contains_key (rg_grants c) k \<or> contains_key (rg_grants d) k")
    case key: True
    then have "gk_schema k = None" "\<not> is_public (gk_role k)" "\<not> contains_key (rg_grants d) k"
      using assms(3) True by (auto simp: transfers_clean_def)
    then show ?thesis using absorbed_grants_after[OF assms(1) True] True by simp
  next
    case False
    then have "fmlookup (rg_grants c) k = None" by (simp add: contains_key_def)
    then have "fmlookup (fold eff_grants (diff_schema_changes c d) (rg_grants c)) k = None"
      by (rule schema_phase_shrinks[OF subset_refl])
    then have "\<not> contains_key (fold eff_grants (diff_schema_changes c d) (rg_grants c)) k" by (simp add: contains_key_def)
    then show ?thesis
      using False True by (simp add: grants_after_run[OF assms(1)] get_or_default_absent)
  qed
next
  case False
  then show ?thesis
    using wildcard_grants_after[OF assms(1) _ False] grants_converge[OF assms(1) _ False consistent_grantsD[OF assms(2)]] by auto
qed



section \<open>A second plan is empty\<close>

lemma Nil_eqI: "(\<And>x. x \<notin> set xs) \<Longrightarrow> xs = []"
  by (cases xs) auto

lemma no_role_changes:
  assumes "rg_roles c = rg_roles d"
  shows "diff_role_creates c d = []" "diff_role_alters c d = []" "diff_role_drops c d = []"
proof -
  show "diff_role_creates c d = []"
    using role_creates_shape[of _ c d] assms by (auto simp: contains_key_def intro!: Nil_eqI)
  have "role_alters c (n, st) = []" if "fmlookup (rg_roles d) n = Some st" for n st
    using that assms changed_attributes_Nil_iff[of st st] by (simp add: role_alters_def)
  then show "diff_role_alters c d = []" by (auto simp: diff_role_alters_def)
  show "diff_role_drops c d = []" by (simp add: diff_role_drops_def assms)
qed

lemma no_schema_changes:
  assumes "\<And>n. fmlookup (rg_schemas g) n = merged_schema (fmlookup (rg_schemas c) n) (fmlookup (rg_schemas d) n)"
  shows "diff_schema_changes g d = []" "diff_schema_grants g d = []"
proof -
  have "schema_changes g (n, st) = [] \<and> schema_grants g (n, st) = []" if "fmlookup (rg_schemas d) n = Some st" for n st
    by (cases "fmlookup (rg_schemas c) n"; cases "ss_owner st")
      (auto simp: schema_changes_def schema_grants_def assms that merged_schema_def Let_def)
  then show "diff_schema_changes g d = []" "diff_schema_grants g d = []"
    by (auto simp: diff_schema_changes_def diff_schema_grants_def)
qed

lemma no_grant_additions:
  assumes "no_empty_entries (rg_grants d)" and "\<And>k. held_grant d k \<subseteq> held_grant g k"
  shows "diff_grants_added g d = []"
proof (rule Nil_eqI)
  fix x show "x \<notin> set (diff_grants_added g d)"
  proof
    assume "x \<in> set (diff_grants_added g d)"
    then obtain k ps where k: "fmlookup (rg_grants d) k = Some ps"
        "contains_key (rg_grants g) k \<longrightarrow> ps |-| get_or_default (rg_grants g) k \<noteq> {||}"
      unfolding grants_added_shape by (elim exE conjE) (rule that)
    have "fset ps \<subseteq> held_grant g k" using assms(2)[of k] k(1) by (simp add: get_or_default_def)
    moreover have "ps \<noteq> {||}" using assms(1) k(1) by (auto simp: no_empty_entries_iff)
    ultimately show False using k(2) get_or_default_absent[of "rg_grants g" k] by auto
  qed
qed

lemma no_grant_revokes:
  assumes "\<And>k. fset (get_or_default (pending_revokes g d) k) = {}"
  shows "kept_revokes g d = []"
proof -
  have "fmlookup (pending_revokes g d) k \<noteq> Some s" for k s
    using assms[of k] pending_nonempty[of g d k s] by (auto simp: get_or_default_def)
  then have "diff_grants_revoked g d = []"
    unfolding diff_grants_revoked_def by (intro Nil_eqI) (simp only: in_concat_entries, blast)
  then show ?thesis by (simp add: kept_revokes_def)
qed

lemma no_default_additions:
  assumes "no_empty_entries (rg_default_privileges d)" and "\<And>k. held_default d k \<subseteq> held_default g k"
  shows "diff_defaults_set g d = []"
proof (rule Nil_eqI)
  fix x show "x \<notin> set (diff_defaults_set g d)"
  proof
    assume "x \<in> set (diff_defaults_set g d)"
    then obtain k ps where k: "fmlookup (rg_default_privileges d) k = Some ps"
        "contains_key (rg_default_privileges g) k \<longrightarrow> ps |-| get_or_default (rg_default_privileges g) k \<noteq> {||}"
      unfolding defaults_set_shape by (elim exE conjE) (rule that)
    have "fset ps \<subseteq> held_default g k" using assms(2)[of k] k(1) by (simp add: get_or_default_def)
    moreover have "ps \<noteq> {||}" using assms(1) k(1) by (auto simp: no_empty_entries_iff)
    ultimately show False using k(2) get_or_default_absent[of "rg_default_privileges g" k] by auto
  qed
qed

lemma default_revokes_nonempty:
  "no_empty_entries (rg_default_privileges g) \<Longrightarrow> (k, s) \<in> set (default_revokes g d) \<Longrightarrow> s \<noteq> {||}"
  by (auto simp: default_revokes_def matched_default_revokes_iff unmatched_default_revokes_iff absence_default_revokes_iff
      no_empty_entries_iff)

lemma no_default_revokes:
  assumes "no_empty_entries (rg_default_privileges g)"
    and "\<And>k. fset (get_or_default (extend_all (default_revokes g d)) k) = {}"
  shows "diff_defaults_revoked g d = []"
proof -
  have "default_revokes g d = []"
  proof (rule Nil_eqI)
    fix x show "x \<notin> set (default_revokes g d)"
      using assms(2)[of "fst x"] default_revokes_nonempty[OF assms(1), of "fst x" "snd x" d]
      unfolding fset_extend_all by (cases x) auto
  qed
  then show ?thesis by (simp add: diff_defaults_revoked_entries extend_all_def)
qed

lemma no_member_changes:
  assumes "rg_memberships g = rg_memberships d"
  shows "diff_members_removed g d = []" "diff_members_added g d = []"
proof -
  have "edge_removals g (p, e) = [] \<and> edge_additions g (p, e) = []"
    if "fmlookup (edge_map (rg_memberships d)) p = Some e" for p e
    using that by (cases p) (simp add: edge_removals_def edge_additions_def assms)
  then show "diff_members_removed g d = []" "diff_members_added g d = []"
    unfolding diff_members_removed_def diff_members_added_def
    by (auto simp: assms split: if_splits)
qed



section \<open>The two laws\<close>

lemma grants_no_empty:
  assumes "wf_current c" and "no_empty_entries (rg_grants d)"
  shows "fmlookup (fold eff_grants (diff_resolved c d) (rg_grants c)) k \<noteq> Some {||}"
proof -
  let ?m = "fold eff_grants (diff_schema_changes c d) (rg_grants c)"
  have "\<forall>k. fmlookup (fold eff_grants cs m) k \<noteq> Some {||}"
    if "set cs \<subseteq> set (diff_schema_changes c d)" "\<forall>k. fmlookup m k \<noteq> Some {||}" for cs m
    using that
  proof (induction cs arbitrary: m)
    case (Cons x cs)
    have "\<forall>k. fmlookup (eff_grants x m) k \<noteq> Some {||}"
      using Cons.prems schema_changes_shape[of x c d] by (auto split: if_splits)
    then show ?case using Cons by simp
  qed simp
  then have start: "\<forall>k. fmlookup ?m k \<noteq> Some {||}"
    using assms(1) by (simp add: wf_current_def no_empty_entries_iff)
  have "\<forall>x\<in>set (diff_grants_added c d). \<exists>k ps. x = change_grant k ps \<and> ps \<noteq> {||}"
  proof
    fix x assume "x \<in> set (diff_grants_added c d)"
    then obtain k ps where x: "x = change_grant k (ps |-| get_or_default (rg_grants c) k)" "fmlookup (rg_grants d) k = Some ps"
        "contains_key (rg_grants c) k \<longrightarrow> ps |-| get_or_default (rg_grants c) k \<noteq> {||}"
      unfolding grants_added_shape by (elim exE conjE) (rule that)
    have "ps |-| get_or_default (rg_grants c) k \<noteq> {||}"
      using x(2,3) assms(2) by (cases "contains_key (rg_grants c) k") (auto simp: no_empty_entries_iff get_or_default_absent)
    then show "\<exists>k ps. x = change_grant k ps \<and> ps \<noteq> {||}" using x(1) by blast
  qed
  then have mid: "\<forall>k. fmlookup (fold eff_grants (diff_grants_added c d) ?m) k \<noteq> Some {||}"
    using grant_changes.run_additions_no_empty start by blast
  have "no_wildcard_grants c" using assms(1) by (simp add: wf_current_def)
  then show ?thesis
    unfolding run_grants using grant_changes.run_removals_no_empty[OF revokes_plain mid] by blast
qed

lemma defaults_no_empty:
  assumes "no_empty_entries (rg_default_privileges c)" and "no_empty_entries (rg_default_privileges d)"
  shows "fmlookup (fold eff_defaults (diff_resolved c d) (rg_default_privileges c)) k \<noteq> Some {||}"
proof -
  have "\<forall>x\<in>set (diff_defaults_set c d). \<exists>k ps. x = change_set_default k ps \<and> ps \<noteq> {||}"
  proof
    fix x assume "x \<in> set (diff_defaults_set c d)"
    then obtain k ps where x: "x = change_set_default k (ps |-| get_or_default (rg_default_privileges c) k)"
        "fmlookup (rg_default_privileges d) k = Some ps"
        "contains_key (rg_default_privileges c) k \<longrightarrow> ps |-| get_or_default (rg_default_privileges c) k \<noteq> {||}"
      unfolding defaults_set_shape by (elim exE conjE) (rule that)
    have "ps |-| get_or_default (rg_default_privileges c) k \<noteq> {||}"
      using x(2,3) assms(2) by (cases "contains_key (rg_default_privileges c) k") (auto simp: no_empty_entries_iff get_or_default_absent)
    then show "\<exists>k ps. x = change_set_default k ps \<and> ps \<noteq> {||}" using x(1) by blast
  qed
  then have mid: "\<forall>k. fmlookup (fold eff_defaults (diff_defaults_set c d) (rg_default_privileges c)) k \<noteq> Some {||}"
    using default_changes.run_additions_no_empty assms(1) by (simp add: no_empty_entries_iff)
  have "\<forall>x\<in>set (diff_defaults_revoked c d). \<exists>k ps (t :: unit). x = change_revoke_default k ps \<and> True"
    by (auto dest: defaults_revoked_shape)
  then show ?thesis unfolding run_defaults using default_changes.run_removals_no_empty mid by blast
qed

lemma plan_runs:
  assumes "rg_membership_edge_grantors c = fmempty"
  shows "apply_changes c (diff_resolved c d) = Some (run (diff_resolved c d) c)"
  using diff_applicable[OF assms] by (simp add: apply_changes_run)

lemma pending_after:
  assumes "no_wildcard_grants c" and "consistent_grants d" and "transfers_clean c d"
  shows "fset (get_or_default (pending_revokes (run (diff_resolved c d) c) d) k) = {}"
proof -
  let ?g = "run (diff_resolved c d) c"
  note after = grants_after[OF assms]
  note consistent = consistent_grantsD[OF assms(2)]
  have held: "held_grant ?g k' \<inter> absent_grant d (wild k') = {} \<and> held_grant ?g k' \<inter> absent_grant d k' = {}" if "\<not> inherent c k'" for k'
    using consistent[of k'] that by (auto simp: after expected_grant_def)
  have "absent_grant d k \<inter> fset (held_privileges ?g k) = {}"
  proof (cases "is_wildcard k")
    case True
    then have "k = wild k'" if "in_scope k k'" for k' using that by (simp add: in_scope_wildcard)
    then show ?thesis using held True by (auto simp: fset_held_privileges)
  next
    case False
    then show ?thesis using held[of k] by (auto simp: fset_held_privileges)
  qed
  moreover have "held_grant ?g k - held_grant d k - shadowed d k = {}" if "\<not> inherent c k" "\<not> is_public (gk_role k)"
    using that by (auto simp: after expected_grant_def shadowed_def)
  ultimately show ?thesis by (simp add: pending_grants del: run_fields(3))
qed

lemma pending_defaults_after:
  assumes "consistent_defaults d"
  shows "fset (get_or_default (extend_all (default_revokes (run (diff_resolved c d) c) d)) k) = {}"
proof -
  let ?g = "run (diff_resolved c d) c"
  have after: "held_default ?g k = (if is_public (dk_grantee k) then held_default d k \<union> (held_default c k - absent_default d k) else held_default d k)"
    using defaults_converge[OF consistent_defaultsD[OF assms]] by simp
  have "builtin_defaults_for_new_owner ?g d k = {||}"
    by (simp add: builtin_defaults_for_new_owner_def roles_converge)
  then have "absent_default d k \<inter> assertable_default ?g d k = {}"
    using consistent_defaultsD[OF assms, of k] by (auto simp: assertable_default_def after simp del: run_fields(4))
  then show ?thesis by (auto simp: pending_defaults after simp del: run_fields(4))
qed

lemma second_plan_empty:
  assumes c: "wf_current c" and d: "wf_desired d" and clean: "transfers_clean c d"
  shows "diff_resolved (run (diff_resolved c d) c) d = []"
proof -
  let ?g = "run (diff_resolved c d) c"
  have wc: "no_wildcard_grants c" "one_edge_per_pair (rg_memberships c)" "rg_membership_edge_grantors c = fmempty"
      "no_empty_entries (rg_default_privileges c)"
    and wd: "no_empty_entries (rg_grants d)" "no_empty_entries (rg_default_privileges d)" "consistent_grants d"
      "consistent_defaults d" "one_edge_per_pair (rg_memberships d)"
    using c d by (auto simp: wf_current_def wf_desired_def)
  have "absorbed c d k \<Longrightarrow> held_grant d k = {}" for k
    using clean by (cases "contains_key (rg_grants d) k") (auto simp: transfers_clean_def get_or_default_absent)
  then have grants: "held_grant d k \<subseteq> held_grant ?g k" for k
    by (auto simp: grants_after[OF wc(1) wd(3) clean] expected_grant_def)
  have defaults: "held_default d k \<subseteq> held_default ?g k" for k
    using defaults_converge[OF consistent_defaultsD[OF wd(4)], of c k] by auto
  have "no_empty_entries (rg_default_privileges ?g)"
    using defaults_no_empty[OF wc(4) wd(2)] by (simp add: no_empty_entries_iff)
  then show ?thesis
    unfolding diff_resolved_phases[of ?g]
    using no_role_changes[of ?g d] no_schema_changes[of ?g c d] no_grant_additions[OF wd(1) grants]
      no_grant_revokes[OF pending_after[OF wc(1) wd(3) clean]] no_default_additions[OF wd(2) defaults]
      no_default_revokes[OF _ pending_defaults_after[OF wd(4)], of c] no_member_changes[of ?g d]
    by (simp add: roles_converge schemas_after members_converge[OF wc(3,2) wd(5)])
qed

end
