(* ===== verification/Examples.thy ===== *)
theory Examples
  imports Convergence
begin

text \<open>
  Concrete graphs at which the hypotheses of the theorems hold: a database with a role to drop, a role
  to alter, a schema to transfer, a grant to revoke, a grant of its owner that PostgreSQL holds
  inherently, and a manifest that adds, keeps, revokes and asserts the absence of privileges.
\<close>

definition ex_tbl :: "grantee \<Rightarrow> string \<Rightarrow> grant_key" where
  "ex_tbl who name = grant_key_of who Table (Some ''app'') (Some name)"

definition ex_default :: "grantee \<Rightarrow> default_priv_key" where
  "ex_default who = default_key ''owner'' (SchemaScope ''app'') Table who"

definition ex_current :: role_graph where
  "ex_current = empty_graph\<lparr>
     rg_roles := fmap_of_list [(''owner'', default_role_state), (''reader'', default_role_state),
                               (''stale'', default_role_state)],
     rg_schemas := fmap_of_list [(''app'', \<lparr>ss_owner = Some ''stale'', ss_owner_privileges = {|Create, Usage|}\<rparr>)],
     rg_grants := fmap_of_list [(ex_tbl (Role ''reader'') ''t'', {|Select, Insert|}),
                                (ex_tbl (Role ''owner'') ''t'', {|Select|}),
                                (ex_tbl Public ''t'', {|Select, Update|})],
     rg_default_privileges := fmap_of_list [(ex_default (Role ''stale''), {|Select|}), (ex_default Public, {|Select|})],
     rg_memberships := {|\<lparr>me_role = ''reader'', me_member = ''stale'', me_inherit = True, me_admin = False\<rparr>|},
     rg_inherent_grants := {|ex_tbl (Role ''owner'') ''t''|}\<rparr>"

definition ex_desired :: role_graph where
  "ex_desired = empty_graph\<lparr>
     rg_roles := fmap_of_list [(''owner'', default_role_state), (''reader'', default_role_state\<lparr>rs_login := True\<rparr>),
                               (''writer'', default_role_state)],
     rg_schemas := fmap_of_list [(''app'', \<lparr>ss_owner = Some ''owner'', ss_owner_privileges = {|Create, Usage|}\<rparr>)],
     rg_grants := fmap_of_list [(ex_tbl (Role ''reader'') ''t'', {|Select|}), (ex_tbl (Role ''writer'') ''t'', {|Insert|})],
     rg_default_privileges := fmap_of_list [(ex_default (Role ''reader''), {|Select|})],
     rg_memberships := {|\<lparr>me_role = ''reader'', me_member = ''writer'', me_inherit = True, me_admin = False\<rparr>|},
     rg_grant_absences := fmap_of_list [(ex_tbl Public ''*'', {|Update|})],
     rg_default_privilege_absences := fmap_of_list [(ex_default Public, {|Select|})]\<rparr>"

lemma ex_no_aliases [simp]: "resolve_routine_aliases ex_desired (rg_routine_aliases ex_current) = ex_desired"
  by (simp add: resolve_routine_aliases_def ex_current_def empty_graph_def)

lemma ex_wf_current: "wf_current ex_current"
  by code_simp

lemma ex_wf_desired: "wf_desired ex_desired"
  by code_simp

lemma ex_transfers_clean: "transfers_clean ex_current ex_desired"
  by code_simp

definition ex_executor :: role_graph where
  "ex_executor = empty_graph\<lparr>
     rg_memberships := {|\<lparr>me_role = ''app'', me_member = ''executor'', me_inherit = True, me_admin = True\<rparr>,
                         \<lparr>me_role = ''app'', me_member = ''stale'', me_inherit = True, me_admin = False\<rparr>|},
     rg_membership_edge_grantors := fmap_of_list [((''app'', ''executor''), {|''postgres''|}), ((''app'', ''stale''), {|''postgres''|})],
     rg_executor_authority_edges := {|(''app'', ''executor'', ''postgres'')|}\<rparr>"

end
