(* ===== verification/DiffLaws.thy ===== *)
theory DiffLaws
  imports Examples
begin

text \<open>
  The laws of \<open>diff\<close> in the form its callers rely on, over the graphs as given, with routine aliases
  resolved on the way.
\<close>

section \<open>Convergence\<close>






section \<open>Safety\<close>

lemma revokes_of_plan:
  "change_revoke k ps t \<in> set (diff c d) \<longleftrightarrow>
     change_revoke k ps t \<in> set (kept_revokes c (resolve_routine_aliases d (rg_routine_aliases c)))"
  by (auto simp: diff_def diff_resolved_phases phase_shape_iffs change_constructor_defs
      dest!: diff_role_alters_shape schema_changes_shape schema_grants_shape defaults_revoked_shape
        members_removed_shape members_added_shape)

text \<open>
  No revoke of a plan reaches a privilege that is inherent in ownership, neither at the object
  itself nor through a wildcard over its schema; whatever the two graphs are.
\<close>

theorem plan_spares_inherent:
  assumes "change_revoke K ps t \<in> set (diff c d)" and "k |\<in>| rg_inherent_grants c"
  shows "\<not> covers K k"
  using assms revoke_spares_inherent by (auto simp: revokes_of_plan kept_revokes_def)

theorem plan_spares_inherent_witness:
  "change_revoke (ex_tbl (Role ''reader'') ''t'') {|Insert|} None \<in> set (diff ex_current ex_desired) \<and>
   ex_tbl (Role ''owner'') ''t'' |\<in>| rg_inherent_grants ex_current \<and>
   \<not> covers (ex_tbl (Role ''reader'') ''t'') (ex_tbl (Role ''owner'') ''t'')"
proof -
  have "change_revoke (ex_tbl (Role ''reader'') ''t'') {|Insert|} None \<in> set (diff ex_current ex_desired)" by code_simp
  moreover have "ex_tbl (Role ''owner'') ''t'' |\<in>| rg_inherent_grants ex_current" by code_simp
  ultimately show ?thesis using plan_spares_inherent by blast
qed

text \<open>
  A plan revokes from \<open>PUBLIC\<close> only privileges whose absence the manifest asserts, for the object or
  for its whole schema.
\<close>

theorem plan_public_revokes_asserted:
  assumes "change_revoke k ps t \<in> set (diff c d)" and "is_public (gk_role k)"
  shows "fset ps \<subseteq> absent_grant (resolve_routine_aliases d (rg_routine_aliases c)) k
    \<union> absent_grant (resolve_routine_aliases d (rg_routine_aliases c)) (wild k)"
  by (rule public_revoke_asserted[OF _ assms(2)]) (use assms(1) in \<open>auto simp: revokes_of_plan kept_revokes_def\<close>)

theorem plan_public_revokes_asserted_witness:
  "change_revoke (ex_tbl Public ''t'') {|Update|} None \<in> set (diff ex_current ex_desired) \<and>
   {Update} \<subseteq> absent_grant ex_desired (ex_tbl Public ''t'') \<union> absent_grant ex_desired (wild (ex_tbl Public ''t''))"
proof -
  have "change_revoke (ex_tbl Public ''t'') {|Update|} None \<in> set (diff ex_current ex_desired)" by code_simp
  moreover have "is_public (gk_role (ex_tbl Public ''t''))" by code_simp
  ultimately show ?thesis using plan_public_revokes_asserted[of "ex_tbl Public ''t''" "{|Update|}" None ex_current ex_desired] by simp
qed

text \<open>
  A plan never revokes a declared privilege, so applying it opens no window without that privilege.
\<close>

theorem plan_spares_declared:
  assumes "no_wildcard_grants c" and "change_revoke k ps t \<in> set (diff c d)"
    and "consistent_grants (resolve_routine_aliases d (rg_routine_aliases c))"
  shows "fset ps \<inter> held_grant (resolve_routine_aliases d (rg_routine_aliases c)) k = {}"
  using revoke_spares_declared[OF assms(1) _ consistent_grantsD[OF assms(3)]] assms(2)
  by (auto simp: revokes_of_plan kept_revokes_def)

theorem plan_spares_declared_witness:
  "change_revoke (ex_tbl (Role ''reader'') ''t'') {|Insert|} None \<in> set (diff ex_current ex_desired) \<and>
   {Insert} \<inter> held_grant ex_desired (ex_tbl (Role ''reader'') ''t'') = {}"
proof -
  have "change_revoke (ex_tbl (Role ''reader'') ''t'') {|Insert|} None \<in> set (diff ex_current ex_desired)" by code_simp
  moreover have "no_wildcard_grants ex_current" "consistent_grants ex_desired"
    using ex_wf_current ex_wf_desired by (auto simp: wf_current_def wf_desired_def)
  ultimately show ?thesis
    using plan_spares_declared[of ex_current "ex_tbl (Role ''reader'') ''t''" "{|Insert|}" None ex_desired] by simp
qed

lemma option_reduction_iff:
  "x \<in> set (option_reduction c e e' g) \<Longrightarrow>
     \<exists>inherit admin. x = UpdateMemberOptions (me_role e') (me_member e') g inherit admin None \<and>
       (inherit = Some False \<or> admin = Some False) \<and>
       (admin = Some False \<longrightarrow> \<not> executor_authority c (me_role e') (me_member e') g)"
  by (auto simp: option_reduction_def then_some_def Let_def split: if_splits)

lemma remove_all_edges_iff:
  "x \<in> set (remove_all_edges c role member) \<Longrightarrow>
     x = RemoveMember role member None \<or>
     (\<exists>g. x = RemoveMember role member (Some g) \<and> \<not> executor_authority c role member g)"
  by (auto simp: remove_all_edges_def split: option.splits if_splits)

text \<open>The changes the removal loop emits, and those the addition loop emits.\<close>

definition is_reduction :: "role_graph \<Rightarrow> change \<Rightarrow> bool" where
  "is_reduction c x =
     (case x of
        RemoveMember role member grantor \<Rightarrow> (case grantor of None \<Rightarrow> True | Some g \<Rightarrow> \<not> executor_authority c role member g)
      | UpdateMemberOptions role member g inherit admin binding \<Rightarrow>
          (inherit = Some False \<or> admin = Some False) \<and> (admin = Some False \<longrightarrow> \<not> executor_authority c role member g)
      | _ \<Rightarrow> False)"

definition is_extension :: "change \<Rightarrow> bool" where
  "is_extension x =
     (case x of
        AddMember role member inherit admin \<Rightarrow> True
      | UpdateMemberOptions role member g inherit admin binding \<Rightarrow> inherit \<noteq> Some False \<and> admin \<noteq> Some False
      | _ \<Rightarrow> False)"

lemma members_removed_reductions:
  assumes "x \<in> set (diff_members_removed c d)"
  shows "is_reduction c x"
proof -
  consider p e where "x \<in> set (edge_removals c (p, e))" | r m where "x \<in> set (remove_all_edges c r m)"
    using assms by (auto simp: diff_members_removed_def split: if_splits)
  then show ?thesis
  proof cases
    case 1
    have reduction: "\<And>e' g. x \<in> set (option_reduction c e' e g) \<Longrightarrow> is_reduction c x"
      "\<And>r m. x \<in> set (remove_all_edges c r m) \<Longrightarrow> is_reduction c x"
      by (auto simp: is_reduction_def dest!: option_reduction_iff remove_all_edges_iff)
    show ?thesis
      using 1 reduction
      by (cases p; cases "fmlookup (edge_map (rg_memberships c)) p"; cases "fmlookup (rg_membership_edge_grantors c) p")
        (auto simp: edge_removals_def split: if_splits)
  qed (auto simp: is_reduction_def dest!: remove_all_edges_iff)
qed

lemma members_added_extensions:
  assumes "x \<in> set (diff_members_added c d)"
  shows "is_extension x"
proof -
  obtain p e where "x \<in> set (edge_additions c (p, e))"
    using assms unfolding diff_members_added_def in_concat_entries by auto
  then show ?thesis
    by (cases p) (auto simp: edge_additions_def is_extension_def then_some_def Let_def split: option.splits if_splits list.splits)
qed

text \<open>
  A membership edge through which the executing role itself holds its authority is never removed,
  and its admin option is never taken away.
\<close>

theorem plan_keeps_executor_authority:
  assumes "(role, member, grantor) |\<in>| rg_executor_authority_edges c"
  shows "RemoveMember role member (Some grantor) \<notin> set (diff c d) \<and>
    UpdateMemberOptions role member grantor inherit (Some False) binding \<notin> set (diff c d)"
  using assms
  by (auto simp: diff_def diff_resolved_phases phase_shape_iffs change_constructor_defs is_reduction_def is_extension_def
      executor_authority_def
      dest!: diff_role_alters_shape schema_changes_shape schema_grants_shape kept_revokes_shape defaults_revoked_shape
        members_removed_reductions members_added_extensions)

theorem plan_keeps_executor_authority_witness:
  "(''app'', ''executor'', ''postgres'') |\<in>| rg_executor_authority_edges ex_executor \<and>
   RemoveMember ''app'' ''stale'' (Some ''postgres'') \<in> set (diff ex_executor empty_graph) \<and>
   RemoveMember ''app'' ''executor'' (Some ''postgres'') \<notin> set (diff ex_executor empty_graph)"
proof -
  have "(''app'', ''executor'', ''postgres'') |\<in>| rg_executor_authority_edges ex_executor" by code_simp
  moreover have "RemoveMember ''app'' ''stale'' (Some ''postgres'') \<in> set (diff ex_executor empty_graph)" by code_simp
  ultimately show ?thesis using plan_keeps_executor_authority by blast
qed


section \<open>Order\<close>

text \<open>The dependency order the documentation of \<open>Change\<close> lists.\<close>

fun change_phase :: "change \<Rightarrow> nat" where
  "change_phase (CreateRole _ _) = 1"
| "change_phase (AlterRole _ _) = 2"
| "change_phase (SetComment _ _) = 2"
| "change_phase (CreateSchema _ _) = 3"
| "change_phase (AlterSchemaOwner _ _) = 3"
| "change_phase (EnsureSchemaOwnerPrivileges _ _ _) = 4"
| "change_phase (Grant _ _ _ _ _) = 5"
| "change_phase (SetDefaultPrivilege _ _ _ _ _) = 6"
| "change_phase (Revoke _ _ _ _ _ _) = 7"
| "change_phase (RemoveMember _ _ _) = 8"
| "change_phase (UpdateMemberOptions _ _ _ inherit admin _) = (if inherit = Some False \<or> admin = Some False then 8 else 9)"
| "change_phase (AddMember _ _ _ _) = 9"
| "change_phase (RevokeDefaultPrivilege _ _ _ _ _) = 10"
| "change_phase (DropRole _) = 11"
| "change_phase _ = 12"

lemma sorted_blocks:
  "list_all2 (\<lambda>n xs. \<forall>x\<in>set xs. f x = n) ns xss \<Longrightarrow> sorted ns \<Longrightarrow> sorted (map f (concat xss))"
proof (induction rule: list_all2_induct)
  case (Cons n ns xs xss)
  have "n \<le> f y" if "y \<in> set (concat xss)" for y
  proof -
    obtain xs where "xs \<in> set xss" "y \<in> set xs" using \<open>y \<in> _\<close> by auto
    then obtain i where "i < length xss" "y \<in> set (xss ! i)" by (metis in_set_conv_nth)
    then have "f y = ns ! i" "i < length ns"
      using list_all2_nthD2[OF Cons.hyps(2), of i] list_all2_lengthD[OF Cons.hyps(2)] by auto
    then have "f y \<in> set ns" by simp
    then show ?thesis using Cons.prems by simp
  qed
  moreover have "sorted (map f xs)"
    using Cons.hyps(1) by (induction xs) auto
  ultimately show ?case using Cons by (auto simp: sorted_append)
qed simp

lemma phase_constants:
  "x \<in> set (diff_role_creates c d) \<Longrightarrow> change_phase x = 1"
  "x \<in> set (diff_role_alters c d) \<Longrightarrow> change_phase x = 2"
  "x \<in> set (diff_schema_changes c d) \<Longrightarrow> change_phase x = 3"
  "x \<in> set (diff_schema_grants c d) \<Longrightarrow> change_phase x = 4"
  "x \<in> set (diff_grants_added c d) \<Longrightarrow> change_phase x = 5"
  "x \<in> set (diff_defaults_set c d) \<Longrightarrow> change_phase x = 6"
  "x \<in> set (kept_revokes c d) \<Longrightarrow> change_phase x = 7"
  "x \<in> set (diff_members_removed c d) \<Longrightarrow> change_phase x = 8"
  "x \<in> set (diff_members_added c d) \<Longrightarrow> change_phase x = 9"
  "x \<in> set (diff_defaults_revoked c d) \<Longrightarrow> change_phase x = 10"
  "x \<in> set (diff_role_drops c d) \<Longrightarrow> change_phase x = 11"
proof -
  show "x \<in> set (diff_members_removed c d) \<Longrightarrow> change_phase x = 8"
    by (drule members_removed_reductions) (auto simp: is_reduction_def split: change.splits)
  show "x \<in> set (diff_members_added c d) \<Longrightarrow> change_phase x = 9"
    by (drule members_added_extensions) (auto simp: is_extension_def split: change.splits)
qed (auto simp: phase_shape_iffs change_constructor_defs dest!: diff_role_alters_shape schema_changes_shape
  schema_grants_shape kept_revokes_shape defaults_revoked_shape)

lemma sorted_phases: "sorted (map change_phase (diff_resolved c d))"
proof -
  have "sorted (map change_phase (concat [diff_role_creates c d, diff_role_alters c d, diff_schema_changes c d,
      diff_schema_grants c d, diff_grants_added c d, diff_defaults_set c d, kept_revokes c d,
      diff_members_removed c d, diff_members_added c d, diff_defaults_revoked c d, diff_role_drops c d]))"
    by (rule sorted_blocks[where ns = "[1, 2, 3, 4, 5, 6, 7, 8, 9, 10, 11]"]) (simp_all add: phase_constants)
  then show ?thesis by (simp add: diff_resolved_phases)
qed

text \<open>
  Every plan is in dependency order: roles are created before anything refers to them, grants come
  before revokes, revokes before the memberships that may carry the authority to make them, option
  reductions and removals before additions, and roles are dropped last.
\<close>

theorem plan_in_dependency_order: "sorted (map change_phase (diff c d))"
  by (simp add: diff_def sorted_phases)


section \<open>Attributes and aliases\<close>

text \<open>
  \<open>changed_attributes\<close> is an exact difference: applying the listed attributes to the first state gives
  the second in everything but the comment, and nothing is listed exactly when only the comment may
  differ.
\<close>

theorem changed_attributes_exact:
  "fold apply_attribute (changed_attributes self other) self = other\<lparr>rs_comment := rs_comment self\<rparr> \<and>
   (changed_attributes self other = [] \<longleftrightarrow> other\<lparr>rs_comment := rs_comment self\<rparr> = self)"
  by (simp add: changed_attributes_apply changed_attributes_Nil_iff)

end
