(* ===== verification/PlanLaws.thy ===== *)
theory PlanLaws
  imports Plan DiffLaws
begin

text \<open>
  What the filters between \<open>diff\<close> and execution guarantee. Each filter only weakens a plan: every change
  it lets through is a change it was given, or a smaller part of one. This is the contract of the
  locale below; each filter of \<open>Plan\<close> is an interpretation.
\<close>

section \<open>Filters weaken plans\<close>

definition weaker :: "change \<Rightarrow> change \<Rightarrow> bool" where
  "weaker x y \<longleftrightarrow> x = y \<or>
     (\<exists>K K' ps ps' t. x = change_revoke K ps t \<and> y = change_revoke K' ps' t \<and> ps |\<subseteq>| ps' \<and>
        (\<forall>k. covers K k \<longrightarrow> covers K' k)) \<or>
     (\<exists>role member grantor i a i' a' b. x = UpdateMemberOptions role member grantor i a b \<and>
        y = UpdateMemberOptions role member grantor i' a' b \<and> i \<in> {None, i'} \<and> a \<in> {None, a'})"

locale plan_filter =
  fixes f :: "change list \<Rightarrow> change list"
  assumes weakens: "x \<in> set (f cs) \<Longrightarrow> \<exists>y\<in>set cs. weaker x y"
begin

text \<open>A filter introduces no revoke of anything the plan before it did not revoke.\<close>

lemma revokes_within:
  assumes "change_revoke K ps t \<in> set (f cs)" and "covers K k"
  shows "\<exists>K' ps'. change_revoke K' ps' t \<in> set cs \<and> ps |\<subseteq>| ps' \<and> covers K' k"
proof -
  obtain y where y: "y \<in> set cs" "weaker (change_revoke K ps t) y" using weakens[OF assms(1)] by blast
  have "change_revoke K ps t \<noteq> UpdateMemberOptions role member grantor i a b" for role member grantor i a b
    by (simp add: change_revoke_def)
  then show ?thesis
    using y assms(2) unfolding weaker_def grant_changes.remove_inject by blast
qed

lemma keeps_kind:
  assumes "x \<in> set (f cs)" and "\<And>K ps t. x \<noteq> change_revoke K ps t"
    and "\<And>role member grantor i a b. x \<noteq> UpdateMemberOptions role member grantor i a b"
  shows "x \<in> set cs"
  using weakens[OF assms(1)] assms(2,3) by (auto simp: weaker_def)

end

lemma weaker_refl [simp]: "weaker x x"
  by (simp add: weaker_def)

lemma weaker_self: "x \<in> set cs \<Longrightarrow> \<exists>y\<in>set cs. weaker x y"
  using weaker_refl by blast

lemma in_map_filter: "x \<in> set (List.map_filter f cs) \<longleftrightarrow> (\<exists>y\<in>set cs. f y = Some x)"
  by (induction cs) (auto simp: List.map_filter_simps split: option.splits)

lemma additive_options_weaker: "additive_options y = Some x \<Longrightarrow> weaker x y"
  by (cases y) (auto simp: additive_options_def weaker_def Let_def split: if_splits)

interpretation mode_filter: plan_filter "\<lambda>cs. filter_changes cs mode"
proof
  fix x cs assume "x \<in> set (filter_changes cs mode)"
  then show "\<exists>y\<in>set cs. weaker x y"
    by (cases mode) (auto simp: filter_changes_def filter_additive_changes_def in_map_filter
        intro: additive_options_weaker weaker_self)
qed

interpretation external_filter: plan_filter "\<lambda>cs. filter_external_role_changes cs roles memberships"
  by unfold_locales (auto simp: filter_external_role_changes_def intro: weaker_self)

lemma enforced_wildcard:
  assumes "gk_name key = Some ''*''"
  shows "x \<in> set (enforced_revokes d key ps t) \<longleftrightarrow>
    (let w = ps |\<inter>| get_or_default (rg_grant_absences d) key in
     (w \<noteq> {||} \<and> x = change_revoke key w t) \<or>
     (\<exists>K absent. fmlookup (rg_grant_absences d) K = Some absent \<and> in_scope key K \<and> gk_name K \<notin> {None, Some ''*''} \<and>
        ps |\<inter>| absent |-| w \<noteq> {||} \<and> x = change_revoke (key\<lparr>gk_name := gk_name K\<rparr>) (ps |\<inter>| absent |-| w) t))"
proof -
  let ?w = "ps |\<inter>| get_or_default (rg_grant_absences d) key"
  let ?emit = "\<lambda>K absent. if gk_role K \<noteq> gk_role key \<or> gk_object_type K \<noteq> gk_object_type key
       \<or> gk_schema K \<noteq> gk_schema key \<or> gk_name K \<in> {None, Some ''*''} then []
     else (let exact = (ps |\<inter>| absent) |-| ?w in
           if exact \<noteq> {||} then [change_revoke (key\<lparr>gk_name := gk_name K\<rparr>) exact t] else [])"
  have emit: "x \<in> set (?emit K absent) \<longleftrightarrow> in_scope key K \<and> gk_name K \<notin> {None, Some ''*''} \<and>
      ps |\<inter>| absent |-| ?w \<noteq> {||} \<and> x = change_revoke (key\<lparr>gk_name := gk_name K\<rparr>) (ps |\<inter>| absent |-| ?w) t" for K absent
    by (auto simp: in_scope_def Let_def)
  have first: "x \<in> set (if ?w \<noteq> {||} then [change_revoke key ?w t] else []) \<longleftrightarrow> ?w \<noteq> {||} \<and> x = change_revoke key ?w t" by auto
  have wild: "wild key = key" using assms by (cases key) simp
  have eq: "enforced_revokes d key ps t = (if ?w \<noteq> {||} then [change_revoke key ?w t] else []) @
      concat (map (\<lambda>(K, absent). ?emit K absent) (bt_entries (rg_grant_absences d)))"
    unfolding enforced_revokes_def Let_def wild using assms by simp
  show ?thesis
    unfolding eq set_append Un_iff in_concat_entries prod.case emit first unfolding Let_def by (rule refl)
qed

lemma enforced_revokes_shape:
  assumes "x \<in> set (enforced_revokes d key ps t)"
  shows "\<exists>K ps'. x = change_revoke K ps' t \<and> ps' |\<subseteq>| ps \<and> gk_role K = gk_role key \<and> (\<forall>k. covers K k \<longrightarrow> covers key k) \<and>
    fset ps' \<subseteq> absent_grant d K \<union> absent_grant d (wild K)"
proof (cases "gk_name key = Some ''*''")
  case False
  then have "x = change_revoke key (ps |\<inter>| get_or_default (rg_grant_absences d) (wild key) |\<union>|
      (ps |\<inter>| get_or_default (rg_grant_absences d) key)) t"
    using assms by (auto simp: enforced_revokes_def Let_def split: if_splits)
  then show ?thesis by (intro exI[of _ key] exI conjI) auto
next
  case True
  then have wild: "wild key = key" by (cases key) simp
  let ?w = "ps |\<inter>| get_or_default (rg_grant_absences d) key"
  consider "x = change_revoke key ?w t"
    | K absent where "fmlookup (rg_grant_absences d) K = Some absent" "in_scope key K" "gk_name K \<noteq> Some ''*''"
      "x = change_revoke (key\<lparr>gk_name := gk_name K\<rparr>) ((ps |\<inter>| absent) |-| ?w) t"
    using assms enforced_wildcard[OF True, of x d ps t] unfolding Let_def by auto
  then show ?thesis
  proof cases
    case 1
    then show ?thesis by (intro exI[of _ key] exI[of _ ?w] conjI) auto
  next
    case 2
    have "key\<lparr>gk_name := gk_name K\<rparr> = K" using 2(2) by (cases key; cases K) (simp add: in_scope_def)
    moreover have "\<forall>k. covers K k \<longrightarrow> covers key k"
      using 2(2,3) True by (auto simp: covers_def is_wildcard_def)
    ultimately show ?thesis
      using 2 by (intro exI[of _ K] exI[of _ "(ps |\<inter>| absent) |-| ?w"] conjI) (auto simp: get_or_default_def in_scope_def)
  qed
qed

interpretation preserve_filter: plan_filter "\<lambda>cs. filter_preserved_grant_revokes cs roles desired"
proof
  fix x cs assume x: "x \<in> set (filter_preserved_grant_revokes cs roles desired)"
  show "\<exists>y\<in>set cs. weaker x y"
  proof (cases "preserved_roles roles = []")
    case True
    then show ?thesis using x by (auto simp: filter_preserved_grant_revokes_def intro: weaker_self)
  next
    case False
    then obtain y where y: "y \<in> set cs" "x \<in> set (preserve_revoke (preserved_roles roles) desired y)"
      using x by (auto simp: filter_preserved_grant_revokes_def)
    show ?thesis
    proof (cases "x = y")
      case False
      then obtain role ps ot s n t where rev: "y = Revoke role ps ot s n t"
          "x \<in> set (enforced_revokes desired (grant_key_of role ot s n) ps t)"
        using y(2) by (auto simp: preserve_revoke_def split: change.splits if_splits)
      then have "y = change_revoke (grant_key_of role ot s n) ps t" by (simp add: change_revoke_def)
      then have "weaker x y"
        using enforced_revokes_shape[OF rev(2)] unfolding weaker_def by blast
      then show ?thesis using y(1) by blast
    qed (use y(1) weaker_self in auto)
  qed
qed


section \<open>Retirements\<close>

lemma retired_mem:
  "x \<in> set (apply_role_retirements cs rs) \<Longrightarrow> x \<in> set cs \<or>
     (\<exists>n r. DropRole n \<in> set cs \<and> fmlookup (retirement_by_role rs) n = Some r \<and> x \<in> set (retirement_steps n r))"
  by (auto simp: apply_role_retirements_def split: if_splits change.splits option.splits)

lemma retirement_steps_kind:
  "x \<in> set (retirement_steps n r) \<Longrightarrow> is_role_drop_or_retirement x"
  by (auto simp: retirement_steps_def is_role_drop_or_retirement_def split: if_splits option.splits)

lemma retired_revoke: "change_revoke K ps t \<in> set (apply_role_retirements cs rs) \<Longrightarrow> change_revoke K ps t \<in> set cs"
  using retired_mem retirement_steps_kind by (fastforce simp: is_role_drop_or_retirement_def change_revoke_def)

text \<open>
  The retirement steps of a role stand directly before its drop, sessions first, then owned objects
  reassigned, then dropped; the rest of the plan is treated independently on both sides.
\<close>

theorem retirements_before_drop:
  assumes "fmlookup (retirement_by_role rs) n = Some r"
  shows "apply_role_retirements (xs @ DropRole n # ys) rs =
    apply_role_retirements xs rs
    @ (if rr_terminate_sessions r then [TerminateSessions n] else [])
    @ (case rr_reassign_owned_to r of Some successor \<Rightarrow> [ReassignOwned n successor] | None \<Rightarrow> [])
    @ (if rr_drop_owned r then [DropOwned n] else [])
    @ DropRole n # apply_role_retirements ys rs"
  using assms
  by (cases "rs = []") (simp_all add: apply_role_retirements_def retirement_steps_def retirement_by_role_def collect_map_def)

theorem retirements_before_drop_witness:
  "apply_role_retirements [CreateRole ''a'' default_role_state, DropRole ''old'']
     [\<lparr>rr_role = ''old'', rr_reassign_owned_to = Some ''a'', rr_drop_owned = True, rr_terminate_sessions = True\<rparr>] =
   [CreateRole ''a'' default_role_state, TerminateSessions ''old'', ReassignOwned ''old'' ''a'', DropOwned ''old'', DropRole ''old'']"
proof -
  let ?r = "\<lparr>rr_role = ''old'', rr_reassign_owned_to = Some ''a'', rr_drop_owned = True, rr_terminate_sessions = True\<rparr>"
  have "fmlookup (retirement_by_role [?r]) ''old'' = Some ?r" by code_simp
  from retirements_before_drop[OF this, of "[CreateRole ''a'' default_role_state]" "[]"] show ?thesis
    by (simp add: apply_role_retirements_def)
qed


section \<open>Modes\<close>

lemma plan_revokes:
  assumes "change_revoke K ps t \<in> set (plan_changes c d m e mode)" and "covers K k"
  shows "\<exists>K' ps'. change_revoke K' ps' t \<in> set (diff c (resolve_routine_aliases d (rg_routine_aliases c))) \<and>
    ps |\<subseteq>| ps' \<and> covers K' k"
proof -
  obtain K1 p1 where 1: "ps |\<subseteq>| p1" "covers K1 k"
    "change_revoke K1 p1 t \<in> set (filter_external_role_changes (filter_changes
      (apply_role_retirements (diff c (resolve_routine_aliases d (rg_routine_aliases c))) (pm_retirements m)) mode)
      (em_roles e) (em_memberships e))"
    using preserve_filter.revokes_within[OF assms(1)[unfolded plan_changes_def Let_def] assms(2)] by blast
  obtain K2 p2 where 2: "p1 |\<subseteq>| p2" "covers K2 k"
    "change_revoke K2 p2 t \<in> set (filter_changes
      (apply_role_retirements (diff c (resolve_routine_aliases d (rg_routine_aliases c))) (pm_retirements m)) mode)"
    using external_filter.revokes_within[OF 1(3,2)] by blast
  obtain K3 p3 where 3: "p2 |\<subseteq>| p3" "covers K3 k"
    "change_revoke K3 p3 t \<in> set (apply_role_retirements (diff c (resolve_routine_aliases d (rg_routine_aliases c))) (pm_retirements m))"
    using mode_filter.revokes_within[OF 2(3,2)] by blast
  show ?thesis using retired_revoke[OF 3(3)] 3(2) 1(1) 2(1) 3(1) by blast
qed


definition ex_manifest :: policy_manifest where
  "ex_manifest = \<lparr>pm_role_pattern = None, pm_default_owner = None, pm_auth_providers = [], pm_profiles = fmempty,
     pm_schemas = [], pm_roles = [], pm_grants = [], pm_default_privileges = [], pm_memberships = [], pm_retirements = []\<rparr>"

definition ex_role :: "string \<Rightarrow> bool \<Rightarrow> bool \<Rightarrow> role_definition" where
  "ex_role name external preserve =
     \<lparr>rd_name = name, rd_external = external, rd_preserve_undeclared_grants = preserve, rd_login = None,
      rd_superuser = None, rd_createdb = None, rd_createrole = None, rd_inherit = None, rd_replication = None,
      rd_bypassrls = None, rd_connection_limit = None, rd_comment = None, rd_password = None,
      rd_password_valid_until = None, rd_config = fmempty\<rparr>"

definition ex_expanded :: "role_definition list \<Rightarrow> expanded_manifest" where
  "ex_expanded roles = \<lparr>em_schemas = [], em_roles = roles, em_grants = [], em_default_privileges = [], em_memberships = []\<rparr>"


lemma filter_concat_map: "filter P (concat (map f xs)) = concat (map (\<lambda>x. filter P (f x)) xs)"
  by (induction xs) auto

lemma preserve_commutes_drop:
  "filter (\<lambda>x. \<not> is_role_drop_or_retirement x) (preserve_revoke ps d y) =
     (if is_role_drop_or_retirement y then [] else preserve_revoke ps d y)"
proof (cases "\<exists>role p ot s n t. y = Revoke role p ot s n t")
  case True
  then obtain role p ot s n t where y: "y = Revoke role p ot s n t" by blast
  have "\<forall>x\<in>set (enforced_revokes d k p t). \<not> is_role_drop_or_retirement x" for k
    by (auto simp: is_role_drop_or_retirement_def change_revoke_def dest!: enforced_revokes_shape)
  then show ?thesis
    by (auto simp: y preserve_revoke_def is_role_drop_or_retirement_def filter_id_conv)
next
  case False
  then have "preserve_revoke ps d y = [y]" by (auto simp: preserve_revoke_def split: change.splits)
  then show ?thesis by simp
qed

text \<open>
  Adopt mode is authoritative mode less the role drops and their retirement steps: the adopt plan
  is the authoritative plan with exactly these changes left out, in the same order.
\<close>

theorem adopt_plan_is_authoritative_without_drops:
  "plan_changes c d m e Adopt =
     filter (\<lambda>x. \<not> is_role_drop_or_retirement x) (plan_changes c d m e Authoritative)"
proof -
  have "filter_preserved_grant_revokes (filter (\<lambda>x. \<not> is_role_drop_or_retirement x) cs) roles desired =
      filter (\<lambda>x. \<not> is_role_drop_or_retirement x) (filter_preserved_grant_revokes cs roles desired)" for cs roles desired
    by (auto simp: filter_preserved_grant_revokes_def filter_concat_map preserve_commutes_drop; induction cs; simp)
  moreover have "filter P (filter Q xs) = filter Q (filter P xs)" for P Q and xs :: "change list"
    by (induction xs) auto
  ultimately show ?thesis
    unfolding plan_changes_def filter_changes_def filter_external_role_changes_def Let_def reconciliation_mode.case by metis
qed



section \<open>Additive plans\<close>

text \<open>Access that exists before is still there afterwards, with the same role attributes and schema owners.\<close>

definition access_kept :: "role_graph \<Rightarrow> role_graph \<Rightarrow> bool" where
  "access_kept c g \<longleftrightarrow>
     (\<forall>n st. fmlookup (rg_roles c) n = Some st \<longrightarrow> fmlookup (rg_roles g) n = Some st) \<and>
     (\<forall>n st. fmlookup (rg_schemas c) n = Some st \<longrightarrow>
        (\<exists>st'. fmlookup (rg_schemas g) n = Some st' \<and> ss_owner st' = ss_owner st \<and>
               ss_owner_privileges st |\<subseteq>| ss_owner_privileges st')) \<and>
     (\<forall>k. held_grant c k \<subseteq> held_grant g k) \<and> (\<forall>k. held_default c k \<subseteq> held_default g k) \<and>
     (\<forall>p. edges_of (rg_memberships c) p \<noteq> {} \<longrightarrow> edges_of (rg_memberships g) p \<noteq> {})"

fun additive_safe :: "role_graph \<Rightarrow> change \<Rightarrow> bool" where
  "additive_safe c (CreateRole n _) = (\<not> contains_key (rg_roles c) n)"
| "additive_safe c (AlterRole n _) = (\<not> contains_key (rg_roles c) n)"
| "additive_safe c (CreateSchema n _) = (\<not> contains_key (rg_schemas c) n)"
| "additive_safe c (EnsureSchemaOwnerPrivileges _ _ _) = True"
| "additive_safe c (Grant _ _ _ _ _) = True"
| "additive_safe c (SetDefaultPrivilege _ _ _ _ _) = True"
| "additive_safe c (AddMember _ _ _ _) = True"
| "additive_safe c (UpdateMemberOptions _ _ _ inherit admin _) = (inherit \<noteq> Some False \<and> admin \<noteq> Some False)"
| "additive_safe c _ = False"

lemma upd_edges_nonempty: "additive_safe c x \<Longrightarrow> v \<noteq> {} \<Longrightarrow> upd_edges x p v \<noteq> {}"
  by (cases x) auto

lemma safe_effect:
  assumes safe: "additive_safe c x" and kept: "access_kept c g" and step: "apply_change x g = Some h"
  shows "access_kept c h"
proof -
  have h: "h = effect x g" using step by (simp add: apply_change_effect split: if_splits)
  have roles: "fmlookup (rg_roles c) n = Some st \<Longrightarrow> fmlookup (eff_roles x (rg_roles g)) n = fmlookup (rg_roles g) n" for n st
    using safe by (cases x) (auto simp: contains_key_def split: option.splits)
  have schemas: "\<exists>st''. fmlookup (eff_schemas x (rg_schemas g)) n = Some st'' \<and> ss_owner st'' = ss_owner st' \<and>
      ss_owner_privileges st' |\<subseteq>| ss_owner_privileges st''"
    if "fmlookup (rg_schemas c) n = Some st" "fmlookup (rg_schemas g) n = Some st'" for n st st'
    using safe that by (cases x) (auto simp: contains_key_def split: option.splits)
  have grants: "held_grant g k \<subseteq> fset (get_or_default (eff_grants x (rg_grants g)) k)" for k
    using safe by (cases x) auto
  have defaults: "held_default g k \<subseteq> fset (get_or_default (eff_defaults x (rg_default_privileges g)) k)" for k
    using safe by (cases x) auto
  have members: "edges_of (rg_memberships g) p \<noteq> {} \<Longrightarrow> edges_of (eff_members x (rg_memberships g)) p \<noteq> {}" for p
    using upd_edges_nonempty[OF safe] by (simp add: member_changes.pointwise)
  show ?thesis
    unfolding access_kept_def h effect_fields
  proof (intro conjI allI impI)
    note k = kept[unfolded access_kept_def]
    show "fmlookup (eff_roles x (rg_roles g)) n = Some st" if "fmlookup (rg_roles c) n = Some st" for n st
      using k roles[OF that] that by simp
    show "\<exists>st'. fmlookup (eff_schemas x (rg_schemas g)) n = Some st' \<and> ss_owner st' = ss_owner st \<and>
        ss_owner_privileges st |\<subseteq>| ss_owner_privileges st'" if "fmlookup (rg_schemas c) n = Some st" for n st
      using k that schemas[OF that] by (metis order_trans)
    show "held_grant c ka \<subseteq> fset (get_or_default (eff_grants x (rg_grants g)) ka)" for ka
      using k grants[of ka] by blast
    show "held_default c ka \<subseteq> fset (get_or_default (eff_defaults x (rg_default_privileges g)) ka)" for ka
      using k defaults[of ka] by blast
    show "edges_of (eff_members x (rg_memberships g)) p \<noteq> {}" if "edges_of (rg_memberships c) p \<noteq> {}" for p
      using k members[of p] that by blast
  qed
qed

lemma safe_run:
  "\<forall>x\<in>set cs. additive_safe c x \<Longrightarrow> access_kept c g \<Longrightarrow> apply_changes g cs = Some h \<Longrightarrow> access_kept c h"
proof (induction cs arbitrary: g)
  case (Cons x cs)
  then obtain g' where "apply_change x g = Some g'" "apply_changes g' cs = Some h" by (auto split: option.splits)
  then show ?case using Cons safe_effect[of c x g g'] by auto
qed simp

lemma diff_creates_new:
  "CreateRole n st \<in> set (diff c d) \<Longrightarrow> \<not> contains_key (rg_roles c) n"
  "CreateSchema n owner \<in> set (diff c d) \<Longrightarrow> \<not> contains_key (rg_schemas c) n"
  by (auto simp: diff_def diff_resolved_phases phase_shape_iffs change_constructor_defs
      dest!: diff_role_alters_shape schema_changes_shape schema_grants_shape kept_revokes_shape
        defaults_revoked_shape members_removed_shape members_added_shape)

lemma diff_no_retirement:
  assumes "x \<in> set (diff c d)"
  shows "(\<forall>n p. x \<noteq> SetPassword n p) \<and> (\<forall>n m. x \<noteq> ReassignOwned n m) \<and> (\<forall>n. x \<noteq> DropOwned n) \<and> (\<forall>n. x \<noteq> TerminateSessions n)"
  using assms
  by (auto simp: diff_def diff_resolved_phases phase_shape_iffs change_constructor_defs
      dest!: diff_role_alters_shape schema_changes_shape schema_grants_shape kept_revokes_shape
        defaults_revoked_shape members_removed_shape members_added_shape)

lemma created_roles_mem: "n \<in> set (created_roles cs) \<longleftrightarrow> (\<exists>st. CreateRole n st \<in> set cs)"
  by (force simp: created_roles_def split: change.splits)

lemma additive_mem_safe:
  assumes "x \<in> set (filter_additive_changes (apply_role_retirements (diff c d) rs))"
  shows "additive_safe c x"
proof -
  let ?cs = "apply_role_retirements (diff c d) rs"
  obtain y where y: "y \<in> set ?cs" "additive_options y = Some x" and keep: "additive_keeps (owner_transfers ?cs) (created_roles ?cs) x"
    using assms by (auto simp: filter_additive_changes_def in_map_filter)
  have keeps_kind: "\<not> is_role_drop_or_retirement y"
    using y(2) keep by (cases y) (auto simp: additive_options_def additive_keeps_def is_destructive_def is_role_drop_or_retirement_def)
  then have y_diff: "y \<in> set (diff c d)"
    using retired_mem[OF y(1)] retirement_steps_kind by blast
  have created: "\<not> contains_key (rg_roles c) n" if n: "n \<in> set (created_roles ?cs)" for n
  proof -
    obtain st where "CreateRole n st \<in> set ?cs" using n by (auto simp: created_roles_mem)
    then have "CreateRole n st \<in> set (diff c d)"
      using retired_mem retirement_steps_kind by (fastforce simp: is_role_drop_or_retirement_def)
    then show ?thesis by (rule diff_creates_new)
  qed
  show ?thesis
    using y(2) keep y_diff created diff_creates_new diff_no_retirement[OF y_diff]
    by (cases y) (auto simp: additive_options_def additive_keeps_def is_destructive_def Let_def split: if_splits)
qed

lemma additive_plan_safe:
  assumes "x \<in> set (plan_changes c d m e Additive)"
  shows "additive_safe c x"
proof -
  let ?D = "resolve_routine_aliases d (rg_routine_aliases c)"
  let ?F = "filter_additive_changes (apply_role_retirements (diff c ?D) (pm_retirements m))"
  let ?E = "filter_external_role_changes ?F (em_roles e) (em_memberships e)"
  have x: "x \<in> set (filter_preserved_grant_revokes ?E (em_roles e) ?D)"
    using assms by (simp add: plan_changes_def filter_changes_def Let_def)
  then obtain y where y: "y \<in> set ?E" "weaker x y" using preserve_filter.weakens by blast
  then have "additive_safe c y"
    using additive_mem_safe by (auto simp: filter_external_role_changes_def)
  then show ?thesis
    using y(2) by (auto simp: weaker_def change_revoke_def)
qed




section \<open>External and predefined roles\<close>

lemma plan_keeps_external:
  assumes "x \<in> set (plan_changes c d m e mode)"
  shows "keeps_external (em_roles e) (em_memberships e) x"
proof -
  obtain y where y: "weaker x y" "keeps_external (em_roles e) (em_memberships e) y"
    using preserve_filter.weakens[OF assms[unfolded plan_changes_def Let_def]]
    by (auto simp: filter_external_role_changes_def)
  then show ?thesis by (auto simp: weaker_def keeps_external_def change_revoke_def)
qed





section \<open>Preserved grants\<close>

lemma lookup_fold_remove:
  "get_or_default (fold (\<lambda>key. remove_privileges key ps) ks m) k =
     (if k \<in> set ks then get_or_default m k |-| ps else get_or_default m k)"
  by (induction ks arbitrary: m) auto

lemma eff_revoke:
  "fset (get_or_default (eff_grants (change_revoke K ps t) m) k) =
     (if covers K k then fset (get_or_default m k) - fset ps else fset (get_or_default m k))"
proof (cases "is_wildcard K")
  case True
  then show ?thesis
    by (cases "contains_key m k")
      (auto simp: change_revoke_def affected_keys_def is_wildcard_def covers_def lookup_fold_remove get_or_default_absent
        in_scope_def)
next
  case False
  then show ?thesis by (auto simp: covers_def grant_changes.eff_remove)
qed

lemma preserved_revoke_asserted:
  assumes "change_revoke K ps t \<in> set (plan_changes c d m e mode)" and "grantee_as_str (gk_role K) \<in> set (preserved_roles (em_roles e))"
  shows "fset ps \<subseteq> absent_grant (resolve_routine_aliases d (rg_routine_aliases c)) K
    \<union> absent_grant (resolve_routine_aliases d (rg_routine_aliases c)) (wild K)"
proof -
  let ?D = "resolve_routine_aliases d (rg_routine_aliases c)"
  obtain y where y: "change_revoke K ps t \<in> set (preserve_revoke (preserved_roles (em_roles e)) ?D y)"
    using assms by (auto simp: plan_changes_def Let_def filter_preserved_grant_revokes_def split: if_splits)
  then obtain role p ot s n t' where rev: "y = Revoke role p ot s n t'"
    by (cases y) (auto simp: preserve_revoke_def change_revoke_def)
  have "change_revoke K ps t \<in> set (enforced_revokes ?D (grant_key_of role ot s n) p t')"
    using y assms(2) by (auto simp: rev preserve_revoke_def change_revoke_def split: if_splits)
  from enforced_revokes_shape[OF this] show ?thesis
    unfolding grant_changes.remove_inject by blast
qed

lemma covers_wild: "covers K k \<Longrightarrow> (K = k \<or> K = wild k) \<and> wild K = wild k \<and> gk_role K = gk_role k"
  by (cases K; cases k) (auto simp: covers_def in_scope_def is_wildcard_def split: if_splits)

text \<open>
  For a role that declares \<open>preserve_undeclared_grants\<close>, a plan takes away no object privilege except
  those whose absence the manifest asserts for the object or for its schema. (Schema privileges are left
  out here, as an ownership transfer absorbs those of the incoming owner.)
\<close>

theorem preserved_role_keeps_grants:
  assumes "apply_changes c (plan_changes c d m e mode) = Some g"
    and "grantee_as_str (gk_role k) \<in> set (preserved_roles (em_roles e))" and "gk_object_type k \<noteq> Schema"
  shows "held_grant c k - absent_grant (resolve_routine_aliases d (rg_routine_aliases c)) k
    - absent_grant (resolve_routine_aliases d (rg_routine_aliases c)) (wild k) \<subseteq> held_grant g k"
proof -
  let ?cs = "plan_changes c d m e mode"
  let ?D = "resolve_routine_aliases d (rg_routine_aliases c)"
  let ?A = "absent_grant ?D k \<union> absent_grant ?D (wild k)"
  have step: "fset (get_or_default m' k) - ?A \<subseteq> fset (get_or_default (eff_grants x m') k)" if "x \<in> set ?cs" for x m'
  proof (cases "\<exists>K ps t. x = change_revoke K ps t \<and> covers K k")
    case True
    then obtain K ps t where x: "x = change_revoke K ps t" "covers K k" by blast
    have "fset ps \<subseteq> absent_grant ?D K \<union> absent_grant ?D (wild K)"
      using preserved_revoke_asserted that x covers_wild[OF x(2)] assms(2) by metis
    then show ?thesis using x covers_wild[OF x(2)] by (auto simp: eff_revoke)
  next
    case False
    have "fset (get_or_default m' k) \<subseteq> fset (get_or_default (eff_grants x m') k)"
    proof (cases x)
      case (Revoke role ps ot s n t)
      then have "x = change_revoke (grant_key_of role ot s n) ps t" by (simp add: change_revoke_def)
      then show ?thesis using False eff_revoke[of "grant_key_of role ot s n" ps t m' k] by auto
    qed (use assms(3) in auto)
    then show ?thesis by auto
  qed
  have "fset (get_or_default m' k) - ?A \<subseteq> fset (get_or_default (fold eff_grants cs m') k)" if "set cs \<subseteq> set ?cs" for cs m'
    using that
  proof (induction cs arbitrary: m')
    case (Cons x cs)
    then show ?case using step[of x m'] Cons.IH[of "eff_grants x m'"] by auto
  qed simp
  moreover have "g = run ?cs c" using assms(1) by (simp add: apply_changes_run split: if_splits)
  ultimately show ?thesis by (simp add: Diff_Un) blast
qed

theorem preserved_role_keeps_grants_witness:
  "\<exists>g. apply_changes ex_current (plan_changes ex_current ex_desired ex_manifest (ex_expanded [ex_role ''reader'' False True]) Authoritative) = Some g \<and>
     {Select, Insert} \<subseteq> held_grant g (ex_tbl (Role ''reader'') ''t'')"
proof -
  let ?p = "plan_changes ex_current ex_desired ex_manifest (ex_expanded [ex_role ''reader'' False True]) Authoritative"
  let ?k = "ex_tbl (Role ''reader'') ''t''"
  have "apply_changes ex_current ?p \<noteq> None" by code_simp
  then obtain g where g: "apply_changes ex_current ?p = Some g" by blast
  have k: "grantee_as_str (gk_role ?k) \<in> set (preserved_roles (em_roles (ex_expanded [ex_role ''reader'' False True])))"
    "gk_object_type ?k \<noteq> Schema" by code_simp+
  have "{|Select, Insert|} |\<subseteq>| get_or_default (rg_grants ex_current) ?k
      |-| get_or_default (rg_grant_absences ex_desired) ?k |-| get_or_default (rg_grant_absences ex_desired) (wild ?k)"
    by code_simp
  then have "{Select, Insert} \<subseteq> held_grant ex_current ?k - absent_grant ex_desired ?k - absent_grant ex_desired (wild ?k)"
    by auto
  then show ?thesis using preserved_role_keeps_grants[OF g k] g by auto
qed


section \<open>Warnings\<close>

text \<open>
  When \<open>unenforceable_absence_warnings\<close> is silent, the plan enforces every asserted absence: after it
  has been run, no privilege is held whose absence the manifest asserts for the object or its schema.
\<close>

theorem silent_warnings_mean_absent:
  assumes "wf_current c" and "wf_desired (resolve_routine_aliases d (rg_routine_aliases c))"
    and "transfers_clean c (resolve_routine_aliases d (rg_routine_aliases c))"
    and "unenforceable_absence_warnings c d = []"
  shows "\<exists>g. apply_changes c (diff c d) = Some g \<and>
    (\<forall>k. held_grant g k \<inter> (absent_grant (resolve_routine_aliases d (rg_routine_aliases c)) k
       \<union> absent_grant (resolve_routine_aliases d (rg_routine_aliases c)) (wild k)) = {})"
proof -
  let ?d = "resolve_routine_aliases d (rg_routine_aliases c)"
  have wf: "rg_membership_edge_grantors c = fmempty" "no_wildcard_grants c" "consistent_grants ?d"
    using assms(1,2) by (auto simp: wf_current_def wf_desired_def)
  have silent: "held_grant c k \<inter> fset absent = {}"
    if K: "fmlookup (rg_grant_absences ?d) K = Some absent" "inherent c k" "K = k \<or> K = wild k" "\<not> is_wildcard k" for K k absent
  proof (cases "fmlookup (rg_grants c) k")
    case (Some s)
    have warn: "(if gk_name K = Some ''*'' then list_ex (\<lambda>(held_key, privileges). held_key |\<in>| rg_inherent_grants c
          \<and> privileges |\<inter>| absent \<noteq> {||}) (scan_scope K (rg_grants c))
        else K |\<in>| rg_inherent_grants c \<and> (case fmlookup (rg_grants c) K of Some privileges \<Rightarrow> privileges |\<inter>| absent \<noteq> {||} | None \<Rightarrow> False)) = False"
      using assms(4) K(1) by (auto simp: unenforceable_absence_warnings_def Let_def in_bt_entries_iff[symmetric] simp del: in_bt_entries_iff
          split: if_splits)
    have "s |\<inter>| absent = {||}"
    proof (cases "K = k")
      case True
      then show ?thesis using warn K(2,4) Some by (auto simp: is_wildcard_def)
    next
      case False
      then have "gk_name K = Some ''*''" "(k, s) \<in> set (scan_scope K (rg_grants c))" using K(3) Some by (auto simp: in_scan_scope)
      then show ?thesis using warn K(2) by (auto simp: list_ex_iff)
    qed
    then have "fset s \<inter> fset absent = {}" by (metis bot_fset.rep_eq inf_fset.rep_eq)
    then show ?thesis using Some by (simp add: get_or_default_def)
  qed (simp add: get_or_default_def)
  have "held_grant (run (diff_resolved c ?d) c) k \<inter> (absent_grant ?d k \<union> absent_grant ?d (wild k)) = {}" for k
  proof (cases "is_wildcard k")
    case True
    then have "wild k = k" by (cases k) (simp add: is_wildcard_def)
    then show ?thesis using True consistent_grantsD[OF wf(3), of k] by (simp add: grants_after[OF wf(2,3) assms(3)])
  next
    case False
    have "held_grant c k \<inter> absent_grant ?d k = {}" "held_grant c k \<inter> absent_grant ?d (wild k) = {}" if "inherent c k"
      using silent[OF _ that _ False, of k] silent[OF _ that _ False, of "wild k"]
      by (auto simp: get_or_default_def[of "rg_grant_absences ?d"] split: option.splits)
    then show ?thesis
      using False consistent_grantsD[OF wf(3), of k] by (auto simp: grants_after[OF wf(2,3) assms(3)] expected_grant_def)
  qed
  then show ?thesis using plan_runs[OF wf(1), of ?d] by (simp add: diff_def)
qed

theorem silent_warnings_mean_absent_witness:
  "\<exists>g. apply_changes ex_current (diff ex_current ex_desired) = Some g \<and> Update \<notin> held_grant g (ex_tbl Public ''t'')"
proof -
  have "unenforceable_absence_warnings ex_current ex_desired = []" by code_simp
  then obtain g where g: "apply_changes ex_current (diff ex_current ex_desired) = Some g"
      "held_grant g (ex_tbl Public ''t'') \<inter> (absent_grant ex_desired (ex_tbl Public ''t'') \<union> absent_grant ex_desired (wild (ex_tbl Public ''t''))) = {}"
    using silent_warnings_mean_absent[of ex_current ex_desired] ex_wf_current ex_wf_desired ex_transfers_clean by auto
  have "Update |\<in>| get_or_default (rg_grant_absences ex_desired) (wild (ex_tbl Public ''t''))" by code_simp
  then show ?thesis using g by blast
qed


section \<open>Passwords\<close>

definition is_set_password :: "change \<Rightarrow> bool" where
  "is_set_password x = (case x of SetPassword _ _ \<Rightarrow> True | _ \<Rightarrow> False)"

lemma plan_sets_no_password:
  assumes "x \<in> set (plan_changes c d m e mode)"
  shows "\<not> is_set_password x"
proof
  assume pw: "is_set_password x"
  then obtain n p where x: "x = SetPassword n p" by (auto simp: is_set_password_def split: change.splits)
  have kinds: "x \<noteq> change_revoke K ps t" "x \<noteq> UpdateMemberOptions a b c d e f" for K ps t a b c d e f
    by (simp_all add: x change_revoke_def)
  have "x \<in> set (apply_role_retirements (diff c (resolve_routine_aliases d (rg_routine_aliases c))) (pm_retirements m))"
    using mode_filter.keeps_kind[OF external_filter.keeps_kind[OF preserve_filter.keeps_kind[OF
        assms[unfolded plan_changes_def Let_def] kinds] kinds] kinds] .
  from retired_mem[OF this] show False
    using retirement_steps_kind[of x] diff_no_retirement[of x] by (auto simp: x is_role_drop_or_retirement_def)
qed

text \<open>
  Injecting passwords adds exactly one kind of change, the verifier of each resolved role, whether
  the plan creates the role or not; every other change stays, in the same order. The cleartext itself is
  never part of the plan.
\<close>

theorem inject_passwords_adds_verifiers:
  "filter (\<lambda>x. \<not> is_set_password x) (inject_password_changes verifier (plan_changes c d m e mode) resolved) =
     plan_changes c d m e mode \<and>
   (SetPassword n v \<in> set (inject_password_changes verifier (plan_changes c d m e mode) resolved) \<longleftrightarrow>
     (\<exists>password. fmlookup resolved n = Some password \<and> v = verifier n password))"
proof -
  let ?cs = "plan_changes c d m e mode"
  have none: "\<not> is_set_password x" if "x \<in> set ?cs" for x using plan_sets_no_password[OF that] .
  let ?f = "\<lambda>x. x # (case x of CreateRole name _ \<Rightarrow>
      (case fmlookup resolved name of Some password \<Rightarrow> [SetPassword name (verifier name password)] | None \<Rightarrow> []) | _ \<Rightarrow> [])"
  let ?r = "concat (map (\<lambda>(role_name, password). if role_name \<in> set (created_roles ?cs) then []
      else [SetPassword role_name (verifier role_name password)]) (bt_entries resolved))"
  have "filter (\<lambda>x. \<not> is_set_password x) (?f x) = [x]" if "x \<in> set ?cs" for x
    using none[OF that] by (auto simp: is_set_password_def split: change.splits option.splits)
  then have body: "filter (\<lambda>x. \<not> is_set_password x) (concat (map ?f ?cs)) = ?cs"
    unfolding filter_concat_map by (simp add: map_idI cong: map_cong)
  have rest: "filter (\<lambda>x. \<not> is_set_password x) ?r = []"
    by (auto simp: filter_empty_conv is_set_password_def split: if_splits)
  have created: "SetPassword n v \<in> set (concat (map ?f ?cs)) \<longleftrightarrow>
      n \<in> set (created_roles ?cs) \<and> (\<exists>password. fmlookup resolved n = Some password \<and> v = verifier n password)"
  proof -
    have "SetPassword n v \<in> set (?f x) \<longleftrightarrow> (\<exists>st. x = CreateRole n st) \<and>
        (\<exists>password. fmlookup resolved n = Some password \<and> v = verifier n password)" if "x \<in> set ?cs" for x
      using none[OF that] by (cases x; cases "fmlookup resolved n") (auto simp: is_set_password_def split: option.splits)
    then show ?thesis unfolding created_roles_mem set_concat set_map by fast
  qed
  have others: "SetPassword n v \<in> set ?r \<longleftrightarrow>
      n \<notin> set (created_roles ?cs) \<and> (\<exists>password. fmlookup resolved n = Some password \<and> v = verifier n password)"
    unfolding in_concat_entries by auto
  show ?thesis
  proof (cases "resolved = fmempty")
    case True
    then show ?thesis using none none[of "SetPassword n v"] by (auto simp: inject_password_changes_def filter_id_conv is_set_password_def)
  next
    case False
    then have "inject_password_changes verifier ?cs resolved = concat (map ?f ?cs) @ ?r"
      by (simp add: inject_password_changes_def)
    then show ?thesis using body rest created others by (simp only: filter_append set_append Un_iff append_Nil2) blast
  qed
qed

end
