(* ===== verification/ManifestLaws.thy ===== *)
theory ManifestLaws
  imports PlanLaws
begin

text \<open>
  What a manifest that passes \<open>expand_manifest\<close> guarantees, and that the graph \<open>from_expanded\<close> builds
  from it exists and is consistent; with the properties of configuration values.
\<close>

section \<open>List-valued configuration parameters\<close>

text \<open>
  The canonical form of a list-valued parameter reads back as the same list of elements, whatever
  quoting the manifest used.
\<close>

theorem canonical_list_round_trip:
  assumes "utf8 v" and "split_guc_list v = Some es"
  shows "split_guc_list (canonicalize_list_guc_value v) = Some es"
  using assms by (rule split_canonicalize)

theorem canonical_list_round_trip_witness:
  "split_guc_list (canonicalize_list_guc_value ''public, $user,app'') = Some [''public'', ''$user'', ''app'']"
proof -
  have "utf8 ''public, $user,app''" by code_simp
  moreover have "split_guc_list ''public, $user,app'' = Some [''public'', ''$user'', ''app'']" by code_simp
  ultimately show ?thesis by (rule canonical_list_round_trip)
qed

text \<open>
  Two list values have the same canonical form exactly when PostgreSQL reads the same list from them,
  and canonicalization is idempotent; a setting that differs only in spelling is no drift.
\<close>

theorem canonical_list_decides_equality:
  assumes "utf8 v" and "utf8 w" and "split_guc_list v \<noteq> None" and "split_guc_list w \<noteq> None"
  shows "(canonicalize_list_guc_value v = canonicalize_list_guc_value w \<longleftrightarrow> split_guc_list v = split_guc_list w) \<and>
    canonicalize_list_guc_value (canonicalize_list_guc_value v) = canonicalize_list_guc_value v"
proof -
  obtain es fs where "split_guc_list v = Some es" "split_guc_list w = Some fs" using assms by auto
  then show ?thesis
    using split_canonicalize[OF assms(1)] split_canonicalize[OF assms(2)] canonicalize_cong[of v w]
      canonicalize_idem[OF assms(1)] by auto
qed

theorem canonical_list_decides_equality_witness:
  "canonicalize_list_guc_value ''a,b'' = canonicalize_list_guc_value '' a ,  b'' \<and>
   canonicalize_list_guc_value (canonicalize_list_guc_value ''a,b'') = canonicalize_list_guc_value ''a,b''"
proof -
  have wf: "utf8 ''a,b''" "utf8 '' a ,  b''" "split_guc_list ''a,b'' \<noteq> None" "split_guc_list '' a ,  b'' \<noteq> None" by code_simp+
  have "split_guc_list ''a,b'' = split_guc_list '' a ,  b''" by code_simp
  then show ?thesis using canonical_list_decides_equality[OF wf] by blast
qed


section \<open>Names\<close>

lemma expansion_checks:
  assumes "expand_manifest m = Inr e"
  shows "validate_public_reservation m (em_roles e) (em_schemas e) (em_default_privileges e) (em_memberships e) = Inr ()"
    "validate_default_privilege_scopes (em_default_privileges e) = Inr ()"
    "validate_ensure_conflicts (pm_default_owner m) (em_grants e) (em_default_privileges e) = Inr ()"
    "distinct (map rd_name (em_roles e))"
    "\<exists>seen. fold_r (check_retirement (set (map rd_name (em_roles e)))) (pm_retirements m) {} = Inr seen"
  using expand_manifest_InrD(6)[OF assms] by (auto simp: validate_expansion_def Let_def)

lemma bounded_role_names:
  assumes "expand_manifest m = Inr e" and "r \<in> set (em_roles e)"
  shows "length (rd_name r) \<le> 63"
proof -
  have "\<forall>r\<in>set (pm_roles m). bounds_role r = Inr ()"
    using expand_manifest_InrD(1)[OF assms(1)] by (auto simp: validate_bounds_def)
  then have "\<forall>r\<in>set (pm_roles m). length (rd_name r) \<le> 63" by (auto simp: bounds_role_def MAX_IDENTIFIER_def)
  then show ?thesis using expanded_sources(1)[OF assms] expand_binding_InrD(1) by blast
qed

text \<open>
  The roles of an expanded manifest have distinct names that fit PostgreSQL's 63-byte limit (so none is
  truncated into another), and none of them is the reserved name \<open>PUBLIC\<close>.
\<close>

theorem expanded_role_names_ok:
  assumes "expand_manifest m = Inr e"
  shows "distinct (map rd_name (em_roles e)) \<and>
    (\<forall>r\<in>set (em_roles e). length (rd_name r) \<le> 63 \<and> grantee_parse (rd_name r) = Role (rd_name r))"
proof -
  have "\<forall>r\<in>set (em_roles e). rd_name r \<noteq> ''PUBLIC''"
    using expansion_checks(1)[OF assms] by (auto simp: validate_public_reservation_def)
  then show ?thesis
    using expansion_checks(4)[OF assms] bounded_role_names[OF assms] by (auto simp: grantee_parse_def PUBLIC_ROLE_def)
qed

definition ex_policy :: policy_manifest where
  "ex_policy = \<lparr>pm_role_pattern = None, pm_default_owner = Some ''owner'', pm_auth_providers = [],
     pm_profiles = fmap_of_list [(''reader'', \<lparr>p_login = None, p_inherit = None,
       p_grants = [\<lparr>pg_privileges = [Select], pg_object = \<lparr>pot_object_type = Table, pot_name = Some ''*''\<rparr>, pg_ensure = Present\<rparr>],
       p_default_privileges = [\<lparr>dpg_role = None, dpg_privileges = [Select], dpg_on_type = Table, dpg_ensure = Present\<rparr>],
       p_config = fmempty\<rparr>)],
     pm_schemas = [\<lparr>sb_name = ''app'', sb_profiles = [''reader''], sb_role_pattern = None, sb_owner = None\<rparr>],
     pm_roles = [ex_role ''owner'' False False],
     pm_grants = [\<lparr>g_role = ''PUBLIC'', g_privileges = [Update], g_object = \<lparr>ot_object_type = Table, ot_schema = Some ''app'', ot_name = Some ''t''\<rparr>, g_ensure = Absent\<rparr>],
     pm_default_privileges = [], pm_memberships = [],
     pm_retirements = [\<lparr>rr_role = ''old'', rr_reassign_owned_to = Some ''owner'', rr_drop_owned = True, rr_terminate_sessions = False\<rparr>]\<rparr>"

lemma ex_policy_expands: "\<exists>e. expand_manifest ex_policy = Inr e"
proof -
  have "(case expand_manifest ex_policy of Inl _ \<Rightarrow> False | Inr _ \<Rightarrow> True) = True" by code_simp
  then show ?thesis by (auto split: sum.splits)
qed

theorem expanded_role_names_ok_witness:
  "\<exists>e. expand_manifest ex_policy = Inr e \<and> distinct (map rd_name (em_roles e)) \<and>
     (\<forall>r\<in>set (em_roles e). length (rd_name r) \<le> 63 \<and> grantee_parse (rd_name r) = Role (rd_name r))"
  using ex_policy_expands expanded_role_names_ok by metis

text \<open>
  A role listed for retirement is not among the roles the manifest wants, is listed once, and is not
  its own successor.
\<close>

theorem retirements_disjoint:
  assumes "expand_manifest m = Inr e"
  shows "distinct (map rr_role (pm_retirements m)) \<and>
    (\<forall>r\<in>set (pm_retirements m). rr_role r \<notin> rd_name ` set (em_roles e) \<and> rr_reassign_owned_to r \<noteq> Some (rr_role r))"
proof -
  obtain seen where run: "fold_r (check_retirement (set (map rd_name (em_roles e)))) (pm_retirements m) {} = Inr seen"
    using expansion_checks(5)[OF assms] by blast
  have "distinct (map rr_role rs) \<and> set (map rr_role rs) \<inter> S = {} \<and>
      (\<forall>r\<in>set rs. rr_role r \<notin> N \<and> rr_reassign_owned_to r \<noteq> Some (rr_role r))"
    if "fold_r (check_retirement N) rs S = Inr T" for rs N S T
    using that by (induction rs arbitrary: S) (fastforce simp: check_retirement_def)+
  from this[OF run] show ?thesis by auto
qed

theorem retirements_disjoint_witness:
  "\<exists>e. expand_manifest ex_policy = Inr e \<and> distinct (map rr_role (pm_retirements ex_policy)) \<and>
    (\<forall>r\<in>set (pm_retirements ex_policy). rr_role r \<notin> rd_name ` set (em_roles e) \<and> rr_reassign_owned_to r \<noteq> Some (rr_role r))"
  using ex_policy_expands retirements_disjoint by metis



section \<open>The desired graph\<close>

text \<open>
  A manifest that passes validation never asks for a privilege to be both present and absent, on one
  object, between a schema-wide selector and an object of that schema, or on one default-privilege rule.
\<close>

theorem expanded_ensure_consistent:
  assumes "expand_manifest m = Inr e"
  shows "ensure_consistent (em_grants e) \<and> default_ensure_consistent (pm_default_owner m) (em_default_privileges e)"
  using validate_ensure_conflicts_grants validate_ensure_conflicts_defaults expansion_checks(3)[OF assms] by blast

theorem expanded_ensure_consistent_witness:
  "\<exists>e. expand_manifest ex_policy = Inr e \<and> ensure_consistent (em_grants e) \<and>
     default_ensure_consistent (Some ''owner'') (em_default_privileges e)"
proof -
  have "pm_default_owner ex_policy = Some ''owner''" by (simp add: ex_policy_def)
  then show ?thesis using ex_policy_expands expanded_ensure_consistent by metis
qed

lemma fold_add_grant:
  "rg_roles (fold add_grant gs g0) = rg_roles g0" "rg_default_privileges (fold add_grant gs g0) = rg_default_privileges g0"
  "rg_default_privilege_absences (fold add_grant gs g0) = rg_default_privilege_absences g0"
  "held_grant (fold add_grant gs g0) k = held_grant g0 k \<union>
     \<Union> {set (g_privileges g) | g. g \<in> set gs \<and> g_ensure g = Present \<and> grant_key_from_manifest g = k}"
  "absent_grant (fold add_grant gs g0) k = absent_grant g0 k \<union>
     \<Union> {set (g_privileges g) | g. g \<in> set gs \<and> g_ensure g = Absent \<and> grant_key_from_manifest g = k}"
proof (induction gs arbitrary: g0)
  case (Cons g gs)
  {
    case 1 show ?case using Cons.IH(1) by (simp add: add_grant_def Let_def split: ensure.splits)
    case 2 show ?case using Cons.IH(2) by (simp add: add_grant_def Let_def split: ensure.splits)
    case 3 show ?case using Cons.IH(3) by (simp add: add_grant_def Let_def split: ensure.splits)
    case 4 show ?case unfolding fold_Cons o_apply Cons.IH(4)
      by (cases "g_ensure g") (auto simp: add_grant_def Let_def fset_of_list.rep_eq split: if_splits)
    case 5 show ?case unfolding fold_Cons o_apply Cons.IH(5)
      by (cases "g_ensure g") (auto simp: add_grant_def Let_def fset_of_list.rep_eq split: if_splits)
  }
qed simp_all

definition sourced :: "string option \<Rightarrow> default_privilege list \<Rightarrow> ensure \<Rightarrow> default_priv_key \<Rightarrow> privilege \<Rightarrow> bool" where
  "sourced owner dps ens k p \<longleftrightarrow>
     (\<exists>dp\<in>set dps. \<exists>g\<in>set (dp_grant dp). \<exists>scope role. resolved_scope dp = Inr scope \<and> dpg_role g = Some role \<and>
        dpg_ensure g = ens \<and> p \<in> set (dpg_privileges g) \<and>
        k = default_key (default_priv_owner owner dp) scope (dpg_on_type g) (grantee_parse role))"

text \<open>The graph while default privileges are added to it.\<close>

definition defaults_built :: "string option \<Rightarrow> default_privilege list \<Rightarrow> role_graph \<Rightarrow> role_graph \<Rightarrow> bool" where
  "defaults_built owner dps g0 g \<longleftrightarrow>
     rg_roles g = rg_roles g0 \<and> rg_grants g = rg_grants g0 \<and> rg_grant_absences g = rg_grant_absences g0 \<and>
     (\<forall>k p. p \<in> held_default g k \<longrightarrow> sourced owner dps Present k p) \<and>
     (\<forall>k p. p \<in> absent_default g k \<longrightarrow> sourced owner dps Absent k p)"

lemma add_default_grants_run:
  assumes "dp \<in> set dps" and "resolved_scope dp = Inr scope" and "set gs \<subseteq> set (dp_grant dp)"
    and "\<forall>g\<in>set gs. dpg_role g \<noteq> None" and "defaults_built owner dps g0 g"
  shows "\<exists>h. fold_r (add_default_grant (default_priv_owner owner dp) scope) gs g = Inr h \<and> defaults_built owner dps g0 h"
  using assms(3-5)
proof (induction gs arbitrary: g)
  case (Cons x gs)
  then obtain role where role: "dpg_role x = Some role" by auto
  let ?k = "default_key (default_priv_owner owner dp) scope (dpg_on_type x) (grantee_parse role)"
  obtain g' where g': "add_default_grant (default_priv_owner owner dp) scope x g = Inr g'"
    by (simp add: add_default_grant_def role Let_def)
  have src: "sourced owner dps (dpg_ensure x) ?k p" if "p \<in> set (dpg_privileges x)" for p
    using that assms(1,2) role Cons.prems(1) unfolding sourced_def by auto
  have "defaults_built owner dps g0 g'"
  proof (cases "dpg_ensure x")
    case Present
    then have "g' = g\<lparr>rg_default_privileges := entry_extend ?k (fset_of_list (dpg_privileges x)) (rg_default_privileges g)\<rparr>"
      using g' by (simp add: add_default_grant_def role Let_def)
    then show ?thesis
      using Cons.prems(3) src Present by (auto simp: defaults_built_def fset_of_list.rep_eq split: if_splits)
  next
    case Absent
    then have "g' = g\<lparr>rg_default_privilege_absences := entry_extend ?k (fset_of_list (dpg_privileges x)) (rg_default_privilege_absences g)\<rparr>"
      using g' by (simp add: add_default_grant_def role Let_def)
    then show ?thesis
      using Cons.prems(3) src Absent by (auto simp: defaults_built_def fset_of_list.rep_eq split: if_splits)
  qed
  then show ?case using Cons g' by simp
qed simp

lemma add_default_privileges_run:
  assumes "set xs \<subseteq> set dps" and "\<forall>dp\<in>set dps. \<exists>scope. resolved_scope dp = Inr scope"
    and "\<forall>dp\<in>set dps. \<forall>g\<in>set (dp_grant dp). dpg_role g \<noteq> None" and "defaults_built owner dps g0 g"
  shows "\<exists>h. fold_r (add_default_privilege owner) xs g = Inr h \<and> defaults_built owner dps g0 h"
  using assms(1,4)
proof (induction xs arbitrary: g)
  case (Cons dp xs)
  obtain scope where scope: "resolved_scope dp = Inr scope" using assms(2) Cons.prems by auto
  obtain g' where g': "fold_r (add_default_grant (default_priv_owner owner dp) scope) (dp_grant dp) g = Inr g'" "defaults_built owner dps g0 g'"
    using add_default_grants_run[OF _ scope subset_refl _ Cons.prems(2)] assms(3) Cons.prems(1) by auto
  then show ?case using Cons scope by (simp add: add_default_privilege_def)
qed simp

lemma expanded_defaults_ok:
  assumes "expand_manifest m = Inr e"
  shows "\<forall>dp\<in>set (em_default_privileges e). \<exists>scope. resolved_scope dp = Inr scope"
    "\<forall>dp\<in>set (em_default_privileges e). \<forall>g\<in>set (dp_grant dp). dpg_role g \<noteq> None"
proof -
  show "\<forall>dp\<in>set (em_default_privileges e). \<exists>scope. resolved_scope dp = Inr scope"
    using expansion_checks(2)[OF assms] by (auto simp: validate_default_privilege_scopes_def)
  show "\<forall>dp\<in>set (em_default_privileges e). \<forall>g\<in>set (dp_grant dp). dpg_role g \<noteq> None"
  proof (intro ballI)
    fix dp g assume dp: "dp \<in> set (em_default_privileges e)" and g: "g \<in> set (dp_grant dp)"
    obtain dp0 where dp0: "dp = normalize_owner m dp0" and src: "dp0 \<in> set (pm_default_privileges m) \<or>
        (\<exists>b p r gs dps. expand_binding m b p = Inr (r, gs, dps) \<and> dp0 \<in> set dps)"
      using expanded_sources(2)[OF assms dp] by blast
    have g0: "g \<in> set (dp_grant dp0)" using g dp0 by (auto simp: normalize_owner_def split: if_splits)
    show "dpg_role g \<noteq> None"
      using src
    proof
      assume "dp0 \<in> set (pm_default_privileges m)"
      then show ?thesis
        using expand_manifest_InrD(5)[OF assms] g0 by (auto simp: check_default_privilege_roles_def split: if_splits)
    next
      assume "\<exists>b p r gs dps. expand_binding m b p = Inr (r, gs, dps) \<and> dp0 \<in> set dps"
      then show ?thesis using expand_binding_InrD(5) g0 by fastforce
    qed
  qed
qed

lemma grant_keys_overlap:
  assumes "grant_key_from_manifest g = grant_key_from_manifest g'"
  shows "targets_overlap g g'"
  using assms by (auto simp: targets_overlap_def names_overlap_def grant_key_from_manifest_def)

lemma wildcard_keys_overlap:
  assumes "grant_key_from_manifest g' = wild (grant_key_from_manifest g)" and "ot_schema (g_object g) \<noteq> None" and "ot_name (g_object g) \<noteq> None"
  shows "targets_overlap g g'" "targets_overlap g' g"
  using assms by (auto simp: targets_overlap_def names_overlap_def grant_key_from_manifest_def)

lemma members_keep_fields:
  "rg_roles (fold add_membership ms x) = rg_roles x" "rg_grants (fold add_membership ms x) = rg_grants x"
  "rg_grant_absences (fold add_membership ms x) = rg_grant_absences x"
  "rg_default_privileges (fold add_membership ms x) = rg_default_privileges x"
  "rg_default_privilege_absences (fold add_membership ms x) = rg_default_privilege_absences x"
  by (induction ms arbitrary: x) (simp_all add: add_membership_def)

lemma desired_graph_exists:
  assumes "expand_manifest m = Inr e"
  shows "\<exists>g. from_expanded e (pm_default_owner m) = Inr g \<and>
    rg_roles g = collect_map (map (\<lambda>d. (rd_name d, from_definition d)) (em_roles e)) \<and>
    (\<forall>k. held_grant g k = \<Union> {set (g_privileges x) | x. x \<in> set (em_grants e) \<and> g_ensure x = Present \<and> grant_key_from_manifest x = k}) \<and>
    (\<forall>k. absent_grant g k = \<Union> {set (g_privileges x) | x. x \<in> set (em_grants e) \<and> g_ensure x = Absent \<and> grant_key_from_manifest x = k}) \<and>
    (\<forall>k p. p \<in> held_default g k \<longrightarrow> sourced (pm_default_owner m) (em_default_privileges e) Present k p) \<and>
    (\<forall>k p. p \<in> absent_default g k \<longrightarrow> sourced (pm_default_owner m) (em_default_privileges e) Absent k p)"
proof -
  let ?owner = "pm_default_owner m" and ?dps = "em_default_privileges e"
  let ?start = "empty_graph\<lparr>rg_roles := collect_map (map (\<lambda>d. (rd_name d, from_definition d)) (em_roles e)),
      rg_schemas := collect_map (map (\<lambda>s. (es_name s, schema_state_of s)) (em_schemas e))\<rparr>"
  let ?granted = "fold add_grant (em_grants e) ?start"
  have "defaults_built ?owner ?dps ?granted ?granted"
    by (simp add: defaults_built_def fold_add_grant empty_graph_def)
  from add_default_privileges_run[OF subset_refl expanded_defaults_ok[OF assms] this] obtain h where
    h: "fold_r (add_default_privilege ?owner) ?dps ?granted = Inr h" "defaults_built ?owner ?dps ?granted h" by blast
  have "from_expanded e ?owner = Inr (fold add_membership (em_memberships e) h)"
    using h(1) by (simp add: from_expanded_def Let_def)
  then show ?thesis
    using h(2) by (intro exI[of _ "fold add_membership (em_memberships e) h"])
      (simp add: defaults_built_def members_keep_fields fold_add_grant empty_graph_def)
qed

lemma expanded_role_lookup:
  assumes "expand_manifest m = Inr e" and "r \<in> set (em_roles e)"
  shows "fmlookup (collect_map (map (\<lambda>d. (rd_name d, from_definition d)) (em_roles e))) (rd_name r) = Some (from_definition r)"
proof -
  have "distinct (map fst (map (\<lambda>d. (rd_name d, from_definition d)) (em_roles e)))"
    using expansion_checks(4)[OF assms(1)] by (simp add: comp_def)
  then show ?thesis using assms(2) by (auto simp: lookup_collect_map_distinct intro!: map_of_is_SomeI)
qed

lemma sourced_consistent:
  assumes "default_ensure_consistent owner dps"
  shows "\<not> (sourced owner dps Present k p \<and> sourced owner dps Absent k p)"
proof
  assume both: "sourced owner dps Present k p \<and> sourced owner dps Absent k p"
  then obtain dp g scope role dp' g' scope' role' where
    a: "dp \<in> set dps" "g \<in> set (dp_grant dp)" "resolved_scope dp = Inr scope" "dpg_role g = Some role" "dpg_ensure g = Present"
      "p \<in> set (dpg_privileges g)" "k = default_key (default_priv_owner owner dp) scope (dpg_on_type g) (grantee_parse role)"
    and b: "dp' \<in> set dps" "g' \<in> set (dp_grant dp')" "resolved_scope dp' = Inr scope'" "dpg_role g' = Some role'" "dpg_ensure g' = Absent"
      "p \<in> set (dpg_privileges g')" "k = default_key (default_priv_owner owner dp') scope' (dpg_on_type g') (grantee_parse role')"
    unfolding sourced_def by blast
  then have "default_key_of owner dp g = default_key_of owner dp' g'" by (simp add: default_key_of_def)
  then have "dpg_ensure g = dpg_ensure g'"
    using assms a b unfolding default_ensure_consistent_def by (metis disjoint_iff option.distinct(1))
  then show False using a(5) b(5) by simp
qed



end
