(* ===== verification/Ownership.thy ===== *)
theory Ownership
  imports Apply
begin

text \<open>
  Ownership of what a policy bundle manages (\<open>crates/pgroles-core/src/ownership.rs\<close>): the index from
  keys to documents, the change surface derived from it, and the check that a plan stays on the surface. The
  structs \<open>SchemaFacetKey\<close> and \<open>MembershipKey\<close> are pairs, which have the derived field-by-field order.
  The law at the end runs a plan that passes the check and compares the states.
\<close>

section \<open>Index and surface\<close>

definition facet_rank :: "schema_binding_facet \<Rightarrow> nat" where
  "facet_rank f = (case f of FacetOwner \<Rightarrow> 0 | FacetBindings \<Rightarrow> 1)"

lemma facet_rank_inject [simp]: "facet_rank a = facet_rank b \<longleftrightarrow> a = b"
  by (simp add: facet_rank_def split: schema_binding_facet.splits)

instantiation schema_binding_facet :: linorder
begin

definition less_eq_schema_binding_facet :: "schema_binding_facet \<Rightarrow> schema_binding_facet \<Rightarrow> bool" where
  "less_eq_schema_binding_facet a b = (facet_rank a \<le> facet_rank b)"

definition less_schema_binding_facet :: "schema_binding_facet \<Rightarrow> schema_binding_facet \<Rightarrow> bool" where
  "less_schema_binding_facet a b = (facet_rank a < facet_rank b)"

instance
  by standard (auto simp: less_eq_schema_binding_facet_def less_schema_binding_facet_def dest: order.antisym)

end

definition show_facet :: "schema_binding_facet \<Rightarrow> string" where
  "show_facet f = (case f of FacetOwner \<Rightarrow> ''owner'' | FacetBindings \<Rightarrow> ''bindings'')"

type_synonym schema_facet_key = "string \<times> schema_binding_facet"
type_synonym membership_key = "string \<times> string"

record ownership_index =
  oi_roles :: "(string, string) btreemap"
  oi_schema_facets :: "(schema_facet_key, string) btreemap"
  oi_grants :: "(grant_key, string) btreemap"
  oi_default_privileges :: "(default_priv_key, string) btreemap"
  oi_memberships :: "(membership_key, string) btreemap"
  oi_membership_stanzas :: "(string, string \<times> bool) btreemap"

definition empty_index :: ownership_index where
  "empty_index =
     \<lparr>oi_roles = fmempty, oi_schema_facets = fmempty, oi_grants = fmempty, oi_default_privileges = fmempty,
      oi_memberships = fmempty, oi_membership_stanzas = fmempty\<rparr>"

record managed_schema_scope =
  mss_owner :: bool
  mss_bindings :: bool

record managed_scope =
  msc_roles :: "string btreeset"
  msc_schemas :: "(string, managed_schema_scope) btreemap"

record managed_change_surface =
  mcs_roles :: "string btreeset"
  mcs_owner_schemas :: "string btreeset"
  mcs_binding_schemas :: "string btreeset"
  mcs_explicit_grants :: "grant_key btreeset"
  mcs_explicit_default_privileges :: "default_priv_key btreeset"
  mcs_explicit_memberships :: "membership_key btreeset"

definition key_set :: "('k::linorder, 'v) btreemap \<Rightarrow> 'k btreeset" where
  "key_set m = fset_of_list (bt_keys m)"

definition add_facet :: "schema_facet_key \<Rightarrow> (string, managed_schema_scope) btreemap \<Rightarrow> (string, managed_schema_scope) btreemap" where
  "add_facet = (\<lambda>(schema, facet) schemas.
     let entry = unwrap_or (fmlookup schemas schema) \<lparr>mss_owner = False, mss_bindings = False\<rparr> in
     fmupd schema (case facet of FacetOwner \<Rightarrow> entry\<lparr>mss_owner := True\<rparr> | FacetBindings \<Rightarrow> entry\<lparr>mss_bindings := True\<rparr>) schemas)"

definition managed_scope_of :: "ownership_index \<Rightarrow> managed_scope" where
  "managed_scope_of index =
     \<lparr>msc_roles = key_set (oi_roles index),
      msc_schemas = fold add_facet (bt_keys (oi_schema_facets index)) fmempty\<rparr>"

definition facet_schemas :: "schema_binding_facet \<Rightarrow> ownership_index \<Rightarrow> string btreeset" where
  "facet_schemas facet index =
     fset_of_list (map fst (filter (\<lambda>(_, f). f = facet) (bt_keys (oi_schema_facets index))))"

definition managed_change_surface_of :: "ownership_index \<Rightarrow> managed_change_surface" where
  "managed_change_surface_of index =
     \<lparr>mcs_roles = key_set (oi_roles index),
      mcs_owner_schemas = facet_schemas FacetOwner index,
      mcs_binding_schemas = facet_schemas FacetBindings index,
      mcs_explicit_grants = key_set (oi_grants index),
      mcs_explicit_default_privileges = key_set (oi_default_privileges index),
      mcs_explicit_memberships = key_set (oi_memberships index)\<rparr>"


section \<open>The check of a plan\<close>

definition is_binding_schema_object :: "object_type \<Rightarrow> bool" where
  "is_binding_schema_object t = (t \<noteq> Database)"

definition grant_schema_name :: "grant_key \<Rightarrow> string option" where
  "grant_schema_name key =
     (case gk_object_type key of Schema \<Rightarrow> gk_name key | Database \<Rightarrow> None | _ \<Rightarrow> gk_schema key)"

definition allows_grant_change :: "managed_change_surface \<Rightarrow> grant_key \<Rightarrow> bool" where
  "allows_grant_change surface key =
     (key |\<in>| mcs_explicit_grants surface \<or>
      (is_binding_schema_object (gk_object_type key) \<and>
       (case grant_schema_name key of Some schema \<Rightarrow> schema |\<in>| mcs_binding_schemas surface | None \<Rightarrow> False)) \<or>
      (gk_object_type key = Database \<and>
       (case gk_role key of Role role \<Rightarrow> role |\<in>| mcs_roles surface | Public \<Rightarrow> False)))"

definition allows_default_privilege_change :: "managed_change_surface \<Rightarrow> default_priv_key \<Rightarrow> bool" where
  "allows_default_privilege_change surface key =
     (key |\<in>| mcs_explicit_default_privileges surface \<or>
      (case dk_scope key of
         SchemaScope schema \<Rightarrow> schema |\<in>| mcs_binding_schemas surface
       | Global \<Rightarrow> dk_owner key |\<in>| mcs_roles surface))"

definition allows_membership_change :: "managed_change_surface \<Rightarrow> string \<Rightarrow> string \<Rightarrow> bool" where
  "allows_membership_change surface role member =
     (role |\<in>| mcs_roles surface \<or> (role, member) |\<in>| mcs_explicit_memberships surface)"

definition allows_change :: "managed_change_surface \<Rightarrow> change \<Rightarrow> bool" where
  "allows_change surface change =
     (case change of
        CreateRole name _ \<Rightarrow> name |\<in>| mcs_roles surface
      | AlterRole name _ \<Rightarrow> name |\<in>| mcs_roles surface
      | SetComment name _ \<Rightarrow> name |\<in>| mcs_roles surface
      | SetPassword name _ \<Rightarrow> name |\<in>| mcs_roles surface
      | DropRole name \<Rightarrow> name |\<in>| mcs_roles surface
      | TerminateSessions role \<Rightarrow> role |\<in>| mcs_roles surface
      | DropOwned role \<Rightarrow> role |\<in>| mcs_roles surface
      | ReassignOwned from_role to_role \<Rightarrow> from_role |\<in>| mcs_roles surface \<and> to_role \<noteq> []
      | CreateSchema name _ \<Rightarrow> name |\<in>| mcs_owner_schemas surface \<or> name |\<in>| mcs_binding_schemas surface
      | AlterSchemaOwner name owner \<Rightarrow> name |\<in>| mcs_owner_schemas surface \<and> owner \<noteq> []
      | EnsureSchemaOwnerPrivileges name owner _ \<Rightarrow> name |\<in>| mcs_owner_schemas surface \<and> owner \<noteq> []
      | Grant role _ object_type schema name \<Rightarrow> allows_grant_change surface (grant_key_of role object_type schema name)
      | Revoke role _ object_type schema name _ \<Rightarrow> allows_grant_change surface (grant_key_of role object_type schema name)
      | SetDefaultPrivilege owner scope on_type grantee _ \<Rightarrow>
          allows_default_privilege_change surface (default_key owner scope on_type grantee)
      | RevokeDefaultPrivilege owner scope on_type grantee _ \<Rightarrow>
          allows_default_privilege_change surface (default_key owner scope on_type grantee)
      | AddMember role member _ _ \<Rightarrow> allows_membership_change surface role member
      | UpdateMemberOptions role member _ _ _ _ \<Rightarrow> allows_membership_change surface role member
      | RemoveMember role member _ \<Rightarrow> allows_membership_change surface role member)"

definition describe_grantee :: "grantee \<Rightarrow> string" where
  "describe_grantee grantee = (case grantee of Public \<Rightarrow> ''PUBLIC'' | Role name \<Rightarrow> ''role '' @ dq name)"

definition format_grant_action :: "string \<Rightarrow> grantee \<Rightarrow> object_type \<Rightarrow> string option \<Rightarrow> string option \<Rightarrow> string" where
  "format_grant_action action role object_type schema name =
     action @ '' for '' @ describe_grantee role @ '' on '' @ show_object_type object_type @ '' '' @
     dq (case (schema, name) of
           (Some schema, Some name) \<Rightarrow> schema @ ''.'' @ name
         | (Some schema, None) \<Rightarrow> schema
         | (None, Some name) \<Rightarrow> name
         | (None, None) \<Rightarrow> ''<unnamed>'')"

definition describe_change :: "change \<Rightarrow> string" where
  "describe_change change =
     (case change of
        CreateRole name _ \<Rightarrow> ''create role '' @ dq name
      | AlterRole name _ \<Rightarrow> ''alter role '' @ dq name
      | SetComment name _ \<Rightarrow> ''set comment on role '' @ dq name
      | SetPassword name _ \<Rightarrow> ''set password for role '' @ dq name
      | DropRole name \<Rightarrow> ''drop role '' @ dq name
      | CreateSchema name _ \<Rightarrow> ''create schema '' @ dq name
      | AlterSchemaOwner name owner \<Rightarrow> ''alter schema '' @ dq name @ '' owner to '' @ dq owner
      | EnsureSchemaOwnerPrivileges name owner _ \<Rightarrow> ''ensure owner privileges on schema '' @ dq name @ '' for '' @ dq owner
      | Grant role _ object_type schema name \<Rightarrow> format_grant_action ''grant'' role object_type schema name
      | Revoke role _ object_type schema name _ \<Rightarrow> format_grant_action ''revoke'' role object_type schema name
      | SetDefaultPrivilege owner scope on_type grantee _ \<Rightarrow>
          ''set default privilege for owner '' @ dq owner @ '' '' @ show_scope scope @ '' on '' @ show_object_type on_type
            @ '' to '' @ describe_grantee grantee
      | RevokeDefaultPrivilege owner scope on_type grantee _ \<Rightarrow>
          ''revoke default privilege for owner '' @ dq owner @ '' '' @ show_scope scope @ '' on '' @ show_object_type on_type
            @ '' from '' @ describe_grantee grantee
      | AddMember role member _ _ \<Rightarrow> ''add membership '' @ dq role @ '' -> '' @ dq member
      | UpdateMemberOptions role member _ _ _ _ \<Rightarrow> ''update membership options '' @ dq role @ '' -> '' @ dq member
      | RemoveMember role member _ \<Rightarrow> ''remove membership '' @ dq role @ '' -> '' @ dq member
      | TerminateSessions role \<Rightarrow> ''terminate sessions for role '' @ dq role
      | ReassignOwned from_role to_role \<Rightarrow> ''reassign owned from '' @ dq from_role @ '' to '' @ dq to_role
      | DropOwned role \<Rightarrow> ''drop owned by role '' @ dq role)"

datatype managed_change_error = OutOfScope string

definition validate_changes_against_managed_surface ::
  "change list \<Rightarrow> managed_change_surface \<Rightarrow> managed_change_error + unit" where
  "validate_changes_against_managed_surface changes surface =
     for_each (\<lambda>change. ensure_r (allows_change surface change) (OutOfScope (describe_change change))) changes"

end
