(* ===== verification/Frame.thy ===== *)
theory Frame
  imports PlanLaws
begin

text \<open>
  The state of a database as a set of cells (one role, one schema, the privileges at one key, the default
  privileges at one key, one membership pair), the cells each change touches, and the two laws that follow for
  every effect that is local to what it touches: a run leaves untouched cells alone, and changes with no cell in
  common commute.
\<close>

section \<open>Local effects\<close>

locale framed_effect = pointwise_effect eff upd view
  for eff :: "'c \<Rightarrow> 's \<Rightarrow> 's" and upd :: "'c \<Rightarrow> 'k \<Rightarrow> 'v \<Rightarrow> 'v" and view :: "'s \<Rightarrow> 'k \<Rightarrow> 'v" +
  fixes touches :: "'c \<Rightarrow> 'k \<Rightarrow> bool"
  assumes untouched: "\<not> touches c k \<Longrightarrow> upd c k v = v"
begin

lemma run_untouched: "\<forall>c\<in>set cs. \<not> touches c k \<Longrightarrow> view (fold eff cs s) k = view s k"
  unfolding run_pointwise by (intro fold_unchanged) (simp add: untouched)

lemma effects_commute: "\<not> (touches a k \<and> touches b k) \<Longrightarrow> view (eff a (eff b s)) k = view (eff b (eff a s)) k"
  by (auto simp: pointwise untouched)

text \<open>Two plans whose changes have no cell in common may be interleaved in either order.\<close>

lemma runs_commute:
  assumes "\<forall>a\<in>set as. \<forall>b\<in>set bs. \<not> (touches a k \<and> touches b k)"
  shows "view (fold eff as (fold eff bs s)) k = view (fold eff bs (fold eff as s)) k"
proof (cases "\<exists>a\<in>set as. touches a k")
  case True
  then have "\<forall>b\<in>set bs. \<not> touches b k" using assms by blast
  then have "fold (\<lambda>c. upd c k) bs v = v" for v by (intro fold_unchanged) (simp add: untouched)
  then show ?thesis by (simp add: run_pointwise)
next
  case False
  then have "fold (\<lambda>c. upd c k) as v = v" for v by (intro fold_unchanged) (simp add: untouched)
  then show ?thesis by (simp add: run_pointwise)
qed

end

section \<open>Cells\<close>

datatype cell = RoleCell string | SchemaCell string | GrantCell grant_key | DefaultCell default_priv_key
  | MemberCell "string \<times> string"

datatype cell_value = RoleValue "role_state option" | SchemaValue "schema_state option" | Privileges "privilege set"
  | Edges "membership_edge set"

fun read_cell :: "role_graph \<Rightarrow> cell \<Rightarrow> cell_value" where
  "read_cell g (RoleCell name) = RoleValue (fmlookup (rg_roles g) name)"
| "read_cell g (SchemaCell name) = SchemaValue (fmlookup (rg_schemas g) name)"
| "read_cell g (GrantCell k) = Privileges (fset (get_or_default (rg_grants g) k))"
| "read_cell g (DefaultCell k) = Privileges (fset (get_or_default (rg_default_privileges g) k))"
| "read_cell g (MemberCell p) = Edges (edges_of (rg_memberships g) p)"

fun upd_grant :: "change \<Rightarrow> grant_key \<Rightarrow> privilege set \<Rightarrow> privilege set" where
  "upd_grant (AlterSchemaOwner name owner) k s = (if k = grant_key_of (Role owner) Schema None (Some name) then {} else s)"
| "upd_grant (Grant role privileges t schema name) k s = (if k = grant_key_of role t schema name then s \<union> fset privileges else s)"
| "upd_grant (Revoke role privileges t schema name grantor) k s =
     (if covers (grant_key_of role t schema name) k then s - fset privileges else s)"
| "upd_grant _ k s = s"

fun upd_default :: "change \<Rightarrow> default_priv_key \<Rightarrow> privilege set \<Rightarrow> privilege set" where
  "upd_default (SetDefaultPrivilege owner scope t grantee privileges) k s =
     (if k = default_key owner scope t grantee then s \<union> fset privileges else s)"
| "upd_default (RevokeDefaultPrivilege owner scope t grantee privileges) k s =
     (if k = default_key owner scope t grantee then s - fset privileges else s)"
| "upd_default _ k s = s"

fun upd_cell :: "change \<Rightarrow> cell \<Rightarrow> cell_value \<Rightarrow> cell_value" where
  "upd_cell c (RoleCell name) (RoleValue v) = RoleValue (upd_role c name v)"
| "upd_cell c (SchemaCell name) (SchemaValue v) = SchemaValue (upd_schema c name v)"
| "upd_cell c (GrantCell k) (Privileges s) = Privileges (upd_grant c k s)"
| "upd_cell c (DefaultCell k) (Privileges s) = Privileges (upd_default c k s)"
| "upd_cell c (MemberCell p) (Edges s) = Edges (upd_edges c p s)"
| "upd_cell c _ v = v"

fun touches :: "change \<Rightarrow> cell \<Rightarrow> bool" where
  "touches (CreateRole name _) cell = (cell = RoleCell name)"
| "touches (AlterRole name _) cell = (cell = RoleCell name)"
| "touches (SetComment name _) cell = (cell = RoleCell name)"
| "touches (DropRole name) cell = (cell = RoleCell name)"
| "touches (CreateSchema name _) cell = (cell = SchemaCell name)"
| "touches (AlterSchemaOwner name owner) cell =
     (cell = SchemaCell name \<or> cell = GrantCell (grant_key_of (Role owner) Schema None (Some name)))"
| "touches (EnsureSchemaOwnerPrivileges name owner _) cell = (cell = SchemaCell name)"
| "touches (Grant role _ t schema name) cell = (cell = GrantCell (grant_key_of role t schema name))"
| "touches (Revoke role _ t schema name _) cell =
     (case cell of GrantCell k \<Rightarrow> covers (grant_key_of role t schema name) k | _ \<Rightarrow> False)"
| "touches (SetDefaultPrivilege owner scope t grantee _) cell = (cell = DefaultCell (default_key owner scope t grantee))"
| "touches (RevokeDefaultPrivilege owner scope t grantee _) cell = (cell = DefaultCell (default_key owner scope t grantee))"
| "touches (AddMember role member _ _) cell = (cell = MemberCell (role, member))"
| "touches (RemoveMember role member _) cell = (cell = MemberCell (role, member))"
| "touches _ cell = False"

lemma eff_grants_cell: "fset (get_or_default (eff_grants c m) k) = upd_grant c k (fset (get_or_default m k))"
proof (cases c)
  case (Revoke role ps t schema name grantor)
  then show ?thesis using eff_revoke[of "grant_key_of role t schema name" ps grantor m k] by (simp add: change_revoke_def)
qed auto

lemma eff_defaults_cell: "fset (get_or_default (eff_defaults c m) k) = upd_default c k (fset (get_or_default m k))"
  by (cases c) auto

interpretation cells: framed_effect effect upd_cell read_cell touches
proof
  show "read_cell (effect c g) cell = upd_cell c cell (read_cell g cell)" for c g cell
    by (cases cell) (simp_all add: role_changes.pointwise schema_changes.pointwise member_changes.pointwise
        eff_grants_cell eff_defaults_cell)
  show "upd_cell c cell v = v" if "\<not> touches c cell" for c cell v
    using that by (cases cell; cases v; cases c) auto
qed

lemma apply_changes_fold: "apply_changes g cs = Some g' \<Longrightarrow> g' = fold effect cs g"
  by (simp add: apply_changes_run run_def split: if_splits)

end
