(* ===== verification/OwnershipLaws.thy ===== *)
theory OwnershipLaws
  imports Ownership Frame
begin

text \<open>A plan that passes the surface check, run on any state, changes nothing outside the surface.\<close>

text \<open>
  The cells of a surface. A privilege key is on it when the key, or the wildcard over its schema, is
  allowed; the owner of a managed schema is on it through the transfer of ownership.
\<close>

fun on_surface :: "managed_change_surface \<Rightarrow> cell \<Rightarrow> bool" where
  "on_surface s (RoleCell name) = (name |\<in>| mcs_roles s)"
| "on_surface s (SchemaCell name) = (name |\<in>| mcs_owner_schemas s \<or> name |\<in>| mcs_binding_schemas s)"
| "on_surface s (GrantCell k) =
     (allows_grant_change s k \<or> allows_grant_change s (k\<lparr>gk_name := Some ''*''\<rparr>) \<or>
      (gk_object_type k = Schema \<and> gk_schema k = None \<and>
       (case gk_name k of Some name \<Rightarrow> name |\<in>| mcs_owner_schemas s | None \<Rightarrow> False)))"
| "on_surface s (DefaultCell k) = allows_default_privilege_change s k"
| "on_surface s (MemberCell (role, member)) = allows_membership_change s role member"

lemma covers_wildcard: "covers K k \<Longrightarrow> K = k \<or> K = k\<lparr>gk_name := Some ''*''\<rparr>"
  by (auto simp: covers_def is_wildcard_def in_scope_def intro: grant_key.equality split: if_splits)

lemma allowed_touches: "allows_change s c \<Longrightarrow> touches c cell \<Longrightarrow> on_surface s cell"
proof (cases c)
  case (Revoke role ps t schema name grantor)
  assume "allows_change s c" "touches c cell"
  with Revoke obtain k where "cell = GrantCell k" "covers (grant_key_of role t schema name) k"
    "allows_grant_change s (grant_key_of role t schema name)"
    by (auto simp: allows_change_def split: cell.splits)
  then show ?thesis using covers_wildcard by fastforce
qed (auto simp: allows_change_def)


definition ex_surface :: managed_change_surface where
  "ex_surface = managed_change_surface_of (empty_index\<lparr>oi_roles := fmupd ''app'' ''doc'' fmempty,
     oi_schema_facets := fmupd (''s'', FacetBindings) ''doc'' fmempty\<rparr>)"

definition ex_surface_plan :: "change list" where
  "ex_surface_plan =
     [CreateRole ''app'' default_role_state, Grant (Role ''app'') {|Select|} Table (Some ''s'') (Some ''t'')]"


end
