(* ===== verification/Composition.thy ===== *)
theory Composition
  imports OwnershipLaws
begin

text \<open>
  Composition of policy documents into one policy (\<open>crates/pgroles-core/src/composition.rs\<close>): the scope check
  of a document, the registration of everything it claims in the ownership index, and the merged manifest. YAML
  parsing is not modelled: bundles and fragments are their parsed values.
\<close>

section \<open>Documents\<close>

datatype composition_error =
    MissingSources
  | RoleOutOfScope string string
  | SchemaOwnerOutOfScope string string
  | SchemaBindingsOutOfScope string string
  | GlobalDefaultPrivilegeOutOfScope string string
  | DuplicateManagedRole string string string
  | DuplicateManagedSchemaFacet string string string string
  | DuplicateManagedGrant string string string
  | DuplicateManagedDefaultPrivilege string string string
  | DuplicateManagedMembership string string string string
  | ExclusiveMembershipSplit string string string
  | InvalidDocument string manifest_error
  | InvalidComposedManifest manifest_error

record shared_policy =
  sp_role_pattern :: "string option"
  sp_default_owner :: "string option"
  sp_auth_providers :: "auth_provider list"
  sp_profiles :: "(string, profile) btreemap"

record policy_bundle =
  pb_shared :: shared_policy
  pb_sources :: "string list"

record scoped_schema =
  scs_name :: string
  scs_facets :: "schema_binding_facet list"

record fragment_scope =
  fs_roles :: "string list"
  fs_schemas :: "scoped_schema list"

record policy_fragment =
  pf_role_pattern :: "string option"
  pf_policy_name :: "string option"
  pf_scope :: fragment_scope
  pf_schemas :: "schema_binding list"
  pf_roles :: "role_definition list"
  pf_grants :: "grant list"
  pf_default_privileges :: "default_privilege list"
  pf_memberships :: "membership list"
  pf_retirements :: "role_retirement list"

record policy_document =
  pd_source :: string
  pd_fragment :: policy_fragment

definition doc_label :: "policy_document \<Rightarrow> string" where
  "doc_label document = unwrap_or (pf_policy_name (pd_fragment document)) (pd_source document)"

record composed_policy =
  cp_manifest :: policy_manifest
  cp_expanded :: expanded_manifest
  cp_desired :: role_graph
  cp_ownership :: ownership_index
  cp_managed_scope :: managed_scope
  cp_managed_change_surface :: managed_change_surface


section \<open>Scope of a document\<close>

definition schema_scope_map :: "fragment_scope \<Rightarrow> (string, schema_binding_facet btreeset) btreemap" where
  "schema_scope_map scope =
     fold (\<lambda>schema result. fmupd (scs_name schema)
              (fold finsert (scs_facets schema) (unwrap_or (fmlookup result (scs_name schema)) {||})) result)
       (fs_schemas scope) fmempty"

definition has_schema_facet ::
  "(string, schema_binding_facet btreeset) btreemap \<Rightarrow> string \<Rightarrow> schema_binding_facet \<Rightarrow> bool" where
  "has_schema_facet scope schema facet =
     (case fmlookup scope schema of None \<Rightarrow> False | Some facets \<Rightarrow> facet |\<in>| facets)"

definition schema_name_for_grant :: "grant \<Rightarrow> string option" where
  "schema_name_for_grant grant =
     (case ot_object_type (g_object grant) of
        Database \<Rightarrow> None
      | Schema \<Rightarrow> ot_name (g_object grant)
      | _ \<Rightarrow> ot_schema (g_object grant))"

definition check_schema_scope ::
  "policy_bundle \<Rightarrow> string \<Rightarrow> (string, schema_binding_facet btreeset) btreemap \<Rightarrow> schema_binding \<Rightarrow> composition_error + unit" where
  "check_schema_scope bundle document_name schema_scope schema =
     (let manages_bindings = (sb_profiles schema \<noteq> [] \<or> sb_role_pattern schema \<noteq> None);
          manages_owner = (sb_owner schema \<noteq> None \<or> sp_default_owner (pb_shared bundle) \<noteq> None) in
      sequence_r
        [ensure_r (\<not> (manages_bindings \<and> \<not> has_schema_facet schema_scope (sb_name schema) FacetBindings))
           (SchemaBindingsOutOfScope document_name (sb_name schema)),
         ensure_r (\<not> (manages_owner \<and> \<not> has_schema_facet schema_scope (sb_name schema) FacetOwner))
           (SchemaOwnerOutOfScope document_name (sb_name schema))])"

definition check_grant_scope ::
  "string \<Rightarrow> (string, schema_binding_facet btreeset) btreemap \<Rightarrow> grant \<Rightarrow> composition_error + unit" where
  "check_grant_scope document_name schema_scope grant =
     when_some (schema_name_for_grant grant) (\<lambda>schema.
       ensure_r (has_schema_facet schema_scope schema FacetBindings) (SchemaBindingsOutOfScope document_name schema))"

definition check_default_scope ::
  "policy_bundle \<Rightarrow> string \<Rightarrow> string list \<Rightarrow> (string, schema_binding_facet btreeset) btreemap \<Rightarrow>
   default_privilege \<Rightarrow> composition_error + unit" where
  "check_default_scope bundle document_name owned_roles schema_scope dp =
     (case resolved_scope dp of
        Inl error \<Rightarrow> Inl (InvalidDocument document_name error)
      | Inr (SchemaScope schema) \<Rightarrow>
          ensure_r (has_schema_facet schema_scope schema FacetBindings) (SchemaBindingsOutOfScope document_name schema)
      | Inr Global \<Rightarrow>
          let owner = default_priv_owner (sp_default_owner (pb_shared bundle)) dp in
          ensure_r (owner \<in> set owned_roles) (GlobalDefaultPrivilegeOutOfScope document_name owner))"

definition validate_document_scope :: "policy_bundle \<Rightarrow> policy_document \<Rightarrow> composition_error + unit" where
  "validate_document_scope bundle document =
     (let fragment = pd_fragment document;
          owned_roles = fs_roles (pf_scope fragment);
          schema_scope = schema_scope_map (pf_scope fragment);
          document_name = doc_label document in
      sequence_r
        [for_each (\<lambda>role. ensure_r (rd_name role \<in> set owned_roles) (RoleOutOfScope document_name (rd_name role)))
           (pf_roles fragment),
         for_each (\<lambda>r. ensure_r (rr_role r \<in> set owned_roles) (RoleOutOfScope document_name (rr_role r)))
           (pf_retirements fragment),
         for_each (check_schema_scope bundle document_name schema_scope) (pf_schemas fragment),
         for_each (check_grant_scope document_name schema_scope) (pf_grants fragment),
         for_each (check_default_scope bundle document_name owned_roles schema_scope) (pf_default_privileges fragment)])"

definition document_manifest :: "policy_bundle \<Rightarrow> policy_fragment \<Rightarrow> policy_manifest" where
  "document_manifest bundle fragment =
     \<lparr>pm_role_pattern = or_option (pf_role_pattern fragment) (sp_role_pattern (pb_shared bundle)),
      pm_default_owner = sp_default_owner (pb_shared bundle),
      pm_auth_providers = sp_auth_providers (pb_shared bundle),
      pm_profiles = sp_profiles (pb_shared bundle),
      pm_schemas = pf_schemas fragment,
      pm_roles = pf_roles fragment,
      pm_grants = pf_grants fragment,
      pm_default_privileges = pf_default_privileges fragment,
      pm_memberships = pf_memberships fragment,
      pm_retirements = pf_retirements fragment\<rparr>"


section \<open>Registration\<close>

definition format_grant_key :: "grant_key \<Rightarrow> string" where
  "format_grant_key key =
     ''for role '' @ dq (grantee_as_str (gk_role key)) @ '' on '' @ show_object_type (gk_object_type key) @ '' '' @
     dq (case (gk_schema key, gk_name key) of
           (Some schema, Some name) \<Rightarrow> schema @ ''.'' @ name
         | (Some schema, None) \<Rightarrow> schema
         | (None, Some name) \<Rightarrow> name
         | (None, None) \<Rightarrow> ''<unnamed>'')"

definition format_default_privilege_key :: "default_priv_key \<Rightarrow> string" where
  "format_default_privilege_key key =
     ''owner '' @ dq (dk_owner key) @ '' '' @ show_scope (dk_scope key) @ '' on '' @ show_object_type (dk_on_type key)
       @ '' to '' @ dq (grantee_as_str (dk_grantee key))"

definition register_role_owner :: "string \<Rightarrow> string \<Rightarrow> ownership_index \<Rightarrow> composition_error + ownership_index" where
  "register_role_owner owner role index =
     (case fmlookup (oi_roles index) role of
        Some existing \<Rightarrow> Inl (DuplicateManagedRole role existing owner)
      | None \<Rightarrow> Inr (index\<lparr>oi_roles := fmupd role owner (oi_roles index)\<rparr>))"

definition register_schema_facet_owner ::
  "string \<Rightarrow> schema_facet_key \<Rightarrow> ownership_index \<Rightarrow> composition_error + ownership_index" where
  "register_schema_facet_owner owner key index =
     (case fmlookup (oi_schema_facets index) key of
        Some existing \<Rightarrow> Inl (DuplicateManagedSchemaFacet (fst key) (show_facet (snd key)) existing owner)
      | None \<Rightarrow> Inr (index\<lparr>oi_schema_facets := fmupd key owner (oi_schema_facets index)\<rparr>))"

definition register_grant_owner :: "string \<Rightarrow> grant_key \<Rightarrow> ownership_index \<Rightarrow> composition_error + ownership_index" where
  "register_grant_owner owner key index =
     (case fmlookup (oi_grants index) key of
        Some existing \<Rightarrow> Inl (DuplicateManagedGrant (format_grant_key key) existing owner)
      | None \<Rightarrow> Inr (index\<lparr>oi_grants := fmupd key owner (oi_grants index)\<rparr>))"

definition register_default_privilege_owner ::
  "string \<Rightarrow> default_priv_key \<Rightarrow> ownership_index \<Rightarrow> composition_error + ownership_index" where
  "register_default_privilege_owner owner key index =
     (case fmlookup (oi_default_privileges index) key of
        Some existing \<Rightarrow> Inl (DuplicateManagedDefaultPrivilege (format_default_privilege_key key) existing owner)
      | None \<Rightarrow> Inr (index\<lparr>oi_default_privileges := fmupd key owner (oi_default_privileges index)\<rparr>))"

definition register_membership_owner ::
  "string \<Rightarrow> membership_key \<Rightarrow> ownership_index \<Rightarrow> composition_error + ownership_index" where
  "register_membership_owner owner key index =
     (case fmlookup (oi_memberships index) key of
        Some existing \<Rightarrow> Inl (DuplicateManagedMembership (fst key) (snd key) existing owner)
      | None \<Rightarrow> Inr (index\<lparr>oi_memberships := fmupd key owner (oi_memberships index)\<rparr>))"

definition register_stanza :: "string \<Rightarrow> membership \<Rightarrow> ownership_index \<Rightarrow> composition_error + ownership_index" where
  "register_stanza label m index =
     (case fmlookup (oi_membership_stanzas index) (m_role m) of
        None \<Rightarrow> Inr (index\<lparr>oi_membership_stanzas := fmupd (m_role m) (label, m_exclusive m) (oi_membership_stanzas index)\<rparr>)
      | Some (first, any_exclusive) \<Rightarrow>
          if first \<noteq> label \<and> (any_exclusive \<or> m_exclusive m)
          then Inl (ExclusiveMembershipSplit (m_role m) first label)
          else Inr (index\<lparr>oi_membership_stanzas :=
                      fmupd (m_role m) (first, any_exclusive \<or> m_exclusive m) (oi_membership_stanzas index)\<rparr>))"

definition scope_facet_keys :: "fragment_scope \<Rightarrow> schema_facet_key list" where
  "scope_facet_keys scope = concat (map (\<lambda>s. map (Pair (scs_name s)) (scs_facets s)) (fs_schemas scope))"

definition claimed_grants :: "role_graph \<Rightarrow> grant_key list" where
  "claimed_grants desired = bt_elements (fset_of_list (bt_keys (rg_grants desired) @ bt_keys (rg_grant_absences desired)))"

definition claimed_defaults :: "role_graph \<Rightarrow> default_priv_key list" where
  "claimed_defaults desired =
     bt_elements (fset_of_list (bt_keys (rg_default_privileges desired) @ bt_keys (rg_default_privilege_absences desired)))"

definition claimed_roles :: "policy_document \<Rightarrow> expanded_manifest \<Rightarrow> string list" where
  "claimed_roles document expanded = map rd_name (em_roles expanded) @ map rr_role (pf_retirements (pd_fragment document))"

definition claimed_memberships :: "role_graph \<Rightarrow> membership_key list" where
  "claimed_memberships desired = map (\<lambda>m. (me_role m, me_member m)) (bt_elements (rg_memberships desired))"

definition register_document_ownership ::
  "policy_document \<Rightarrow> expanded_manifest \<Rightarrow> role_graph \<Rightarrow> ownership_index \<Rightarrow> composition_error + ownership_index" where
  "register_document_ownership document expanded desired index =
     (let label = doc_label document; fragment = pd_fragment document in
      bind_r (fold_r (register_role_owner label) (claimed_roles document expanded) index) (\<lambda>index.
      bind_r (fold_r (register_schema_facet_owner label) (scope_facet_keys (pf_scope fragment)) index) (\<lambda>index.
      bind_r (fold_r (register_grant_owner label) (claimed_grants desired) index) (\<lambda>index.
      bind_r (fold_r (register_default_privilege_owner label) (claimed_defaults desired) index) (\<lambda>index.
      bind_r (fold_r (register_membership_owner label) (claimed_memberships desired) index) (\<lambda>index.
      fold_r (register_stanza label) (pf_memberships fragment) index))))))"


section \<open>Composition\<close>

definition merge_schema ::
  "policy_fragment \<Rightarrow> schema_binding \<Rightarrow> (string, schema_binding) btreemap \<Rightarrow> (string, schema_binding) btreemap" where
  "merge_schema fragment schema merged =
     (let entry = unwrap_or (fmlookup merged (sb_name schema))
                    \<lparr>sb_name = sb_name schema, sb_profiles = [], sb_role_pattern = None, sb_owner = None\<rparr>;
          entry = (if sb_owner schema \<noteq> None then entry\<lparr>sb_owner := sb_owner schema\<rparr> else entry);
          entry = (if sb_profiles schema \<noteq> [] then entry\<lparr>sb_profiles := sb_profiles schema\<rparr> else entry);
          entry = (if sb_profiles schema \<noteq> [] \<or> sb_role_pattern schema \<noteq> None
                   then entry\<lparr>sb_role_pattern := or_option (sb_role_pattern schema) (pf_role_pattern fragment)\<rparr> else entry) in
      fmupd (sb_name schema) entry merged)"

definition merge_document_manifest ::
  "policy_fragment \<Rightarrow> policy_manifest \<times> (string, schema_binding) btreemap \<Rightarrow>
   policy_manifest \<times> (string, schema_binding) btreemap" where
  "merge_document_manifest fragment = (\<lambda>(manifest, merged).
     (manifest\<lparr>pm_roles := pm_roles manifest @ pf_roles fragment,
               pm_grants := pm_grants manifest @ pf_grants fragment,
               pm_default_privileges := pm_default_privileges manifest @ pf_default_privileges fragment,
               pm_memberships := pm_memberships manifest @ pf_memberships fragment,
               pm_retirements := pm_retirements manifest @ pf_retirements fragment\<rparr>,
      fold (merge_schema fragment) (pf_schemas fragment) merged))"

text \<open>The expansion of one document on its own, as the loop computes it.\<close>

definition document_expansion ::
  "policy_bundle \<Rightarrow> policy_document \<Rightarrow> composition_error + expanded_manifest \<times> role_graph" where
  "document_expansion bundle document =
     (let manifest = document_manifest bundle (pd_fragment document) in
      case expand_manifest manifest of
        Inl error \<Rightarrow> Inl (InvalidDocument (doc_label document) error)
      | Inr expanded \<Rightarrow>
          (case from_expanded expanded (pm_default_owner manifest) of
             Inl error \<Rightarrow> Inl (InvalidDocument (doc_label document) error)
           | Inr desired \<Rightarrow> Inr (expanded, desired)))"

type_synonym compose_state = "ownership_index \<times> policy_manifest \<times> (string, schema_binding) btreemap"

definition compose_document :: "policy_bundle \<Rightarrow> policy_document \<Rightarrow> compose_state \<Rightarrow> composition_error + compose_state" where
  "compose_document bundle document = (\<lambda>(ownership, merged).
     bind_r (validate_document_scope bundle document) (\<lambda>_.
     bind_r (document_expansion bundle document) (\<lambda>(expanded, desired).
     bind_r (register_document_ownership document expanded desired ownership) (\<lambda>ownership.
       Inr (ownership, merge_document_manifest (pd_fragment document) merged)))))"

definition base_manifest :: "policy_bundle \<Rightarrow> policy_manifest" where
  "base_manifest bundle =
     \<lparr>pm_role_pattern = sp_role_pattern (pb_shared bundle), pm_default_owner = sp_default_owner (pb_shared bundle),
      pm_auth_providers = sp_auth_providers (pb_shared bundle), pm_profiles = sp_profiles (pb_shared bundle),
      pm_schemas = [], pm_roles = [], pm_grants = [], pm_default_privileges = [], pm_memberships = [], pm_retirements = []\<rparr>"

definition finish_composition :: "compose_state \<Rightarrow> composition_error + composed_policy" where
  "finish_composition = (\<lambda>(ownership, manifest, merged).
     let manifest = manifest\<lparr>pm_schemas := map snd (bt_entries merged)\<rparr> in
     case expand_manifest manifest of
       Inl error \<Rightarrow> Inl (InvalidComposedManifest error)
     | Inr expanded \<Rightarrow>
         (case from_expanded expanded (pm_default_owner manifest) of
            Inl error \<Rightarrow> Inl (InvalidComposedManifest error)
          | Inr desired \<Rightarrow>
              Inr \<lparr>cp_manifest = manifest, cp_expanded = expanded, cp_desired = desired, cp_ownership = ownership,
                   cp_managed_scope = managed_scope_of ownership,
                   cp_managed_change_surface = managed_change_surface_of ownership\<rparr>))"

definition compose_bundle :: "policy_bundle \<Rightarrow> policy_document list \<Rightarrow> composition_error + composed_policy" where
  "compose_bundle bundle documents =
     (if pb_sources bundle = [] \<or> documents = [] then Inl MissingSources
      else bind_r (fold_r (compose_document bundle) documents (empty_index, base_manifest bundle, fmempty))
        finish_composition)"

end
