(* ===== verification/CompositionLaws.thy ===== *)
theory CompositionLaws
  imports Composition ManifestLaws
begin

text \<open>
  Ownership in a composed policy: whatever a document claims is claimed by no other document, and the
  index names that document; a member list declared exclusive lives in one document.
\<close>

section \<open>A registry\<close>

text \<open>
  The five registration functions share a contract: a key is registered once, for one owner, and
  registering it changes nothing else of the index.
\<close>

locale registry =
  fixes register :: "'o \<Rightarrow> 'k \<Rightarrow> 'm \<Rightarrow> 'e + 'm"
    and owner_of :: "'m \<Rightarrow> 'k \<Rightarrow> 'o option"
    and rest :: "'m \<Rightarrow> 'r"
  assumes register_fresh: "register owner k m = Inr m' \<Longrightarrow> owner_of m k = None"
    and register_owner: "register owner k m = Inr m' \<Longrightarrow> owner_of m' k' = (if k' = k then Some owner else owner_of m k')"
    and register_rest: "register owner k m = Inr m' \<Longrightarrow> rest m' = rest m"
begin

lemma register_all:
  assumes "fold_r (register owner) ks m = Inr m'"
  shows "distinct ks \<and> (\<forall>k\<in>set ks. owner_of m k = None) \<and>
    (\<forall>k. owner_of m' k = (if k \<in> set ks then Some owner else owner_of m k)) \<and> rest m' = rest m"
  using assms
proof (induction ks arbitrary: m)
  case (Cons k ks)
  obtain m1 where m1: "register owner k m = Inr m1" "fold_r (register owner) ks m1 = Inr m'"
    using Cons.prems by auto
  have o: "owner_of m1 k' = (if k' = k then Some owner else owner_of m k')" for k' by (rule register_owner[OF m1(1)])
  have IH: "distinct ks" "\<forall>k\<in>set ks. owner_of m1 k = None"
    "\<forall>k. owner_of m' k = (if k \<in> set ks then Some owner else owner_of m1 k)" "rest m' = rest m1"
    using Cons.IH[OF m1(2)] by auto
  have "k \<notin> set ks" using IH(2) o[of k] by auto
  then show ?case using IH register_fresh[OF m1(1)] register_rest[OF m1(1)] o by (auto split: if_splits)
qed simp

end

interpretation role_registry: registry register_role_owner "\<lambda>i. fmlookup (oi_roles i)"
    "\<lambda>i. (oi_schema_facets i, oi_grants i, oi_default_privileges i, oi_memberships i, oi_membership_stanzas i)"
  by unfold_locales (auto simp: register_role_owner_def split: option.splits)

interpretation facet_registry: registry register_schema_facet_owner "\<lambda>i. fmlookup (oi_schema_facets i)"
    "\<lambda>i. (oi_roles i, oi_grants i, oi_default_privileges i, oi_memberships i, oi_membership_stanzas i)"
  by unfold_locales (auto simp: register_schema_facet_owner_def split: option.splits if_splits)

interpretation grant_registry: registry register_grant_owner "\<lambda>i. fmlookup (oi_grants i)"
    "\<lambda>i. (oi_roles i, oi_schema_facets i, oi_default_privileges i, oi_memberships i, oi_membership_stanzas i)"
  by unfold_locales (auto simp: register_grant_owner_def split: option.splits)

interpretation default_registry: registry register_default_privilege_owner "\<lambda>i. fmlookup (oi_default_privileges i)"
    "\<lambda>i. (oi_roles i, oi_schema_facets i, oi_grants i, oi_memberships i, oi_membership_stanzas i)"
  by unfold_locales (auto simp: register_default_privilege_owner_def split: option.splits)

interpretation membership_registry: registry register_membership_owner "\<lambda>i. fmlookup (oi_memberships i)"
    "\<lambda>i. (oi_roles i, oi_schema_facets i, oi_grants i, oi_default_privileges i, oi_membership_stanzas i)"
  by unfold_locales (auto simp: register_membership_owner_def split: option.splits if_splits)

section \<open>Claims\<close>

datatype claim = ClaimRole string | ClaimFacet schema_facet_key | ClaimGrant grant_key | ClaimDefault default_priv_key
  | ClaimMembership membership_key

fun claim_owner :: "ownership_index \<Rightarrow> claim \<Rightarrow> string option" where
  "claim_owner index (ClaimRole role) = fmlookup (oi_roles index) role"
| "claim_owner index (ClaimFacet key) = fmlookup (oi_schema_facets index) key"
| "claim_owner index (ClaimGrant key) = fmlookup (oi_grants index) key"
| "claim_owner index (ClaimDefault key) = fmlookup (oi_default_privileges index) key"
| "claim_owner index (ClaimMembership key) = fmlookup (oi_memberships index) key"

definition claims :: "policy_document \<Rightarrow> expanded_manifest \<Rightarrow> role_graph \<Rightarrow> claim set" where
  "claims document expanded desired =
     ClaimRole ` set (claimed_roles document expanded) \<union>
     ClaimFacet ` set (scope_facet_keys (pf_scope (pd_fragment document))) \<union>
     ClaimGrant ` set (claimed_grants desired) \<union> ClaimDefault ` set (claimed_defaults desired) \<union>
     ClaimMembership ` set (claimed_memberships desired)"

definition document_claims :: "policy_bundle \<Rightarrow> policy_document \<Rightarrow> claim set" where
  "document_claims bundle document =
     (case document_expansion bundle document of Inl _ \<Rightarrow> {} | Inr (expanded, desired) \<Rightarrow> claims document expanded desired)"

lemma stanza_keeps_claims:
  "fold_r (register_stanza label) ms index = Inr index' \<Longrightarrow>
     oi_roles index' = oi_roles index \<and> oi_schema_facets index' = oi_schema_facets index \<and> oi_grants index' = oi_grants index \<and>
     oi_default_privileges index' = oi_default_privileges index \<and> oi_memberships index' = oi_memberships index"
proof (induction ms arbitrary: index)
  case (Cons m ms)
  obtain i where i: "register_stanza label m index = Inr i" "fold_r (register_stanza label) ms i = Inr index'"
    using Cons.prems by auto
  then show ?case using Cons.IH[OF i(2)] by (auto simp: register_stanza_def split: option.splits if_splits)
qed simp

lemma registered_claims:
  assumes "register_document_ownership document expanded desired index = Inr index'"
  shows "(\<forall>c\<in>claims document expanded desired. claim_owner index c = None) \<and>
    (\<forall>c. claim_owner index' c = (if c \<in> claims document expanded desired then Some (doc_label document) else claim_owner index c))"
proof -
  let ?l = "doc_label document"
  obtain i1 i2 i3 i4 i5 where
    r: "fold_r (register_role_owner ?l) (claimed_roles document expanded) index = Inr i1"
      "fold_r (register_schema_facet_owner ?l) (scope_facet_keys (pf_scope (pd_fragment document))) i1 = Inr i2"
      "fold_r (register_grant_owner ?l) (claimed_grants desired) i2 = Inr i3"
      "fold_r (register_default_privilege_owner ?l) (claimed_defaults desired) i3 = Inr i4"
      "fold_r (register_membership_owner ?l) (claimed_memberships desired) i4 = Inr i5"
      "fold_r (register_stanza ?l) (pf_memberships (pd_fragment document)) i5 = Inr index'"
    using assms by (auto simp: register_document_ownership_def Let_def)
  note facts = role_registry.register_all[OF r(1)] facet_registry.register_all[OF r(2)] grant_registry.register_all[OF r(3)]
    default_registry.register_all[OF r(4)] membership_registry.register_all[OF r(5)] stanza_keeps_claims[OF r(6)]
  show ?thesis
  proof (intro conjI ballI allI)
    fix c
    show "claim_owner index' c = (if c \<in> claims document expanded desired then Some ?l else claim_owner index c)"
      using facts by (cases c) (auto simp: claims_def)
    assume "c \<in> claims document expanded desired"
    then show "claim_owner index c = None" using facts by (cases c) (auto simp: claims_def)
  qed
qed

lemma composed_document:
  assumes "compose_document bundle document (index, m) = Inr (index', m')"
  shows "(\<forall>c\<in>document_claims bundle document. claim_owner index c = None) \<and>
    (\<forall>c. claim_owner index' c = (if c \<in> document_claims bundle document then Some (doc_label document) else claim_owner index c))"
proof -
  obtain expanded desired where e: "document_expansion bundle document = Inr (expanded, desired)"
    "register_document_ownership document expanded desired index = Inr index'"
    using assms by (auto simp: compose_document_def)
  show ?thesis using registered_claims[OF e(2)] by (simp add: document_claims_def e(1))
qed

lemma composed_documents:
  assumes "fold_r (compose_document bundle) docs (index, m) = Inr (index', m')"
  shows "(\<forall>d\<in>set docs. \<forall>c\<in>document_claims bundle d. claim_owner index c = None \<and> claim_owner index' c = Some (doc_label d)) \<and>
    (\<forall>i j. i < j \<longrightarrow> j < length docs \<longrightarrow> document_claims bundle (docs ! i) \<inter> document_claims bundle (docs ! j) = {}) \<and>
    (\<forall>c o'. claim_owner index c = Some o' \<longrightarrow> claim_owner index' c = Some o') \<and>
    (\<forall>c. claim_owner index c = None \<longrightarrow> claim_owner index' c \<noteq> None \<longrightarrow> (\<exists>d\<in>set docs. c \<in> document_claims bundle d))"
  using assms
proof (induction docs arbitrary: index m)
  case (Cons d docs)
  obtain i1 m1 where s: "compose_document bundle d (index, m) = Inr (i1, m1)"
    "fold_r (compose_document bundle) docs (i1, m1) = Inr (index', m')"
    using Cons.prems by auto
  note head = composed_document[OF s(1)]
  have IH: "\<And>d c. d \<in> set docs \<Longrightarrow> c \<in> document_claims bundle d \<Longrightarrow> claim_owner i1 c = None \<and> claim_owner index' c = Some (doc_label d)"
    "\<And>i j. i < j \<Longrightarrow> j < length docs \<Longrightarrow> document_claims bundle (docs ! i) \<inter> document_claims bundle (docs ! j) = {}"
    "\<And>c o'. claim_owner i1 c = Some o' \<Longrightarrow> claim_owner index' c = Some o'"
    "\<And>c. claim_owner i1 c = None \<Longrightarrow> claim_owner index' c \<noteq> None \<Longrightarrow> \<exists>d\<in>set docs. c \<in> document_claims bundle d"
    using Cons.IH[OF s(2)] by blast+
  have disj: "document_claims bundle d \<inter> document_claims bundle e = {}" if "e \<in> set docs" for e
    using IH(1)[OF that] head by fastforce
  show ?case
  proof (intro conjI allI ballI impI)
    fix e c assume e: "e \<in> set (d # docs)" "c \<in> document_claims bundle e"
    have mono: "claim_owner index c = None" if "claim_owner i1 c = None" using that head by (metis option.distinct(1))
    show "claim_owner index c = None" using e IH(1)[of e c] head mono by (cases "e = d") auto
    show "claim_owner index' c = Some (doc_label e)"
      using e IH(1)[of e c] IH(3)[of c "doc_label d"] head by (cases "e = d") auto
  next
    fix i j :: nat assume ij: "i < j" "j < length (d # docs)"
    show "document_claims bundle ((d # docs) ! i) \<inter> document_claims bundle ((d # docs) ! j) = {}"
    proof (cases i)
      case 0
      then show ?thesis using ij disj[of "docs ! (j - 1)"] by (cases j) auto
    next
      case (Suc i')
      then show ?thesis using ij IH(2)[of i' "j - 1"] by (cases j) auto
    qed
  next
    fix c o' assume o: "claim_owner index c = Some o'"
    then have "c \<notin> document_claims bundle d" using head by force
    then show "claim_owner index' c = Some o'" using o head IH(3) by auto
  next
    fix c assume c: "claim_owner index c = None" "claim_owner index' c \<noteq> None"
    then show "\<exists>e\<in>set (d # docs). c \<in> document_claims bundle e"
      using head IH(4)[of c] by (cases "c \<in> document_claims bundle d") auto
  qed
qed auto

lemma finish_ownership: "finish_composition (index, m) = Inr policy \<Longrightarrow> cp_ownership policy = index"
  by (cases m) (auto simp: finish_composition_def Let_def split: sum.splits)

text \<open>
  C29: in a composed policy no role, schema facet, privilege key, default-privilege key or membership is
  claimed by two documents, and the ownership index records for each of them exactly the document that claims it.
\<close>

theorem composition_single_owner:
  assumes "compose_bundle bundle documents = Inr policy"
  shows "(\<forall>i j. i < j \<and> j < length documents \<longrightarrow>
            document_claims bundle (documents ! i) \<inter> document_claims bundle (documents ! j) = {}) \<and>
         (\<forall>d\<in>set documents. \<forall>c\<in>document_claims bundle d. claim_owner (cp_ownership policy) c = Some (doc_label d)) \<and>
         (\<forall>c. claim_owner (cp_ownership policy) c \<noteq> None \<longrightarrow> (\<exists>d\<in>set documents. c \<in> document_claims bundle d))"
proof -
  obtain index m where f: "fold_r (compose_document bundle) documents (empty_index, base_manifest bundle, fmempty) = Inr (index, m)"
    and p: "cp_ownership policy = index"
    using assms finish_ownership by (auto simp: compose_bundle_def split: if_splits)
  have "claim_owner empty_index c = None" for c by (cases c) (simp_all add: empty_index_def)
  then show ?thesis using composed_documents[OF f] p by auto
qed

section \<open>Exclusive member lists\<close>

type_synonym stanza = "string \<times> string \<times> bool"

definition document_stanzas :: "policy_document \<Rightarrow> stanza list" where
  "document_stanzas d = map (\<lambda>m. (m_role m, doc_label d, m_exclusive m)) (pf_memberships (pd_fragment d))"

lemma document_stanzas_mem:
  "d \<in> set documents \<Longrightarrow> m \<in> set (pf_memberships (pd_fragment d)) \<Longrightarrow>
     (m_role m, doc_label d, m_exclusive m) \<in> (\<Union>d\<in>set documents. set (document_stanzas d))"
  by (auto simp: document_stanzas_def)

text \<open>
  What the index knows about the stanzas seen so far, while the documents labelled \<open>label\<close> are being
  registered: the flag is exact, an exclusive role has one label only, and so has a role whose first
  stanza has the current label.
\<close>

definition role_stanzas_ok :: "string \<Rightarrow> stanza set \<Rightarrow> string \<Rightarrow> (string \<times> bool) option \<Rightarrow> bool" where
  "role_stanzas_ok label seen role entry \<longleftrightarrow>
     (case entry of
        None \<Rightarrow> \<forall>l e. (role, l, e) \<notin> seen
      | Some (first, any) \<Rightarrow>
          (any \<longleftrightarrow> (\<exists>l. (role, l, True) \<in> seen)) \<and>
          (any \<or> first = label \<longrightarrow> (\<forall>l e. (role, l, e) \<in> seen \<longrightarrow> l = first)) \<and>
          (\<exists>e. (role, first, e) \<in> seen))"

definition stanzas_ok :: "string \<Rightarrow> ownership_index \<Rightarrow> stanza set \<Rightarrow> bool" where
  "stanzas_ok label index seen \<longleftrightarrow>
     (\<forall>role. role_stanzas_ok label seen role (fmlookup (oi_membership_stanzas index) role))"

lemma role_stanzas_other:
  "role \<noteq> r \<Longrightarrow> role_stanzas_ok label (insert (r, l, e) seen) role entry = role_stanzas_ok label seen role entry"
  by (auto simp: role_stanzas_ok_def split: option.splits)

lemma register_stanza_ok:
  assumes "register_stanza label m index = Inr index'" "stanzas_ok label index seen"
  shows "stanzas_ok label index' (insert (m_role m, label, m_exclusive m) seen)"
  unfolding stanzas_ok_def
proof
  fix role
  have old: "role_stanzas_ok label seen role (fmlookup (oi_membership_stanzas index) role)"
    using assms(2) by (simp add: stanzas_ok_def)
  show "role_stanzas_ok label (insert (m_role m, label, m_exclusive m) seen) role (fmlookup (oi_membership_stanzas index') role)"
  proof (cases "role = m_role m")
    case False
    then have "fmlookup (oi_membership_stanzas index') role = fmlookup (oi_membership_stanzas index) role"
      using assms(1) by (auto simp: register_stanza_def split: option.splits if_splits)
    then show ?thesis using old role_stanzas_other[OF False] by simp
  next
    case True
    show ?thesis
    proof (cases "fmlookup (oi_membership_stanzas index) role")
      case None
      then show ?thesis using True old assms(1)
        by (auto simp: register_stanza_def role_stanzas_ok_def split: if_splits)
    next
      case (Some entry)
      obtain first any where entry: "entry = (first, any)" by (cases entry)
      from Some True entry assms(1)
      have guard: "first = label \<or> \<not> any \<and> \<not> m_exclusive m"
        and new: "fmlookup (oi_membership_stanzas index') role = Some (first, any \<or> m_exclusive m)"
        by (auto simp: register_stanza_def split: if_splits)
      show ?thesis using old guard True unfolding Some entry new role_stanzas_ok_def
        by (simp only: option.case prod.case) blast
    qed
  qed
qed

lemma register_stanzas_ok:
  "fold_r (register_stanza label) ms index = Inr index' \<Longrightarrow> stanzas_ok label index seen \<Longrightarrow>
     stanzas_ok label index' (seen \<union> set (map (\<lambda>m. (m_role m, label, m_exclusive m)) ms))"
proof (induction ms arbitrary: index seen)
  case (Cons m ms)
  obtain i where i: "register_stanza label m index = Inr i" "fold_r (register_stanza label) ms i = Inr index'"
    using Cons.prems(1) by auto
  from Cons.IH[OF i(2) register_stanza_ok[OF i(1) Cons.prems(2)]] show ?case by simp
qed simp

text \<open>A new label may be taken up when no stanza carries it.\<close>

lemma stanzas_ok_new_label:
  assumes "stanzas_ok label index seen" "\<forall>r e. (r, label', e) \<notin> seen"
  shows "stanzas_ok label' index seen"
  unfolding stanzas_ok_def
proof
  fix role
  have "role_stanzas_ok label seen role (fmlookup (oi_membership_stanzas index) role)" using assms(1) by (simp add: stanzas_ok_def)
  then show "role_stanzas_ok label' seen role (fmlookup (oi_membership_stanzas index) role)"
    using assms(2) by (auto simp: role_stanzas_ok_def split: option.splits)
qed

lemma register_document_stanzas:
  assumes "register_document_ownership d expanded desired index = Inr index'" "stanzas_ok (doc_label d) index seen"
  shows "stanzas_ok (doc_label d) index' (seen \<union> set (document_stanzas d))"
proof -
  let ?l = "doc_label d"
  obtain i1 i2 i3 i4 i5 where
    r: "fold_r (register_role_owner ?l) (claimed_roles d expanded) index = Inr i1"
      "fold_r (register_schema_facet_owner ?l) (scope_facet_keys (pf_scope (pd_fragment d))) i1 = Inr i2"
      "fold_r (register_grant_owner ?l) (claimed_grants desired) i2 = Inr i3"
      "fold_r (register_default_privilege_owner ?l) (claimed_defaults desired) i3 = Inr i4"
      "fold_r (register_membership_owner ?l) (claimed_memberships desired) i4 = Inr i5"
      "fold_r (register_stanza ?l) (pf_memberships (pd_fragment d)) i5 = Inr index'"
    using assms(1) by (auto simp: register_document_ownership_def Let_def)
  have "oi_membership_stanzas i5 = oi_membership_stanzas index"
    using role_registry.register_all[OF r(1)] facet_registry.register_all[OF r(2)] grant_registry.register_all[OF r(3)]
      default_registry.register_all[OF r(4)] membership_registry.register_all[OF r(5)] by simp
  then have "stanzas_ok ?l i5 seen" using assms(2) by (simp add: stanzas_ok_def)
  from register_stanzas_ok[OF r(6) this] show ?thesis by (simp add: document_stanzas_def)
qed

lemma compose_stanzas:
  assumes "fold_r (compose_document bundle) docs (index, m) = Inr (index', m')" "stanzas_ok label index seen"
    "distinct (map doc_label docs)" "\<forall>d\<in>set docs. \<forall>r e. (r, doc_label d, e) \<notin> seen"
  shows "\<exists>label'. stanzas_ok label' index' (seen \<union> (\<Union>d\<in>set docs. set (document_stanzas d)))"
  using assms
proof (induction docs arbitrary: index m label seen)
  case (Cons d docs)
  obtain i1 m1 where s: "compose_document bundle d (index, m) = Inr (i1, m1)"
    "fold_r (compose_document bundle) docs (i1, m1) = Inr (index', m')"
    using Cons.prems(1) by auto
  obtain expanded desired where "register_document_ownership d expanded desired index = Inr i1"
    using s(1) by (auto simp: compose_document_def)
  from register_document_stanzas[OF this stanzas_ok_new_label[OF Cons.prems(2)]]
  have ok: "stanzas_ok (doc_label d) i1 (seen \<union> set (document_stanzas d))" using Cons.prems(4) by simp
  have "\<exists>label'. stanzas_ok label' index' ((seen \<union> set (document_stanzas d)) \<union> (\<Union>d\<in>set docs. set (document_stanzas d)))"
    by (rule Cons.IH[OF s(2) ok]) (use Cons.prems(3,4) in \<open>force simp: document_stanzas_def image_iff\<close>)+
  then show ?case by (simp add: Un_assoc)
qed auto

text \<open>
  When the documents of a bundle have distinct labels and one of them declares the member list of a role
  exclusive, no other document of the composed policy declares members of that role.
\<close>

theorem exclusive_lists_in_one_document:
  assumes "compose_bundle bundle documents = Inr policy" "distinct (map doc_label documents)"
    "d \<in> set documents" "m \<in> set (pf_memberships (pd_fragment d))" "m_exclusive m"
    "d' \<in> set documents" "m' \<in> set (pf_memberships (pd_fragment d'))" "m_role m' = m_role m"
  shows "d' = d"
proof -
  obtain index s where f: "fold_r (compose_document bundle) documents (empty_index, base_manifest bundle, fmempty) = Inr (index, s)"
    using assms(1) by (auto simp: compose_bundle_def split: if_splits)
  have "stanzas_ok [] empty_index {}" by (simp add: stanzas_ok_def role_stanzas_ok_def empty_index_def)
  from compose_stanzas[OF f this assms(2)] obtain l where
    ok: "stanzas_ok l index (\<Union>d\<in>set documents. set (document_stanzas d))" by auto
  have seen: "(m_role m, doc_label d, True) \<in> (\<Union>d\<in>set documents. set (document_stanzas d))"
    "(m_role m, doc_label d', m_exclusive m') \<in> (\<Union>d\<in>set documents. set (document_stanzas d))"
    using document_stanzas_mem[OF assms(3,4)] document_stanzas_mem[OF assms(6,7)] assms(5,8) by simp_all
  have "role_stanzas_ok l (\<Union>d\<in>set documents. set (document_stanzas d)) (m_role m) (fmlookup (oi_membership_stanzas index) (m_role m))"
    using ok by (simp add: stanzas_ok_def)
  then obtain first where "\<forall>l e. (m_role m, l, e) \<in> (\<Union>d\<in>set documents. set (document_stanzas d)) \<longrightarrow> l = first"
    using seen(1) unfolding role_stanzas_ok_def by (auto split: option.splits)
  then have "doc_label d' = doc_label d" using seen by blast
  then show ?thesis using assms(2,3,6) by (auto simp: distinct_map dest: inj_onD)
qed

section \<open>A bundle of two documents\<close>

definition ex_fragment :: "string \<Rightarrow> string \<Rightarrow> bool \<Rightarrow> policy_fragment" where
  "ex_fragment name role exclusive =
     \<lparr>pf_role_pattern = None, pf_policy_name = Some name, pf_scope = \<lparr>fs_roles = [role], fs_schemas = []\<rparr>, pf_schemas = [],
      pf_roles = [ex_role role exclusive False], pf_grants = [], pf_default_privileges = [],
      pf_memberships = [\<lparr>m_role = role, m_members = [\<lparr>ms_name = ''alice'', ms_inherit = None, ms_admin = None\<rparr>], m_exclusive = exclusive\<rparr>],
      pf_retirements = []\<rparr>"

definition ex_bundle :: policy_bundle where
  "ex_bundle = \<lparr>pb_shared = \<lparr>sp_role_pattern = None, sp_default_owner = None, sp_auth_providers = [], sp_profiles = fmempty\<rparr>,
     pb_sources = [''a.yaml'', ''b.yaml'']\<rparr>"

definition ex_documents :: "policy_document list" where
  "ex_documents = [\<lparr>pd_source = ''a.yaml'', pd_fragment = ex_fragment ''billing'' ''biller'' True\<rparr>,
                   \<lparr>pd_source = ''b.yaml'', pd_fragment = ex_fragment ''sales'' ''seller'' False\<rparr>]"

lemma ex_bundle_composes: "\<exists>policy. compose_bundle ex_bundle ex_documents = Inr policy"
proof -
  have "(case compose_bundle ex_bundle ex_documents of Inl _ \<Rightarrow> False | Inr _ \<Rightarrow> True)" by code_simp
  then show ?thesis by (auto split: sum.splits)
qed

theorem composition_single_owner_witness:
  "\<exists>policy. compose_bundle ex_bundle ex_documents = Inr policy \<and>
     document_claims ex_bundle (ex_documents ! 0) \<inter> document_claims ex_bundle (ex_documents ! 1) = {}"
proof -
  obtain policy where p: "compose_bundle ex_bundle ex_documents = Inr policy" using ex_bundle_composes by blast
  have "length ex_documents = 2" by (simp add: ex_documents_def)
  then show ?thesis using composition_single_owner[OF p] p by auto
qed

theorem exclusive_lists_in_one_document_witness:
  "{d \<in> set ex_documents. \<exists>m\<in>set (pf_memberships (pd_fragment d)). m_role m = ''biller''} = {ex_documents ! 0}"
proof -
  let ?m = "\<lparr>m_role = ''biller'', m_members = [\<lparr>ms_name = ''alice'', ms_inherit = None, ms_admin = None\<rparr>], m_exclusive = True\<rparr>"
  obtain policy where p: "compose_bundle ex_bundle ex_documents = Inr policy" using ex_bundle_composes by blast
  have d: "distinct (map doc_label ex_documents)" "ex_documents ! 0 \<in> set ex_documents"
    "?m \<in> set (pf_memberships (pd_fragment (ex_documents ! 0)))"
    by (simp_all add: ex_documents_def doc_label_def ex_fragment_def)
  have "d' = ex_documents ! 0"
    if "d' \<in> set ex_documents" "m \<in> set (pf_memberships (pd_fragment d'))" "m_role m = ''biller''" for d' m
    using exclusive_lists_in_one_document[OF p d _ that(1,2)] that(3) by simp
  moreover have "m_role ?m = ''biller''" by simp
  ultimately show ?thesis using d(2,3) by blast
qed

end
