(* ===== verification/Overlap.thy ===== *)
theory Overlap
  imports Frame
begin

text \<open>
  Effect pairs and their intersection (\<open>crates/pgroles-core/src/overlap.rs\<close>): the pairs of a role and an
  object a change touches, and the rule by which an overlay forces a fresh review of a candidate plan. A
  \<open>BTreeSet\<close> of pairs is a finite set; its derived order is not observed by any function here.
\<close>

section \<open>Model\<close>

datatype effect_object =
    RoleAttributes
  | RoleObject string
  | SchemaObject string
  | Relation string string object_type
  | DatabaseObject string

record effect_pair =
  ep_role :: string
  ep_object :: effect_object

abbreviation pair :: "string \<Rightarrow> effect_object \<Rightarrow> effect_pair" where
  "pair role object \<equiv> \<lparr>ep_role = role, ep_object = object\<rparr>"

definition roles_intersect :: "string \<Rightarrow> string \<Rightarrow> bool" where
  "roles_intersect left right = (left = right \<or> left = PUBLIC_ROLE \<or> right = PUBLIC_ROLE)"

fun objects_intersect :: "effect_object \<Rightarrow> effect_object \<Rightarrow> bool" where
  "objects_intersect RoleAttributes _ = True"
| "objects_intersect _ RoleAttributes = True"
| "objects_intersect (RoleObject a) (RoleObject b) = (a = b)"
| "objects_intersect (SchemaObject a) (SchemaObject b) = (a = b)"
| "objects_intersect (SchemaObject schema) (Relation other _ _) = (schema = other)"
| "objects_intersect (Relation other _ _) (SchemaObject schema) = (schema = other)"
| "objects_intersect (Relation a_schema a_name a_type) (Relation b_schema b_name b_type) =
     (a_schema = b_schema \<and> a_name = b_name \<and> a_type = b_type)"
| "objects_intersect (DatabaseObject a) (DatabaseObject b) = (a = b)"
| "objects_intersect _ _ = False"

definition intersects :: "effect_pair \<Rightarrow> effect_pair \<Rightarrow> bool" where
  "intersects self other =
     (roles_intersect (ep_role self) (ep_role other) \<and> objects_intersect (ep_object self) (ep_object other))"

definition default_privilege_object :: "default_privilege_scope \<Rightarrow> effect_object" where
  "default_privilege_object scope = (case scope of SchemaScope schema \<Rightarrow> SchemaObject schema | Global \<Rightarrow> RoleAttributes)"

definition grant_object :: "object_type \<Rightarrow> string option \<Rightarrow> string option \<Rightarrow> effect_object" where
  "grant_object object_type schema name =
     (case object_type of
        Schema \<Rightarrow>
          (case (name, schema) of
             (Some name, _) \<Rightarrow> SchemaObject name
           | (None, Some schema) \<Rightarrow> SchemaObject schema
           | (None, None) \<Rightarrow> RoleAttributes)
      | Database \<Rightarrow> (case name of Some name \<Rightarrow> DatabaseObject name | None \<Rightarrow> DatabaseObject [])
      | _ \<Rightarrow>
          (case (schema, name) of
             (Some schema, Some name) \<Rightarrow> Relation schema name object_type
           | (Some schema, None) \<Rightarrow> SchemaObject schema
           | (None, Some name) \<Rightarrow> Relation [] name object_type
           | (None, None) \<Rightarrow> RoleAttributes))"

definition change_pairs :: "change \<Rightarrow> effect_pair list" where
  "change_pairs change =
     (case change of
        CreateRole name _ \<Rightarrow> [pair name RoleAttributes]
      | AlterRole name _ \<Rightarrow> [pair name RoleAttributes]
      | SetComment name _ \<Rightarrow> [pair name RoleAttributes]
      | SetPassword name _ \<Rightarrow> [pair name RoleAttributes]
      | DropRole name \<Rightarrow> [pair name RoleAttributes]
      | DropOwned role \<Rightarrow> [pair role RoleAttributes]
      | TerminateSessions role \<Rightarrow> [pair role RoleAttributes]
      | ReassignOwned from_role to_role \<Rightarrow> [pair from_role RoleAttributes, pair to_role RoleAttributes]
      | CreateSchema name owner \<Rightarrow> (case owner of Some owner \<Rightarrow> [pair owner (SchemaObject name)] | None \<Rightarrow> [])
      | AlterSchemaOwner name owner \<Rightarrow> [pair owner (SchemaObject name)]
      | EnsureSchemaOwnerPrivileges name owner _ \<Rightarrow> [pair owner (SchemaObject name)]
      | Grant role _ object_type schema name \<Rightarrow> [pair (grantee_as_str role) (grant_object object_type schema name)]
      | Revoke role _ object_type schema name _ \<Rightarrow> [pair (grantee_as_str role) (grant_object object_type schema name)]
      | SetDefaultPrivilege owner scope _ grantee _ \<Rightarrow>
          [pair (grantee_as_str grantee) (default_privilege_object scope), pair owner (default_privilege_object scope)]
      | RevokeDefaultPrivilege owner scope _ grantee _ \<Rightarrow>
          [pair (grantee_as_str grantee) (default_privilege_object scope), pair owner (default_privilege_object scope)]
      | AddMember role member _ _ \<Rightarrow> [pair member (RoleObject role)]
      | UpdateMemberOptions role member _ _ _ _ \<Rightarrow> [pair member (RoleObject role)]
      | RemoveMember role member _ \<Rightarrow> [pair member (RoleObject role)])"

definition effect_pairs :: "change list \<Rightarrow> effect_pair btreeset" where
  "effect_pairs changes = fset_of_list (concat (map change_pairs changes))"

definition membership_overlay_pairs :: "membership_edge list \<Rightarrow> effect_pair btreeset" where
  "membership_overlay_pairs edges = fset_of_list (map (\<lambda>edge. pair (me_member edge) (RoleObject (me_role edge))) edges)"

definition intersecting_pairs :: "effect_pair btreeset \<Rightarrow> effect_pair btreeset \<Rightarrow> effect_pair btreeset" where
  "intersecting_pairs left right = ffilter (\<lambda>p. fBex right (intersects p)) left"

definition pairs_intersect :: "effect_pair btreeset \<Rightarrow> effect_pair btreeset \<Rightarrow> bool" where
  "pairs_intersect left right = fBex left (\<lambda>p. fBex right (intersects p))"

definition describe_pair :: "effect_pair \<Rightarrow> string" where
  "describe_pair p =
     (case ep_object p of
        RoleAttributes \<Rightarrow> ep_role p @ '' (role attributes)''
      | RoleObject role \<Rightarrow> ep_role p @ '' -> '' @ role @ '' (membership)''
      | SchemaObject schema \<Rightarrow> ep_role p @ '' on schema '' @ schema
      | Relation schema name object_type \<Rightarrow> ep_role p @ '' on '' @ show_object_type object_type @ '' '' @ schema @ ''.'' @ name
      | DatabaseObject name \<Rightarrow> ep_role p @ '' on database '' @ name)"


section \<open>The rule\<close>

lemma objects_intersect_sym: "objects_intersect a b = objects_intersect b a"
  by (cases a; cases b) auto

lemma objects_intersect_refl [simp]: "objects_intersect a a"
  by (cases a) auto

lemma intersects_sym: "intersects a b = intersects b a"
  using objects_intersect_sym by (auto simp: intersects_def roles_intersect_def)

lemma intersects_refl [simp]: "intersects a a"
  by (simp add: intersects_def roles_intersect_def)

lemma pairs_intersect_sym: "pairs_intersect l r = pairs_intersect r l"
  using intersects_sym by (auto simp: pairs_intersect_def)

lemma intersecting_pairs_empty_iff: "intersecting_pairs l r = {||} \<longleftrightarrow> \<not> pairs_intersect l r"
  unfolding fset_eq_iff by (auto simp: intersecting_pairs_def pairs_intersect_def)

lemma fset_effect_pairs: "p |\<in>| effect_pairs changes \<longleftrightarrow> (\<exists>c\<in>set changes. p \<in> set (change_pairs c))"
  by (auto simp: effect_pairs_def fset_of_list.rep_eq)

text \<open>
  The object of a cell, and the role through which it is reached: every change that touches a cell
  other than a schema's own entry has this pair.
\<close>

fun cell_pair :: "cell \<Rightarrow> effect_pair option" where
  "cell_pair (RoleCell name) = Some (pair name RoleAttributes)"
| "cell_pair (SchemaCell name) = None"
| "cell_pair (GrantCell k) = Some (pair (grantee_as_str (gk_role k)) (grant_object (gk_object_type k) (gk_schema k) (gk_name k)))"
| "cell_pair (DefaultCell k) = Some (pair (dk_owner k) (default_privilege_object (dk_scope k)))"
| "cell_pair (MemberCell p) = Some (pair (snd p) (RoleObject (fst p)))"

fun no_wildcard_revoke :: "change \<Rightarrow> bool" where
  "no_wildcard_revoke (Revoke _ _ _ _ name _) = (name \<noteq> Some ''*'')"
| "no_wildcard_revoke _ = True"

lemma touched_pair:
  assumes "no_wildcard_revoke c" "touches c cell" "cell_pair cell = Some p"
  shows "p \<in> set (change_pairs c)"
proof (cases c)
  case (Revoke role ps t schema name grantor)
  then obtain k where "cell = GrantCell k" "covers (grant_key_of role t schema name) k"
    using assms(2) by (auto split: cell.splits)
  then show ?thesis using assms Revoke by (auto simp: covers_def is_wildcard_def change_pairs_def)
qed (use assms in \<open>auto simp: change_pairs_def grant_object_def grantee_as_str_def\<close>)

lemma disjoint_pairs_disjoint_cells:
  assumes "\<not> pairs_intersect (effect_pairs as) (effect_pairs bs)" "a \<in> set as" "b \<in> set bs"
    "no_wildcard_revoke a" "no_wildcard_revoke b" "cell_pair cell = Some p"
  shows "\<not> (touches a cell \<and> touches b cell)"
proof
  assume "touches a cell \<and> touches b cell"
  then have "p \<in> set (change_pairs a)" "p \<in> set (change_pairs b)" using touched_pair assms(4-6) by blast+
  then have "p |\<in>| effect_pairs as" "p |\<in>| effect_pairs bs" using assms(2,3) fset_effect_pairs by blast+
  then show False using assms(1) intersects_refl[of p] unfolding pairs_intersect_def by blast
qed


definition ex_overlay :: "change list" where
  "ex_overlay = [AddMember ''app'' ''oncall'' True False]"

definition ex_candidate_plan :: "change list" where
  "ex_candidate_plan = [Grant (Role ''app'') {|Select|} Table (Some ''s'') (Some ''t''), AddMember ''app'' ''dev'' True False]"


text \<open>
  The rule as it is used for an active membership overlay. When no effect pair of a candidate plan intersects
  the pairs of the overlay, running the plan leaves every overlay membership as it was, whatever the plan contains.
\<close>

theorem overlay_edges_untouched:
  assumes "intersecting_pairs (effect_pairs plan) (membership_overlay_pairs edges) = {||}" "e \<in> set edges"
    "apply_changes g plan = Some g'"
  shows "read_cell g' (MemberCell (me_role e, me_member e)) = read_cell g (MemberCell (me_role e, me_member e))"
proof -
  let ?p = "pair (me_member e) (RoleObject (me_role e))"
  have "\<not> touches c (MemberCell (me_role e, me_member e))" if "c \<in> set plan" for c
  proof
    assume "touches c (MemberCell (me_role e, me_member e))"
    then have "?p \<in> set (change_pairs c)" by (cases c) (auto simp: change_pairs_def)
    then have "?p |\<in>| effect_pairs plan" using that fset_effect_pairs by blast
    moreover have "?p |\<in>| membership_overlay_pairs edges"
      using assms(2) by (auto simp: membership_overlay_pairs_def fset_of_list.rep_eq)
    ultimately show False using assms(1) intersects_refl[of ?p] unfolding intersecting_pairs_empty_iff pairs_intersect_def by blast
  qed
  then have "read_cell (fold effect plan g) (MemberCell (me_role e, me_member e)) = read_cell g (MemberCell (me_role e, me_member e))"
    by (intro cells.run_untouched) blast
  then show ?thesis using apply_changes_fold[OF assms(3)] by simp
qed

theorem overlay_edges_untouched_witness:
  "\<exists>g'. apply_changes ex_current ex_candidate_plan = Some g' \<and>
     read_cell g' (MemberCell (''app'', ''oncall'')) = read_cell ex_current (MemberCell (''app'', ''oncall''))"
proof -
  obtain g' where g: "apply_changes ex_current ex_candidate_plan = Some g'" by (simp add: ex_candidate_plan_def)
  have "intersecting_pairs (effect_pairs ex_candidate_plan)
      (membership_overlay_pairs [\<lparr>me_role = ''app'', me_member = ''oncall'', me_inherit = True, me_admin = False\<rparr>]) = {||}"
    by code_simp
  from overlay_edges_untouched[OF this _ g] g show ?thesis by simp
qed

end
