(* ===== verification/Sql.thy ===== *)
theory Sql
  imports Change "HOL-Library.Signed_Division"
begin

text \<open>
  Rendering of a plan to SQL (\<open>crates/pgroles-core/src/sql.rs\<close>): quoting, one renderer per change, the
  validation of membership-option changes, and the batch renderer that brackets revokes with role
  switches and keeps a redacted copy of every statement. The branches the source marks
  \<open>unreachable!\<close> are the error value \<open>SqlPanic\<close>.
\<close>

section \<open>Quoting\<close>

definition quote_with :: "char \<Rightarrow> string \<Rightarrow> string" where
  "quote_with q s = [q] @ replace_char q [q, q] s @ [q]"

definition quote_ident :: "string \<Rightarrow> string" where
  "quote_ident identifier = quote_with DQ identifier"

definition quote_literal :: "string \<Rightarrow> string" where
  "quote_literal value = quote_with SQ value"


section \<open>Context\<close>

record sql_context =
  cx_pg_major_version :: int
  cx_object_inventory :: "(object_type \<times> string, string list) btreemap"
  cx_owned_relations :: "(string \<times> object_type \<times> string \<times> string) btreeset"
  cx_execution_role :: "string option"

definition from_version_num :: "int \<Rightarrow> sql_context" where
  "from_version_num version_num =
     \<lparr>cx_pg_major_version = version_num sdiv 10000, cx_object_inventory = fmempty,
      cx_owned_relations = {||}, cx_execution_role = None\<rparr>"

definition default_sql_context :: sql_context where
  "default_sql_context =
     \<lparr>cx_pg_major_version = 16, cx_object_inventory = fmempty, cx_owned_relations = {||}, cx_execution_role = None\<rparr>"

definition grantee_owns_relation :: "sql_context \<Rightarrow> grantee \<Rightarrow> object_type \<Rightarrow> string \<Rightarrow> string \<Rightarrow> bool" where
  "grantee_owns_relation ctx role object_type schema name =
     (case role of
        Role role_name \<Rightarrow> (role_name, object_type, schema, name) |\<in>| cx_owned_relations ctx
      | Public \<Rightarrow> False)"

definition supports_grant_with_options :: "sql_context \<Rightarrow> bool" where
  "supports_grant_with_options ctx = (cx_pg_major_version ctx \<ge> 16)"


section \<open>Errors\<close>

datatype sql_render_error =
    UnsupportedMembershipOptions
  | UnattributedMembershipReplacement
  | EmptyMembershipOptions
  | MixedMembershipOptions
  | InvalidMembershipExpectation
  | UnresolvedMembershipOptions
  | SqlPanic string

definition is_expect_absent :: "membership_option_binding \<Rightarrow> bool" where
  "is_expect_absent b = (mb_expected b = ExpectAbsent)"

definition expectation_conflicts :: "string \<Rightarrow> membership_option_binding \<Rightarrow> bool" where
  "expectation_conflicts grantor b =
     (mb_expected_edges b = fmempty \<or>
      (case mb_expected b of
         ExpectAbsent \<Rightarrow> contains_key (mb_expected_edges b) grantor
       | ExpectPresent options \<Rightarrow> fmlookup (mb_expected_edges b) grantor \<noteq> Some options))"

definition is_some_and :: "'a option \<Rightarrow> ('a \<Rightarrow> bool) \<Rightarrow> bool" where
  "is_some_and x p = (case x of None \<Rightarrow> False | Some v \<Rightarrow> p v)"

definition validate_membership_options :: "change \<Rightarrow> sql_context \<Rightarrow> sql_render_error + unit" where
  "validate_membership_options change ctx =
     (case change of
        UpdateMemberOptions role member grantor inherit admin binding \<Rightarrow>
          sequence_r
            [ensure_r (supports_grant_with_options ctx) UnsupportedMembershipOptions,
             ensure_r (\<not> ((inherit = Some False \<or> admin = Some False) \<and> (inherit = Some True \<or> admin = Some True)))
               MixedMembershipOptions,
             ensure_r (\<not> (inherit = None \<and> admin = None)) EmptyMembershipOptions,
             ensure_r (is_some_and binding (\<lambda>b. mb_executor b \<noteq> [])) UnresolvedMembershipOptions,
             ensure_r (\<not> is_some_and binding (expectation_conflicts grantor)) InvalidMembershipExpectation,
             ensure_r (\<not> is_some_and binding (\<lambda>b. is_expect_absent b \<noteq> (mb_set_effect b = CreateFalse)))
               InvalidMembershipExpectation,
             ensure_r (\<not> (is_some_and binding is_expect_absent \<and> (inherit = Some False \<or> admin = Some False)))
               InvalidMembershipExpectation]
      | _ \<Rightarrow> Inr ())"


section \<open>Roles, schemas and comments\<close>

definition render_create_schema :: "string \<Rightarrow> string option \<Rightarrow> string list" where
  "render_create_schema name owner =
     [case owner of
        Some owner \<Rightarrow> ''CREATE SCHEMA '' @ quote_ident name @ '' AUTHORIZATION '' @ quote_ident owner @ '';''
      | None \<Rightarrow> ''CREATE SCHEMA '' @ quote_ident name @ '';'']"

definition render_alter_schema_owner :: "string \<Rightarrow> string \<Rightarrow> string list" where
  "render_alter_schema_owner name owner =
     [''ALTER SCHEMA '' @ quote_ident name @ '' OWNER TO '' @ quote_ident owner @ '';'']"

definition bool_option :: "string \<Rightarrow> string \<Rightarrow> bool \<Rightarrow> string" where
  "bool_option positive negative value = (if value then positive else negative)"

definition create_role_options :: "role_state \<Rightarrow> string list" where
  "create_role_options state =
     [bool_option ''LOGIN'' ''NOLOGIN'' (rs_login state),
      bool_option ''SUPERUSER'' ''NOSUPERUSER'' (rs_superuser state),
      bool_option ''CREATEDB'' ''NOCREATEDB'' (rs_createdb state),
      bool_option ''CREATEROLE'' ''NOCREATEROLE'' (rs_createrole state),
      bool_option ''INHERIT'' ''NOINHERIT'' (rs_inherit state),
      bool_option ''REPLICATION'' ''NOREPLICATION'' (rs_replication state),
      bool_option ''BYPASSRLS'' ''NOBYPASSRLS'' (rs_bypassrls state)] @
     (if rs_connection_limit state \<noteq> -1 then [''CONNECTION LIMIT '' @ show_int (rs_connection_limit state)] else []) @
     (case rs_password_valid_until state of
        Some valid_until \<Rightarrow> [''VALID UNTIL '' @ quote_literal valid_until]
      | None \<Rightarrow> [])"

definition render_create_role :: "string \<Rightarrow> role_state \<Rightarrow> string list" where
  "render_create_role name state =
     (''CREATE ROLE '' @ quote_ident name @ '' '' @ join_str '' '' (create_role_options state) @ '';'') #
     (case rs_comment state of
        Some comment \<Rightarrow> [''COMMENT ON ROLE '' @ quote_ident name @ '' IS '' @ quote_literal comment @ '';'']
      | None \<Rightarrow> [])"

fun attribute_option :: "role_attribute \<Rightarrow> string list" where
  "attribute_option (Login v) = [bool_option ''LOGIN'' ''NOLOGIN'' v]"
| "attribute_option (Superuser v) = [bool_option ''SUPERUSER'' ''NOSUPERUSER'' v]"
| "attribute_option (Createdb v) = [bool_option ''CREATEDB'' ''NOCREATEDB'' v]"
| "attribute_option (Createrole v) = [bool_option ''CREATEROLE'' ''NOCREATEROLE'' v]"
| "attribute_option (Inherit v) = [bool_option ''INHERIT'' ''NOINHERIT'' v]"
| "attribute_option (Replication v) = [bool_option ''REPLICATION'' ''NOREPLICATION'' v]"
| "attribute_option (Bypassrls v) = [bool_option ''BYPASSRLS'' ''NOBYPASSRLS'' v]"
| "attribute_option (ConnectionLimit v) = [''CONNECTION LIMIT '' @ show_int v]"
| "attribute_option (ValidUntil (Some ts)) = [''VALID UNTIL '' @ quote_literal ts]"
| "attribute_option (ValidUntil None) = [''VALID UNTIL '' @ [SQ] @ ''infinity'' @ [SQ]]"
| "attribute_option (SetConfig _ _) = []"
| "attribute_option (ResetConfig _) = []"

definition render_config_value :: "string \<Rightarrow> string \<Rightarrow> string" where
  "render_config_value parameter value =
     (if is_list_quote_parameter parameter
      then (let elements = unwrap_or (split_guc_list value) [] in
            if elements = [] then quote_literal [] else join_str '', '' (map quote_literal elements))
      else quote_literal value)"

definition render_set_config :: "string \<Rightarrow> string \<Rightarrow> string \<Rightarrow> string" where
  "render_set_config name parameter value =
     ''ALTER ROLE '' @ quote_ident name @ '' SET '' @ quote_ident parameter @ '' = ''
       @ render_config_value parameter value @ '';''"

fun attribute_statement :: "string \<Rightarrow> role_attribute \<Rightarrow> string list" where
  "attribute_statement name (SetConfig parameter value) = [render_set_config name parameter value]"
| "attribute_statement name (ResetConfig parameter) =
     [''ALTER ROLE '' @ quote_ident name @ '' RESET '' @ quote_ident parameter @ '';'']"
| "attribute_statement name _ = []"

definition render_alter_role :: "string \<Rightarrow> role_attribute list \<Rightarrow> string list" where
  "render_alter_role name attributes =
     (let options = concat (map attribute_option attributes) in
      (if options \<noteq> [] then [''ALTER ROLE '' @ quote_ident name @ '' '' @ join_str '' '' options @ '';''] else []) @
      concat (map (attribute_statement name) attributes))"

definition render_set_comment :: "string \<Rightarrow> string option \<Rightarrow> string list" where
  "render_set_comment name comment =
     [case comment of
        Some text \<Rightarrow> ''COMMENT ON ROLE '' @ quote_ident name @ '' IS '' @ quote_literal text @ '';''
      | None \<Rightarrow> ''COMMENT ON ROLE '' @ quote_ident name @ '' IS NULL;'']"


section \<open>Object privileges\<close>

definition render_grantee :: "grantee \<Rightarrow> string" where
  "render_grantee grantee = (case grantee of Public \<Rightarrow> ''PUBLIC'' | Role name \<Rightarrow> quote_ident name)"

fun sql_object_type_keyword :: "object_type \<Rightarrow> string" where
  "sql_object_type_keyword Table = ''TABLE''"
| "sql_object_type_keyword View = ''TABLE''"
| "sql_object_type_keyword MaterializedView = ''TABLE''"
| "sql_object_type_keyword Sequence = ''SEQUENCE''"
| "sql_object_type_keyword Function = ''ROUTINE''"
| "sql_object_type_keyword Schema = ''SCHEMA''"
| "sql_object_type_keyword Database = ''DATABASE''"
| "sql_object_type_keyword Type = ''TYPE''"

fun sql_object_type_plural :: "object_type \<Rightarrow> string" where
  "sql_object_type_plural Sequence = ''SEQUENCES''"
| "sql_object_type_plural Function = ''ROUTINES''"
| "sql_object_type_plural _ = ''TABLES''"

text \<open>
  The scan of \<open>function_signature_start\<close>, on the reversed bytes. The four characters it looks at are
  ASCII, so bytes and characters agree; the position of a byte is the number of bytes before it.
\<close>

fun signature_scan :: "string \<Rightarrow> nat \<Rightarrow> bool \<Rightarrow> nat option" where
  "signature_scan [] depth quoted = None"
| "signature_scan (c # before) depth quoted =
     (if c = DQ then signature_scan before depth (\<not> quoted)
      else if c = CHR '')'' \<and> \<not> quoted then signature_scan before (Suc depth) quoted
      else if c = CHR ''('' \<and> \<not> quoted
      then (case depth of
              0 \<Rightarrow> None
            | Suc d \<Rightarrow> if d = 0 then Some (length before) else signature_scan before d quoted)
      else signature_scan before depth quoted)"

definition ends_with_paren :: "string \<Rightarrow> bool" where
  "ends_with_paren s = (s \<noteq> [] \<and> last s = CHR '')'')"

definition function_signature_start :: "string \<Rightarrow> nat option" where
  "function_signature_start signature =
     (if \<not> ends_with_paren signature then None else signature_scan (rev signature) 0 False)"

definition routine_base_name :: "string \<Rightarrow> string" where
  "routine_base_name function_name =
     (case function_signature_start function_name of
        None \<Rightarrow> function_name
      | Some paren_idx \<Rightarrow> take paren_idx function_name)"

definition qualified_function_name :: "string \<Rightarrow> string \<Rightarrow> string" where
  "qualified_function_name schema_name function_name =
     (case function_signature_start function_name of
        Some paren_idx \<Rightarrow>
          if ends_with_paren function_name
          then quote_ident schema_name @ ''.'' @ quote_ident (take paren_idx function_name) @ drop paren_idx function_name
          else quote_ident schema_name @ ''.'' @ quote_ident function_name
      | None \<Rightarrow> quote_ident schema_name @ ''.'' @ quote_ident function_name)"

definition format_function_target :: "string option \<Rightarrow> string \<Rightarrow> string" where
  "format_function_target schema function_name =
     ''ROUTINE '' @ qualified_function_name (unwrap_or schema ''public'') function_name"

definition format_object_target :: "object_type \<Rightarrow> string option \<Rightarrow> string option \<Rightarrow> string" where
  "format_object_target object_type schema name =
     (let type_keyword = sql_object_type_keyword object_type;
          schema_name = unwrap_or schema ''public'' in
      case object_type of
        Schema \<Rightarrow> type_keyword @ '' '' @ quote_ident (unwrap_or name ''public'')
      | Database \<Rightarrow> type_keyword @ '' '' @ quote_ident (unwrap_or name ''postgres'')
      | Function \<Rightarrow>
          (case name of
             Some function_name \<Rightarrow>
               if function_name = ''*'' then ''ALL ROUTINES IN SCHEMA '' @ quote_ident schema_name
               else format_function_target schema function_name
           | None \<Rightarrow> type_keyword @ '' '' @ quote_ident schema_name)
      | _ \<Rightarrow>
          (case name of
             Some obj_name \<Rightarrow>
               if obj_name = ''*''
               then ''ALL '' @ sql_object_type_plural object_type @ '' IN SCHEMA '' @ quote_ident schema_name
               else type_keyword @ '' '' @ quote_ident schema_name @ ''.'' @ quote_ident obj_name
           | None \<Rightarrow> type_keyword @ '' '' @ quote_ident schema_name))"

fun relation_relkinds_sql :: "object_type \<Rightarrow> sql_render_error + string" where
  "relation_relkinds_sql Table = Inr ([SQ] @ ''r'' @ [SQ] @ '', '' @ [SQ] @ ''p'' @ [SQ])"
| "relation_relkinds_sql View = Inr ([SQ] @ ''v'' @ [SQ])"
| "relation_relkinds_sql MaterializedView = Inr ([SQ] @ ''m'' @ [SQ])"
| "relation_relkinds_sql Sequence = Inr ([SQ] @ ''S'' @ [SQ])"
| "relation_relkinds_sql _ = Inl (SqlPanic ''relation_relkinds_literal only supports pg_class object types'')"

definition privilege_statement :: "string \<Rightarrow> string \<Rightarrow> grantee \<Rightarrow> string \<Rightarrow> string \<Rightarrow> string" where
  "privilege_statement action subject_preposition role privilege_list target =
     action @ '' '' @ privilege_list @ '' ON '' @ target @ '' '' @ subject_preposition @ '' ''
       @ render_grantee role @ '';''"

abbreviation NL :: string where "NL \<equiv> [CHR 0x0A]"

text \<open>The text between the two \<open>$pgroles$\<close> marks of the fallback for relations without an inventory.\<close>

definition do_block_body ::
  "string \<Rightarrow> string \<Rightarrow> grantee \<Rightarrow> string \<Rightarrow> object_type \<Rightarrow> string \<Rightarrow> string \<Rightarrow> string" where
  "do_block_body action subject_preposition role privilege_list object_type schema_name relkinds =
     (let grantee_placeholder = (case role of Public \<Rightarrow> ''PUBLIC'' | Role _ \<Rightarrow> ''%I'');
          grantee_argument = (case role of Public \<Rightarrow> [] | Role name \<Rightarrow> '', '' @ quote_literal name);
          owner_filter = (case role of
              Role role_name \<Rightarrow>
                if action = ''REVOKE'' then ''AND pg_get_userbyid(c.relowner) <> '' @ quote_literal role_name else []
            | Public \<Rightarrow> []) in
      NL @ ''DECLARE obj record;'' @ NL @ ''BEGIN'' @ NL @ ''  FOR obj IN'' @ NL @
      ''    SELECT n.nspname AS schema_name, c.relname AS object_name'' @ NL @
      ''    FROM pg_class c'' @ NL @
      ''    JOIN pg_namespace n ON n.oid = c.relnamespace'' @ NL @
      ''    WHERE c.relkind IN ('' @ relkinds @ '')'' @ NL @
      ''      AND n.nspname = '' @ quote_literal schema_name @ NL @
      ''      '' @ owner_filter @ NL @
      ''    ORDER BY c.relname'' @ NL @ ''  LOOP'' @ NL @
      ''    EXECUTE format('' @ [SQ] @ action @ '' '' @ privilege_list @ '' ON '' @ sql_object_type_keyword object_type @
      '' %I.%I '' @ subject_preposition @ '' '' @ grantee_placeholder @ '';'' @ [SQ] @
      '', obj.schema_name, obj.object_name'' @ grantee_argument @ '');'' @ NL @ ''  END LOOP;'' @ NL @ ''END'' @ NL)"

definition inventory_target :: "object_type \<Rightarrow> string \<Rightarrow> string \<Rightarrow> string" where
  "inventory_target object_type schema_name object_name =
     (case object_type of
        Function \<Rightarrow> format_function_target (Some schema_name) object_name
      | _ \<Rightarrow> sql_object_type_keyword object_type @ '' '' @ quote_ident schema_name @ ''.'' @ quote_ident object_name)"

definition render_wildcard_expanded ::
  "string \<Rightarrow> string \<Rightarrow> grantee \<Rightarrow> string \<Rightarrow> object_type \<Rightarrow> string option \<Rightarrow> sql_context \<Rightarrow>
   sql_render_error + string list" where
  "render_wildcard_expanded action subject_preposition role privilege_list object_type schema ctx =
     (let schema_name = unwrap_or schema ''public'';
          skip_owned = (action = ''REVOKE'');
          statement = privilege_statement action subject_preposition role privilege_list in
      if \<not> skip_owned \<and> (object_type = Sequence \<or> object_type = Function)
      then Inr [statement (format_object_target object_type schema (Some ''*''))]
      else case fmlookup (cx_object_inventory ctx) (object_type, schema_name) of
        Some object_names \<Rightarrow>
          Inr (map (\<lambda>object_name. statement (inventory_target object_type schema_name object_name))
            (filter (\<lambda>object_name. \<not> skip_owned \<or> \<not> grantee_owns_relation ctx role object_type schema_name object_name)
               object_names))
      | None \<Rightarrow>
          if object_type = Function
          then Inr [statement (format_object_target object_type schema (Some ''*''))]
          else bind_r (relation_relkinds_sql object_type) (\<lambda>relkinds.
            Inr [''DO $pgroles$'' @
                 do_block_body action subject_preposition role privilege_list object_type schema_name relkinds @
                 ''$pgroles$;'']))"

definition render_privilege_statements ::
  "string \<Rightarrow> grantee \<Rightarrow> string \<Rightarrow> object_type \<Rightarrow> string option \<Rightarrow> string option \<Rightarrow> sql_context \<Rightarrow>
   sql_render_error + string list" where
  "render_privilege_statements action role privilege_list object_type schema name ctx =
     (let subject_preposition = (if action = ''GRANT'' then ''TO'' else ''FROM'') in
      if object_type \<in> {Table, View, MaterializedView, Sequence, Function} \<and> name = Some ''*''
      then render_wildcard_expanded action subject_preposition role privilege_list object_type schema ctx
      else Inr [privilege_statement action subject_preposition role privilege_list
                  (format_object_target object_type schema name)])"

definition render_grant ::
  "grantee \<Rightarrow> privilege btreeset \<Rightarrow> object_type \<Rightarrow> string option \<Rightarrow> string option \<Rightarrow> sql_context \<Rightarrow>
   sql_render_error + string list" where
  "render_grant role privileges object_type schema name ctx =
     render_privilege_statements ''GRANT'' role (format_privileges privileges) object_type schema name ctx"

definition render_revoke ::
  "grantee \<Rightarrow> privilege btreeset \<Rightarrow> object_type \<Rightarrow> string option \<Rightarrow> string option \<Rightarrow> sql_context \<Rightarrow>
   sql_render_error + string list" where
  "render_revoke role privileges object_type schema name ctx =
     render_privilege_statements ''REVOKE'' role (format_privileges privileges) object_type schema name ctx"


section \<open>Default privileges\<close>

fun default_privilege_object_keyword :: "object_type \<Rightarrow> sql_render_error + string" where
  "default_privilege_object_keyword Sequence = Inr ''SEQUENCES''"
| "default_privilege_object_keyword Function = Inr ''ROUTINES''"
| "default_privilege_object_keyword Type = Inr ''TYPES''"
| "default_privilege_object_keyword Schema = Inr ''SCHEMAS''"
| "default_privilege_object_keyword Database =
     Inl (SqlPanic ''default privileges on a database are rejected during manifest validation'')"
| "default_privilege_object_keyword _ = Inr ''TABLES''"

fun render_default_privilege_scope_clause :: "default_privilege_scope \<Rightarrow> string" where
  "render_default_privilege_scope_clause Global = []"
| "render_default_privilege_scope_clause (SchemaScope schema) = '' IN SCHEMA '' @ quote_ident schema"

definition render_set_default_privilege ::
  "string \<Rightarrow> default_privilege_scope \<Rightarrow> object_type \<Rightarrow> grantee \<Rightarrow> privilege btreeset \<Rightarrow>
   sql_render_error + string list" where
  "render_set_default_privilege owner scope on_type grantee privileges =
     bind_r (default_privilege_object_keyword on_type) (\<lambda>type_keyword.
       Inr [''ALTER DEFAULT PRIVILEGES FOR ROLE '' @ quote_ident owner @ render_default_privilege_scope_clause scope
              @ '' GRANT '' @ format_privileges privileges @ '' ON '' @ type_keyword @ '' TO '' @ render_grantee grantee @ '';''])"

definition render_revoke_default_privilege ::
  "string \<Rightarrow> default_privilege_scope \<Rightarrow> object_type \<Rightarrow> grantee \<Rightarrow> privilege btreeset \<Rightarrow>
   sql_render_error + string list" where
  "render_revoke_default_privilege owner scope on_type grantee privileges =
     bind_r (default_privilege_object_keyword on_type) (\<lambda>type_keyword.
       Inr [''ALTER DEFAULT PRIVILEGES FOR ROLE '' @ quote_ident owner @ render_default_privilege_scope_clause scope
              @ '' REVOKE '' @ format_privileges privileges @ '' ON '' @ type_keyword @ '' FROM '' @ render_grantee grantee @ '';''])"


section \<open>Memberships and retirements\<close>

definition render_add_member :: "string \<Rightarrow> string \<Rightarrow> bool \<Rightarrow> bool \<Rightarrow> sql_context \<Rightarrow> string list" where
  "render_add_member role member inherit admin ctx =
     [''GRANT '' @ quote_ident role @ '' TO '' @ quote_ident member @
      (if supports_grant_with_options ctx
       then '' WITH '' @ join_str '', '' ([if inherit then ''INHERIT TRUE'' else ''INHERIT FALSE''] @
                                         (if admin then [''ADMIN TRUE''] else []))
       else if admin then '' WITH ADMIN OPTION'' else []) @ '';'']"

definition option_revoke :: "string \<Rightarrow> string \<Rightarrow> string \<Rightarrow> string \<Rightarrow> bool option \<Rightarrow> string list" where
  "option_revoke role member grantor name value =
     (if value = Some False
      then [''REVOKE '' @ name @ '' OPTION FOR '' @ quote_ident role @ '' FROM '' @ quote_ident member
              @ '' GRANTED BY '' @ quote_ident grantor @ '' RESTRICT;'']
      else [])"

definition granted_options :: "bool option \<Rightarrow> bool option \<Rightarrow> membership_option_binding option \<Rightarrow> string list" where
  "granted_options inherit admin binding =
     (if inherit = Some True then [''INHERIT TRUE''] else []) @
     (if admin = Some True then [''ADMIN TRUE''] else []) @
     (if is_some_and binding (\<lambda>b. mb_set_effect b = CreateFalse)
      then (if inherit = None then [''INHERIT FALSE''] else []) @ [''SET FALSE'']
      else [])"

definition render_update_member_options ::
  "string \<Rightarrow> string \<Rightarrow> string \<Rightarrow> bool option \<Rightarrow> bool option \<Rightarrow> membership_option_binding option \<Rightarrow> string list" where
  "render_update_member_options role member grantor inherit admin binding =
     option_revoke role member grantor ''INHERIT'' inherit @
     option_revoke role member grantor ''ADMIN'' admin @
     (if inherit = Some True \<or> admin = Some True
      then [''GRANT '' @ quote_ident role @ '' TO '' @ quote_ident member @ '' WITH ''
              @ join_str '', '' (granted_options inherit admin binding) @ '' GRANTED BY '' @ quote_ident grantor @ '';'']
      else [])"

definition render_remove_member :: "string \<Rightarrow> string \<Rightarrow> string option \<Rightarrow> sql_context \<Rightarrow> string list" where
  "render_remove_member role member grantor ctx =
     [''REVOKE '' @ quote_ident role @ '' FROM '' @ quote_ident member @
      (case grantor of
         Some grantor \<Rightarrow> if supports_grant_with_options ctx then '' GRANTED BY '' @ quote_ident grantor else []
       | None \<Rightarrow> []) @ '';'']"

definition render_reassign_owned :: "string \<Rightarrow> string \<Rightarrow> string list" where
  "render_reassign_owned from_role to_role =
     [''REASSIGN OWNED BY '' @ quote_ident from_role @ '' TO '' @ quote_ident to_role @ '';'']"

definition render_drop_owned :: "string \<Rightarrow> string list" where
  "render_drop_owned role = [''DROP OWNED BY '' @ quote_ident role @ '';'']"

definition render_terminate_sessions :: "string \<Rightarrow> string list" where
  "render_terminate_sessions role =
     [''SELECT pg_terminate_backend(pid) FROM pg_stat_activity WHERE usename = '' @ quote_literal role
        @ '' AND pid <> pg_backend_pid();'']"

definition render_set_password :: "string \<Rightarrow> string \<Rightarrow> string list" where
  "render_set_password name password =
     [''ALTER ROLE '' @ quote_ident name @ '' PASSWORD '' @ quote_literal password @ '';'']"


section \<open>One change\<close>

definition render_unscoped_statements :: "change \<Rightarrow> sql_context \<Rightarrow> sql_render_error + string list" where
  "render_unscoped_statements change ctx =
     (case change of
        CreateRole name state \<Rightarrow> Inr (render_create_role name state)
      | CreateSchema name owner \<Rightarrow> Inr (render_create_schema name owner)
      | AlterSchemaOwner name owner \<Rightarrow> Inr (render_alter_schema_owner name owner)
      | EnsureSchemaOwnerPrivileges name owner privileges \<Rightarrow>
          render_grant (Role owner) privileges Schema None (Some name) ctx
      | AlterRole name attributes \<Rightarrow> Inr (render_alter_role name attributes)
      | SetComment name comment \<Rightarrow> Inr (render_set_comment name comment)
      | Grant role privileges object_type schema name \<Rightarrow> render_grant role privileges object_type schema name ctx
      | Revoke role privileges object_type schema name _ \<Rightarrow> render_revoke role privileges object_type schema name ctx
      | SetDefaultPrivilege owner scope on_type grantee privileges \<Rightarrow>
          render_set_default_privilege owner scope on_type grantee privileges
      | RevokeDefaultPrivilege owner scope on_type grantee privileges \<Rightarrow>
          render_revoke_default_privilege owner scope on_type grantee privileges
      | AddMember role member inherit admin \<Rightarrow> Inr (render_add_member role member inherit admin ctx)
      | UpdateMemberOptions role member grantor inherit admin binding \<Rightarrow>
          Inr (render_update_member_options role member grantor inherit admin binding)
      | RemoveMember role member grantor \<Rightarrow> Inr (render_remove_member role member grantor ctx)
      | ReassignOwned from_role to_role \<Rightarrow> Inr (render_reassign_owned from_role to_role)
      | DropOwned role \<Rightarrow> Inr (render_drop_owned role)
      | TerminateSessions role \<Rightarrow> Inr (render_terminate_sessions role)
      | SetPassword name password \<Rightarrow> Inr (render_set_password name password)
      | DropRole name \<Rightarrow> Inr [''DROP ROLE IF EXISTS '' @ quote_ident name @ '';''])"


section \<open>A plan\<close>

record rendered_statement =
  st_sql :: string
  st_redacted_sql :: string

definition plain :: "string \<Rightarrow> rendered_statement" where
  "plain sql = \<lparr>st_sql = sql, st_redacted_sql = sql\<rparr>"

definition set_role :: "string \<Rightarrow> string" where
  "set_role role = ''SET ROLE '' @ quote_ident role @ '';''"

definition restore_role :: "sql_context \<Rightarrow> string" where
  "restore_role ctx = (case cx_execution_role ctx of Some role \<Rightarrow> set_role role | None \<Rightarrow> ''RESET ROLE;'')"

definition revoke_grantor :: "change \<Rightarrow> string option" where
  "revoke_grantor change = (case change of Revoke _ _ _ _ _ grantor \<Rightarrow> grantor | _ \<Rightarrow> None)"

definition redact :: "change \<Rightarrow> string \<Rightarrow> rendered_statement" where
  "redact change sql =
     \<lparr>st_sql = sql,
      st_redacted_sql = (case change of
          SetPassword name _ \<Rightarrow> ''ALTER ROLE '' @ quote_ident name @ '' PASSWORD '' @ [SQ] @ ''[REDACTED]'' @ [SQ] @ '';''
        | _ \<Rightarrow> sql)\<rparr>"

definition adds_member :: "string \<Rightarrow> string \<Rightarrow> change \<Rightarrow> bool" where
  "adds_member role member other = (case other of AddMember r m _ _ \<Rightarrow> r = role \<and> m = member | _ \<Rightarrow> False)"

definition replaces_unattributed :: "change list \<Rightarrow> change \<Rightarrow> bool" where
  "replaces_unattributed changes change =
     (case change of
        RemoveMember role member None \<Rightarrow>
          list_ex (adds_member role member) changes
      | _ \<Rightarrow> False)"

definition role_switch :: "sql_context \<Rightarrow> string option \<Rightarrow> string option \<Rightarrow> rendered_statement list" where
  "role_switch ctx active grantor =
     (if grantor \<noteq> active
      then (if active \<noteq> None then [plain (restore_role ctx)] else []) @
           (case grantor of Some role \<Rightarrow> [plain (set_role role)] | None \<Rightarrow> [])
      else [])"

type_synonym batch_state = "rendered_statement list \<times> string option"

definition batch_step :: "sql_context \<Rightarrow> change \<Rightarrow> batch_state \<Rightarrow> sql_render_error + batch_state" where
  "batch_step ctx change = (\<lambda>(result, active_grantor).
     bind_r (validate_membership_options change ctx) (\<lambda>_.
     bind_r (render_unscoped_statements change ctx) (\<lambda>statements.
       if statements = [] then Inr (result, active_grantor)
       else Inr (result @ role_switch ctx active_grantor (revoke_grantor change) @ map (redact change) statements,
                 revoke_grantor change))))"

definition render_batch_with_context :: "change list \<Rightarrow> sql_context \<Rightarrow> sql_render_error + rendered_statement list" where
  "render_batch_with_context changes ctx =
     (if supports_grant_with_options ctx \<and> list_ex (replaces_unattributed changes) changes
      then Inl UnattributedMembershipReplacement
      else bind_r (fold_r (batch_step ctx) changes ([], None)) (\<lambda>(result, active_grantor).
        Inr (result @ (if active_grantor \<noteq> None then [plain (restore_role ctx)] else []))))"

definition render_statements_with_context :: "change \<Rightarrow> sql_context \<Rightarrow> sql_render_error + string list" where
  "render_statements_with_context change ctx =
     bind_r (render_batch_with_context [change] ctx) (\<lambda>statements. Inr (map st_sql statements))"

definition render_all_with_context :: "change list \<Rightarrow> sql_context \<Rightarrow> sql_render_error + string" where
  "render_all_with_context changes ctx =
     bind_r (render_batch_with_context changes ctx) (\<lambda>statements. Inr (join_str NL (map st_sql statements)))"

end
