(* ===== verification/SqlLex.thy ===== *)
theory SqlLex
  imports Sql
begin

text \<open>
  A reader for rendered SQL. PostgreSQL is not part of the repository; what its lexer does with quotes
  (\<open>standard_conforming_strings\<close> on) is written here as \<open>lex\<close>: quoted identifiers and literals with
  doubled quotes, dollar-quoted strings, and every other character as a token of its own. Where the
  real lexer could read a quote or a sign differently (a quote after a letter, as in \<open>E'..'\<close>, or a comment), \<open>lex\<close>
  refuses the text. The second half gives the renderers a normal form: a sequence of pieces, which
  \<open>lex\<close> reads back piece by piece.
\<close>

section \<open>The lexer\<close>

datatype token = Sym char | Quoted char string | Dollar string

datatype lex_mode =
    Normal char
  | InQuote char string
  | InTag string
  | InDollar string string

definition word_char :: "char \<Rightarrow> bool" where
  "word_char c = (is_ascii_alphanumeric c \<or> c = CHR ''_'' \<or> c = CHR ''$'' \<or> c = CHR ''&'' \<or> of_char c \<ge> (128 :: nat))"

definition opens_comment :: "char \<Rightarrow> char \<Rightarrow> bool" where
  "opens_comment p c = (p = CHR ''-'' \<and> c = CHR ''-'' \<or> p = CHR ''/'' \<and> c = CHR ''*'')"

definition cons_token :: "token \<Rightarrow> token list option \<Rightarrow> token list option" where
  "cons_token t r = map_option ((#) t) r"

function lex :: "lex_mode \<Rightarrow> string \<Rightarrow> token list option" where
  "lex (Normal p) [] = Some []"
| "lex (Normal p) (c # s) =
     (if c = DQ \<or> c = SQ then (if word_char p then None else lex (InQuote c []) s)
      else if c = CHR ''$'' then (if word_char p then None else lex (InTag []) s)
      else if opens_comment p c then None
      else cons_token (Sym c) (lex (Normal c) s))"
| "lex (InQuote q acc) [] = None"
| "lex (InQuote q acc) (c # s) =
     (if c \<noteq> q then lex (InQuote q (acc @ [c])) s
      else if s \<noteq> [] \<and> hd s = q then lex (InQuote q (acc @ [q])) (tl s)
      else cons_token (Quoted q acc) (lex (Normal q) s))"
| "lex (InTag tag) [] = None"
| "lex (InTag tag) (c # s) =
     (if c = CHR ''$'' then lex (InDollar tag []) s
      else if word_char c then lex (InTag (tag @ [c])) s else None)"
| "lex (InDollar tag acc) [] = None"
| "lex (InDollar tag acc) (c # s) =
     (if starts_with (c # s) ([CHR ''$''] @ tag @ [CHR ''$''])
      then cons_token (Dollar acc) (lex (Normal (CHR ''$'')) (drop (length tag + 1) s))
      else lex (InDollar tag (acc @ [c])) s)"
  by pat_completeness auto

termination
  by (relation "measure (\<lambda>(m, s). length s)") (auto simp: less_Suc_eq_le)

text \<open>
  A text is one statement when it is read to the end and its only semicolon outside quotes is its last
  token; \<open>identifiers\<close> are the names it quotes.
\<close>

definition lex_sql :: "string \<Rightarrow> token list option" where
  "lex_sql s = lex (Normal (CHR '' '')) s"

definition single_statement :: "token list \<Rightarrow> bool" where
  "single_statement ts = (ts \<noteq> [] \<and> last ts = Sym (CHR '';'') \<and> Sym (CHR '';'') \<notin> set (butlast ts))"

definition identifiers :: "token list \<Rightarrow> string set" where
  "identifiers ts = {x. Quoted DQ x \<in> set ts}"

lemma cons_token_Some [simp]: "cons_token t (Some ts) = Some (t # ts)"
  by (simp add: cons_token_def)


section \<open>Pieces\<close>

datatype piece = Txt string | Name string | Lit string | Num int

fun unpiece :: "piece \<Rightarrow> string" where
  "unpiece (Txt t) = t"
| "unpiece (Name x) = quote_ident x"
| "unpiece (Lit x) = quote_literal x"
| "unpiece (Num i) = show_int i"

fun piece_tokens :: "piece \<Rightarrow> token list" where
  "piece_tokens (Txt t) = map Sym t"
| "piece_tokens (Name x) = [Quoted DQ x]"
| "piece_tokens (Lit x) = [Quoted SQ x]"
| "piece_tokens (Num i) = map Sym (show_int i)"

abbreviation unlex :: "piece list \<Rightarrow> string" where
  "unlex ps \<equiv> concat (map unpiece ps)"

abbreviation tokens_of :: "piece list \<Rightarrow> token list" where
  "tokens_of ps \<equiv> concat (map piece_tokens ps)"

definition plain_char :: "char \<Rightarrow> bool" where
  "plain_char c = (c \<notin> {DQ, SQ, CHR ''$'', CHR ''-'', CHR ''/'', CHR '';''})"

fun pieces_ok :: "char \<Rightarrow> piece list \<Rightarrow> bool" where
  "pieces_ok p [] = True"
| "pieces_ok p (Txt t # ps) = (list_all plain_char t \<and> pieces_ok (last (p # t)) ps)"
| "pieces_ok p (Name x # ps) = (\<not> word_char p \<and> p \<noteq> DQ \<and> pieces_ok DQ ps)"
| "pieces_ok p (Lit x # ps) = (\<not> word_char p \<and> p \<noteq> SQ \<and> pieces_ok SQ ps)"
| "pieces_ok p (Num i # ps) = (p \<noteq> CHR ''-'' \<and> pieces_ok (last (show_int i)) ps)"

lemma word_char_simps [simp]:
  "\<not> word_char (CHR '' '')" "\<not> word_char (CHR ''.'')" "\<not> word_char (CHR ''('')" "\<not> word_char DQ" "\<not> word_char SQ"
  by (simp_all add: word_char_def is_ascii_alphanumeric_def is_ascii_alphabetic_def is_ascii_lowercase_def
      is_ascii_uppercase_def is_ascii_digit_def)

lemma plain_char_not_special:
  "plain_char c \<Longrightarrow> c \<noteq> DQ \<and> c \<noteq> SQ \<and> c \<noteq> CHR ''$'' \<and> c \<noteq> CHR ''-'' \<and> c \<noteq> CHR ''/'' \<and> c \<noteq> CHR '';''"
  by (simp add: plain_char_def)

lemma lex_plain_char: "plain_char c \<Longrightarrow> p \<noteq> CHR ''/'' \<Longrightarrow> lex (Normal p) (c # s) = cons_token (Sym c) (lex (Normal c) s)"
  by (simp add: opens_comment_def plain_char_def)

lemma last_plain_ne: "list_all plain_char t \<Longrightarrow> p \<noteq> CHR ''/'' \<Longrightarrow> last (p # t) \<noteq> CHR ''/''"
  by (cases t rule: rev_cases) (auto simp: plain_char_def)

definition append_tokens :: "token list \<Rightarrow> token list option \<Rightarrow> token list option" where
  "append_tokens ts r = map_option ((@) ts) r"

lemma append_tokens_simps [simp]:
  "append_tokens [] r = r" "append_tokens (t # ts) r = cons_token t (append_tokens ts r)"
  "append_tokens (ts @ us) r = append_tokens ts (append_tokens us r)"
  "append_tokens ts (Some us) = Some (ts @ us)"
  by (cases r; simp add: append_tokens_def cons_token_def)+

lemma lex_plain_text:
  "list_all plain_char t \<Longrightarrow> p \<noteq> CHR ''/'' \<Longrightarrow>
     lex (Normal p) (t @ rest) = append_tokens (map Sym t) (lex (Normal (last (p # t))) rest)"
proof (induction t arbitrary: p)
  case (Cons c t)
  then have "plain_char c" "c \<noteq> CHR ''/''" by (simp_all add: plain_char_def)
  with Cons show ?case using lex_plain_char[of c p "t @ rest"] by (simp del: lex.simps)
qed simp

lemma lex_quote_body:
  "rest = [] \<or> hd rest \<noteq> q \<Longrightarrow>
     lex (InQuote q acc) (replace_char q [q, q] x @ q # rest) = cons_token (Quoted q (acc @ x)) (lex (Normal q) rest)"
  by (induction x arbitrary: acc) (auto simp: neq_Nil_conv)

lemma lex_quote:
  assumes "q = DQ \<or> q = SQ" "\<not> word_char p" "rest = [] \<or> hd rest \<noteq> q"
  shows "lex (Normal p) (quote_with q x @ rest) = cons_token (Quoted q x) (lex (Normal q) rest)"
proof -
  have "lex (Normal p) (quote_with q x @ rest) = lex (InQuote q []) (replace_char q [q, q] x @ q # rest)"
    using assms(1,2) by (auto simp: quote_with_def)
  then show ?thesis using lex_quote_body[OF assms(3), of "[]" x] by simp
qed

text \<open>A number is an optional sign and digits; a sign is never followed by another.\<close>

lemma digit_char: "d < (10 :: nat) \<Longrightarrow> is_ascii_digit (char_of (48 + d))"
  by (simp add: is_ascii_digit_def)

lemma show_nat_digits: "list_all is_ascii_digit (show_nat n) \<and> show_nat n \<noteq> []"
proof (induction n rule: show_nat.induct)
  case (1 n)
  then show ?case using digit_char[of n] digit_char[of "n mod 10"] show_nat.simps[of n] by auto
qed

lemma digits_plain: "list_all is_ascii_digit t \<Longrightarrow> list_all plain_char t"
  by (auto simp: list_all_iff is_ascii_digit_def plain_char_def)

lemma lex_show_int:
  assumes "p \<noteq> CHR ''/''" "p \<noteq> CHR ''-''"
  shows "lex (Normal p) (show_int i @ rest) = append_tokens (map Sym (show_int i)) (lex (Normal (last (show_int i))) rest)"
proof -
  have d: "list_all plain_char (show_nat n)" "show_nat n \<noteq> []" for n
    using show_nat_digits[of n] by (auto intro: digits_plain)
  have m: "lex (Normal p) (CHR ''-'' # s) = cons_token (Sym (CHR ''-'')) (lex (Normal (CHR ''-'')) s)" for s
    using assms by (simp add: opens_comment_def)
  show ?thesis using assms d lex_plain_text[OF d(1)] m by (simp add: show_int_def del: lex.simps)
qed

lemma last_show_int: "is_ascii_digit (last (show_int i))"
proof -
  have "is_ascii_digit (last (show_nat n))" for n
    using show_nat_digits[of n] last_in_set[of "show_nat n"] by (auto simp: list_all_iff)
  then show ?thesis using show_nat_digits by (auto simp: show_int_def)
qed

lemma digit_not_special: "is_ascii_digit c \<Longrightarrow> c \<noteq> CHR ''/'' \<and> c \<noteq> CHR ''-'' \<and> c \<noteq> DQ \<and> c \<noteq> SQ"
  by (auto simp: is_ascii_digit_def)


section \<open>Reading pieces back\<close>

lemma pieces_ok_next:
  "pieces_ok q ps \<Longrightarrow> q = DQ \<or> q = SQ \<Longrightarrow> rest = [] \<or> hd rest \<noteq> q \<Longrightarrow> unlex ps @ rest = [] \<or> hd (unlex ps @ rest) \<noteq> q"
proof (induction ps)
  case (Cons x ps)
  show ?case
  proof (cases x)
    case (Txt t)
    then show ?thesis using Cons by (cases t) (auto simp: plain_char_def)
  next
    case (Num i)
    have "show_int i \<noteq> []" "hd (show_int i) \<noteq> q"
      using Cons.prems(2) show_nat_digits by (auto simp: show_int_def list_all_iff dest!: digit_not_special hd_in_set)
    then show ?thesis using Num by simp
  qed (use Cons.prems in \<open>auto simp: quote_ident_def quote_literal_def quote_with_def\<close>)
qed simp

lemma lex_pieces:
  assumes "pieces_ok p ps" "p \<noteq> CHR ''/''" "p \<noteq> CHR ''-''" "rest = [] \<or> hd rest \<noteq> DQ \<and> hd rest \<noteq> SQ"
  shows "\<exists>p'. lex (Normal p) (unlex ps @ rest) = append_tokens (tokens_of ps) (lex (Normal p') rest) \<and>
           p' \<noteq> CHR ''/'' \<and> p' \<noteq> CHR ''-''"
  using assms
proof (induction ps arbitrary: p)
  case (Cons x ps)
  show ?case
  proof (cases x)
    case (Txt t)
    then have t: "list_all plain_char t" "pieces_ok (last (p # t)) ps" using Cons.prems(1) by auto
    have "last (p # t) \<noteq> CHR ''/''" "last (p # t) \<noteq> CHR ''-''"
      using t(1) Cons.prems(2,3) by (cases t rule: rev_cases; auto simp: plain_char_def)+
    then obtain p' where "lex (Normal (last (p # t))) (unlex ps @ rest) = append_tokens (tokens_of ps) (lex (Normal p') rest)"
      "p' \<noteq> CHR ''/''" "p' \<noteq> CHR ''-''"
      using Cons.IH[OF t(2)] Cons.prems(4) by blast
    then show ?thesis using Txt lex_plain_text[OF t(1) Cons.prems(2), of "unlex ps @ rest"]
      by (intro exI[of _ p']) (simp del: lex.simps)
  next
    case (Num i)
    have ok: "pieces_ok (last (show_int i)) ps" using Cons.prems(1) Num by simp
    have l: "last (show_int i) \<noteq> CHR ''/''" "last (show_int i) \<noteq> CHR ''-''"
      using digit_not_special[OF last_show_int] by auto
    obtain p' where "lex (Normal (last (show_int i))) (unlex ps @ rest) = append_tokens (tokens_of ps) (lex (Normal p') rest)"
      "p' \<noteq> CHR ''/''" "p' \<noteq> CHR ''-''"
      using Cons.IH[OF ok l] Cons.prems(4) by blast
    then show ?thesis using Num lex_show_int[OF Cons.prems(2,3), of i "unlex ps @ rest"]
      by (intro exI[of _ p']) (simp del: lex.simps)
  next
    case (Name n)
    have ok: "pieces_ok DQ ps" "\<not> word_char p" using Cons.prems(1) Name by auto
    obtain p' where "lex (Normal DQ) (unlex ps @ rest) = append_tokens (tokens_of ps) (lex (Normal p') rest)"
      "p' \<noteq> CHR ''/''" "p' \<noteq> CHR ''-''"
      using Cons.IH[OF ok(1)] Cons.prems(4) by auto
    then show ?thesis using Name lex_quote[of DQ, OF _ ok(2) pieces_ok_next[OF ok(1)], of rest n] Cons.prems(4)
      by (intro exI[of _ p']) (auto simp: quote_ident_def simp del: lex.simps)
  next
    case (Lit n)
    have ok: "pieces_ok SQ ps" "\<not> word_char p" using Cons.prems(1) Lit by auto
    obtain p' where "lex (Normal SQ) (unlex ps @ rest) = append_tokens (tokens_of ps) (lex (Normal p') rest)"
      "p' \<noteq> CHR ''/''" "p' \<noteq> CHR ''-''"
      using Cons.IH[OF ok(1)] Cons.prems(4) by auto
    then show ?thesis using Lit lex_quote[of SQ, OF _ ok(2) pieces_ok_next[OF ok(1)], of rest n] Cons.prems(4)
      by (intro exI[of _ p']) (auto simp: quote_literal_def simp del: lex.simps)
  qed
qed auto

text \<open>
  The contract of a renderer: its text is a sequence of pieces closed by a semicolon, whose quoted
  identifiers are among the given names.
\<close>

definition piece_names :: "piece list \<Rightarrow> string set" where
  "piece_names ps = {x. Name x \<in> set ps}"

definition rendered :: "string set \<Rightarrow> string \<Rightarrow> bool" where
  "rendered names sql \<longleftrightarrow> (\<exists>ps. pieces_ok (CHR '' '') ps \<and> sql = unlex ps @ '';'' \<and> piece_names ps \<subseteq> names)"

lemma renderedI:
  "sql = unlex ps @ '';'' \<Longrightarrow> pieces_ok (CHR '' '') ps \<Longrightarrow> piece_names ps \<subseteq> names \<Longrightarrow> rendered names sql"
  unfolding rendered_def by blast

lemma piece_names_simps [simp]:
  "piece_names [] = {}" "piece_names (Name x # ps) = insert x (piece_names ps)"
  "piece_names (Txt t # ps) = piece_names ps" "piece_names (Lit y # ps) = piece_names ps"
  "piece_names (Num i # ps) = piece_names ps" "piece_names (ps @ qs) = piece_names ps \<union> piece_names qs"
  by (auto simp: piece_names_def)

lemma pieces_no_semicolon: "pieces_ok p ps \<Longrightarrow> Sym (CHR '';'') \<notin> set (tokens_of ps)"
proof (induction ps arbitrary: p)
  case (Cons x ps)
  have n: "CHR '';'' \<notin> set (show_int i)" for i
  proof -
    have "CHR '';'' \<notin> set (show_nat k)" for k
      using show_nat_digits[of k] digits_plain[of "show_nat k"] by (auto simp: list_all_iff plain_char_def)
    then show ?thesis by (simp add: show_int_def)
  qed
  show ?case using Cons n by (cases x) (auto simp: list_all_iff plain_char_def)
qed simp

lemma pieces_identifiers: "identifiers (tokens_of ps) = piece_names ps"
proof (induction ps)
  case (Cons x ps)
  then show ?case by (cases x) (auto simp: identifiers_def)
qed (simp add: identifiers_def)

lemma rendered_single:
  assumes "rendered names sql"
  shows "\<exists>ts. lex_sql sql = Some ts \<and> single_statement ts \<and> identifiers ts \<subseteq> names"
proof -
  obtain ps where ps: "pieces_ok (CHR '' '') ps" "sql = unlex ps @ '';''" "piece_names ps \<subseteq> names"
    using assms unfolding rendered_def by blast
  obtain p' where "lex_sql sql = append_tokens (tokens_of ps) (lex (Normal p') '';'')"
    unfolding lex_sql_def ps(2) using lex_pieces[OF ps(1), of "'';''"] by auto
  then have "lex_sql sql = Some (tokens_of ps @ [Sym (CHR '';'')])" by (simp add: opens_comment_def)
  moreover have "identifiers (tokens_of ps @ [Sym (CHR '';'')]) \<subseteq> names"
    using ps(3) pieces_identifiers[of ps] by (auto simp: identifiers_def)
  ultimately show ?thesis using pieces_no_semicolon[OF ps(1)] by (auto simp: single_statement_def)
qed

text \<open>Joined lists of options.\<close>

fun join_pieces :: "string \<Rightarrow> piece list list \<Rightarrow> piece list" where
  "join_pieces sep [] = []"
| "join_pieces sep [x] = x"
| "join_pieces sep (x # y # ys) = x @ Txt sep # join_pieces sep (y # ys)"

lemma unlex_join: "unlex (join_pieces sep pss) = join_str sep (map unlex pss)"
  by (induction sep pss rule: join_pieces.induct) simp_all

lemma pieces_ok_append: "pieces_ok p (ps @ qs) \<longleftrightarrow> pieces_ok p ps \<and> pieces_ok (last (p # unlex ps)) qs"
proof (induction ps arbitrary: p)
  case (Cons x ps)
  have "show_int i \<noteq> []" for i using show_nat_digits by (simp add: show_int_def)
  then show ?case using Cons
    by (cases x) (auto simp: quote_ident_def quote_literal_def quote_with_def last_append split: if_splits)
qed simp

lemma pieces_ok_join:
  assumes "list_all (pieces_ok (CHR '' '')) pss" "sep \<noteq> []" "list_all plain_char sep" "last sep = CHR '' ''"
  shows "pieces_ok (CHR '' '') (join_pieces sep pss)"
  using assms by (induction sep pss rule: join_pieces.induct) (auto simp: pieces_ok_append)

lemma piece_names_join: "piece_names (join_pieces sep pss) = (\<Union>ps\<in>set pss. piece_names ps)"
  by (induction sep pss rule: join_pieces.induct) auto

end
