(* ===== verification/SqlLaws.thy ===== *)
theory SqlLaws
  imports SqlLex Diff
begin

text \<open>
  What the renderer guarantees: every statement is a single SQL statement that quotes only the names of
  its change, statements run under the role their change asks for, and the redacted copies do not depend
  on passwords.
\<close>

section \<open>Text fragments\<close>

definition fragment :: "string set \<Rightarrow> string \<Rightarrow> bool" where
  "fragment names s \<longleftrightarrow> (\<exists>ps. s = unlex ps \<and> pieces_ok (CHR '' '') ps \<and> piece_names ps \<subseteq> names)"

lemma fragmentI: "s = unlex ps \<Longrightarrow> pieces_ok (CHR '' '') ps \<Longrightarrow> piece_names ps \<subseteq> names \<Longrightarrow> fragment names s"
  unfolding fragment_def by blast

lemma rendered_fragment: "rendered names (s @ '';'') \<longleftrightarrow> fragment names s"
  by (auto simp: rendered_def fragment_def)

lemma fragment_sep:
  assumes "fragment names a" "fragment names b" "list_all plain_char t" "t \<noteq> []" "last t = CHR '' ''"
  shows "fragment names (a @ t @ b)"
proof -
  obtain ps qs where a: "a = unlex ps" "pieces_ok (CHR '' '') ps" "piece_names ps \<subseteq> names"
    and b: "b = unlex qs" "pieces_ok (CHR '' '') qs" "piece_names qs \<subseteq> names"
    using assms(1,2) unfolding fragment_def by blast
  show ?thesis
    by (rule fragmentI[of _ "ps @ Txt t # qs"]) (use a b assms(3-5) in \<open>auto simp: pieces_ok_append\<close>)
qed

lemma fragment_plain: "list_all plain_char t \<Longrightarrow> fragment names t"
  by (rule fragmentI[of _ "[Txt t]"]) simp_all

lemma fragment_join:
  assumes "list_all (fragment names) ss" "sep \<noteq> []" "list_all plain_char sep" "last sep = CHR '' ''"
  shows "fragment names (join_str sep ss)"
  using assms
proof (induction sep ss rule: join_str.induct)
  case (1 sep)
  show ?case by (simp add: fragment_plain)
next
  case (3 sep x y ys)
  then show ?case by (auto intro!: fragment_sep)
qed simp

lemma fragment_mono: "fragment A s \<Longrightarrow> A \<subseteq> B \<Longrightarrow> fragment B s"
  unfolding fragment_def by blast

lemma fragment_quote [simp]: "x \<in> names \<Longrightarrow> fragment names (quote_ident x)" "fragment names (quote_literal y)"
  by (rule fragmentI[of _ "[Name x]"]; simp) (rule fragmentI[of _ "[Lit y]"]; simp)

lemmas plain_simps = plain_char_def list_all_iff

lemma plain_show_privilege: "list_all plain_char (show_privilege p)"
  by (cases p) (simp_all add: plain_char_def)

lemma plain_join: "list_all (list_all plain_char) xs \<Longrightarrow> list_all plain_char sep \<Longrightarrow> list_all plain_char (join_str sep xs)"
  by (induction sep xs rule: join_str.induct) auto

lemma plain_privileges: "list_all plain_char (format_privileges ps)"
  unfolding format_privileges_def using plain_show_privilege
  by (intro plain_join) (auto simp: list_all_iff plain_char_def)


section \<open>Roles\<close>

lemma fragment_attribute: "list_all (fragment names) (attribute_option a)"
proof -
  have b: "fragment names (bool_option p n v)" if "list_all plain_char p" "list_all plain_char n" for p n v
    using that by (auto simp: bool_option_def intro: fragment_plain)
  have c: "fragment names (''CONNECTION LIMIT '' @ show_int i)" for i
    by (rule fragmentI[of _ "[Txt ''CONNECTION LIMIT '', Num i]"]) (simp_all add: plain_char_def)
  have v: "fragment names (''VALID UNTIL '' @ quote_literal x)" for x
    by (rule fragmentI[of _ "[Txt ''VALID UNTIL '', Lit x]"]) (simp_all add: plain_char_def)
  have i: "[SQ] @ ''infinity'' @ [SQ] = quote_literal ''infinity''"
    by (simp add: quote_literal_def quote_with_def)
  show ?thesis
    by (cases a rule: attribute_option.cases) (use b c v i in \<open>auto simp: plain_char_def\<close>)
qed

lemma fragment_create_options: "list_all (fragment names) (create_role_options st)"
proof -
  have "create_role_options st =
      concat (map attribute_option [Login (rs_login st), Superuser (rs_superuser st), Createdb (rs_createdb st),
        Createrole (rs_createrole st), Inherit (rs_inherit st), Replication (rs_replication st), Bypassrls (rs_bypassrls st)]) @
      (if rs_connection_limit st \<noteq> -1 then attribute_option (ConnectionLimit (rs_connection_limit st)) else []) @
      (case rs_password_valid_until st of None \<Rightarrow> [] | Some v \<Rightarrow> attribute_option (ValidUntil (Some v)))"
    by (simp add: create_role_options_def split: option.splits)
  moreover have "list_all (fragment names) (concat (map attribute_option as))" for as
    using fragment_attribute by (induction as) auto
  ultimately show ?thesis using fragment_attribute
    by (simp del: attribute_option.simps concat.simps list.map split: option.splits)
qed

lemma rendered_with_options:
  assumes "list_all (fragment names) options" "name \<in> names" "list_all plain_char kw" "kw \<noteq> []" "last kw = CHR '' ''"
  shows "rendered names (kw @ quote_ident name @ '' '' @ join_str '' '' options @ '';'')"
proof -
  have "fragment names (kw @ quote_ident name)"
    using fragment_sep[of names "[]" "quote_ident name" kw] assms fragment_plain[of "[]"] by simp
  moreover have "fragment names (join_str '' '' options)"
    using assms(1) by (intro fragment_join) (auto simp: plain_char_def)
  ultimately have "fragment names ((kw @ quote_ident name) @ '' '' @ join_str '' '' options)"
    by (rule fragment_sep) (simp_all add: plain_char_def)
  then show ?thesis using rendered_fragment by force
qed

lemma rendered_comment:
  "name \<in> names \<Longrightarrow> rendered names (''COMMENT ON ROLE '' @ quote_ident name @ '' IS '' @ quote_literal text @ '';'')"
  by (rule renderedI[of _ "[Txt ''COMMENT ON ROLE '', Name name, Txt '' IS '', Lit text]"]) (simp_all add: plain_char_def)

lemma rendered_create_role: "name \<in> names \<Longrightarrow> list_all (rendered names) (render_create_role name st)"
  using rendered_with_options[OF fragment_create_options, of name names "''CREATE ROLE ''" st] rendered_comment[of name names]
  by (auto simp: render_create_role_def plain_char_def split: option.splits)

lemma rendered_set_config:
  assumes "name \<in> names" "parameter \<in> names"
  shows "rendered names (render_set_config name parameter value)"
proof -
  have "fragment names (''ALTER ROLE '' @ quote_ident name @ '' SET '' @ quote_ident parameter)"
    using assms by (intro fragmentI[of _ "[Txt ''ALTER ROLE '', Name name, Txt '' SET '', Name parameter]"]) (simp_all add: plain_char_def)
  moreover have "fragment names (render_config_value parameter value)"
    by (auto simp: render_config_value_def Let_def list_all_iff plain_char_def intro!: fragment_join)
  ultimately have "fragment names ((''ALTER ROLE '' @ quote_ident name @ '' SET '' @ quote_ident parameter) @ '' = ''
      @ render_config_value parameter value)"
    by (rule fragment_sep) (simp_all add: plain_char_def)
  then show ?thesis unfolding render_set_config_def using rendered_fragment by force
qed

fun config_parameter :: "role_attribute \<Rightarrow> string set" where
  "config_parameter (SetConfig parameter _) = {parameter}"
| "config_parameter (ResetConfig parameter) = {parameter}"
| "config_parameter _ = {}"

lemma rendered_attribute_statement:
  assumes "name \<in> names" "config_parameter a \<subseteq> names"
  shows "list_all (rendered names) (attribute_statement name a)"
proof (cases a)
  case (ResetConfig parameter)
  then show ?thesis using assms
    by (auto simp: plain_char_def intro!: renderedI[of _ "[Txt ''ALTER ROLE '', Name name, Txt '' RESET '', Name parameter]"])
qed (use assms rendered_set_config in auto)

lemma rendered_alter_role:
  assumes "name \<in> names" "\<forall>a\<in>set attributes. config_parameter a \<subseteq> names"
  shows "list_all (rendered names) (render_alter_role name attributes)"
proof -
  have "list_all (fragment names) (concat (map attribute_option attributes))"
    using fragment_attribute by (auto simp: list_all_iff)
  from rendered_with_options[OF this assms(1), of "''ALTER ROLE ''"]
  show ?thesis using rendered_attribute_statement[OF assms(1)] assms(2)
    by (auto simp: render_alter_role_def Let_def list_all_iff plain_char_def)
qed

section \<open>Privileges\<close>

text \<open>
  The arguments of a routine signature are copied as they are; the contract holds for signatures whose
  arguments are plain text.
\<close>

definition signature_plain :: "string \<Rightarrow> bool" where
  "signature_plain name =
     (case function_signature_start name of None \<Rightarrow> True | Some i \<Rightarrow> list_all plain_char (drop i name))"

lemma fragment_function_target:
  assumes "signature_plain name" "unwrap_or schema ''public'' \<in> names" "name \<in> names" "routine_base_name name \<in> names"
  shows "fragment names (format_function_target schema name)"
proof (cases "function_signature_start name")
  case None
  then show ?thesis using assms
    by (intro fragmentI[of _ "[Txt ''ROUTINE '', Name (unwrap_or schema ''public''), Txt ''.'', Name name]"])
       (simp_all add: format_function_target_def qualified_function_name_def plain_char_def)
next
  case (Some i)
  have "ends_with_paren name" using Some by (simp add: function_signature_start_def split: if_splits)
  then show ?thesis using assms Some
    by (intro fragmentI[of _ "[Txt ''ROUTINE '', Name (unwrap_or schema ''public''), Txt ''.'', Name (take i name), Txt (drop i name)]"])
       (simp_all add: format_function_target_def qualified_function_name_def signature_plain_def routine_base_name_def plain_char_def)
qed

definition target_names :: "object_type \<Rightarrow> string option \<Rightarrow> string option \<Rightarrow> string set" where
  "target_names object_type schema name =
     insert (unwrap_or schema ''public'')
       (case name of
          Some n \<Rightarrow> {n, routine_base_name n}
        | None \<Rightarrow> if object_type = Schema then {''public''} else if object_type = Database then {''postgres''} else {})"

lemma plain_keywords: "list_all plain_char (sql_object_type_keyword t)" "list_all plain_char (sql_object_type_plural t)"
  by (cases t; simp add: plain_char_def)+

lemma fragment_named_target:
  "a \<in> names \<Longrightarrow> list_all plain_char kw \<Longrightarrow> fragment names (kw @ '' '' @ quote_ident a)"
  "a \<in> names \<Longrightarrow> b \<in> names \<Longrightarrow> list_all plain_char kw \<Longrightarrow> fragment names (kw @ '' '' @ quote_ident a @ ''.'' @ quote_ident b)"
  by (rule fragmentI[of _ "[Txt kw, Txt '' '', Name a]"]; simp add: plain_char_def)
     (rule fragmentI[of _ "[Txt kw, Txt '' '', Name a, Txt ''.'', Name b]"]; simp add: plain_char_def)

lemma fragment_schema_target:
  "a \<in> names \<Longrightarrow> list_all plain_char kw \<Longrightarrow> fragment names (''ALL '' @ kw @ '' IN SCHEMA '' @ quote_ident a)"
  by (rule fragmentI[of _ "[Txt ''ALL '', Txt kw, Txt '' IN SCHEMA '', Name a]"]) (simp_all add: plain_char_def)

lemma fragment_object_target:
  assumes "target_names object_type schema name \<subseteq> names" "object_type = Function \<longrightarrow> (\<forall>n. name = Some n \<longrightarrow> signature_plain n)"
  shows "fragment names (format_object_target object_type schema name)"
proof -
  have s: "unwrap_or schema ''public'' \<in> names" using assms(1) by (auto simp: target_names_def)
  have n: "n \<in> names" "routine_base_name n \<in> names" if "name = Some n" for n using assms(1) that by (auto simp: target_names_def)
  have r: "fragment names (''ALL ROUTINES IN SCHEMA '' @ quote_ident a)" if "a \<in> names" for a
    using fragment_schema_target[OF that, of "''ROUTINES''"] by (simp add: plain_char_def)
  have k: "fragment names (sql_object_type_keyword t @ '' '' @ quote_ident a)" if "a \<in> names" for t a
    using fragment_named_target(1)[OF that plain_keywords(1)] .
  have k2: "fragment names (sql_object_type_keyword t @ '' '' @ quote_ident a @ ''.'' @ quote_ident b)"
    if "a \<in> names" "b \<in> names" for t a b
    using fragment_named_target(2)[OF that plain_keywords(1)] .
  have al: "fragment names (''ALL '' @ sql_object_type_plural t @ '' IN SCHEMA '' @ quote_ident a)" if "a \<in> names" for t a
    using fragment_schema_target[OF that plain_keywords(2)] .
  show ?thesis
  proof (cases object_type)
    case Function
    then show ?thesis using assms(2) k[of _ Function] s n r fragment_function_target[of _ schema names]
      by (auto simp: format_object_target_def Let_def split: option.splits)
  next
    case Schema
    then show ?thesis using assms(1) k[of _ Schema] n
      by (cases name) (auto simp: format_object_target_def Let_def target_names_def)
  next
    case Database
    then show ?thesis using assms(1) k[of _ Database] n
      by (cases name) (auto simp: format_object_target_def Let_def target_names_def)
  qed (use k k2 al s n in \<open>auto simp: format_object_target_def Let_def simp del: sql_object_type_keyword.simps sql_object_type_plural.simps split: option.splits\<close>)
qed

lemma rendered_privilege_statement:
  assumes "fragment names target" "list_all plain_char action" "list_all plain_char prep" "list_all plain_char privs"
    and "\<And>n. role = Role n \<Longrightarrow> n \<in> names"
  shows "rendered names (privilege_statement action prep role privs target)"
proof -
  obtain ps where ps: "target = unlex ps" "pieces_ok (CHR '' '') ps" "piece_names ps \<subseteq> names"
    using assms(1) unfolding fragment_def by blast
  let ?grantee = "case role of Public \<Rightarrow> Txt ''PUBLIC'' | Role n \<Rightarrow> Name n"
  show ?thesis
    by (rule renderedI[of _ "[Txt action, Txt '' '', Txt privs, Txt '' ON ''] @ ps @ [Txt '' '', Txt prep, Txt '' '', ?grantee]"])
       (use ps assms in \<open>auto simp: privilege_statement_def render_grantee_def pieces_ok_append plain_char_def split: grantee.splits\<close>)
qed

lemma lex_dollar_body:
  assumes "CHR ''$'' \<notin> set body"
  shows "lex (InDollar tag acc) (body @ CHR ''$'' # tag @ CHR ''$'' # rest) =
           cons_token (Dollar (acc @ body)) (lex (Normal (CHR ''$'')) rest)"
  using assms
proof (induction body arbitrary: acc)
  case Nil
  have "starts_with (CHR ''$'' # tag @ CHR ''$'' # rest) ([CHR ''$''] @ tag @ [CHR ''$''])"
    by (simp add: starts_with_def)
  then show ?case by simp
next
  case (Cons c body)
  have "\<not> starts_with (c # body @ CHR ''$'' # tag @ CHR ''$'' # rest) ([CHR ''$''] @ tag @ [CHR ''$''])"
    using Cons.prems by (simp add: starts_with_def)
  then show ?case using Cons by simp
qed

lemma lex_tag:
  "list_all (\<lambda>c. word_char c \<and> c \<noteq> CHR ''$'') t \<Longrightarrow> lex (InTag acc) (t @ CHR ''$'' # s) = lex (InDollar (acc @ t) []) s"
  by (induction t arbitrary: acc) simp_all

definition do_tokens :: "string \<Rightarrow> token list" where
  "do_tokens body = [Sym (CHR ''D''), Sym (CHR ''O''), Sym (CHR '' ''), Dollar body, Sym (CHR '';'')]"

lemma lex_do_block:
  assumes "CHR ''$'' \<notin> set body"
  shows "lex_sql (''DO $pgroles$'' @ body @ ''$pgroles$;'') = Some (do_tokens body)"
proof -
  have tag: "list_all (\<lambda>c. word_char c \<and> c \<noteq> CHR ''$'') ''pgroles''"
    by (simp add: word_char_def is_ascii_alphanumeric_def is_ascii_alphabetic_def is_ascii_lowercase_def)
  have plain: "list_all plain_char ''DO ''" by (simp add: plain_char_def)
  let ?rest = "body @ CHR ''$'' # ''pgroles'' @ CHR ''$'' # '';''"
  have "lex_sql (''DO $pgroles$'' @ body @ ''$pgroles$;'') = lex (Normal (CHR '' '')) (''DO '' @ CHR ''$'' # ''pgroles'' @ CHR ''$'' # ?rest)"
    by (simp add: lex_sql_def del: lex.simps)
  also have "\<dots> = append_tokens (map Sym ''DO '') (lex (Normal (CHR '' '')) (CHR ''$'' # ''pgroles'' @ CHR ''$'' # ?rest))"
    using lex_plain_text[OF plain, of "CHR '' ''"] by (simp del: lex.simps)
  also have "\<dots> = append_tokens (map Sym ''DO '') (lex (InTag []) (''pgroles'' @ CHR ''$'' # ?rest))"
    by (subst lex.simps(2)) simp
  also have "\<dots> = append_tokens (map Sym ''DO '') (lex (InDollar ''pgroles'' []) ?rest)"
    using lex_tag[OF tag, of "[]" ?rest] by (simp del: lex.simps)
  also have "\<dots> = Some (do_tokens body)"
    unfolding lex_dollar_body[OF assms] by (simp add: do_tokens_def opens_comment_def)
  finally show ?thesis .
qed

lemma quote_no_dollar: "CHR ''$'' \<notin> set x \<Longrightarrow> CHR ''$'' \<notin> set (quote_literal x)"
  by (induction x) (auto simp: quote_literal_def quote_with_def)

lemma do_body_no_dollar:
  assumes "CHR ''$'' \<notin> set schema_name" "\<And>n. role = Role n \<Longrightarrow> CHR ''$'' \<notin> set n"
    "relation_relkinds_sql t = Inr relkinds" "list_all plain_char action" "list_all plain_char prep" "list_all plain_char privs"
  shows "CHR ''$'' \<notin> set (do_block_body action prep role privs t schema_name relkinds)"
proof -
  have p: "CHR ''$'' \<notin> set s" if "list_all plain_char s" for s using that by (auto simp: list_all_iff plain_char_def)
  have "CHR ''$'' \<notin> set relkinds" using assms(3) by (cases t) auto
  then show ?thesis
    using p[OF assms(4)] p[OF assms(5)] p[OF assms(6)] p[OF plain_keywords(1)] quote_no_dollar assms(1,2)
    by (cases role) (simp_all add: do_block_body_def)
qed

section \<open>Every statement is one statement\<close>

text \<open>The names a change may mention, and the inputs for which the contract holds.\<close>

definition inventory_names :: "sql_context \<Rightarrow> object_type \<Rightarrow> string option \<Rightarrow> string set" where
  "inventory_names ctx object_type schema =
     (case fmlookup (cx_object_inventory ctx) (object_type, unwrap_or schema ''public'') of
        Some names \<Rightarrow> set names
      | None \<Rightarrow> {})"

definition privilege_names ::
  "sql_context \<Rightarrow> grantee \<Rightarrow> object_type \<Rightarrow> string option \<Rightarrow> string option \<Rightarrow> string set" where
  "privilege_names ctx role object_type schema name =
     (case role of Public \<Rightarrow> {} | Role n \<Rightarrow> {n}) \<union> target_names object_type schema name \<union>
     inventory_names ctx object_type schema \<union> routine_base_name ` inventory_names ctx object_type schema"

definition change_names :: "sql_context \<Rightarrow> change \<Rightarrow> string set" where
  "change_names ctx change =
     (case change of
        CreateRole name _ \<Rightarrow> {name}
      | CreateSchema name owner \<Rightarrow> insert name (set_option owner)
      | AlterSchemaOwner name owner \<Rightarrow> {name, owner}
      | EnsureSchemaOwnerPrivileges name owner _ \<Rightarrow> privilege_names ctx (Role owner) Schema None (Some name)
      | AlterRole name attributes \<Rightarrow> insert name (\<Union>a\<in>set attributes. config_parameter a)
      | SetComment name _ \<Rightarrow> {name}
      | Grant role _ object_type schema name \<Rightarrow> privilege_names ctx role object_type schema name
      | Revoke role _ object_type schema name _ \<Rightarrow> privilege_names ctx role object_type schema name
      | SetDefaultPrivilege owner scope _ grantee _ \<Rightarrow>
          insert owner (set_option (scope_schema scope) \<union> (case grantee of Public \<Rightarrow> {} | Role n \<Rightarrow> {n}))
      | RevokeDefaultPrivilege owner scope _ grantee _ \<Rightarrow>
          insert owner (set_option (scope_schema scope) \<union> (case grantee of Public \<Rightarrow> {} | Role n \<Rightarrow> {n}))
      | AddMember role member _ _ \<Rightarrow> {role, member}
      | UpdateMemberOptions role member grantor _ _ _ \<Rightarrow> {role, member, grantor}
      | RemoveMember role member grantor \<Rightarrow> {role, member} \<union> set_option grantor
      | ReassignOwned from_role to_role \<Rightarrow> {from_role, to_role}
      | DropOwned role \<Rightarrow> {role}
      | TerminateSessions role \<Rightarrow> {}
      | SetPassword name _ \<Rightarrow> {name}
      | DropRole name \<Rightarrow> {name})"

definition privilege_renderable ::
  "sql_context \<Rightarrow> grantee \<Rightarrow> object_type \<Rightarrow> string option \<Rightarrow> string option \<Rightarrow> bool" where
  "privilege_renderable ctx role object_type schema name \<longleftrightarrow>
     (object_type = Function \<longrightarrow> (\<forall>n \<in> set_option name \<union> inventory_names ctx object_type schema. signature_plain n)) \<and>
     (contains_key (cx_object_inventory ctx) (object_type, unwrap_or schema ''public'') \<or>
      CHR ''$'' \<notin> set (unwrap_or schema ''public'') \<union> set (grantee_as_str role))"

definition renderable :: "sql_context \<Rightarrow> change \<Rightarrow> bool" where
  "renderable ctx change =
     (case change of
        Grant role _ object_type schema name \<Rightarrow> privilege_renderable ctx role object_type schema name
      | Revoke role _ object_type schema name _ \<Rightarrow> privilege_renderable ctx role object_type schema name
      | _ \<Rightarrow> True)"

definition reads_as_one :: "string set \<Rightarrow> string \<Rightarrow> bool" where
  "reads_as_one names sql \<longleftrightarrow> (\<exists>ts. lex_sql sql = Some ts \<and> single_statement ts \<and> identifiers ts \<subseteq> names)"

lemma reads_rendered: "rendered names sql \<Longrightarrow> reads_as_one names sql"
  using rendered_single unfolding reads_as_one_def .

lemma reads_do_block: "CHR ''$'' \<notin> set body \<Longrightarrow> reads_as_one names (''DO $pgroles$'' @ body @ ''$pgroles$;'')"
  using lex_do_block by (simp add: reads_as_one_def do_tokens_def single_statement_def identifiers_def)

lemma inventory_target_routine: "inventory_target Function s n = format_function_target (Some s) n"
  by (simp add: inventory_target_def)

lemma inventory_target_relation:
  "t \<noteq> Function \<Longrightarrow> inventory_target t s n = sql_object_type_keyword t @ '' '' @ quote_ident s @ ''.'' @ quote_ident n"
  by (cases t) (simp_all add: inventory_target_def)

lemma reads_privileges:
  assumes ok: "privilege_renderable ctx role object_type schema name"
    and act: "action = ''GRANT'' \<or> action = ''REVOKE''"
    and out: "render_privilege_statements action role (format_privileges privs) object_type schema name ctx = Inr stmts"
  shows "list_all (reads_as_one (privilege_names ctx role object_type schema name)) stmts"
proof -
  let ?names = "privilege_names ctx role object_type schema name"
  let ?prep = "if action = ''GRANT'' then ''TO'' else ''FROM''"
  have plain: "list_all plain_char action" "list_all plain_char ?prep" using act by (auto simp: plain_char_def)
  have role: "role = Role n \<Longrightarrow> n \<in> ?names" for n by (simp add: privilege_names_def)
  have stmt: "reads_as_one ?names (privilege_statement action ?prep role (format_privileges privs) target)"
    if "fragment ?names target" for target
    using rendered_privilege_statement[OF that plain plain_privileges role] by (rule reads_rendered)
  have named: "reads_as_one ?names (privilege_statement action ?prep role (format_privileges privs) (format_object_target object_type schema name))"
    using ok by (intro stmt fragment_object_target) (auto simp: privilege_names_def privilege_renderable_def)
  show ?thesis
  proof (cases "object_type \<in> {Table, View, MaterializedView, Sequence, Function} \<and> name = Some ''*''")
    case False
    then show ?thesis using out named by (auto simp: render_privilege_statements_def Let_def)
  next
    case True
    have inv: "fragment ?names (inventory_target object_type (unwrap_or schema ''public'') n)"
      if "n \<in> inventory_names ctx object_type schema" for n
    proof -
      have n: "n \<in> ?names" "routine_base_name n \<in> ?names" "unwrap_or schema ''public'' \<in> ?names"
        using that by (auto simp: privilege_names_def target_names_def)
      moreover have "object_type = Function \<Longrightarrow> signature_plain n" using ok that by (auto simp: privilege_renderable_def)
      ultimately show ?thesis
        using fragment_named_target(2)[OF n(3) n(1) plain_keywords(1)] fragment_function_target[of n "Some (unwrap_or schema ''public'')"]
        by (cases "object_type = Function") (simp_all add: inventory_target_routine inventory_target_relation)
    qed
    have names: "name = Some ''*''" using True by simp
    have do_block: "reads_as_one ?names (''DO $pgroles$'' @ do_block_body action ?prep role (format_privileges privs)
        object_type (unwrap_or schema ''public'') relkinds @ ''$pgroles$;'')"
      if "relation_relkinds_sql object_type = Inr relkinds" "\<not> contains_key (cx_object_inventory ctx) (object_type, unwrap_or schema ''public'')"
      for relkinds
      using ok that(2) by (intro reads_do_block do_body_no_dollar[OF _ _ that(1) plain plain_privileges])
        (auto simp: privilege_renderable_def grantee_as_str_def)
    have w: "render_wildcard_expanded action ?prep role (format_privileges privs) object_type schema ctx = Inr stmts"
      using out True unfolding render_privilege_statements_def Let_def by simp
    show ?thesis
    proof (cases "fmlookup (cx_object_inventory ctx) (object_type, unwrap_or schema ''public'')")
      case None
      then show ?thesis using w named do_block
        by (auto simp: render_wildcard_expanded_def Let_def names contains_key_def simp del: append.simps split: if_splits)
    next
      case (Some ns)
      have "set ns = inventory_names ctx object_type schema" using Some by (simp add: inventory_names_def)
      then show ?thesis using w named stmt[OF inv] Some
        by (auto simp: render_wildcard_expanded_def Let_def names list_all_iff split: if_splits)
    qed
  qed
qed

lemma reads_default_privilege:
  assumes "owner \<in> names" "set_option (scope_schema scope) \<subseteq> names" "\<And>n. grantee = Role n \<Longrightarrow> n \<in> names"
    "default_privilege_object_keyword t = Inr kw" "list_all plain_char verb" "list_all plain_char prep"
  shows "reads_as_one names (''ALTER DEFAULT PRIVILEGES FOR ROLE '' @ quote_ident owner @ render_default_privilege_scope_clause scope
    @ verb @ format_privileges privs @ '' ON '' @ kw @ prep @ '' '' @ render_grantee grantee @ '';'')"
proof (rule reads_rendered)
  have kw: "list_all plain_char kw" using assms(4) by (cases t) (auto simp: plain_char_def)
  let ?scope = "case scope of Global \<Rightarrow> [] | SchemaScope s \<Rightarrow> [Txt '' IN SCHEMA '', Name s]"
  let ?grantee = "case grantee of Public \<Rightarrow> Txt ''PUBLIC'' | Role n \<Rightarrow> Name n"
  let ?ps = "[Txt ''ALTER DEFAULT PRIVILEGES FOR ROLE '', Name owner] @ ?scope @
    [Txt verb, Txt (format_privileges privs), Txt '' ON '', Txt kw, Txt prep, Txt '' '', ?grantee]"
  show "rendered names (''ALTER DEFAULT PRIVILEGES FOR ROLE '' @ quote_ident owner @ render_default_privilege_scope_clause scope
    @ verb @ format_privileges privs @ '' ON '' @ kw @ prep @ '' '' @ render_grantee grantee @ '';'')"
    by (rule renderedI[of _ ?ps]; use assms kw plain_privileges in \<open>cases scope; cases grantee\<close>)
       (simp_all add: render_grantee_def plain_char_def pieces_ok_append)
qed

lemma reads_options:
  assumes "list_all (list_all plain_char) options" "{role, member} \<subseteq> names" "list_all plain_char tail"
  shows "reads_as_one names (''GRANT '' @ quote_ident role @ '' TO '' @ quote_ident member @ '' WITH '' @ join_str '', '' options @ tail @ '';'')"
  using assms plain_join[OF assms(1), of "'', ''"]
  by (intro reads_rendered renderedI[of _ "[Txt ''GRANT '', Name role, Txt '' TO '', Name member, Txt '' WITH '', Txt (join_str '', '' options), Txt tail]"])
     (simp_all add: plain_char_def)

lemma plain_options: "list_all (list_all plain_char) (granted_options inherit admin binding)"
  by (simp add: granted_options_def plain_char_def)

lemma reads_one_name:
  "x \<in> names \<Longrightarrow> list_all plain_char kw \<Longrightarrow> \<not> word_char (last (CHR '' '' # kw)) \<Longrightarrow> list_all plain_char tail \<Longrightarrow>
     reads_as_one names (kw @ quote_ident x @ tail @ '';'')"
  by (cases kw rule: rev_cases) (auto intro!: reads_rendered renderedI[of _ "[Txt kw, Name x, Txt tail]"] simp: plain_char_def)

lemma reads_two_names:
  assumes "x \<in> names" "y \<in> names" "list_all plain_char kw" "last (CHR '' '' # kw) = CHR '' ''"
    "list_all plain_char mid" "mid \<noteq> []" "last mid = CHR '' ''" "list_all plain_char tail"
  shows "reads_as_one names (kw @ quote_ident x @ mid @ quote_ident y @ tail @ '';'')"
  by (rule reads_rendered, rule renderedI[of _ "[Txt kw, Name x, Txt mid, Name y, Txt tail]"]) (use assms in auto)

lemma reads_three_names:
  assumes "x \<in> names" "y \<in> names" "z \<in> names" "list_all plain_char kw" "last (CHR '' '' # kw) = CHR '' ''"
    "list_all plain_char mid" "mid \<noteq> []" "last mid = CHR '' ''" "list_all plain_char by'" "by' \<noteq> []" "last by' = CHR '' ''"
    "list_all plain_char tail"
  shows "reads_as_one names (kw @ quote_ident x @ mid @ quote_ident y @ by' @ quote_ident z @ tail @ '';'')"
  by (rule reads_rendered, rule renderedI[of _ "[Txt kw, Name x, Txt mid, Name y, Txt by', Name z, Txt tail]"]) (use assms in auto)

lemma reads_members:
  assumes "{role, member} \<subseteq> names"
  shows "list_all (reads_as_one names) (render_add_member role member inherit admin ctx)"
    "set_option grantor \<subseteq> names \<Longrightarrow> list_all (reads_as_one names) (render_remove_member role member grantor ctx)"
proof -
  let ?options = "[if inherit then ''INHERIT TRUE'' else ''INHERIT FALSE''] @ (if admin then [''ADMIN TRUE''] else [])"
  have o: "reads_as_one names (''GRANT '' @ quote_ident role @ '' TO '' @ quote_ident member @ '' WITH '' @ join_str '', '' ?options @ [] @ '';'')"
    by (rule reads_options) (use assms in \<open>simp_all add: plain_char_def\<close>)
  have l: "reads_as_one names (''GRANT '' @ quote_ident role @ '' TO '' @ quote_ident member @ tail @ '';'')" if "list_all plain_char tail" for tail
    by (rule reads_two_names) (use assms that in \<open>simp_all add: plain_char_def\<close>)
  show "list_all (reads_as_one names) (render_add_member role member inherit admin ctx)"
    using o l[of "'' WITH ADMIN OPTION''"] l[of "[]"] by (auto simp: render_add_member_def plain_char_def)
  assume g: "set_option grantor \<subseteq> names"
  have r: "reads_as_one names (''REVOKE '' @ quote_ident role @ '' FROM '' @ quote_ident member @ [] @ '';'')"
    by (rule reads_two_names) (use assms in \<open>simp_all add: plain_char_def\<close>)
  have rg: "reads_as_one names (''REVOKE '' @ quote_ident role @ '' FROM '' @ quote_ident member @ '' GRANTED BY '' @ quote_ident x @ [] @ '';'')"
    if "x \<in> names" for x
    by (rule reads_three_names) (use assms that in \<open>simp_all add: plain_char_def\<close>)
  show "list_all (reads_as_one names) (render_remove_member role member grantor ctx)"
    using r rg g by (auto simp: render_remove_member_def split: option.splits)
qed

lemma reads_update_options:
  assumes "{role, member, grantor} \<subseteq> names"
  shows "list_all (reads_as_one names) (render_update_member_options role member grantor inherit admin binding)"
proof -
  have r: "list_all (reads_as_one names) (option_revoke role member grantor kw v)" if "list_all plain_char kw" for kw v
  proof -
    have "reads_as_one names ((''REVOKE '' @ kw @ '' OPTION FOR '') @ quote_ident role @ '' FROM '' @ quote_ident member
        @ '' GRANTED BY '' @ quote_ident grantor @ '' RESTRICT'' @ '';'')"
      by (rule reads_three_names) (use assms that in \<open>simp_all add: plain_char_def\<close>)
    then show ?thesis by (simp add: option_revoke_def)
  qed
  let ?mid = "'' WITH '' @ join_str '', '' (granted_options inherit admin binding) @ '' GRANTED BY ''"
  have "list_all plain_char ?mid" using plain_join[OF plain_options, of "'', ''"] by (simp add: plain_char_def)
  then have "reads_as_one names (''GRANT '' @ quote_ident role @ '' TO '' @ quote_ident member @ ?mid @ quote_ident grantor @ [] @ '';'')"
    by (intro reads_three_names) (use assms in \<open>simp_all add: plain_char_def\<close>)
  then show ?thesis using r[of "''INHERIT''" inherit] r[of "''ADMIN''" admin]
    by (simp add: render_update_member_options_def plain_char_def)
qed

lemma reads_change:
  assumes "renderable ctx change" "render_unscoped_statements change ctx = Inr stmts"
  shows "list_all (reads_as_one (change_names ctx change)) stmts"
proof (cases change)
  case (EnsureSchemaOwnerPrivileges name owner privileges)
  have "rendered (privilege_names ctx (Role owner) Schema None (Some name))
      (privilege_statement ''GRANT'' ''TO'' (Role owner) (format_privileges privileges) (format_object_target Schema None (Some name)))"
    by (rule rendered_privilege_statement)
       (auto simp: privilege_names_def plain_privileges plain_char_def intro!: fragment_object_target)
  then show ?thesis using assms(2) EnsureSchemaOwnerPrivileges reads_rendered
    by (auto simp: render_unscoped_statements_def render_grant_def render_privilege_statements_def Let_def change_names_def)
next
  case (Grant role privileges t schema name)
  then show ?thesis using assms reads_privileges[of ctx role t schema name "''GRANT''" privileges stmts]
    by (simp add: render_unscoped_statements_def render_grant_def change_names_def renderable_def)
next
  case (Revoke role privileges t schema name grantor)
  then show ?thesis using assms reads_privileges[of ctx role t schema name "''REVOKE''" privileges stmts]
    by (simp add: render_unscoped_statements_def render_revoke_def change_names_def renderable_def)
next
  case (SetDefaultPrivilege owner scope t grantee privileges)
  then obtain kw where kw: "default_privilege_object_keyword t = Inr kw"
    using assms(2) by (auto simp: render_unscoped_statements_def render_set_default_privilege_def)
  have n: "owner \<in> change_names ctx change" "set_option (scope_schema scope) \<subseteq> change_names ctx change"
    "\<And>n. grantee = Role n \<Longrightarrow> n \<in> change_names ctx change"
    using SetDefaultPrivilege by (auto simp: change_names_def)
  from reads_default_privilege[OF n kw, where verb = "'' GRANT ''" and prep = "'' TO''" and privs = privileges] show ?thesis
    using assms(2) SetDefaultPrivilege kw by (auto simp: render_unscoped_statements_def render_set_default_privilege_def plain_char_def)
next
  case (RevokeDefaultPrivilege owner scope t grantee privileges)
  then obtain kw where kw: "default_privilege_object_keyword t = Inr kw"
    using assms(2) by (auto simp: render_unscoped_statements_def render_revoke_default_privilege_def)
  have n: "owner \<in> change_names ctx change" "set_option (scope_schema scope) \<subseteq> change_names ctx change"
    "\<And>n. grantee = Role n \<Longrightarrow> n \<in> change_names ctx change"
    using RevokeDefaultPrivilege by (auto simp: change_names_def)
  from reads_default_privilege[OF n kw, where verb = "'' REVOKE ''" and prep = "'' FROM''" and privs = privileges] show ?thesis
    using assms(2) RevokeDefaultPrivilege kw by (auto simp: render_unscoped_statements_def render_revoke_default_privilege_def plain_char_def)
next
  case (TerminateSessions role)
  have "reads_as_one {} (''SELECT pg_terminate_backend(pid) FROM pg_stat_activity WHERE usename = '' @ quote_literal role
        @ '' AND pid <> pg_backend_pid()'' @ '';'')"
    by (rule reads_rendered, rule renderedI[of _ "[Txt ''SELECT pg_terminate_backend(pid) FROM pg_stat_activity WHERE usename = '',
        Lit role, Txt '' AND pid <> pg_backend_pid()'']"]) (simp_all add: plain_char_def)
  then show ?thesis using assms(2) TerminateSessions
    by (auto simp: render_unscoped_statements_def render_terminate_sessions_def change_names_def)
next
  case (SetPassword name password)
  have "reads_as_one {name} (''ALTER ROLE '' @ quote_ident name @ '' PASSWORD '' @ quote_literal password @ '';'')"
    by (rule reads_rendered, rule renderedI[of _ "[Txt ''ALTER ROLE '', Name name, Txt '' PASSWORD '', Lit password]"]) (simp_all add: plain_char_def)
  then show ?thesis using assms(2) SetPassword
    by (auto simp: render_unscoped_statements_def render_set_password_def change_names_def)
next
  case (SetComment name comment)
  then show ?thesis using assms(2) reads_rendered[OF rendered_comment[of name "{name}"]] reads_one_name[of name "{name}" "''COMMENT ON ROLE ''" "'' IS NULL''"]
    by (auto simp: render_unscoped_statements_def render_set_comment_def change_names_def plain_char_def split: option.splits)
next
  case (CreateRole name st)
  then show ?thesis using assms(2) rendered_create_role[of name "{name}" st] reads_rendered
    by (auto simp: render_unscoped_statements_def change_names_def list_all_iff)
next
  case (AlterRole name attributes)
  then show ?thesis using assms(2) rendered_alter_role[of name "change_names ctx change" attributes] reads_rendered
    by (auto simp: render_unscoped_statements_def change_names_def list_all_iff)
next
  case (CreateSchema name owner)
  then show ?thesis using assms(2) reads_one_name[of name "change_names ctx change" "''CREATE SCHEMA ''" "[]"]
      reads_two_names[of name "change_names ctx change" _ "''CREATE SCHEMA ''" "'' AUTHORIZATION ''" "[]"]
    by (auto simp: render_unscoped_statements_def render_create_schema_def change_names_def plain_char_def split: option.splits)
next
  case (AlterSchemaOwner name owner)
  then show ?thesis using assms(2) reads_two_names[of name "{name, owner}" owner "''ALTER SCHEMA ''" "'' OWNER TO ''" "[]"]
    by (auto simp: render_unscoped_statements_def render_alter_schema_owner_def change_names_def plain_char_def)
next
  case (ReassignOwned from_role to_role)
  then show ?thesis using assms(2) reads_two_names[of from_role "{from_role, to_role}" to_role "''REASSIGN OWNED BY ''" "'' TO ''" "[]"]
    by (auto simp: render_unscoped_statements_def render_reassign_owned_def change_names_def plain_char_def)
next
  case (DropOwned role)
  then show ?thesis using assms(2) reads_one_name[of role "{role}" "''DROP OWNED BY ''" "[]"]
    by (auto simp: render_unscoped_statements_def render_drop_owned_def change_names_def plain_char_def)
next
  case (DropRole name)
  then show ?thesis using assms(2) reads_one_name[of name "{name}" "''DROP ROLE IF EXISTS ''" "[]"]
    by (auto simp: render_unscoped_statements_def  change_names_def plain_char_def)
next
  case (UpdateMemberOptions role member grantor inherit admin binding)
  then show ?thesis using assms(2) reads_update_options[of role member grantor "{role, member, grantor}"]
    by (auto simp: render_unscoped_statements_def change_names_def)
next
  case (AddMember role member inherit admin)
  then show ?thesis using assms(2) reads_members(1)[of role member "{role, member}"]
    by (auto simp: render_unscoped_statements_def change_names_def)
next
  case (RemoveMember role member grantor)
  then show ?thesis using assms(2) reads_members(2)[of role member "{role, member} \<union> set_option grantor" grantor ctx]
    by (auto simp: render_unscoped_statements_def change_names_def)
qed

section \<open>Roles of a session\<close>

text \<open>
  A session that executes the statements in order: \<open>SET ROLE\<close> and \<open>RESET ROLE\<close> change the role, every
  other statement is logged with the role it runs under.
\<close>

definition role_command :: "string \<Rightarrow> string \<Rightarrow> string option" where
  "role_command login sql =
     (if sql = ''RESET ROLE;'' then Some login
      else if starts_with sql ''SET ROLE ''
      then (case lex_sql (drop 9 sql) of Some (Quoted _ role # _) \<Rightarrow> Some role | _ \<Rightarrow> None)
      else None)"

definition session_step :: "string \<Rightarrow> string \<Rightarrow> string \<times> (string \<times> string) list \<Rightarrow> string \<times> (string \<times> string) list" where
  "session_step login sql = (\<lambda>(role, log).
     case role_command login sql of Some r \<Rightarrow> (r, log) | None \<Rightarrow> (role, log @ [(role, sql)]))"

definition run_session :: "string \<Rightarrow> string list \<Rightarrow> string \<Rightarrow> string \<times> (string \<times> string) list" where
  "run_session login sqls role = fold (session_step login) sqls (role, [])"

definition statements_of :: "sql_context \<Rightarrow> change \<Rightarrow> string list" where
  "statements_of ctx change = (case render_unscoped_statements change ctx of Inr stmts \<Rightarrow> stmts | Inl _ \<Rightarrow> [])"

definition session_role :: "string \<Rightarrow> sql_context \<Rightarrow> string" where
  "session_role login ctx = unwrap_or (cx_execution_role ctx) login"

text \<open>The specification: each change's statements, in plan order, under the grantor of the revoke or the session's role.\<close>

definition expected_log :: "string \<Rightarrow> sql_context \<Rightarrow> change list \<Rightarrow> (string \<times> string) list" where
  "expected_log start ctx changes =
     concat (map (\<lambda>c. map (\<lambda>sql. (unwrap_or (revoke_grantor c) start, sql)) (statements_of ctx c)) changes)"

definition change_verb :: "string \<Rightarrow> bool" where
  "change_verb sql \<longleftrightarrow> take 3 sql \<in> {''CRE'', ''ALT'', ''COM'', ''GRA'', ''REV'', ''REA'', ''DRO'', ''SEL'', ''DO ''}"

lemma change_verb_no_role_command: "change_verb sql \<Longrightarrow> role_command login sql = None"
  by (auto simp: change_verb_def role_command_def starts_with_def prefix_def)

lemma verbs_privileges:
  assumes "action = ''GRANT'' \<or> action = ''REVOKE''"
    "render_privilege_statements action role privs t schema name ctx = Inr stmts"
  shows "list_all change_verb stmts"
proof -
  have s: "change_verb (privilege_statement action prep r p target)" for prep r p target
    using assms(1) by (auto simp: change_verb_def privilege_statement_def)
  have d: "change_verb (''DO $pgroles$'' @ x)" for x by (simp add: change_verb_def)
  have "list_all change_verb stmts" if "render_wildcard_expanded action prep role privs t schema ctx = Inr stmts" for prep
    using that s d by (auto simp: render_wildcard_expanded_def Let_def list_all_iff simp del: append.simps split: if_splits option.splits)
  then show ?thesis using assms(2) s by (auto simp: render_privilege_statements_def Let_def split: if_splits)
qed

lemma verbs_attributes: "list_all change_verb (attribute_statement name a)"
  by (cases a rule: config_parameter.cases) (simp_all add: change_verb_def render_set_config_def)

lemma verbs_change:
  assumes "render_unscoped_statements change ctx = Inr stmts"
  shows "list_all change_verb stmts"
proof (cases change)
  case (AlterRole name attributes)
  then show ?thesis using assms verbs_attributes
    by (auto simp: render_unscoped_statements_def render_alter_role_def Let_def list_all_iff) (simp_all add: change_verb_def)
qed (use assms verbs_privileges[of "''GRANT''"] verbs_privileges[of "''REVOKE''"] in \<open>auto simp: render_unscoped_statements_def render_grant_def render_revoke_def\<close>,
     auto simp: change_verb_def render_create_role_def render_create_schema_def render_alter_schema_owner_def render_set_comment_def
       render_set_default_privilege_def render_revoke_default_privilege_def render_add_member_def render_remove_member_def
       render_update_member_options_def option_revoke_def render_reassign_owned_def render_drop_owned_def
       render_terminate_sessions_def render_set_password_def split: option.splits)

lemma session_changes:
  "list_all change_verb sqls \<Longrightarrow> fold (session_step login) sqls (role, log) = (role, log @ map (Pair role) sqls)"
  by (induction sqls arbitrary: log) (simp_all add: session_step_def change_verb_no_role_command)

lemma role_command_set_role [simp]: "role_command login (set_role role) = Some role"
proof -
  have "lex_sql (quote_ident role @ '';'') = Some [Quoted DQ role, Sym (CHR '';'')]"
    unfolding lex_sql_def quote_ident_def using lex_quote[of DQ "CHR '' ''" "'';''" role] by (simp add: opens_comment_def)
  then show ?thesis by (simp add: role_command_def set_role_def starts_with_def)
qed

lemma role_command_restore [simp]: "role_command login (restore_role ctx) = Some (session_role login ctx)"
proof (cases "cx_execution_role ctx")
  case None
  then show ?thesis by (simp add: restore_role_def session_role_def role_command_def)
qed (simp add: restore_role_def session_role_def)

lemma session_switch:
  "fold (session_step login) (map st_sql (role_switch ctx active grantor)) (unwrap_or active (session_role login ctx), log) =
     (unwrap_or grantor (session_role login ctx), log)"
  by (cases active; cases grantor) (auto simp: role_switch_def plain_def session_step_def)

lemma st_sql_redact [simp]: "map st_sql (map (redact change) stmts) = stmts"
  by (simp add: redact_def comp_def)

lemma session_batch:
  assumes "fold_r (batch_step ctx) changes (result, active) = Inr (result', active')"
    "run_session login (map st_sql result) start = (unwrap_or active start, log)" "start = session_role login ctx"
  shows "run_session login (map st_sql result') start = (unwrap_or active' start, log @ expected_log start ctx changes)"
  using assms
proof (induction changes arbitrary: result active log)
  case Nil
  then show ?case by (simp add: expected_log_def)
next
  case (Cons c cs)
  obtain stmts where stmts: "render_unscoped_statements c ctx = Inr stmts"
    using Cons.prems(1) by (auto simp: batch_step_def)
  have of: "statements_of ctx c = stmts" using stmts by (simp add: statements_of_def)
  let ?g = "revoke_grantor c"
  show ?case
  proof (cases "stmts = []")
    case True
    then show ?thesis using Cons stmts of by (auto simp: batch_step_def expected_log_def)
  next
    case False
    let ?r = "result @ role_switch ctx active ?g @ map (redact c) stmts"
    have "run_session login (map st_sql ?r) start = (unwrap_or ?g start, log @ map (Pair (unwrap_or ?g start)) stmts)"
      using Cons.prems(2,3) session_switch[of login ctx active ?g] session_changes[OF verbs_change[OF stmts]]
      by (simp add: run_session_def del: map_map)
    from Cons.IH[OF _ this] show ?thesis using Cons.prems(1,3) stmts of False
      by (auto simp: batch_step_def expected_log_def)
  qed
qed

text \<open>
  C5: a rendered plan executed in a session runs the statements of every change in plan order, each
  under the grantor of its revoke or else under the session's own role, and leaves the session in its own role.
\<close>

theorem rendered_plan_session:
  assumes "render_batch_with_context changes ctx = Inr statements"
  shows "run_session login (map st_sql statements) (session_role login ctx) =
           (session_role login ctx, expected_log (session_role login ctx) ctx changes)"
proof -
  obtain result active where r: "fold_r (batch_step ctx) changes ([], None) = Inr (result, active)"
    "statements = result @ (if active \<noteq> None then [plain (restore_role ctx)] else [])"
    using assms by (auto simp: render_batch_with_context_def split: if_splits)
  have "run_session login (map st_sql result) (session_role login ctx) =
      (unwrap_or active (session_role login ctx), expected_log (session_role login ctx) ctx changes)"
    using session_batch[OF r(1), of login "session_role login ctx" "[]"] by (simp add: run_session_def)
  then show ?thesis using r(2) by (cases active) (simp_all add: run_session_def plain_def session_step_def)
qed

section \<open>Statements of a plan\<close>

definition plan_names :: "sql_context \<Rightarrow> change list \<Rightarrow> string set" where
  "plan_names ctx changes =
     (\<Union>c\<in>set changes. change_names ctx c \<union> set_option (revoke_grantor c)) \<union> set_option (cx_execution_role ctx)"

lemma reads_mono: "reads_as_one A sql \<Longrightarrow> A \<subseteq> B \<Longrightarrow> reads_as_one B sql"
  unfolding reads_as_one_def by blast

lemma reads_set_role: "r \<in> names \<Longrightarrow> reads_as_one names (set_role r)"
  using reads_one_name[of r names "''SET ROLE ''" "[]"] by (simp add: set_role_def plain_char_def)

lemma reads_restore: "set_option (cx_execution_role ctx) \<subseteq> names \<Longrightarrow> reads_as_one names (restore_role ctx)"
  using reads_set_role reads_rendered[OF renderedI[of "''RESET ROLE;''" "[Txt ''RESET ROLE'']"]]
  by (cases "cx_execution_role ctx") (simp_all add: restore_role_def plain_char_def)

lemma batch_reads:
  assumes "fold_r (batch_step ctx) changes (result, active) = Inr (result', active')"
    "\<forall>c\<in>set changes. renderable ctx c" "plan_names ctx changes \<subseteq> names"
    "\<forall>s\<in>set result. reads_as_one names (st_sql s)"
  shows "\<forall>s\<in>set result'. reads_as_one names (st_sql s)"
  using assms
proof (induction changes arbitrary: result active)
  case (Cons c cs)
  obtain stmts where stmts: "render_unscoped_statements c ctx = Inr stmts"
    using Cons.prems(1) by (auto simp: batch_step_def)
  have n: "change_names ctx c \<subseteq> names" "set_option (revoke_grantor c) \<subseteq> names" "set_option (cx_execution_role ctx) \<subseteq> names"
    "plan_names ctx cs \<subseteq> names"
    using Cons.prems(3) by (auto simp: plan_names_def)
  have "list_all (reads_as_one names) stmts"
    using reads_change[OF _ stmts] Cons.prems(2) reads_mono[OF _ n(1)] by (auto simp: list_all_iff)
  then have body: "\<forall>s\<in>set (map (redact c) stmts). reads_as_one names (st_sql s)"
    by (auto simp: redact_def list_all_iff)
  have switch: "\<forall>s\<in>set (role_switch ctx active (revoke_grantor c)). reads_as_one names (st_sql s)"
    using reads_restore[OF n(3)] reads_set_role n(2) by (cases "revoke_grantor c") (auto simp: role_switch_def plain_def)
  show ?case
  proof (cases "stmts = []")
    case True
    then show ?thesis using Cons stmts n(4) by (auto simp: batch_step_def)
  next
    case False
    then have step: "batch_step ctx c (result, active) =
        Inr (result @ role_switch ctx active (revoke_grantor c) @ map (redact c) stmts, revoke_grantor c)"
      using Cons.prems(1) stmts by (auto simp: batch_step_def)
    have "\<forall>s\<in>set (result @ role_switch ctx active (revoke_grantor c) @ map (redact c) stmts). reads_as_one names (st_sql s)"
      using Cons.prems(4) body switch by auto
    from Cons.IH[OF _ _ n(4) this] show ?thesis using Cons.prems(1,2) step by auto
  qed
qed simp

text \<open>
  C6: every statement of a rendered plan is read by the SQL lexer as exactly one statement, whatever the
  names and texts of the plan contain, and the identifiers in it are names of the plan. The two exceptions the
  renderer makes (routine arguments are copied, the fallback without an inventory is dollar-quoted) are the
  condition \<open>renderable\<close>.
\<close>

theorem rendered_plan_reads_back:
  assumes "render_batch_with_context changes ctx = Inr statements" "\<forall>c\<in>set changes. renderable ctx c"
    "s \<in> set statements"
  shows "\<exists>tokens. lex_sql (st_sql s) = Some tokens \<and> single_statement tokens \<and> identifiers tokens \<subseteq> plan_names ctx changes"
proof -
  obtain result active where r: "fold_r (batch_step ctx) changes ([], None) = Inr (result, active)"
    "statements = result @ (if active \<noteq> None then [plain (restore_role ctx)] else [])"
    using assms(1) by (auto simp: render_batch_with_context_def split: if_splits)
  have "reads_as_one (plan_names ctx changes) (st_sql s)"
    using batch_reads[OF r(1) assms(2), of "plan_names ctx changes"] r(2) assms(3)
      reads_restore[of ctx "plan_names ctx changes"]
    by (auto simp: plain_def plan_names_def split: if_splits)
  then show ?thesis unfolding reads_as_one_def .
qed

section \<open>Redaction\<close>

text \<open>Two plans that differ in passwords only.\<close>

fun same_but_password :: "change \<Rightarrow> change \<Rightarrow> bool" where
  "same_but_password (SetPassword name _) (SetPassword name' _) = (name = name')"
| "same_but_password a b = (a = b)"

lemma same_but_passwordE:
  assumes "same_but_password a b"
  obtains (eq) "a = b" | (pw) name p q where "a = SetPassword name p" "b = SetPassword name q"
  using assms by (cases "(a, b)" rule: same_but_password.cases) auto

definition redacted_view :: "sql_render_error + batch_state \<Rightarrow> sql_render_error + (string list \<times> string option)" where
  "redacted_view = map_sum id (map_prod (map st_redacted_sql) id)"

lemma redacted_step:
  assumes "same_but_password a b" "map st_redacted_sql r = map st_redacted_sql r'"
  shows "redacted_view (batch_step ctx a (r, active)) = redacted_view (batch_step ctx b (r', active))"
  using assms(1)
proof (cases rule: same_but_passwordE)
  case eq
  then show ?thesis using assms(2)
    by (cases "validate_membership_options b ctx"; cases "render_unscoped_statements b ctx")
       (simp_all add: batch_step_def redacted_view_def)
next
  case pw
  then show ?thesis using assms(2)
    by (simp add: batch_step_def redacted_view_def validate_membership_options_def render_unscoped_statements_def
        render_set_password_def redact_def revoke_grantor_def)
qed

lemma redacted_fold:
  "list_all2 same_but_password as bs \<Longrightarrow> map st_redacted_sql r = map st_redacted_sql r' \<Longrightarrow>
     redacted_view (fold_r (batch_step ctx) as (r, active)) = redacted_view (fold_r (batch_step ctx) bs (r', active))"
proof (induction arbitrary: r r' active rule: list_all2_induct)
  case Nil
  then show ?case by (simp add: redacted_view_def)
next
  case (Cons a as b bs)
  have step: "redacted_view (batch_step ctx a (r, active)) = redacted_view (batch_step ctx b (r', active))"
    using redacted_step[OF Cons.hyps(1) Cons.prems] .
  show ?case
  proof (cases "batch_step ctx a (r, active)")
    case (Inl e)
    then show ?thesis using step by (cases "batch_step ctx b (r', active)") (auto simp: redacted_view_def)
  next
    case (Inr st)
    obtain r1 a1 where st: "st = (r1, a1)" by (cases st)
    then obtain r2 where b: "batch_step ctx b (r', active) = Inr (r2, a1)" "map st_redacted_sql r1 = map st_redacted_sql r2"
      using step Inr by (cases "batch_step ctx b (r', active)") (auto simp: redacted_view_def)
    show ?thesis using Cons.IH[OF b(2)] Inr st b(1) by simp
  qed
qed

lemma same_but_password_replaces:
  assumes "list_all2 same_but_password as bs"
  shows "list_ex (replaces_unattributed as) as = list_ex (replaces_unattributed bs) bs"
proof -
  have ex: "list_ex P as = list_ex P bs" if "\<And>n p. \<not> P (SetPassword n p)" for P
    using assms that by (induction rule: list_all2_induct) (auto elim!: same_but_passwordE)
  have "replaces_unattributed as = replaces_unattributed bs"
    using ex[of "adds_member r m" for r m] by (auto simp: replaces_unattributed_def adds_member_def split: change.splits option.splits)
  then show ?thesis using ex[of "replaces_unattributed bs"] by (simp add: replaces_unattributed_def)
qed

text \<open>
  C7: the redacted statements of a plan do not depend on its passwords: plans that differ in the values of
  \<open>SetPassword\<close> only render to the same redacted text, or fail in the same way.
\<close>

theorem redaction_hides_passwords:
  assumes "list_all2 same_but_password changes changes'"
  shows "map_sum id (map st_redacted_sql) (render_batch_with_context changes ctx) =
           map_sum id (map st_redacted_sql) (render_batch_with_context changes' ctx)"
proof -
  have "redacted_view (fold_r (batch_step ctx) changes ([], None)) = redacted_view (fold_r (batch_step ctx) changes' ([], None))"
    by (rule redacted_fold[OF assms]) simp
  then show ?thesis using same_but_password_replaces[OF assms]
    by (cases "fold_r (batch_step ctx) changes ([], None)"; cases "fold_r (batch_step ctx) changes' ([], None)")
       (auto simp: render_batch_with_context_def redacted_view_def)
qed

section \<open>An example plan\<close>

definition ex_sql_context :: sql_context where
  "ex_sql_context = default_sql_context\<lparr>cx_execution_role := Some ''exec''\<rparr>"

definition ex_sql_plan :: "string \<Rightarrow> change list" where
  "ex_sql_plan password =
     [Grant (Role ''app'') {|Select|} Table (Some ''s'') (Some ''t''),
      Revoke (Role ''old'') {|Select|} Table (Some ''s'') (Some ''t; --'') (Some ([DQ] @ ''owner'')),
      SetPassword ''app'' password,
      DropRole ''old'']"

definition is_ok :: "'e + 'a \<Rightarrow> bool" where
  "is_ok r = (case r of Inr _ \<Rightarrow> True | Inl _ \<Rightarrow> False)"

lemma is_ok_iff: "is_ok r \<longleftrightarrow> (\<exists>x. r = Inr x)"
  by (cases r) (simp_all add: is_ok_def)

lemma ex_sql_plan_renders: "is_ok (render_batch_with_context (ex_sql_plan ''a'') ex_sql_context)"
  by code_simp

lemma ex_sql_plan_statements:
  "map st_sql (case render_batch_with_context (ex_sql_plan ''a'') ex_sql_context of Inr st \<Rightarrow> st | Inl _ \<Rightarrow> []) =
     [''GRANT SELECT ON TABLE '' @ quote_ident ''s'' @ ''.'' @ quote_ident ''t'' @ '' TO '' @ quote_ident ''app'' @ '';'',
      set_role ([DQ] @ ''owner''),
      ''REVOKE SELECT ON TABLE '' @ quote_ident ''s'' @ ''.'' @ quote_ident ''t; --'' @ '' FROM '' @ quote_ident ''old'' @ '';'',
      set_role ''exec'',
      ''ALTER ROLE '' @ quote_ident ''app'' @ '' PASSWORD '' @ quote_literal ''a'' @ '';'',
      ''DROP ROLE IF EXISTS '' @ quote_ident ''old'' @ '';'']"
  by code_simp

theorem rendered_plan_session_witness:
  "\<exists>st. render_batch_with_context (ex_sql_plan ''a'') ex_sql_context = Inr st \<and>
     run_session ''login'' (map st_sql st) ''exec'' = (''exec'', expected_log ''exec'' ex_sql_context (ex_sql_plan ''a'')) \<and>
     map fst (expected_log ''exec'' ex_sql_context (ex_sql_plan ''a'')) = [''exec'', [DQ] @ ''owner'', ''exec'', ''exec'']"
proof -
  obtain st where st: "render_batch_with_context (ex_sql_plan ''a'') ex_sql_context = Inr st"
    using ex_sql_plan_renders is_ok_iff by metis
  have "session_role ''login'' ex_sql_context = ''exec''" by (simp add: session_role_def ex_sql_context_def default_sql_context_def)
  moreover have "map fst (expected_log ''exec'' ex_sql_context (ex_sql_plan ''a'')) = [''exec'', [DQ] @ ''owner'', ''exec'', ''exec'']"
    by code_simp
  ultimately show ?thesis using rendered_plan_session[OF st, of "''login''"] st by auto
qed

theorem rendered_plan_reads_back_witness:
  "\<exists>st. render_batch_with_context (ex_sql_plan ''a'') ex_sql_context = Inr st \<and> st \<noteq> [] \<and>
     (\<exists>tokens. lex_sql (st_sql (hd st)) = Some tokens \<and> single_statement tokens \<and>
        identifiers tokens \<subseteq> plan_names ex_sql_context (ex_sql_plan ''a''))"
proof -
  obtain st where st: "render_batch_with_context (ex_sql_plan ''a'') ex_sql_context = Inr st"
    using ex_sql_plan_renders is_ok_iff by metis
  moreover have "st \<noteq> []" using ex_sql_plan_statements st by auto
  moreover have "\<forall>c\<in>set (ex_sql_plan ''a''). renderable ex_sql_context c"
    by (simp add: ex_sql_plan_def renderable_def privilege_renderable_def ex_sql_context_def default_sql_context_def grantee_as_str_def)
  ultimately show ?thesis using rendered_plan_reads_back[OF st, of "hd st"] by auto
qed

theorem redaction_hides_passwords_witness:
  "map_sum id (map st_redacted_sql) (render_batch_with_context (ex_sql_plan ''a'') ex_sql_context) =
     map_sum id (map st_redacted_sql) (render_batch_with_context (ex_sql_plan ''b'') ex_sql_context) \<and>
   render_batch_with_context (ex_sql_plan ''a'') ex_sql_context \<noteq> render_batch_with_context (ex_sql_plan ''b'') ex_sql_context"
proof -
  have "list_all2 same_but_password (ex_sql_plan ''a'') (ex_sql_plan ''b'')" by (simp add: ex_sql_plan_def)
  moreover have "render_batch_with_context (ex_sql_plan ''a'') ex_sql_context \<noteq> render_batch_with_context (ex_sql_plan ''b'') ex_sql_context"
    by code_simp
  ultimately show ?thesis using redaction_hides_passwords by auto
qed

end
