(* ===== verification/Findings.thy ===== *)
theory Findings
  imports ManifestLaws CompositionLaws Overlap SqlLaws
begin

text \<open>
  Inputs on which the code does something its documentation rules out. Each is a closed evaluation of
  the model.
\<close>

section \<open>Timestamps\<close>

text \<open>
  A 20-byte value whose last character takes two bytes makes the check slice inside that character: the
  validation of a manifest that contains it does not return an error but panics.
\<close>

lemmas timestamp_defs = is_valid_iso8601_timestamp_def check_time_part_def slice_def is_char_boundary_def
  is_continuation_def parse_unsigned_def parse_digits_def is_ascii_digit_def Let_def

definition ex_timestamp :: string where
  "ex_timestamp = ''2025-12-31T00:00:0'' @ [CHR 0xC3, CHR 0xA9]"

text \<open>
  On a 20-byte timestamp whose last two bytes are one character, the check slices inside that
  character: the validation of a role with it does not return \<open>InvalidValidUntil\<close>, it panics.
\<close>

theorem timestamp_check_panics:
  "is_valid_iso8601_timestamp ex_timestamp = None \<and>
   check_valid_until [(ex_role ''app'' False False)\<lparr>rd_password_valid_until := Some ex_timestamp\<rparr>] =
     Inl (Panic ''byte index is not a char boundary'')"
proof -
  have none: "is_valid_iso8601_timestamp ex_timestamp = None"
    by (simp add: ex_timestamp_def timestamp_defs)
  then show ?thesis by (simp add: check_valid_until_def check_role_valid_until_def)
qed

text \<open>The numeric fields may carry plus signs, which the documented form does not have.\<close>

theorem timestamp_accepts_signs: "is_valid_iso8601_timestamp ''2025-+1-+1T+0:+0:+0Z'' = Some True"
  by (simp add: timestamp_defs)

section \<open>Generated roles with the reserved prefix\<close>

text \<open>
  The reserved \<open>pg_\<close> prefix is checked for declared roles only. A role generated by a profile may carry
  it; the plan then grants privileges to a role it refuses to create.
\<close>

definition ex_reserved :: policy_manifest where
  "ex_reserved = ex_policy\<lparr>pm_role_pattern := Some ''pg_{profile}'', pm_grants := []\<rparr>"

definition ex_reserved_plan :: "change list option" where
  "ex_reserved_plan =
     (case expand_manifest ex_reserved of
        Inl _ \<Rightarrow> None
      | Inr e \<Rightarrow> (case from_expanded e (pm_default_owner ex_reserved) of
                    Inl _ \<Rightarrow> None
                  | Inr g \<Rightarrow> Some (plan_changes empty_graph g ex_reserved e Authoritative)))"

text \<open>
  The plan of a valid manifest grants a privilege to the generated role \<open>pg_reader\<close> and never
  creates that role.
\<close>

theorem generated_reserved_role_not_created:
  "\<exists>plan. ex_reserved_plan = Some plan \<and>
     Grant (Role ''pg_reader'') {|Select|} Table (Some ''app'') (Some ''*'') \<in> set plan \<and>
     ''pg_reader'' \<notin> set (created_roles plan)"
proof -
  have "(case ex_reserved_plan of None \<Rightarrow> False | Some plan \<Rightarrow>
     Grant (Role ''pg_reader'') {|Select|} Table (Some ''app'') (Some ''*'') \<in> set plan \<and>
     ''pg_reader'' \<notin> set (created_roles plan))" by code_simp
  then show ?thesis by (auto split: option.splits)
qed

section \<open>Empty privilege lists\<close>

text \<open>An empty privilege list passes every check and becomes a grant of no privilege.\<close>

definition ex_empty_grant :: policy_manifest where
  "ex_empty_grant = ex_manifest\<lparr>pm_roles := [ex_role ''app'' False False],
     pm_grants := [\<lparr>g_role = ''app'', g_privileges = [],
                    g_object = \<lparr>ot_object_type = Table, ot_schema = Some ''s'', ot_name = Some ''t''\<rparr>, g_ensure = Present\<rparr>]\<rparr>"

theorem empty_privileges_granted:
  "\<exists>e g. expand_manifest ex_empty_grant = Inr e \<and> from_expanded e None = Inr g \<and>
     Grant (Role ''app'') {||} Table (Some ''s'') (Some ''t'') \<in> set (diff empty_graph g)"
proof -
  have "(case expand_manifest ex_empty_grant of Inl _ \<Rightarrow> False
     | Inr e \<Rightarrow> (case from_expanded e None of Inl _ \<Rightarrow> False
        | Inr g \<Rightarrow> Grant (Role ''app'') {||} Table (Some ''s'') (Some ''t'') \<in> set (diff empty_graph g)))" by code_simp
  then show ?thesis by (auto split: sum.splits)
qed

section \<open>Wildcard absences without a schema\<close>

text \<open>
  The conflict check between a wildcard and a named target looks at targets with a schema only. For
  schema privileges, whose target has a name and no schema, a manifest may assert the absence of a
  privilege on every schema and declare it on one. The plans then alternate between granting and revoking.
\<close>

definition ex_flapping :: policy_manifest where
  "ex_flapping = ex_manifest\<lparr>pm_roles := [ex_role ''app'' False False],
     pm_grants :=
       [\<lparr>g_role = ''app'', g_privileges = [Usage], g_object = \<lparr>ot_object_type = Schema, ot_schema = None, ot_name = Some ''s''\<rparr>, g_ensure = Present\<rparr>,
        \<lparr>g_role = ''app'', g_privileges = [Usage], g_object = \<lparr>ot_object_type = Schema, ot_schema = None, ot_name = Some ''*''\<rparr>, g_ensure = Absent\<rparr>]\<rparr>"

definition ex_flapping_desired :: "role_graph option" where
  "ex_flapping_desired =
     (case expand_manifest ex_flapping of Inl _ \<Rightarrow> None
      | Inr e \<Rightarrow> (case from_expanded e None of Inl _ \<Rightarrow> None | Inr g \<Rightarrow> Some g))"

definition next_state :: "role_graph \<Rightarrow> role_graph option" where
  "next_state c = Option.bind ex_flapping_desired (\<lambda>d. apply_changes c (diff c d))"

text \<open>
  For a manifest that passes validation, the plan after the first run revokes the declared schema
  privilege, and the plan after the second run grants it again.
\<close>

theorem wildcard_schema_conflict_flaps:
  "\<exists>d a b. ex_flapping_desired = Some d \<and> next_state empty_graph = Some a \<and> next_state a = Some b \<and>
     diff a d = [Revoke (Role ''app'') {|Usage|} Schema None (Some ''s'') None] \<and>
     diff b d = [Grant (Role ''app'') {|Usage|} Schema None (Some ''s'')]"
proof -
  have "(case ex_flapping_desired of None \<Rightarrow> False | Some d \<Rightarrow>
     (case next_state empty_graph of None \<Rightarrow> False | Some a \<Rightarrow>
     (case next_state a of None \<Rightarrow> False | Some b \<Rightarrow>
       diff a d = [Revoke (Role ''app'') {|Usage|} Schema None (Some ''s'') None] \<and>
       diff b d = [Grant (Role ''app'') {|Usage|} Schema None (Some ''s'')])))" by code_simp
  then show ?thesis by (auto split: option.splits)
qed

section \<open>Exclusive member lists and equal policy names\<close>

text \<open>
  The check that an exclusive member list lives in one document compares labels. Two documents with the same policy
  name split the list of \<open>pg_monitor\<close>, although one of them declares it exclusive.
\<close>

definition ex_stanza_fragment :: "bool \<Rightarrow> string \<Rightarrow> policy_fragment" where
  "ex_stanza_fragment exclusive member =
     (ex_fragment ''team'' ''unused'' False)\<lparr>pf_roles := [],
        pf_memberships := [\<lparr>m_role = ''pg_monitor'', m_members = [\<lparr>ms_name = member, ms_inherit = None, ms_admin = None\<rparr>],
                            m_exclusive = exclusive\<rparr>]\<rparr>"

lemma exclusive_list_split_by_equal_names:
  "\<exists>policy. compose_bundle ex_bundle
     [\<lparr>pd_source = ''a.yaml'', pd_fragment = ex_stanza_fragment True ''alice''\<rparr>,
      \<lparr>pd_source = ''b.yaml'', pd_fragment = ex_stanza_fragment False ''bob''\<rparr>] = Inr policy"
proof -
  have "(case compose_bundle ex_bundle
     [\<lparr>pd_source = ''a.yaml'', pd_fragment = ex_stanza_fragment True ''alice''\<rparr>,
      \<lparr>pd_source = ''b.yaml'', pd_fragment = ex_stanza_fragment False ''bob''\<rparr>] of Inl _ \<Rightarrow> False | Inr _ \<Rightarrow> True)"
    by code_simp
  then show ?thesis by (auto split: sum.splits)
qed

section \<open>Dropping the granted role of an overlay\<close>

text \<open>The drop of a role does not intersect an overlay that grants this role to somebody else.\<close>

lemma drop_misses_overlay_of_granted_role:
  "role \<noteq> member \<Longrightarrow> role \<noteq> PUBLIC_ROLE \<Longrightarrow> member \<noteq> PUBLIC_ROLE \<Longrightarrow>
     intersecting_pairs (effect_pairs [DropRole role])
       (membership_overlay_pairs [\<lparr>me_role = role, me_member = member, me_inherit = i, me_admin = a\<rparr>]) = {||}"
  unfolding intersecting_pairs_empty_iff
  by (simp add: pairs_intersect_def effect_pairs_def membership_overlay_pairs_def change_pairs_def intersects_def
      roles_intersect_def fset_of_list.rep_eq)

section \<open>Wildcard revokes without an inventory\<close>

text \<open>A schema whose name contains the dollar-quote tag ends the block, so the rendered text is not one statement.\<close>

lemma dollar_tag_ends_block:
  "case render_wildcard_expanded ''REVOKE'' ''FROM'' Public ''SELECT'' Table (Some ''$pgroles$;'') default_sql_context of
     Inr [sql] \<Rightarrow> (case lex_sql sql of Some tokens \<Rightarrow> \<not> single_statement tokens | None \<Rightarrow> True)
   | _ \<Rightarrow> False"
  by code_simp

end
