(* ===== verification/MembershipOptions.thy ===== *)
theory MembershipOptions
  imports SqlLaws
begin

text \<open>
  Resolution of membership-option changes (\<open>crates/pgroles-core/src/membership_options.rs\<close>): the grantor
  of each change is bound to what the catalog proves before a plan is reviewed. The laws connect it with
  the two neighbours: the diff engine, whose changes it resolves, and the renderer, which refuses an
  unresolved or inconsistent binding.
\<close>

section \<open>Model\<close>

record membership_authority =
  ma_executor :: string
  ma_usable_grantors :: "(string, string btreeset) btreemap"

datatype membership_options_error = IncompleteFacts string string

definition find_edge :: "role_graph \<Rightarrow> string \<Rightarrow> string \<Rightarrow> membership_edge option" where
  "find_edge current role member =
     find (\<lambda>e. me_role e = role \<and> me_member e = member) (bt_elements (rg_memberships current))"

definition agrees_with_edge :: "role_graph \<Rightarrow> string \<Rightarrow> string \<Rightarrow> (string, membership_options) btreemap \<Rightarrow> bool" where
  "agrees_with_edge current role member os =
     (case find_edge current role member of
        None \<Rightarrow> False
      | Some e \<Rightarrow>
          me_inherit e = list_ex (\<lambda>(_, o'). mo_inherit o') (bt_entries os) \<and>
          me_admin e = list_ex (\<lambda>(_, o'). mo_admin o') (bt_entries os))"

definition agreed_options :: "role_graph \<Rightarrow> string \<Rightarrow> string \<Rightarrow> (string, membership_options) btreemap option" where
  "agreed_options current role member =
     (case complete_membership_options current role member of
        Some os \<Rightarrow> if agrees_with_edge current role member os then Some os else None
      | None \<Rightarrow> None)"

definition choose_grantor ::
  "membership_authority \<Rightarrow> (string, membership_options) btreemap \<Rightarrow> string btreeset \<Rightarrow> string option" where
  "choose_grantor authority options gs =
     (if ma_executor authority |\<in>| gs \<and> contains_key options (ma_executor authority) then Some (ma_executor authority)
      else case find (contains_key options) (bt_elements gs) of
        Some g \<Rightarrow> Some g
      | None \<Rightarrow>
          if ma_executor authority |\<in>| gs then Some (ma_executor authority)
          else (case bt_elements gs of [] \<Rightarrow> None | g # _ \<Rightarrow> Some g))"

definition increase_grantor ::
  "membership_authority \<Rightarrow> string \<Rightarrow> (string, membership_options) btreemap \<Rightarrow> string" where
  "increase_grantor authority role options =
     unwrap_or (Option.bind (fmlookup (ma_usable_grantors authority) role) (choose_grantor authority options))
       (ma_executor authority)"

definition expected_state :: "(string, membership_options) btreemap \<Rightarrow> string \<Rightarrow> membership_expected_state" where
  "expected_state options grantor =
     (case fmlookup options grantor of None \<Rightarrow> ExpectAbsent | Some o' \<Rightarrow> ExpectPresent o')"

definition option_binding ::
  "membership_authority \<Rightarrow> (string, membership_options) btreemap \<Rightarrow> string \<Rightarrow> membership_option_binding" where
  "option_binding authority options grantor =
     \<lparr>mb_executor = ma_executor authority,
      mb_set_effect = (if expected_state options grantor = ExpectAbsent then CreateFalse else PreserveSet),
      mb_expected = expected_state options grantor,
      mb_expected_edges = options\<rparr>"

definition resolve_change ::
  "role_graph \<Rightarrow> membership_authority \<Rightarrow> change \<Rightarrow> membership_options_error + change" where
  "resolve_change current authority change =
     (case change of
        UpdateMemberOptions role member grantor inherit admin _ \<Rightarrow>
          (case agreed_options current role member of
             None \<Rightarrow> Inl (IncompleteFacts role member)
           | Some options \<Rightarrow>
               let increase = (inherit = Some True \<or> admin = Some True);
                   grantor' = (if increase then increase_grantor authority role options else grantor) in
               if \<not> increase \<and> \<not> contains_key options grantor then Inl (IncompleteFacts role member)
               else Inr (UpdateMemberOptions role member grantor' inherit admin
                           (Some (option_binding authority options grantor'))))
      | _ \<Rightarrow> Inr change)"

definition resolve_membership_options ::
  "change list \<Rightarrow> role_graph \<Rightarrow> membership_authority \<Rightarrow> membership_options_error + change list" where
  "resolve_membership_options changes current authority = map_r (resolve_change current authority) changes"


section \<open>Resolved changes pass the renderer\<close>

text \<open>The option changes of a diff only reduce or only extend, and never are empty.\<close>

fun one_directional :: "change \<Rightarrow> bool" where
  "one_directional (UpdateMemberOptions role member grantor inherit admin binding) =
     (\<not> ((inherit = Some False \<or> admin = Some False) \<and> (inherit = Some True \<or> admin = Some True)) \<and>
      \<not> (inherit = None \<and> admin = None))"
| "one_directional _ = True"

lemma agreed_options_nonempty: "agreed_options current role member = Some options \<Longrightarrow> options \<noteq> fmempty"
  by (auto simp: agreed_options_def complete_membership_options_def dest: arg_cong[of "bt_elements _" _ set]
      split: option.splits if_splits)

lemma resolved_validates:
  assumes "resolve_change current authority change = Inr change'" "one_directional change"
    "supports_grant_with_options ctx" "ma_executor authority \<noteq> []"
  shows "validate_membership_options change' ctx = Inr ()"
proof (cases change)
  case (UpdateMemberOptions role member grantor inherit admin binding)
  from assms(1) UpdateMemberOptions obtain options where o: "agreed_options current role member = Some options"
    by (auto simp: resolve_change_def split: option.splits)
  have ne: "options \<noteq> fmempty" using agreed_options_nonempty[OF o] .
  show ?thesis using assms UpdateMemberOptions o ne
    by (auto simp: resolve_change_def Let_def validate_membership_options_def is_some_and_def option_binding_def
        expected_state_def expectation_conflicts_def is_expect_absent_def contains_key_def split: if_splits option.splits)
qed (use assms in \<open>auto simp: resolve_change_def validate_membership_options_def\<close>)

end
