(* ===== verification/RenderLaws.thy ===== *)
theory RenderLaws
  imports MembershipOptions DiffLaws
begin

text \<open>
  The path from a diff to SQL: every plan of the diff engine, with its membership options resolved
  against complete catalog facts, renders on a server that has membership options.
\<close>

section \<open>Membership changes of a plan\<close>

definition complete_facts :: "role_graph \<Rightarrow> bool" where
  "complete_facts c \<longleftrightarrow> (\<forall>e. e |\<in>| rg_memberships c \<longrightarrow> agreed_options c (me_role e) (me_member e) \<noteq> None)"

lemma complete_facts_grantors:
  assumes "complete_facts c" "fmlookup (edge_map (rg_memberships c)) p = Some e"
  shows "\<exists>gs options. fmlookup (rg_membership_edge_grantors c) p = Some gs \<and> gs \<noteq> {||} \<and>
    agreed_options c (fst p) (snd p) = Some options \<and> (\<forall>g. contains_key options g \<longleftrightarrow> g |\<in>| gs)"
proof -
  have e: "e |\<in>| rg_memberships c" "(me_role e, me_member e) = p" using lookup_edge_mapD[OF assms(2)] by auto
  then obtain options where o: "agreed_options c (fst p) (snd p) = Some options"
    using assms(1) by (force simp: complete_facts_def)
  then obtain gs where "fmlookup (rg_membership_edge_grantors c) p = Some gs" "gs \<noteq> {||}" "bt_elements gs = bt_keys options"
    by (auto simp: agreed_options_def complete_membership_options_def split: option.splits if_splits)
  moreover from this(3) have "contains_key options g \<longleftrightarrow> g |\<in>| gs" for g
    using set_bt_elements[of gs] set_bt_keys[of g options] by metis
  ultimately show ?thesis using o by blast
qed

text \<open>What each membership change of a plan satisfies when the facts are complete.\<close>

definition attributed :: "role_graph \<Rightarrow> change \<Rightarrow> bool" where
  "attributed c x =
     (case x of
        RemoveMember role member grantor \<Rightarrow> grantor \<noteq> None
      | UpdateMemberOptions role member g inherit admin binding \<Rightarrow>
          one_directional x \<and>
          (\<exists>options. agreed_options c role member = Some options \<and>
             (inherit = Some True \<or> admin = Some True \<or> contains_key options g))
      | _ \<Rightarrow> True)"

lemma attributed_removals:
  assumes "complete_facts c" "fmlookup (edge_map (rg_memberships c)) p = Some e"
  shows "x \<in> set (remove_all_edges c (fst p) (snd p)) \<Longrightarrow> attributed c x"
  using complete_facts_grantors[OF assms] by (cases p) (auto simp: remove_all_edges_def attributed_def split: if_splits)

lemma attributed_edge_removals:
  assumes "complete_facts c" "x \<in> set (edge_removals c (p, d))" "p = (me_role d, me_member d)"
  shows "attributed c x"
proof -
  obtain e where e: "fmlookup (edge_map (rg_memberships c)) p = Some e"
    using assms(2,3) by (cases "fmlookup (edge_map (rg_memberships c)) p") (auto simp: edge_removals_def)
  obtain gs options where g: "fmlookup (rg_membership_edge_grantors c) p = Some gs" "gs \<noteq> {||}"
    "agreed_options c (fst p) (snd p) = Some options" "\<forall>g. contains_key options g \<longleftrightarrow> g |\<in>| gs"
    using complete_facts_grantors[OF assms(1) e] by blast
  obtain grantor where "x \<in> set (option_reduction c e d grantor)" "grantor |\<in>| gs"
    using assms(2,3) e g(1,2) by (auto simp: edge_removals_def split: if_splits)
  then show ?thesis using g(3,4) assms(3)
    by (auto simp: option_reduction_def then_some_def Let_def attributed_def split: if_splits)
qed

lemma attributed_edge_additions:
  assumes "complete_facts c" "x \<in> set (edge_additions c (p, d))" "p = (me_role d, me_member d)"
  shows "attributed c x"
proof (cases "fmlookup (edge_map (rg_memberships c)) p")
  case None
  then show ?thesis using assms(2,3) by (auto simp: edge_additions_def Let_def attributed_def)
next
  case (Some e)
  obtain gs options where g: "fmlookup (rg_membership_edge_grantors c) p = Some gs" "gs \<noteq> {||}"
    "agreed_options c (fst p) (snd p) = Some options" "\<forall>g. contains_key options g \<longleftrightarrow> g |\<in>| gs"
    using complete_facts_grantors[OF assms(1) Some] by blast
  show ?thesis using assms(2,3) Some g
    by (cases "bt_elements gs") (auto simp: edge_additions_def Let_def attributed_def then_some_def split: if_splits)
qed

lemma attributed_plan:
  assumes "complete_facts c" "x \<in> set (diff c d)"
  shows "attributed c x"
proof -
  let ?d = "resolve_routine_aliases d (rg_routine_aliases c)"
  have removed: "attributed c x" if removed: "x \<in> set (diff_members_removed c ?d)"
  proof -
    consider p e where "fmlookup (edge_map (rg_memberships ?d)) p = Some e" "x \<in> set (edge_removals c (p, e))"
      | p e where "fmlookup (edge_map (rg_memberships c)) p = Some e" "x \<in> set (remove_all_edges c (fst p) (snd p))"
      using removed unfolding diff_members_removed_def by (auto simp: contains_key_iff split: if_splits)
    then show ?thesis
    proof cases
      case 1
      then show ?thesis using attributed_edge_removals[OF assms(1) 1(2)] lookup_edge_mapD[OF 1(1)] by simp
    next
      case 2
      then show ?thesis using attributed_removals[OF assms(1)] by blast
    qed
  qed
  have added: "attributed c x" if "x \<in> set (diff_members_added c ?d)"
    using that lookup_edge_mapD attributed_edge_additions[OF assms(1)]
    unfolding diff_members_added_def by (auto simp: split_beta) (metis fst_conv snd_conv)
  show ?thesis using assms(2) removed added
    unfolding diff_def diff_resolved_phases
    by (auto simp: phase_shape_iffs change_constructor_defs attributed_def
        dest!: diff_role_alters_shape schema_changes_shape schema_grants_shape kept_revokes_shape defaults_revoked_shape)
qed

section \<open>Default privileges of a plan\<close>

definition no_database_defaults :: "role_graph \<Rightarrow> bool" where
  "no_database_defaults g \<longleftrightarrow>
     (\<forall>k. contains_key (rg_default_privileges g) k \<or> contains_key (rg_default_privilege_absences g) k \<longrightarrow> dk_on_type k \<noteq> Database)"

lemma resolve_aliases_fields [simp]:
  "rg_default_privileges (resolve_routine_aliases d a) = rg_default_privileges d"
  "rg_default_privilege_absences (resolve_routine_aliases d a) = rg_default_privilege_absences d"
  "rg_memberships (resolve_routine_aliases d a) = rg_memberships d"
  by (simp_all add: resolve_routine_aliases_def)

lemma default_revoke_keys:
  "(k, s) \<in> set (default_revokes c d) \<Longrightarrow>
     contains_key (rg_default_privileges c) k \<or> contains_key (rg_default_privileges d) k \<or> contains_key (rg_default_privilege_absences d) k"
  by (auto simp: default_revokes_def matched_default_revokes_def unmatched_default_revokes_def absence_default_revokes_def
      contains_key_iff Let_def split: if_splits option.splits)

lemma default_changes_types:
  assumes "no_database_defaults c" "no_database_defaults d"
  shows "SetDefaultPrivilege owner scope t grantee ps \<in> set (diff c d) \<or>
    RevokeDefaultPrivilege owner scope t grantee ps \<in> set (diff c d) \<Longrightarrow> t \<noteq> Database"
proof -
  let ?d = "resolve_routine_aliases d (rg_routine_aliases c)"
  have set: "dk_on_type k \<noteq> Database" if "fmlookup (rg_default_privileges d) k = Some ps" for k ps
    using assms(2) that by (auto simp: no_database_defaults_def contains_key_iff)
  have revoke: "dk_on_type k \<noteq> Database" if "change_revoke_default k ps \<in> set (diff_defaults_revoked c ?d)" for k ps
  proof -
    have "contains_key (extend_all (default_revokes c ?d)) k" using that by (simp add: revoke_default_in contains_key_iff)
    then obtain s where "(k, s) \<in> set (default_revokes c ?d)" by (auto simp: contains_extend_all)
    from default_revoke_keys[OF this] show ?thesis using assms by (auto simp: no_database_defaults_def)
  qed
  assume "SetDefaultPrivilege owner scope t grantee ps \<in> set (diff c d) \<or> RevokeDefaultPrivilege owner scope t grantee ps \<in> set (diff c d)"
  moreover have "RevokeDefaultPrivilege owner scope t grantee ps \<notin> set (diff_defaults_set c ?d)"
    by (simp add: defaults_set_shape change_constructor_defs)
  ultimately consider "SetDefaultPrivilege owner scope t grantee ps \<in> set (diff_defaults_set c ?d)"
    | "change_revoke_default (default_key owner scope t grantee) ps \<in> set (diff_defaults_revoked c ?d)"
    unfolding diff_def diff_resolved_phases
    by (auto simp: role_creates_shape role_drops_shape grants_added_shape change_constructor_defs
        dest!: diff_role_alters_shape schema_changes_shape schema_grants_shape kept_revokes_shape members_removed_shape members_added_shape
        dest: defaults_revoked_shape)
  then show "t \<noteq> Database"
    by cases (auto simp: defaults_set_shape change_set_default_def dest!: set revoke)
qed

section \<open>Rendering\<close>

lemma privileges_render: "is_ok (render_privilege_statements action role ps t schema name ctx)"
proof -
  have "is_ok (render_wildcard_expanded action prep role ps t schema ctx)" if "t \<in> {Table, View, MaterializedView, Sequence, Function}" for prep
    using that by (auto simp: render_wildcard_expanded_def is_ok_def Let_def split: option.splits)
  then show ?thesis by (simp add: render_privilege_statements_def Let_def is_ok_def)
qed

definition default_renders :: "change \<Rightarrow> bool" where
  "default_renders x =
     (case x of SetDefaultPrivilege _ _ t _ _ \<Rightarrow> t \<noteq> Database | RevokeDefaultPrivilege _ _ t _ _ \<Rightarrow> t \<noteq> Database | _ \<Rightarrow> True)"

lemma statements_render:
  assumes "default_renders x"
  shows "is_ok (render_unscoped_statements x ctx)"
proof -
  have k: "is_ok (default_privilege_object_keyword t)" if "t \<noteq> Database" for t using that by (cases t) (simp_all add: is_ok_def)
  have d: "is_ok (render_set_default_privilege owner scope t g ps)" "is_ok (render_revoke_default_privilege owner scope t g ps)"
    if "t \<noteq> Database" for owner scope t g ps
    using k[OF that] by (auto simp: render_set_default_privilege_def render_revoke_default_privilege_def is_ok_iff)
  show ?thesis using assms d privileges_render
    by (cases x) (simp_all add: render_unscoped_statements_def render_grant_def render_revoke_def default_renders_def is_ok_def)
qed

lemma batch_renders:
  assumes "\<forall>x\<in>set changes. validate_membership_options x ctx = Inr () \<and> is_ok (render_unscoped_statements x ctx)"
    "\<forall>x\<in>set changes. \<forall>role member. x \<noteq> RemoveMember role member None"
  shows "\<exists>statements. render_batch_with_context changes ctx = Inr statements"
proof -
  have "\<exists>st. fold_r (batch_step ctx) changes s = Inr st" for s
    using assms(1)
  proof (induction changes arbitrary: s)
    case (Cons x xs)
    obtain stmts where "render_unscoped_statements x ctx = Inr stmts" using Cons.prems by (auto simp: is_ok_iff)
    then obtain s' where "batch_step ctx x s = Inr s'" using Cons.prems by (cases s; cases "stmts = []") (simp_all add: batch_step_def)
    then show ?case using Cons by auto
  qed simp
  moreover have "\<not> list_ex (replaces_unattributed changes) changes"
    using assms(2) by (auto simp: list_ex_iff replaces_unattributed_def split: change.splits option.splits)
  ultimately show ?thesis by (auto simp: render_batch_with_context_def split_beta)
qed

lemma resolve_shape:
  "resolve_change c authority x = Inr y \<Longrightarrow>
     y = x \<or> (\<exists>role member g inherit admin b. y = UpdateMemberOptions role member g inherit admin b)"
  by (cases x) (auto simp: resolve_change_def Let_def split: option.splits if_splits)

lemma attributed_resolves: "attributed c x \<Longrightarrow> \<exists>y. resolve_change c authority x = Inr y"
  by (cases x) (auto simp: resolve_change_def attributed_def Let_def split: option.splits)

lemma map_r_total: "\<forall>x\<in>set xs. \<exists>y. f x = Inr y \<Longrightarrow> \<exists>ys. map_r f xs = Inr ys"
  by (induction xs) auto

text \<open>
  C8: on a server with membership options and with complete catalog facts about the current memberships,
  the plan of every desired graph resolves, and the resolved plan renders: no error of the resolver or the
  renderer, and none of the branches marked unreachable, is hit.
\<close>

theorem resolved_plan_renders:
  assumes "supports_grant_with_options ctx" "ma_executor authority \<noteq> []" "complete_facts c"
    "no_database_defaults c" "no_database_defaults d"
  shows "\<exists>changes statements. resolve_membership_options (diff c d) c authority = Inr changes \<and>
           render_batch_with_context changes ctx = Inr statements"
proof -
  have attr: "attributed c x" if "x \<in> set (diff c d)" for x using attributed_plan[OF assms(3) that] .
  obtain changes where res: "map_r (resolve_change c authority) (diff c d) = Inr changes"
    using map_r_total[of "diff c d" "resolve_change c authority"] attributed_resolves attr by metis
  have source: "\<exists>x\<in>set (diff c d). resolve_change c authority x = Inr y" if "y \<in> set changes" for y
    using map_r_setD[OF res that] .
  have ok: "validate_membership_options y ctx = Inr () \<and> is_ok (render_unscoped_statements y ctx) \<and>
      (\<forall>role member. y \<noteq> RemoveMember role member None)" if "y \<in> set changes" for y
  proof -
    obtain x where x: "x \<in> set (diff c d)" "resolve_change c authority x = Inr y" using source[OF \<open>y \<in> set changes\<close>] by blast
    have "one_directional x" using attr[OF x(1)] by (cases x) (auto simp: attributed_def)
    then have "validate_membership_options y ctx = Inr ()" using resolved_validates[OF x(2)] assms(1,2) by simp
    moreover have "default_renders x" using default_changes_types[OF assms(4,5)] x(1)
      by (cases x) (simp_all add: default_renders_def, blast+)
    then have "default_renders y" using resolve_shape[OF x(2)] by (auto simp: default_renders_def)
    moreover have "y \<noteq> RemoveMember role member None" for role member
      using resolve_shape[OF x(2)] attr[OF x(1)] by (auto simp: attributed_def)
    ultimately show ?thesis using statements_render by blast
  qed
  show ?thesis using batch_renders[of changes ctx] ok res by (auto simp: resolve_membership_options_def)
qed

definition ex_catalog :: role_graph where
  "ex_catalog = empty_graph\<lparr>
     rg_memberships := {|\<lparr>me_role = ''app'', me_member = ''dev'', me_inherit = True, me_admin = True\<rparr>|},
     rg_membership_edge_grantors := fmupd (''app'', ''dev'') {|''boss''|} fmempty,
     rg_membership_edge_options := fmupd (''app'', ''dev'')
       (fmupd ''boss'' \<lparr>mo_inherit = True, mo_admin = True, mo_set = True\<rparr> fmempty) fmempty\<rparr>"

definition ex_narrowed :: role_graph where
  "ex_narrowed = empty_graph\<lparr>
     rg_memberships := {|\<lparr>me_role = ''app'', me_member = ''dev'', me_inherit = True, me_admin = False\<rparr>|}\<rparr>"

definition ex_authority :: membership_authority where
  "ex_authority = \<lparr>ma_executor = ''exec'', ma_usable_grantors = fmempty\<rparr>"

theorem resolved_plan_renders_witness:
  "diff ex_catalog ex_narrowed = [UpdateMemberOptions ''app'' ''dev'' ''boss'' None (Some False) None] \<and>
   (\<exists>changes statements. resolve_membership_options (diff ex_catalog ex_narrowed) ex_catalog ex_authority = Inr changes \<and>
      render_batch_with_context changes default_sql_context = Inr statements)"
proof -
  have a: "agreed_options ex_catalog ''app'' ''dev'' \<noteq> None" by code_simp
  have "complete_facts ex_catalog"
    using a by (simp add: complete_facts_def) (simp add: ex_catalog_def)
  moreover have "no_database_defaults ex_catalog" "no_database_defaults ex_narrowed"
    by (simp_all add: no_database_defaults_def ex_catalog_def ex_narrowed_def empty_graph_def)
  moreover have "supports_grant_with_options default_sql_context" "ma_executor ex_authority \<noteq> []"
    by (simp_all add: supports_grant_with_options_def default_sql_context_def ex_authority_def)
  moreover have "diff ex_catalog ex_narrowed = [UpdateMemberOptions ''app'' ''dev'' ''boss'' None (Some False) None]" by code_simp
  ultimately show ?thesis using resolved_plan_renders[of default_sql_context ex_authority ex_catalog ex_narrowed] by blast
qed

end
