(* ===== verification/Export.thy ===== *)
theory Export
  imports ManifestLaws
begin

text \<open>
  Export of an inspected role graph as a flat manifest (\<open>crates/pgroles-core/src/export.rs\<close>), and its round trip:
  expanding the exported manifest and comparing it with the graph it came from gives an empty plan. The debug assertion
  about absences is a condition of the round trip; a release build does not check it.
\<close>

section \<open>Entries\<close>

definition unless_default :: "'a \<Rightarrow> 'a \<Rightarrow> 'a option" where
  "unless_default v d = (if v \<noteq> d then Some v else None)"

definition export_role :: "string \<times> role_state \<Rightarrow> role_definition" where
  "export_role = (\<lambda>(name, state).
     \<lparr>rd_name = name, rd_external = False, rd_preserve_undeclared_grants = False,
      rd_login = unless_default (rs_login state) (rs_login default_role_state),
      rd_superuser = unless_default (rs_superuser state) (rs_superuser default_role_state),
      rd_createdb = unless_default (rs_createdb state) (rs_createdb default_role_state),
      rd_createrole = unless_default (rs_createrole state) (rs_createrole default_role_state),
      rd_inherit = unless_default (rs_inherit state) (rs_inherit default_role_state),
      rd_replication = unless_default (rs_replication state) (rs_replication default_role_state),
      rd_bypassrls = unless_default (rs_bypassrls state) (rs_bypassrls default_role_state),
      rd_connection_limit = unless_default (rs_connection_limit state) (rs_connection_limit default_role_state),
      rd_comment = rs_comment state, rd_password = None, rd_password_valid_until = rs_password_valid_until state,
      rd_config = rs_config state\<rparr>)"

definition export_grant :: "grant_key \<times> privilege btreeset \<Rightarrow> grant" where
  "export_grant = (\<lambda>(key, privileges).
     \<lparr>g_role = grantee_as_str (gk_role key), g_privileges = bt_elements privileges,
      g_object = \<lparr>ot_object_type = gk_object_type key, ot_schema = gk_schema key, ot_name = gk_name key\<rparr>,
      g_ensure = Present\<rparr>)"

definition export_schema :: "string \<times> schema_state \<Rightarrow> schema_binding" where
  "export_schema = (\<lambda>(name, state).
     \<lparr>sb_name = name, sb_profiles = [], sb_role_pattern = None, sb_owner = ss_owner state\<rparr>)"

text \<open>\<open>map.entry(key).or_default().push(value)\<close>.\<close>

definition entry_push :: "'k \<Rightarrow> 'v \<Rightarrow> ('k, 'v list) btreemap \<Rightarrow> ('k, 'v list) btreemap" where
  "entry_push k v m = fmupd k (unwrap_or (fmlookup m k) [] @ [v]) m"

definition export_default_grant :: "default_priv_key \<times> privilege btreeset \<Rightarrow> default_privilege_grant" where
  "export_default_grant = (\<lambda>(key, privileges).
     \<lparr>dpg_role = Some (grantee_as_str (dk_grantee key)), dpg_privileges = bt_elements privileges,
      dpg_on_type = dk_on_type key, dpg_ensure = Present\<rparr>)"

definition default_group_key :: "default_priv_key \<times> privilege btreeset \<Rightarrow> string \<times> default_privilege_scope" where
  "default_group_key = (\<lambda>(key, _). (dk_owner key, dk_scope key))"

definition dp_groups ::
  "role_graph \<Rightarrow> (string \<times> default_privilege_scope, default_privilege_grant list) btreemap" where
  "dp_groups graph = fold (\<lambda>entry. entry_push (default_group_key entry) (export_default_grant entry))
     (bt_entries (rg_default_privileges graph)) fmempty"

definition export_default_privilege ::
  "(string \<times> default_privilege_scope) \<times> default_privilege_grant list \<Rightarrow> default_privilege" where
  "export_default_privilege = (\<lambda>((owner, scope), grants).
     case scope of
       SchemaScope schema \<Rightarrow> \<lparr>dp_owner = Some owner, dp_schema = Some schema, dp_scope = None, dp_grant = grants\<rparr>
     | Global \<Rightarrow>
         \<lparr>dp_owner = Some owner, dp_schema = None,
          dp_scope = Some \<lparr>dss_scope_type = GlobalType, dss_schema = None\<rparr>, dp_grant = grants\<rparr>)"

definition export_member :: "membership_edge \<Rightarrow> member_spec" where
  "export_member edge =
     \<lparr>ms_name = me_member edge, ms_inherit = (if me_inherit edge then None else Some False),
      ms_admin = (if me_admin edge then Some True else None)\<rparr>"

definition membership_map :: "role_graph \<Rightarrow> (string, member_spec list) btreemap" where
  "membership_map graph = fold (\<lambda>edge. entry_push (me_role edge) (export_member edge))
     (bt_elements (rg_memberships graph)) fmempty"

definition export_membership :: "string \<times> member_spec list \<Rightarrow> membership" where
  "export_membership = (\<lambda>(role, members). \<lparr>m_role = role, m_members = members, m_exclusive = False\<rparr>)"

definition role_graph_to_manifest :: "role_graph \<Rightarrow> policy_manifest" where
  "role_graph_to_manifest graph =
     \<lparr>pm_role_pattern = None, pm_default_owner = None, pm_auth_providers = [], pm_profiles = fmempty,
      pm_schemas = map export_schema (bt_entries (rg_schemas graph)),
      pm_roles = map export_role (bt_entries (rg_roles graph)),
      pm_grants = map export_grant (filter (\<lambda>(key, _). key |\<notin>| rg_inherent_grants graph) (bt_entries (rg_grants graph))),
      pm_default_privileges = map export_default_privilege (bt_entries (dp_groups graph)),
      pm_memberships = map export_membership (bt_entries (membership_map graph)),
      pm_retirements = []\<rparr>"

section \<open>Groups\<close>

lemma lookup_entry_push:
  "fmlookup (fold (\<lambda>x. entry_push (f x) (g x)) xs fmempty) k =
     (if \<exists>x\<in>set xs. f x = k then Some (map g (filter (\<lambda>x. f x = k) xs)) else None)"
  by (induction xs rule: rev_induct) (auto simp: entry_push_def filter_empty_conv)

lemma concat_groups:
  "set (concat (map (\<lambda>(k, vs). map (c k) vs) (bt_entries (fold (\<lambda>x. entry_push (f x) (g x)) xs fmempty)))) =
     (\<lambda>x. c (f x) (g x)) ` set xs" (is "?l = ?r")
proof
  have "c (f x) (g y) \<in> ?r" if "y \<in> set xs" "f y = f x" for x y
    using that by (intro image_eqI[of _ _ y]) simp_all
  then show "?l \<subseteq> ?r" by (auto simp: lookup_entry_push split: if_splits)
  show "?r \<subseteq> ?l"
  proof (rule image_subsetI)
    fix x assume "x \<in> set xs"
    then have "(f x, map g (filter (\<lambda>y. f y = f x) xs)) \<in> set (bt_entries (fold (\<lambda>x. entry_push (f x) (g x)) xs fmempty))"
      "g x \<in> set (map g (filter (\<lambda>y. f y = f x) xs))" by (auto simp: lookup_entry_push)
    then show "c (f x) (g x) \<in> ?l" by (force simp del: in_bt_entries_iff)
  qed
qed

section \<open>Graphs of manifests without absences\<close>

definition present_default :: "default_privilege \<Rightarrow> bool" where
  "present_default dp \<longleftrightarrow> (\<exists>scope. resolved_scope dp = Inr scope) \<and> dp_owner dp \<noteq> None \<and>
     (\<forall>g\<in>set (dp_grant dp). dpg_role g \<noteq> None \<and> dpg_ensure g = Present)"

definition default_entries :: "default_privilege \<Rightarrow> (default_priv_key \<times> privilege btreeset) list" where
  "default_entries dp = map (\<lambda>g. (default_key (the (dp_owner dp)) (projr (resolved_scope dp)) (dpg_on_type g)
     (grantee_parse (the (dpg_role g))), fset_of_list (dpg_privileges g))) (dp_grant dp)"

definition extend_from :: "('k \<times> 'a btreeset) list \<Rightarrow> ('k, 'a btreeset) btreemap \<Rightarrow> ('k, 'a btreeset) btreemap" where
  "extend_from = fold (\<lambda>(k, s). entry_extend k s)"

lemma extend_from_empty: "extend_from xs fmempty = extend_all xs"
  by (simp add: extend_from_def extend_all_def)

lemma fold_present_grants:
  "\<forall>g\<in>set gs. g_ensure g = Present \<Longrightarrow> fold add_grant gs G =
     G\<lparr>rg_grants := extend_from (map (\<lambda>g. (grant_key_from_manifest g, fset_of_list (g_privileges g))) gs) (rg_grants G)\<rparr>"
  by (induction gs arbitrary: G) (simp_all add: add_grant_def Let_def extend_from_def)

lemma fold_present_default_grants:
  assumes "\<forall>g\<in>set gs. dpg_role g \<noteq> None \<and> dpg_ensure g = Present"
  shows "fold_r (add_default_grant owner scope) gs G =
     Inr (G\<lparr>rg_default_privileges := extend_from (map (\<lambda>g. (default_key owner scope (dpg_on_type g)
        (grantee_parse (the (dpg_role g))), fset_of_list (dpg_privileges g))) gs) (rg_default_privileges G)\<rparr>)"
  using assms by (induction gs arbitrary: G) (auto simp: add_default_grant_def Let_def extend_from_def)

lemma fold_present_defaults:
  assumes "\<forall>dp\<in>set dps. present_default dp"
  shows "fold_r (add_default_privilege owner) dps G =
     Inr (G\<lparr>rg_default_privileges := extend_from (concat (map default_entries dps)) (rg_default_privileges G)\<rparr>)"
  using assms
proof (induction dps arbitrary: G)
  case (Cons dp dps)
  obtain scope o' where dp: "resolved_scope dp = Inr scope" "dp_owner dp = Some o'"
    "\<forall>g\<in>set (dp_grant dp). dpg_role g \<noteq> None \<and> dpg_ensure g = Present"
    using Cons.prems by (auto simp: present_default_def)
  have "add_default_privilege owner dp G =
      Inr (G\<lparr>rg_default_privileges := extend_from (default_entries dp) (rg_default_privileges G)\<rparr>)"
    by (simp add: add_default_privilege_def dp fold_present_default_grants[OF dp(3)] default_entries_def default_priv_owner_def)
  then show ?case using Cons by (simp add: extend_from_def)
qed (simp add: extend_from_def)

definition declared_member_edges :: "membership \<Rightarrow> membership_edge list" where
  "declared_member_edges m = map (\<lambda>spec. \<lparr>me_role = m_role m, me_member = ms_name spec, me_inherit = member_inherit spec,
     me_admin = member_admin spec\<rparr>) (m_members m)"

lemma fold_memberships:
  "\<forall>m\<in>set ms. \<not> m_exclusive m \<Longrightarrow> fold add_membership ms G =
     G\<lparr>rg_memberships := fold finsert (concat (map declared_member_edges ms)) (rg_memberships G)\<rparr>"
  by (induction ms arbitrary: G) (simp_all add: add_membership_def declared_member_edges_def fold_map comp_def)

lemma fset_fold_finsert: "fset (fold finsert xs s) = set xs \<union> fset s"
  by (induction xs arbitrary: s) auto

section \<open>The exported manifest\<close>

lemma export_expands:
  assumes "expand_manifest (role_graph_to_manifest g) = Inr e"
  shows "e = assemble_expansion (role_graph_to_manifest g) []"
proof -
  have "binding_pairs (role_graph_to_manifest g) = []"
    by (auto simp: binding_pairs_def role_graph_to_manifest_def export_schema_def)
  then show ?thesis using expand_manifest_InrD(7)[OF assms] by simp
qed

lemma export_default_present:
  "dp \<in> set (pm_default_privileges (role_graph_to_manifest g)) \<Longrightarrow> present_default dp"
  by (auto simp: role_graph_to_manifest_def dp_groups_def lookup_entry_push present_default_def export_default_privilege_def
      export_default_grant_def resolved_scope_def split: if_splits default_privilege_scope.splits)

lemma normalize_exported: "dp \<in> set (pm_default_privileges (role_graph_to_manifest g)) \<Longrightarrow>
    normalize_owner (role_graph_to_manifest g) dp = dp"
  using export_default_present by (fastforce simp: normalize_owner_def present_default_def)

lemma or_option_None: "or_option x None = x"
  by (cases x) simp_all

lemma export_expansion_fields:
  "em_roles (assemble_expansion (role_graph_to_manifest g) []) = pm_roles (role_graph_to_manifest g)"
  "em_schemas (assemble_expansion (role_graph_to_manifest g) []) =
     map (\<lambda>(name, state). \<lparr>es_name = name, es_owner = ss_owner state\<rparr>) (bt_entries (rg_schemas g))"
  "em_grants (assemble_expansion (role_graph_to_manifest g) []) = pm_grants (role_graph_to_manifest g)"
  "em_default_privileges (assemble_expansion (role_graph_to_manifest g) []) = pm_default_privileges (role_graph_to_manifest g)"
  "em_memberships (assemble_expansion (role_graph_to_manifest g) []) = pm_memberships (role_graph_to_manifest g)"
proof -
  show "em_default_privileges (assemble_expansion (role_graph_to_manifest g) []) = pm_default_privileges (role_graph_to_manifest g)"
    by (simp add: assemble_expansion_def normalize_exported map_idI)
  show "em_schemas (assemble_expansion (role_graph_to_manifest g) []) =
     map (\<lambda>(name, state). \<lparr>es_name = name, es_owner = ss_owner state\<rparr>) (bt_entries (rg_schemas g))"
    by (auto simp: assemble_expansion_def role_graph_to_manifest_def export_schema_def expand_schema_def or_option_None)
qed (simp_all add: assemble_expansion_def)

lemma collect_entries: "collect_map (bt_entries m) = m"
  by (intro fmap_ext) (simp add: lookup_collect_map_distinct distinct_bt_keys map_of_bt_entries flip: bt_keys_entries)

section \<open>The round trip\<close>

text \<open>
  What inspection guarantees and the manifest can express: no absences, no empty entries, configuration in normal
  form, the owner of a schema holds its privileges, no role is called \<open>PUBLIC\<close>, routine names are canonical.
\<close>

definition config_normal :: "role_state \<Rightarrow> bool" where
  "config_normal state = (collect_map (map normalize_config (bt_entries (rs_config state))) = rs_config state)"

definition owner_privileges_complete :: "schema_state \<Rightarrow> bool" where
  "owner_privileges_complete state =
     (case ss_owner state of None \<Rightarrow> True | Some owner \<Rightarrow> default_schema_owner_privileges owner |\<subseteq>| ss_owner_privileges state)"

definition exportable :: "role_graph \<Rightarrow> bool" where
  "exportable g \<longleftrightarrow> rg_grant_absences g = fmempty \<and> rg_default_privilege_absences g = fmempty \<and>
     no_empty_entries (rg_grants g) \<and> no_empty_entries (rg_default_privileges g) \<and>
     (\<forall>(name, state)\<in>set (bt_entries (rg_roles g)). config_normal state) \<and>
     (\<forall>(name, state)\<in>set (bt_entries (rg_schemas g)). owner_privileges_complete state) \<and>
     (\<forall>key\<in>set (bt_keys (rg_grants g)). gk_role key \<noteq> Role PUBLIC_ROLE \<and> resolve_alias (rg_routine_aliases g) key = key) \<and>
     (\<forall>key\<in>set (bt_keys (rg_default_privileges g)). dk_grantee key \<noteq> Role PUBLIC_ROLE)"

lemma exportableD:
  assumes "exportable g"
  shows "rg_grant_absences g = fmempty" "rg_default_privilege_absences g = fmempty"
    "no_empty_entries (rg_grants g)" "no_empty_entries (rg_default_privileges g)"
    "fmlookup (rg_roles g) n = Some st \<Longrightarrow> config_normal st"
    "fmlookup (rg_schemas g) n = Some ss \<Longrightarrow> owner_privileges_complete ss"
    "fmlookup (rg_grants g) k = Some ps \<Longrightarrow> gk_role k \<noteq> Role PUBLIC_ROLE \<and> resolve_alias (rg_routine_aliases g) k = k"
    "fmlookup (rg_default_privileges g) dk = Some ps \<Longrightarrow> dk_grantee dk \<noteq> Role PUBLIC_ROLE"
proof -
  show "config_normal st" if "fmlookup (rg_roles g) n = Some st"
    using assms that in_bt_entries_iff[of n st "rg_roles g"] unfolding exportable_def by blast
  show "owner_privileges_complete ss" if "fmlookup (rg_schemas g) n = Some ss"
    using assms that in_bt_entries_iff[of n ss "rg_schemas g"] unfolding exportable_def by blast
  show "gk_role k \<noteq> Role PUBLIC_ROLE \<and> resolve_alias (rg_routine_aliases g) k = k" if "fmlookup (rg_grants g) k = Some ps"
    using assms that set_bt_keys[of k "rg_grants g"] unfolding exportable_def by (simp add: contains_key_def)
  show "dk_grantee dk \<noteq> Role PUBLIC_ROLE" if "fmlookup (rg_default_privileges g) dk = Some ps"
    using assms that set_bt_keys[of dk "rg_default_privileges g"] unfolding exportable_def by (simp add: contains_key_def)
qed (use assms in \<open>simp_all add: exportable_def\<close>)

lemma exported_role: "config_normal state \<Longrightarrow>
    rd_name (export_role (name, state)) = name \<and> from_definition (export_role (name, state)) = state"
  by (auto simp: from_definition_def export_role_def unless_default_def config_normal_def intro!: role_state.equality)

lemma exported_roles:
  assumes "exportable g"
  shows "collect_map (map (\<lambda>d. (rd_name d, from_definition d)) (pm_roles (role_graph_to_manifest g))) = rg_roles g"
proof -
  have "map (\<lambda>d. (rd_name d, from_definition d)) (pm_roles (role_graph_to_manifest g)) = bt_entries (rg_roles g)"
    by (auto simp: role_graph_to_manifest_def exported_role[OF exportableD(5)[OF assms]] intro!: map_idI)
  then show ?thesis by (simp add: collect_entries)
qed

lemma exported_grant_entries:
  assumes "exportable g"
  shows "map (\<lambda>x. (grant_key_from_manifest x, fset_of_list (g_privileges x))) (pm_grants (role_graph_to_manifest g)) =
     filter (\<lambda>(key, _). key |\<notin>| rg_inherent_grants g) (bt_entries (rg_grants g))"
proof -
  have "grant_key_from_manifest (export_grant (k, s)) = k \<and> fset_of_list (g_privileges (export_grant (k, s))) = s"
    if "fmlookup (rg_grants g) k = Some s" for k s
    using exportableD(7)[OF assms that]
    by (auto simp: grant_key_from_manifest_def export_grant_def grantee_parse_as_str fset_eq_iff fset_of_list.rep_eq)
  then show ?thesis by (auto simp: role_graph_to_manifest_def comp_def intro!: map_idI)
qed

definition exported_default :: "string \<times> default_privilege_scope \<Rightarrow> default_privilege_grant \<Rightarrow> default_priv_key \<times> privilege btreeset" where
  "exported_default scope_key g = (default_key (fst scope_key) (snd scope_key) (dpg_on_type g) (grantee_parse (the (dpg_role g))),
     fset_of_list (dpg_privileges g))"

lemma exported_default_entries:
  assumes "exportable g"
  shows "set (concat (map default_entries (pm_default_privileges (role_graph_to_manifest g)))) = set (bt_entries (rg_default_privileges g))"
proof -
  have "default_entries (export_default_privilege (key, gs)) = map (exported_default key) gs" for key gs
    by (cases key; cases "snd key")
      (auto simp: default_entries_def export_default_privilege_def resolved_scope_def exported_default_def)
  then have "map default_entries (pm_default_privileges (role_graph_to_manifest g)) =
      map (\<lambda>(key, gs). map (exported_default key) gs) (bt_entries (dp_groups g))"
    by (auto simp: role_graph_to_manifest_def)
  then have "set (concat (map default_entries (pm_default_privileges (role_graph_to_manifest g)))) =
      (\<lambda>x. exported_default (default_group_key x) (export_default_grant x)) ` set (bt_entries (rg_default_privileges g))"
    by (simp only: dp_groups_def concat_groups)
  moreover have "exported_default (default_group_key (k, s)) (export_default_grant (k, s)) = (k, s)"
    if "(k, s) \<in> set (bt_entries (rg_default_privileges g))" for k s
    using exportableD(8)[OF assms, of k s] that
    by (auto simp: exported_default_def default_group_key_def export_default_grant_def grantee_parse_as_str fset_eq_iff fset_of_list.rep_eq)
  ultimately show ?thesis by (force simp del: in_bt_entries_iff)
qed

definition exported_edge :: "string \<Rightarrow> member_spec \<Rightarrow> membership_edge" where
  "exported_edge role spec = \<lparr>me_role = role, me_member = ms_name spec, me_inherit = member_inherit spec, me_admin = member_admin spec\<rparr>"

lemma exported_members:
  "set (concat (map declared_member_edges (pm_memberships (role_graph_to_manifest g)))) = fset (rg_memberships g)"
proof -
  have "map declared_member_edges (pm_memberships (role_graph_to_manifest g)) =
      map (\<lambda>(role, specs). map (exported_edge role) specs) (bt_entries (membership_map g))"
    by (auto simp: role_graph_to_manifest_def export_membership_def declared_member_edges_def exported_edge_def)
  then have "set (concat (map declared_member_edges (pm_memberships (role_graph_to_manifest g)))) =
      (\<lambda>x. exported_edge (me_role x) (export_member x)) ` set (bt_elements (rg_memberships g))"
    by (simp only: membership_map_def concat_groups)
  moreover have "exported_edge (me_role x) (export_member x) = x" for x :: membership_edge
    by (simp add: exported_edge_def export_member_def member_inherit_def member_admin_def)
  ultimately show ?thesis by simp
qed

definition reimported :: "role_graph \<Rightarrow> role_graph" where
  "reimported g = empty_graph\<lparr>rg_roles := rg_roles g,
     rg_schemas := collect_map (map (\<lambda>s. (es_name s, schema_state_of s))
       (map (\<lambda>(name, state). \<lparr>es_name = name, es_owner = ss_owner state\<rparr>) (bt_entries (rg_schemas g)))),
     rg_grants := extend_all (filter (\<lambda>(key, _). key |\<notin>| rg_inherent_grants g) (bt_entries (rg_grants g))),
     rg_default_privileges := extend_all (concat (map default_entries (pm_default_privileges (role_graph_to_manifest g)))),
     rg_memberships := fold finsert (concat (map declared_member_edges (pm_memberships (role_graph_to_manifest g)))) {||}\<rparr>"

lemma reimport:
  assumes "exportable g" "expand_manifest (role_graph_to_manifest g) = Inr e"
  shows "from_expanded e None = Inr (reimported g)"
proof -
  have "\<forall>x\<in>set (pm_grants (role_graph_to_manifest g)). g_ensure x = Present"
    "\<forall>x\<in>set (pm_memberships (role_graph_to_manifest g)). \<not> m_exclusive x"
    "\<forall>x\<in>set (pm_default_privileges (role_graph_to_manifest g)). present_default x"
    using export_default_present by (auto simp: role_graph_to_manifest_def export_grant_def export_membership_def)
  then show ?thesis
    unfolding export_expands[OF assms(2)] from_expanded_def Let_def export_expansion_fields exported_roles[OF assms(1)]
    by (simp add: fold_present_grants fold_present_defaults fold_memberships exported_grant_entries[OF assms(1)]
        extend_from_empty empty_graph_def reimported_def)
qed

lemma extend_all_no_empty: "\<forall>(k, s)\<in>set xs. s \<noteq> {||} \<Longrightarrow> no_empty_entries (extend_all xs)"
  unfolding no_empty_entries_iff
proof (intro allI notI)
  fix k assume *: "\<forall>(k, s)\<in>set xs. s \<noteq> {||}" "fmlookup (extend_all xs) k = Some {||}"
  then obtain s where "(k, s) \<in> set xs" "fset s = {}" using lookup_extend_all[OF *(2)] by auto
  then show False using *(1) by (auto simp: fset_inject[symmetric])
qed

lemma lookup_collect_mapped:
  "fmlookup (collect_map (map (\<lambda>(k, v). (k, f v)) (bt_entries m))) k = map_option f (fmlookup m k)"
  by (subst lookup_collect_map_distinct) (simp_all add: map_of_map case_prod_beta comp_def)

lemma reimported_schemas:
  "fmlookup (rg_schemas (reimported g)) n =
     map_option (\<lambda>st. schema_state_of \<lparr>es_name = [], es_owner = ss_owner st\<rparr>) (fmlookup (rg_schemas g) n)"
proof -
  have "map (\<lambda>s. (es_name s, schema_state_of s)) (map (\<lambda>(name, state). \<lparr>es_name = name, es_owner = ss_owner state\<rparr>) (bt_entries (rg_schemas g))) =
      map (\<lambda>(name, st). (name, schema_state_of \<lparr>es_name = [], es_owner = ss_owner st\<rparr>)) (bt_entries (rg_schemas g))"
    by (auto simp: schema_state_of_def)
  then show ?thesis unfolding reimported_def by (simp add: lookup_collect_mapped del: map_map)
qed

lemma reimported_fields:
  assumes "exportable g"
  shows "rg_roles (reimported g) = rg_roles g"
    "fmlookup (rg_schemas g) n = merged_schema (fmlookup (rg_schemas g) n) (fmlookup (rg_schemas (reimported g)) n)"
    "held_grant (reimported g) k = (if inherent g k then {} else held_grant g k)"
    "no_empty_entries (rg_grants (reimported g))"
    "contains_key (rg_grants (reimported g)) k \<Longrightarrow> contains_key (rg_grants g) k"
    "held_default (reimported g) dk = held_default g dk"
    "no_empty_entries (rg_default_privileges (reimported g))"
    "rg_memberships (reimported g) = rg_memberships g"
    "rg_grant_absences (reimported g) = fmempty" "rg_default_privilege_absences (reimported g) = fmempty"
proof -
  show "rg_roles (reimported g) = rg_roles g" "rg_grant_absences (reimported g) = fmempty"
    "rg_default_privilege_absences (reimported g) = fmempty" by (simp_all add: reimported_def empty_graph_def)
  show "fmlookup (rg_schemas g) n = merged_schema (fmlookup (rg_schemas g) n) (fmlookup (rg_schemas (reimported g)) n)"
  proof (cases "fmlookup (rg_schemas g) n")
    case (Some st)
    have "owner_privileges_complete st" by (rule exportableD(6)[OF assms Some])
    then show ?thesis
      by (cases "ss_owner st") (auto simp: Some reimported_schemas merged_schema_def schema_state_of_def
          owner_privileges_complete_def intro!: schema_state.equality)
  qed (simp add: reimported_schemas merged_schema_def)
  show "held_grant (reimported g) k = (if inherent g k then {} else held_grant g k)"
    by (auto simp: reimported_def fset_extend_all fset_get_or_default[of "rg_grants g"])
  show "contains_key (rg_grants g) k" if "contains_key (rg_grants (reimported g)) k"
    using that by (auto simp: reimported_def contains_extend_all contains_key_def[of "rg_grants g"])
  show "held_default (reimported g) dk = held_default g dk"
    by (simp add: reimported_def fset_extend_all fset_get_or_default[of "rg_default_privileges g"] exported_default_entries[OF assms]
        del: set_concat)
  show "rg_memberships (reimported g) = rg_memberships g"
    by (simp add: reimported_def fset_inject[symmetric] fset_fold_finsert exported_members del: set_concat)
  show "no_empty_entries (rg_grants (reimported g))"
    using exportableD(3)[OF assms]
    by (auto simp: reimported_def no_empty_entries_def[of "rg_grants g"] intro!: extend_all_no_empty)
  show "no_empty_entries (rg_default_privileges (reimported g))"
    using exportableD(4)[OF assms] exported_default_entries[OF assms]
    by (simp add: reimported_def no_empty_entries_def[of "rg_default_privileges g"] extend_all_no_empty del: set_concat)
qed

lemma reimported_aliases:
  assumes "exportable g"
  shows "resolve_routine_aliases (reimported g) (rg_routine_aliases g) = reimported g"
proof -
  have "resolve_alias (rg_routine_aliases g) k = k" if "contains_key (rg_grants (reimported g)) k" for k
    using reimported_fields(5)[OF assms that] exportableD(7)[OF assms] by (auto simp: contains_key_def)
  then have "\<not> list_ex (\<lambda>key. resolve_alias (rg_routine_aliases g) key \<noteq> key)
      (bt_keys (rg_grants (reimported g)) @ bt_keys (rg_grant_absences (reimported g)))"
    by (auto simp: list_ex_iff reimported_fields(9)[OF assms])
  then show ?thesis by (simp add: resolve_routine_aliases_def)
qed

lemma reimported_empty_plan:
  assumes "exportable g"
  shows "diff_resolved g (reimported g) = []"
proof -
  note fields = reimported_fields[OF assms]
  have revokes: "fset (get_or_default (pending_revokes g (reimported g)) k) = {}" for k
    unfolding pending_grants by (simp add: fields(3,9))
  have defaults: "fset (get_or_default (extend_all (default_revokes g (reimported g))) k) = {}" for k
    unfolding pending_defaults by (simp add: fields(6,10))
  have add: "held_grant (reimported g) k \<subseteq> held_grant g k" "held_default (reimported g) dk \<subseteq> held_default g dk" for k dk
    by (simp_all add: fields(3,6))
  show ?thesis
    unfolding diff_resolved_phases
    using no_role_changes[OF fields(1)[symmetric]] no_schema_changes[of g g "reimported g", OF fields(2)]
      no_grant_additions[OF fields(4) add(1)] no_grant_revokes[OF revokes] no_default_additions[OF fields(7) add(2)]
      no_default_revokes[OF exportableD(4)[OF assms] defaults] no_member_changes[OF fields(8)[symmetric]]
    by simp
qed


definition ex_inspected :: role_graph where
  "ex_inspected = ex_current\<lparr>rg_schemas := fmap_of_list [(''app'', \<lparr>ss_owner = Some ''owner'', ss_owner_privileges = {|Create, Usage|}\<rparr>)]\<rparr>"


end
