(* ===== verification/Json.thy ===== *)
theory Json
  imports Change "HOL-Library.Countable" "HOL-Library.Multiset"
begin

text \<open>
  JSON values as \<open>serde_json::Value\<close> has them, and the canonical form of policy content
  (\<open>crates/pgroles-core/src/candidate.rs\<close>). An object is the list of its entries in iteration order, with
  distinct keys. Serialization to bytes and SHA-256 are library code and are arguments of the functions that use them.
\<close>

section \<open>Values\<close>

datatype json = JNull | JBool bool | JNum int | JStr string | JArr "json list" | JObj "(string \<times> json) list"

definition is_empty_value :: "json \<Rightarrow> bool" where
  "is_empty_value v = (v = JNull \<or> v = JObj [] \<or> v = JArr [])"

fun canonicalize :: "json \<Rightarrow> json" where
  "canonicalize (JObj entries) =
     JObj (bt_entries (collect_map (filter (\<lambda>(key, entry). \<not> is_empty_value entry)
       (map (\<lambda>(key, entry). (key, canonicalize entry)) entries))))"
| "canonicalize (JArr items) = JArr (map canonicalize items)"
| "canonicalize other = other"

definition CANDIDATE_CONTENT_ENCODING_V1 :: string where
  "CANDIDATE_CONTENT_ENCODING_V1 = ''pgroles.io/candidate-content/v1''"

text \<open>The envelope is a \<open>Map\<close>, which iterates in key order: \<open>content\<close> before \<open>encoding\<close>.\<close>

definition canonical_content_bytes :: "(json \<Rightarrow> string) \<Rightarrow> json \<Rightarrow> string" where
  "canonical_content_bytes to_vec content =
     to_vec (JObj [(''content'', canonicalize content), (''encoding'', JStr CANDIDATE_CONTENT_ENCODING_V1)])"

definition hex_digit :: "nat \<Rightarrow> char" where
  "hex_digit n = (if n < 10 then char_of (48 + n) else char_of (87 + n))"

definition hex_byte :: "char \<Rightarrow> string" where
  "hex_byte b = [hex_digit (of_char b div 16), hex_digit (of_char b mod 16)]"

definition sha256_prefixed :: "(string \<Rightarrow> string) \<Rightarrow> string \<Rightarrow> string" where
  "sha256_prefixed sha256 bytes = ''sha256:'' @ concat (map hex_byte (sha256 bytes))"

definition compute_content_digest :: "(json \<Rightarrow> string) \<Rightarrow> (string \<Rightarrow> string) \<Rightarrow> json \<Rightarrow> string" where
  "compute_content_digest to_vec sha256 content = sha256_prefixed sha256 (canonical_content_bytes to_vec content)"


section \<open>The digest is faithful to the hash\<close>

lemma hex_digit_inject: "m < 16 \<Longrightarrow> n < 16 \<Longrightarrow> hex_digit m = hex_digit n \<longleftrightarrow> m = n"
proof -
  have v: "of_char (hex_digit k) = (if k < 10 then 48 + k else 87 + k)" if "k < 16" for k :: nat
    using that by (simp add: hex_digit_def)
  assume mn: "m < 16" "n < 16"
  have "m = n" if "hex_digit m = hex_digit n"
  proof -
    have "(if m < 10 then 48 + m else 87 + m) = (if n < 10 then 48 + n else 87 + n)"
      unfolding v[OF mn(1), symmetric] v[OF mn(2), symmetric] that ..
    then show ?thesis by (simp split: if_splits)
  qed
  then show ?thesis by blast
qed

lemma hex_byte_inject: "hex_byte a = hex_byte b \<longleftrightarrow> a = b"
proof -
  have lt: "of_char c div 16 < (16 :: nat)" "of_char c mod 16 < (16 :: nat)" for c
    using nat_of_char_less_256[of c] by (auto intro: less_mult_imp_div_less)
  have "of_char a = (of_char b :: nat)"
    if "of_char a div 16 = (of_char b div 16 :: nat)" "of_char a mod 16 = (of_char b mod 16 :: nat)"
    using that by (metis div_mult_mod_eq)
  then show ?thesis using hex_digit_inject lt by (auto simp: hex_byte_def)
qed

lemma hex_inject: "concat (map hex_byte xs) = concat (map hex_byte ys) \<longleftrightarrow> xs = ys"
proof (induction xs arbitrary: ys)
  case Nil
  then show ?case by (cases ys) (simp_all add: hex_byte_def)
next
  case (Cons x xs)
  have "hex_byte x @ u = hex_byte y @ v \<longleftrightarrow> x = y \<and> u = v" for y u v
    using hex_byte_inject[of x y] by (auto simp: hex_byte_def)
  then show ?case using Cons by (cases ys) (auto simp: hex_byte_def)
qed

lemma sha256_prefixed_inject: "sha256_prefixed h a = sha256_prefixed h b \<longleftrightarrow> h a = h b"
  by (simp add: sha256_prefixed_def hex_inject)

section \<open>The canonical form\<close>

text \<open>What an object says: its entries whose canonical value is not empty, by key.\<close>

definition content_at :: "(string \<times> json) list \<Rightarrow> string \<Rightarrow> json option" where
  "content_at entries key =
     Option.bind (map_of entries key) (\<lambda>v. if is_empty_value (canonicalize v) then None else Some (canonicalize v))"

lemma canonical_entries:
  assumes "distinct (map fst entries)"
  shows "fmlookup (collect_map (filter (\<lambda>(key, entry). \<not> is_empty_value entry)
           (map (\<lambda>(key, entry). (key, canonicalize entry)) entries))) k = content_at entries k"
proof -
  have "distinct (map fst (filter (\<lambda>(key, entry). \<not> is_empty_value entry) (map (\<lambda>(key, entry). (key, canonicalize entry)) entries)))"
    using assms by (induction entries) (auto simp: image_iff split: if_splits prod.splits)
  moreover have "map_of (filter (\<lambda>(key, entry). \<not> is_empty_value entry) (map (\<lambda>(key, entry). (key, canonicalize entry)) entries)) k
      = content_at entries k"
    using assms by (induction entries) (auto simp: content_at_def map_of_eq_None_iff image_iff split: if_splits prod.splits option.splits)
  ultimately show ?thesis by (simp add: lookup_collect_map_distinct)
qed

lemma bt_entries_inject: "bt_entries m = bt_entries n \<longleftrightarrow> m = n"
  by (metis btreemap_eqI map_of_bt_entries)

lemma canonical_object_eq_iff:
  assumes "distinct (map fst xs)" "distinct (map fst ys)"
  shows "canonicalize (JObj xs) = canonicalize (JObj ys) \<longleftrightarrow> (\<forall>k. content_at xs k = content_at ys k)"
  using canonical_entries[OF assms(1)] canonical_entries[OF assms(2)]
  by (auto simp: bt_entries_inject intro!: btreemap_eqI)

lemma canonicalize_json_idem: "canonicalize (canonicalize v) = canonicalize v"
proof (induction v rule: canonicalize.induct)
  case (1 entries)
  let ?es = "filter (\<lambda>(key, entry). \<not> is_empty_value entry) (map (\<lambda>(key, entry). (key, canonicalize entry)) entries)"
  let ?m = "collect_map ?es"
  have vals: "canonicalize v = v \<and> \<not> is_empty_value v" if "(k, v) \<in> set (bt_entries ?m)" for k v
  proof -
    have "(k, v) \<in> set ?es" using that by (auto simp: lookup_collect_map dest!: map_of_SomeD)
    then show ?thesis using 1 by auto
  qed
  have "map (\<lambda>(key, entry). (key, canonicalize entry)) (bt_entries ?m) = bt_entries ?m"
  proof (rule map_idI)
    fix p assume p: "p \<in> set (bt_entries ?m)"
    obtain k v where kv: "p = (k, v)" by (cases p)
    show "(case p of (key, entry) \<Rightarrow> (key, canonicalize entry)) = p" unfolding kv prod.case using vals[of k v] p kv by blast
  qed
  moreover have "filter (\<lambda>(key, entry). \<not> is_empty_value entry) (bt_entries ?m) = bt_entries ?m"
    using vals by (intro filter_True) blast
  moreover have "collect_map (bt_entries ?m) = ?m"
    by (rule btreemap_eqI) (simp add: lookup_collect_map_distinct)
  ultimately show ?case by simp
qed auto


text \<open>An injective serialization, so that the hypotheses can be met.\<close>

instance json :: countable
  by countable_datatype

definition ex_to_vec :: "'a::countable \<Rightarrow> string" where
  "ex_to_vec v = replicate (to_nat v) (CHR ''x'')"

lemma inj_ex_to_vec: "inj ex_to_vec"
  by (rule injI) (metis ex_to_vec_def length_replicate to_nat_split from_nat_to_nat)


end
