(* ===== verification/Approval.thy ===== *)
theory Approval
  imports Json SqlLaws
begin

text \<open>
  What an approval binds (\<open>crates/pgroles-core/src/approval.rs\<close>): the canonical set of effects whose
  digest identifies a plan, and the comparison of the database an approval was given for with the
  database in front of the operator. The serialization of a change, of a value and of the whole set are
  library code (\<open>serde\<close>) and are arguments; SHA-256 is one too.
\<close>

section \<open>Target identity\<close>

record target_identity =
  ti_physical :: "string option"
  ti_logical :: "string option"

datatype target_identity_reason =
    TargetChanged | TargetIdentityUnavailable | TargetIdentityAppeared | PhysicalIdentityRequired

datatype target_identity_verdict =
    Proceed | Superseded target_identity_reason | Blocked target_identity_reason

definition logical_only :: "string \<Rightarrow> target_identity" where
  "logical_only logical = \<lparr>ti_physical = None, ti_logical = Some logical\<rparr>"

definition has_physical :: "target_identity \<Rightarrow> bool" where
  "has_physical identity = (ti_physical identity \<noteq> None)"

fun compare_identities :: "(string option \<times> string option) list \<Rightarrow> target_identity_verdict" where
  "compare_identities [] = Proceed"
| "compare_identities ((Some approved, Some observed) # rest) =
     (if approved \<noteq> observed then Superseded TargetChanged else compare_identities rest)"
| "compare_identities ((Some _, None) # rest) = Superseded TargetIdentityUnavailable"
| "compare_identities ((None, Some _) # rest) = Superseded TargetIdentityAppeared"
| "compare_identities ((None, None) # rest) = compare_identities rest"

definition evaluate_target_identity :: "target_identity \<Rightarrow> target_identity \<Rightarrow> bool \<Rightarrow> target_identity_verdict" where
  "evaluate_target_identity approved observed require_physical_identity =
     (if require_physical_identity \<and> (\<not> has_physical observed \<or> \<not> has_physical approved)
      then Blocked PhysicalIdentityRequired
      else compare_identities [(ti_physical approved, ti_physical observed), (ti_logical approved, ti_logical observed)])"

fun reason_as_str :: "target_identity_reason \<Rightarrow> string" where
  "reason_as_str TargetChanged = ''TargetChanged''"
| "reason_as_str TargetIdentityUnavailable = ''TargetIdentityUnavailable''"
| "reason_as_str TargetIdentityAppeared = ''TargetIdentityAppeared''"
| "reason_as_str PhysicalIdentityRequired = ''PhysicalIdentityRequired''"

text \<open>
  Execution proceeds exactly when both identities read as they did at approval and, where the
  deployment requires it, the physical identity is known; no unreadable or newly readable identity passes. It is
  blocked exactly when a required physical identity is missing.
\<close>

theorem target_identity_gate:
  "(evaluate_target_identity approved observed required = Proceed \<longleftrightarrow>
      approved = observed \<and> (required \<longrightarrow> has_physical observed)) \<and>
   ((\<exists>r. evaluate_target_identity approved observed required = Blocked r) \<longleftrightarrow>
      required \<and> (\<not> has_physical observed \<or> \<not> has_physical approved)) \<and>
   (evaluate_target_identity approved observed False = Superseded TargetIdentityUnavailable \<longrightarrow>
      (has_physical approved \<and> \<not> has_physical observed) \<or> (ti_logical approved \<noteq> None \<and> ti_logical observed = None))"
  by (cases approved; cases observed; cases "ti_physical approved"; cases "ti_physical observed";
      cases "ti_logical approved"; cases "ti_logical observed")
     (simp_all add: evaluate_target_identity_def has_physical_def)

theorem target_identity_gate_witness:
  "evaluate_target_identity \<lparr>ti_physical = Some ''7'', ti_logical = Some ''db''\<rparr> (logical_only ''db'') False =
     Superseded TargetIdentityUnavailable \<and>
   evaluate_target_identity (logical_only ''db'') (logical_only ''db'') False = Proceed"
proof -
  have "evaluate_target_identity (logical_only ''db'') (logical_only ''db'') False = Proceed"
    using target_identity_gate[of "logical_only ''db''" "logical_only ''db''" False] by simp
  moreover have "evaluate_target_identity \<lparr>ti_physical = Some ''7'', ti_logical = Some ''db''\<rparr> (logical_only ''db'') False =
     Superseded TargetIdentityUnavailable"
    by (simp add: evaluate_target_identity_def logical_only_def)
  ultimately show ?thesis by blast
qed


section \<open>The change digest\<close>

definition APPROVAL_EFFECT_ENCODING_V3 :: string where
  "APPROVAL_EFFECT_ENCODING_V3 = ''pgroles.io/approval-effect/v3''"

datatype approval_digest_error = MissingPasswordSource string

record effect_digest_inputs =
  di_reconciliation_mode :: reconciliation_mode
  di_target :: string
  di_target_identity :: target_identity
  di_password_source_versions :: "(string, string) btreemap"
  di_owned_roles :: "string list"
  di_owned_schemas :: "string list"

record canonical_change_set =
  cs_effect_encoding :: string
  cs_reconciliation_mode :: reconciliation_mode
  cs_target :: string
  cs_target_physical_identity :: "string option"
  cs_target_logical_fingerprint :: "string option"
  cs_owned_roles :: "string btreeset"
  cs_owned_schemas :: "string btreeset"
  cs_effects :: "json list"

definition canonical_effect ::
  "(change \<Rightarrow> json) \<Rightarrow> (string, string) btreemap \<Rightarrow> change \<Rightarrow> approval_digest_error + json" where
  "canonical_effect to_value password_source_versions change =
     (case change of
        SetPassword name _ \<Rightarrow>
          (case fmlookup password_source_versions name of
             None \<Rightarrow> Inl (MissingPasswordSource name)
           | Some source \<Rightarrow>
               Inr (JObj [(''SetPassword'', JObj [(''name'', JStr name), (''password_source'', JStr source)])]))
      | _ \<Rightarrow> Inr (to_value change))"

definition canonical_change_set_of ::
  "(change \<Rightarrow> json) \<Rightarrow> (json \<Rightarrow> string) \<Rightarrow> change list \<Rightarrow> effect_digest_inputs \<Rightarrow>
   approval_digest_error + canonical_change_set" where
  "canonical_change_set_of to_value to_string changes inputs =
     bind_r (map_r (canonical_effect to_value (di_password_source_versions inputs)) changes) (\<lambda>effects.
       Inr \<lparr>cs_effect_encoding = APPROVAL_EFFECT_ENCODING_V3,
            cs_reconciliation_mode = di_reconciliation_mode inputs,
            cs_target = di_target inputs,
            cs_target_physical_identity = ti_physical (di_target_identity inputs),
            cs_target_logical_fingerprint = ti_logical (di_target_identity inputs),
            cs_owned_roles = fset_of_list (di_owned_roles inputs),
            cs_owned_schemas = fset_of_list (di_owned_schemas inputs),
            cs_effects = sort_key to_string effects\<rparr>)"

definition canonical_change_set_bytes ::
  "(change \<Rightarrow> json) \<Rightarrow> (json \<Rightarrow> string) \<Rightarrow> (canonical_change_set \<Rightarrow> string) \<Rightarrow> change list \<Rightarrow> effect_digest_inputs \<Rightarrow>
   approval_digest_error + string" where
  "canonical_change_set_bytes to_value to_string to_vec changes inputs =
     bind_r (canonical_change_set_of to_value to_string changes inputs) (\<lambda>set. Inr (to_vec set))"

definition compute_change_digest ::
  "(change \<Rightarrow> json) \<Rightarrow> (json \<Rightarrow> string) \<Rightarrow> (canonical_change_set \<Rightarrow> string) \<Rightarrow> (string \<Rightarrow> string) \<Rightarrow>
   change list \<Rightarrow> effect_digest_inputs \<Rightarrow> approval_digest_error + string" where
  "compute_change_digest to_value to_string to_vec sha256 changes inputs =
     bind_r (canonical_change_set_bytes to_value to_string to_vec changes inputs) (\<lambda>bytes.
       Inr (sha256_prefixed sha256 bytes))"

section \<open>What the digest binds\<close>

definition same_binding :: "effect_digest_inputs \<Rightarrow> effect_digest_inputs \<Rightarrow> bool" where
  "same_binding i j \<longleftrightarrow>
     di_reconciliation_mode i = di_reconciliation_mode j \<and> di_target i = di_target j \<and>
     di_target_identity i = di_target_identity j \<and> set (di_owned_roles i) = set (di_owned_roles j) \<and>
     set (di_owned_schemas i) = set (di_owned_schemas j)"

lemma sort_key_eq_iff:
  assumes "inj k"
  shows "sort_key k xs = sort_key k ys \<longleftrightarrow> mset xs = mset ys"
proof
  assume "sort_key k xs = sort_key k ys"
  then show "mset xs = mset ys" by (metis mset_sort)
next
  assume m: "mset xs = mset ys"
  show "sort_key k xs = sort_key k ys"
    using sort_key_inj_key_eq[of xs "sort_key k ys" k] m inj_on_subset[OF assms] by simp
qed

lemma change_set_eq_iff:
  assumes "map_r (canonical_effect to_value (di_password_source_versions i)) cs = Inr es"
    "map_r (canonical_effect to_value (di_password_source_versions j)) ds = Inr fs" "inj to_string"
  shows "canonical_change_set_of to_value to_string cs i = canonical_change_set_of to_value to_string ds j \<longleftrightarrow>
           same_binding i j \<and> mset es = mset fs"
proof -
  have ti: "di_target_identity i = di_target_identity j \<longleftrightarrow>
      ti_physical (di_target_identity i) = ti_physical (di_target_identity j) \<and>
      ti_logical (di_target_identity i) = ti_logical (di_target_identity j)"
    by (auto intro: target_identity.equality)
  have fs: "fset_of_list xs = fset_of_list ys \<longleftrightarrow> set xs = set ys" for xs ys :: "string list"
    by (metis fset_inject fset_of_list.rep_eq)
  show ?thesis
    using assms(1,2) by (auto simp: canonical_change_set_of_def same_binding_def ti fs sort_key_eq_iff[OF assms(3)])
qed

lemma digest_eq_iff:
  assumes "map_r (canonical_effect to_value (di_password_source_versions i)) cs = Inr es"
    "map_r (canonical_effect to_value (di_password_source_versions j)) ds = Inr fs"
    "inj to_string" "inj to_vec"
    and "\<And>a b. canonical_change_set_bytes to_value to_string to_vec cs i = Inr a \<Longrightarrow>
           canonical_change_set_bytes to_value to_string to_vec ds j = Inr b \<Longrightarrow> sha256 a = sha256 b \<Longrightarrow> a = b"
  shows "compute_change_digest to_value to_string to_vec sha256 cs i = compute_change_digest to_value to_string to_vec sha256 ds j \<longleftrightarrow>
           same_binding i j \<and> mset es = mset fs"
proof -
  obtain a b where ab: "canonical_change_set_of to_value to_string cs i = Inr a" "canonical_change_set_of to_value to_string ds j = Inr b"
    using assms(1,2) by (simp add: canonical_change_set_of_def)
  have "compute_change_digest to_value to_string to_vec sha256 cs i = compute_change_digest to_value to_string to_vec sha256 ds j \<longleftrightarrow>
      sha256 (to_vec a) = sha256 (to_vec b)"
    using ab by (simp add: compute_change_digest_def canonical_change_set_bytes_def sha256_prefixed_inject)
  also have "\<dots> \<longleftrightarrow> a = b"
    using assms(5)[of "to_vec a" "to_vec b"] injD[OF assms(4)] ab by (auto simp: canonical_change_set_bytes_def)
  also have "\<dots> \<longleftrightarrow> same_binding i j \<and> mset es = mset fs"
    using change_set_eq_iff[OF assms(1-3)] ab by simp
  finally show ?thesis .
qed


lemma same_but_password_effect:
  "same_but_password a b \<Longrightarrow> canonical_effect to_value src a = canonical_effect to_value src b"
  by (erule same_but_passwordE) (simp_all add: canonical_effect_def split: option.splits)

lemma same_but_password_effects:
  "list_all2 same_but_password cs ds \<Longrightarrow> map_r (canonical_effect to_value src) cs = map_r (canonical_effect to_value src) ds"
  by (induction rule: list_all2_induct) (simp_all add: same_but_password_effect)

lemma map_r_mset:
  "map_r f xs = Inr us \<Longrightarrow> mset xs = mset ys \<Longrightarrow> \<exists>vs. map_r f ys = Inr vs \<and> mset us = mset vs"
proof (induction xs arbitrary: ys us)
  case (Cons x xs)
  obtain u us' where u: "f x = Inr u" "map_r f xs = Inr us'" "us = u # us'"
    using Cons.prems(1) by auto
  obtain ys1 ys2 where ys: "ys = ys1 @ x # ys2"
    using Cons.prems(2) by (metis list.set_intros(1) mset_eq_setD split_list)
  then obtain vs where vs: "map_r f (ys1 @ ys2) = Inr vs" "mset us' = mset vs"
    using Cons.IH[OF u(2), of "ys1 @ ys2"] Cons.prems(2) by auto
  have "\<exists>vs'. map_r f (ys1 @ x # ys2) = Inr vs' \<and> mset vs' = add_mset u (mset vs)"
    using vs(1) u(1)
  proof (induction ys1 arbitrary: vs)
    case (Cons y ys1)
    then show ?case by fastforce
  qed auto
  then show ?case using ys vs(2) u(3) by auto
qed simp

text \<open>
  The digest is stable: computing a plan again with other verifiers for the same password sources, or
  in another order, gives the same digest.
\<close>

theorem change_digest_stable:
  assumes "compute_change_digest to_value to_string to_vec sha256 cs inputs = Inr digest"
    "list_all2 same_but_password cs cs'" "mset cs' = mset ds" "inj to_string"
  shows "compute_change_digest to_value to_string to_vec sha256 ds inputs = Inr digest"
proof -
  obtain es where es: "map_r (canonical_effect to_value (di_password_source_versions inputs)) cs' = Inr es"
    using assms(1) same_but_password_effects[OF assms(2)]
    by (auto simp: compute_change_digest_def canonical_change_set_bytes_def canonical_change_set_of_def)
  obtain fs where fs: "map_r (canonical_effect to_value (di_password_source_versions inputs)) ds = Inr fs" "mset es = mset fs"
    using map_r_mset[OF es assms(3)] by blast
  have "canonical_change_set_of to_value to_string cs' inputs = canonical_change_set_of to_value to_string ds inputs"
    using change_set_eq_iff[OF es fs(1) assms(4)] fs(2) by (simp add: same_binding_def)
  moreover have "canonical_change_set_of to_value to_string cs inputs = canonical_change_set_of to_value to_string cs' inputs"
    using same_but_password_effects[OF assms(2)] by (simp add: canonical_change_set_of_def)
  ultimately show ?thesis using assms(1) by (simp add: compute_change_digest_def canonical_change_set_bytes_def)
qed

instance reconciliation_mode :: countable
  by countable_datatype

definition ex_to_value :: "change \<Rightarrow> json" where
  "ex_to_value c = (case c of DropRole name \<Rightarrow> JObj [(''DropRole'', JObj [(''name'', JStr name)])] | _ \<Rightarrow> JNull)"

definition ex_set_to_vec :: "canonical_change_set \<Rightarrow> string" where
  "ex_set_to_vec s = ex_to_vec
     (cs_effect_encoding s, cs_reconciliation_mode s, cs_target s, cs_target_physical_identity s,
      cs_target_logical_fingerprint s, bt_elements (cs_owned_roles s), bt_elements (cs_owned_schemas s), cs_effects s)"

lemma inj_ex_set_to_vec: "inj ex_set_to_vec"
proof (rule injI)
  fix a b assume "ex_set_to_vec a = ex_set_to_vec b"
  then have "(cs_effect_encoding a, cs_reconciliation_mode a, cs_target a, cs_target_physical_identity a,
      cs_target_logical_fingerprint a, bt_elements (cs_owned_roles a), bt_elements (cs_owned_schemas a), cs_effects a) =
    (cs_effect_encoding b, cs_reconciliation_mode b, cs_target b, cs_target_physical_identity b,
      cs_target_logical_fingerprint b, bt_elements (cs_owned_roles b), bt_elements (cs_owned_schemas b), cs_effects b)"
    unfolding ex_set_to_vec_def by (rule injD[OF inj_ex_to_vec])
  moreover have "s = t" if "bt_elements s = bt_elements t" for s t :: "string fset"
    using that set_bt_elements by (metis fset_inject)
  ultimately show "a = b" by (intro canonical_change_set.equality) auto
qed

definition ex_inputs :: "string \<Rightarrow> effect_digest_inputs" where
  "ex_inputs target =
     \<lparr>di_reconciliation_mode = Authoritative, di_target = target, di_target_identity = logical_only ''db'',
      di_password_source_versions = fmupd ''app'' ''secret:1'' fmempty, di_owned_roles = [''app''], di_owned_schemas = []\<rparr>"


theorem change_digest_stable_witness:
  "\<exists>digest. compute_change_digest ex_to_value ex_to_vec ex_set_to_vec id [SetPassword ''app'' ''v1'', DropRole ''a''] (ex_inputs ''x'') = Inr digest \<and>
     compute_change_digest ex_to_value ex_to_vec ex_set_to_vec id [DropRole ''a'', SetPassword ''app'' ''v2''] (ex_inputs ''x'') = Inr digest"
proof -
  obtain digest where d: "compute_change_digest ex_to_value ex_to_vec ex_set_to_vec id [SetPassword ''app'' ''v1'', DropRole ''a''] (ex_inputs ''x'') = Inr digest"
    by (simp add: compute_change_digest_def canonical_change_set_bytes_def canonical_change_set_of_def canonical_effect_def ex_inputs_def)
  then show ?thesis
    using change_digest_stable[OF d, of "[SetPassword ''app'' ''v2'', DropRole ''a'']" "[DropRole ''a'', SetPassword ''app'' ''v2'']"] inj_ex_to_vec
    by (auto simp: add_mset_commute)
qed

end
