(* ===== verification/PlanStatus.thy ===== *)
theory PlanStatus
  imports Approval
begin

text \<open>
  The review artifact of the operator (\<open>crates/pgroles-operator/src/plan.rs\<close>, \<open>crd.rs\<close>): the status of a plan, the
  decision recorded on it, the conditions the operator writes, and the functions that decide what happens to a plan.
  The clock (\<open>now\<close>, an RFC 3339 text) and its parser are arguments. The descriptive fields of the status (change
  summary, SQL preview) are left out: no operation below reads or changes them.
\<close>

section \<open>Objects\<close>

datatype plan_phase = PhPending | PhApproved | PhApplying | PhApplied | PhFailed | PhSuperseded | PhRejected

record policy_condition =
  pc_type :: string
  pc_status :: string
  pc_reason :: "string option"
  pc_message :: "string option"
  pc_last_transition_time :: "string option"

record decision_actor =
  da_username :: string
  da_uid :: "string option"
  da_groups :: "string list"

record plan_status =
  ps_phase :: plan_phase
  ps_conditions :: "policy_condition list"
  ps_decided_by :: "decision_actor option"
  ps_computed_at :: "string option"
  ps_applied_at :: "string option"
  ps_last_error :: "string option"
  ps_sql_hash :: "string option"
  ps_change_digest :: "string option"
  ps_password_source_digest :: "string option"
  ps_change_digest_encoding :: "string option"
  ps_target_physical_identity :: "string option"
  ps_target_logical_fingerprint :: "string option"
  ps_physical_identity_available :: "bool option"
  ps_revalidated_generation :: "int option"
  ps_revalidated_at :: "string option"
  ps_applying_since :: "string option"
  ps_failed_at :: "string option"

definition default_plan_status :: plan_status where
  "default_plan_status =
     \<lparr>ps_phase = PhPending, ps_conditions = [], ps_decided_by = None, ps_computed_at = None, ps_applied_at = None,
      ps_last_error = None, ps_sql_hash = None, ps_change_digest = None, ps_password_source_digest = None,
      ps_change_digest_encoding = None, ps_target_physical_identity = None, ps_target_logical_fingerprint = None,
      ps_physical_identity_available = None, ps_revalidated_generation = None, ps_revalidated_at = None,
      ps_applying_since = None, ps_failed_at = None\<rparr>"

record plan_origin =
  po_kind :: string
  po_name :: string
  po_uid :: string
  po_content_digest :: "string option"
  po_content_digest_encoding :: "string option"
  po_policy_uid :: "string option"
  po_base_content_digest :: "string option"

record owner_reference =
  or_kind :: string
  or_uid :: string
  or_controller :: "bool option"

datatype scoped_operation = ScopedActivate | ScopedRevoke

record plan_scope =
  sc_kind :: string
  sc_operation :: scoped_operation
  sc_bundle_hash :: string

text \<open>A plan object, with the parts of its metadata and specification the decisions read.\<close>

record policy_plan =
  pl_name :: "string option"
  pl_creation_timestamp :: "int option"
  pl_labels :: "(string, string) btreemap"
  pl_owner_references :: "owner_reference list"
  pl_policy_ref :: string
  pl_managed_database_identity :: string
  pl_origin :: "plan_origin option"
  pl_scope :: "plan_scope option"
  pl_status :: "plan_status option"

definition name_any :: "policy_plan \<Rightarrow> string" where
  "name_any plan = unwrap_or (pl_name plan) []"

section \<open>Decisions\<close>

datatype plan_approval_state = ApprovalPending | ApprovalApproved | ApprovalRejected

definition decided :: "plan_status \<Rightarrow> string \<Rightarrow> bool" where
  "decided status condition_type =
     list_ex (\<lambda>c. pc_type c = condition_type \<and> pc_status c = ''True'') (ps_conditions status)"

definition check_plan_approval :: "policy_plan \<Rightarrow> plan_approval_state" where
  "check_plan_approval plan =
     (case pl_status plan of
        None \<Rightarrow> ApprovalPending
      | Some status \<Rightarrow>
          if decided status ''Denied'' then ApprovalRejected
          else if decided status ''Approved'' then ApprovalApproved
          else ApprovalPending)"

definition is_denied :: "plan_status \<Rightarrow> bool" where
  "is_denied status = decided status ''Denied''"

definition has_terminal_decision :: "plan_status \<Rightarrow> bool" where
  "has_terminal_decision status =
     list_ex (\<lambda>c. (pc_type c = ''Approved'' \<or> pc_type c = ''Denied'') \<and> pc_status c = ''True'') (ps_conditions status)"

definition set_plan_condition ::
  "string \<Rightarrow> policy_condition list \<Rightarrow> string \<Rightarrow> string \<Rightarrow> string \<Rightarrow> string \<Rightarrow> policy_condition list" where
  "set_plan_condition now conditions condition_type status reason message =
     (let transition_time =
            (case find (\<lambda>c. pc_type c = condition_type) conditions of
               Some existing \<Rightarrow> if pc_status existing = status then pc_last_transition_time existing else Some now
             | None \<Rightarrow> Some now) in
      filter (\<lambda>c. pc_type c \<noteq> condition_type) conditions @
      [\<lparr>pc_type = condition_type, pc_status = status, pc_reason = Some reason, pc_message = Some message,
        pc_last_transition_time = transition_time\<rparr>])"

datatype supersede_cause =
    EffectsChanged
  | PasswordSourceChanged
  | EffectsCleared
  | ReplacedByNewerPlan
  | DuplicateOfActionablePlan
  | CauseTargetChanged target_identity_reason
  | PolicyStoppedPlanning
  | SupersededByPromotion
  | BaseContentChanged

fun cause_reason :: "supersede_cause \<Rightarrow> string" where
  "cause_reason (CauseTargetChanged reason) = reason_as_str reason"
| "cause_reason PasswordSourceChanged = ''PasswordSourceChanged''"
| "cause_reason SupersededByPromotion = ''SupersededByPromotion''"
| "cause_reason BaseContentChanged = ''SupersededByBaseChange''"
| "cause_reason _ = ''Superseded''"

text \<open>The texts of \<open>message\<close> are an argument of the writes that record them.\<close>

definition superseded_status :: "string \<Rightarrow> (supersede_cause \<Rightarrow> string) \<Rightarrow> plan_status \<Rightarrow> supersede_cause \<Rightarrow> plan_status" where
  "superseded_status now message status cause =
     (let conditions = set_plan_condition now (ps_conditions status) ''Superseded'' ''True'' (cause_reason cause) (message cause);
          conditions = (if \<not> has_terminal_decision status
                        then set_plan_condition now conditions ''Approved'' ''False'' (cause_reason cause) (message cause)
                        else conditions) in
      status\<lparr>ps_phase := PhSuperseded, ps_conditions := conditions\<rparr>)"

section \<open>What a plan is bound to\<close>

definition plan_target_identity :: "plan_status \<Rightarrow> target_identity" where
  "plan_target_identity status =
     \<lparr>ti_physical = ps_target_physical_identity status, ti_logical = ps_target_logical_fingerprint status\<rparr>"

definition plan_matches_digest :: "plan_status \<Rightarrow> string \<Rightarrow> bool" where
  "plan_matches_digest status change_digest =
     (ps_change_digest_encoding status = Some APPROVAL_EFFECT_ENCODING_V3 \<and> ps_change_digest status = Some change_digest)"

definition plan_base_pin :: "policy_plan \<Rightarrow> string option" where
  "plan_base_pin plan = Option.bind (pl_origin plan) po_base_content_digest"

definition password_source_changed :: "plan_status \<Rightarrow> string \<Rightarrow> bool" where
  "password_source_changed status current_digest = is_some_and (ps_password_source_digest status) (\<lambda>old. old \<noteq> current_digest)"

section \<open>The fate of plans\<close>

definition supersedes_after_create :: "plan_status \<Rightarrow> string \<Rightarrow> bool" where
  "supersedes_after_create status new_digest =
     (case ps_phase status of
        PhPending \<Rightarrow> True
      | PhApproved \<Rightarrow> \<not> plan_matches_digest status new_digest
      | _ \<Rightarrow> False)"

datatype plan_reuse = PendingOnly | AutoApproval

definition reusable_phase :: "plan_reuse \<Rightarrow> plan_phase \<Rightarrow> bool" where
  "reusable_phase reuse phase =
     (case reuse of PendingOnly \<Rightarrow> phase = PhPending | AutoApproval \<Rightarrow> phase = PhPending \<or> phase = PhApproved)"

definition is_reusable :: "string \<Rightarrow> string option \<Rightarrow> plan_reuse \<Rightarrow> policy_plan \<Rightarrow> bool" where
  "is_reusable change_digest expected_base reuse plan =
     (is_some_and (pl_status plan) (\<lambda>status. reusable_phase reuse (ps_phase status) \<and> \<not> is_denied status \<and>
        plan_matches_digest status change_digest) \<and>
      (case expected_base of None \<Rightarrow> True | Some base \<Rightarrow> plan_base_pin plan = Some base))"

definition reuse_key :: "policy_plan \<Rightarrow> bool \<times> int option \<times> string option" where
  "reuse_key plan = (is_some_and (pl_status plan) (\<lambda>status. ps_phase status = PhApproved), pl_creation_timestamp plan, pl_name plan)"

text \<open>\<open>Iterator::max_by\<close>: the last of the greatest elements.\<close>

fun max_by_key :: "('a \<Rightarrow> 'k::linorder) \<Rightarrow> 'a list \<Rightarrow> 'a option" where
  "max_by_key key [] = None"
| "max_by_key key (x # xs) = Some (fold (\<lambda>y best. if key best \<le> key y then y else best) xs x)"

definition reusable_plan :: "policy_plan list \<Rightarrow> string \<Rightarrow> string option \<Rightarrow> plan_reuse \<Rightarrow> policy_plan option" where
  "reusable_plan plans change_digest expected_base reuse =
     max_by_key reuse_key (filter (is_reusable change_digest expected_base reuse) plans)"

definition supersede_cause_of ::
  "policy_plan \<Rightarrow> plan_status \<Rightarrow> string \<Rightarrow> string \<Rightarrow> string option \<Rightarrow> string \<Rightarrow> plan_reuse \<Rightarrow> supersede_cause option" where
  "supersede_cause_of plan status kept_plan_name new_digest expected_base password_digest reuse =
     (let actionable = (ps_phase status = PhPending \<or> ps_phase status = PhApproved) in
      if name_any plan = kept_plan_name then None
      else if actionable \<and> is_some_and expected_base (\<lambda>base. plan_base_pin plan \<noteq> Some base) then Some BaseContentChanged
      else if reuse = AutoApproval \<and> actionable \<and> plan_matches_digest status new_digest then Some DuplicateOfActionablePlan
      else if \<not> supersedes_after_create status new_digest then None
      else Some (if password_source_changed status password_digest then PasswordSourceChanged else ReplacedByNewerPlan))"

definition needs_revalidation_record :: "plan_status \<Rightarrow> int option \<Rightarrow> bool" where
  "needs_revalidation_record status generation = (ps_revalidated_generation status \<noteq> generation)"

definition should_patch_existing_plan_status :: "policy_plan \<Rightarrow> bool" where
  "should_patch_existing_plan_status plan =
     (case pl_status plan of
        None \<Rightarrow> True
      | Some status \<Rightarrow> ps_phase status = PhPending \<and> ps_change_digest status = None \<and> ps_computed_at status = None \<and>
          ps_sql_hash status = None \<and> \<not> has_terminal_decision status)"

datatype pending_plan_decision = RetainPlan | ReplacePending | ClearPending

definition decide_pending_plan :: "plan_status option \<Rightarrow> string \<Rightarrow> bool \<Rightarrow> pending_plan_decision" where
  "decide_pending_plan plan_status fresh_digest has_changes =
     (if \<not> has_changes then ClearPending
      else if is_some_and plan_status (\<lambda>status. plan_matches_digest status fresh_digest) then RetainPlan
      else ReplacePending)"

datatype approved_plan_decision = ExecutePlan | ReplaceApproved | ClearApproved

definition decide_approved_plan :: "plan_status option \<Rightarrow> string \<Rightarrow> bool \<Rightarrow> approved_plan_decision" where
  "decide_approved_plan plan_status fresh_digest has_changes =
     (if is_some_and plan_status (\<lambda>status. plan_matches_digest status fresh_digest) then ExecutePlan
      else if has_changes then ReplaceApproved
      else ClearApproved)"

section \<open>Windows\<close>

definition FAILED_PLAN_DEDUP_WINDOW_SECS :: int where "FAILED_PLAN_DEDUP_WINDOW_SECS = 120"
definition APPLIED_PLAN_NONCONVERGENT_WINDOW_SECS :: int where "APPLIED_PLAN_NONCONVERGENT_WINDOW_SECS = 120"

definition epoch_or_zero :: "(string \<Rightarrow> int option) \<Rightarrow> string option \<Rightarrow> int" where
  "epoch_or_zero parse timestamp = unwrap_or (Option.bind timestamp parse) 0"

definition applied_recently_without_converging :: "(string \<Rightarrow> int option) \<Rightarrow> policy_plan \<Rightarrow> int \<Rightarrow> bool" where
  "applied_recently_without_converging parse plan now_ts =
     (case pl_status plan of
        None \<Rightarrow> False
      | Some status \<Rightarrow>
          ps_phase status = PhApplied \<and>
          (let applied_ts = epoch_or_zero parse (ps_applied_at status) in
           applied_ts > 0 \<and> applied_ts \<le> now_ts \<and> now_ts - applied_ts < APPLIED_PLAN_NONCONVERGENT_WINDOW_SECS))"

definition retry_deferred_until_window_expires :: "(string \<Rightarrow> int option) \<Rightarrow> policy_plan \<Rightarrow> int \<Rightarrow> bool" where
  "retry_deferred_until_window_expires parse plan now_ts =
     (case pl_status plan of
        None \<Rightarrow> False
      | Some status \<Rightarrow>
          (let failed_ts = epoch_or_zero parse (ps_failed_at status) in
           if \<not> (failed_ts > 0 \<and> failed_ts \<le> now_ts \<and> now_ts - failed_ts < FAILED_PLAN_DEDUP_WINDOW_SECS) then False
           else epoch_or_zero parse (ps_applied_at status) \<le> failed_ts))"
end
