(* ===== verification/PlanWrites.thy ===== *)
theory PlanWrites
  imports PlanStatus
begin

text \<open>
  The writes of the operator to the status of a plan (\<open>crates/pgroles-operator/src/plan.rs\<close>), the validation rules the
  resource definition puts on every such write (\<open>crd.rs\<close>), and the gate between an approval and execution
  (\<open>reconciler.rs\<close>). A write is modelled by the status it leaves; the API call around it is not.
\<close>

section \<open>Validation rules\<close>

definition true_decisions :: "plan_status \<Rightarrow> string list" where
  "true_decisions status =
     map pc_type (filter (\<lambda>c. (pc_type c = ''Approved'' \<or> pc_type c = ''Denied'') \<and> pc_status c = ''True'') (ps_conditions status))"

definition write_once :: "(plan_status \<Rightarrow> 'a option) \<Rightarrow> plan_status \<Rightarrow> plan_status \<Rightarrow> bool" where
  "write_once field old new = (field old = None \<or> field new = field old)"

definition valid_status :: "plan_status \<Rightarrow> bool" where
  "valid_status status =
     (\<not> (decided status ''Approved'' \<and> decided status ''Denied'') \<and>
      (list_ex (\<lambda>c. (pc_type c = ''Approved'' \<or> pc_type c = ''Denied'') \<and> pc_status c = ''True'') (ps_conditions status) \<longleftrightarrow>
       ps_decided_by status \<noteq> None))"

definition admitted_status :: "plan_status \<Rightarrow> plan_status \<Rightarrow> bool" where
  "admitted_status old new =
     (valid_status new \<and>
      (true_decisions old = true_decisions new \<or> true_decisions old = []) \<and>
      write_once ps_decided_by old new \<and>
      write_once ps_change_digest old new \<and> write_once ps_change_digest_encoding old new \<and>
      write_once ps_target_physical_identity old new \<and> write_once ps_target_logical_fingerprint old new \<and>
      write_once ps_physical_identity_available old new)"

section \<open>Writes\<close>

definition AUTO_APPROVAL_ACTOR :: string where
  "AUTO_APPROVAL_ACTOR = ''system:pgroles-operator(auto-approval)''"

text \<open>The body of the patch, as the code spells its keys.\<close>

definition show_phase :: "plan_phase \<Rightarrow> string" where
  "show_phase phase =
     (case phase of PhPending \<Rightarrow> ''Pending'' | PhApproved \<Rightarrow> ''Approved'' | PhApplying \<Rightarrow> ''Applying'' | PhApplied \<Rightarrow> ''Applied''
      | PhFailed \<Rightarrow> ''Failed'' | PhSuperseded \<Rightarrow> ''Superseded'' | PhRejected \<Rightarrow> ''Rejected'')"

definition update_plan_phase :: "string \<Rightarrow> plan_phase \<Rightarrow> (string \<times> json) list" where
  "update_plan_phase now phase =
     (''phase'', JStr (show_phase phase)) # (if phase = PhApplying then [(''applying_since'', JStr now)] else [])"

definition mark_plan_failed :: "string \<Rightarrow> string \<Rightarrow> plan_status option \<Rightarrow> plan_status" where
  "mark_plan_failed now error_message status =
     (unwrap_or status default_plan_status)\<lparr>ps_phase := PhFailed, ps_last_error := Some error_message, ps_failed_at := Some now\<rparr>"

datatype plan_write_error = PlanDenied string

definition mark_plan_approved ::
  "string \<Rightarrow> string \<Rightarrow> string \<Rightarrow> policy_plan \<Rightarrow> plan_write_error + plan_status" where
  "mark_plan_approved now reason message plan =
     (let existing = unwrap_or (pl_status plan) default_plan_status in
      if is_denied existing then Inl (PlanDenied (name_any plan))
      else if has_terminal_decision existing then Inr (existing\<lparr>ps_phase := PhApproved\<rparr>)
      else Inr (existing\<lparr>ps_phase := PhApproved,
                  ps_conditions := set_plan_condition now (ps_conditions existing) ''Approved'' ''True'' reason message,
                  ps_decided_by := (if ps_decided_by existing = None
                    then Some \<lparr>da_username = AUTO_APPROVAL_ACTOR, da_uid = None, da_groups = []\<rparr>
                    else ps_decided_by existing)\<rparr>))"

definition mark_plan_rejected :: "plan_status \<Rightarrow> plan_status" where
  "mark_plan_rejected status = status\<lparr>ps_phase := PhRejected\<rparr>"

definition execute_succeeded :: "string \<Rightarrow> plan_status option \<Rightarrow> plan_status" where
  "execute_succeeded now status =
     (let applied = unwrap_or status default_plan_status in
      applied\<lparr>ps_phase := PhApplied, ps_applied_at := Some now, ps_last_error := None,
              ps_conditions := set_plan_condition now (ps_conditions applied) ''Approved'' ''True'' ''Approved''
                ''Plan approved and executed''\<rparr>)"

definition execute_failed :: "string \<Rightarrow> string \<Rightarrow> plan_status option \<Rightarrow> plan_status" where
  "execute_failed now error_message status =
     (unwrap_or status default_plan_status)\<lparr>ps_phase := PhFailed, ps_last_error := Some error_message, ps_failed_at := Some now\<rparr>"

definition record_plan_revalidation :: "string \<Rightarrow> int option \<Rightarrow> plan_status \<Rightarrow> plan_status" where
  "record_plan_revalidation now generation status =
     status\<lparr>ps_revalidated_generation := generation, ps_revalidated_at := Some now\<rparr>"

section \<open>Recovery of interrupted executions\<close>

definition STUCK_THRESHOLD_SECS :: nat where "STUCK_THRESHOLD_SECS = 5 * 60"

definition recovers_stuck_plan :: "(string \<Rightarrow> nat option) \<Rightarrow> nat \<Rightarrow> plan_status \<Rightarrow> bool" where
  "recovers_stuck_plan parse now_secs status =
     (ps_phase status = PhApplying \<and>
      (case Option.bind (ps_applying_since status) parse of
         None \<Rightarrow> False
       | Some since_secs \<Rightarrow> now_secs - since_secs > STUCK_THRESHOLD_SECS))"

section \<open>The gate\<close>

definition approved_plan_gate ::
  "policy_plan \<Rightarrow> string \<Rightarrow> bool \<Rightarrow> target_identity \<Rightarrow> bool \<Rightarrow> target_identity_verdict \<times> approved_plan_decision" where
  "approved_plan_gate plan fresh_digest has_changes target_identity requires_physical =
     (let approved_identity = (case pl_status plan of None \<Rightarrow> \<lparr>ti_physical = None, ti_logical = None\<rparr>
                               | Some status \<Rightarrow> plan_target_identity status);
          verdict = evaluate_target_identity approved_identity target_identity requires_physical;
          decision = decide_approved_plan (pl_status plan) fresh_digest has_changes in
      (verdict, if verdict \<noteq> Proceed \<and> decision = ExecutePlan then ReplaceApproved else decision))"

definition supersede_cause_of_gate :: "target_identity_verdict \<Rightarrow> approved_plan_decision \<Rightarrow> plan_status option \<Rightarrow> string \<Rightarrow> supersede_cause" where
  "supersede_cause_of_gate verdict decision status password_digest =
     (case verdict of
        Superseded reason \<Rightarrow> CauseTargetChanged reason
      | Blocked reason \<Rightarrow> CauseTargetChanged reason
      | Proceed \<Rightarrow>
          if decision = ClearApproved then EffectsCleared
          else if is_some_and status (\<lambda>s. password_source_changed s password_digest) then PasswordSourceChanged
          else EffectsChanged)"

section \<open>Every write is admitted\<close>

lemma decided_iff: "decided status t \<longleftrightarrow> (\<exists>c\<in>set (ps_conditions status). pc_type c = t \<and> pc_status c = ''True'')"
  by (auto simp: decided_def list_ex_iff)

lemma terminal_iff: "has_terminal_decision status \<longleftrightarrow> decided status ''Approved'' \<or> decided status ''Denied''"
  by (auto simp: has_terminal_decision_def decided_def list_ex_iff)

lemma valid_status_iff:
  "valid_status status \<longleftrightarrow> \<not> (decided status ''Approved'' \<and> decided status ''Denied'') \<and>
     (decided status ''Approved'' \<or> decided status ''Denied'' \<longleftrightarrow> ps_decided_by status \<noteq> None)"
  by (auto simp: valid_status_def decided_def list_ex_iff)

lemma true_decisions_Nil_iff: "true_decisions status = [] \<longleftrightarrow> \<not> has_terminal_decision status"
  by (auto simp: true_decisions_def has_terminal_decision_def list_ex_iff filter_empty_conv)

lemma set_true_decisions: "set (true_decisions status) = {t. (t = ''Approved'' \<or> t = ''Denied'') \<and> decided status t}"
  by (auto simp: true_decisions_def decided_iff)

lemma decided_set_condition:
  "ps_conditions new = set_plan_condition now (ps_conditions old) t s r m \<Longrightarrow>
     decided new t' = (if t' = t then s = ''True'' else decided old t')"
  by (auto simp: decided_def list_ex_iff set_plan_condition_def Let_def)

lemma set_condition_decisions:
  "t \<noteq> ''Approved'' \<Longrightarrow> t \<noteq> ''Denied'' \<Longrightarrow>
     true_decisions (status\<lparr>ps_conditions := set_plan_condition now (ps_conditions status) t s r m\<rparr>) = true_decisions status"
  by (auto simp: true_decisions_def set_plan_condition_def Let_def intro!: arg_cong[of _ _ "map pc_type"] filter_cong)

text \<open>What a write must keep to be admitted, when it leaves the conditions alone.\<close>

definition keeps_bound_fields :: "plan_status \<Rightarrow> plan_status \<Rightarrow> bool" where
  "keeps_bound_fields old new \<longleftrightarrow> ps_change_digest new = ps_change_digest old \<and>
     ps_change_digest_encoding new = ps_change_digest_encoding old \<and>
     ps_target_physical_identity new = ps_target_physical_identity old \<and>
     ps_target_logical_fingerprint new = ps_target_logical_fingerprint old \<and>
     ps_physical_identity_available new = ps_physical_identity_available old"

lemma admittedI:
  assumes "keeps_bound_fields old new" "valid_status new" "ps_decided_by old = None \<or> ps_decided_by new = ps_decided_by old"
    "true_decisions old = true_decisions new \<or> true_decisions old = []"
  shows "admitted_status old new"
  using assms by (simp add: admitted_status_def keeps_bound_fields_def write_once_def)

lemma admitted_same_conditions:
  assumes "valid_status old" "keeps_bound_fields old new" "ps_conditions new = ps_conditions old" "ps_decided_by new = ps_decided_by old"
  shows "admitted_status old new"
  by (rule admittedI) (use assms in \<open>simp_all add: valid_status_def true_decisions_def decided_def\<close>)

lemma approved_admitted:
  assumes "valid_status (unwrap_or (pl_status plan) default_plan_status)" "mark_plan_approved now reason message plan = Inr new"
  shows "admitted_status (unwrap_or (pl_status plan) default_plan_status) new"
proof -
  let ?old = "unwrap_or (pl_status plan) default_plan_status"
  have open': "\<not> is_denied ?old" using assms(2) by (auto simp: mark_plan_approved_def Let_def split: if_splits)
  show ?thesis
  proof (cases "has_terminal_decision ?old")
    case True
    then show ?thesis using assms open'
      by (intro admitted_same_conditions) (auto simp: mark_plan_approved_def Let_def keeps_bound_fields_def)
  next
    case False
    then have old: "ps_decided_by ?old = None" "\<not> decided ?old ''Approved''" "\<not> decided ?old ''Denied''"
      using assms(1) by (auto simp: valid_status_iff terminal_iff)
    have new: "new = ?old\<lparr>ps_phase := PhApproved, ps_conditions := set_plan_condition now (ps_conditions ?old) ''Approved'' ''True'' reason message,
        ps_decided_by := Some \<lparr>da_username = AUTO_APPROVAL_ACTOR, da_uid = None, da_groups = []\<rparr>\<rparr>"
      using False open' old(1) assms(2) by (simp add: mark_plan_approved_def Let_def)
    have "decided new t = (if t = ''Approved'' then True else decided ?old t)" for t
      using decided_set_condition[of new now ?old "''Approved''" "''True''" reason message t] by (simp add: new)
    then have "valid_status new" "keeps_bound_fields ?old new"
      using old(3) by (simp_all add: valid_status_iff new keeps_bound_fields_def)
    then show ?thesis using old(1) False by (intro admittedI) (simp_all add: true_decisions_Nil_iff)
  qed
qed

lemma superseded_admitted:
  assumes "valid_status old"
  shows "admitted_status old (superseded_status now message old cause)"
proof -
  let ?new = "superseded_status now message old cause"
  have same: "ps_decided_by ?new = ps_decided_by old" "keeps_bound_fields old ?new"
    by (simp_all add: superseded_status_def Let_def keeps_bound_fields_def)
  have d: "decided ?new t \<longleftrightarrow> decided old t" if "t = ''Approved'' \<or> t = ''Denied''" for t
  proof -
    let ?mid = "old\<lparr>ps_conditions := set_plan_condition now (ps_conditions old) ''Superseded'' ''True'' (cause_reason cause) (message cause)\<rparr>"
    have mid: "decided ?mid t = decided old t"
      using that decided_set_condition[of ?mid now old "''Superseded''" "''True''" "cause_reason cause" "message cause" t] by auto
    show ?thesis
    proof (cases "has_terminal_decision old")
      case True
      then have "decided ?new t = decided ?mid t" by (simp add: superseded_status_def Let_def decided_def)
      then show ?thesis using mid by simp
    next
      case False
      then have "decided ?new t = (if t = ''Approved'' then False else decided ?mid t)"
        using decided_set_condition[of ?new now ?mid "''Approved''" "''False''" "cause_reason cause" "message cause" t]
        by (simp add: superseded_status_def Let_def)
      then show ?thesis using mid False that by (auto simp: terminal_iff)
    qed
  qed
  have "true_decisions old = true_decisions ?new \<or> true_decisions old = []"
  proof (cases "has_terminal_decision old")
    case True
    then have "true_decisions ?new = true_decisions (old\<lparr>ps_conditions := ps_conditions ?new\<rparr>)" by (simp add: true_decisions_def)
    then show ?thesis using True by (simp add: superseded_status_def Let_def set_condition_decisions)
  qed (simp add: true_decisions_Nil_iff)
  moreover have "valid_status ?new" using assms d same(1) by (auto simp: valid_status_iff)
  ultimately show ?thesis using same by (intro admittedI) simp_all
qed

lemma succeeded_admitted:
  assumes "valid_status old" "decided old ''Approved''" "distinct (true_decisions old)"
  shows "admitted_status old (execute_succeeded now (Some old))"
proof -
  let ?new = "execute_succeeded now (Some old)"
  have den: "\<not> decided old ''Denied''" using assms(1,2) by (simp add: valid_status_iff)
  have "set (true_decisions old) = {''Approved''}" using assms(2) den by (auto simp: set_true_decisions)
  then have "true_decisions old = [''Approved'']" using assms(3)
    by (cases "true_decisions old" rule: remdups_adj.cases) auto
  moreover have "true_decisions ?new = [''Approved'']"
    using den by (auto simp: execute_succeeded_def Let_def true_decisions_def set_plan_condition_def decided_iff filter_empty_conv)
  moreover have "decided ?new t = (if t = ''Approved'' then True else decided old t)" for t
    using decided_set_condition[of ?new now old "''Approved''" "''True''" "''Approved''" "''Plan approved and executed''" t]
    by (simp add: execute_succeeded_def Let_def)
  then have "valid_status ?new"
    using assms(1,2) den by (simp add: valid_status_iff execute_succeeded_def Let_def)
  ultimately show ?thesis
    by (intro admittedI) (simp_all add: execute_succeeded_def Let_def keeps_bound_fields_def)
qed


definition ex_status :: plan_status where
  "ex_status = default_plan_status\<lparr>ps_phase := PhApproved,
     ps_conditions := [\<lparr>pc_type = ''Approved'', pc_status = ''True'', pc_reason = None, pc_message = None, pc_last_transition_time = None\<rparr>],
     ps_decided_by := Some \<lparr>da_username = ''alice'', da_uid = None, da_groups = []\<rparr>\<rparr>"

definition ex_plan :: "plan_status \<Rightarrow> policy_plan" where
  "ex_plan status = \<lparr>pl_name = Some ''plan'', pl_creation_timestamp = Some 0, pl_labels = fmempty, pl_owner_references = [],
     pl_policy_ref = ''main'', pl_managed_database_identity = ''db'', pl_origin = None, pl_scope = None, pl_status = Some status\<rparr>"


section \<open>What executes is what was approved\<close>

definition executes_approved_plan :: "policy_plan \<Rightarrow> string \<Rightarrow> bool \<Rightarrow> target_identity \<Rightarrow> bool \<Rightarrow> bool" where
  "executes_approved_plan plan fresh_digest has_changes target_identity requires_physical =
     (check_plan_approval plan = ApprovalApproved \<and>
      snd (approved_plan_gate plan fresh_digest has_changes target_identity requires_physical) = ExecutePlan)"

lemma executes_iff:
  "executes_approved_plan plan fresh_digest has_changes identity requires \<longleftrightarrow>
     (\<exists>status. pl_status plan = Some status \<and> decided status ''Approved'' \<and> \<not> decided status ''Denied'' \<and>
        plan_matches_digest status fresh_digest \<and>
        evaluate_target_identity (plan_target_identity status) identity requires = Proceed)"
  by (cases "pl_status plan")
     (auto simp: executes_approved_plan_def check_plan_approval_def approved_plan_gate_def decide_approved_plan_def
       is_some_and_def Let_def split: if_splits)

lemma identity_proceeds: "evaluate_target_identity a b r = Proceed \<longleftrightarrow> a = b \<and> (r \<longrightarrow> has_physical b)"
  by (cases a; cases b; cases "ti_physical a"; cases "ti_physical b"; cases "ti_logical a"; cases "ti_logical b")
     (auto simp: evaluate_target_identity_def has_physical_def)

text \<open>
  C13: a manual plan executes only what its reviewer approved. When the reconciler executes a plan, the plan carries an
  approval and no denial, the database is the one the plan was computed against (and its physical identity is known where that
  is required), and the effects computed now are the effects the plan's digest was computed from, with the same mode, target and
  management scope; passwords are compared by their source.
\<close>

theorem executed_effects_are_approved:
  assumes "executes_approved_plan plan fresh_digest has_changes (di_target_identity now) requires"
    "pl_status plan = Some status"
    "compute_change_digest to_value to_string to_vec sha256 approved then_inputs = Inr digest" "ps_change_digest status = Some digest"
    "compute_change_digest to_value to_string to_vec sha256 fresh now = Inr fresh_digest"
    "inj to_string" "inj to_vec"
    and "\<And>a b. canonical_change_set_bytes to_value to_string to_vec approved then_inputs = Inr a \<Longrightarrow>
           canonical_change_set_bytes to_value to_string to_vec fresh now = Inr b \<Longrightarrow> sha256 a = sha256 b \<Longrightarrow> a = b"
  shows "decided status ''Approved'' \<and> \<not> decided status ''Denied'' \<and> same_binding then_inputs now \<and>
     plan_target_identity status = di_target_identity now \<and> (requires \<longrightarrow> has_physical (di_target_identity now)) \<and>
     (\<exists>es fs. map_r (canonical_effect to_value (di_password_source_versions then_inputs)) approved = Inr es \<and>
        map_r (canonical_effect to_value (di_password_source_versions now)) fresh = Inr fs \<and> mset es = mset fs)"
proof -
  obtain es fs where es: "map_r (canonical_effect to_value (di_password_source_versions then_inputs)) approved = Inr es"
    "map_r (canonical_effect to_value (di_password_source_versions now)) fresh = Inr fs"
    using assms(3,5) by (auto simp: compute_change_digest_def canonical_change_set_bytes_def canonical_change_set_of_def)
  have gate: "decided status ''Approved''" "\<not> decided status ''Denied''" "plan_matches_digest status fresh_digest"
    "evaluate_target_identity (plan_target_identity status) (di_target_identity now) requires = Proceed"
    using assms(1,2) by (auto simp: executes_iff)
  then have "compute_change_digest to_value to_string to_vec sha256 approved then_inputs =
      compute_change_digest to_value to_string to_vec sha256 fresh now"
    using assms(3-5) by (simp add: plan_matches_digest_def)
  then have "same_binding then_inputs now \<and> mset es = mset fs"
    using digest_eq_iff[OF es assms(6,7,8)] by simp
  then show ?thesis using gate es identity_proceeds[of "plan_target_identity status"] by blast
qed

definition ex_digest :: string where
  "ex_digest = projr (compute_change_digest ex_to_value ex_to_vec ex_set_to_vec id [DropRole ''a'', DropRole ''b''] (ex_inputs ''x''))"

definition ex_bound_status :: plan_status where
  "ex_bound_status = ex_status\<lparr>ps_change_digest := Some ex_digest, ps_change_digest_encoding := Some APPROVAL_EFFECT_ENCODING_V3,
     ps_target_logical_fingerprint := Some ''db''\<rparr>"

theorem executed_effects_are_approved_witness:
  "\<exists>fresh_digest. compute_change_digest ex_to_value ex_to_vec ex_set_to_vec id [DropRole ''b'', DropRole ''a''] (ex_inputs ''x'') = Inr fresh_digest \<and>
     executes_approved_plan (ex_plan ex_bound_status) fresh_digest True (di_target_identity (ex_inputs ''x'')) False \<and>
     decided ex_bound_status ''Approved'' \<and> same_binding (ex_inputs ''x'') (ex_inputs ''x'')"
proof -
  have e: "map_r (canonical_effect ex_to_value src) (map DropRole ns) = Inr (map (\<lambda>n. ex_to_value (DropRole n)) ns)" for src ns
    by (induction ns) (simp_all add: canonical_effect_def)
  have a: "compute_change_digest ex_to_value ex_to_vec ex_set_to_vec id [DropRole ''a'', DropRole ''b''] (ex_inputs ''x'') = Inr ex_digest"
    unfolding ex_digest_def
    by (simp add: compute_change_digest_def canonical_change_set_bytes_def canonical_change_set_of_def canonical_effect_def)
  have "compute_change_digest ex_to_value ex_to_vec ex_set_to_vec id (map DropRole [''a'', ''b'']) (ex_inputs ''x'') =
      compute_change_digest ex_to_value ex_to_vec ex_set_to_vec id (map DropRole [''b'', ''a'']) (ex_inputs ''x'')"
    by (subst digest_eq_iff[OF e e inj_ex_to_vec inj_ex_set_to_vec]) (simp_all add: same_binding_def add_mset_commute)
  with a have b: "compute_change_digest ex_to_value ex_to_vec ex_set_to_vec id [DropRole ''b'', DropRole ''a''] (ex_inputs ''x'') = Inr ex_digest"
    by simp
  have x: "executes_approved_plan (ex_plan ex_bound_status) ex_digest True (di_target_identity (ex_inputs ''x'')) False"
    by (simp add: executes_iff identity_proceeds ex_plan_def ex_bound_status_def ex_status_def decided_def plan_matches_digest_def
        plan_target_identity_def ex_inputs_def logical_only_def default_plan_status_def)
  have s: "pl_status (ex_plan ex_bound_status) = Some ex_bound_status" "ps_change_digest ex_bound_status = Some ex_digest"
    by (simp_all add: ex_plan_def ex_bound_status_def)
  show ?thesis
    using executed_effects_are_approved[OF x s(1) a s(2) b inj_ex_to_vec inj_ex_set_to_vec] b x by auto
qed

end
