(* ===== verification/Retention.thy ===== *)
theory Retention
  imports PlanWrites
begin

text \<open>
  Retention of finished plans (\<open>crates/pgroles-operator/src/plan.rs\<close>), its bounds read from the environment, and the duration
  syntax they use (\<open>ephemeral.rs\<close>).
\<close>

section \<open>Durations\<close>

datatype duration_error = DurationEmpty | InvalidDuration string | InvalidDurationUnit rust_char | DurationTooLarge
  | DurationUnterminated string | DurationZero

definition U64_MAX :: nat where "U64_MAX = 2 ^ 64 - 1"

definition digits_value :: "string \<Rightarrow> nat" where
  "digits_value ds = foldl (\<lambda>n d. n * 10 + (of_char d - 48)) 0 ds"

text \<open>\<open>str::parse::<u64>\<close> on a string of decimal digits.\<close>

definition parse_u64_digits :: "string \<Rightarrow> nat option" where
  "parse_u64_digits ds = (if ds = [] \<or> digits_value ds > U64_MAX then None else Some (digits_value ds))"

definition unit_seconds :: "rust_char \<Rightarrow> nat option" where
  "unit_seconds c = (if c = ''h'' then Some 3600 else if c = ''m'' then Some 60 else if c = ''s'' then Some 1 else None)"

definition is_digit_char :: "rust_char \<Rightarrow> bool" where
  "is_digit_char c = (case c of [b] \<Rightarrow> is_ascii_digit b | _ \<Rightarrow> False)"

fun duration_loop :: "string \<Rightarrow> nat \<Rightarrow> string \<Rightarrow> rust_char list \<Rightarrow> duration_error + nat" where
  "duration_loop value acc number [] =
     (if number \<noteq> [] then Inl (DurationUnterminated value)
      else if acc = 0 then Inl DurationZero
      else Inr acc)"
| "duration_loop value acc number (c # cs) =
     (if is_digit_char c then duration_loop value acc (number @ c) cs
      else (case parse_u64_digits number of
              None \<Rightarrow> Inl (InvalidDuration value)
            | Some amount \<Rightarrow>
                (case unit_seconds c of
                   None \<Rightarrow> Inl (InvalidDurationUnit c)
                 | Some multiplier \<Rightarrow>
                     if amount * multiplier > U64_MAX then Inl DurationTooLarge
                     else if acc + amount * multiplier > U64_MAX then Inl DurationTooLarge
                     else duration_loop value (acc + amount * multiplier) [] cs)))"

definition trim :: "string \<Rightarrow> string" where
  "trim s = concat (rev (dropWhile is_whitespace (rev (dropWhile is_whitespace (chars s)))))"

definition parse_duration :: "string \<Rightarrow> duration_error + nat" where
  "parse_duration value =
     (let value = trim value in
      if value = [] then Inl DurationEmpty else duration_loop value 0 [] (chars value))"

definition format_duration :: "nat \<Rightarrow> string" where
  "format_duration seconds = show_nat seconds @ ''s''"

section \<open>Bounds\<close>

record plan_retention =
  pr_applied :: nat
  pr_applied_ceiling :: nat
  pr_applied_min_age_secs :: int
  pr_decided :: nat
  pr_superseded :: nat

definition default_plan_retention :: plan_retention where
  "default_plan_retention =
     \<lparr>pr_applied = 25, pr_applied_ceiling = 200, pr_applied_min_age_secs = 30 * 24 * 60 * 60, pr_decided = 10, pr_superseded = 3\<rparr>"

datatype plan_retention_config_error =
    InvalidCount string string
  | InvalidRetentionDuration string string "duration_error option"
  | CeilingBelowCount nat nat
  | RetentionNotUnicode string

definition I64_MAX :: nat where "I64_MAX = 2 ^ 63 - 1"

text \<open>\<open>str::parse::<usize>\<close>: an optional plus sign and decimal digits, at most \<open>usize::MAX\<close>.\<close>

definition parse_usize :: "string \<Rightarrow> nat option" where
  "parse_usize s =
     (let ds = (case s of c # cs \<Rightarrow> if c = CHR ''+'' then cs else s | [] \<Rightarrow> s) in
      if list_all is_ascii_digit ds then parse_u64_digits ds else None)"

definition count_bound :: "(string \<Rightarrow> string option) \<Rightarrow> string \<Rightarrow> nat \<Rightarrow> plan_retention_config_error + nat" where
  "count_bound lookup variable fallback =
     (case lookup variable of
        None \<Rightarrow> Inr fallback
      | Some value \<Rightarrow> (case parse_usize (trim value) of None \<Rightarrow> Inl (InvalidCount variable value) | Some n \<Rightarrow> Inr n))"

definition age_bound :: "(string \<Rightarrow> string option) \<Rightarrow> string \<Rightarrow> int \<Rightarrow> plan_retention_config_error + int" where
  "age_bound lookup variable fallback =
     (case lookup variable of
        None \<Rightarrow> Inr fallback
      | Some value \<Rightarrow>
          (case parse_duration value of
             Inl error \<Rightarrow> Inl (InvalidRetentionDuration variable value (Some error))
           | Inr seconds \<Rightarrow>
               if seconds > I64_MAX then Inl (InvalidRetentionDuration variable value None) else Inr (int seconds)))"

definition retention_from_lookup :: "(string \<Rightarrow> string option) \<Rightarrow> plan_retention_config_error + plan_retention" where
  "retention_from_lookup lookup =
     bind_r (count_bound lookup ''PLAN_RETENTION_APPLIED'' (pr_applied default_plan_retention)) (\<lambda>applied.
     bind_r (count_bound lookup ''PLAN_RETENTION_APPLIED_CEILING'' (pr_applied_ceiling default_plan_retention)) (\<lambda>ceiling.
     bind_r (age_bound lookup ''PLAN_RETENTION_APPLIED_MIN_AGE'' (pr_applied_min_age_secs default_plan_retention)) (\<lambda>min_age.
     bind_r (count_bound lookup ''PLAN_RETENTION_DECIDED'' (pr_decided default_plan_retention)) (\<lambda>decided.
     bind_r (count_bound lookup ''PLAN_RETENTION_SUPERSEDED'' (pr_superseded default_plan_retention)) (\<lambda>superseded.
       if ceiling < applied then Inl (CeilingBelowCount ceiling applied)
       else Inr \<lparr>pr_applied = applied, pr_applied_ceiling = ceiling, pr_applied_min_age_secs = min_age,
                 pr_decided = decided, pr_superseded = superseded\<rparr>)))))"

text \<open>
  \<open>from_env\<close> over the process environment: an undecodable value is refused before any bound is parsed.
\<close>

datatype var_error = VarNotPresent | VarNotUnicode

definition env_read :: "string \<Rightarrow> var_error + string \<Rightarrow> plan_retention_config_error + string option" where
  "env_read variable read =
     (case read of
        Inr value \<Rightarrow> Inr (Some value)
      | Inl VarNotPresent \<Rightarrow> Inr None
      | Inl VarNotUnicode \<Rightarrow> Inl (RetentionNotUnicode variable))"

definition retention_variables :: "string list" where
  "retention_variables =
     [''PLAN_RETENTION_APPLIED'', ''PLAN_RETENTION_APPLIED_CEILING'', ''PLAN_RETENTION_APPLIED_MIN_AGE'',
      ''PLAN_RETENTION_DECIDED'', ''PLAN_RETENTION_SUPERSEDED'']"

fun resolve_env :: "(string \<Rightarrow> var_error + string) \<Rightarrow> string list \<Rightarrow> plan_retention_config_error + (string \<times> string) list" where
  "resolve_env env [] = Inr []"
| "resolve_env env (variable # variables) =
     bind_r (env_read variable (env variable)) (\<lambda>read.
     bind_r (resolve_env env variables) (\<lambda>resolved.
       Inr (case read of None \<Rightarrow> resolved | Some value \<Rightarrow> (variable, value) # resolved)))"

definition retention_from_env :: "(string \<Rightarrow> var_error + string) \<Rightarrow> plan_retention_config_error + plan_retention" where
  "retention_from_env env =
     bind_r (resolve_env env retention_variables) (\<lambda>resolved. retention_from_lookup (map_of resolved))"

section \<open>Eviction\<close>

definition is_retention_exempt :: "policy_plan \<Rightarrow> bool" where
  "is_retention_exempt plan = (fmlookup (pl_labels plan) ''pgroles.io/keep'' = Some ''true'')"

definition saturating_sub_i64 :: "int \<Rightarrow> int \<Rightarrow> int" where
  "saturating_sub_i64 a b = max (- (2 ^ 63)) (min (2 ^ 63 - 1) (a - b))"

definition applied_epoch_secs :: "(string \<Rightarrow> int option) \<Rightarrow> policy_plan \<Rightarrow> int option" where
  "applied_epoch_secs parse plan =
     (case Option.bind (Option.bind (pl_status plan) ps_applied_at) parse of
        Some ts \<Rightarrow> Some ts
      | None \<Rightarrow> pl_creation_timestamp plan)"

definition applied_age_secs :: "(string \<Rightarrow> int option) \<Rightarrow> policy_plan \<Rightarrow> int \<Rightarrow> int" where
  "applied_age_secs parse plan now_ts =
     (case applied_epoch_secs parse plan of None \<Rightarrow> 0 | Some applied_ts \<Rightarrow> saturating_sub_i64 now_ts applied_ts)"

fun evict_loop :: "(string \<Rightarrow> int option) \<Rightarrow> plan_retention \<Rightarrow> int \<Rightarrow> nat \<Rightarrow> policy_plan list \<Rightarrow> policy_plan list" where
  "evict_loop parse retention now_ts remaining [] = []"
| "evict_loop parse retention now_ts remaining (plan # plans) =
     (if remaining \<le> pr_applied retention then []
      else if applied_age_secs parse plan now_ts < pr_applied_min_age_secs retention \<and> remaining \<le> pr_applied_ceiling retention
      then evict_loop parse retention now_ts remaining plans
      else plan # evict_loop parse retention now_ts (remaining - 1) plans)"

definition applied_plans_to_evict ::
  "(string \<Rightarrow> int option) \<Rightarrow> policy_plan list \<Rightarrow> plan_retention \<Rightarrow> int \<Rightarrow> policy_plan list" where
  "applied_plans_to_evict parse applied retention now_ts =
     evict_loop parse retention now_ts (length applied) (sort_key (applied_epoch_secs parse) applied)"

definition oldest_beyond :: "policy_plan list \<Rightarrow> nat \<Rightarrow> policy_plan list" where
  "oldest_beyond plans keep =
     (if length plans \<le> keep then [] else take (length plans - keep) (sort_key pl_creation_timestamp plans))"

definition phase_of :: "policy_plan \<Rightarrow> plan_phase option" where
  "phase_of plan = map_option ps_phase (pl_status plan)"

definition plans_to_evict :: "(string \<Rightarrow> int option) \<Rightarrow> policy_plan list \<Rightarrow> plan_retention \<Rightarrow> int \<Rightarrow> policy_plan list" where
  "plans_to_evict parse plans retention now_ts =
     (let candidates = filter (\<lambda>plan. \<not> is_retention_exempt plan) plans;
          applied = filter (\<lambda>plan. phase_of plan = Some PhApplied) candidates;
          decided = filter (\<lambda>plan. phase_of plan = Some PhFailed \<or> phase_of plan = Some PhRejected) candidates;
          superseded = filter (\<lambda>plan. phase_of plan = Some PhSuperseded) candidates in
      oldest_beyond decided (pr_decided retention) @ oldest_beyond superseded (pr_superseded retention) @
      applied_plans_to_evict parse applied retention now_ts)"

definition ORPHAN_GRACE_SECS :: int where "ORPHAN_GRACE_SECS = 60"

definition is_stale_object :: "int option \<Rightarrow> int \<Rightarrow> bool" where
  "is_stale_object creation_timestamp now_ts =
     (case creation_timestamp of None \<Rightarrow> False | Some ts \<Rightarrow> saturating_sub_i64 now_ts ts > ORPHAN_GRACE_SECS)"

definition is_stale_statusless_plan :: "policy_plan \<Rightarrow> int \<Rightarrow> bool" where
  "is_stale_statusless_plan plan now_ts = (pl_status plan = None \<and> is_stale_object (pl_creation_timestamp plan) now_ts)"

section \<open>Laws\<close>

subsection \<open>The loop over the applied plans\<close>

lemma evict_loop_subset: "mset (evict_loop parse r now_ts n plans) \<subseteq># mset plans"
  by (induction parse r now_ts n plans rule: evict_loop.induct) (auto intro: subset_mset.order_trans)

lemma evict_loop_leaves: "length plans \<le> n \<Longrightarrow> min n (pr_applied r) \<le> n - length (evict_loop parse r now_ts n plans)"
  by (induction parse r now_ts n plans rule: evict_loop.induct) auto

lemma evict_loop_ceiling:
  "length plans = n \<or> n \<le> max (pr_applied r) (pr_applied_ceiling r) \<Longrightarrow>
   n - length (evict_loop parse r now_ts n plans) \<le> max (pr_applied r) (pr_applied_ceiling r)"
  by (induction parse r now_ts n plans rule: evict_loop.induct) (auto simp: max_def split: if_splits)

lemma evict_loop_floor:
  "plan \<in> set (evict_loop parse r now_ts n plans) \<Longrightarrow> applied_age_secs parse plan now_ts < pr_applied_min_age_secs r \<Longrightarrow>
   pr_applied_ceiling r < n"
  by (induction parse r now_ts n plans rule: evict_loop.induct) (auto split: if_splits)

lemma evict_loop_count:
  "plan \<in># mset plans - mset (evict_loop parse r now_ts n plans) \<Longrightarrow> pr_applied_min_age_secs r \<le> applied_age_secs parse plan now_ts \<Longrightarrow>
   n - length (evict_loop parse r now_ts n plans) \<le> pr_applied r"
proof (induction parse r now_ts n plans rule: evict_loop.induct)
  case (2 parse r now_ts n p plans)
  have sub: "mset (evict_loop parse r now_ts n plans) \<subseteq># mset plans" for n
    by (rule evict_loop_subset)
  then have "add_mset p (mset plans) - mset (evict_loop parse r now_ts n plans) =
      add_mset p (mset plans - mset (evict_loop parse r now_ts n plans))" for n
    by (metis add_mset_add_single multiset_diff_union_assoc union_commute)
  then show ?case using 2 by (auto split: if_splits)
qed simp

subsection \<open>The three classes\<close>

lemma oldest_beyond_subset: "mset (oldest_beyond plans keep) \<subseteq># mset plans"
proof -
  have "mset (take n xs) \<subseteq># mset xs" for n and xs :: "policy_plan list"
    by (metis append_take_drop_id mset_append mset_subset_eq_add_left)
  from this[of _ "sort_key pl_creation_timestamp plans"] show ?thesis by (simp add: oldest_beyond_def)
qed

lemma length_oldest_beyond [simp]: "length (oldest_beyond plans keep) = length plans - keep"
  by (simp add: oldest_beyond_def)

lemma oldest_beyond_oldest:
  assumes "p \<in> set (oldest_beyond plans keep)" and "q \<in># mset plans - mset (oldest_beyond plans keep)"
  shows "pl_creation_timestamp p \<le> pl_creation_timestamp q"
proof -
  let ?s = "sort_key pl_creation_timestamp plans" and ?n = "length plans - keep"
  have "\<not> length plans \<le> keep" using assms(1) by (auto simp: oldest_beyond_def)
  then have o: "oldest_beyond plans keep = take ?n ?s" by (simp add: oldest_beyond_def)
  have "mset plans = mset (take ?n ?s) + mset (drop ?n ?s)" by (metis append_take_drop_id mset_append mset_sort)
  then have q: "q \<in> set (drop ?n ?s)" using assms(2) by (simp add: o)
  have "sorted (map pl_creation_timestamp (take ?n ?s @ drop ?n ?s))" by simp
  then show ?thesis using assms(1) q unfolding o map_append sorted_append by auto
qed

text \<open>The unprotected plans of a bounded class.\<close>

definition bounded_class :: "plan_phase set \<Rightarrow> policy_plan \<Rightarrow> bool" where
  "bounded_class phases plan \<longleftrightarrow> \<not> is_retention_exempt plan \<and> phase_of plan \<in> Some ` phases"

definition applied_class :: "policy_plan list \<Rightarrow> policy_plan list" where
  "applied_class = filter (bounded_class {PhApplied})"

definition decided_class :: "policy_plan list \<Rightarrow> policy_plan list" where
  "decided_class = filter (bounded_class {PhFailed, PhRejected})"

definition superseded_class :: "policy_plan list \<Rightarrow> policy_plan list" where
  "superseded_class = filter (bounded_class {PhSuperseded})"

lemma plans_to_evict_classes:
  "plans_to_evict parse plans r now_ts =
     oldest_beyond (decided_class plans) (pr_decided r) @ oldest_beyond (superseded_class plans) (pr_superseded r) @
     applied_plans_to_evict parse (applied_class plans) r now_ts"
  by (auto simp: plans_to_evict_def decided_class_def superseded_class_def applied_class_def bounded_class_def
      intro!: arg_cong2[where f = "(@)"] arg_cong[where f = "\<lambda>ps. oldest_beyond ps _"]
        arg_cong[where f = "\<lambda>ps. applied_plans_to_evict parse ps r now_ts"] filter_cong)

lemma class_disjoint:
  "phases \<inter> phases' = {} \<Longrightarrow> set ps \<subseteq> Collect (bounded_class phases) \<Longrightarrow> filter_mset (bounded_class phases') (mset ps) = {#}"
  by (induction ps) (auto simp: bounded_class_def)

lemma class_whole: "set ps \<subseteq> Collect (bounded_class phases) \<Longrightarrow> filter_mset (bounded_class phases) (mset ps) = mset ps"
  by (simp add: filter_mset_eq_conv subset_iff)

lemma class_sets:
  "set (oldest_beyond (decided_class plans) n) \<subseteq> Collect (bounded_class {PhFailed, PhRejected})"
  "set (oldest_beyond (superseded_class plans) n) \<subseteq> Collect (bounded_class {PhSuperseded})"
  "set (applied_plans_to_evict parse (applied_class plans) r now_ts) \<subseteq> Collect (bounded_class {PhApplied})"
  using set_mset_mono[OF oldest_beyond_subset[of "decided_class plans" n]]
    set_mset_mono[OF oldest_beyond_subset[of "superseded_class plans" n]]
    set_mset_mono[OF evict_loop_subset[of parse r now_ts _ "sort_key (applied_epoch_secs parse) (applied_class plans)"]]
  by (auto simp: decided_class_def superseded_class_def applied_class_def applied_plans_to_evict_def)

text \<open>What one retention pass leaves.\<close>

definition kept_plans :: "(string \<Rightarrow> int option) \<Rightarrow> policy_plan list \<Rightarrow> plan_retention \<Rightarrow> int \<Rightarrow> policy_plan multiset" where
  "kept_plans parse plans r now_ts = mset plans - mset (plans_to_evict parse plans r now_ts)"

definition kept_in :: "plan_phase set \<Rightarrow> (string \<Rightarrow> int option) \<Rightarrow> policy_plan list \<Rightarrow> plan_retention \<Rightarrow> int \<Rightarrow> policy_plan multiset" where
  "kept_in phases parse plans r now_ts = filter_mset (bounded_class phases) (kept_plans parse plans r now_ts)"

lemma kept_classes:
  shows "kept_in {PhFailed, PhRejected} parse plans r now_ts =
           mset (decided_class plans) - mset (oldest_beyond (decided_class plans) (pr_decided r))" (is ?D)
    and "kept_in {PhSuperseded} parse plans r now_ts =
           mset (superseded_class plans) - mset (oldest_beyond (superseded_class plans) (pr_superseded r))" (is ?S)
    and "kept_in {PhApplied} parse plans r now_ts =
           mset (applied_class plans) - mset (applied_plans_to_evict parse (applied_class plans) r now_ts)" (is ?A)
proof -
  have e: "filter_mset (bounded_class phases) (mset (plans_to_evict parse plans r now_ts)) =
      filter_mset (bounded_class phases) (mset (oldest_beyond (decided_class plans) (pr_decided r))) +
      filter_mset (bounded_class phases) (mset (oldest_beyond (superseded_class plans) (pr_superseded r))) +
      filter_mset (bounded_class phases) (mset (applied_plans_to_evict parse (applied_class plans) r now_ts))" for phases
    by (simp add: plans_to_evict_classes)
  note d = class_disjoint[OF _ class_sets(1)] class_disjoint[OF _ class_sets(2)] class_disjoint[OF _ class_sets(3)]
    class_whole[OF class_sets(1)] class_whole[OF class_sets(2)] class_whole[OF class_sets(3)]
  show ?D unfolding kept_in_def kept_plans_def filter_diff_mset e by (simp add: d) (simp add: decided_class_def)
  show ?S unfolding kept_in_def kept_plans_def filter_diff_mset e by (simp add: d) (simp add: superseded_class_def)
  show ?A unfolding kept_in_def kept_plans_def filter_diff_mset e by (simp add: d) (simp add: applied_class_def)
qed

lemma size_kept_oldest_beyond: "size (mset ps - mset (oldest_beyond ps n)) = min (length ps) n"
  using oldest_beyond_subset[of ps n] by (simp add: size_Diff_submset)

lemma applied_evicted:
  fixes ps r parse now_ts
  defines "ev \<equiv> applied_plans_to_evict parse ps r now_ts"
  shows "mset ev \<subseteq># mset ps"
    and "min (length ps) (pr_applied r) \<le> size (mset ps - mset ev)"
    and "size (mset ps - mset ev) \<le> max (pr_applied r) (pr_applied_ceiling r)"
    and "p \<in> set ev \<Longrightarrow> applied_age_secs parse p now_ts < pr_applied_min_age_secs r \<Longrightarrow> pr_applied_ceiling r < length ps"
    and "p \<in># mset ps - mset ev \<Longrightarrow> pr_applied_min_age_secs r \<le> applied_age_secs parse p now_ts \<Longrightarrow> size (mset ps - mset ev) \<le> pr_applied r"
proof -
  let ?s = "sort_key (applied_epoch_secs parse) ps"
  have ev: "ev = evict_loop parse r now_ts (length ps) ?s" by (simp add: ev_def applied_plans_to_evict_def)
  show sub: "mset ev \<subseteq># mset ps" using evict_loop_subset[of parse r now_ts "length ps" ?s] by (simp add: ev)
  then have size: "size (mset ps - mset ev) = length ps - length ev" by (simp add: size_Diff_submset)
  show "min (length ps) (pr_applied r) \<le> size (mset ps - mset ev)"
    using evict_loop_leaves[of ?s "length ps" r parse now_ts] unfolding size unfolding ev by simp
  show "size (mset ps - mset ev) \<le> max (pr_applied r) (pr_applied_ceiling r)"
    using evict_loop_ceiling[of ?s "length ps" r parse now_ts] unfolding size unfolding ev by simp
  show "p \<in> set ev \<Longrightarrow> applied_age_secs parse p now_ts < pr_applied_min_age_secs r \<Longrightarrow> pr_applied_ceiling r < length ps"
    unfolding ev by (rule evict_loop_floor)
  show "p \<in># mset ps - mset ev \<Longrightarrow> pr_applied_min_age_secs r \<le> applied_age_secs parse p now_ts \<Longrightarrow> size (mset ps - mset ev) \<le> pr_applied r"
    using evict_loop_count[of p ?s parse r now_ts "length ps"] unfolding size unfolding ev by simp
qed

lemma plans_to_evict_subset: "mset (plans_to_evict parse plans r now_ts) \<subseteq># mset plans"
proof -
  have "filter_mset (bounded_class {PhFailed, PhRejected}) M + filter_mset (bounded_class {PhSuperseded}) M +
      filter_mset (bounded_class {PhApplied}) M \<subseteq># M" for M
    by (rule mset_subset_eqI) (auto simp: bounded_class_def count_filter_mset)
  from this[of "mset plans"] have "mset (decided_class plans) + mset (superseded_class plans) + mset (applied_class plans) \<subseteq># mset plans"
    by (simp add: decided_class_def superseded_class_def applied_class_def)
  moreover have "mset (plans_to_evict parse plans r now_ts) \<subseteq># mset (decided_class plans) + mset (superseded_class plans) + mset (applied_class plans)"
    unfolding plans_to_evict_classes mset_append add.assoc
    by (intro subset_mset.add_mono oldest_beyond_subset applied_evicted)
  ultimately show ?thesis by (meson subset_mset.order_trans)
qed

text \<open>
  C17: one retention pass deletes only listed plans that are finished and not labelled \<open>pgroles.io/keep=true\<close>. Of the failed and rejected
  plans it keeps exactly the configured number (all of them when there are fewer), of the superseded ones too, the newest in both
  classes. Of the applied ones it keeps at least the count bound and never more than the ceiling; it deletes one inside the age floor
  only when there were more than the ceiling, and keeps one past the floor only within the count bound.
\<close>

theorem retention_bounds:
  "mset (plans_to_evict parse plans r now_ts) \<subseteq># mset plans \<and>
   set (plans_to_evict parse plans r now_ts) \<subseteq> Collect (bounded_class {PhApplied, PhFailed, PhRejected, PhSuperseded}) \<and>
   size (kept_in {PhFailed, PhRejected} parse plans r now_ts) = min (length (decided_class plans)) (pr_decided r) \<and>
   size (kept_in {PhSuperseded} parse plans r now_ts) = min (length (superseded_class plans)) (pr_superseded r) \<and>
   size (kept_in {PhApplied} parse plans r now_ts) \<in>
     {min (length (applied_class plans)) (pr_applied r) .. max (pr_applied r) (pr_applied_ceiling r)} \<and>
   (\<forall>e \<in> set (plans_to_evict parse plans r now_ts).
      (phase_of e = Some PhSuperseded \<longrightarrow>
        (\<forall>k \<in># kept_in {PhSuperseded} parse plans r now_ts. pl_creation_timestamp e \<le> pl_creation_timestamp k)) \<and>
      (phase_of e \<in> {Some PhFailed, Some PhRejected} \<longrightarrow>
        (\<forall>k \<in># kept_in {PhFailed, PhRejected} parse plans r now_ts. pl_creation_timestamp e \<le> pl_creation_timestamp k)) \<and>
      (phase_of e = Some PhApplied \<and> applied_age_secs parse e now_ts < pr_applied_min_age_secs r \<longrightarrow>
        pr_applied_ceiling r < length (applied_class plans))) \<and>
   (\<forall>k \<in># kept_in {PhApplied} parse plans r now_ts. pr_applied_min_age_secs r \<le> applied_age_secs parse k now_ts \<longrightarrow>
      size (kept_in {PhApplied} parse plans r now_ts) \<le> pr_applied r)"
proof -
  let ?e = "plans_to_evict parse plans r now_ts"
  note sets = class_sets(1)[of plans "pr_decided r"] class_sets(2)[of plans "pr_superseded r"] class_sets(3)[of parse plans r now_ts]
  have terminal: "set ?e \<subseteq> Collect (bounded_class {PhApplied, PhFailed, PhRejected, PhSuperseded})"
    using sets by (auto simp: plans_to_evict_classes bounded_class_def)
  have origin: "e \<in> set (oldest_beyond (decided_class plans) (pr_decided r))" if "e \<in> set ?e" "phase_of e \<in> {Some PhFailed, Some PhRejected}" for e
    using that sets by (auto simp: plans_to_evict_classes bounded_class_def)
  have origin': "e \<in> set (oldest_beyond (superseded_class plans) (pr_superseded r))" if "e \<in> set ?e" "phase_of e = Some PhSuperseded" for e
    using that sets by (auto simp: plans_to_evict_classes bounded_class_def)
  have origin'': "e \<in> set (applied_plans_to_evict parse (applied_class plans) r now_ts)" if "e \<in> set ?e" "phase_of e = Some PhApplied" for e
    using that sets by (auto simp: plans_to_evict_classes bounded_class_def)
  show ?thesis
    unfolding kept_classes size_kept_oldest_beyond
    using plans_to_evict_subset terminal applied_evicted(2-3)
    by (intro conjI ballI impI) (blast intro: applied_evicted(4,5) oldest_beyond_oldest origin origin' origin'' | simp)+
qed

definition ex_finished :: "plan_phase \<Rightarrow> int \<Rightarrow> policy_plan" where
  "ex_finished phase created = (ex_plan (ex_status\<lparr>ps_phase := phase\<rparr>))\<lparr>pl_creation_timestamp := Some created\<rparr>"

theorem retention_bounds_witness:
  "ex_finished PhSuperseded 1 \<in> set (plans_to_evict (\<lambda>_. None) (map (ex_finished PhSuperseded) [4, 1, 3, 2]) default_plan_retention 9) \<and>
   ex_finished PhSuperseded 4 \<in># kept_in {PhSuperseded} (\<lambda>_. None) (map (ex_finished PhSuperseded) [4, 1, 3, 2]) default_plan_retention 9 \<and>
   pl_creation_timestamp (ex_finished PhSuperseded 1) \<le> pl_creation_timestamp (ex_finished PhSuperseded 4) \<and>
   size (kept_in {PhSuperseded} (\<lambda>_. None) (map (ex_finished PhSuperseded) [4, 1, 3, 2]) default_plan_retention 9) = 3"
proof -
  let ?ps = "map (ex_finished PhSuperseded) [4, 1, 3, 2]"
  note [simp] = ex_finished_def ex_plan_def ex_status_def default_plan_status_def is_retention_exempt_def phase_of_def
  have e: "plans_to_evict (\<lambda>_. None) ?ps default_plan_retention 9 = [ex_finished PhSuperseded 1]"
    by (simp add: plans_to_evict_def Let_def oldest_beyond_def applied_plans_to_evict_def default_plan_retention_def)
  have k: "ex_finished PhSuperseded 4 \<in># kept_in {PhSuperseded} (\<lambda>_. None) ?ps default_plan_retention 9"
    unfolding kept_in_def kept_plans_def e by (simp add: bounded_class_def)
  have n: "length (superseded_class ?ps) = 4" by (simp add: superseded_class_def bounded_class_def)
  have "phase_of (ex_finished PhSuperseded 1) = Some PhSuperseded" by simp
  then show ?thesis
    using retention_bounds[of "\<lambda>_. None" ?ps default_plan_retention 9] e k n
    by (simp only: list.set insert_iff simp_thms) (simp add: default_plan_retention_def)
qed

end
