(* ===== verification/Promotion.thy ===== *)
theory Promotion
  imports PlanWrites
begin

text \<open>
  Promotion of reviewed candidates (\<open>crates/pgroles-operator/src/promotion.rs\<close>): recognising that a policy's content is an approved
  candidate, choosing the plan the reconciler executes for it, and the bookkeeping after the execution. Objects carry the metadata
  and status fields these decisions read; the cluster reads are arguments and the writes are a list, in the order the code makes
  them (an error stops the code between two writes, which leaves a prefix of the list). The wording of messages is left out.
\<close>

section \<open>Objects\<close>

datatype policy_mode = ModeApply | ModeObserve | ModePlan

fun never_executes :: "policy_mode \<Rightarrow> bool" where
  "never_executes ModeApply = False"
| "never_executes ModeObserve = True"
| "never_executes ModePlan = True"

datatype approval_mode = ApprovalManual | ApprovalAuto

record policy =
  pol_name :: string
  pol_uid :: "string option"
  pol_mode :: policy_mode
  pol_approval :: "approval_mode option"
  pol_content_digest :: "string option"

definition effective_approval :: "policy \<Rightarrow> approval_mode" where
  "effective_approval p =
     (case pol_approval p of
        Some mode \<Rightarrow> mode
      | None \<Rightarrow> (case pol_mode p of ModeApply \<Rightarrow> ApprovalAuto | ModeObserve \<Rightarrow> ApprovalManual | ModePlan \<Rightarrow> ApprovalManual))"

datatype candidate_phase = CandPending | CandPlanned | CandPromoted | CandSuperseded | CandStale

fun cand_is_terminal :: "candidate_phase \<Rightarrow> bool" where
  "cand_is_terminal CandPromoted = True"
| "cand_is_terminal CandSuperseded = True"
| "cand_is_terminal _ = False"

record candidate_status =
  cs_phase :: candidate_phase
  cs_content_digest :: "string option"

record policy_candidate =
  cd_name :: string
  cd_policy_ref :: string
  cd_uid :: "string option"
  cd_owner_references :: "owner_reference list"
  cd_status :: "candidate_status option"

definition candidate_belongs_to :: "policy_candidate \<Rightarrow> policy \<Rightarrow> bool" where
  "candidate_belongs_to candidate p =
     (if cd_policy_ref candidate \<noteq> pol_name p then False
      else case map_option or_uid (List.find (\<lambda>owner. unwrap_or (or_controller owner) False) (cd_owner_references candidate)) of
             Some owned_by \<Rightarrow> pol_uid p = Some owned_by
           | None \<Rightarrow> True)"

definition is_owned_by_uid :: "policy_plan \<Rightarrow> string \<Rightarrow> bool" where
  "is_owned_by_uid plan uid =
     list_ex (\<lambda>owner. or_uid owner = uid \<and> unwrap_or (or_controller owner) False) (pl_owner_references plan)"

section \<open>The decision\<close>

record plan_facts =
  pf_name :: string
  pf_approved :: bool
  pf_base_content_digest :: "string option"

record candidate_facts =
  cf_name :: string
  cf_content_digest :: "string option"
  cf_terminal :: bool
  cf_plan :: "plan_facts option"
  cf_owns_applied_plan :: bool
  cf_promoted :: bool

definition approved_plan :: "candidate_facts \<Rightarrow> plan_facts option" where
  "approved_plan candidate = (case cf_plan candidate of Some plan \<Rightarrow> if pf_approved plan then Some plan else None | None \<Rightarrow> None)"

datatype promotion =
    NoPromotion
  | PromotionApproved string string "string list"
  | PromotionWithoutApproval string
  | PromotionMismatch "string list"
  | PromotionBaseChanged "string list"

definition base_is_fresh :: "string \<Rightarrow> string option \<Rightarrow> plan_facts \<Rightarrow> bool" where
  "base_is_fresh policy_digest previous_digest plan =
     is_some_and (pf_base_content_digest plan) (\<lambda>pin. previous_digest = Some pin \<or> previous_digest = Some policy_digest)"

definition decide_promotion :: "string \<Rightarrow> string option \<Rightarrow> candidate_facts list \<Rightarrow> promotion" where
  "decide_promotion policy_digest previous_digest candidates =
     (let open_cs = filter (\<lambda>c. \<not> cf_terminal c) candidates;
          matches = filter (\<lambda>c. is_some_and (cf_content_digest c) (\<lambda>digest. digest = policy_digest)) open_cs in
      case List.find (\<lambda>c. is_some_and (approved_plan c) (base_is_fresh policy_digest previous_digest)) matches of
        Some matched \<Rightarrow>
          PromotionApproved (cf_name matched) (pf_name (the (approved_plan matched)))
            (map cf_name (filter (\<lambda>other. approved_plan other \<noteq> None) (filter (\<lambda>other. cf_name other \<noteq> cf_name matched) open_cs)))
      | None \<Rightarrow>
          (let stale_approved = map cf_name (filter (\<lambda>c. approved_plan c \<noteq> None) matches) in
           if stale_approved \<noteq> [] then PromotionBaseChanged stale_approved
           else case matches of
                  matched # _ \<Rightarrow> PromotionWithoutApproval (cf_name matched)
                | [] \<Rightarrow>
                    (let content_changed = is_some_and previous_digest (\<lambda>previous. previous \<noteq> policy_digest);
                         stranded = map cf_name (filter (\<lambda>c. approved_plan c \<noteq> None) open_cs) in
                     if content_changed \<and> stranded \<noteq> [] then PromotionMismatch stranded else NoPromotion)))"

datatype promotion_act =
    IgnorePromotion
  | ExecuteApprovedPlan string string
  | ActWithoutApproval string
  | ActMismatch "string list" bool
  | ActNotExecuted string
  | ActBaseChanged "string list" bool

definition promotion_action :: "promotion \<Rightarrow> policy_mode \<Rightarrow> approval_mode \<Rightarrow> promotion_act" where
  "promotion_action promotion mode approval =
     (let never = never_executes mode;
          enforcement_suspended = (\<not> never \<and> approval = ApprovalManual) in
      case promotion of
        NoPromotion \<Rightarrow> IgnorePromotion
      | PromotionApproved candidate plan _ \<Rightarrow>
          if never then ActNotExecuted candidate
          else if approval = ApprovalAuto then IgnorePromotion
          else ExecuteApprovedPlan candidate plan
      | PromotionWithoutApproval candidate \<Rightarrow>
          if never then ActNotExecuted candidate
          else if approval = ApprovalAuto then IgnorePromotion
          else ActWithoutApproval candidate
      | PromotionMismatch candidates \<Rightarrow> ActMismatch candidates enforcement_suspended
      | PromotionBaseChanged candidates \<Rightarrow> ActBaseChanged candidates enforcement_suspended)"

definition stranded_by_promotion :: "string \<Rightarrow> string \<Rightarrow> candidate_facts list \<Rightarrow> string list" where
  "stranded_by_promotion promoted applied_digest candidates =
     map cf_name
       (filter (\<lambda>c. is_some_and (approved_plan c) (\<lambda>plan. pf_base_content_digest plan \<noteq> Some applied_digest))
         (filter (\<lambda>c. cf_name c \<noteq> promoted) (filter (\<lambda>c. \<not> cf_terminal c) candidates)))"

section \<open>Reading the facts\<close>

record promotion_context =
  px_candidates :: "policy_candidate list"
  px_facts :: "candidate_facts list"
  px_plans :: "(string \<times> policy_plan) list"

definition context_candidate :: "promotion_context \<Rightarrow> string \<Rightarrow> policy_candidate option" where
  "context_candidate ctx name = List.find (\<lambda>c. cd_name c = name) (px_candidates ctx)"

definition plan_of :: "promotion_context \<Rightarrow> string \<Rightarrow> policy_plan option" where
  "plan_of ctx candidate = map_option snd (List.find (\<lambda>(owner, _). owner = candidate) (px_plans ctx))"

definition plan_is_live :: "policy_plan \<Rightarrow> bool" where
  "plan_is_live plan = is_some_and (pl_status plan) (\<lambda>status. ps_phase status = PhPending \<or> ps_phase status = PhApproved)"

definition owned_plans :: "policy_plan list \<Rightarrow> policy_candidate \<Rightarrow> policy_plan list" where
  "owned_plans all_plans candidate =
     (let uid = unwrap_or (cd_uid candidate) [] in filter (\<lambda>plan. uid \<noteq> [] \<and> is_owned_by_uid plan uid) all_plans)"

definition live_plan :: "policy_plan list \<Rightarrow> policy_candidate \<Rightarrow> policy_plan option" where
  "live_plan all_plans candidate = List.find plan_is_live (owned_plans all_plans candidate)"

definition facts_of :: "policy_plan list \<Rightarrow> policy_candidate \<Rightarrow> candidate_facts" where
  "facts_of all_plans candidate =
     \<lparr>cf_name = cd_name candidate,
      cf_content_digest = Option.bind (cd_status candidate) cs_content_digest,
      cf_terminal = cand_is_terminal (unwrap_or (map_option cs_phase (cd_status candidate)) CandPending),
      cf_plan = map_option
        (\<lambda>plan. \<lparr>pf_name = name_any plan, pf_approved = (check_plan_approval plan = ApprovalApproved),
                 pf_base_content_digest = Option.bind (pl_origin plan) po_base_content_digest\<rparr>)
        (live_plan all_plans candidate),
      cf_owns_applied_plan =
        list_ex (\<lambda>plan. is_some_and (pl_status plan) (\<lambda>status. ps_phase status = PhApplied)) (owned_plans all_plans candidate),
      cf_promoted = is_some_and (cd_status candidate) (\<lambda>status. cs_phase status = CandPromoted)\<rparr>"

definition load_context :: "policy \<Rightarrow> policy_candidate list \<Rightarrow> policy_plan list \<Rightarrow> promotion_context" where
  "load_context p all_candidates all_plans =
     (let candidates = filter (\<lambda>c. candidate_belongs_to c p) all_candidates in
      \<lparr>px_candidates = candidates, px_facts = map (facts_of all_plans) candidates,
       px_plans = concat (map (\<lambda>c. case live_plan all_plans c of Some plan \<Rightarrow> [(cd_name c, plan)] | None \<Rightarrow> []) candidates)\<rparr>)"

section \<open>Recognition and bookkeeping\<close>

datatype promotion_write =
    WReport string string
  | WStampContentDigest string
  | WSupersedePlan policy_plan supersede_cause
  | WSupersedeCandidate string string
  | WPromote string

definition report :: "promotion_context \<Rightarrow> string \<Rightarrow> string \<Rightarrow> promotion_write list" where
  "report ctx candidate reason = (case context_candidate ctx candidate of None \<Rightarrow> [] | Some _ \<Rightarrow> [WReport candidate reason])"

definition recognize ::
  "policy \<Rightarrow> policy_candidate list \<Rightarrow> policy_plan list \<Rightarrow> string \<Rightarrow> policy_plan option \<times> promotion_write list" where
  "recognize p all_candidates all_plans content_digest =
     (let ctx = load_context p all_candidates all_plans;
          previous = pol_content_digest p;
          action = promotion_action (decide_promotion content_digest previous (px_facts ctx)) (pol_mode p) (effective_approval p);
          (plan, reports) =
            (case action of
               IgnorePromotion \<Rightarrow> (None, [])
             | ExecuteApprovedPlan candidate plan \<Rightarrow>
                 (case plan_of ctx candidate of Some found \<Rightarrow> if name_any found = plan then Some found else None | None \<Rightarrow> None, [])
             | ActWithoutApproval candidate \<Rightarrow> (None, report ctx candidate ''PromotedWithoutApproval'')
             | ActNotExecuted candidate \<Rightarrow> (None, report ctx candidate ''PromotionNotExecuted'')
             | ActMismatch candidates _ \<Rightarrow> (None, concat (map (\<lambda>c. report ctx c ''PromotionDigestMismatch'') candidates))
             | ActBaseChanged candidates _ \<Rightarrow> (None, concat (map (\<lambda>c. report ctx c ''PromotionBaseChanged'') candidates))) in
      (plan, reports @ (if previous \<noteq> Some content_digest then [WStampContentDigest content_digest] else [])))"

definition select_promoted :: "candidate_facts list \<Rightarrow> string \<Rightarrow> candidate_facts option" where
  "select_promoted facts content_digest =
     (let matches = filter (\<lambda>c. \<not> cf_terminal c \<and> is_some_and (cf_content_digest c) (\<lambda>digest. digest = content_digest)) facts in
      case List.find cf_owns_applied_plan matches of
        Some c \<Rightarrow> Some c
      | None \<Rightarrow>
          (case List.find (\<lambda>c. approved_plan c \<noteq> None) matches of
             Some c \<Rightarrow> Some c
           | None \<Rightarrow> (case matches of c # _ \<Rightarrow> Some c | [] \<Rightarrow> None)))"

definition digest_matches :: "string \<Rightarrow> candidate_facts \<Rightarrow> bool" where
  "digest_matches content_digest candidate = is_some_and (cf_content_digest candidate) (\<lambda>digest. digest = content_digest)"

definition retire_plan :: "promotion_context \<Rightarrow> string \<Rightarrow> promotion_write list" where
  "retire_plan ctx name = (case plan_of ctx name of None \<Rightarrow> [] | Some plan \<Rightarrow> [WSupersedePlan plan SupersededByPromotion])"

definition retire_duplicate :: "promotion_context \<Rightarrow> string \<Rightarrow> promotion_write list" where
  "retire_duplicate ctx duplicate =
     retire_plan ctx duplicate @
     (case context_candidate ctx duplicate of None \<Rightarrow> [] | Some _ \<Rightarrow> [WSupersedeCandidate duplicate ''SupersededByPromotion''])"

definition retire_stranded :: "promotion_context \<Rightarrow> string \<Rightarrow> promotion_write list" where
  "retire_stranded ctx stranded =
     (case plan_of ctx stranded of
        None \<Rightarrow> []
      | Some plan \<Rightarrow> WSupersedePlan plan SupersededByPromotion # report ctx stranded ''SupersededByPromotion'')"

definition record_promotion :: "policy \<Rightarrow> policy_candidate list \<Rightarrow> policy_plan list \<Rightarrow> string \<Rightarrow> promotion_write list" where
  "record_promotion p all_candidates all_plans content_digest =
     (let ctx = load_context p all_candidates all_plans;
          already = map_option cf_name (List.find (\<lambda>c. cf_promoted c \<and> digest_matches content_digest c) (px_facts ctx)) in
      case (case already of Some name \<Rightarrow> Some name | None \<Rightarrow> map_option cf_name (select_promoted (px_facts ctx) content_digest)) of
        None \<Rightarrow> []
      | Some promoted_name \<Rightarrow>
          (let duplicates = map cf_name (filter (digest_matches content_digest)
                 (filter (\<lambda>c. \<not> cf_terminal c \<and> cf_name c \<noteq> promoted_name) (px_facts ctx)));
               stranded = filter (\<lambda>name. name \<notin> set duplicates) (stranded_by_promotion promoted_name content_digest (px_facts ctx)) in
           concat (map (retire_duplicate ctx) duplicates) @ concat (map (retire_stranded ctx) stranded) @
           (if already \<noteq> None then []
            else case context_candidate ctx promoted_name of None \<Rightarrow> [] | Some _ \<Rightarrow> [WPromote promoted_name])))"

section \<open>Laws\<close>

text \<open>What makes a live plan of an open candidate the authorisation of the content \<open>digest\<close>.\<close>

definition cand_open :: "policy_candidate \<Rightarrow> bool" where
  "cand_open c \<longleftrightarrow> \<not> cand_is_terminal (unwrap_or (map_option cs_phase (cd_status c)) CandPending)"

definition cand_digest :: "policy_candidate \<Rightarrow> string option" where
  "cand_digest c = Option.bind (cd_status c) cs_content_digest"

definition base_pin :: "policy_plan \<Rightarrow> string option" where
  "base_pin plan = Option.bind (pl_origin plan) po_base_content_digest"

definition authorises :: "policy \<Rightarrow> string \<Rightarrow> policy_plan list \<Rightarrow> policy_candidate \<Rightarrow> policy_plan \<Rightarrow> bool" where
  "authorises p digest plans c plan \<longleftrightarrow>
     candidate_belongs_to c p \<and> cand_open c \<and> cand_digest c = Some digest \<and> live_plan plans c = Some plan \<and>
     check_plan_approval plan = ApprovalApproved \<and> base_pin plan \<noteq> None \<and>
     (pol_content_digest p = base_pin plan \<or> pol_content_digest p = Some digest)"

lemma facts_of_simps [simp]:
  "cf_name (facts_of plans c) = cd_name c"
  "cf_content_digest (facts_of plans c) = cand_digest c"
  "cf_terminal (facts_of plans c) \<longleftrightarrow> \<not> cand_open c"
  by (simp_all add: facts_of_def cand_open_def cand_digest_def)

lemma approved_plan_facts_of:
  "approved_plan (facts_of plans c) = Some pf \<longleftrightarrow>
     (\<exists>plan. live_plan plans c = Some plan \<and> check_plan_approval plan = ApprovalApproved \<and>
        pf = \<lparr>pf_name = name_any plan, pf_approved = True, pf_base_content_digest = base_pin plan\<rparr>)"
  by (auto simp: approved_plan_def facts_of_def base_pin_def split: option.splits)

lemma is_some_and_iff: "is_some_and x P \<longleftrightarrow> (\<exists>v. x = Some v \<and> P v)"
  by (auto simp: is_some_and_def split: option.splits)

lemma find_SomeD: "List.find P xs = Some x \<Longrightarrow> x \<in> set xs \<and> P x"
  by (auto simp: find_Some_iff)

lemma find_unique:
  assumes "x \<in> set xs" "P x" "\<And>y. y \<in> set xs \<Longrightarrow> P y \<Longrightarrow> y = x"
  shows "List.find P xs = Some x"
proof (cases "List.find P xs")
  case None
  then show ?thesis using assms(1,2) by (auto simp: find_None_iff)
next
  case (Some y)
  with find_SomeD[OF this] assms(3) show ?thesis by simp
qed

lemma context_candidate_load:
  assumes "distinct (map cd_name cs)" "c \<in> set cs" "candidate_belongs_to c p"
  shows "context_candidate (load_context p cs plans) (cd_name c) = Some c"
  unfolding context_candidate_def load_context_def Let_def
  using assms by (intro find_unique) (auto dest: inj_onD[OF distinct_map[THEN iffD1, THEN conjunct2]])

lemma plan_of_load:
  assumes "distinct (map cd_name cs)" "c \<in> set cs" "candidate_belongs_to c p"
  shows "plan_of (load_context p cs plans) (cd_name c) = live_plan plans c"
  using assms
proof (induction cs)
  case (Cons d cs)
  show ?case
  proof (cases "d = c")
    case True
    then have "\<forall>e\<in>set cs. cd_name e \<noteq> cd_name c" using Cons.prems(1) by (simp add: image_iff) metis
    then have "List.find (\<lambda>(owner, _). owner = cd_name c)
        (concat (map (\<lambda>c. case live_plan plans c of Some plan \<Rightarrow> [(cd_name c, plan)] | None \<Rightarrow> []) (filter (\<lambda>c. candidate_belongs_to c p) cs))) = None"
      by (auto simp: find_None_iff split: option.splits)
    then show ?thesis using True Cons.prems(3) by (simp add: plan_of_def load_context_def Let_def split: option.splits)
  next
    case False
    then have "cd_name d \<noteq> cd_name c" using Cons.prems by force
    then show ?thesis using False Cons by (simp add: plan_of_def load_context_def Let_def split: option.splits)
  qed
qed simp

lemma decide_promotion_approvedD:
  assumes "decide_promotion d previous fs = PromotionApproved n pl others"
  obtains f pf where "f \<in> set fs" "\<not> cf_terminal f" "cf_content_digest f = Some d" "cf_name f = n"
    "approved_plan f = Some pf" "pf_name pf = pl" "base_is_fresh d previous pf"
  using assms by (auto simp: decide_promotion_def Let_def is_some_and_iff find_Some_iff2 split: option.splits if_splits list.splits dest!: find_SomeD)

lemma decide_promotion_approvedI:
  assumes "f \<in> set fs" "\<not> cf_terminal f" "cf_content_digest f = Some d" "approved_plan f = Some pf" "base_is_fresh d previous pf"
  shows "\<exists>n pl others. decide_promotion d previous fs = PromotionApproved n pl others"
  using assms by (auto simp: decide_promotion_def Let_def is_some_and_iff find_None_iff split: option.splits)

lemma recognize_plan:
  "fst (recognize p cs plans digest) = Some plan \<longleftrightarrow>
     (\<exists>n. promotion_action (decide_promotion digest (pol_content_digest p) (px_facts (load_context p cs plans))) (pol_mode p) (effective_approval p) =
        ExecuteApprovedPlan n (name_any plan) \<and> plan_of (load_context p cs plans) n = Some plan)"
  by (auto simp: recognize_def Let_def split: promotion_act.splits option.splits prod.splits if_splits)

lemma action_executes:
  "promotion_action promotion mode approval = ExecuteApprovedPlan n pl \<longleftrightarrow>
     (\<exists>others. promotion = PromotionApproved n pl others) \<and> mode = ModeApply \<and> approval = ApprovalManual"
  by (cases mode; cases approval) (auto simp: promotion_action_def Let_def split: promotion.splits)

lemma facts_load [simp]: "set (px_facts (load_context p cs plans)) = facts_of plans ` {c \<in> set cs. candidate_belongs_to c p}"
  by (auto simp: load_context_def Let_def)

lemma promoted_plan_authorised:
  assumes "distinct (map cd_name cs)"
    and "decide_promotion digest (pol_content_digest p) (px_facts (load_context p cs plans)) = PromotionApproved n pl others"
  obtains c plan where "c \<in> set cs" "authorises p digest plans c plan" "cd_name c = n" "name_any plan = pl"
    "plan_of (load_context p cs plans) n = Some plan"
proof -
  obtain f pf where f: "f \<in> set (px_facts (load_context p cs plans))" "\<not> cf_terminal f" "cf_content_digest f = Some digest" "cf_name f = n"
    "approved_plan f = Some pf" "pf_name pf = pl" "base_is_fresh digest (pol_content_digest p) pf"
    by (rule decide_promotion_approvedD[OF assms(2)])
  then obtain c where c: "c \<in> set cs" "candidate_belongs_to c p" "f = facts_of plans c" by auto
  obtain plan where plan: "live_plan plans c = Some plan" "check_plan_approval plan = ApprovalApproved"
    "pf = \<lparr>pf_name = name_any plan, pf_approved = True, pf_base_content_digest = base_pin plan\<rparr>"
    using f(5) c(3) by (auto simp: approved_plan_facts_of)
  have "authorises p digest plans c plan"
    using f c plan by (auto simp: authorises_def base_is_fresh_def is_some_and_iff)
  moreover have "plan_of (load_context p cs plans) n = Some plan" using plan_of_load[OF assms(1) c(1,2)] plan(1) f(4) c(3) by simp
  ultimately show ?thesis using that[of c plan] c f(4,6) plan(3) by auto
qed


definition ex_policy :: policy where
  "ex_policy = \<lparr>pol_name = ''main'', pol_uid = Some ''u'', pol_mode = ModeApply, pol_approval = Some ApprovalManual,
     pol_content_digest = Some ''old''\<rparr>"

definition ex_candidate :: "string \<Rightarrow> string \<Rightarrow> policy_candidate" where
  "ex_candidate name digest = \<lparr>cd_name = name, cd_policy_ref = ''main'', cd_uid = Some name,
     cd_owner_references = [\<lparr>or_kind = ''PostgresPolicy'', or_uid = ''u'', or_controller = Some True\<rparr>],
     cd_status = Some \<lparr>cs_phase = CandPlanned, cs_content_digest = Some digest\<rparr>\<rparr>"

definition ex_candidate_plan :: "string \<Rightarrow> policy_plan" where
  "ex_candidate_plan owner = (ex_plan ex_status)\<lparr>pl_name := Some (owner @ ''-plan''),
     pl_owner_references := [\<lparr>or_kind = ''PostgresPolicyCandidate'', or_uid = owner, or_controller = Some True\<rparr>],
     pl_origin := Some \<lparr>po_kind = ''c'', po_name = owner, po_uid = owner, po_content_digest = None, po_content_digest_encoding = None,
       po_policy_uid = None, po_base_content_digest = Some ''old''\<rparr>\<rparr>"

lemmas ex_promotion_defs = ex_policy_def ex_candidate_def ex_candidate_plan_def ex_plan_def ex_status_def default_plan_status_def
  effective_approval_def authorises_def candidate_belongs_to_def cand_open_def cand_digest_def base_pin_def live_plan_def
  owned_plans_def is_owned_by_uid_def plan_is_live_def is_some_and_def check_plan_approval_def decided_def


subsection \<open>Bookkeeping\<close>

lemma find_map_facts:
  "map_option cf_name (List.find P (px_facts (load_context p cs plans))) = None \<longleftrightarrow>
     (\<forall>c \<in> set cs. candidate_belongs_to c p \<longrightarrow> \<not> P (facts_of plans c))"
  by (auto simp: find_None_iff)

lemma select_promotedD:
  "select_promoted fs digest = Some f \<Longrightarrow> f \<in> set fs \<and> \<not> cf_terminal f \<and> cf_content_digest f = Some digest"
  by (auto simp: select_promoted_def Let_def is_some_and_iff dest!: find_SomeD filter_eq_ConsD split: option.splits list.splits)

lemma load_plan_or_candidate:
  assumes "distinct (map cd_name cs)" "f \<in> set (px_facts (load_context p cs plans))"
  obtains c where "c \<in> set cs" "candidate_belongs_to c p" "f = facts_of plans c"
    "context_candidate (load_context p cs plans) (cf_name f) = Some c" "plan_of (load_context p cs plans) (cf_name f) = live_plan plans c"
proof -
  obtain c where c: "c \<in> set cs" "candidate_belongs_to c p" "f = facts_of plans c" using assms(2) by auto
  show ?thesis
    using that[OF c] context_candidate_load[OF assms(1) c(1,2)] plan_of_load[OF assms(1) c(1,2)] c(3) by simp
qed

text \<open>The open candidates another candidate's promotion spends: those with the same content, and those approved on another base.\<close>

definition spent_by :: "policy \<Rightarrow> string \<Rightarrow> policy_plan list \<Rightarrow> policy_candidate \<Rightarrow> bool" where
  "spent_by p digest plans c \<longleftrightarrow> candidate_belongs_to c p \<and> cand_open c \<and>
     (cand_digest c = Some digest \<or>
      (\<exists>plan. live_plan plans c = Some plan \<and> check_plan_approval plan = ApprovalApproved \<and> base_pin plan \<noteq> Some digest))"

definition spent_writes :: "policy \<Rightarrow> policy_candidate list \<Rightarrow> policy_plan list \<Rightarrow> string \<Rightarrow> string \<Rightarrow> promotion_write list" where
  "spent_writes p cs plans digest promoted_name =
     (let ctx = load_context p cs plans;
          duplicates = map cf_name (filter (digest_matches digest) (filter (\<lambda>c. \<not> cf_terminal c \<and> cf_name c \<noteq> promoted_name) (px_facts ctx)));
          stranded = filter (\<lambda>name. name \<notin> set duplicates) (stranded_by_promotion promoted_name digest (px_facts ctx)) in
      concat (map (retire_duplicate ctx) duplicates) @ concat (map (retire_stranded ctx) stranded))"

lemma record_promotion_spent:
  "record_promotion p cs plans digest =
     (let ctx = load_context p cs plans;
          already = map_option cf_name (List.find (\<lambda>c. cf_promoted c \<and> digest_matches digest c) (px_facts ctx)) in
      case (case already of Some name \<Rightarrow> Some name | None \<Rightarrow> map_option cf_name (select_promoted (px_facts ctx) digest)) of
        None \<Rightarrow> []
      | Some n \<Rightarrow> spent_writes p cs plans digest n @
          (if already \<noteq> None then [] else case context_candidate ctx n of None \<Rightarrow> [] | Some _ \<Rightarrow> [WPromote n]))"
  by (auto simp: record_promotion_def spent_writes_def Let_def split: option.splits)

lemma spent_writes_no_promote: "WPromote m \<notin> set (spent_writes p cs plans digest n)"
  by (auto simp: spent_writes_def Let_def retire_duplicate_def retire_stranded_def retire_plan_def report_def split: option.splits)

lemma names_of_facts:
  "set (map cf_name (filter P (px_facts (load_context p cs plans)))) = cd_name ` {c \<in> set cs. candidate_belongs_to c p \<and> P (facts_of plans c)}"
  by (simp add: load_context_def Let_def filter_map image_image)

lemma set_stranded:
  "set (stranded_by_promotion n digest (px_facts (load_context p cs plans))) =
     cd_name ` {c \<in> set cs. candidate_belongs_to c p \<and> cand_open c \<and> cd_name c \<noteq> n \<and>
       (\<exists>plan. live_plan plans c = Some plan \<and> check_plan_approval plan = ApprovalApproved \<and> base_pin plan \<noteq> Some digest)}"
proof -
  have a: "is_some_and (approved_plan (facts_of plans c)) (\<lambda>plan. pf_base_content_digest plan \<noteq> Some digest) \<longleftrightarrow>
      (\<exists>plan. live_plan plans c = Some plan \<and> check_plan_approval plan = ApprovalApproved \<and> base_pin plan \<noteq> Some digest)" for c
    by (force simp: is_some_and_iff approved_plan_facts_of)
  show ?thesis unfolding stranded_by_promotion_def filter_filter names_of_facts a by simp
qed

lemma set_duplicates:
  "set (map cf_name (filter (digest_matches digest) (filter (\<lambda>c. \<not> cf_terminal c \<and> cf_name c \<noteq> n) (px_facts (load_context p cs plans))))) =
     cd_name ` {c \<in> set cs. candidate_belongs_to c p \<and> cand_open c \<and> cd_name c \<noteq> n \<and> cand_digest c = Some digest}"
  unfolding filter_filter names_of_facts by (simp add: digest_matches_def is_some_and_iff)

lemma retired_plans:
  "WSupersedePlan plan cause \<in> set (concat (map (retire_duplicate ctx) ds) @ concat (map (retire_stranded ctx) (filter (\<lambda>name. name \<notin> set ds) ss))) \<longleftrightarrow>
     cause = SupersededByPromotion \<and> (\<exists>name \<in> set ds \<union> set ss. plan_of ctx name = Some plan)"
proof -
  have "WSupersedePlan plan cause \<in> set (retire_duplicate ctx name) \<longleftrightarrow> cause = SupersededByPromotion \<and> plan_of ctx name = Some plan"
    "WSupersedePlan plan cause \<in> set (retire_stranded ctx name) \<longleftrightarrow> cause = SupersededByPromotion \<and> plan_of ctx name = Some plan" for name
    by (auto simp: retire_duplicate_def retire_stranded_def retire_plan_def report_def split: option.splits)
  then show ?thesis by auto
qed

lemma spent_writes_plan:
  assumes "distinct (map cd_name cs)"
  shows "WSupersedePlan plan cause \<in> set (spent_writes p cs plans digest n) \<longleftrightarrow>
     cause = SupersededByPromotion \<and> (\<exists>c. c \<in> set cs \<and> spent_by p digest plans c \<and> cd_name c \<noteq> n \<and> live_plan plans c = Some plan)"
  unfolding spent_writes_def Let_def retired_plans unfolding set_stranded set_duplicates
  using plan_of_load[OF assms, of _ p plans] by (auto simp: spent_by_def bex_Un)

lemma spent_writes_candidate:
  assumes "distinct (map cd_name cs)" "c \<in> set cs" "candidate_belongs_to c p" "cand_open c" "cand_digest c = Some digest" "cd_name c \<noteq> n"
  shows "WSupersedeCandidate (cd_name c) ''SupersededByPromotion'' \<in> set (spent_writes p cs plans digest n)"
proof -
  let ?ctx = "load_context p cs plans"
  have "cd_name c \<in> set (map cf_name (filter (digest_matches digest) (filter (\<lambda>c. \<not> cf_terminal c \<and> cf_name c \<noteq> n) (px_facts ?ctx))))"
    unfolding set_duplicates using assms by simp
  moreover have "WSupersedeCandidate (cd_name c) ''SupersededByPromotion'' \<in> set (retire_duplicate ?ctx (cd_name c))"
    by (simp add: retire_duplicate_def context_candidate_load[OF assms(1-3)])
  ultimately show ?thesis unfolding spent_writes_def Let_def set_append set_concat set_map by blast
qed

text \<open>
  C15: the bookkeeping after an execution. A candidate is promoted only when it is an open candidate of the policy with exactly the
  executed content and no candidate of the policy was promoted for that content before; that write is the last one, and before it
  every other open candidate with the same content is superseded and every approval made against another base is retired, so that
  a crash between two writes leaves no usable approval beside a promoted candidate. No other plan is retired: an approval pinned to
  the executed content survives.
\<close>

theorem promotion_recorded_once:
  assumes "distinct (map cd_name cs)" and "WPromote n \<in> set (record_promotion p cs plans digest)"
  shows "\<exists>ws c. record_promotion p cs plans digest = ws @ [WPromote n] \<and> (\<forall>m. WPromote m \<notin> set ws) \<and>
     c \<in> set cs \<and> cd_name c = n \<and> candidate_belongs_to c p \<and> cand_open c \<and> cand_digest c = Some digest \<and>
     (\<forall>d. d \<in> set cs \<and> candidate_belongs_to d p \<and> cand_digest d = Some digest \<longrightarrow> map_option cs_phase (cd_status d) \<noteq> Some CandPromoted) \<and>
     (\<forall>d. d \<in> set cs \<and> d \<noteq> c \<and> candidate_belongs_to d p \<and> cand_open d \<and> cand_digest d = Some digest \<longrightarrow>
        WSupersedeCandidate (cd_name d) ''SupersededByPromotion'' \<in> set ws) \<and>
     (\<forall>plan cause. WSupersedePlan plan cause \<in> set ws \<longleftrightarrow> cause = SupersededByPromotion \<and>
        (\<exists>d. d \<in> set cs \<and> spent_by p digest plans d \<and> d \<noteq> c \<and> live_plan plans d = Some plan))"
proof -
  let ?ctx = "load_context p cs plans"
  let ?ws = "spent_writes p cs plans digest n"
  obtain f where f: "List.find (\<lambda>c. cf_promoted c \<and> digest_matches digest c) (px_facts ?ctx) = None"
      "select_promoted (px_facts ?ctx) digest = Some f" "cf_name f = n" "record_promotion p cs plans digest = ?ws @ [WPromote n]"
    using assms(2) unfolding record_promotion_spent
    by (auto simp: Let_def spent_writes_no_promote eq_commute[of "Some _" "map_option _ _"] eq_commute[of "Some _" "context_candidate _ _"] simp del: facts_load split: option.splits if_splits)
  obtain c where c: "c \<in> set cs" "candidate_belongs_to c p" "f = facts_of plans c" using select_promotedD[OF f(2)] by auto
  have same: "cd_name d \<noteq> n \<longleftrightarrow> d \<noteq> c" if "d \<in> set cs" for d
    using that c(1,3) f(3) assms(1) by (auto simp: distinct_map dest: inj_onD)
  have fresh: "map_option cs_phase (cd_status d) \<noteq> Some CandPromoted"
    if "d \<in> set cs" "candidate_belongs_to d p" "cand_digest d = Some digest" for d
    using f(1) that unfolding find_None_iff by (auto simp: facts_of_def cand_digest_def digest_matches_def is_some_and_iff)
  have plans: "WSupersedePlan plan cause \<in> set ?ws \<longleftrightarrow> cause = SupersededByPromotion \<and>
      (\<exists>d. d \<in> set cs \<and> spent_by p digest plans d \<and> d \<noteq> c \<and> live_plan plans d = Some plan)" for plan cause
    unfolding spent_writes_plan[OF assms(1)] using same by blast
  have dup: "WSupersedeCandidate (cd_name d) ''SupersededByPromotion'' \<in> set ?ws"
    if "d \<in> set cs" "d \<noteq> c" "candidate_belongs_to d p" "cand_open d" "cand_digest d = Some digest" for d
    using spent_writes_candidate[OF assms(1) that(1,3,4,5)] same that(1,2) by simp
  have "cand_open c" "cand_digest c = Some digest" "cd_name c = n" using select_promotedD[OF f(2)] c(3) f(3) by simp_all
  then show ?thesis
    by (intro exI[of _ ?ws] exI[of _ c]) (use fresh dup plans c in \<open>auto simp: f(4) spent_writes_no_promote\<close>)
qed

theorem promotion_recorded_once_witness:
  "\<exists>ws. record_promotion ex_policy [ex_candidate ''a'' ''new'', ex_candidate ''b'' ''other''] [ex_candidate_plan ''b'', ex_candidate_plan ''a''] ''new''
       = ws @ [WPromote ''a''] \<and> WSupersedePlan (ex_candidate_plan ''b'') SupersededByPromotion \<in> set ws"
proof -
  let ?cs = "[ex_candidate ''a'' ''new'', ex_candidate ''b'' ''other'']"
  let ?ps = "[ex_candidate_plan ''b'', ex_candidate_plan ''a'']"
  have d: "distinct (map cd_name ?cs)" by (simp add: ex_candidate_def)
  have r: "record_promotion ex_policy ?cs ?ps ''new'' = [WSupersedePlan (ex_candidate_plan ''b'') SupersededByPromotion,
      WReport ''b'' ''SupersededByPromotion'', WPromote ''a'']"
    by code_simp
  then have w: "WPromote ''a'' \<in> set (record_promotion ex_policy ?cs ?ps ''new'')" by simp
  from promotion_recorded_once[OF d w] show ?thesis using r by auto
qed

end
