(* ===== verification/OperatorFindings.thy ===== *)
theory OperatorFindings
  imports Retention Promotion
begin

text \<open>
  What modelling the operator's plan lifecycle showed. Each lemma states a behaviour of the code that a comment beside it does not
  describe.
\<close>

text \<open>
  The patch that moves a plan to \<open>Applying\<close> spells its time stamp \<open>applying_since\<close>, while the status serialises the field as
  \<open>applyingSince\<close>. A merge patch that does not name a field leaves it alone, so the recovery of interrupted executions never
  finds the time it needs, however long the plan has been \<open>Applying\<close>.
\<close>

theorem applying_patch_misses_time_stamp:
  fixes merge :: "plan_status \<Rightarrow> (string \<times> json) list \<Rightarrow> plan_status"
  assumes "\<And>status patch. ''applyingSince'' \<notin> fst ` set patch \<Longrightarrow> ps_applying_since (merge status patch) = ps_applying_since status"
    and "ps_applying_since status = None"
  shows "\<not> recovers_stuck_plan parse now_secs (merge status (update_plan_phase now PhApplying))"
proof -
  have "''applyingSince'' \<notin> fst ` set (update_plan_phase now PhApplying)" by (simp add: update_plan_phase_def)
  from assms(1)[OF this, of status] assms(2) show ?thesis by (simp add: recovers_stuck_plan_def)
qed

text \<open>A merge of the two keys the patch could set, as the status spells them.\<close>

definition ex_merge :: "plan_status \<Rightarrow> (string \<times> json) list \<Rightarrow> plan_status" where
  "ex_merge status patch =
     status\<lparr>ps_phase := (case map_of patch ''phase'' of Some (JStr p) \<Rightarrow> (if p = ''Applying'' then PhApplying else ps_phase status) | _ \<Rightarrow> ps_phase status),
            ps_applying_since := (case map_of patch ''applyingSince'' of Some (JStr t) \<Rightarrow> Some t | _ \<Rightarrow> ps_applying_since status)\<rparr>"

theorem applying_patch_misses_time_stamp_witness:
  "ps_phase (ex_merge ex_status (update_plan_phase ''0'' PhApplying)) = PhApplying \<and>
   \<not> recovers_stuck_plan (\<lambda>_. Some 0) 1000 (ex_merge ex_status (update_plan_phase ''0'' PhApplying)) \<and>
   recovers_stuck_plan (\<lambda>_. Some 0) 1000 (ex_merge ex_status [(''phase'', JStr ''Applying''), (''applyingSince'', JStr ''0'')])"
proof -
  have "ps_applying_since (ex_merge status patch) = ps_applying_since status" if "''applyingSince'' \<notin> fst ` set patch" for status patch
    using that by (auto simp: ex_merge_def map_of_eq_None_iff[THEN iffD2])
  moreover have "ps_applying_since ex_status = None" by (simp add: ex_status_def default_plan_status_def)
  ultimately have "\<not> recovers_stuck_plan (\<lambda>_. Some 0) 1000 (ex_merge ex_status (update_plan_phase ''0'' PhApplying))"
    by (rule applying_patch_misses_time_stamp)
  then show ?thesis
    by (simp add: ex_merge_def update_plan_phase_def show_phase_def recovers_stuck_plan_def STUCK_THRESHOLD_SECS_def)
qed

text \<open>
  A status that carries the same decision twice satisfies every validation rule, but the write after a successful execution
  collapses the two entries, which the rule that decisions are terminal refuses: the plan stays \<open>Applying\<close>.
\<close>

lemma duplicate_decision_strands_plan:
  defines "approved \<equiv> \<lparr>pc_type = ''Approved'', pc_status = ''True'', pc_reason = None, pc_message = None, pc_last_transition_time = None\<rparr>"
  defines "old \<equiv> default_plan_status\<lparr>ps_phase := PhApplying, ps_conditions := [approved, approved],
    ps_decided_by := Some \<lparr>da_username = ''alice'', da_uid = None, da_groups = []\<rparr>\<rparr>"
  shows "valid_status old" and "\<not> admitted_status old (execute_succeeded now (Some old))"
  by (simp_all add: old_def approved_def valid_status_def decided_def admitted_status_def true_decisions_def execute_succeeded_def
      set_plan_condition_def Let_def default_plan_status_def)

end
