(* ===== verification/Ephemeral.thy ===== *)
theory Ephemeral
  imports Retention Promotion
begin

text \<open>
  Time-limited membership access (\<open>crates/pgroles-operator/src/ephemeral.rs\<close>, types in \<open>crd.rs\<close>): resolution of a request
  against its access policy, and one reconciliation pass over a request. What a pass reads from the cluster and the clock is the
  record \<open>pass\<close>; what it does is the list of its calls in order (status writes and scoped membership operations) with its result.
  Labels, events, metrics and audit lines are left out. A call that fails ends the pass, which leaves a prefix of the list.
\<close>

section \<open>Resources\<close>

datatype request_phase = RPending | RPendingApproval | RApplying | RActive | RRevoking | REnded | RRevoked | RCancelled | RDenied
  | RApprovalExpired | RFailed

fun show_request_phase :: "request_phase \<Rightarrow> string" where
  "show_request_phase RPending = ''Pending''"
| "show_request_phase RPendingApproval = ''PendingApproval''"
| "show_request_phase RApplying = ''Applying''"
| "show_request_phase RActive = ''Active''"
| "show_request_phase RRevoking = ''Revoking''"
| "show_request_phase REnded = ''Ended''"
| "show_request_phase RRevoked = ''Revoked''"
| "show_request_phase RCancelled = ''Cancelled''"
| "show_request_phase RDenied = ''Denied''"
| "show_request_phase RApprovalExpired = ''ApprovalExpired''"
| "show_request_phase RFailed = ''Failed''"

datatype ephemeral_approval_mode = Automatic | Required

record access_condition =
  ac_type :: string
  ac_status :: string
  ac_reason :: "string option"
  ac_message :: "string option"
  ac_last_transition_time :: "string option"
  ac_bundle_hash :: "string option"
  ac_granted_duration :: "string option"

record resolved_membership =
  rm_role :: string
  rm_member :: string
  rm_inherit :: bool

record resolved_access =
  ra_access_policy_uid :: string
  ra_access_policy_generation :: int
  ra_target_policy_uid :: string
  ra_target_policy_generation :: int
  ra_target_database_fingerprint :: string
  ra_granted_duration :: string
  ra_bundle_encoding :: string
  ra_bundle_hash :: string
  ra_memberships :: "resolved_membership list"

record request_status =
  rs_phase :: request_phase
  rs_conditions :: "access_condition list"
  rs_resolved_access :: "resolved_access option"
  rs_decided_by :: "decision_actor option"
  rs_approval_expires_at :: "string option"
  rs_activated_at :: "string option"
  rs_expires_at :: "string option"
  rs_ended_at :: "string option"
  rs_last_error :: "string option"
  rs_retained_memberships :: "resolved_membership list"

definition default_request_status :: request_status where
  "default_request_status = \<lparr>rs_phase = RPending, rs_conditions = [], rs_resolved_access = None, rs_decided_by = None,
     rs_approval_expires_at = None, rs_activated_at = None, rs_expires_at = None, rs_ended_at = None, rs_last_error = None,
     rs_retained_memberships = []\<rparr>"

record access_request =
  rq_name :: string
  rq_uid :: "string option"
  rq_access_policy_ref :: string
  rq_subject_role :: string
  rq_requested_duration :: "string option"
  rq_justification :: "string option"
  rq_deletion_timestamp :: "string option"
  rq_status :: "request_status option"

record access_policy_status =
  aps_observed_generation :: "int option"
  aps_conditions :: "access_condition list"
  aps_resolved_roles :: "string list"

record access_policy =
  ap_uid :: "string option"
  ap_generation :: "int option"
  ap_memberships :: "(string \<times> bool) list"
  ap_maximum_duration :: string
  ap_default_duration :: "string option"
  ap_pending_request_ttl :: string
  ap_justification_required :: bool
  ap_approval_mode :: ephemeral_approval_mode
  ap_suspend :: bool
  ap_status :: "access_policy_status option"

record target_policy = policy +
  tp_generation :: "int option"
  tp_suspend :: bool
  tp_manifest :: policy_manifest

section \<open>Bundles\<close>

text \<open>
  The libraries a pass calls: serialization of a bundle, SHA-256, printing and reading of RFC 3339 time stamps, and \<open>Debug\<close>
  output of a string.
\<close>

record eph_lib =
  el_to_vec :: "string \<Rightarrow> string \<Rightarrow> string \<Rightarrow> resolved_membership list \<Rightarrow> string"
  el_sha256 :: "string \<Rightarrow> string"
  el_format_timestamp :: "nat \<Rightarrow> string option"
  el_parse_timestamp :: "string \<Rightarrow> nat option"
  el_debug :: "string \<Rightarrow> string"

definition EPHEMERAL_BUNDLE_ENCODING_V1 :: string where
  "EPHEMERAL_BUNDLE_ENCODING_V1 = ''pgroles.io/ephemeral-membership-bundle-v1''"

definition EPHEMERAL_MEMBERSHIP_SEMANTICS_V1 :: string where
  "EPHEMERAL_MEMBERSHIP_SEMANTICS_V1 = ''postgres-membership-v1-admin-false-set-server-default''"

definition canonical_bundle_bytes :: "eph_lib \<Rightarrow> resolved_access \<Rightarrow> string" where
  "canonical_bundle_bytes lib resolved =
     el_to_vec lib EPHEMERAL_BUNDLE_ENCODING_V1 EPHEMERAL_MEMBERSHIP_SEMANTICS_V1 (ra_target_database_fingerprint resolved)
       (sort_key (\<lambda>m. (rm_role m, rm_member m, rm_inherit m)) (ra_memberships resolved))"

definition compute_bundle_hash :: "eph_lib \<Rightarrow> resolved_access \<Rightarrow> string" where
  "compute_bundle_hash lib resolved = sha256_prefixed (el_sha256 lib) (canonical_bundle_bytes lib resolved)"

definition has_valid_bundle_hash :: "eph_lib \<Rightarrow> resolved_access \<Rightarrow> bool" where
  "has_valid_bundle_hash lib resolved =
     (ra_bundle_encoding resolved = EPHEMERAL_BUNDLE_ENCODING_V1 \<and> ra_bundle_hash resolved = compute_bundle_hash lib resolved)"

section \<open>Errors, time and conditions\<close>

datatype invalid = InvalidText string | InvalidDur duration_error

datatype ephemeral_error = EKube | EReconcile | EContext | EInvalid invalid | EPendingCleanup nat

fun duration_text :: "(string \<Rightarrow> string) \<Rightarrow> duration_error \<Rightarrow> string" where
  "duration_text debug DurationEmpty = ''duration must not be empty''"
| "duration_text debug (InvalidDuration value) = ''invalid duration '' @ debug value"
| "duration_text debug (InvalidDurationUnit c) = ''invalid duration unit '' @ debug c"
| "duration_text debug DurationTooLarge = ''duration is too large''"
| "duration_text debug (DurationUnterminated value) = ''duration '' @ debug value @ '' must end in s, m, or h''"
| "duration_text debug DurationZero = ''duration must be greater than zero''"

fun invalid_text :: "eph_lib \<Rightarrow> invalid \<Rightarrow> string" where
  "invalid_text lib (InvalidText message) = message"
| "invalid_text lib (InvalidDur error) = duration_text (el_debug lib) error"

definition eph_parse_duration :: "string \<Rightarrow> ephemeral_error + nat" where
  "eph_parse_duration value = (case parse_duration value of Inl error \<Rightarrow> Inl (EInvalid (InvalidDur error)) | Inr d \<Rightarrow> Inr d)"

definition timestamp_from_epoch :: "eph_lib \<Rightarrow> nat \<Rightarrow> ephemeral_error + string" where
  "timestamp_from_epoch lib seconds =
     (if seconds > I64_MAX then Inl (EInvalid (InvalidText ''timestamp exceeds the supported range''))
      else case el_format_timestamp lib seconds of
             None \<Rightarrow> Inl (EInvalid (InvalidText ''invalid timestamp''))
           | Some text \<Rightarrow> Inr text)"

fun floor_boundary :: "string \<Rightarrow> nat \<Rightarrow> nat" where
  "floor_boundary value 0 = 0"
| "floor_boundary value (Suc end) = (if is_char_boundary value (Suc end) then Suc end else floor_boundary value end)"

definition truncate_utf8 :: "string \<Rightarrow> nat \<Rightarrow> string" where
  "truncate_utf8 value max_bytes = (if length value \<le> max_bytes then value else take (floor_boundary value max_bytes) value)"

definition new_condition :: "string \<Rightarrow> string \<Rightarrow> bool \<Rightarrow> string \<Rightarrow> string \<Rightarrow> access_condition" where
  "new_condition now_text condition_type status reason message =
     \<lparr>ac_type = condition_type, ac_status = (if status then ''True'' else ''False''), ac_reason = Some reason,
      ac_message = Some (truncate_utf8 message 2048), ac_last_transition_time = Some now_text,
      ac_bundle_hash = None, ac_granted_duration = None\<rparr>"

definition same_but_time :: "access_condition \<Rightarrow> access_condition \<Rightarrow> bool" where
  "same_but_time existing condition =
     (ac_status existing = ac_status condition \<and> ac_reason existing = ac_reason condition \<and>
      ac_message existing = ac_message condition \<and> ac_bundle_hash existing = ac_bundle_hash condition \<and>
      ac_granted_duration existing = ac_granted_duration condition)"

definition set_access_condition :: "access_condition list \<Rightarrow> access_condition \<Rightarrow> access_condition list" where
  "set_access_condition conditions condition =
     (let condition =
        (case List.find (\<lambda>existing. ac_type existing = ac_type condition) conditions of
           Some existing \<Rightarrow>
             if same_but_time existing condition
             then condition\<lparr>ac_last_transition_time := ac_last_transition_time existing\<rparr> else condition
         | None \<Rightarrow> condition) in
      filter (\<lambda>existing. ac_type existing \<noteq> ac_type condition) conditions @ [condition])"

definition decision_condition :: "request_status \<Rightarrow> string \<Rightarrow> access_condition option" where
  "decision_condition status condition_type =
     List.find (\<lambda>condition. ac_type condition = condition_type \<and> ac_status condition = ''True'') (rs_conditions status)"

section \<open>Resolution\<close>

record pass =
  pa_now :: nat
  pa_now_text :: string
  pa_policy :: "access_policy option"
  pa_target :: "target_policy option"
  pa_fingerprint :: "string option"
  pa_plans :: "policy_plan list"

definition policy_accepted :: "access_policy \<Rightarrow> bool" where
  "policy_accepted policy =
     is_some_and (ap_status policy) (\<lambda>status. aps_observed_generation status = ap_generation policy \<and>
       list_all (\<lambda>condition_type. list_ex (\<lambda>c. ac_type c = condition_type \<and> ac_status c = ''True'') (aps_conditions status))
         [''Accepted'', ''ResolvedRefs''])"

fun check_bundle_roles :: "role_definition list \<Rightarrow> string list \<Rightarrow> (string \<times> bool) list \<Rightarrow> ephemeral_error + unit" where
  "check_bundle_roles roles seen [] = Inr ()"
| "check_bundle_roles roles seen ((name, inherit) # memberships) =
     (case List.find (\<lambda>r. rd_name r = name) (rev roles) of
        None \<Rightarrow> Inl (EInvalid (InvalidText (''access policy role '' @ name @ '' is not in the current expanded target policy'')))
      | Some role \<Rightarrow>
          if rd_external role then Inl (EInvalid (InvalidText (''access policy role '' @ name @ '' is externally managed'')))
          else if name \<in> set seen then Inl (EInvalid (InvalidText (''access policy role '' @ name @ '' appears more than once'')))
          else check_bundle_roles roles (name # seen) memberships)"

definition requested_duration :: "access_request \<Rightarrow> access_policy \<Rightarrow> ephemeral_error + nat" where
  "requested_duration request policy =
     (case (case rq_requested_duration request of Some d \<Rightarrow> Some d | None \<Rightarrow> ap_default_duration policy) of
        Some duration \<Rightarrow> eph_parse_duration duration
      | None \<Rightarrow> Inl (EInvalid (InvalidText ''requestedDuration or defaultDuration is required'')))"

definition invalid_if :: "bool \<Rightarrow> string \<Rightarrow> ephemeral_error + unit" where
  "invalid_if condition message = (if condition then Inl (EInvalid (InvalidText message)) else Inr ())"

definition resolved_bundle :: "eph_lib \<Rightarrow> access_request \<Rightarrow> access_policy \<Rightarrow> target_policy \<Rightarrow> string \<Rightarrow> nat \<Rightarrow> resolved_access" where
  "resolved_bundle lib request policy target fingerprint requested =
     (let resolved =
        \<lparr>ra_access_policy_uid = unwrap_or (ap_uid policy) [], ra_access_policy_generation = unwrap_or (ap_generation policy) 0,
         ra_target_policy_uid = unwrap_or (pol_uid target) [], ra_target_policy_generation = unwrap_or (tp_generation target) 0,
         ra_target_database_fingerprint = fingerprint, ra_granted_duration = format_duration requested,
         ra_bundle_encoding = EPHEMERAL_BUNDLE_ENCODING_V1, ra_bundle_hash = [],
         ra_memberships = map (\<lambda>(role, inherit). \<lparr>rm_role = role, rm_member = rq_subject_role request, rm_inherit = inherit\<rparr>)
           (ap_memberships policy)\<rparr> in
      resolved\<lparr>ra_bundle_hash := compute_bundle_hash lib resolved\<rparr>)"

definition pending_deadline :: "eph_lib \<Rightarrow> nat \<Rightarrow> access_request \<Rightarrow> nat \<Rightarrow> nat" where
  "pending_deadline lib now request ttl =
     unwrap_or (Option.bind (Option.bind (rq_status request) rs_approval_expires_at) (el_parse_timestamp lib)) ((now + ttl) mod (U64_MAX + 1))"

definition resolve_request ::
  "eph_lib \<Rightarrow> pass \<Rightarrow> access_request \<Rightarrow> ephemeral_error + (resolved_access \<times> nat \<times> ephemeral_approval_mode \<times> bool)" where
  "resolve_request lib pa request =
     (case pa_policy pa of
        None \<Rightarrow> Inl EKube
      | Some policy \<Rightarrow>
          bind_r (invalid_if (\<not> policy_accepted policy) ''access policy current generation is not Accepted and Resolved'') (\<lambda>_.
          bind_r (invalid_if (ap_justification_required policy \<and>
             (case rq_justification request of None \<Rightarrow> True | Some justification \<Rightarrow> trim justification = [])) ''justification is required'') (\<lambda>_.
          case pa_target pa of
            None \<Rightarrow> Inl EKube
          | Some target \<Rightarrow>
              bind_r (invalid_if (never_executes (pol_mode target)) ''target PostgresPolicy must be in apply mode'') (\<lambda>_.
              case expand_manifest (tp_manifest target) of
                Inl _ \<Rightarrow> Inl EReconcile
              | Inr expanded \<Rightarrow>
                  bind_r (check_bundle_roles (em_roles expanded) [] (ap_memberships policy)) (\<lambda>_.
                  bind_r (invalid_if (\<not> list_ex (\<lambda>role. rd_name role = rq_subject_role request) (em_roles expanded))
                    (''subject role '' @ rq_subject_role request @ '' is not in the expanded target policy'')) (\<lambda>_.
                  bind_r (requested_duration request policy) (\<lambda>requested.
                  bind_r (eph_parse_duration (ap_maximum_duration policy)) (\<lambda>maximum.
                  bind_r (invalid_if (requested > maximum) ''requested duration exceeds policy maximum'') (\<lambda>_.
                  case pa_fingerprint pa of
                    None \<Rightarrow> Inl EContext
                  | Some fingerprint \<Rightarrow>
                      bind_r (eph_parse_duration (ap_pending_request_ttl policy)) (\<lambda>ttl.
                        Inr (resolved_bundle lib request policy target fingerprint requested,
                             pending_deadline lib (pa_now pa) request ttl, ap_approval_mode policy,
                             ap_suspend policy \<or> tp_suspend target)))))))))))"
section \<open>One pass over a request\<close>

datatype requeue = AwaitChange | RequeueAfter nat

datatype pass_call = StatusWrite request_status | ScopedCall scoped_operation

type_synonym pass_result = "pass_call list \<times> (ephemeral_error + requeue)"

text \<open>\<open>scoped\<close> is the outcome of a scoped membership operation: the retained memberships, or an error.\<close>

type_synonym scoped_outcome = "scoped_operation \<Rightarrow> ephemeral_error + resolved_membership list"

definition RETRY_DELAY :: nat where "RETRY_DELAY = 5"

definition plan_authorizes_activation :: "policy_plan \<Rightarrow> access_request \<Rightarrow> resolved_access \<Rightarrow> bool \<Rightarrow> bool" where
  "plan_authorizes_activation plan request resolved include_applying =
     (let request_uid = unwrap_or (rq_uid request) [];
          owned_by_request = list_ex (\<lambda>owner. or_controller owner = Some True \<and> or_kind owner = ''EphemeralAccessRequest'' \<and>
            or_uid owner = request_uid) (pl_owner_references plan);
          matching_origin = is_some_and (pl_origin plan) (\<lambda>origin. po_kind origin = ''EphemeralAccessRequest'' \<and> po_uid origin = request_uid);
          matching_scope = is_some_and (pl_scope plan) (\<lambda>scope. sc_operation scope = ScopedActivate \<and> sc_bundle_hash scope = ra_bundle_hash resolved);
          usable_phase = (case pl_status plan of
             None \<Rightarrow> include_applying
           | Some status \<Rightarrow> ps_phase status = PhApplied \<or> include_applying \<and> ps_phase status = PhApplying) in
      owned_by_request \<and> matching_origin \<and> matching_scope \<and> usable_phase)"

definition request_has_scoped_activation_plan :: "policy_plan list \<Rightarrow> access_request \<Rightarrow> resolved_access \<Rightarrow> bool \<Rightarrow> bool" where
  "request_has_scoped_activation_plan plans request resolved include_applying =
     list_ex (\<lambda>plan. plan_authorizes_activation plan request resolved include_applying) plans"

definition persist_activation_deadline :: "eph_lib \<Rightarrow> nat \<Rightarrow> request_status \<Rightarrow> resolved_access \<Rightarrow> ephemeral_error + request_status" where
  "persist_activation_deadline lib now status resolved =
     (if rs_activated_at status \<noteq> None \<and> rs_expires_at status \<noteq> None then Inr status
      else bind_r (eph_parse_duration (ra_granted_duration resolved)) (\<lambda>duration.
        if now + duration > U64_MAX then Inl (EInvalid (InvalidText ''access expiry exceeds the supported range''))
        else bind_r (timestamp_from_epoch lib now) (\<lambda>activated.
             bind_r (timestamp_from_epoch lib (now + duration)) (\<lambda>expires.
               Inr (status\<lparr>rs_activated_at := Some activated, rs_expires_at := Some expires\<rparr>)))))"

definition transition_request :: "pass \<Rightarrow> request_status \<Rightarrow> request_phase \<Rightarrow> request_status" where
  "transition_request pa status phase =
     status\<lparr>rs_phase := phase, rs_last_error := None,
       rs_conditions := set_access_condition (rs_conditions status)
         (new_condition (pa_now_text pa) ''Ready'' True (show_request_phase phase) ''Request lifecycle is progressing normally'')\<rparr>"

definition contains_text :: "string \<Rightarrow> string \<Rightarrow> bool" where
  "contains_text s t = list_ex (\<lambda>n. starts_with (drop n s) t) [0..<Suc (length s)]"

definition resolution_failure :: "pass \<Rightarrow> request_status \<Rightarrow> string \<Rightarrow> pass_result" where
  "resolution_failure pa status message =
     ([StatusWrite (status\<lparr>rs_last_error := Some (truncate_utf8 message 4096),
         rs_conditions := set_access_condition (rs_conditions status)
           (new_condition (pa_now_text pa) ''Resolved'' False
             (if contains_text message ''suspended'' then ''Suspended'' else ''InvalidRequest'') message)\<rparr>)],
      Inr (RequeueAfter 60))"

definition validation_error :: "pass \<Rightarrow> request_status \<Rightarrow> string \<Rightarrow> pass_result" where
  "validation_error pa status message =
     ([StatusWrite (status\<lparr>rs_last_error := Some (truncate_utf8 message 4096),
         rs_conditions := set_access_condition (rs_conditions status)
           (new_condition (pa_now_text pa) ''Ready'' False ''InvalidRequestState'' message)\<rparr>)],
      Inr (RequeueAfter 60))"

definition resolved_status ::
  "eph_lib \<Rightarrow> pass \<Rightarrow> request_status \<Rightarrow> resolved_access \<Rightarrow> nat \<Rightarrow> ephemeral_approval_mode \<Rightarrow> ephemeral_error + request_status" where
  "resolved_status lib pa status resolved approval_deadline mode =
     bind_r (timestamp_from_epoch lib approval_deadline) (\<lambda>deadline.
       (let status = status\<lparr>rs_resolved_access := Some resolved, rs_last_error := None, rs_approval_expires_at := Some deadline,
              rs_phase := (case mode of Automatic \<Rightarrow> RApplying | Required \<Rightarrow> RPendingApproval),
              rs_conditions := set_access_condition
                (set_access_condition (rs_conditions status)
                  (new_condition (pa_now_text pa) ''Resolved'' True ''AccessPolicyResolved'' ''Immutable access bundle resolved''))
                (new_condition (pa_now_text pa) ''Ready'' True ''Resolved'' ''Request is ready to progress'')\<rparr> in
        if mode = Automatic then persist_activation_deadline lib (pa_now pa) status resolved else Inr status))"

definition first_resolution :: "eph_lib \<Rightarrow> pass \<Rightarrow> access_request \<Rightarrow> request_status \<Rightarrow> pass_result" where
  "first_resolution lib pa request status =
     (case resolve_request lib pa request of
        Inl (EInvalid message) \<Rightarrow> resolution_failure pa status (invalid_text lib message)
      | Inl error \<Rightarrow> ([], Inl error)
      | Inr (resolved, approval_deadline, mode, suspended) \<Rightarrow>
          if suspended then resolution_failure pa status ''access policy or target PostgresPolicy is suspended''
          else (case resolved_status lib pa status resolved approval_deadline mode of
                  Inl error \<Rightarrow> ([], Inl error)
                | Inr status \<Rightarrow> ([StatusWrite status], Inr (RequeueAfter 0))))"

text \<open>A scoped revocation followed by a transition, and a transition alone.\<close>

definition revoke_then :: "pass \<Rightarrow> scoped_outcome \<Rightarrow> request_status \<Rightarrow> request_phase \<Rightarrow> pass_result" where
  "revoke_then pa scoped status phase =
     (case scoped ScopedRevoke of
        Inl error \<Rightarrow> ([ScopedCall ScopedRevoke], Inl error)
      | Inr retained \<Rightarrow>
          ([ScopedCall ScopedRevoke,
            StatusWrite (transition_request pa (status\<lparr>rs_retained_memberships := retained, rs_ended_at := Some (pa_now_text pa)\<rparr>) phase)],
           Inr AwaitChange))"

definition move_to :: "pass \<Rightarrow> request_status \<Rightarrow> request_phase \<Rightarrow> requeue \<Rightarrow> pass_result" where
  "move_to pa status phase requeue = ([StatusWrite (transition_request pa status phase)], Inr requeue)"

definition attests :: "access_condition \<Rightarrow> resolved_access \<Rightarrow> bool" where
  "attests approved resolved =
     (ac_bundle_hash approved = Some (ra_bundle_hash resolved) \<and> ac_granted_duration approved = Some (ra_granted_duration resolved))"

definition not_attested :: ephemeral_error where
  "not_attested = EInvalid (InvalidText ''approval does not attest to the resolved bundle hash and duration'')"

definition bundle_changed ::
  "eph_lib \<Rightarrow> request_status \<Rightarrow> resolved_access \<Rightarrow> resolved_access \<Rightarrow> ephemeral_approval_mode \<Rightarrow> bool" where
  "bundle_changed lib status resolved current mode =
     (let snapshot_mode = (if rs_phase status = RPendingApproval \<or> decision_condition status ''Approved'' \<noteq> None \<or>
                              decision_condition status ''Denied'' \<noteq> None
                           then Required else Automatic) in
      ra_access_policy_uid current \<noteq> ra_access_policy_uid resolved \<or>
      ra_target_policy_uid current \<noteq> ra_target_policy_uid resolved \<or>
      compute_bundle_hash lib current \<noteq> ra_bundle_hash resolved \<or>
      ra_granted_duration current \<noteq> ra_granted_duration resolved \<or>
      mode \<noteq> snapshot_mode)"

definition wait_for_decision :: "pass \<Rightarrow> nat \<Rightarrow> pass_result" where
  "wait_for_decision pa approval_deadline = ([], Inr (RequeueAfter (max 1 (min RETRY_DELAY (approval_deadline - pa_now pa)))))"

definition pending_approval_step ::
  "eph_lib \<Rightarrow> pass \<Rightarrow> request_status \<Rightarrow> resolved_access \<Rightarrow> ephemeral_approval_mode \<Rightarrow> bool \<Rightarrow> pass_result" where
  "pending_approval_step lib pa status resolved mode suspended =
     (case Option.bind (rs_approval_expires_at status) (el_parse_timestamp lib) of
        None \<Rightarrow> ([], Inl (EInvalid (InvalidText ''invalid approval deadline'')))
      | Some approval_deadline \<Rightarrow>
          if pa_now pa \<ge> approval_deadline then move_to pa status RApprovalExpired AwaitChange
          else if suspended then wait_for_decision pa approval_deadline
          else (case decision_condition status ''Approved'' of
                  None \<Rightarrow> wait_for_decision pa approval_deadline
                | Some approved \<Rightarrow>
                    if mode \<noteq> Required \<or> \<not> attests approved resolved then ([], Inl not_attested)
                    else (case persist_activation_deadline lib (pa_now pa) status resolved of
                            Inl error \<Rightarrow> ([], Inl error)
                          | Inr status \<Rightarrow> move_to pa status RApplying (RequeueAfter 0))))"

definition expiry :: "eph_lib \<Rightarrow> request_status \<Rightarrow> nat option" where
  "expiry lib status = Option.bind (rs_expires_at status) (el_parse_timestamp lib)"

definition applying_step :: "eph_lib \<Rightarrow> pass \<Rightarrow> scoped_outcome \<Rightarrow> access_request \<Rightarrow> request_status \<Rightarrow> resolved_access \<Rightarrow> pass_result" where
  "applying_step lib pa scoped request status resolved =
     (case expiry lib status of
        None \<Rightarrow> ([], Inl (EInvalid (InvalidText ''invalid access expiry'')))
      | Some expires_at \<Rightarrow>
          if expires_at \<le> pa_now pa
          then (if request_has_scoped_activation_plan (pa_plans pa) request resolved True
                then revoke_then pa scoped status REnded else move_to pa status RCancelled AwaitChange)
          else (case scoped ScopedActivate of
                  Inl error \<Rightarrow> ([ScopedCall ScopedActivate], Inl error)
                | Inr _ \<Rightarrow>
                    (let status = status\<lparr>rs_conditions := set_access_condition (rs_conditions status)
                           (new_condition (pa_now_text pa) ''Applied'' True ''MembershipsGranted'' ''Ephemeral memberships are active'')\<rparr> in
                     ([ScopedCall ScopedActivate, StatusWrite (transition_request pa status RActive)],
                      Inr (RequeueAfter (max 1 (expires_at - pa_now pa)))))))"

definition active_step :: "eph_lib \<Rightarrow> pass \<Rightarrow> request_status \<Rightarrow> pass_result" where
  "active_step lib pa status =
     (case expiry lib status of
        None \<Rightarrow> ([], Inl (EInvalid (InvalidText ''invalid access expiry'')))
      | Some expires_at \<Rightarrow>
          if pa_now pa < expires_at then ([], Inr (RequeueAfter (max 1 (expires_at - pa_now pa))))
          else move_to pa status RRevoking (RequeueAfter 0))"

definition terminal_request :: "request_phase \<Rightarrow> bool" where
  "terminal_request phase = (phase \<in> {REnded, RRevoked, RCancelled, RDenied, RApprovalExpired, RFailed})"

text \<open>The part of the pass after the access policy has been read again (for phases before activation) or not (afterwards).\<close>

definition phase_step ::
  "eph_lib \<Rightarrow> pass \<Rightarrow> scoped_outcome \<Rightarrow> access_request \<Rightarrow> request_status \<Rightarrow> resolved_access \<Rightarrow> ephemeral_approval_mode \<Rightarrow> bool \<Rightarrow> pass_result" where
  "phase_step lib pa scoped request status resolved mode suspended =
     (if rs_phase status = RPendingApproval then pending_approval_step lib pa status resolved mode suspended
      else if rs_phase status = RApplying \<and> mode = Required \<and> decision_condition status ''Approved'' = None
      then ([], Inl (EInvalid (InvalidText ''Required request cannot apply without Approved=True'')))
      else if rs_phase status = RApplying \<and> mode = Required \<and> \<not> attests (the (decision_condition status ''Approved'')) resolved
      then ([], Inl not_attested)
      else (case rs_phase status of
              RApplying \<Rightarrow> applying_step lib pa scoped request status resolved
            | RActive \<Rightarrow> active_step lib pa status
            | RRevoking \<Rightarrow> revoke_then pa scoped status REnded
            | _ \<Rightarrow> ([], Inr (RequeueAfter RETRY_DELAY))))"

definition reresolved_step :: "eph_lib \<Rightarrow> pass \<Rightarrow> scoped_outcome \<Rightarrow> access_request \<Rightarrow> request_status \<Rightarrow> resolved_access \<Rightarrow> pass_result" where
  "reresolved_step lib pa scoped request status resolved =
     (case resolve_request lib pa request of
        Inl error \<Rightarrow> ([], Inl error)
      | Inr (current, _, mode, suspended) \<Rightarrow>
          if bundle_changed lib status resolved current mode \<or> suspended \<and> rs_phase status = RApplying
          then (if rs_phase status = RApplying \<and> request_has_scoped_activation_plan (pa_plans pa) request resolved True
                then revoke_then pa scoped status RCancelled else move_to pa status RCancelled AwaitChange)
          else phase_step lib pa scoped request status resolved mode suspended)"

definition reconcile_access_request_apply :: "eph_lib \<Rightarrow> pass \<Rightarrow> scoped_outcome \<Rightarrow> access_request \<Rightarrow> pass_result" where
  "reconcile_access_request_apply lib pa scoped request =
     (let status = unwrap_or (rq_status request) default_request_status in
      case rs_resolved_access status of
        None \<Rightarrow> first_resolution lib pa request status
      | Some resolved \<Rightarrow>
          if \<not> has_valid_bundle_hash lib resolved
          then ([], Inl (EInvalid (InvalidText ''resolved bundle hash does not match its canonical payload'')))
          else if terminal_request (rs_phase status) then ([], Inr AwaitChange)
          else if decision_condition status ''Denied'' \<noteq> None
          then (if rs_phase status = RActive \<or>
                   rs_phase status = RApplying \<and> request_has_scoped_activation_plan (pa_plans pa) request resolved True
                then revoke_then pa scoped status RDenied else move_to pa status RDenied AwaitChange)
          else if rs_phase status = RPendingApproval \<or> rs_phase status = RApplying
          then reresolved_step lib pa scoped request status resolved
          else phase_step lib pa scoped request status resolved Automatic False)"

text \<open>The controller's wrapper: an invalid request is reported on its status.\<close>

definition reconcile_request :: "eph_lib \<Rightarrow> pass \<Rightarrow> scoped_outcome \<Rightarrow> access_request \<Rightarrow> pass_result" where
  "reconcile_request lib pa scoped request =
     (case reconcile_access_request_apply lib pa scoped request of
        (calls, Inl (EInvalid message)) \<Rightarrow>
          (let (writes, result) = validation_error pa (unwrap_or (rq_status request) default_request_status) (invalid_text lib message) in
           (calls @ writes, result))
      | result \<Rightarrow> result)"

definition reconcile_request_cleanup :: "eph_lib \<Rightarrow> pass \<Rightarrow> scoped_outcome \<Rightarrow> access_request \<Rightarrow> pass_result" where
  "reconcile_request_cleanup lib pa scoped request =
     (case rq_status request of
        None \<Rightarrow> ([], Inr AwaitChange)
      | Some status \<Rightarrow>
          (case rs_resolved_access status of
             None \<Rightarrow> ([], Inr AwaitChange)
           | Some resolved \<Rightarrow>
               if rs_phase status \<in> {RApplying, RActive, RRevoking}
               then (if \<not> has_valid_bundle_hash lib resolved
                     then ([], Inl (EInvalid (InvalidText ''refusing finalizer cleanup for a non-canonical resolved bundle'')))
                     else if request_has_scoped_activation_plan (pa_plans pa) request resolved True
                     then ([ScopedCall ScopedRevoke], case scoped ScopedRevoke of Inl error \<Rightarrow> Inl error | Inr _ \<Rightarrow> Inr AwaitChange)
                     else ([], Inr AwaitChange))
               else ([], Inr AwaitChange)))"

end
