(* ===== verification/EphemeralScope.thy ===== *)
theory EphemeralScope
  imports Ephemeral
begin

text \<open>
  The database side of time-limited access (\<open>crates/pgroles-operator/src/ephemeral.rs\<close>): acceptance of access policies, the overlay
  of granted memberships on a policy's desired graph, and the changes of one scoped activation or revocation. The inspected graph,
  the listed requests and plans are arguments; metrics and conditions on other objects are left out.
\<close>

section \<open>Acceptance of an access policy\<close>

definition cluster_duration :: "(string \<Rightarrow> string option) \<Rightarrow> string \<Rightarrow> string \<Rightarrow> ephemeral_error + nat" where
  "cluster_duration env variable fallback = eph_parse_duration (unwrap_or (env variable) fallback)"

text \<open>The reason and the message of a refusal.\<close>

type_synonym refusal = "string \<times> string"

datatype policy_stop = Refused refusal | PassError ephemeral_error

definition policy_duration :: "eph_lib \<Rightarrow> string \<Rightarrow> policy_stop + nat" where
  "policy_duration lib v =
     (case parse_duration v of
        Inl error \<Rightarrow> Inl (Refused (''InvalidDuration'', ''invalid ephemeral access resource: '' @ duration_text (el_debug lib) error))
      | Inr d \<Rightarrow> Inr d)"

definition refuse_if :: "bool \<Rightarrow> string \<Rightarrow> string \<Rightarrow> policy_stop + unit" where
  "refuse_if condition reason message = (if condition then Inl (Refused (reason, message)) else Inr ())"

definition pass_error :: "ephemeral_error + 'a \<Rightarrow> policy_stop + 'a" where
  "pass_error result = (case result of Inl error \<Rightarrow> Inl (PassError error) | Inr v \<Rightarrow> Inr v)"

fun accept_roles :: "role_definition list \<Rightarrow> string list \<Rightarrow> (string \<times> bool) list \<Rightarrow> policy_stop + string list" where
  "accept_roles roles seen [] = Inr (sorted_list_of_set (set seen))"
| "accept_roles roles seen ((name, inherit) # memberships) =
     (case List.find (\<lambda>r. rd_name r = name) (rev roles) of
        None \<Rightarrow> Inl (Refused (''RoleNotFound'', ''role '' @ name @ '' is not in the expanded target policy''))
      | Some role \<Rightarrow>
          if rd_external role then Inl (Refused (''ExternalTargetRole'', ''role '' @ name @ '' is externally managed''))
          else if name \<in> set seen then Inl (Refused (''DuplicateMembership'', ''role '' @ name @ '' appears more than once''))
          else accept_roles roles (name # seen) memberships)"

text \<open>
  \<open>lookup\<close> is the answer to the lookup of the target: \<open>None\<close> when the server says it does not exist. A malformed cluster maximum is
  an error of the pass, everything else a refusal of the policy.
\<close>

definition check_access_policy ::
  "eph_lib \<Rightarrow> (string \<Rightarrow> string option) \<Rightarrow> access_policy \<Rightarrow> target_policy option \<Rightarrow> policy_stop + (target_policy \<times> string list)" where
  "check_access_policy lib env policy lookup =
     bind_r (policy_duration lib (ap_maximum_duration policy)) (\<lambda>maximum.
     bind_r (pass_error (cluster_duration env ''EPHEMERAL_ACCESS_MAXIMUM_DURATION'' ''24h'')) (\<lambda>cluster_maximum.
     bind_r (refuse_if (maximum > cluster_maximum) ''DurationExceedsClusterMaximum''
       (''maximumDuration '' @ ap_maximum_duration policy @ '' exceeds cluster maximum '' @ format_duration cluster_maximum)) (\<lambda>_.
     bind_r (policy_duration lib (ap_pending_request_ttl policy)) (\<lambda>pending_ttl.
     bind_r (pass_error (cluster_duration env ''EPHEMERAL_ACCESS_MAX_PENDING_TTL'' ''1h'')) (\<lambda>cluster_pending_maximum.
     bind_r (refuse_if (pending_ttl > cluster_pending_maximum) ''DurationExceedsClusterMaximum''
       ''pendingRequestTTL exceeds the cluster maximum'') (\<lambda>_.
     bind_r (case ap_default_duration policy of
               None \<Rightarrow> Inr ()
             | Some default_duration \<Rightarrow> bind_r (policy_duration lib default_duration) (\<lambda>d.
                 refuse_if (d > maximum) ''InvalidDuration'' ''defaultDuration must not exceed maximumDuration'')) (\<lambda>_.
     bind_r (refuse_if (ap_memberships policy = []) ''EmptyBundle'' ''at least one membership is required'') (\<lambda>_.
     case lookup of
       None \<Rightarrow> Inl (Refused (''TargetNotFound'', ''referenced PostgresPolicy does not exist''))
     | Some target \<Rightarrow>
         bind_r (refuse_if (never_executes (pol_mode target)) ''TargetNotApplyMode'' ''ephemeral access requires a PostgresPolicy in apply mode'') (\<lambda>_.
         case expand_manifest (tp_manifest target) of
           Inl _ \<Rightarrow> Inl (PassError EReconcile)
         | Inr expanded \<Rightarrow> bind_r (accept_roles (em_roles expanded) [] (ap_memberships policy)) (\<lambda>resolved_roles.
             Inr (target, resolved_roles)))))))))))"

definition access_policy_failure :: "string \<Rightarrow> access_policy \<Rightarrow> refusal \<Rightarrow> access_policy_status" where
  "access_policy_failure now_text policy refusal =
     (let status = unwrap_or (ap_status policy) \<lparr>aps_observed_generation = None, aps_conditions = [], aps_resolved_roles = []\<rparr> in
      status\<lparr>aps_observed_generation := ap_generation policy, aps_resolved_roles := [],
        aps_conditions := set_access_condition (aps_conditions status) (new_condition now_text ''Accepted'' False (fst refusal) (snd refusal))\<rparr>)"

definition access_policy_accepted :: "string \<Rightarrow> access_policy \<Rightarrow> target_policy \<Rightarrow> string list \<Rightarrow> access_policy_status" where
  "access_policy_accepted now_text policy target resolved_roles =
     (let status = unwrap_or (ap_status policy) \<lparr>aps_observed_generation = None, aps_conditions = [], aps_resolved_roles = []\<rparr>;
          suspended = (ap_suspend policy \<or> tp_suspend target) in
      status\<lparr>aps_observed_generation := ap_generation policy, aps_resolved_roles := resolved_roles,
        aps_conditions := set_access_condition
          (set_access_condition
            (set_access_condition (aps_conditions status) (new_condition now_text ''Accepted'' True ''Accepted'' ''Access policy is valid''))
            (new_condition now_text ''ResolvedRefs'' True ''Resolved'' ''Target roles resolved''))
          (new_condition now_text ''Suspended'' suspended
            (if ap_suspend policy then ''AccessPolicySuspended'' else if tp_suspend target then ''TargetPolicySuspended'' else ''Active'')
            (if suspended then ''New ephemeral access activation is suspended'' else ''Ephemeral access activation is enabled''))\<rparr>)"

definition reconcile_access_policy_apply ::
  "eph_lib \<Rightarrow> (string \<Rightarrow> string option) \<Rightarrow> string \<Rightarrow> access_policy \<Rightarrow> target_policy option \<Rightarrow>
     ephemeral_error + (access_policy_status \<times> requeue)" where
  "reconcile_access_policy_apply lib env now_text policy lookup =
     (case check_access_policy lib env policy lookup of
        Inl (Refused refusal) \<Rightarrow> Inr (access_policy_failure now_text policy refusal, RequeueAfter 60)
      | Inl (PassError error) \<Rightarrow> Inl error
      | Inr (target, resolved_roles) \<Rightarrow> Inr (access_policy_accepted now_text policy target resolved_roles, RequeueAfter 300))"

text \<open>Deletion of an access policy: every request it resolves, or that names it while unresolved, is deleted first.\<close>

definition belongs_to_access_policy :: "string \<Rightarrow> string \<Rightarrow> access_request \<Rightarrow> bool" where
  "belongs_to_access_policy policy_name policy_uid request =
     (case Option.bind (rq_status request) rs_resolved_access of
        Some resolved \<Rightarrow> ra_access_policy_uid resolved = policy_uid
      | None \<Rightarrow> rq_access_policy_ref request = policy_name)"

text \<open>
  The requests found by the name and by the UID of the policy, in the order of their UIDs and each UID once. \<open>delete\<close> is the answer of the
  server to a deletion: a request that is gone already is no error, any other error ends the loop. The result lists the deletions tried.
\<close>

datatype delete_answer = Deleted | NotFound | DeleteFailed

fun delete_requests :: "(string \<Rightarrow> delete_answer) \<Rightarrow> access_request list \<Rightarrow> string list \<times> bool" where
  "delete_requests delete [] = ([], True)"
| "delete_requests delete (request # requests) =
     (if rq_deletion_timestamp request \<noteq> None then delete_requests delete requests
      else if delete (rq_name request) = DeleteFailed then ([rq_name request], False)
      else (let (names, ok) = delete_requests delete requests in (rq_name request # names, ok)))"

fun dedup_by_key :: "('a \<Rightarrow> 'b) \<Rightarrow> 'a list \<Rightarrow> 'a list" where
  "dedup_by_key key (x # y # xs) = (if key y = key x then dedup_by_key key (x # xs) else x # dedup_by_key key (y # xs))"
| "dedup_by_key key xs = xs"

definition reconcile_access_policy_cleanup ::
  "(string \<Rightarrow> delete_answer) \<Rightarrow> string \<Rightarrow> string \<Rightarrow> access_request list \<Rightarrow> access_request list \<Rightarrow> string list \<times> (ephemeral_error + requeue)" where
  "reconcile_access_policy_cleanup delete policy_name policy_uid by_name by_uid =
     (let request_uid = (\<lambda>request. unwrap_or (rq_uid request) []);
          indexed = dedup_by_key request_uid (sort_key request_uid (by_name @ by_uid));
          remaining = filter (belongs_to_access_policy policy_name policy_uid) indexed;
          (deletions, ok) = delete_requests delete remaining in
      (deletions,
       if \<not> ok then Inl EKube
       else if remaining \<noteq> [] then Inl (EPendingCleanup (length remaining)) else Inr AwaitChange))"

section \<open>The overlay\<close>

text \<open>A request whose memberships are part of the desired graph of the target: what the loops over requests skip is \<open>None\<close>.\<close>

definition owning_bundle :: "eph_lib \<Rightarrow> string \<Rightarrow> policy_plan list \<Rightarrow> access_request \<Rightarrow> resolved_access option" where
  "owning_bundle lib target_uid plans request =
     (case rq_status request of
        None \<Rightarrow> None
      | Some status \<Rightarrow>
          if rs_phase status \<noteq> RApplying \<and> rs_phase status \<noteq> RActive then None
          else (case rs_resolved_access status of
                  None \<Rightarrow> None
                | Some resolved \<Rightarrow>
                    if \<not> list_ex (\<lambda>plan. plan_authorizes_activation plan request resolved True) plans then None
                    else if ra_target_policy_uid resolved \<noteq> target_uid \<or> \<not> has_valid_bundle_hash lib resolved then None
                    else Some resolved))"

definition bundle_key :: "resolved_membership \<Rightarrow> string \<times> string" where
  "bundle_key membership = (rm_role membership, rm_member membership)"

definition graph_membership_key :: "membership_edge \<Rightarrow> string \<times> string" where
  "graph_membership_key edge = (me_role edge, me_member edge)"

definition overlay_edge :: "resolved_membership \<Rightarrow> membership_edge" where
  "overlay_edge membership =
     \<lparr>me_role = rm_role membership, me_member = rm_member membership, me_inherit = rm_inherit membership, me_admin = False\<rparr>"

datatype overlay_error = OtherDatabase string | BlocksRetirement string resolved_membership | ConflictingRequests resolved_membership

type_synonym overlay_state = "string btreeset \<times> (string \<times> string, membership_edge) btreemap"

definition overlay_membership :: "role_graph \<Rightarrow> string \<Rightarrow> resolved_membership \<Rightarrow> overlay_state \<Rightarrow> overlay_error + overlay_state" where
  "overlay_membership desired request_name membership = (\<lambda>(additional_roles, overlays).
     (if \<not> contains_key (rg_roles desired) (rm_role membership) \<or> \<not> contains_key (rg_roles desired) (rm_member membership)
      then Inl (BlocksRetirement request_name membership)
      else
        (let additional_roles = finsert (rm_member membership) (finsert (rm_role membership) additional_roles);
             edge = overlay_edge membership;
             key = bundle_key membership in
         if fBex (rg_memberships desired) (\<lambda>candidate. graph_membership_key candidate = key) then Inr (additional_roles, overlays)
         else (case fmlookup overlays key of
                 Some existing \<Rightarrow>
                   if existing \<noteq> edge then Inl (ConflictingRequests membership) else Inr (additional_roles, fmupd key edge overlays)
               | None \<Rightarrow> Inr (additional_roles, fmupd key edge overlays)))))"

definition overlay_request ::
  "eph_lib \<Rightarrow> role_graph \<Rightarrow> string \<Rightarrow> policy_plan list \<Rightarrow> string \<Rightarrow> access_request \<Rightarrow> overlay_state \<Rightarrow> overlay_error + overlay_state" where
  "overlay_request lib desired target_uid plans fingerprint request state =
     (case owning_bundle lib target_uid plans request of
        None \<Rightarrow> Inr state
      | Some resolved \<Rightarrow>
          if ra_target_database_fingerprint resolved \<noteq> fingerprint then Inl (OtherDatabase (rq_name request))
          else fold_r (overlay_membership desired (rq_name request)) (ra_memberships resolved) state)"

definition compose_effective_graph ::
  "eph_lib \<Rightarrow> role_graph \<Rightarrow> string \<Rightarrow> access_request list \<Rightarrow> policy_plan list \<Rightarrow> string \<Rightarrow> overlay_error + (role_graph \<times> string btreeset)" where
  "compose_effective_graph lib desired target_uid requests plans fingerprint =
     (case fold_r (overlay_request lib desired target_uid plans fingerprint) requests ({||}, fmempty) of
        Inl error \<Rightarrow> Inl error
      | Inr (additional_roles, overlays) \<Rightarrow>
          Inr (desired\<lparr>rg_memberships := rg_memberships desired |\<union>| fmran overlays\<rparr>, additional_roles))"

definition active_owner_keys ::
  "eph_lib \<Rightarrow> string \<Rightarrow> access_request list \<Rightarrow> policy_plan list \<Rightarrow> string option \<Rightarrow> (string \<times> string) set" where
  "active_owner_keys lib target_uid requests plans exclude_request_uid =
     (\<Union>request \<in> set (filter (\<lambda>request. \<not> is_some_and exclude_request_uid (\<lambda>uid. rq_uid request = Some uid)) requests).
        case owning_bundle lib target_uid plans request of None \<Rightarrow> {} | Some resolved \<Rightarrow> set (map bundle_key (ra_memberships resolved)))"

section \<open>Scoped changes\<close>

definition has_edge :: "membership_edge btreeset \<Rightarrow> string \<times> string \<Rightarrow> bool" where
  "has_edge edges key = fBex edges (\<lambda>edge. graph_membership_key edge = key)"

text \<open>\<open>current_by_key\<close>: a map built in iteration order, so the last edge of a key counts.\<close>

definition edge_at :: "membership_edge btreeset \<Rightarrow> string \<times> string \<Rightarrow> membership_edge option" where
  "edge_at edges key = List.find (\<lambda>edge. graph_membership_key edge = key) (rev (bt_elements edges))"

fun activate_changes ::
  "role_graph \<Rightarrow> membership_edge btreeset \<Rightarrow> (string \<times> string) set \<Rightarrow> bool \<Rightarrow> resolved_membership list \<Rightarrow> ephemeral_error + change list" where
  "activate_changes current durable others has_plan [] = Inr []"
| "activate_changes current durable others has_plan (m # ms) =
     (if \<not> contains_key (rg_roles current) (rm_role m) \<or> \<not> contains_key (rg_roles current) (rm_member m)
      then Inl (EInvalid (InvalidText (''membership roles '' @ rm_member m @ '' and '' @ rm_role m @ '' must already exist in PostgreSQL'')))
      else if has_edge durable (bundle_key m)
      then Inl (EInvalid (InvalidText (''membership '' @ rm_member m @ '' -> '' @ rm_role m @ '' is already durable'')))
      else (case edge_at (rg_memberships current) (bundle_key m) of
              Some existing \<Rightarrow>
                if (bundle_key m \<in> others \<or> has_plan) \<and> me_inherit existing = rm_inherit m \<and> \<not> me_admin existing
                then activate_changes current durable others has_plan ms
                else Inl (EInvalid (InvalidText (''membership '' @ rm_member m @ '' -> '' @ rm_role m @
                       '' already exists without matching ephemeral ownership'')))
            | None \<Rightarrow>
                bind_r (activate_changes current durable others has_plan ms) (\<lambda>changes.
                  Inr (AddMember (rm_role m) (rm_member m) (rm_inherit m) False # changes))))"

fun revoke_changes ::
  "role_graph \<Rightarrow> membership_edge btreeset \<Rightarrow> (string \<times> string) set \<Rightarrow> resolved_membership list \<Rightarrow> change list \<times> resolved_membership list" where
  "revoke_changes current durable others [] = ([], [])"
| "revoke_changes current durable others (m # ms) =
     (let (changes, retained) = revoke_changes current durable others ms in
      if has_edge durable (bundle_key m) then (changes, m # retained)
      else if bundle_key m \<in> others then (changes, retained)
      else if has_edge (rg_memberships current) (bundle_key m) then (RemoveMember (rm_role m) (rm_member m) None # changes, retained)
      else (changes, retained))"

text \<open>The check that no change escapes the bundle.\<close>

fun check_escape :: "(string \<times> string) set \<Rightarrow> change list \<Rightarrow> ephemeral_error + unit" where
  "check_escape keys [] = Inr ()"
| "check_escape keys (change # changes) =
     (case change of
        AddMember role member _ _ \<Rightarrow>
          if (role, member) \<in> keys then check_escape keys changes
          else Inl (EInvalid (InvalidText ''scoped plan escaped the approved bundle''))
      | RemoveMember role member _ \<Rightarrow>
          if (role, member) \<in> keys then check_escape keys changes
          else Inl (EInvalid (InvalidText ''scoped plan escaped the approved bundle''))
      | _ \<Rightarrow> Inl (EInvalid (InvalidText ''scoped plan contained a non-membership change'')))"

fun validate_membership_semantics :: "sql_context \<Rightarrow> role_graph \<Rightarrow> resolved_membership list \<Rightarrow> ephemeral_error + unit" where
  "validate_membership_semantics ctx current [] = Inr ()"
| "validate_membership_semantics ctx current (m # ms) =
     (if supports_grant_with_options ctx then Inr ()
      else (case fmlookup (rg_roles current) (rm_member m) of
              None \<Rightarrow> Inl (EInvalid (InvalidText (''subject role '' @ rm_member m @ '' is not present in PostgreSQL'')))
            | Some subject \<Rightarrow>
                if rs_inherit subject \<noteq> rm_inherit m
                then Inl (EInvalid (InvalidText (''PostgreSQL '' @ show_int (cx_pg_major_version ctx) @ '' cannot encode per-membership INHERIT '' @
                       (if rm_inherit m then ''true'' else ''false'') @ ''; subject role '' @ rm_member m @ '' has global INHERIT '' @
                       (if rs_inherit subject then ''true'' else ''false''))))
                else validate_membership_semantics ctx current ms))"

definition scoped_changes ::
  "scoped_operation \<Rightarrow> sql_context \<Rightarrow> role_graph \<Rightarrow> membership_edge btreeset \<Rightarrow> (string \<times> string) set \<Rightarrow> bool \<Rightarrow> resolved_access \<Rightarrow>
     ephemeral_error + (change list \<times> resolved_membership list)" where
  "scoped_changes operation ctx current durable others has_plan resolved =
     bind_r (case operation of
        ScopedActivate \<Rightarrow> bind_r (activate_changes current durable others has_plan (ra_memberships resolved)) (\<lambda>changes. Inr (changes, []))
      | ScopedRevoke \<Rightarrow> Inr (revoke_changes current durable others (ra_memberships resolved))) (\<lambda>(changes, retained).
     bind_r (check_escape (set (map bundle_key (ra_memberships resolved))) changes) (\<lambda>_.
     bind_r (if operation = ScopedActivate then validate_membership_semantics ctx current (ra_memberships resolved) else Inr ()) (\<lambda>_.
       Inr (changes, retained))))"

end
