(* ===== verification/EphemeralLaws.thy ===== *)
theory EphemeralLaws
  imports Ephemeral "HOL-Library.Code_Target_Nat"
begin

text \<open>
  Laws of time-limited access: durations read back as they are printed, a membership is granted only under a valid and current
  authorisation, the deadline of a request is fixed once, and access that has expired is revoked.
\<close>

section \<open>Durations\<close>

lemma chars_single_bytes: "list_all (\<lambda>c. \<not> is_continuation c) s \<Longrightarrow> chars s = map (\<lambda>c. [c]) s"
proof (induction s)
  case (Cons c s)
  then have "takeWhile is_continuation s = []" "dropWhile is_continuation s = s"
    by (cases s; simp)+
  then show ?case using Cons by (simp add: chars.simps(2))
qed simp

lemma digit_not_continuation: "is_ascii_digit c \<Longrightarrow> \<not> is_continuation c"
  by (simp add: is_ascii_digit_def is_continuation_def)

lemma digit_not_whitespace: "is_ascii_digit c \<Longrightarrow> \<not> is_whitespace [c]"
  by (auto simp: is_ascii_digit_def is_whitespace_def white_space_chars_def)

lemma digits_value_append [simp]: "digits_value (ds @ [d]) = digits_value ds * 10 + (of_char d - 48)"
  by (simp add: digits_value_def)

lemma digits_value_show_nat: "digits_value (show_nat n) = n"
proof (induction n rule: show_nat.induct)
  case (1 n)
  show ?case
  proof (cases "n < 10")
    case True
    then show ?thesis by (subst show_nat.simps) (simp add: digits_value_def)
  next
    case False
    then show ?thesis using 1 by (subst show_nat.simps) simp
  qed
qed

lemma duration_loop_digits:
  "list_all is_ascii_digit ds \<Longrightarrow> duration_loop value acc number (map (\<lambda>c. [c]) ds @ cs) = duration_loop value acc (number @ ds) cs"
  by (induction ds arbitrary: number) (simp_all add: is_digit_char_def)

lemma chars_seconds: "list_all is_ascii_digit ds \<Longrightarrow> chars (ds @ ''s'') = map (\<lambda>c. [c]) ds @ [''s'']"
proof -
  assume "list_all is_ascii_digit ds"
  then have "list_all (\<lambda>c. \<not> is_continuation c) (ds @ ''s'')"
    using digit_not_continuation by (auto simp: list_all_iff) (simp add: is_continuation_def)
  then show ?thesis by (simp add: chars_single_bytes)
qed

lemma trim_digits: "list_all is_ascii_digit ds \<Longrightarrow> ds \<noteq> [] \<Longrightarrow> trim (ds @ ''s'') = ds @ ''s''"
proof -
  assume d: "list_all is_ascii_digit ds" "ds \<noteq> []"
  have s: "\<not> is_whitespace ''s''" by (simp add: is_whitespace_def white_space_chars_def)
  have h: "dropWhile is_whitespace (map (\<lambda>c. [c]) ds @ [''s'']) = map (\<lambda>c. [c]) ds @ [''s'']"
    using d by (cases ds) (auto simp: digit_not_whitespace)
  have "concat (map (\<lambda>c. [c]) xs) = xs" for xs :: string by (induction xs) auto
  then show ?thesis unfolding trim_def chars_seconds[OF d(1)] h using s by simp
qed

lemma parse_format_duration: "0 < d \<Longrightarrow> d \<le> U64_MAX \<Longrightarrow> parse_duration (format_duration d) = Inr d"
proof -
  assume d: "0 < d" "d \<le> U64_MAX"
  have ds: "list_all is_ascii_digit (show_nat d)" "show_nat d \<noteq> []" using show_nat_digits by auto
  show ?thesis
    using d ds unfolding parse_duration_def format_duration_def Let_def trim_digits[OF ds] chars_seconds[OF ds(1)] duration_loop_digits[OF ds(1)]
    by (simp add: is_digit_char_def is_ascii_digit_def parse_u64_digits_def digits_value_show_nat unit_seconds_def)
qed

lemma parse_duration_bounds: "parse_duration value = Inr d \<Longrightarrow> 0 < d \<and> d \<le> U64_MAX"
proof -
  have "duration_loop v acc number cs = Inr d \<Longrightarrow> acc \<le> U64_MAX \<Longrightarrow> 0 < d \<and> d \<le> U64_MAX" for v acc number cs
    by (induction v acc number cs rule: duration_loop.induct) (auto split: if_splits option.splits)
  from this[of _ 0] show "parse_duration value = Inr d \<Longrightarrow> 0 < d \<and> d \<le> U64_MAX"
    by (auto simp: parse_duration_def Let_def split: if_splits)
qed

section \<open>Resolution\<close>

lemma bind_r_Inr [simp]: "bind_r x f = Inr y \<longleftrightarrow> (\<exists>v. x = Inr v \<and> f v = Inr y)"
  by (cases x) simp_all

lemma invalid_if_Inr [simp]: "invalid_if c message = Inr u \<longleftrightarrow> \<not> c"
  by (auto simp: invalid_if_def)

lemma eph_parse_Inr [simp]: "eph_parse_duration v = Inr d \<longleftrightarrow> parse_duration v = Inr d"
  by (auto simp: eph_parse_duration_def split: sum.splits)

text \<open>What a successful resolution was checked against.\<close>

definition resolves :: "eph_lib \<Rightarrow> pass \<Rightarrow> access_request \<Rightarrow> access_policy \<Rightarrow> target_policy \<Rightarrow> string \<Rightarrow> nat \<Rightarrow> bool" where
  "resolves lib pa request policy target fingerprint d \<longleftrightarrow>
     pa_policy pa = Some policy \<and> policy_accepted policy \<and> pa_target pa = Some target \<and> \<not> never_executes (pol_mode target) \<and>
     (\<exists>expanded. expand_manifest (tp_manifest target) = Inr expanded \<and>
        check_bundle_roles (em_roles expanded) [] (ap_memberships policy) = Inr () \<and>
        (\<exists>role. role \<in> set (em_roles expanded) \<and> rd_name role = rq_subject_role request)) \<and>
     pa_fingerprint pa = Some fingerprint \<and>
     0 < d \<and> (\<exists>maximum. parse_duration (ap_maximum_duration policy) = Inr maximum \<and> d \<le> maximum \<and> maximum \<le> U64_MAX)"

lemma resolve_requestD:
  assumes "resolve_request lib pa request = Inr (resolved, deadline, mode, suspended)"
  obtains policy target fingerprint d where "resolves lib pa request policy target fingerprint d"
    "resolved = resolved_bundle lib request policy target fingerprint d" "mode = ap_approval_mode policy"
    "suspended \<longleftrightarrow> ap_suspend policy \<or> tp_suspend target"
proof -
  obtain policy where p: "pa_policy pa = Some policy" using assms by (cases "pa_policy pa") (simp_all add: resolve_request_def)
  obtain target where t: "pa_target pa = Some target" using assms p by (cases "pa_target pa") (simp_all add: resolve_request_def)
  obtain expanded where x: "expand_manifest (tp_manifest target) = Inr expanded"
    using assms p t by (cases "expand_manifest (tp_manifest target)") (simp_all add: resolve_request_def)
  obtain fingerprint where f: "pa_fingerprint pa = Some fingerprint"
    using assms p t x by (cases "pa_fingerprint pa") (simp_all add: resolve_request_def)
  have "\<exists>d maximum. requested_duration request policy = Inr d \<and> parse_duration (ap_maximum_duration policy) = Inr maximum \<and> d \<le> maximum \<and>
      resolved = resolved_bundle lib request policy target fingerprint d \<and> mode = ap_approval_mode policy \<and>
      (suspended \<longleftrightarrow> ap_suspend policy \<or> tp_suspend target)"
    using assms p t x f by (auto simp: resolve_request_def not_less)
  then obtain d maximum where d: "requested_duration request policy = Inr d" "parse_duration (ap_maximum_duration policy) = Inr maximum" "d \<le> maximum"
    "resolved = resolved_bundle lib request policy target fingerprint d" "mode = ap_approval_mode policy"
    "suspended \<longleftrightarrow> ap_suspend policy \<or> tp_suspend target"
    by blast
  have "0 < d" using d(1) parse_duration_bounds by (auto simp: requested_duration_def split: option.splits)
  moreover have "maximum \<le> U64_MAX" using parse_duration_bounds[OF d(2)] by simp
  ultimately have "resolves lib pa request policy target fingerprint d"
    using assms p t x f d(2,3) by (auto simp: resolves_def resolve_request_def list_ex_iff)
  then show ?thesis using that d(4-6) by blast
qed

lemma resolved_bundle_simps [simp]:
  "ra_access_policy_uid (resolved_bundle lib request policy target f d) = unwrap_or (ap_uid policy) []"
  "ra_target_policy_uid (resolved_bundle lib request policy target f d) = unwrap_or (pol_uid target) []"
  "ra_granted_duration (resolved_bundle lib request policy target f d) = format_duration d"
  "ra_target_database_fingerprint (resolved_bundle lib request policy target f d) = f"
  "ra_memberships (resolved_bundle lib request policy target f d) =
     map (\<lambda>(role, inherit). \<lparr>rm_role = role, rm_member = rq_subject_role request, rm_inherit = inherit\<rparr>) (ap_memberships policy)"
  by (simp_all add: resolved_bundle_def Let_def)

lemma resolves_duration: "resolves lib pa request policy target f d \<Longrightarrow> parse_duration (format_duration d) = Inr d"
  by (rule parse_format_duration) (auto simp: resolves_def)

section \<open>Activation\<close>

lemma no_activation [simp]:
  "ScopedCall ScopedActivate \<notin> set (fst (resolution_failure pa status message))"
  "ScopedCall ScopedActivate \<notin> set (fst (validation_error pa status message))"
  "ScopedCall ScopedActivate \<notin> set (fst (first_resolution lib pa request status))"
  "ScopedCall ScopedActivate \<notin> set (fst (revoke_then pa scoped status phase))"
  "ScopedCall ScopedActivate \<notin> set (fst (move_to pa status phase requeue))"
  "ScopedCall ScopedActivate \<notin> set (fst (pending_approval_step lib pa status resolved mode suspended))"
  "ScopedCall ScopedActivate \<notin> set (fst (active_step lib pa status))"
  by (auto simp: resolution_failure_def validation_error_def first_resolution_def revoke_then_def move_to_def pending_approval_step_def
      active_step_def wait_for_decision_def split: sum.splits option.splits ephemeral_error.splits)

lemma applying_activation:
  "ScopedCall ScopedActivate \<in> set (fst (applying_step lib pa scoped request status resolved)) \<Longrightarrow>
     \<exists>expires. expiry lib status = Some expires \<and> pa_now pa < expires"
  by (auto simp: applying_step_def Let_def split: option.splits if_splits sum.splits)

lemma phase_activation:
  assumes "ScopedCall ScopedActivate \<in> set (fst (phase_step lib pa scoped request status resolved mode suspended))"
  shows "rs_phase status = RApplying \<and> (\<exists>expires. expiry lib status = Some expires \<and> pa_now pa < expires) \<and>
     (mode = Required \<longrightarrow> (\<exists>approved. decision_condition status ''Approved'' = Some approved \<and> attests approved resolved))"
  using assms by (auto simp: phase_step_def split: if_splits request_phase.splits dest: applying_activation)

lemma reresolved_activation:
  assumes "ScopedCall ScopedActivate \<in> set (fst (reresolved_step lib pa scoped request status resolved))"
  obtains current deadline mode where "resolve_request lib pa request = Inr (current, deadline, mode, False)"
    "\<not> bundle_changed lib status resolved current mode" "rs_phase status = RApplying"
    "\<exists>expires. expiry lib status = Some expires \<and> pa_now pa < expires"
    "mode = Required \<longrightarrow> (\<exists>approved. decision_condition status ''Approved'' = Some approved \<and> attests approved resolved)"
proof -
  obtain current deadline mode suspended where r: "resolve_request lib pa request = Inr (current, deadline, mode, suspended)"
    "\<not> (bundle_changed lib status resolved current mode \<or> suspended \<and> rs_phase status = RApplying)"
    "ScopedCall ScopedActivate \<in> set (fst (phase_step lib pa scoped request status resolved mode suspended))"
    using assms by (auto simp: reresolved_step_def split: sum.splits prod.splits if_splits)
  show ?thesis using that[of current deadline mode] r phase_activation[OF r(3)] by auto
qed

lemma mset_sort_eq: "sort_key k xs = sort_key k ys \<Longrightarrow> mset xs = mset ys"
  using mset_sort[of k xs] mset_sort[of k ys] by simp

text \<open>Equal bundle hashes mean equal memberships on the same database, when the encoding is injective and the hash has no collision.\<close>

lemma bundle_hash_binds:
  assumes "compute_bundle_hash lib a = compute_bundle_hash lib b"
    and "\<And>f ms f' ms'. el_to_vec lib EPHEMERAL_BUNDLE_ENCODING_V1 EPHEMERAL_MEMBERSHIP_SEMANTICS_V1 f ms =
           el_to_vec lib EPHEMERAL_BUNDLE_ENCODING_V1 EPHEMERAL_MEMBERSHIP_SEMANTICS_V1 f' ms' \<Longrightarrow> f = f' \<and> ms = ms'"
    and "el_sha256 lib (canonical_bundle_bytes lib a) = el_sha256 lib (canonical_bundle_bytes lib b) \<Longrightarrow>
           canonical_bundle_bytes lib a = canonical_bundle_bytes lib b"
  shows "ra_target_database_fingerprint a = ra_target_database_fingerprint b \<and> mset (ra_memberships a) = mset (ra_memberships b)"
proof -
  have "canonical_bundle_bytes lib a = canonical_bundle_bytes lib b"
    using assms(1,3) by (simp add: compute_bundle_hash_def sha256_prefixed_inject)
  then have "ra_target_database_fingerprint a = ra_target_database_fingerprint b"
    "sort_key (\<lambda>m. (rm_role m, rm_member m, rm_inherit m)) (ra_memberships a) = sort_key (\<lambda>m. (rm_role m, rm_member m, rm_inherit m)) (ra_memberships b)"
    using assms(2) unfolding canonical_bundle_bytes_def by blast+
  moreover from this(2) have "mset (ra_memberships a) = mset (ra_memberships b)" by (rule mset_sort_eq)
  ultimately show ?thesis by simp
qed

text \<open>
  C18: a pass over a request starts a membership grant only for an \<open>Applying\<close> request whose stored bundle is intact, that nobody
  denied, whose access policy and target are read again in the same pass, are accepted, executing and not suspended and still the
  same objects, and still give exactly the stored memberships in the same database for the same duration; under required approval
  the recorded approval attests this very bundle and duration; and the expiry lies in the future.
\<close>

theorem activation_is_authorised:
  assumes "ScopedCall ScopedActivate \<in> set (fst (reconcile_request lib pa scoped request))"
    and "\<And>f ms f' ms'. el_to_vec lib EPHEMERAL_BUNDLE_ENCODING_V1 EPHEMERAL_MEMBERSHIP_SEMANTICS_V1 f ms =
           el_to_vec lib EPHEMERAL_BUNDLE_ENCODING_V1 EPHEMERAL_MEMBERSHIP_SEMANTICS_V1 f' ms' \<Longrightarrow> f = f' \<and> ms = ms'"
    and "\<And>resolved current. Option.bind (rq_status request) rs_resolved_access = Some resolved \<Longrightarrow>
           el_sha256 lib (canonical_bundle_bytes lib current) = el_sha256 lib (canonical_bundle_bytes lib resolved) \<Longrightarrow>
           canonical_bundle_bytes lib current = canonical_bundle_bytes lib resolved"
  shows "\<exists>status resolved policy target fingerprint d.
     rq_status request = Some status \<and> rs_resolved_access status = Some resolved \<and> rs_phase status = RApplying \<and>
     has_valid_bundle_hash lib resolved \<and> decision_condition status ''Denied'' = None \<and>
     resolves lib pa request policy target fingerprint d \<and> \<not> ap_suspend policy \<and> \<not> tp_suspend target \<and>
     ra_access_policy_uid resolved = unwrap_or (ap_uid policy) [] \<and> ra_target_policy_uid resolved = unwrap_or (pol_uid target) [] \<and>
     ra_target_database_fingerprint resolved = fingerprint \<and> parse_duration (ra_granted_duration resolved) = Inr d \<and>
     mset (ra_memberships resolved) =
       mset (map (\<lambda>(role, inherit). \<lparr>rm_role = role, rm_member = rq_subject_role request, rm_inherit = inherit\<rparr>) (ap_memberships policy)) \<and>
     (ap_approval_mode policy = Required \<longrightarrow>
        (\<exists>approved. decision_condition status ''Approved'' = Some approved \<and> attests approved resolved)) \<and>
     (\<exists>expires. expiry lib status = Some expires \<and> pa_now pa < expires)"
proof -
  let ?status = "unwrap_or (rq_status request) default_request_status"
  have act: "ScopedCall ScopedActivate \<in> set (fst (reconcile_access_request_apply lib pa scoped request))"
    using assms(1) by (auto simp: reconcile_request_def validation_error_def Let_def split: prod.splits sum.splits ephemeral_error.splits)
  obtain status where st: "rq_status request = Some status"
    using act by (cases "rq_status request") (auto simp: reconcile_access_request_apply_def default_request_status_def)
  obtain resolved where r: "rs_resolved_access status = Some resolved"
    using act st by (cases "rs_resolved_access status") (auto simp: reconcile_access_request_apply_def)
  have basic: "has_valid_bundle_hash lib resolved" "decision_condition status ''Denied'' = None"
    "ScopedCall ScopedActivate \<in> set (fst (reresolved_step lib pa scoped request status resolved)) \<or>
     rs_phase status \<noteq> RApplying \<and> ScopedCall ScopedActivate \<in> set (fst (phase_step lib pa scoped request status resolved Automatic False))"
    using act st r by (auto simp: reconcile_access_request_apply_def Let_def split: if_splits)
  then have "ScopedCall ScopedActivate \<in> set (fst (reresolved_step lib pa scoped request status resolved))"
    using phase_activation by blast
  then obtain current deadline mode where a: "resolve_request lib pa request = Inr (current, deadline, mode, False)"
    "\<not> bundle_changed lib status resolved current mode" "rs_phase status = RApplying"
    "\<exists>expires. expiry lib status = Some expires \<and> pa_now pa < expires"
    "mode = Required \<longrightarrow> (\<exists>approved. decision_condition status ''Approved'' = Some approved \<and> attests approved resolved)"
    by (rule reresolved_activation)
  obtain policy target f d where res: "resolves lib pa request policy target f d" "current = resolved_bundle lib request policy target f d"
    "mode = ap_approval_mode policy" "\<not> ap_suspend policy" "\<not> tp_suspend target"
    by (rule resolve_requestD[OF a(1)]) simp
  have same: "ra_access_policy_uid current = ra_access_policy_uid resolved" "ra_target_policy_uid current = ra_target_policy_uid resolved"
    "compute_bundle_hash lib current = compute_bundle_hash lib resolved" "ra_granted_duration current = ra_granted_duration resolved"
    using a(2) basic(1) by (auto simp: bundle_changed_def has_valid_bundle_hash_def Let_def)
  have "ra_target_database_fingerprint current = ra_target_database_fingerprint resolved \<and> mset (ra_memberships current) = mset (ra_memberships resolved)"
    using bundle_hash_binds[OF same(3) assms(2)] assms(3)[of resolved current] st r by simp
  then show ?thesis
    using st r a(3-5) basic(1,2) res same resolves_duration[OF res(1)]
    by (intro exI[of _ status] exI[of _ resolved] exI[of _ policy] exI[of _ target] exI[of _ f] exI[of _ d]) simp
qed

section \<open>Lifecycle\<close>

text \<open>The validation rules the resource definition puts on the status of a request (\<open>crd.rs\<close>).\<close>

definition is_decision :: "access_condition \<Rightarrow> bool" where
  "is_decision c = ((ac_type c = ''Approved'' \<or> ac_type c = ''Denied'') \<and> ac_status c = ''True'')"

definition decisions :: "request_status \<Rightarrow> access_condition list" where
  "decisions status = filter is_decision (rs_conditions status)"

definition valid_request_status :: "request_status \<Rightarrow> bool" where
  "valid_request_status status =
     (\<not> (list_ex (\<lambda>c. ac_type c = ''Approved'' \<and> ac_status c = ''True'') (rs_conditions status) \<and>
         list_ex (\<lambda>c. ac_type c = ''Denied'' \<and> ac_status c = ''True'') (rs_conditions status)) \<and>
      (list_ex is_decision (rs_conditions status) \<longleftrightarrow> rs_decided_by status \<noteq> None) \<and>
      list_all (\<lambda>c. ac_type c \<in> set [''Approved'', ''Denied'', ''Resolved'', ''Ready'', ''Applied'']) (rs_conditions status))"

definition admitted_request_status :: "request_status \<Rightarrow> request_status \<Rightarrow> bool" where
  "admitted_request_status old new =
     (valid_request_status new \<and>
      (rs_resolved_access old = None \<or> rs_resolved_access new = rs_resolved_access old) \<and>
      (decisions old = [] \<or> decisions new = decisions old) \<and>
      (rs_decided_by old = None \<or> rs_decided_by new = rs_decided_by old))"

text \<open>The documented lifecycle; a failed pass leaves the phase.\<close>

fun next_phases :: "request_phase \<Rightarrow> request_phase list" where
  "next_phases RPending = [RPendingApproval, RApplying]"
| "next_phases RPendingApproval = [RApplying, RApprovalExpired, RCancelled, RDenied]"
| "next_phases RApplying = [RActive, REnded, RCancelled, RDenied]"
| "next_phases RActive = [RRevoking, RDenied]"
| "next_phases RRevoking = [REnded, RDenied]"
| "next_phases _ = []"

text \<open>The access window is the granted duration from the moment it was fixed.\<close>

definition window_fixed :: "eph_lib \<Rightarrow> request_status \<Rightarrow> bool" where
  "window_fixed lib s \<longleftrightarrow> (\<exists>resolved d start activated expires.
     rs_resolved_access s = Some resolved \<and> parse_duration (ra_granted_duration resolved) = Inr d \<and>
     el_format_timestamp lib start = Some activated \<and> el_format_timestamp lib (start + d) = Some expires \<and>
     rs_activated_at s = Some activated \<and> rs_expires_at s = Some expires)"

abbreviation live_phases :: "request_phase set" where
  "live_phases \<equiv> {RApplying, RActive, RRevoking}"

definition same_window :: "request_status \<Rightarrow> request_status \<Rightarrow> bool" where
  "same_window s t \<longleftrightarrow> rs_activated_at t = rs_activated_at s \<and> rs_expires_at t = rs_expires_at s"

text \<open>What every write of a pass keeps.\<close>

definition keeps_decision :: "request_status \<Rightarrow> request_status \<Rightarrow> bool" where
  "keeps_decision s t \<longleftrightarrow> decisions t = decisions s \<and> rs_decided_by t = rs_decided_by s \<and>
     ac_type ` set (rs_conditions t) \<subseteq> ac_type ` set (rs_conditions s) \<union> {''Resolved'', ''Ready'', ''Applied''} \<and>
     (rs_resolved_access s = None \<or> rs_resolved_access t = rs_resolved_access s)"

definition progresses :: "eph_lib \<Rightarrow> request_status \<Rightarrow> request_status \<Rightarrow> bool" where
  "progresses lib s t \<longleftrightarrow> keeps_decision s t \<and> (rs_phase t = rs_phase s \<or> rs_phase t \<in> set (next_phases (rs_phase s))) \<and>
     (same_window s t \<or> (rs_activated_at s = None \<or> rs_expires_at s = None) \<and> window_fixed lib t) \<and>
     (rs_phase t \<in> live_phases \<longrightarrow> rs_phase s \<in> live_phases \<or> window_fixed lib t \<or> rs_activated_at s \<noteq> None \<and> rs_expires_at s \<noteq> None)"

lemma decisions_set_condition:
  assumes "ac_type c \<noteq> ''Approved''" "ac_type c \<noteq> ''Denied''"
  shows "filter is_decision (set_access_condition cs c) = filter is_decision cs"
proof -
  have "filter is_decision (filter (\<lambda>x. ac_type x \<noteq> ac_type c) cs) = filter is_decision cs"
    unfolding filter_filter using assms by (intro filter_cong) (auto simp: is_decision_def)
  then show ?thesis using assms by (auto simp: set_access_condition_def Let_def is_decision_def split: option.splits)
qed

lemma types_set_condition: "ac_type ` set (set_access_condition cs c) \<subseteq> insert (ac_type c) (ac_type ` set cs)"
  by (auto simp: set_access_condition_def Let_def split: option.splits if_splits)

lemma new_condition_type [simp]: "ac_type (new_condition now t s r m) = t"
  by (simp add: new_condition_def)

lemma keeps_decision_condition:
  assumes "t \<in> {''Resolved'', ''Ready'', ''Applied''}" "rs_conditions s' = set_access_condition (rs_conditions s) (new_condition now t b r m)"
    "rs_decided_by s' = rs_decided_by s" "rs_resolved_access s = None \<or> rs_resolved_access s' = rs_resolved_access s"
  shows "keeps_decision s s'"
proof -
  have "ac_type (new_condition now t b r m) \<noteq> ''Approved''" "ac_type (new_condition now t b r m) \<noteq> ''Denied''" using assms(1) by auto
  from decisions_set_condition[OF this] show ?thesis
    using assms types_set_condition[of "rs_conditions s" "new_condition now t b r m"] by (auto simp: keeps_decision_def decisions_def)
qed

lemma keeps_decision_trans: "keeps_decision s t \<Longrightarrow> keeps_decision t u \<Longrightarrow> keeps_decision s u"
  by (auto simp: keeps_decision_def) blast+

lemma keeps_decision_refl: "rs_conditions t = rs_conditions s \<Longrightarrow> rs_decided_by t = rs_decided_by s \<Longrightarrow> rs_resolved_access t = rs_resolved_access s \<Longrightarrow> keeps_decision s t"
  by (auto simp: keeps_decision_def decisions_def)

lemma transition_keeps: "keeps_decision s (transition_request pa s phase)"
  by (rule keeps_decision_condition[where t = "''Ready''"]) (simp_all add: transition_request_def)

lemma transition_simps [simp]:
  "rs_phase (transition_request pa s phase) = phase"
  "rs_activated_at (transition_request pa s phase) = rs_activated_at s"
  "rs_expires_at (transition_request pa s phase) = rs_expires_at s"
  "rs_resolved_access (transition_request pa s phase) = rs_resolved_access s"
  by (simp_all add: transition_request_def)

lemma transition_progresses:
  assumes "keeps_decision s u" "same_window s u" "rs_phase u = rs_phase s" "phase \<in> set (next_phases (rs_phase s))"
    "phase \<in> live_phases \<longrightarrow> rs_phase s \<in> live_phases"
  shows "progresses lib s (transition_request pa u phase)"
  using assms keeps_decision_trans[OF assms(1) transition_keeps[of u pa phase]] by (auto simp: progresses_def same_window_def)

lemma report_progresses:
  assumes "t \<in> {''Resolved'', ''Ready'', ''Applied''}"
  shows "progresses lib s (s\<lparr>rs_last_error := e, rs_conditions := set_access_condition (rs_conditions s) (new_condition now t b r m)\<rparr>)"
  using keeps_decision_condition[OF assms, where s = s and s' = "s\<lparr>rs_last_error := e, rs_conditions := set_access_condition (rs_conditions s) (new_condition now t b r m)\<rparr>"]
  by (simp add: progresses_def same_window_def)

lemma move_progresses:
  assumes "phase \<in> set (next_phases (rs_phase s))" "phase \<in> live_phases \<longrightarrow> rs_phase s \<in> live_phases"
    "StatusWrite t \<in> set (fst (move_to pa s phase q))"
  shows "progresses lib s t"
  using transition_progresses[OF keeps_decision_refl, of s s phase] assms by (simp add: move_to_def same_window_def)

lemma revoke_progresses:
  assumes "phase \<in> set (next_phases (rs_phase s))" "phase \<notin> live_phases"
    "StatusWrite t \<in> set (fst (revoke_then pa scoped s phase))"
  shows "progresses lib s t"
  using assms transition_progresses[OF keeps_decision_refl, of "s\<lparr>rs_retained_memberships := r, rs_ended_at := e\<rparr>" s phase lib pa for r e]
  by (auto simp: revoke_then_def same_window_def split: sum.splits)

lemma persist_window:
  assumes "persist_activation_deadline lib now s resolved = Inr t" "rs_resolved_access s = Some resolved"
  shows "rs_conditions t = rs_conditions s \<and> rs_decided_by t = rs_decided_by s \<and> rs_resolved_access t = Some resolved \<and> rs_phase t = rs_phase s \<and>
     (same_window s t \<and> rs_activated_at s \<noteq> None \<and> rs_expires_at s \<noteq> None \<or> (rs_activated_at s = None \<or> rs_expires_at s = None) \<and> window_fixed lib t)"
proof (cases "rs_activated_at s \<noteq> None \<and> rs_expires_at s \<noteq> None")
  case True
  then show ?thesis using assms by (simp add: persist_activation_deadline_def same_window_def)
next
  case False
  then obtain d a e where d: "parse_duration (ra_granted_duration resolved) = Inr d" "timestamp_from_epoch lib now = Inr a"
    "timestamp_from_epoch lib (now + d) = Inr e" "t = s\<lparr>rs_activated_at := Some a, rs_expires_at := Some e\<rparr>"
    using assms(1) by (auto simp: persist_activation_deadline_def split: if_splits)
  have "el_format_timestamp lib n = Some x" if "timestamp_from_epoch lib n = Inr x" for n x
    using that by (auto simp: timestamp_from_epoch_def split: if_splits option.splits)
  then have "window_fixed lib t" using d assms(2) by (auto simp: window_fixed_def)
  then show ?thesis using False d(4) assms(2) by auto
qed

lemma window_fixed_cong:
  "rs_resolved_access t = rs_resolved_access s \<Longrightarrow> same_window s t \<Longrightarrow> window_fixed lib t = window_fixed lib s"
  by (simp add: window_fixed_def same_window_def)

lemma first_resolution_progresses:
  assumes "StatusWrite t \<in> set (fst (first_resolution lib pa request s))" "rs_resolved_access s = None" "rs_phase s = RPending"
  shows "progresses lib s t"
proof (cases "resolve_request lib pa request")
  case (Inl e)
  then show ?thesis using assms by (auto simp: first_resolution_def resolution_failure_def intro!: report_progresses split: ephemeral_error.splits)
next
  case (Inr r)
  obtain resolved deadline mode suspended where r: "r = (resolved, deadline, mode, suspended)" by (cases r)
  show ?thesis
  proof (cases suspended)
    case True
    then show ?thesis using assms Inr r by (auto simp: first_resolution_def resolution_failure_def intro!: report_progresses)
  next
    case False
    have rs: "resolved_status lib pa s resolved deadline mode = Inr t"
      using assms(1) Inr r False by (auto simp: first_resolution_def split: sum.splits)
    define c1 where "c1 = set_access_condition (rs_conditions s) (new_condition (pa_now_text pa) ''Resolved'' True ''AccessPolicyResolved'' ''Immutable access bundle resolved'')"
    define c2 where "c2 = set_access_condition c1 (new_condition (pa_now_text pa) ''Ready'' True ''Resolved'' ''Request is ready to progress'')"
    obtain txt' where t: "(if mode = Automatic then persist_activation_deadline lib (pa_now pa)
        (s\<lparr>rs_resolved_access := Some resolved, rs_last_error := None, rs_approval_expires_at := Some txt',
           rs_phase := (case mode of Automatic \<Rightarrow> RApplying | Required \<Rightarrow> RPendingApproval), rs_conditions := c2\<rparr>) resolved
      else Inr (s\<lparr>rs_resolved_access := Some resolved, rs_last_error := None, rs_approval_expires_at := Some txt',
           rs_phase := (case mode of Automatic \<Rightarrow> RApplying | Required \<Rightarrow> RPendingApproval), rs_conditions := c2\<rparr>)) = Inr t"
      using rs unfolding resolved_status_def c1_def c2_def Let_def by auto
    have k: "keeps_decision s u" if "rs_conditions u = c2" "rs_decided_by u = rs_decided_by s" for u
    proof (rule keeps_decision_trans)
      show "keeps_decision s (s\<lparr>rs_conditions := c1\<rparr>)"
        by (rule keeps_decision_condition[where t = "''Resolved''"]) (simp_all add: c1_def)
      show "keeps_decision (s\<lparr>rs_conditions := c1\<rparr>) u"
        by (rule keeps_decision_condition[where t = "''Ready''"]) (simp_all add: that c2_def assms(2))
    qed
    show ?thesis
    proof (cases mode)
      case Automatic
      let ?u = "s\<lparr>rs_resolved_access := Some resolved, rs_last_error := None, rs_approval_expires_at := Some txt',
           rs_phase := RApplying, rs_conditions := c2\<rparr>"
      from Automatic t have "persist_activation_deadline lib (pa_now pa) ?u resolved = Inr t" by simp
      from persist_window[OF this] k[of t] assms(3) show ?thesis by (auto simp: progresses_def same_window_def)
    next
      case Required
      with t k[of t] assms(3) show ?thesis by (auto simp: progresses_def same_window_def)
    qed
  qed
qed

lemma pending_approval_progresses:
  assumes "StatusWrite t \<in> set (fst (pending_approval_step lib pa s resolved mode suspended))" "rs_phase s = RPendingApproval"
    "rs_resolved_access s = Some resolved"
  shows "progresses lib s t"
proof -
  consider "t = transition_request pa s RApprovalExpired"
    | u where "persist_activation_deadline lib (pa_now pa) s resolved = Inr u" "t = transition_request pa u RApplying"
    using assms(1) by (auto simp: pending_approval_step_def move_to_def wait_for_decision_def split: option.splits if_splits sum.splits)
  then show ?thesis
  proof cases
    case 1
    then show ?thesis using assms(2) transition_progresses[OF keeps_decision_refl, of s s RApprovalExpired] by (simp add: same_window_def)
  next
    case (2 u)
    note u = persist_window[OF 2(1) assms(3)]
    then have "keeps_decision s u" using assms(3) by (intro keeps_decision_refl) auto
    then have "keeps_decision s t" using 2(2) transition_keeps keeps_decision_trans by blast
    moreover have "window_fixed lib t = window_fixed lib u" using 2(2) by (intro window_fixed_cong) (simp_all add: same_window_def)
    ultimately show ?thesis using u 2(2) assms(2) by (auto simp: progresses_def same_window_def)
  qed
qed

lemma applying_progresses:
  assumes "StatusWrite t \<in> set (fst (applying_step lib pa scoped request s resolved))" "rs_phase s = RApplying"
  shows "progresses lib s t"
proof -
  let ?a = "s\<lparr>rs_conditions := set_access_condition (rs_conditions s)
    (new_condition (pa_now_text pa) ''Applied'' True ''MembershipsGranted'' ''Ephemeral memberships are active'')\<rparr>"
  have "keeps_decision s ?a" by (rule keeps_decision_condition[where t = "''Applied''"]) simp_all
  then have act: "progresses lib s (transition_request pa ?a RActive)"
    using assms(2) by (intro transition_progresses) (simp_all add: same_window_def)
  have "progresses lib s t" if "StatusWrite t \<in> set (fst (revoke_then pa scoped s REnded))"
    using revoke_progresses[OF _ _ that] assms(2) by simp
  moreover have "progresses lib s t" if "StatusWrite t \<in> set (fst (move_to pa s RCancelled AwaitChange))"
    using move_progresses[OF _ _ that] assms(2) by simp
  ultimately show ?thesis
    using assms(1) act by (auto simp: applying_step_def Let_def split: option.splits if_splits sum.splits)
qed

lemma phase_progresses:
  assumes "StatusWrite t \<in> set (fst (phase_step lib pa scoped request s resolved mode suspended))" "rs_resolved_access s = Some resolved"
  shows "progresses lib s t"
proof (cases "rs_phase s")
  case RPendingApproval
  then show ?thesis using assms pending_approval_progresses by (simp add: phase_step_def)
next
  case RApplying
  then show ?thesis using assms applying_progresses by (auto simp: phase_step_def split: if_splits)
next
  case RActive
  then show ?thesis using assms move_progresses[of RRevoking s] by (auto simp: phase_step_def active_step_def split: option.splits if_splits)
next
  case RRevoking
  then show ?thesis using assms revoke_progresses[of REnded s] by (auto simp: phase_step_def)
qed (use assms in \<open>auto simp: phase_step_def\<close>)

lemma apply_progresses:
  assumes "StatusWrite t \<in> set (fst (reconcile_access_request_apply lib pa scoped request))" "rq_status request = Some s"
    "rs_resolved_access s = None \<longleftrightarrow> rs_phase s = RPending"
  shows "progresses lib s t"
proof (cases "rs_resolved_access s")
  case None
  then show ?thesis using assms first_resolution_progresses by (simp add: reconcile_access_request_apply_def)
next
  case (Some resolved)
  have deny: "RDenied \<in> set (next_phases (rs_phase s))" if "\<not> terminal_request (rs_phase s)"
    using that assms(3) Some by (cases "rs_phase s") (simp_all add: terminal_request_def)
  have cancel: "RCancelled \<in> set (next_phases (rs_phase s))" if "rs_phase s = RPendingApproval \<or> rs_phase s = RApplying"
    using that by auto
  have "progresses lib s t" if "StatusWrite t \<in> set (fst (reresolved_step lib pa scoped request s resolved))"
    "rs_phase s = RPendingApproval \<or> rs_phase s = RApplying"
    using that cancel[OF that(2)] phase_progresses[OF _ Some] revoke_progresses[of RCancelled s] move_progresses[of RCancelled s]
    by (auto simp: reresolved_step_def split: sum.splits prod.splits if_splits)
  then show ?thesis
    using assms(1,2) Some deny phase_progresses[OF _ Some] revoke_progresses[of RDenied s] move_progresses[of RDenied s]
    by (auto simp: reconcile_access_request_apply_def Let_def split: if_splits)
qed

lemma request_progresses:
  assumes "StatusWrite t \<in> set (fst (reconcile_request lib pa scoped request))" "rq_status request = Some s"
    "rs_resolved_access s = None \<longleftrightarrow> rs_phase s = RPending"
  shows "progresses lib s t"
proof -
  have "StatusWrite t \<in> set (fst (reconcile_access_request_apply lib pa scoped request)) \<or>
      (\<exists>message. StatusWrite t \<in> set (fst (validation_error pa s message)))"
    using assms(1,2) by (auto simp: reconcile_request_def Let_def split: prod.splits sum.splits ephemeral_error.splits) (metis fst_conv)+
  then show ?thesis
    using apply_progresses[OF _ assms(2,3)] report_progresses[of "''Ready''"] by (auto simp: validation_error_def)
qed

lemma resolved_status_phase:
  assumes "resolved_status lib pa s resolved deadline mode = Inr t"
  shows "rs_resolved_access t \<noteq> None \<and> rs_phase t \<noteq> RPending"
proof -
  have "rs_resolved_access t = rs_resolved_access u \<and> rs_phase t = rs_phase u" if "persist_activation_deadline lib now u resolved = Inr t" for u now
    using that by (auto simp: persist_activation_deadline_def split: if_splits)
  then show ?thesis using assms by (cases mode) (fastforce simp: resolved_status_def Let_def)+
qed

lemma first_resolution_phase:
  assumes "StatusWrite t \<in> set (fst (first_resolution lib pa request s))" "rs_resolved_access s = None" "rs_phase s = RPending"
  shows "rs_resolved_access t = None \<longleftrightarrow> rs_phase t = RPending"
proof -
  have "(\<exists>message. StatusWrite t \<in> set (fst (resolution_failure pa s message))) \<or> (\<exists>r d m. resolved_status lib pa s r d m = Inr t)"
    using assms(1) by (auto simp: first_resolution_def split: sum.splits ephemeral_error.splits prod.splits if_splits)
  then consider message where "StatusWrite t \<in> set (fst (resolution_failure pa s message))" | r d m where "resolved_status lib pa s r d m = Inr t"
    by blast
  then show ?thesis by cases (use assms(2,3) resolved_status_phase in \<open>auto simp: resolution_failure_def\<close>)
qed

lemma request_phase_resolved:
  assumes "StatusWrite t \<in> set (fst (reconcile_request lib pa scoped request))" "rq_status request = Some s"
    "rs_resolved_access s = None \<longleftrightarrow> rs_phase s = RPending"
  shows "rs_resolved_access t = None \<longleftrightarrow> rs_phase t = RPending"
proof (cases "rs_resolved_access s")
  case None
  have "StatusWrite t \<in> set (fst (first_resolution lib pa request s)) \<or> (\<exists>message. StatusWrite t \<in> set (fst (validation_error pa s message)))"
    using assms(1,2) None by (auto simp: reconcile_request_def reconcile_access_request_apply_def Let_def split: prod.splits sum.splits ephemeral_error.splits)
      (metis fst_conv)+
  then show ?thesis using first_resolution_phase[of t lib pa request s] assms(3) None by (auto simp: validation_error_def)
next
  case (Some resolved)
  have "RPending \<notin> set (next_phases phase)" for phase by (cases phase) simp_all
  moreover have "rs_phase s \<noteq> RPending" using Some assms(3) by simp
  moreover have "rs_resolved_access t = Some resolved" "rs_phase t = rs_phase s \<or> rs_phase t \<in> set (next_phases (rs_phase s))"
    using request_progresses[OF assms] Some by (simp_all add: progresses_def keeps_decision_def)
  ultimately show ?thesis by (metis option.distinct(1))
qed

text \<open>
  The states of a request: passes with any inputs, and decisions written by approvers, which the validation rules admit and which
  change only the conditions and the recorded actor.
\<close>

inductive request_reachable :: "eph_lib \<Rightarrow> access_request \<Rightarrow> request_status \<Rightarrow> bool" for lib request where
  filed: "request_reachable lib request default_request_status"
| passed: "request_reachable lib request s \<Longrightarrow>
    StatusWrite t \<in> set (fst (reconcile_request lib pa scoped (request\<lparr>rq_status := Some s\<rparr>))) \<Longrightarrow> request_reachable lib request t"
| decided: "request_reachable lib request s \<Longrightarrow> admitted_request_status s (s\<lparr>rs_conditions := cs, rs_decided_by := by\<rparr>) \<Longrightarrow>
    request_reachable lib request (s\<lparr>rs_conditions := cs, rs_decided_by := by\<rparr>)"

definition request_invariant :: "eph_lib \<Rightarrow> request_status \<Rightarrow> bool" where
  "request_invariant lib s \<longleftrightarrow> valid_request_status s \<and> (rs_resolved_access s = None \<longleftrightarrow> rs_phase s = RPending) \<and>
     (rs_activated_at s = None \<and> rs_expires_at s = None \<and> rs_phase s \<notin> live_phases \<or> window_fixed lib s)"

lemma decided_as:
  "t = ''Approved'' \<or> t = ''Denied'' \<Longrightarrow>
     list_ex (\<lambda>c. ac_type c = t \<and> ac_status c = ''True'') (rs_conditions s) \<longleftrightarrow> t \<in> ac_type ` set (decisions s)"
  by (auto simp: decisions_def is_decision_def list_ex_iff image_iff)

lemma valid_decisions:
  "valid_request_status s \<longleftrightarrow> \<not> (''Approved'' \<in> ac_type ` set (decisions s) \<and> ''Denied'' \<in> ac_type ` set (decisions s)) \<and>
     (decisions s \<noteq> [] \<longleftrightarrow> rs_decided_by s \<noteq> None) \<and>
     ac_type ` set (rs_conditions s) \<subseteq> {''Approved'', ''Denied'', ''Resolved'', ''Ready'', ''Applied''}"
proof -
  have "list_ex is_decision (rs_conditions s) \<longleftrightarrow> decisions s \<noteq> []"
    by (simp add: decisions_def list_ex_iff filter_empty_conv)
  moreover have "list_all (\<lambda>c. ac_type c \<in> set [''Approved'', ''Denied'', ''Resolved'', ''Ready'', ''Applied'']) (rs_conditions s) \<longleftrightarrow>
      ac_type ` set (rs_conditions s) \<subseteq> {''Approved'', ''Denied'', ''Resolved'', ''Ready'', ''Applied''}"
    unfolding list_all_iff image_subset_iff by simp
  ultimately show ?thesis
    unfolding valid_request_status_def decided_as[OF disjI1[OF refl]] decided_as[OF disjI2[OF refl]] by simp
qed

lemma keeps_decision_valid:
  assumes "keeps_decision s t" "valid_request_status s"
  shows "valid_request_status t"
proof -
  have "ac_type ` set (rs_conditions t) \<subseteq> {''Approved'', ''Denied'', ''Resolved'', ''Ready'', ''Applied''}"
    by (rule subset_trans[of _ "ac_type ` set (rs_conditions s) \<union> {''Resolved'', ''Ready'', ''Applied''}"])
      (use assms in \<open>simp_all add: keeps_decision_def valid_decisions\<close>)
  then show ?thesis using assms unfolding valid_decisions keeps_decision_def by simp
qed

lemma progresses_window:
  assumes "progresses lib s t" "rs_activated_at s = None \<and> rs_expires_at s = None \<and> rs_phase s \<notin> live_phases \<or> window_fixed lib s"
  shows "rs_activated_at t = None \<and> rs_expires_at t = None \<and> rs_phase t \<notin> live_phases \<or> window_fixed lib t"
proof (cases "window_fixed lib s")
  case True
  then have "rs_activated_at s \<noteq> None" "rs_expires_at s \<noteq> None" "rs_resolved_access s \<noteq> None" by (auto simp: window_fixed_def)
  then have "same_window s t" "rs_resolved_access t = rs_resolved_access s" using assms(1) by (auto simp: progresses_def keeps_decision_def)
  then show ?thesis using True window_fixed_cong by blast
next
  case False
  then have none: "rs_activated_at s = None" "rs_expires_at s = None" "rs_phase s \<notin> live_phases" using assms(2) by auto
  have "same_window s t \<or> window_fixed lib t" "rs_phase t \<in> live_phases \<longrightarrow> window_fixed lib t"
    using assms(1) none unfolding progresses_def by blast+
  then show ?thesis using none by (auto simp: same_window_def)
qed

lemma progresses_invariant:
  assumes "progresses lib s t" "request_invariant lib s" "rs_resolved_access t = None \<longleftrightarrow> rs_phase t = RPending"
  shows "request_invariant lib t"
  using assms progresses_window[OF assms(1)] keeps_decision_valid[of s t] unfolding request_invariant_def progresses_def by blast

lemma reachable_invariant: "request_reachable lib request s \<Longrightarrow> request_invariant lib s"
proof (induction rule: request_reachable.induct)
  case filed
  then show ?case by (simp add: request_invariant_def default_request_status_def valid_request_status_def)
next
  case (passed s t pa scoped)
  have r: "rs_resolved_access s = None \<longleftrightarrow> rs_phase s = RPending" using passed.IH by (simp add: request_invariant_def)
  show ?case
    using progresses_invariant[OF request_progresses[OF passed.hyps(2) _ r] passed.IH request_phase_resolved[OF passed.hyps(2) _ r]] by simp
next
  case (decided s cs "by")
  then show ?case by (simp add: request_invariant_def admitted_request_status_def window_fixed_def)
qed

text \<open>
  C19: every status a pass writes to a reachable request is admitted by the validation rules, moves along the documented lifecycle,
  and never moves an access window that is fixed; while a request is being applied, is active or is being revoked, its window is
  fixed and is exactly the granted duration long.
\<close>

theorem request_lifecycle:
  assumes "request_reachable lib request s"
    and "StatusWrite t \<in> set (fst (reconcile_request lib pa scoped (request\<lparr>rq_status := Some s\<rparr>)))"
  shows "admitted_request_status s t \<and> (rs_phase t = rs_phase s \<or> rs_phase t \<in> set (next_phases (rs_phase s))) \<and>
     (rs_expires_at s \<noteq> None \<longrightarrow> rs_expires_at t = rs_expires_at s \<and> rs_activated_at t = rs_activated_at s) \<and>
     (rs_phase t \<in> live_phases \<longrightarrow> window_fixed lib t)"
proof -
  have inv: "request_invariant lib s" by (rule reachable_invariant[OF assms(1)])
  have "request_reachable lib request t" by (rule passed[OF assms])
  then have inv': "request_invariant lib t" by (rule reachable_invariant)
  have p: "progresses lib s t" using request_progresses[OF assms(2)] inv by (simp add: request_invariant_def)
  have "admitted_request_status s t" using p inv' by (simp add: admitted_request_status_def progresses_def keeps_decision_def request_invariant_def)
  moreover have "same_window s t" if "rs_expires_at s \<noteq> None"
  proof -
    have "rs_activated_at s \<noteq> None" using that inv by (auto simp: request_invariant_def window_fixed_def)
    then show ?thesis using that p by (auto simp: progresses_def)
  qed
  moreover have "window_fixed lib t" if "rs_phase t \<in> live_phases" using that inv' unfolding request_invariant_def by blast
  ultimately show ?thesis using p unfolding progresses_def same_window_def by blast
qed

section \<open>Expiry\<close>

lemma find_filter: "List.find P xs = (case filter P xs of [] \<Rightarrow> None | x # _ \<Rightarrow> Some x)"
  by (induction xs) auto

lemma decision_condition_decisions:
  assumes "t = ''Approved'' \<or> t = ''Denied''" "decisions u = decisions s"
  shows "decision_condition u t = decision_condition s t"
proof -
  have "filter (\<lambda>c. ac_type c = t \<and> ac_status c = ''True'') (rs_conditions v) = filter (\<lambda>c. ac_type c = t) (decisions v)" for v
    unfolding decisions_def filter_filter using assms(1) by (intro filter_cong) (auto simp: is_decision_def)
  then show ?thesis using assms(2) by (simp add: decision_condition_def find_filter)
qed

lemma transition_decision: "decision_condition (transition_request pa s phase) ''Denied'' = decision_condition s ''Denied''"
  using transition_keeps[of s pa phase] by (intro decision_condition_decisions) (auto simp: keeps_decision_def)


text \<open>
  C40: a denial recorded while the revocation of expired access is still pending ends the request without the revocation: the pass
  moves it to \<open>Denied\<close> with no scoped call, and from then on neither a pass nor the deletion of the request revokes anything.
\<close>

theorem denial_skips_pending_revocation:
  assumes "rq_status request = Some s" "rs_phase s = RRevoking" "rs_resolved_access s = Some resolved" "has_valid_bundle_hash lib resolved"
    "decision_condition s ''Denied'' \<noteq> None"
  shows "\<exists>t. reconcile_request lib pa scoped request = ([StatusWrite t], Inr AwaitChange) \<and> rs_phase t = RDenied \<and>
     reconcile_request lib pa' scoped' (request\<lparr>rq_status := Some t\<rparr>) = ([], Inr AwaitChange) \<and>
     reconcile_request_cleanup lib pa' scoped' (request\<lparr>rq_status := Some t\<rparr>) = ([], Inr AwaitChange)"
  using assms
  by (intro exI[of _ "transition_request pa s RDenied"])
    (auto simp: reconcile_request_def reconcile_access_request_apply_def terminal_request_def move_to_def reconcile_request_cleanup_def)

section \<open>Examples\<close>

definition ex_enc :: "string \<Rightarrow> string" where
  "ex_enc s = concat (map (\<lambda>c. [CHR ''.'', c]) s) @ ''|''"

definition ex_bundle_vec :: "string \<Rightarrow> resolved_membership list \<Rightarrow> string" where
  "ex_bundle_vec f ms = ex_enc f @ concat (map (\<lambda>m. ex_enc (rm_role m) @ ex_enc (rm_member m) @ (if rm_inherit m then ''1'' else ''0'')) ms)"

definition ex_lib :: eph_lib where
  "ex_lib = \<lparr>el_to_vec = (\<lambda>_ _. ex_bundle_vec), el_sha256 = id, el_format_timestamp = (\<lambda>n. Some (show_nat n)),
     el_parse_timestamp = (\<lambda>s. Some (digits_value s)), el_debug = id\<rparr>"

lemma ex_enc_inject: "ex_enc s @ x = ex_enc t @ y \<longleftrightarrow> s = t \<and> x = y"
proof (induction s arbitrary: t)
  case Nil
  then show ?case by (cases t) (auto simp: ex_enc_def)
next
  case (Cons c s)
  then show ?case by (cases t) (auto simp: ex_enc_def)
qed

lemma ex_bundle_vec_inject: "ex_bundle_vec f ms = ex_bundle_vec f' ms' \<Longrightarrow> f = f' \<and> ms = ms'"
proof -
  let ?m = "\<lambda>m. ex_enc (rm_role m) @ ex_enc (rm_member m) @ (if rm_inherit m then ''1'' else ''0'')"
  have ne: "ex_enc s @ x \<noteq> []" for s x by (simp add: ex_enc_def)
  have "concat (map ?m ms) = concat (map ?m ms') \<Longrightarrow> ms = ms'"
  proof (induction ms arbitrary: ms')
    case Nil
    then show ?case using ne by (cases ms') (auto simp: ex_enc_def)
  next
    case (Cons m ms)
    then obtain m' ns where ms': "ms' = m' # ns" by (cases ms') (auto simp: ex_enc_def)
    have e: "rm_role m = rm_role m'" "rm_member m = rm_member m'"
        "(if rm_inherit m then ''1'' else ''0'') @ concat (map ?m ms) = (if rm_inherit m' then ''1'' else ''0'') @ concat (map ?m ns)"
      using Cons.prems unfolding ms' by (simp_all only: list.map concat.simps append_assoc ex_enc_inject)
    then have "rm_inherit m = rm_inherit m'" "concat (map ?m ms) = concat (map ?m ns)" by (auto split: if_splits)
    then show ?case using Cons.IH[of ns] e(1,2) ms' by simp
  qed
  then show "ex_bundle_vec f ms = ex_bundle_vec f' ms' \<Longrightarrow> f = f' \<and> ms = ms'" by (simp add: ex_bundle_vec_def ex_enc_inject)
qed

definition ex_plain_role :: "string \<Rightarrow> role_definition" where
  "ex_plain_role name = \<lparr>rd_name = name, rd_external = False, rd_preserve_undeclared_grants = False, rd_login = None, rd_superuser = None,
     rd_createdb = None, rd_createrole = None, rd_inherit = None, rd_replication = None, rd_bypassrls = None, rd_connection_limit = None,
     rd_comment = None, rd_password = None, rd_password_valid_until = None, rd_config = fmempty\<rparr>"

definition ex_target :: target_policy where
  "ex_target = \<lparr>pol_name = ''main'', pol_uid = Some ''t'', pol_mode = ModeApply, pol_approval = None, pol_content_digest = None,
     tp_generation = Some 1, tp_suspend = False,
     tp_manifest = \<lparr>pm_role_pattern = None, pm_default_owner = None, pm_auth_providers = [], pm_profiles = fmempty, pm_schemas = [],
       pm_roles = [ex_plain_role ''editor'', ex_plain_role ''alice''], pm_grants = [], pm_default_privileges = [], pm_memberships = [],
       pm_retirements = []\<rparr>\<rparr>"

definition ex_access_policy :: access_policy where
  "ex_access_policy = \<lparr>ap_uid = Some ''p'', ap_generation = Some 1, ap_memberships = [(''editor'', True)], ap_maximum_duration = ''1h'',
     ap_default_duration = None, ap_pending_request_ttl = ''15m'', ap_justification_required = False, ap_approval_mode = Automatic,
     ap_suspend = False, ap_status = Some \<lparr>aps_observed_generation = Some 1,
       aps_conditions = [new_condition ''0'' ''Accepted'' True [] [], new_condition ''0'' ''ResolvedRefs'' True [] []],
       aps_resolved_roles = [''editor'']\<rparr>\<rparr>"

definition ex_request :: access_request where
  "ex_request = \<lparr>rq_name = ''r'', rq_uid = Some ''u'', rq_access_policy_ref = ''p'', rq_subject_role = ''alice'',
     rq_requested_duration = Some ''30m'', rq_justification = None, rq_deletion_timestamp = None, rq_status = None\<rparr>"

definition ex_pass :: "nat \<Rightarrow> pass" where
  "ex_pass now = \<lparr>pa_now = now, pa_now_text = show_nat now, pa_policy = Some ex_access_policy, pa_target = Some ex_target,
     pa_fingerprint = Some ''db'', pa_plans = []\<rparr>"

definition ex_resolved :: request_status where
  "ex_resolved = default_request_status\<lparr>rs_phase := RApplying,
     rs_conditions := [new_condition ''100'' ''Resolved'' True ''AccessPolicyResolved'' ''Immutable access bundle resolved'',
       new_condition ''100'' ''Ready'' True ''Resolved'' ''Request is ready to progress''],
     rs_resolved_access := Some \<lparr>ra_access_policy_uid = ''p'', ra_access_policy_generation = 1, ra_target_policy_uid = ''t'',
       ra_target_policy_generation = 1, ra_target_database_fingerprint = ''db'', ra_granted_duration = ''1800s'',
       ra_bundle_encoding = EPHEMERAL_BUNDLE_ENCODING_V1,
       ra_bundle_hash = ''sha256:2e642e627c2e652e642e692e742e6f2e727c2e612e6c2e692e632e657c31'',
       ra_memberships = [\<lparr>rm_role = ''editor'', rm_member = ''alice'', rm_inherit = True\<rparr>]\<rparr>,
     rs_approval_expires_at := Some ''1000'', rs_activated_at := Some ''100'', rs_expires_at := Some ''1900''\<rparr>"

definition ex_active :: request_status where
  "ex_active = transition_request (ex_pass 101) (ex_resolved\<lparr>rs_conditions := set_access_condition (rs_conditions ex_resolved)
     (new_condition ''101'' ''Applied'' True ''MembershipsGranted'' ''Ephemeral memberships are active'')\<rparr>) RActive"

abbreviation ex_filed :: "request_status \<Rightarrow> access_request" where
  "ex_filed s \<equiv> ex_request\<lparr>rq_status := Some s\<rparr>"

lemma ex_first_pass:
  "reconcile_request ex_lib (ex_pass 100) (\<lambda>_. Inr []) (ex_filed default_request_status) = ([StatusWrite ex_resolved], Inr (RequeueAfter 0))"
  by code_simp

lemma ex_second_pass:
  "fst (reconcile_request ex_lib (ex_pass 101) (\<lambda>_. Inr []) (ex_filed ex_resolved)) = [ScopedCall ScopedActivate, StatusWrite ex_active]"
  by code_simp

lemma ex_bundle: "has_valid_bundle_hash ex_lib (the (rs_resolved_access ex_resolved))"
  by code_simp

lemma ex_active_simps:
  "rs_phase ex_active = RActive" "rs_resolved_access ex_active = rs_resolved_access ex_resolved" "rs_resolved_access ex_resolved \<noteq> None"
  "decision_condition ex_active ''Denied'' = None" "expiry ex_lib ex_active = Some 1900"
  by code_simp+

theorem activation_is_authorised_witness:
  "ScopedCall ScopedActivate \<in> set (fst (reconcile_request ex_lib (ex_pass 101) (\<lambda>_. Inr []) (ex_filed ex_resolved))) \<and>
   rs_phase ex_resolved = RApplying \<and> (\<exists>expires. expiry ex_lib ex_resolved = Some expires \<and> 101 < expires)"
proof -
  have a: "ScopedCall ScopedActivate \<in> set (fst (reconcile_request ex_lib (ex_pass 101) (\<lambda>_. Inr []) (ex_filed ex_resolved)))"
    by (simp add: ex_second_pass)
  obtain status where "rq_status (ex_filed ex_resolved) = Some status" "rs_phase status = RApplying"
    "\<exists>expires. expiry ex_lib status = Some expires \<and> pa_now (ex_pass 101) < expires"
    using activation_is_authorised[OF a] ex_bundle_vec_inject by (auto simp: ex_lib_def)
  then show ?thesis using a by (simp add: ex_pass_def)
qed

theorem request_lifecycle_witness:
  "request_reachable ex_lib ex_request default_request_status \<and> admitted_request_status default_request_status ex_resolved \<and>
   rs_phase ex_resolved = RApplying \<and> window_fixed ex_lib ex_resolved"
proof -
  have "StatusWrite ex_resolved \<in> set (fst (reconcile_request ex_lib (ex_pass 100) (\<lambda>_. Inr []) (ex_filed default_request_status)))"
    by (simp add: ex_first_pass)
  from request_lifecycle[OF filed this] show ?thesis by (simp add: ex_resolved_def filed)
qed


definition ex_denied_revoking :: request_status where
  "ex_denied_revoking = (transition_request (ex_pass 1900) ex_active RRevoking)
     \<lparr>rs_conditions := [new_condition ''1901'' ''Denied'' True [] []], rs_decided_by := Some \<lparr>da_username = ''bob'', da_uid = None, da_groups = []\<rparr>\<rparr>"

theorem denial_skips_pending_revocation_witness:
  "request_reachable ex_lib ex_request ex_denied_revoking \<and>
   (\<exists>t. reconcile_request ex_lib (ex_pass 1902) (\<lambda>_. Inr []) (ex_filed ex_denied_revoking) = ([StatusWrite t], Inr AwaitChange) \<and> rs_phase t = RDenied)"
proof -
  let ?r = "transition_request (ex_pass 1900) ex_active RRevoking"
  have "request_reachable ex_lib ex_request ex_resolved"
    by (rule passed[OF filed, where pa = "ex_pass 100" and scoped = "\<lambda>_. Inr []"]) (simp add: ex_first_pass)
  then have "request_reachable ex_lib ex_request ex_active"
    by (rule passed[where pa = "ex_pass 101" and scoped = "\<lambda>_. Inr []"]) (simp add: ex_second_pass)
  then have "request_reachable ex_lib ex_request ?r"
  proof (rule passed[where pa = "ex_pass 1900" and scoped = "\<lambda>_. Inr []"])
    have "has_valid_bundle_hash ex_lib (the (rs_resolved_access ex_active))" using ex_bundle ex_active_simps(2) by simp
    then show "StatusWrite ?r \<in> set (fst (reconcile_request ex_lib (ex_pass 1900) (\<lambda>_. Inr []) (ex_filed ex_active)))"
      using ex_active_simps by (auto simp: reconcile_request_def reconcile_access_request_apply_def terminal_request_def phase_step_def
          active_step_def move_to_def ex_pass_def)
  qed
  moreover have "admitted_request_status ?r ex_denied_revoking"
    by code_simp
  ultimately have r: "request_reachable ex_lib ex_request ex_denied_revoking"
    unfolding ex_denied_revoking_def by (rule decided)
  have s: "rs_phase ex_denied_revoking = RRevoking" "decision_condition ex_denied_revoking ''Denied'' \<noteq> None"
    "rs_resolved_access ex_denied_revoking = Some (the (rs_resolved_access ex_resolved))"
    using ex_active_simps by (auto simp: ex_denied_revoking_def decision_condition_def new_condition_def)
  from denial_skips_pending_revocation[of "ex_filed ex_denied_revoking", OF _ s(1,3) ex_bundle s(2)] r show ?thesis by fastforce
qed

end
