(* ===== verification/EphemeralScopeLaws.thy ===== *)
theory EphemeralScopeLaws
  imports DiffLaws EphemeralScope EphemeralLaws
begin

text \<open>
  What a scoped operation does to the database, what the overlay adds to a desired graph, and what an accepted access policy
  guarantees.
\<close>

section \<open>Scoped operations\<close>

lemma has_edge_iff: "has_edge edges p \<longleftrightarrow> edges_of edges p \<noteq> {}"
  by (auto simp: has_edge_def edges_of_def graph_membership_key_def)

lemma edge_at_None: "edge_at edges p = None \<longleftrightarrow> \<not> has_edge edges p"
  by (auto simp: edge_at_def find_None_iff has_edge_def)

lemma edge_at_Some:
  assumes "edge_at edges p = Some e" "one_edge_per_pair edges"
  shows "edges_of edges p = {e}"
proof -
  have e: "e \<in> fset edges" "graph_membership_key e = p" using find_SomeD assms(1) by (fastforce simp: edge_at_def)+
  have "e' = e" if "e' \<in> fset edges" "graph_membership_key e' = p" for e'
    using assms(2) e that by (auto simp: one_edge_per_pair_def graph_membership_key_def)
  then have "edges_of edges p \<subseteq> {e}" unfolding edges_of_def graph_membership_key_def by blast
  moreover have "e \<in> edges_of edges p" using e by (simp add: edges_of_def graph_membership_key_def)
  ultimately show ?thesis by blast
qed

definition membership_change :: "change \<Rightarrow> bool" where
  "membership_change c = (case c of AddMember _ _ _ _ \<Rightarrow> True | RemoveMember _ _ _ \<Rightarrow> True | _ \<Rightarrow> False)"

lemma membership_run:
  assumes "list_all membership_change cs"
  shows "apply_changes g cs = Some (g\<lparr>rg_memberships := fold eff_members cs (rg_memberships g)\<rparr>)"
  using assms
proof (induction cs arbitrary: g)
  case (Cons c cs)
  then show ?case by (cases c) (auto simp: membership_change_def)
qed simp

lemma escape_membership: "check_escape keys cs = Inr u \<Longrightarrow> list_all membership_change cs"
  by (induction keys cs rule: check_escape.induct) (auto simp: membership_change_def split: change.splits if_splits)

lemma activate_edges:
  assumes "activate_changes current durable others has_plan ms = Inr changes" "distinct (map bundle_key ms)"
  shows "fold (\<lambda>c. upd_edges c p) changes E =
     (if p \<in> bundle_key ` set ms \<and> \<not> has_edge (rg_memberships current) p then overlay_edge ` {m \<in> set ms. bundle_key m = p} else E)"
  using assms
proof (induction ms arbitrary: changes E)
  case (Cons m ms)
  have d: "distinct (map bundle_key ms)" "bundle_key m \<notin> bundle_key ` set ms" using Cons.prems(2) by auto
  have fresh: "{m' \<in> set (m # ms). bundle_key m' = p} = (if bundle_key m = p then {m} else {m' \<in> set ms. bundle_key m' = p})"
    using d(2) by (auto simp: image_iff)
  show ?case
  proof (cases "edge_at (rg_memberships current) (bundle_key m)")
    case None
    then obtain cs where cs: "activate_changes current durable others has_plan ms = Inr cs"
      "changes = AddMember (rm_role m) (rm_member m) (rm_inherit m) False # cs"
      using Cons.prems(1) by (auto split: if_splits)
    show ?thesis using None Cons.IH[OF cs(1) d(1)] d(2) unfolding fresh cs(2)
      by (auto simp: edge_at_None bundle_key_def overlay_edge_def)
  next
    case (Some e)
    then have cs: "activate_changes current durable others has_plan ms = Inr changes" using Cons.prems(1) by (auto split: if_splits)
    have "has_edge (rg_memberships current) (bundle_key m)" using Some edge_at_None[of "rg_memberships current" "bundle_key m"] by simp
    then show ?thesis using Cons.IH[OF cs d(1)] unfolding fresh by auto
  qed
qed simp

lemma activate_existing:
  assumes "activate_changes current durable others has_plan ms = Inr changes" "m \<in> set ms" "one_edge_per_pair (rg_memberships current)"
    "has_edge (rg_memberships current) (bundle_key m)"
  shows "edges_of (rg_memberships current) (bundle_key m) = {overlay_edge m}"
  using assms(1,2)
proof (induction ms arbitrary: changes)
  case (Cons m' ms)
  show ?case
  proof (cases "m = m'")
    case False
    then show ?thesis using Cons by (auto split: if_splits option.splits)
  next
    case True
    obtain e where e: "edge_at (rg_memberships current) (bundle_key m) = Some e" using assms(4) edge_at_None by (cases "edge_at (rg_memberships current) (bundle_key m)") auto
    then have "me_inherit e = rm_inherit m \<and> \<not> me_admin e" using Cons.prems(1) True by (auto split: if_splits)
    moreover have "edges_of (rg_memberships current) (bundle_key m) = {e}" by (rule edge_at_Some[OF e assms(3)])
    moreover from this have "(me_role e, me_member e) = bundle_key m" by (auto simp: edges_of_def)
    ultimately show ?thesis by (cases e) (simp add: overlay_edge_def bundle_key_def)
  qed
qed simp

lemma activate_not_durable: "activate_changes current durable others has_plan ms = Inr changes \<Longrightarrow> m \<in> set ms \<Longrightarrow> \<not> has_edge durable (bundle_key m)"
  by (induction ms arbitrary: changes) (auto split: if_splits option.splits)

lemma revoke_edges:
  "fold (\<lambda>c. upd_edges c p) (fst (revoke_changes current durable others ms)) E =
     (if p \<in> bundle_key ` set ms \<and> \<not> has_edge durable p \<and> p \<notin> others \<and> has_edge (rg_memberships current) p then {} else E)"
proof (induction ms arbitrary: E)
  case (Cons m ms)
  show ?case
    using Cons.IH by (cases "revoke_changes current durable others ms") (auto simp: bundle_key_def)
qed simp

lemma revoke_retained: "snd (revoke_changes current durable others ms) = filter (\<lambda>m. has_edge durable (bundle_key m)) ms"
  by (induction ms) (auto simp: Let_def split: prod.splits)


section \<open>The overlay\<close>

text \<open>The memberships of every request that owns its bundle in the target.\<close>

definition granted_memberships :: "eph_lib \<Rightarrow> string \<Rightarrow> policy_plan list \<Rightarrow> access_request list \<Rightarrow> resolved_membership set" where
  "granted_memberships lib target_uid plans requests =
     (\<Union>request \<in> set requests. case owning_bundle lib target_uid plans request of None \<Rightarrow> {} | Some resolved \<Rightarrow> set (ra_memberships resolved))"

definition overlay_invariant :: "role_graph \<Rightarrow> resolved_membership set \<Rightarrow> overlay_state \<Rightarrow> bool" where
  "overlay_invariant desired granted = (\<lambda>(additional_roles, overlays).
     fset additional_roles = rm_role ` granted \<union> rm_member ` granted \<and>
     fset additional_roles \<subseteq> fset (fmdom (rg_roles desired)) \<and>
     (\<forall>key edge. fmlookup overlays key = Some edge \<longleftrightarrow>
        \<not> has_edge (rg_memberships desired) key \<and> (\<exists>m \<in> granted. bundle_key m = key \<and> overlay_edge m = edge)))"

lemma overlay_membership_invariant:
  assumes "overlay_invariant desired granted st" "overlay_membership desired name m st = Inr st'"
  shows "overlay_invariant desired (insert m granted) st'"
proof -
  obtain roles overlays where st: "st = (roles, overlays)" by (cases st)
  have known: "rm_role m |\<in>| fmdom (rg_roles desired)" "rm_member m |\<in>| fmdom (rg_roles desired)"
    using assms(2) by (auto simp: overlay_membership_def st contains_key_def intro: fmdomI split: if_splits)
  show ?thesis
  proof (cases "has_edge (rg_memberships desired) (bundle_key m)")
    case True
    then have "st' = (finsert (rm_member m) (finsert (rm_role m) roles), overlays)"
      using assms(2) by (auto simp: overlay_membership_def st Let_def has_edge_def split: if_splits)
    then show ?thesis using assms(1) True known by (auto simp: overlay_invariant_def st)
  next
    case False
    then have st': "st' = (finsert (rm_member m) (finsert (rm_role m) roles), fmupd (bundle_key m) (overlay_edge m) overlays)"
      and same: "\<And>e. fmlookup overlays (bundle_key m) = Some e \<Longrightarrow> e = overlay_edge m"
      using assms(2) by (auto simp: overlay_membership_def st Let_def has_edge_def split: if_splits option.splits)
    have old: "fmlookup overlays key = Some edge \<longleftrightarrow>
        \<not> has_edge (rg_memberships desired) key \<and> (\<exists>m \<in> granted. bundle_key m = key \<and> overlay_edge m = edge)" for key edge
      using assms(1) unfolding overlay_invariant_def st by blast
    have "fmlookup (fmupd (bundle_key m) (overlay_edge m) overlays) key = Some edge \<longleftrightarrow>
        \<not> has_edge (rg_memberships desired) key \<and> (\<exists>m \<in> insert m granted. bundle_key m = key \<and> overlay_edge m = edge)" for key edge
      using old[of key edge] same False by (cases "key = bundle_key m") auto
    then show ?thesis using assms(1) known by (auto simp: overlay_invariant_def st st')
  qed
qed

lemma overlay_memberships_invariant:
  "overlay_invariant desired granted st \<Longrightarrow> fold_r (overlay_membership desired name) ms st = Inr st' \<Longrightarrow>
     overlay_invariant desired (granted \<union> set ms) st'"
proof (induction ms arbitrary: granted st)
  case (Cons m ms)
  then obtain st1 where "overlay_membership desired name m st = Inr st1" "fold_r (overlay_membership desired name) ms st1 = Inr st'" by auto
  from Cons.IH[OF overlay_membership_invariant[OF Cons.prems(1) this(1)] this(2)] show ?case by simp
qed simp

lemma overlay_requests_invariant:
  "overlay_invariant desired granted st \<Longrightarrow> fold_r (overlay_request lib desired uid plans fingerprint) requests st = Inr st' \<Longrightarrow>
     overlay_invariant desired (granted \<union> granted_memberships lib uid plans requests) st'"
proof (induction requests arbitrary: granted st)
  case (Cons request requests)
  then obtain st1 where st1: "overlay_request lib desired uid plans fingerprint request st = Inr st1"
    "fold_r (overlay_request lib desired uid plans fingerprint) requests st1 = Inr st'" by auto
  have "overlay_invariant desired (granted \<union> granted_memberships lib uid plans [request]) st1"
    using st1(1) Cons.prems(1) overlay_memberships_invariant
    by (auto simp: overlay_request_def granted_memberships_def split: option.splits if_splits)
  from Cons.IH[OF this st1(2)] show ?case by (simp add: granted_memberships_def Un_assoc)
qed (simp add: granted_memberships_def)

lemma overlay_same_database:
  "fold_r (overlay_request lib desired uid plans fingerprint) requests st = Inr st' \<Longrightarrow> request \<in> set requests \<Longrightarrow>
     owning_bundle lib uid plans request = Some resolved \<Longrightarrow> ra_target_database_fingerprint resolved = fingerprint"
  by (induction requests arbitrary: st) (auto simp: overlay_request_def split: if_splits)

lemma compose_effective_graphD:
  assumes "compose_effective_graph lib desired uid requests plans fingerprint = Inr (effective, roles)"
  obtains overlays where "effective = desired\<lparr>rg_memberships := rg_memberships desired |\<union>| fmran overlays\<rparr>"
    "overlay_invariant desired (granted_memberships lib uid plans requests) (roles, overlays)"
    "fold_r (overlay_request lib desired uid plans fingerprint) requests ({||}, fmempty) = Inr (roles, overlays)"
proof -
  have "overlay_invariant desired {} ({||}, fmempty)" by (simp add: overlay_invariant_def)
  from overlay_requests_invariant[OF this, of lib uid plans fingerprint requests] assms that show thesis
    by (auto simp: compose_effective_graph_def split: sum.splits)
qed

lemma effective_edges:
  assumes "compose_effective_graph lib desired uid requests plans fingerprint = Inr (effective, roles)"
  shows "edges_of (rg_memberships effective) p =
    (if has_edge (rg_memberships desired) p then edges_of (rg_memberships desired) p
     else overlay_edge ` {m \<in> granted_memberships lib uid plans requests. bundle_key m = p})"
    and "m \<in> granted_memberships lib uid plans requests \<Longrightarrow> m' \<in> granted_memberships lib uid plans requests \<Longrightarrow>
      bundle_key m = bundle_key m' \<Longrightarrow> \<not> has_edge (rg_memberships desired) (bundle_key m) \<Longrightarrow> overlay_edge m = overlay_edge m'"
proof -
  let ?G = "granted_memberships lib uid plans requests"
  obtain overlays where o: "effective = desired\<lparr>rg_memberships := rg_memberships desired |\<union>| fmran overlays\<rparr>"
    and i: "\<And>key edge. fmlookup overlays key = Some edge \<longleftrightarrow>
        \<not> has_edge (rg_memberships desired) key \<and> (\<exists>m \<in> ?G. bundle_key m = key \<and> overlay_edge m = edge)"
    using compose_effective_graphD[OF assms] by (auto simp: overlay_invariant_def)
  have keys: "(me_role (overlay_edge m), me_member (overlay_edge m)) = bundle_key m" for m
    by (simp add: overlay_edge_def bundle_key_def)
  have split: "edges_of (rg_memberships effective) p = edges_of (rg_memberships desired) p \<union> {e. fmlookup overlays p = Some e}"
  proof -
    have "e \<in> fset (fmran overlays) \<and> (me_role e, me_member e) = p \<longleftrightarrow> fmlookup overlays p = Some e" for e
      using i keys unfolding fmlookup_ran_iff by metis
    then show ?thesis unfolding o edges_of_def by auto
  qed
  have "{e. fmlookup overlays p = Some e} = (if has_edge (rg_memberships desired) p then {} else overlay_edge ` {m \<in> ?G. bundle_key m = p})"
    using i[of p] by auto
  then show "edges_of (rg_memberships effective) p = (if has_edge (rg_memberships desired) p then edges_of (rg_memberships desired) p
     else overlay_edge ` {m \<in> ?G. bundle_key m = p})" using split has_edge_iff by auto
  show "m \<in> ?G \<Longrightarrow> m' \<in> ?G \<Longrightarrow> bundle_key m = bundle_key m' \<Longrightarrow> \<not> has_edge (rg_memberships desired) (bundle_key m) \<Longrightarrow>
      overlay_edge m = overlay_edge m'"
    using i by (metis option.inject)
qed


text \<open>The changes that touch a membership.\<close>

definition touches_membership :: "string \<times> string \<Rightarrow> change \<Rightarrow> bool" where
  "touches_membership p x =
     (case x of
        AddMember role member _ _ \<Rightarrow> (role, member) = p
      | RemoveMember role member _ \<Rightarrow> (role, member) = p
      | UpdateMemberOptions role member _ _ _ _ \<Rightarrow> (role, member) = p
      | _ \<Rightarrow> False)"

lemma edge_map_single: "edges_of edges p = {e} \<Longrightarrow> fmlookup (edge_map edges) p = Some e"
proof -
  assume "edges_of edges p = {e}"
  moreover from this obtain e' where "fmlookup (edge_map edges) p = Some e'" using contains_edge_map[of edges p] by (auto simp: contains_key_def)
  moreover from this have "e' \<in> edges_of edges p" using lookup_edge_mapD by (fastforce simp: edges_of_def)
  ultimately show ?thesis by simp
qed

lemma settled_membership_untouched:
  assumes "edges_of (rg_memberships current) p = {e}" "edges_of (rg_memberships desired) p = {e}" "x \<in> set (diff current desired)"
  shows "\<not> touches_membership p x"
proof -
  let ?d = "resolve_routine_aliases desired (rg_routine_aliases current)"
  have same: "rg_memberships ?d = rg_memberships desired" by (simp add: resolve_routine_aliases_def)
  note look = edge_map_single[OF assms(1)] edge_map_single[OF assms(2)]
  have removed: "\<not> touches_membership p x" if rem: "x \<in> set (diff_members_removed current ?d)"
  proof -
    consider q f where "fmlookup (edge_map (rg_memberships desired)) q = Some f" "x \<in> set (edge_removals current (q, f))"
      | r m where "\<not> contains_key (edge_map (rg_memberships desired)) (r, m)" "x \<in> set (remove_all_edges current r m)"
      using rem by (auto simp: diff_members_removed_def same split: if_splits)
    then show ?thesis
    proof cases
      case 1
      then show ?thesis using look lookup_edge_mapD[OF 1(1)]
        by (cases q; cases "q = p") (auto simp: edge_removals_def touches_membership_def dest!: remove_all_edges_shape option_reduction_shape split: option.splits if_splits)
    next
      case 2
      then show ?thesis using look by (auto simp: touches_membership_def contains_key_def dest!: remove_all_edges_shape)
    qed
  qed
  have added: "\<not> touches_membership p x" if add: "x \<in> set (diff_members_added current ?d)"
  proof -
    obtain q f where f: "fmlookup (edge_map (rg_memberships desired)) q = Some f" "x \<in> set (edge_additions current (q, f))"
      using add by (auto simp: diff_members_added_def same)
    then show ?thesis using look lookup_edge_mapD[OF f(1)]
      by (cases q; cases "q = p") (auto simp: edge_additions_def Let_def touches_membership_def split: option.splits if_splits list.splits)
  qed
  show ?thesis
    using assms(3) removed added
    by (auto simp: diff_def diff_resolved_phases phase_shape_iffs change_constructor_defs touches_membership_def
        dest!: diff_role_alters_shape schema_changes_shape schema_grants_shape defaults_revoked_shape kept_revokes_shape)
qed

text \<open>
  C23: reconciling a policy in full never disturbs access that is live. A membership that a live request holds in the database with
  the granted options, and that the policy does not itself declare, is touched by no change of the plan towards the effective graph.
\<close>

theorem reconciliation_spares_live_access:
  assumes "compose_effective_graph lib desired uid requests plans fingerprint = Inr (effective, roles)"
    and "m \<in> granted_memberships lib uid plans requests" and "\<not> has_edge (rg_memberships desired) (bundle_key m)"
    and "edges_of (rg_memberships current) (bundle_key m) = {overlay_edge m}"
  shows "list_all (\<lambda>x. \<not> touches_membership (bundle_key m) x) (diff current effective)"
proof -
  have "edges_of (rg_memberships effective) (bundle_key m) = {overlay_edge m}"
  proof -
    have "overlay_edge ` {m' \<in> granted_memberships lib uid plans requests. bundle_key m' = bundle_key m} \<subseteq> {overlay_edge m}"
      by (rule subsetI, clarify, rule effective_edges(2)[OF assms(1) _ assms(2)]) (simp_all add: assms(3))
    then show ?thesis unfolding effective_edges(1)[OF assms(1)] using assms(2,3) by auto
  qed
  from settled_membership_untouched[OF assms(4) this] show ?thesis by (auto simp: list_all_iff)
qed

section \<open>Accepted policies\<close>

lemma refuse_if_Inr [simp]: "refuse_if c reason message = Inr u \<longleftrightarrow> \<not> c"
  by (auto simp: refuse_if_def)

lemma policy_duration_Inr [simp]: "policy_duration lib v = Inr d \<longleftrightarrow> parse_duration v = Inr d"
  by (auto simp: policy_duration_def split: sum.splits)

lemma pass_error_Inr [simp]: "pass_error r = Inr v \<longleftrightarrow> r = Inr v"
  by (auto simp: pass_error_def split: sum.splits)

text \<open>The last declaration of a role counts, and it must be one that the policy manages.\<close>

definition manages_role :: "role_definition list \<Rightarrow> string \<Rightarrow> bool" where
  "manages_role roles name = is_some_and (List.find (\<lambda>r. rd_name r = name) (rev roles)) (\<lambda>r. \<not> rd_external r)"

lemma accept_roles_exact:
  "accept_roles roles seen ms = Inr names \<longleftrightarrow>
     list_all (manages_role roles) (map fst ms) \<and> distinct (map fst ms) \<and> set (map fst ms) \<inter> set seen = {} \<and>
     names = sorted_list_of_set (set (map fst ms) \<union> set seen)"
  by (induction roles seen ms rule: accept_roles.induct)
    (auto simp: manages_role_def is_some_and_def split: option.splits)

lemma check_bundle_roles_exact:
  "check_bundle_roles roles seen ms = Inr u \<longleftrightarrow>
     list_all (manages_role roles) (map fst ms) \<and> distinct (map fst ms) \<and> set (map fst ms) \<inter> set seen = {}"
  by (induction roles seen ms rule: check_bundle_roles.induct)
    (auto simp: manages_role_def is_some_and_def split: option.splits)

text \<open>A resolved bundle names each role once, so its memberships have distinct keys.\<close>

lemma resolved_keys_distinct:
  assumes "resolve_request lib pa request = Inr (resolved, deadline, mode, suspended)"
  shows "distinct (map bundle_key (ra_memberships resolved))"
proof -
  have pair: "distinct (map (\<lambda>r. (r, s)) rs) \<longleftrightarrow> distinct rs" for rs :: "string list" and s :: string
    by (simp add: distinct_map inj_on_def)
  obtain policy target fingerprint d where r: "resolves lib pa request policy target fingerprint d"
    "resolved = resolved_bundle lib request policy target fingerprint d"
    by (rule resolve_requestD[OF assms])
  then have "distinct (map fst (ap_memberships policy))" unfolding resolves_def check_bundle_roles_exact by blast
  moreover have "map bundle_key (ra_memberships resolved) = map (\<lambda>r. (r, rq_subject_role request)) (map fst (ap_memberships policy))"
    by (simp add: r(2) resolved_bundle_def Let_def bundle_key_def case_prod_beta)
  ultimately show ?thesis by (simp only: pair)
qed

text \<open>The durations an access policy may have on a cluster.\<close>

definition durations_within :: "(string \<Rightarrow> string option) \<Rightarrow> access_policy \<Rightarrow> bool" where
  "durations_within env policy \<longleftrightarrow> (\<exists>maximum cluster ttl cluster_ttl.
     parse_duration (ap_maximum_duration policy) = Inr maximum \<and>
     cluster_duration env ''EPHEMERAL_ACCESS_MAXIMUM_DURATION'' ''24h'' = Inr cluster \<and> 0 < maximum \<and> maximum \<le> cluster \<and>
     parse_duration (ap_pending_request_ttl policy) = Inr ttl \<and>
     cluster_duration env ''EPHEMERAL_ACCESS_MAX_PENDING_TTL'' ''1h'' = Inr cluster_ttl \<and> 0 < ttl \<and> ttl \<le> cluster_ttl \<and>
     (case ap_default_duration policy of None \<Rightarrow> True | Some v \<Rightarrow> (\<exists>d. parse_duration v = Inr d \<and> 0 < d \<and> d \<le> maximum)))"

text \<open>
  An access policy is accepted exactly when its maximum is a positive duration within the cluster's, its pending time too, its
  default within its maximum, its bundle not empty and without repetition, its target in apply mode and every role of the bundle
  managed by the target; the roles recorded are then those of the bundle in order.
\<close>

theorem accepted_exactly_within_limits:
  "check_access_policy lib env policy lookup = Inr (target, names) \<longleftrightarrow>
     durations_within env policy \<and> ap_memberships policy \<noteq> [] \<and> distinct (map fst (ap_memberships policy)) \<and>
     lookup = Some target \<and> \<not> never_executes (pol_mode target) \<and>
     (\<exists>expanded. expand_manifest (tp_manifest target) = Inr expanded \<and>
        list_all (manages_role (em_roles expanded)) (map fst (ap_memberships policy))) \<and>
     names = sorted_list_of_set (set (map fst (ap_memberships policy)))"
proof -
  have cases: "durations_within env policy \<longleftrightarrow> (\<exists>maximum cluster ttl cluster_ttl.
     parse_duration (ap_maximum_duration policy) = Inr maximum \<and>
     cluster_duration env ''EPHEMERAL_ACCESS_MAXIMUM_DURATION'' ''24h'' = Inr cluster \<and> maximum \<le> cluster \<and>
     parse_duration (ap_pending_request_ttl policy) = Inr ttl \<and>
     cluster_duration env ''EPHEMERAL_ACCESS_MAX_PENDING_TTL'' ''1h'' = Inr cluster_ttl \<and> ttl \<le> cluster_ttl \<and>
     (case ap_default_duration policy of None \<Rightarrow> True | Some v \<Rightarrow> (\<exists>d. parse_duration v = Inr d \<and> d \<le> maximum)))"
    unfolding durations_within_def by (rule ex_cong1)+ (auto split: option.splits dest: parse_duration_bounds)
  show ?thesis
    unfolding cases check_access_policy_def
    by (cases "ap_default_duration policy"; cases lookup)
      (auto simp: accept_roles_exact not_less split: sum.splits)
qed

section \<open>Concrete operations\<close>

abbreviation ex_grant :: resolved_membership where
  "ex_grant \<equiv> \<lparr>rm_role = ''editor'', rm_member = ''alice'', rm_inherit = True\<rparr>"

definition ex_database :: role_graph where
  "ex_database = empty_graph\<lparr>rg_roles := fmap_of_list (map (\<lambda>n. (n, default_role_state)) [''editor'', ''alice'', ''viewer'', ''bob'']),
     rg_memberships := {|\<lparr>me_role = ''viewer'', me_member = ''bob'', me_inherit = True, me_admin = False\<rparr>|}\<rparr>"


definition ex_activation_plan :: policy_plan where
  "ex_activation_plan = \<lparr>pl_name = Some ''plan'', pl_creation_timestamp = None, pl_labels = fmempty,
     pl_owner_references = [\<lparr>or_kind = ''EphemeralAccessRequest'', or_uid = ''u'', or_controller = Some True\<rparr>],
     pl_policy_ref = ''main'', pl_managed_database_identity = ''db'',
     pl_origin = Some \<lparr>po_kind = ''EphemeralAccessRequest'', po_name = ''r'', po_uid = ''u'', po_content_digest = None,
       po_content_digest_encoding = None, po_policy_uid = None, po_base_content_digest = None\<rparr>,
     pl_scope = Some \<lparr>sc_kind = ''EphemeralMembership'', sc_operation = ScopedActivate,
       sc_bundle_hash = ra_bundle_hash (the (rs_resolved_access ex_resolved))\<rparr>, pl_status = None\<rparr>"

lemma ex_composed:
  "compose_effective_graph ex_lib ex_database ''t'' [ex_filed ex_active] [ex_activation_plan] ''db'' =
     Inr (ex_database\<lparr>rg_memberships := finsert (overlay_edge ex_grant) (rg_memberships ex_database)\<rparr>, {|''alice'', ''editor''|})"
  "granted_memberships ex_lib ''t'' [ex_activation_plan] [ex_filed ex_active] = {ex_grant}"
  by code_simp+


theorem reconciliation_spares_live_access_witness:
  "let current = ex_database\<lparr>rg_memberships := {|overlay_edge ex_grant|}\<rparr>;
       effective = ex_database\<lparr>rg_memberships := finsert (overlay_edge ex_grant) (rg_memberships ex_database)\<rparr> in
   list_all (\<lambda>x. \<not> touches_membership (''editor'', ''alice'') x) (diff current effective) \<and>
   AddMember ''viewer'' ''bob'' True False \<in> set (diff current effective)"
proof -
  let ?current = "ex_database\<lparr>rg_memberships := {|overlay_edge ex_grant|}\<rparr>"
  have "edges_of (rg_memberships ?current) (bundle_key ex_grant) = {overlay_edge ex_grant}"
    by (auto simp: edges_of_def bundle_key_def overlay_edge_def)
  moreover have "\<not> has_edge (rg_memberships ex_database) (bundle_key ex_grant)" by code_simp
  moreover have "AddMember ''viewer'' ''bob'' True False \<in> set (diff ?current
     (ex_database\<lparr>rg_memberships := finsert (overlay_edge ex_grant) (rg_memberships ex_database)\<rparr>))" by code_simp
  ultimately show ?thesis using reconciliation_spares_live_access[OF ex_composed(1), of ex_grant ?current]
    unfolding ex_composed(2) by (simp add: bundle_key_def)
qed

end
