(* ===== verification/Explorer.thy ===== *)
theory Explorer
  imports MembershipOptions Plan "HOL-Library.While_Combinator"
begin

text \<open>
  The plan explorer (\<open>crates/pgroles-core/src/explorer.rs\<close>): a plan is simulated change by change against a snapshot, tracking which
  roles its executor can act as, and every change is checked for the authority it needs. A panic and a loop that does not end are
  \<open>None\<close>. The visual graph and the fingerprint of the response are left out; the parser of the desired policy is an argument.
\<close>

section \<open>Facts about the executor\<close>

datatype set_role_capability = CapAllowed | CapDenied | CapUnknown

record executor_membership_fact =
  emf_role :: string
  emf_member :: string
  emf_set_role :: set_role_capability
  emf_inherit :: set_role_capability
  emf_admin_option :: set_role_capability

record executor_facts =
  ef_role :: string
  ef_superuser :: bool
  ef_bootstrap_role :: "string option"
  ef_createrole :: set_role_capability
  ef_memberships :: "executor_membership_fact list"
  ef_new_membership_set_role :: set_role_capability
  ef_new_role_set_role :: set_role_capability
  ef_new_role_inherit :: set_role_capability
  ef_new_role_admin_option :: set_role_capability

datatype explorer_phase =
    PhaseCreate | PhaseAlter | PhaseGrant | PhaseMembershipRemove | PhaseMembershipAdd | PhaseRevoke
  | PhaseDefaultPrivilegeRevoke | PhaseRetire

fun phase_rank :: "explorer_phase \<Rightarrow> nat" where
  "phase_rank PhaseCreate = 0"
| "phase_rank PhaseAlter = 1"
| "phase_rank PhaseGrant = 2"
| "phase_rank PhaseMembershipRemove = 3"
| "phase_rank PhaseMembershipAdd = 4"
| "phase_rank PhaseRevoke = 5"
| "phase_rank PhaseDefaultPrivilegeRevoke = 6"
| "phase_rank PhaseRetire = 7"

lemma phase_rank_inject [simp]: "phase_rank a = phase_rank b \<longleftrightarrow> a = b"
  by (cases a; cases b) simp_all

instantiation explorer_phase :: linorder
begin

definition less_eq_explorer_phase :: "explorer_phase \<Rightarrow> explorer_phase \<Rightarrow> bool" where
  "less_eq_explorer_phase a b = (phase_rank a \<le> phase_rank b)"

definition less_explorer_phase :: "explorer_phase \<Rightarrow> explorer_phase \<Rightarrow> bool" where
  "less_explorer_phase a b = (phase_rank a < phase_rank b)"

instance
  by standard (auto simp: less_eq_explorer_phase_def less_explorer_phase_def dest: order.antisym)

end

datatype reachability_status = Reachable | Unreachable | StatusUnknown

datatype finding_severity = SeverityInfo | SeverityWarning | SeverityError

datatype finding_kind =
    RequiredRoleUnavailable | RequiredRoleReachabilityUnknown | ExecutorLosesAccess | MembershipDisconnectsRole | RoleBecomesReachable
  | DatabasePreflightRequired | SuperuserRequired | OwnershipTransferChangesGrantor

record authority_finding =
  af_kind :: finding_kind
  af_severity :: finding_severity
  af_message :: string
  af_phase :: "explorer_phase option"
  af_change_index :: "nat option"
  af_role :: "string option"
  af_change_indices :: "nat list"

type_synonym edge_facts = "(string \<times> string, set_role_capability) btreemap"

definition capability :: "bool \<Rightarrow> set_role_capability" where
  "capability v = (if v then CapAllowed else CapDenied)"

definition membership_set_role_default :: "nat \<Rightarrow> set_role_capability" where
  "membership_set_role_default pg_major_version = (if pg_major_version \<ge> 16 then CapUnknown else CapAllowed)"

text \<open>\<open>entry(key).or_insert(v)\<close>.\<close>

definition or_insert :: "'k \<Rightarrow> 'v \<Rightarrow> ('k, 'v) btreemap \<Rightarrow> ('k, 'v) btreemap" where
  "or_insert key v m = (if contains_key m key then m else fmupd key v m)"

definition merge_fact :: "string \<times> string \<Rightarrow> set_role_capability \<Rightarrow> edge_facts \<Rightarrow> edge_facts" where
  "merge_fact key v facts = (if v = CapUnknown then or_insert key CapUnknown facts else fmupd key v facts)"

definition edge_fact :: "role_graph \<Rightarrow> nat \<Rightarrow> membership_edge \<Rightarrow> edge_facts \<times> edge_facts \<times> edge_facts \<Rightarrow> edge_facts \<times> edge_facts \<times> edge_facts" where
  "edge_fact graph pg_major_version edge = (\<lambda>(set_role, usage, admin_options).
     (let key = (me_role edge, me_member edge);
          inspected_set = (case complete_membership_options graph (me_role edge) (me_member edge) of
             Some options \<Rightarrow> capability (list_ex (\<lambda>(_, o'). mo_set o') (bt_entries options))
           | None \<Rightarrow> membership_set_role_default pg_major_version);
          usage = or_insert key CapDenied usage;
          admin_options = or_insert key CapDenied admin_options in
      (fmupd key inspected_set set_role,
       if me_inherit edge then fmupd key CapAllowed usage else usage,
       if me_admin edge then fmupd key CapAllowed admin_options else admin_options)))"

definition executor_fact :: "nat \<Rightarrow> executor_membership_fact \<Rightarrow> edge_facts \<times> edge_facts \<times> edge_facts \<Rightarrow> edge_facts \<times> edge_facts \<times> edge_facts" where
  "executor_fact pg_major_version claimed = (\<lambda>(set_role, usage, admin_options).
     (let key = (emf_role claimed, emf_member claimed) in
      (merge_fact key (if emf_set_role claimed = CapUnknown then membership_set_role_default pg_major_version else emf_set_role claimed) set_role,
       merge_fact key (emf_inherit claimed) usage,
       merge_fact key (emf_admin_option claimed) admin_options)))"

definition initial_edge_facts :: "role_graph \<Rightarrow> executor_facts \<Rightarrow> nat \<Rightarrow> edge_facts \<times> edge_facts \<times> edge_facts" where
  "initial_edge_facts graph executor pg_major_version =
     fold (executor_fact pg_major_version) (ef_memberships executor)
       (fold (edge_fact graph pg_major_version) (bt_elements (rg_memberships graph)) (fmempty, fmempty, fmempty))"

record executor_attributes =
  ea_superuser :: bool
  ea_createrole :: set_role_capability

definition initial_attributes :: "role_graph \<Rightarrow> executor_facts \<Rightarrow> executor_attributes" where
  "initial_attributes graph executor =
     (let snapshot = fmlookup (rg_roles graph) (ef_role executor) in
      \<lparr>ea_superuser = (ef_superuser executor \<or> (case snapshot of None \<Rightarrow> False | Some role \<Rightarrow> rs_superuser role)),
       ea_createrole = (if ef_createrole executor = CapUnknown
          then (case snapshot of None \<Rightarrow> CapUnknown | Some role \<Rightarrow> capability (rs_createrole role))
          else ef_createrole executor)\<rparr>)"

fun executor_attribute :: "role_attribute \<Rightarrow> executor_attributes \<Rightarrow> executor_attributes" where
  "executor_attribute (Superuser v) attributes = attributes\<lparr>ea_superuser := v\<rparr>"
| "executor_attribute (Createrole v) attributes = attributes\<lparr>ea_createrole := capability v\<rparr>"
| "executor_attribute _ attributes = attributes"

definition apply_attributes :: "executor_facts \<Rightarrow> change \<Rightarrow> executor_attributes \<Rightarrow> executor_attributes" where
  "apply_attributes executor change attributes =
     (case change of
        AlterRole name changed \<Rightarrow> if name = ef_role executor then fold executor_attribute changed attributes else attributes
      | _ \<Rightarrow> attributes)"

definition affects_reachability :: "change \<Rightarrow> bool" where
  "affects_reachability change =
     (case change of
        CreateRole _ _ \<Rightarrow> True
      | DropRole _ \<Rightarrow> True
      | UpdateMemberOptions _ _ _ _ _ _ \<Rightarrow> True
      | AddMember _ _ _ _ \<Rightarrow> True
      | RemoveMember _ _ _ \<Rightarrow> True
      | AlterRole _ attributes \<Rightarrow>
          list_ex (\<lambda>attribute. case attribute of Superuser _ \<Rightarrow> True | Inherit _ \<Rightarrow> True | _ \<Rightarrow> False) attributes
      | _ \<Rightarrow> False)"

section \<open>Phases\<close>

definition phase_for :: "change \<Rightarrow> explorer_phase" where
  "phase_for change =
     (case change of
        CreateRole _ _ \<Rightarrow> PhaseCreate
      | CreateSchema _ _ \<Rightarrow> PhaseCreate
      | AlterRole _ _ \<Rightarrow> PhaseAlter
      | SetComment _ _ \<Rightarrow> PhaseAlter
      | AlterSchemaOwner _ _ \<Rightarrow> PhaseAlter
      | EnsureSchemaOwnerPrivileges _ _ _ \<Rightarrow> PhaseAlter
      | SetPassword _ _ \<Rightarrow> PhaseAlter
      | Grant _ _ _ _ _ \<Rightarrow> PhaseGrant
      | SetDefaultPrivilege _ _ _ _ _ \<Rightarrow> PhaseGrant
      | UpdateMemberOptions _ _ _ inherit admin _ \<Rightarrow>
          if inherit = Some False \<or> admin = Some False then PhaseMembershipRemove else PhaseMembershipAdd
      | RemoveMember _ _ _ \<Rightarrow> PhaseMembershipRemove
      | AddMember _ _ _ _ \<Rightarrow> PhaseMembershipAdd
      | Revoke _ _ _ _ _ _ \<Rightarrow> PhaseRevoke
      | RevokeDefaultPrivilege _ _ _ _ _ \<Rightarrow> PhaseDefaultPrivilegeRevoke
      | ReassignOwned _ _ \<Rightarrow> PhaseRetire
      | DropOwned _ \<Rightarrow> PhaseRetire
      | TerminateSessions _ \<Rightarrow> PhaseRetire
      | DropRole _ \<Rightarrow> PhaseRetire)"

text \<open>One step of the grouping loop: the last group is extended, or a new one pushed.\<close>

definition push_phase :: "change \<Rightarrow> (explorer_phase \<times> change list) list \<Rightarrow> (explorer_phase \<times> change list) list" where
  "push_phase change result =
     (let phase = phase_for change in
      if result \<noteq> [] \<and> fst (last result) = phase then butlast result @ [(phase, snd (last result) @ [change])]
      else result @ [(phase, [change])])"

definition grouped_phases :: "change list \<Rightarrow> (explorer_phase \<times> change list) list" where
  "grouped_phases changes = fold push_phase changes []"

section \<open>Reachability\<close>

definition granted_to :: "edge_facts \<Rightarrow> string \<Rightarrow> (string \<times> set_role_capability) list" where
  "granted_to facts member = map (\<lambda>((role, _), cap). (role, cap)) (filter (\<lambda>((_, m), _). m = member) (bt_entries facts))"

definition visit :: "(set_role_capability \<Rightarrow> bool) \<Rightarrow> string \<times> set_role_capability \<Rightarrow> string list \<times> string btreeset \<Rightarrow> string list \<times> string btreeset" where
  "visit follow = (\<lambda>(role, cap) (queue, seen).
     if follow cap \<and> role |\<notin>| seen then (queue @ [role], finsert role seen) else (queue, seen))"

definition visit_next :: "(set_role_capability \<Rightarrow> bool) \<Rightarrow> edge_facts \<Rightarrow> string list \<times> string btreeset \<Rightarrow> string list \<times> string btreeset" where
  "visit_next follow facts = (\<lambda>(queue, seen). fold (visit follow) (granted_to facts (hd queue)) (tl queue, seen))"

definition traverse :: "(set_role_capability \<Rightarrow> bool) \<Rightarrow> edge_facts \<Rightarrow> string \<Rightarrow> string btreeset option" where
  "traverse follow facts executor_role =
     map_option snd (while_option (\<lambda>(queue, _). queue \<noteq> []) (visit_next follow facts) ([executor_role], {|executor_role|}))"

definition all_roles :: "role_graph \<Rightarrow> edge_facts \<Rightarrow> string \<Rightarrow> string btreeset" where
  "all_roles graph facts executor_role =
     finsert executor_role (fmdom (rg_roles graph)) |\<union>| fst |`| fmdom facts |\<union>| snd |`| fmdom facts"

definition reachability ::
  "role_graph \<Rightarrow> edge_facts \<Rightarrow> string \<Rightarrow> bool \<Rightarrow> bool \<Rightarrow> (string, reachability_status) btreemap option" where
  "reachability graph facts executor_role executor_superuser authority_graph_complete =
     (let roles = bt_elements (all_roles graph facts executor_role) in
      if executor_superuser then Some (collect_map (map (\<lambda>role. (role, Reachable)) roles))
      else Option.bind (traverse (\<lambda>cap. cap = CapAllowed) facts executor_role) (\<lambda>definite.
           Option.bind (traverse (\<lambda>cap. cap \<noteq> CapDenied) facts executor_role) (\<lambda>possible.
             Some (collect_map (map (\<lambda>role. (role,
               if role |\<in>| definite then Reachable
               else if role |\<in>| possible \<or> \<not> authority_graph_complete then StatusUnknown
               else Unreachable)) roles)))))"

section \<open>The simulated state\<close>

record sim_state =
  sm_graph :: role_graph
  sm_set_role :: edge_facts
  sm_usage :: edge_facts
  sm_admin_options :: edge_facts

definition update_role :: "string \<Rightarrow> (role_state \<Rightarrow> role_state) \<Rightarrow> role_graph \<Rightarrow> role_graph" where
  "update_role name f graph =
     (case fmlookup (rg_roles graph) name of None \<Rightarrow> graph | Some role \<Rightarrow> graph\<lparr>rg_roles := fmupd name (f role) (rg_roles graph)\<rparr>)"

definition update_schema :: "string \<Rightarrow> (schema_state \<Rightarrow> schema_state) \<Rightarrow> role_graph \<Rightarrow> role_graph" where
  "update_schema name f graph =
     (case fmlookup (rg_schemas graph) name of None \<Rightarrow> graph | Some st \<Rightarrow> graph\<lparr>rg_schemas := fmupd name (f st) (rg_schemas graph)\<rparr>)"

fun set_attribute :: "role_attribute \<Rightarrow> role_state \<Rightarrow> role_state" where
  "set_attribute (Login v) role = role\<lparr>rs_login := v\<rparr>"
| "set_attribute (Superuser v) role = role\<lparr>rs_superuser := v\<rparr>"
| "set_attribute (Createdb v) role = role\<lparr>rs_createdb := v\<rparr>"
| "set_attribute (Createrole v) role = role\<lparr>rs_createrole := v\<rparr>"
| "set_attribute (Inherit v) role = role\<lparr>rs_inherit := v\<rparr>"
| "set_attribute (Replication v) role = role\<lparr>rs_replication := v\<rparr>"
| "set_attribute (Bypassrls v) role = role\<lparr>rs_bypassrls := v\<rparr>"
| "set_attribute (ConnectionLimit v) role = role\<lparr>rs_connection_limit := v\<rparr>"
| "set_attribute (ValidUntil v) role = role\<lparr>rs_password_valid_until := v\<rparr>"
| "set_attribute (SetConfig name v) role = role\<lparr>rs_config := fmupd name v (rs_config role)\<rparr>"
| "set_attribute (ResetConfig name) role = role\<lparr>rs_config := fmdrop name (rs_config role)\<rparr>"

definition revoke_attributed :: "grant_key \<Rightarrow> privilege btreeset \<Rightarrow> string option \<Rightarrow> role_graph \<Rightarrow> (string, privilege btreeset) btreemap option" where
  "revoke_attributed key privileges grantor graph =
     Option.bind grantor (\<lambda>g. map_option (\<lambda>entries.
       case fmlookup entries g of
         None \<Rightarrow> entries
       | Some granted \<Rightarrow> if granted |-| privileges = {||} then fmdrop g entries else fmupd g (granted |-| privileges) entries)
       (fmlookup (rg_grant_entry_grantors graph) key))"

definition explore_revoke :: "grant_key \<Rightarrow> privilege btreeset \<Rightarrow> string option \<Rightarrow> role_graph \<Rightarrow> role_graph" where
  "explore_revoke key privileges grantor graph =
     (let attributed = revoke_attributed key privileges grantor graph;
          grantors = (case attributed of None \<Rightarrow> rg_grant_entry_grantors graph | Some entries \<Rightarrow> fmupd key entries (rg_grant_entry_grantors graph));
          remaining = map_option (\<lambda>entries. union_all (map snd (bt_entries entries))) attributed;
          grants = (case fmlookup (rg_grants graph) key of
             None \<Rightarrow> rg_grants graph
           | Some held \<Rightarrow>
               (let kept = (case remaining of
                      Some r \<Rightarrow> if r = {||} then held |-| privileges else r
                    | None \<Rightarrow> held |-| privileges) in
                if kept = {||} then fmdrop key (rg_grants graph) else fmupd key kept (rg_grants graph))) in
      graph\<lparr>rg_grants := grants,
        rg_grant_entry_grantors := (if fmlookup grantors key = Some fmempty then fmdrop key grantors else grantors)\<rparr>)"

definition keep_edges :: "(string \<times> string \<Rightarrow> bool) \<Rightarrow> membership_edge btreeset \<Rightarrow> membership_edge btreeset" where
  "keep_edges keep edges = ffilter (\<lambda>edge. keep (me_role edge, me_member edge)) edges"

definition replace_edge :: "string \<Rightarrow> string \<Rightarrow> bool \<Rightarrow> bool \<Rightarrow> role_graph \<Rightarrow> role_graph" where
  "replace_edge role member inherit admin graph =
     graph\<lparr>rg_memberships := finsert \<lparr>me_role = role, me_member = member, me_inherit = inherit, me_admin = admin\<rparr>
       (keep_edges (\<lambda>p. p \<noteq> (role, member)) (rg_memberships graph))\<rparr>"

definition any_option :: "(membership_options \<Rightarrow> bool) \<Rightarrow> (string, membership_options) btreemap \<Rightarrow> bool" where
  "any_option f options = list_ex (\<lambda>(_, o'). f o') (bt_entries options)"

subsection \<open>Option changes and removals of a membership\<close>

definition expects_absent :: "membership_option_binding option \<Rightarrow> bool" where
  "expects_absent binding = (case binding of None \<Rightarrow> False | Some b \<Rightarrow> mb_expected b = ExpectAbsent)"

text \<open>The two \<open>expect\<close> calls are the branches that give \<open>None\<close>.\<close>

definition add_absent_grantor :: "string \<Rightarrow> string \<Rightarrow> string \<Rightarrow> membership_option_binding option \<Rightarrow> role_graph \<Rightarrow> role_graph option" where
  "add_absent_grantor role member grantor binding graph =
     (if complete_membership_options graph role member \<noteq> None \<and> expects_absent binding
      then (case fmlookup (rg_membership_edge_options graph) (role, member) of
              None \<Rightarrow> None
            | Some options \<Rightarrow>
                if contains_key options grantor then Some graph
                else (case fmlookup (rg_membership_edge_grantors graph) (role, member) of
                        None \<Rightarrow> None
                      | Some grantors \<Rightarrow> Some (graph\<lparr>
                          rg_membership_edge_options := fmupd (role, member)
                            (fmupd grantor \<lparr>mo_inherit = False, mo_admin = False, mo_set = False\<rparr> options) (rg_membership_edge_options graph),
                          rg_membership_edge_grantors := fmupd (role, member) (finsert grantor grantors) (rg_membership_edge_grantors graph)\<rparr>)))
      else Some graph)"

definition set_options :: "bool option \<Rightarrow> bool option \<Rightarrow> membership_options \<Rightarrow> membership_options" where
  "set_options inherit admin edge =
     (let edge = (case inherit of None \<Rightarrow> edge | Some v \<Rightarrow> edge\<lparr>mo_inherit := v\<rparr>) in
      case admin of None \<Rightarrow> edge | Some v \<Rightarrow> edge\<lparr>mo_admin := v\<rparr>)"

text \<open>No claim is made about an option that was changed without complete facts.\<close>

definition unknown_options :: "string \<times> string \<Rightarrow> bool option \<Rightarrow> bool option \<Rightarrow> sim_state \<Rightarrow> sim_state" where
  "unknown_options key inherit admin s =
     s\<lparr>sm_usage := (if inherit \<noteq> None then fmupd key CapUnknown (sm_usage s) else sm_usage s),
       sm_admin_options := (if admin \<noteq> None then fmupd key CapUnknown (sm_admin_options s) else sm_admin_options s)\<rparr>"

definition explore_update ::
  "string \<Rightarrow> string \<Rightarrow> string \<Rightarrow> bool option \<Rightarrow> bool option \<Rightarrow> membership_option_binding option \<Rightarrow> sim_state \<Rightarrow> sim_state option" where
  "explore_update role member grantor inherit admin binding s =
     map_option (\<lambda>graph.
       let key = (role, member);
           complete = (case (fmlookup (rg_membership_edge_grantors graph) key, fmlookup (rg_membership_edge_options graph) key) of
             (Some grantors, Some options) \<Rightarrow> grantors \<noteq> {||} \<and> bt_elements grantors = bt_keys options \<and> contains_key options grantor
           | _ \<Rightarrow> False) in
       case fmlookup (rg_membership_edge_options graph) key of
         None \<Rightarrow> unknown_options key inherit admin (s\<lparr>sm_graph := graph\<rparr>)
       | Some options \<Rightarrow>
           (let options = (case fmlookup options grantor of None \<Rightarrow> options | Some edge \<Rightarrow> fmupd grantor (set_options inherit admin edge) options);
                graph = graph\<lparr>rg_membership_edge_options := fmupd key options (rg_membership_edge_options graph)\<rparr> in
            if \<not> complete then unknown_options key inherit admin (s\<lparr>sm_graph := graph\<rparr>)
            else
              (let new_inherit = any_option mo_inherit options; new_admin = any_option mo_admin options in
               s\<lparr>sm_graph := replace_edge role member new_inherit new_admin graph,
                 sm_usage := fmupd key (capability new_inherit) (sm_usage s),
                 sm_admin_options := fmupd key (capability new_admin) (sm_admin_options s)\<rparr>)))
       (add_absent_grantor role member grantor binding (sm_graph s))"

text \<open>A removal of one grantor's edge: the facts without it, and whether another grantor's edge is left.\<close>

definition remove_grantor :: "string \<times> string \<Rightarrow> string option \<Rightarrow> role_graph \<Rightarrow> role_graph \<times> bool" where
  "remove_grantor key grantor graph =
     (case grantor of
        None \<Rightarrow> (graph, False)
      | Some g \<Rightarrow>
          (let graph = (case fmlookup (rg_membership_edge_options graph) key of
                 None \<Rightarrow> graph
               | Some options \<Rightarrow> graph\<lparr>rg_membership_edge_options := fmupd key (fmdrop g options) (rg_membership_edge_options graph)\<rparr>) in
           case fmlookup (rg_membership_edge_grantors graph) key of
             None \<Rightarrow> (graph, False)
           | Some grantors \<Rightarrow>
               (graph\<lparr>rg_membership_edge_grantors := fmupd key (grantors |-| {|g|}) (rg_membership_edge_grantors graph)\<rparr>,
                grantors |-| {|g|} \<noteq> {||})))"

definition explore_remove :: "nat \<Rightarrow> string \<Rightarrow> string \<Rightarrow> string option \<Rightarrow> sim_state \<Rightarrow> sim_state" where
  "explore_remove pg_major_version role member grantor s =
     (let key = (role, member);
          complete = (complete_membership_options (sm_graph s) role member \<noteq> None);
          (graph, preserve_edge) = remove_grantor key grantor (sm_graph s) in
      if preserve_edge then
        (case (if complete then fmlookup (rg_membership_edge_options graph) key else None) of
           None \<Rightarrow> s\<lparr>sm_graph := graph,
              sm_set_role := fmupd key (membership_set_role_default pg_major_version) (sm_set_role s),
              sm_usage := fmupd key CapUnknown (sm_usage s),
              sm_admin_options := fmupd key CapUnknown (sm_admin_options s)\<rparr>
         | Some options \<Rightarrow> s\<lparr>sm_graph := replace_edge role member (any_option mo_inherit options) (any_option mo_admin options) graph,
              sm_set_role := fmupd key (capability (any_option mo_set options)) (sm_set_role s),
              sm_usage := fmupd key (capability (any_option mo_inherit options)) (sm_usage s),
              sm_admin_options := fmupd key (capability (any_option mo_admin options)) (sm_admin_options s)\<rparr>)
      else s\<lparr>sm_graph := graph\<lparr>rg_membership_edge_options := fmdrop key (rg_membership_edge_options graph),
                rg_membership_edge_grantors := fmdrop key (rg_membership_edge_grantors graph),
                rg_memberships := keep_edges (\<lambda>p. p \<noteq> key) (rg_memberships graph)\<rparr>,
             sm_set_role := fmdrop key (sm_set_role s),
             sm_usage := fmdrop key (sm_usage s),
             sm_admin_options := fmdrop key (sm_admin_options s)\<rparr>)"

subsection \<open>One change\<close>

definition on_graph :: "(role_graph \<Rightarrow> role_graph) \<Rightarrow> sim_state \<Rightarrow> sim_state" where
  "on_graph f s = s\<lparr>sm_graph := f (sm_graph s)\<rparr>"

fun explore_change :: "executor_facts \<Rightarrow> nat \<Rightarrow> change \<Rightarrow> sim_state \<Rightarrow> sim_state option" where
  "explore_change executor pg (CreateRole name st) s =
     (let s = on_graph (\<lambda>g. g\<lparr>rg_roles := fmupd name st (rg_roles g)\<rparr>) s; key = (name, ef_role executor) in
      Some (if name \<noteq> ef_role executor
        then s\<lparr>sm_set_role := fmupd key (ef_new_role_set_role executor) (sm_set_role s),
               sm_usage := fmupd key (ef_new_role_inherit executor) (sm_usage s),
               sm_admin_options := fmupd key (ef_new_role_admin_option executor) (sm_admin_options s)\<rparr>
        else s))"
| "explore_change executor pg (CreateSchema name owner) s =
     Some (on_graph (\<lambda>g. g\<lparr>rg_schemas := fmupd name \<lparr>ss_owner = owner, ss_owner_privileges = {||}\<rparr> (rg_schemas g)\<rparr>) s)"
| "explore_change executor pg (AlterSchemaOwner name owner) s =
     Some (on_graph (update_schema name (\<lambda>st. st\<lparr>ss_owner := Some owner\<rparr>)) s)"
| "explore_change executor pg (EnsureSchemaOwnerPrivileges name owner privileges) s =
     Some (on_graph (update_schema name (\<lambda>st. st\<lparr>ss_owner_privileges := ss_owner_privileges st |\<union>| privileges\<rparr>)) s)"
| "explore_change executor pg (AlterRole name attributes) s = Some (on_graph (update_role name (fold set_attribute attributes)) s)"
| "explore_change executor pg (SetComment name comment) s =
     Some (on_graph (update_role name (\<lambda>role. role\<lparr>rs_comment := comment\<rparr>)) s)"
| "explore_change executor pg (Grant role privileges object_type schema name) s =
     Some (on_graph (\<lambda>g. g\<lparr>rg_grants := entry_extend (grant_key_of role object_type schema name) privileges (rg_grants g)\<rparr>) s)"
| "explore_change executor pg (Revoke role privileges object_type schema name grantor) s =
     Some (on_graph (explore_revoke (grant_key_of role object_type schema name) privileges grantor) s)"
| "explore_change executor pg (SetDefaultPrivilege owner scope on_type grantee privileges) s =
     Some (on_graph (\<lambda>g. g\<lparr>rg_default_privileges := entry_extend (default_key owner scope on_type grantee) privileges (rg_default_privileges g)\<rparr>) s)"
| "explore_change executor pg (RevokeDefaultPrivilege owner scope on_type grantee privileges) s =
     (let key = default_key owner scope on_type grantee in
      Some (on_graph (\<lambda>g. case fmlookup (rg_default_privileges g) key of
          None \<Rightarrow> g
        | Some held \<Rightarrow> g\<lparr>rg_default_privileges :=
            (if held |-| privileges = {||} then fmdrop key (rg_default_privileges g) else fmupd key (held |-| privileges) (rg_default_privileges g))\<rparr>) s))"
| "explore_change executor pg (AddMember role member inherit admin) s =
     Some ((on_graph (\<lambda>g. g\<lparr>rg_memberships :=
         finsert \<lparr>me_role = role, me_member = member, me_inherit = inherit, me_admin = admin\<rparr> (rg_memberships g)\<rparr>) s)
       \<lparr>sm_set_role := fmupd (role, member) (if pg \<ge> 16 then ef_new_membership_set_role executor else CapAllowed) (sm_set_role s),
        sm_usage := fmupd (role, member) (capability inherit) (sm_usage s),
        sm_admin_options := fmupd (role, member) (capability admin) (sm_admin_options s)\<rparr>)"
| "explore_change executor pg (UpdateMemberOptions role member grantor inherit admin binding) s =
     explore_update role member grantor inherit admin binding s"
| "explore_change executor pg (RemoveMember role member grantor) s = Some (explore_remove pg role member grantor s)"
| "explore_change executor pg (DropRole name) s =
     Some (s\<lparr>sm_graph := (sm_graph s)\<lparr>rg_roles := fmdrop name (rg_roles (sm_graph s)),
               rg_memberships := keep_edges (\<lambda>(role, member). role \<noteq> name \<and> member \<noteq> name) (rg_memberships (sm_graph s))\<rparr>,
             sm_set_role := fmfilter (\<lambda>(role, member). role \<noteq> name \<and> member \<noteq> name) (sm_set_role s),
             sm_usage := fmfilter (\<lambda>(role, member). role \<noteq> name \<and> member \<noteq> name) (sm_usage s),
             sm_admin_options := fmfilter (\<lambda>(role, member). role \<noteq> name \<and> member \<noteq> name) (sm_admin_options s)\<rparr>)"
| "explore_change executor pg (ReassignOwned from_role to_role) s =
     Some (on_graph (\<lambda>g. g\<lparr>rg_schemas := fmmap (\<lambda>st. if ss_owner st = Some from_role then st\<lparr>ss_owner := Some to_role\<rparr> else st) (rg_schemas g)\<rparr>) s)"
| "explore_change executor pg (DropOwned role) s =
     Some (on_graph (\<lambda>g. g\<lparr>
         rg_schemas := fmfilter (\<lambda>k. case fmlookup (rg_schemas g) k of None \<Rightarrow> True | Some st \<Rightarrow> ss_owner st \<noteq> Some role) (rg_schemas g),
         rg_grants := fmfilter (\<lambda>key. grantee_as_str (gk_role key) \<noteq> role) (rg_grants g),
         rg_grant_entry_grantors := fmfilter (\<lambda>key. grantee_as_str (gk_role key) \<noteq> role) (rg_grant_entry_grantors g),
         rg_default_privileges := fmfilter (\<lambda>key. dk_owner key \<noteq> role \<and> grantee_as_str (dk_grantee key) \<noteq> role) (rg_default_privileges g)\<rparr>) s)"
| "explore_change executor pg (TerminateSessions role) s = Some s"
| "explore_change executor pg (SetPassword name password) s = Some s"

section \<open>Required authority\<close>

record authority_state =
  au_graph :: role_graph
  au_set_reachable :: "(string, reachability_status) btreemap"
  au_usage_reachable :: "(string, reachability_status) btreemap"
  au_admin_options :: edge_facts
  au_is_superuser :: bool
  au_createrole :: set_role_capability
  au_complete :: bool
  au_pg_major_version :: nat

definition unseen :: "bool \<Rightarrow> reachability_status" where
  "unseen complete = (if complete then Unreachable else StatusUnknown)"

definition status_in :: "bool \<Rightarrow> (string, reachability_status) btreemap \<Rightarrow> string \<Rightarrow> reachability_status" where
  "status_in complete statuses role = unwrap_or (fmlookup statuses role) (unseen complete)"

definition better_admin :: "reachability_status \<times> set_role_capability \<Rightarrow> reachability_status \<Rightarrow> reachability_status" where
  "better_admin = (\<lambda>(member, admin) best.
     if member = Reachable \<and> admin = CapAllowed then Reachable
     else if member \<noteq> Unreachable \<and> admin \<noteq> CapDenied \<and> best \<noteq> Reachable then StatusUnknown
     else best)"

definition admin_option :: "authority_state \<Rightarrow> string \<Rightarrow> reachability_status" where
  "admin_option au role =
     fold better_admin
       (map (\<lambda>((_, member), admin). (status_in (au_complete au) (au_usage_reachable au) member, admin))
         (takeWhile (\<lambda>((granted_role, _), _). granted_role = role) (range_from (role, []) (au_admin_options au))))
       (unseen (au_complete au))"

definition membership_authority_status :: "authority_state \<Rightarrow> string \<Rightarrow> reachability_status" where
  "membership_authority_status au role =
     (let admin = admin_option au role in
      if au_pg_major_version au \<ge> 16 then admin
      else if au_createrole au = CapAllowed then Reachable
      else if au_createrole au = CapUnknown \<and> admin \<noteq> Reachable then StatusUnknown
      else admin)"

definition new_finding ::
  "finding_kind \<Rightarrow> finding_severity \<Rightarrow> string \<Rightarrow> explorer_phase \<Rightarrow> nat \<Rightarrow> string option \<Rightarrow> authority_finding" where
  "new_finding kind severity message phase index role =
     \<lparr>af_kind = kind, af_severity = severity, af_message = message, af_phase = Some phase, af_change_index = Some index,
      af_role = role, af_change_indices = []\<rparr>"

definition required_role :: "authority_state \<Rightarrow> change \<Rightarrow> (string \<times> (string, reachability_status) btreemap \<times> string) option" where
  "required_role au change =
     (case change of
        SetDefaultPrivilege owner _ _ _ _ \<Rightarrow> Some (owner, au_usage_reachable au, ''USAGE'')
      | RevokeDefaultPrivilege owner _ _ _ _ \<Rightarrow> Some (owner, au_usage_reachable au, ''USAGE'')
      | Revoke _ _ _ _ _ (Some grantor) \<Rightarrow> Some (grantor, au_set_reachable au, ''SET ROLE'')
      | UpdateMemberOptions _ _ grantor _ _ _ \<Rightarrow> Some (grantor, au_usage_reachable au, ''USAGE'')
      | RemoveMember _ _ (Some grantor) \<Rightarrow> Some (grantor, au_usage_reachable au, ''USAGE'')
      | _ \<Rightarrow> None)"

definition role_findings :: "change \<Rightarrow> explorer_phase \<Rightarrow> nat \<Rightarrow> authority_state \<Rightarrow> authority_finding list" where
  "role_findings change phase index au =
     (if au_is_superuser au then []
      else (case required_role au change of
              None \<Rightarrow> []
            | Some (role, statuses, authority_name) \<Rightarrow>
                (let status = status_in (au_complete au) statuses role;
                     message = (\<lambda>qualifier. ''required '' @ authority_name @ '' authority for grantor or owner role '' @ role @ '' '' @ qualifier @
                       '' for this operation'') in
                 if status = Reachable then []
                 else if status = StatusUnknown
                 then [new_finding RequiredRoleReachabilityUnknown SeverityWarning (message ''is not proven'') phase index (Some role)]
                 else [new_finding RequiredRoleUnavailable SeverityError (message ''is unavailable'') phase index (Some role)])))"

text \<open>The role whose membership a change alters, and whether its authority is checked through the options of the role itself.\<close>

definition membership_role :: "change \<Rightarrow> string option" where
  "membership_role change =
     (case change of
        AddMember role _ _ _ \<Rightarrow> Some role
      | UpdateMemberOptions role _ _ _ _ _ \<Rightarrow> Some role
      | RemoveMember role _ _ \<Rightarrow> Some role
      | _ \<Rightarrow> None)"

definition option_role :: "change \<Rightarrow> string option" where
  "option_role change = (case change of RemoveMember _ _ (Some _) \<Rightarrow> None | _ \<Rightarrow> membership_role change)"

definition membership_findings :: "change \<Rightarrow> explorer_phase \<Rightarrow> nat \<Rightarrow> authority_state \<Rightarrow> authority_finding list" where
  "membership_findings change phase index au =
     (if au_is_superuser au then []
      else if (case membership_role change of
                 None \<Rightarrow> False
               | Some role \<Rightarrow> (case fmlookup (rg_roles (au_graph au)) role of None \<Rightarrow> False | Some st \<Rightarrow> rs_superuser st))
      then [new_finding SuperuserRequired SeverityError
              (''membership in superuser role '' @ unwrap_or (membership_role change) [] @ '' can only be granted or revoked by a superuser executor'')
              phase index (membership_role change)]
      else (case option_role change of
              None \<Rightarrow> []
            | Some role \<Rightarrow>
                (case membership_authority_status au role of
                   Reachable \<Rightarrow> []
                 | StatusUnknown \<Rightarrow>
                     [new_finding RequiredRoleReachabilityUnknown SeverityWarning
                        ((if au_pg_major_version au \<ge> 16 then ''ADMIN OPTION'' else ''CREATEROLE or ADMIN OPTION'') @ '' for role '' @ role @
                         '' is not proven; database preflight is required'') phase index (Some role)]
                 | Unreachable \<Rightarrow>
                     [new_finding RequiredRoleUnavailable SeverityError
                        (if au_pg_major_version au \<ge> 16
                         then ''ADMIN OPTION for role '' @ role @
                           '' is unavailable; PostgreSQL 16 and later require it to change membership, and CREATEROLE alone is not sufficient''
                         else ''CREATEROLE or ADMIN OPTION for role '' @ role @ '' is unavailable'') phase index (Some role)])))"

definition transfer_findings :: "change \<Rightarrow> explorer_phase \<Rightarrow> nat \<Rightarrow> authority_state \<Rightarrow> authority_finding list" where
  "transfer_findings change phase index au =
     (case change of
        AlterSchemaOwner name owner \<Rightarrow>
          (let previous = Option.bind (fmlookup (rg_schemas (au_graph au)) name) ss_owner;
               from = (case previous of None \<Rightarrow> ''an owner outside the snapshot'' | Some p \<Rightarrow> ''role '' @ p) in
           [new_finding OwnershipTransferChangesGrantor SeverityInfo
              (''schema '' @ name @ '' ownership moves from '' @ from @ '' to role '' @ owner @ ''; '' @ owner @
               '' becomes the implicit grantor for privileges on schema '' @ name @ '', including entries '' @
               unwrap_or previous ''the previous owner'' @ '' granted'') phase index (Some owner)])
      | _ \<Rightarrow> [])"

definition change_kind :: "change \<Rightarrow> string" where
  "change_kind change =
     (case change of
        CreateRole _ _ \<Rightarrow> ''CreateRole''
      | CreateSchema _ _ \<Rightarrow> ''CreateSchema''
      | AlterSchemaOwner _ _ \<Rightarrow> ''AlterSchemaOwner''
      | EnsureSchemaOwnerPrivileges _ _ _ \<Rightarrow> ''EnsureSchemaOwnerPrivileges''
      | AlterRole _ _ \<Rightarrow> ''AlterRole''
      | SetComment _ _ \<Rightarrow> ''SetComment''
      | Grant _ _ _ _ _ \<Rightarrow> ''Grant''
      | Revoke _ _ _ _ _ _ \<Rightarrow> ''Revoke''
      | SetDefaultPrivilege _ _ _ _ _ \<Rightarrow> ''SetDefaultPrivilege''
      | RevokeDefaultPrivilege _ _ _ _ _ \<Rightarrow> ''RevokeDefaultPrivilege''
      | AddMember _ _ _ _ \<Rightarrow> ''AddMember''
      | UpdateMemberOptions _ _ _ _ _ _ \<Rightarrow> ''UpdateMemberOptions''
      | RemoveMember _ _ _ \<Rightarrow> ''RemoveMember''
      | ReassignOwned _ _ \<Rightarrow> ''ReassignOwned''
      | DropOwned _ \<Rightarrow> ''DropOwned''
      | TerminateSessions _ \<Rightarrow> ''TerminateSessions''
      | DropRole _ \<Rightarrow> ''DropRole''
      | SetPassword _ _ \<Rightarrow> ''SetPassword'')"

definition needs_preflight :: "change \<Rightarrow> bool" where
  "needs_preflight change =
     (case change of
        SetDefaultPrivilege _ _ _ _ _ \<Rightarrow> False
      | RevokeDefaultPrivilege _ _ _ _ _ \<Rightarrow> False
      | AddMember _ _ _ _ \<Rightarrow> False
      | UpdateMemberOptions _ _ _ _ _ _ \<Rightarrow> False
      | RemoveMember _ _ _ \<Rightarrow> False
      | _ \<Rightarrow> True)"

type_synonym preflight_index = "(explorer_phase \<times> string, nat) btreemap"

text \<open>\<open>findings[position]\<close> is an indexing that panics out of bounds.\<close>

definition update_finding :: "nat \<Rightarrow> (authority_finding \<Rightarrow> authority_finding) \<Rightarrow> authority_finding list \<Rightarrow> authority_finding list option" where
  "update_finding position f findings = (if position < length findings then Some (findings[position := f (findings ! position)]) else None)"

definition preflight_finding ::
  "change \<Rightarrow> explorer_phase \<Rightarrow> nat \<Rightarrow> authority_finding list \<times> preflight_index \<Rightarrow> (authority_finding list \<times> preflight_index) option" where
  "preflight_finding change phase index = (\<lambda>(findings, preflight).
     if \<not> needs_preflight change then Some (findings, preflight)
     else (case fmlookup preflight (phase, change_kind change) of
             Some position \<Rightarrow> map_option (\<lambda>findings. (findings, preflight))
               (update_finding position (\<lambda>finding. finding\<lparr>af_change_indices := af_change_indices finding @ [index]\<rparr>) findings)
           | None \<Rightarrow> Some (findings @ [(new_finding DatabasePreflightRequired SeverityWarning [] phase index None)\<lparr>af_change_indices := [index]\<rparr>],
                          fmupd (phase, change_kind change) (length findings) preflight)))"

definition analyze_required_authority ::
  "change \<Rightarrow> explorer_phase \<Rightarrow> nat \<Rightarrow> authority_state \<Rightarrow> authority_finding list \<times> preflight_index \<Rightarrow>
     (authority_finding list \<times> preflight_index) option" where
  "analyze_required_authority change phase index au = (\<lambda>(findings, preflight).
     preflight_finding change phase index
       (findings @ role_findings change phase index au @ membership_findings change phase index au @ transfer_findings change phase index au,
        preflight))"

fun finish_preflight_findings :: "((explorer_phase \<times> string) \<times> nat) list \<Rightarrow> authority_finding list \<Rightarrow> authority_finding list option" where
  "finish_preflight_findings [] findings = Some findings"
| "finish_preflight_findings (((_, kind), position) # preflight) findings =
     Option.bind (update_finding position (\<lambda>finding. finding\<lparr>af_message :=
         (if length (af_change_indices finding) = 1
          then ''this '' @ kind @ '' operation requires database ownership or privilege preflight''
          else show_nat (length (af_change_indices finding)) @ '' '' @ kind @ '' operations require database ownership or privilege preflight'')\<rparr>) findings)
       (finish_preflight_findings preflight)"

definition access_finding :: "explorer_phase \<Rightarrow> string \<Rightarrow> reachability_status \<Rightarrow> reachability_status \<Rightarrow> authority_finding list" where
  "access_finding phase role before after =
     (let finding = (\<lambda>kind severity verb. [\<lparr>af_kind = kind, af_severity = severity, af_message = ''executor '' @ verb @ '' role '' @ role,
            af_phase = Some phase, af_change_index = None, af_role = Some role, af_change_indices = []\<rparr>]) in
      case (before, after) of
        (Reachable, Unreachable) \<Rightarrow> finding ExecutorLosesAccess SeverityWarning ''loses proven access to''
      | (Reachable, StatusUnknown) \<Rightarrow> finding ExecutorLosesAccess SeverityWarning ''loses proven access to''
      | (StatusUnknown, Unreachable) \<Rightarrow> finding MembershipDisconnectsRole SeverityWarning ''can no longer reach''
      | (Unreachable, Reachable) \<Rightarrow> finding RoleBecomesReachable SeverityInfo ''can now reach''
      | (StatusUnknown, Reachable) \<Rightarrow> finding RoleBecomesReachable SeverityInfo ''can now reach''
      | _ \<Rightarrow> [])"

definition compare_reachability ::
  "explorer_phase \<Rightarrow> (string, reachability_status) btreemap \<Rightarrow> (string, reachability_status) btreemap \<Rightarrow> string btreeset \<Rightarrow> bool \<Rightarrow> authority_finding list" where
  "compare_reachability phase before after dropped complete =
     concat (map (\<lambda>role.
        if role |\<in>| dropped \<and> \<not> contains_key after role then []
        else access_finding phase role (status_in complete before role) (status_in complete after role))
      (bt_elements (fmdom before |\<union>| fmdom after)))"

section \<open>The simulation\<close>

datatype recompute = WhenAffected | Always

record plan_analysis_options =
  po_authority_graph_complete :: bool
  po_pg_major_version :: nat

record phase_analysis =
  ph_phase :: explorer_phase
  ph_changes :: "change list"
  ph_executor_reachability :: "(string \<times> reachability_status) list"
  ph_executor_usage :: "(string \<times> reachability_status) list"

record plan_analysis =
  an_phases :: "phase_analysis list"
  an_findings :: "authority_finding list"

record run_state =
  rn_sim :: sim_state
  rn_attributes :: executor_attributes
  rn_reachability :: "(string, reachability_status) btreemap"
  rn_usage :: "(string, reachability_status) btreemap"
  rn_findings :: "authority_finding list"
  rn_preflight :: preflight_index
  rn_index :: nat
  rn_dropped :: "string btreeset"
  rn_phases :: "phase_analysis list"
  rn_computations :: nat

text \<open>A loop whose body may panic.\<close>

fun fold_o :: "('a \<Rightarrow> 's \<Rightarrow> 's option) \<Rightarrow> 'a list \<Rightarrow> 's \<Rightarrow> 's option" where
  "fold_o f [] s = Some s"
| "fold_o f (x # xs) s = Option.bind (f x s) (fold_o f xs)"

definition reach_both ::
  "executor_facts \<Rightarrow> bool \<Rightarrow> sim_state \<Rightarrow> executor_attributes \<Rightarrow>
     ((string, reachability_status) btreemap \<times> (string, reachability_status) btreemap) option" where
  "reach_both executor complete sim attributes =
     Option.bind (reachability (sm_graph sim) (sm_set_role sim) (ef_role executor) (ea_superuser attributes) complete) (\<lambda>set_reachable.
     Option.bind (reachability (sm_graph sim) (sm_usage sim) (ef_role executor) (ea_superuser attributes) complete) (\<lambda>usage_reachable.
       Some (set_reachable, usage_reachable)))"

definition authority_of :: "plan_analysis_options \<Rightarrow> run_state \<Rightarrow> authority_state" where
  "authority_of options run =
     \<lparr>au_graph = sm_graph (rn_sim run), au_set_reachable = rn_reachability run, au_usage_reachable = rn_usage run,
      au_admin_options = sm_admin_options (rn_sim run), au_is_superuser = ea_superuser (rn_attributes run),
      au_createrole = ea_createrole (rn_attributes run), au_complete = po_authority_graph_complete options,
      au_pg_major_version = po_pg_major_version options\<rparr>"

definition simulate_change ::
  "executor_facts \<Rightarrow> plan_analysis_options \<Rightarrow> recompute \<Rightarrow> explorer_phase \<Rightarrow> change \<Rightarrow> run_state \<Rightarrow> run_state option" where
  "simulate_change executor options recompute phase change run =
     Option.bind (analyze_required_authority change phase (rn_index run) (authority_of options run) (rn_findings run, rn_preflight run)) (\<lambda>(findings, preflight).
     Option.bind (explore_change executor (po_pg_major_version options) change (rn_sim run)) (\<lambda>sim.
     let attributes = apply_attributes executor change (rn_attributes run);
         run = run\<lparr>rn_sim := sim, rn_attributes := attributes, rn_findings := findings, rn_preflight := preflight,
           rn_index := rn_index run + 1,
           rn_dropped := (case change of DropRole name \<Rightarrow> finsert name (rn_dropped run) | _ \<Rightarrow> rn_dropped run)\<rparr> in
     if recompute \<noteq> WhenAffected \<or> affects_reachability change
     then map_option (\<lambda>(set_reachable, usage_reachable). run\<lparr>rn_reachability := set_reachable, rn_usage := usage_reachable,
            rn_computations := rn_computations run + 2\<rparr>) (reach_both executor (po_authority_graph_complete options) sim attributes)
     else Some run))"

definition simulate_phase ::
  "executor_facts \<Rightarrow> plan_analysis_options \<Rightarrow> recompute \<Rightarrow> explorer_phase \<times> change list \<Rightarrow> run_state \<Rightarrow> run_state option" where
  "simulate_phase executor options recompute = (\<lambda>(phase, changes) run.
     map_option (\<lambda>after. after\<lparr>
         rn_findings := rn_findings after @ compare_reachability phase (rn_usage run) (rn_usage after) (rn_dropped after) (po_authority_graph_complete options),
         rn_phases := rn_phases after @ [\<lparr>ph_phase = phase, ph_changes = changes,
           ph_executor_reachability = bt_entries (rn_reachability after), ph_executor_usage = bt_entries (rn_usage after)\<rparr>]\<rparr>)
       (fold_o (simulate_change executor options recompute phase) changes (run\<lparr>rn_dropped := {||}\<rparr>)))"

definition start_run ::
  "role_graph \<Rightarrow> executor_facts \<Rightarrow> plan_analysis_options \<Rightarrow> run_state option" where
  "start_run graph executor options =
     (let (set_role, usage, admin_options) = initial_edge_facts graph executor (po_pg_major_version options);
          sim = \<lparr>sm_graph = graph, sm_set_role = set_role, sm_usage = usage, sm_admin_options = admin_options\<rparr>;
          attributes = initial_attributes graph executor in
      map_option (\<lambda>(set_reachable, usage_reachable).
          \<lparr>rn_sim = sim, rn_attributes = attributes, rn_reachability = set_reachable, rn_usage = usage_reachable, rn_findings = [],
           rn_preflight = fmempty, rn_index = 0, rn_dropped = {||}, rn_phases = [], rn_computations = 2\<rparr>)
        (reach_both executor (po_authority_graph_complete options) sim attributes))"

definition simulate ::
  "role_graph \<Rightarrow> change list \<Rightarrow> executor_facts \<Rightarrow> plan_analysis_options \<Rightarrow> recompute \<Rightarrow> (plan_analysis \<times> nat) option" where
  "simulate graph changes executor options recompute =
     Option.bind (start_run graph executor options) (\<lambda>start.
     Option.bind (fold_o (simulate_phase executor options recompute) (grouped_phases changes) start) (\<lambda>run.
     map_option (\<lambda>findings. (\<lparr>an_phases = rn_phases run, an_findings = findings\<rparr>, rn_computations run))
       (finish_preflight_findings (bt_entries (rn_preflight run)) (rn_findings run))))"

definition analyze_changes_with_options ::
  "role_graph \<Rightarrow> change list \<Rightarrow> executor_facts \<Rightarrow> plan_analysis_options \<Rightarrow> plan_analysis option" where
  "analyze_changes_with_options graph changes executor options = map_option fst (simulate graph changes executor options WhenAffected)"

definition DEFAULT_PG_MAJOR_VERSION :: nat where "DEFAULT_PG_MAJOR_VERSION = 16"

definition analyze_changes :: "role_graph \<Rightarrow> change list \<Rightarrow> executor_facts \<Rightarrow> plan_analysis option" where
  "analyze_changes graph changes executor =
     analyze_changes_with_options graph changes executor
       \<lparr>po_authority_graph_complete = True, po_pg_major_version = DEFAULT_PG_MAJOR_VERSION\<rparr>"

section \<open>Authority for option increases\<close>

definition mark_executor_authority_edges :: "role_graph \<Rightarrow> executor_facts \<Rightarrow> nat \<Rightarrow> role_graph" where
  "mark_executor_authority_edges graph executor pg_major_version =
     (if pg_major_version < 16 \<or> ea_superuser (initial_attributes graph executor) then graph
      else
        (let edges = concat (map (\<lambda>((role, member), options).
               map (\<lambda>(grantor, _). (role, member, grantor)) (filter (\<lambda>(_, o'). mo_admin o') (bt_entries options)))
             (filter (\<lambda>((_, member), _). member = ef_role executor) (bt_entries (rg_membership_edge_options graph)))) in
         graph\<lparr>rg_executor_authority_edges := rg_executor_authority_edges graph |\<union>| fset_of_list edges\<rparr>))"

definition usable_holders ::
  "edge_facts \<Rightarrow> string set \<Rightarrow> (string, reachability_status) btreemap \<Rightarrow> (string, string btreeset) btreemap" where
  "usable_holders admins dropped reachable =
     fold (\<lambda>((role, holder), admin) usable.
         if admin = CapAllowed \<and> holder \<notin> dropped \<and> fmlookup reachable holder = Some Reachable
         then entry_extend role {|holder|} usable else usable)
       (bt_entries admins) fmempty"

definition analysis_membership_authority ::
  "role_graph \<Rightarrow> change list \<Rightarrow> executor_facts \<Rightarrow> nat \<Rightarrow> bool \<Rightarrow> membership_authority option" where
  "analysis_membership_authority graph changes executor pg_major_version complete =
     (let (set_role, usage, admin_options) = initial_edge_facts graph executor pg_major_version in
      Option.bind (fold_o (explore_change executor pg_major_version)
          (filter (\<lambda>change. phase_for change < PhaseMembershipAdd) changes)
          \<lparr>sm_graph = graph, sm_set_role = set_role, sm_usage = usage, sm_admin_options = admin_options\<rparr>) (\<lambda>projected.
      let dropped = set (concat (map (\<lambda>change. case change of DropRole name \<Rightarrow> [name] | _ \<Rightarrow> []) changes));
          attributes = initial_attributes (sm_graph projected) executor in
      map_option (\<lambda>reachable.
        let usable = usable_holders (sm_admin_options projected) dropped reachable in
        \<lparr>ma_executor = ef_role executor,
         ma_usable_grantors = (case (ea_superuser attributes, ef_bootstrap_role executor) of
             (True, Some bootstrap) \<Rightarrow> fold (\<lambda>edge usable. entry_extend (me_role edge) {|bootstrap|} usable) (bt_elements (rg_memberships graph)) usable
           | _ \<Rightarrow> usable)\<rparr>)
        (reachability (sm_graph projected) (sm_usage projected) (ef_role executor) (ea_superuser attributes) complete)))"

section \<open>Snapshots and requests\<close>

record snapshot_grant =
  sg_role :: string
  sg_object_type :: object_type
  sg_schema :: "string option"
  sg_name :: "string option"
  sg_privileges :: "privilege btreeset"
  sg_grantors :: "(string, privilege btreeset) btreemap"

record snapshot_grant_target =
  st_role :: string
  st_object_type :: object_type
  st_schema :: "string option"
  st_name :: "string option"

record snapshot_default_privilege =
  sd_owner :: string
  sd_schema :: "string option"
  sd_on_type :: object_type
  sd_grantee :: string
  sd_privileges :: "privilege btreeset"

record snapshot_membership =
  sb_role :: string
  sb_member :: string
  sb_inherit :: bool
  sb_admin :: bool
  sb_grantors :: "string btreeset"
  sb_grantor_options :: "(string, membership_options) btreemap"

text \<open>A role and a schema of a snapshot have the fields of a role and a schema of a graph.\<close>

record explorer_snapshot =
  sn_roles :: "(string, role_state) btreemap"
  sn_schemas :: "(string, schema_state) btreemap"
  sn_grants :: "snapshot_grant list"
  sn_default_privileges :: "snapshot_default_privilege list"
  sn_memberships :: "snapshot_membership list"
  sn_inherent_grants :: "snapshot_grant_target list"

definition snapshot_key :: "snapshot_grant \<Rightarrow> grant_key" where
  "snapshot_key grant = grant_key_of (grantee_parse (sg_role grant)) (sg_object_type grant) (sg_schema grant) (sg_name grant)"

definition extend_grantors ::
  "snapshot_grant \<Rightarrow> (grant_key, (string, privilege btreeset) btreemap) btreemap \<Rightarrow> (grant_key, (string, privilege btreeset) btreemap) btreemap" where
  "extend_grantors grant grantors =
     (if sg_grantors grant = fmempty then grantors
      else fmupd (snapshot_key grant)
        (fold (\<lambda>(grantor, privileges). entry_extend grantor privileges) (bt_entries (sg_grantors grant))
          (unwrap_or (fmlookup grantors (snapshot_key grant)) fmempty)) grantors)"

definition snapshot_default_key :: "snapshot_default_privilege \<Rightarrow> default_priv_key" where
  "snapshot_default_key item =
     default_key (sd_owner item) (case sd_schema item of None \<Rightarrow> Global | Some schema \<Rightarrow> SchemaScope schema) (sd_on_type item)
       (grantee_parse (sd_grantee item))"

definition merge_edge :: "snapshot_membership \<Rightarrow> (string \<times> string, membership_edge) btreemap \<Rightarrow> (string \<times> string, membership_edge) btreemap" where
  "merge_edge item edges =
     (let key = (sb_role item, sb_member item);
          edge = unwrap_or (fmlookup edges key) \<lparr>me_role = sb_role item, me_member = sb_member item, me_inherit = False, me_admin = False\<rparr> in
      fmupd key (edge\<lparr>me_inherit := (me_inherit edge \<or> sb_inherit item), me_admin := (me_admin edge \<or> sb_admin item)\<rparr>) edges)"

definition merge_options ::
  "snapshot_membership \<Rightarrow> (string \<times> string, (string, membership_options) btreemap) btreemap \<Rightarrow> (string \<times> string, (string, membership_options) btreemap) btreemap" where
  "merge_options item options =
     (if sb_grantor_options item = fmempty then options
      else fmupd (sb_role item, sb_member item)
        (unwrap_or (fmlookup options (sb_role item, sb_member item)) fmempty ++\<^sub>f sb_grantor_options item) options)"

definition merge_grantors :: "snapshot_membership \<Rightarrow> (string \<times> string, string btreeset) btreemap \<Rightarrow> (string \<times> string, string btreeset) btreemap" where
  "merge_grantors item grantors =
     (if sb_grantors item = {||} then grantors else entry_extend (sb_role item, sb_member item) (sb_grantors item) grantors)"

definition into_graph :: "explorer_snapshot \<Rightarrow> role_graph" where
  "into_graph snapshot =
     empty_graph\<lparr>
       rg_roles := sn_roles snapshot,
       rg_schemas := sn_schemas snapshot,
       rg_grants := fold (\<lambda>grant. entry_extend (snapshot_key grant) (sg_privileges grant)) (sn_grants snapshot) fmempty,
       rg_default_privileges := fold (\<lambda>item. entry_extend (snapshot_default_key item) (sd_privileges item)) (sn_default_privileges snapshot) fmempty,
       rg_memberships := fset_of_list (map snd (bt_entries (fold merge_edge (sn_memberships snapshot) fmempty))),
       rg_inherent_grants := fset_of_list (map (\<lambda>grant. grant_key_of (grantee_parse (st_role grant)) (st_object_type grant) (st_schema grant) (st_name grant))
         (sn_inherent_grants snapshot)),
       rg_membership_edge_grantors := fold merge_grantors (sn_memberships snapshot) fmempty,
       rg_membership_edge_options := fold merge_options (sn_memberships snapshot) fmempty,
       rg_grant_entry_grantors := fold extend_grantors (sn_grants snapshot) fmempty\<rparr>"

record analyze_request =
  rq_schema_version :: string
  rq_current :: explorer_snapshot
  rq_desired_yaml :: string
  rq_mode :: reconciliation_mode
  rq_executor :: executor_facts
  rq_pg_major_version :: "nat option"
  rq_authority_graph_complete :: "bool option"

record analyze_response =
  re_pg_major_version :: nat
  re_authority_graph_complete :: bool
  re_changes :: "change list"
  re_phases :: "phase_analysis list"
  re_findings :: "authority_finding list"

datatype analysis_error =
    MembershipOptionsFailed membership_options_error
  | UnsupportedSchemaVersion string
  | ManifestFailed manifest_error
  | PasswordSourceNotAllowed
  | TooManyEntries string nat nat
  | DesiredYamlTooLarge nat nat
  | UnsupportedPgMajorVersion nat nat nat

definition EXPLORER_SCHEMA_VERSION :: string where "EXPLORER_SCHEMA_VERSION = ''pgroles.explorer.v1''"
definition MAX_EXPLORER_YAML_BYTES :: nat where "MAX_EXPLORER_YAML_BYTES = 1024 * 1024"
definition MIN_PG_MAJOR_VERSION :: nat where "MIN_PG_MAJOR_VERSION = 12"
definition MAX_PG_MAJOR_VERSION :: nat where "MAX_PG_MAJOR_VERSION = 20"

definition effective_pg_major_version :: "analyze_request \<Rightarrow> analysis_error + nat" where
  "effective_pg_major_version request =
     (let version = unwrap_or (rq_pg_major_version request) DEFAULT_PG_MAJOR_VERSION in
      if \<not> (MIN_PG_MAJOR_VERSION \<le> version \<and> version \<le> MAX_PG_MAJOR_VERSION)
      then Inl (UnsupportedPgMajorVersion version MIN_PG_MAJOR_VERSION MAX_PG_MAJOR_VERSION) else Inr version)"

definition limit_entries :: "string \<Rightarrow> nat \<Rightarrow> nat \<Rightarrow> analysis_error + unit" where
  "limit_entries collection actual limit = (if actual > limit then Inl (TooManyEntries collection actual limit) else Inr ())"

definition map_size :: "('k, 'v) btreemap \<Rightarrow> nat" where
  "map_size m = fcard (fmdom m)"

definition validate_request_bounds :: "analyze_request \<Rightarrow> analysis_error + unit" where
  "validate_request_bounds request =
     (let current = rq_current request in
      sequence_r [
        ensure_r (\<not> length (rq_desired_yaml request) > MAX_EXPLORER_YAML_BYTES)
          (DesiredYamlTooLarge (length (rq_desired_yaml request)) MAX_EXPLORER_YAML_BYTES),
        limit_entries ''current.roles'' (map_size (sn_roles current)) MAX_ROLES,
        limit_entries ''current.schemas'' (map_size (sn_schemas current)) MAX_SCHEMAS,
        limit_entries ''current.grants'' (length (sn_grants current)) MAX_GRANTS,
        limit_entries ''current.default_privileges'' (length (sn_default_privileges current)) MAX_DEFAULT_PRIVILEGES,
        limit_entries ''current.memberships'' (length (sn_memberships current)) MAX_MEMBERSHIPS,
        limit_entries ''current.inherent_grants'' (length (sn_inherent_grants current)) MAX_GRANTS,
        limit_entries ''executor.memberships'' (length (ef_memberships (rq_executor request))) MAX_MEMBERSHIPS,
        for_each (\<lambda>(_, role). limit_entries ''current.roles[].config'' (map_size (rs_config role)) MAX_CONFIG_ENTRIES) (bt_entries (sn_roles current)),
        for_each (\<lambda>grant. sequence_r [
            limit_entries ''current.grants[].privileges'' (fcard (sg_privileges grant)) MAX_PRIVILEGES,
            limit_entries ''current.grants[].grantors'' (map_size (sg_grantors grant)) MAX_ROLES,
            for_each (\<lambda>(_, privileges). limit_entries ''current.grants[].grantors[].privileges'' (fcard privileges) MAX_PRIVILEGES)
              (bt_entries (sg_grantors grant))]) (sn_grants current),
        limit_entries ''current.grants[].grantors (total)'' (sum_list (map (\<lambda>grant. map_size (sg_grantors grant)) (sn_grants current))) MAX_GRANTS,
        for_each (\<lambda>item. limit_entries ''current.default_privileges[].privileges'' (fcard (sd_privileges item)) MAX_PRIVILEGES)
          (sn_default_privileges current),
        limit_entries ''current.memberships[].grantors (total)'' (sum_list (map (\<lambda>item. fcard (sb_grantors item)) (sn_memberships current))) MAX_MEMBERSHIPS])"

definition prepare_policy ::
  "(string \<Rightarrow> manifest_error + policy_manifest) \<Rightarrow> string \<Rightarrow> manifest_error + (policy_manifest \<times> expanded_manifest \<times> role_graph)" where
  "prepare_policy parse_manifest yaml =
     bind_r (parse_manifest yaml) (\<lambda>manifest.
     bind_r (expand_manifest manifest) (\<lambda>expanded.
     bind_r (from_expanded expanded (pm_default_owner manifest)) (\<lambda>desired.
       Inr (manifest, expanded, desired))))"

text \<open>The checks of a request, up to the plan.\<close>

definition prepare_request ::
  "(string \<Rightarrow> manifest_error + policy_manifest) \<Rightarrow> analyze_request \<Rightarrow> analysis_error + (nat \<times> bool \<times> role_graph \<times> change list)" where
  "prepare_request parse_manifest request =
     (if rq_schema_version request \<noteq> EXPLORER_SCHEMA_VERSION then Inl (UnsupportedSchemaVersion (rq_schema_version request))
      else bind_r (validate_request_bounds request) (\<lambda>_.
           bind_r (effective_pg_major_version request) (\<lambda>pg_major_version.
           case prepare_policy parse_manifest (rq_desired_yaml request) of
             Inl error \<Rightarrow> Inl (ManifestFailed error)
           | Inr (manifest, expanded, desired) \<Rightarrow>
               if list_ex (\<lambda>role. rd_password role \<noteq> None) (pm_roles manifest) then Inl PasswordSourceNotAllowed
               else
                 (let graph = mark_executor_authority_edges (into_graph (rq_current request)) (rq_executor request) pg_major_version in
                  Inr (pg_major_version, unwrap_or (rq_authority_graph_complete request) True, graph,
                       plan_changes graph desired manifest expanded (rq_mode request))))))"

definition analyze :: "(string \<Rightarrow> manifest_error + policy_manifest) \<Rightarrow> analyze_request \<Rightarrow> (analysis_error + analyze_response) option" where
  "analyze parse_manifest request =
     (case prepare_request parse_manifest request of
        Inl error \<Rightarrow> Some (Inl error)
      | Inr (pg_major_version, complete, graph, changes) \<Rightarrow>
          Option.bind (analysis_membership_authority graph changes (rq_executor request) pg_major_version complete) (\<lambda>authority.
          case resolve_membership_options changes graph authority of
            Inl error \<Rightarrow> Some (Inl (MembershipOptionsFailed error))
          | Inr changes \<Rightarrow>
              map_option (\<lambda>analysis. Inr \<lparr>re_pg_major_version = pg_major_version, re_authority_graph_complete = complete,
                  re_changes = changes, re_phases = an_phases analysis, re_findings = an_findings analysis\<rparr>)
                (analyze_changes_with_options graph changes (rq_executor request)
                  \<lparr>po_authority_graph_complete = complete, po_pg_major_version = pg_major_version\<rparr>)))"

end
