(* ===== verification/ExplorerLaws.thy ===== *)
theory ExplorerLaws
  imports Explorer
begin

text \<open>
  The explorer's reachability is the closure of the proven and of the possible edges; its simulation always ends and never panics; and
  recomputing reachability only after the changes that can affect it gives the same analysis as recomputing it after every change.
\<close>

section \<open>Reachability\<close>

definition follows :: "(set_role_capability \<Rightarrow> bool) \<Rightarrow> edge_facts \<Rightarrow> (string \<times> string) set" where
  "follows follow facts = {(member, role). \<exists>cap. fmlookup facts (role, member) = Some cap \<and> follow cap}"

lemma in_granted_to: "(role, cap) \<in> set (granted_to facts member) \<longleftrightarrow> fmlookup facts (role, member) = Some cap"
  by (force simp: granted_to_def)

lemma visit_all:
  assumes "fold (visit follow) edges (queue, seen) = (queue', seen')"
  shows "fset seen' = fset seen \<union> {role. \<exists>cap. (role, cap) \<in> set edges \<and> follow cap}"
    and "set queue' = set queue \<union> (fset seen' - fset seen)"
    and "length queue' + card (fset seen) = length queue + card (fset seen')"
proof -
  have "fset seen' = fset seen \<union> {role. \<exists>cap. (role, cap) \<in> set edges \<and> follow cap} \<and>
      set queue' = set queue \<union> (fset seen' - fset seen) \<and> length queue' + card (fset seen) = length queue + card (fset seen')"
    using assms
  proof (induction edges arbitrary: queue seen)
    case (Cons e edges)
    obtain role cap where e: "e = (role, cap)" by (cases e)
    show ?case
    proof (cases "follow cap \<and> role |\<notin>| seen")
      case True
      then have "visit follow e (queue, seen) = (queue @ [role], finsert role seen)" by (simp add: e visit_def)
      then have "fold (visit follow) edges (queue @ [role], finsert role seen) = (queue', seen')" using Cons.prems by simp
      from Cons.IH[OF this] True show ?thesis by (auto simp: e)
    next
      case False
      then have "visit follow e (queue, seen) = (queue, seen)" by (auto simp: e visit_def)
      then have "fold (visit follow) edges (queue, seen) = (queue', seen')" using Cons.prems by simp
      from Cons.IH[OF this] False show ?thesis by (auto simp: e)
    qed
  qed simp
  then show "fset seen' = fset seen \<union> {role. \<exists>cap. (role, cap) \<in> set edges \<and> follow cap}"
    "set queue' = set queue \<union> (fset seen' - fset seen)" "length queue' + card (fset seen) = length queue + card (fset seen')" by auto
qed

text \<open>What holds of the queue and of the roles seen before every iteration of the traversal.\<close>

definition traversal_invariant :: "(set_role_capability \<Rightarrow> bool) \<Rightarrow> edge_facts \<Rightarrow> string \<Rightarrow> string list \<times> string btreeset \<Rightarrow> bool" where
  "traversal_invariant follow facts executor = (\<lambda>(queue, seen).
     executor |\<in>| seen \<and> set queue \<subseteq> fset seen \<and>
     (\<forall>member \<in> fset seen - set queue. \<forall>role. (member, role) \<in> follows follow facts \<longrightarrow> role |\<in>| seen) \<and>
     fset seen \<subseteq> (follows follow facts)\<^sup>* `` {executor} \<and> fset seen \<subseteq> insert executor (fst ` fset (fmdom facts)))"

definition traversal_measure :: "edge_facts \<Rightarrow> string \<Rightarrow> string list \<times> string btreeset \<Rightarrow> nat" where
  "traversal_measure facts executor = (\<lambda>(queue, seen). 2 * (card (insert executor (fst ` fset (fmdom facts))) - card (fset seen)) + length queue)"

lemma traversal_step:
  assumes "traversal_invariant follow facts executor (queue, seen)" "queue \<noteq> []"
  shows "traversal_invariant follow facts executor (visit_next follow facts (queue, seen))"
    and "traversal_measure facts executor (visit_next follow facts (queue, seen)) < traversal_measure facts executor (queue, seen)"
proof -
  let ?T = "insert executor (fst ` fset (fmdom facts))"
  obtain member rest where q: "queue = member # rest" using assms(2) by (cases queue) auto
  obtain queue' seen' where v: "visit_next follow facts (queue, seen) = (queue', seen')" by (cases "visit_next follow facts (queue, seen)")
  then have "fold (visit follow) (granted_to facts member) (rest, seen) = (queue', seen')" by (simp add: visit_next_def q)
  note step = visit_all[OF this]
  have new: "fset seen' = fset seen \<union> {role. (member, role) \<in> follows follow facts}"
    using step(1) by (auto simp: in_granted_to follows_def)
  have inv: "executor |\<in>| seen" "member |\<in>| seen" "set rest \<subseteq> fset seen" "fset seen \<subseteq> (follows follow facts)\<^sup>* `` {executor}"
    "fset seen \<subseteq> ?T" "\<And>m role. m |\<in>| seen \<Longrightarrow> m \<noteq> member \<Longrightarrow> m \<notin> set rest \<Longrightarrow> (m, role) \<in> follows follow facts \<Longrightarrow> role |\<in>| seen"
    using assms(1) by (auto simp: traversal_invariant_def q)
  have bound: "fset seen' \<subseteq> ?T" using new inv(5) by (auto simp: follows_def image_iff intro: fmdomI) (metis fmdomI fst_conv)
  have closed: "role |\<in>| seen'" if "m |\<in>| seen'" "m \<notin> set queue'" "(m, role) \<in> follows follow facts" for m role
  proof -
    have "m |\<in>| seen" "m \<notin> set rest" using that(1,2) step(2) by auto
    then show ?thesis using inv(6)[OF _ _ _ that(3)] that(3) new by (cases "m = member") auto
  qed
  have "fset seen' \<subseteq> (follows follow facts)\<^sup>* `` {executor}"
    using new inv(2,4) by (auto intro: rtrancl_into_rtrancl)
  moreover have "executor |\<in>| seen'" "set queue' \<subseteq> fset seen'" using inv(1,3) new step(2) by auto
  ultimately show "traversal_invariant follow facts executor (visit_next follow facts (queue, seen))"
    using bound closed unfolding v traversal_invariant_def prod.case by blast
  have "fset seen \<subseteq> fset seen'" using new by blast
  then have "card (fset seen) \<le> card (fset seen')" "card (fset seen') \<le> card ?T" using bound by (auto intro!: card_mono)
  then show "traversal_measure facts executor (visit_next follow facts (queue, seen)) < traversal_measure facts executor (queue, seen)"
    using step(3) v unfolding traversal_measure_def q by simp
qed

lemma traverse_exact: "\<exists>seen. traverse follow facts executor = Some seen \<and> fset seen = (follows follow facts)\<^sup>* `` {executor}"
proof -
  let ?loop = "while_option (\<lambda>(queue, _). queue \<noteq> []) (visit_next follow facts) ([executor], {|executor|})"
  let ?I = "traversal_invariant follow facts executor"
  have start: "?I ([executor], {|executor|})" by (auto simp: traversal_invariant_def)
  have "\<exists>t. ?loop = Some t"
    by (rule measure_while_option_Some[where P = ?I and f = "traversal_measure facts executor"])
      (use traversal_step start in \<open>auto split: prod.splits\<close>)
  then obtain queue seen where t: "?loop = Some (queue, seen)" by auto
  have "queue = []" using while_option_stop[OF t] by simp
  moreover have "?I (queue, seen)"
    by (rule while_option_rule[where P = ?I, OF _ t start]) (use traversal_step(1) in \<open>auto split: prod.splits\<close>)
  ultimately have i: "executor |\<in>| seen" "\<And>m role. m |\<in>| seen \<Longrightarrow> (m, role) \<in> follows follow facts \<Longrightarrow> role |\<in>| seen"
    "fset seen \<subseteq> (follows follow facts)\<^sup>* `` {executor}" by (auto simp: traversal_invariant_def)
  have "role |\<in>| seen" if "(executor, role) \<in> (follows follow facts)\<^sup>*" for role
    using that by (induction rule: rtrancl_induct) (auto intro: i)
  then have "fset seen = (follows follow facts)\<^sup>* `` {executor}" using i(3) by auto
  then show ?thesis using t by (simp add: traverse_def)
qed

text \<open>
  C33: the reachability of roles is always computed, and it is exact: a role of the graph or of the facts is reachable when the executor
  is a superuser or a path of allowed edges leads to it, unreachable when the graph is complete and not even a path of edges that are
  not denied does, and unknown otherwise; other roles are not listed.
\<close>

theorem reachability_exact:
  "\<exists>statuses. reachability graph facts executor superuser complete = Some statuses \<and>
     (\<forall>role. fmlookup statuses role =
        (if role |\<in>| all_roles graph facts executor
         then Some (if superuser \<or> (executor, role) \<in> (follows (\<lambda>cap. cap = CapAllowed) facts)\<^sup>* then Reachable
                    else if complete \<and> (executor, role) \<notin> (follows (\<lambda>cap. cap \<noteq> CapDenied) facts)\<^sup>* then Unreachable
                    else StatusUnknown)
         else None))"
proof -
  obtain definite where d: "traverse (\<lambda>cap. cap = CapAllowed) facts executor = Some definite"
    "fset definite = (follows (\<lambda>cap. cap = CapAllowed) facts)\<^sup>* `` {executor}" using traverse_exact by blast
  obtain possible where p: "traverse (\<lambda>cap. cap \<noteq> CapDenied) facts executor = Some possible"
    "fset possible = (follows (\<lambda>cap. cap \<noteq> CapDenied) facts)\<^sup>* `` {executor}" using traverse_exact by blast
  have look: "fmlookup (collect_map (map (\<lambda>role. (role, f role)) (bt_elements roles))) role = (if role |\<in>| roles then Some (f role) else None)"
    for f :: "string \<Rightarrow> reachability_status" and roles role
    by (subst lookup_collect_map_distinct) (auto simp: comp_def map_of_map_restrict[of f] restrict_map_def)
  show ?thesis
    using d p by (auto simp: reachability_def look Let_def)
qed

section \<open>The simulation always ends\<close>

lemma fold_o_invariant:
  assumes "P s" "\<And>x s. x \<in> set xs \<Longrightarrow> P s \<Longrightarrow> \<exists>t. f x s = Some t \<and> P t"
  shows "\<exists>t. fold_o f xs s = Some t \<and> P t"
  using assms
proof (induction xs arbitrary: s)
  case (Cons x xs)
  then obtain t where "f x s = Some t" "P t" by fastforce
  then show ?case using Cons by simp
qed simp

lemma reachability_total: "\<exists>statuses. reachability graph facts executor superuser complete = Some statuses"
  using traverse_exact[of "\<lambda>cap. cap = CapAllowed" facts executor] traverse_exact[of "\<lambda>cap. cap \<noteq> CapDenied" facts executor]
  by (auto simp: reachability_def Let_def)

lemma reach_both_total: "\<exists>r. reach_both executor complete sim attributes = Some r"
  using reachability_total[of "sm_graph sim" "sm_set_role sim" "ef_role executor" "ea_superuser attributes" complete]
    reachability_total[of "sm_graph sim" "sm_usage sim" "ef_role executor" "ea_superuser attributes" complete]
  by (auto simp: reach_both_def)

lemma add_absent_grantor_total: "\<exists>g. add_absent_grantor role member grantor binding graph = Some g"
  by (auto simp: add_absent_grantor_def complete_membership_options_def split: option.splits)

lemma explore_change_total: "\<exists>s'. explore_change executor pg change s = Some s'"
proof (cases change)
  case (UpdateMemberOptions role member grantor inherit admin binding)
  then show ?thesis
    using add_absent_grantor_total[of role member grantor binding "sm_graph s"] by (auto simp: explore_update_def)
qed (simp_all add: Let_def)

lemma explore_changes_total: "\<exists>s'. fold_o (explore_change executor pg) changes s = Some s'"
proof -
  have "\<exists>s'. fold_o (explore_change executor pg) changes s = Some s' \<and> True"
    by (rule fold_o_invariant) (simp_all add: explore_change_total)
  then show ?thesis by simp
qed

definition preflight_in_range :: "authority_finding list \<Rightarrow> preflight_index \<Rightarrow> bool" where
  "preflight_in_range findings preflight \<longleftrightarrow> (\<forall>key position. fmlookup preflight key = Some position \<longrightarrow> position < length findings)"

lemma required_authority_total:
  assumes "preflight_in_range findings preflight"
  shows "\<exists>findings' preflight'. analyze_required_authority change phase index au (findings, preflight) = Some (findings', preflight') \<and>
    preflight_in_range findings' preflight'"
proof -
  let ?fs = "findings @ role_findings change phase index au @ membership_findings change phase index au @ transfer_findings change phase index au"
  have "preflight_in_range ?fs preflight" using assms by (auto simp: preflight_in_range_def intro: trans_less_add1)
  then show ?thesis
    by (auto simp: analyze_required_authority_def preflight_finding_def update_finding_def preflight_in_range_def less_Suc_eq split: option.splits)
qed

abbreviation run_in_range :: "run_state \<Rightarrow> bool" where
  "run_in_range run \<equiv> preflight_in_range (rn_findings run) (rn_preflight run)"

lemma simulate_change_total:
  assumes "run_in_range run"
  shows "\<exists>run'. simulate_change executor options recompute phase change run = Some run' \<and> run_in_range run'"
proof -
  obtain findings preflight where f: "analyze_required_authority change phase (rn_index run) (authority_of options run) (rn_findings run, rn_preflight run) =
      Some (findings, preflight)" "preflight_in_range findings preflight" using required_authority_total[OF assms] by blast
  obtain sim where "explore_change executor (po_pg_major_version options) change (rn_sim run) = Some sim" using explore_change_total by blast
  then show ?thesis
    using f reach_both_total[of executor "po_authority_graph_complete options" sim "apply_attributes executor change (rn_attributes run)"]
    by (auto simp: simulate_change_def Let_def)
qed

lemma simulate_phase_total:
  assumes "run_in_range run"
  shows "\<exists>run'. simulate_phase executor options recompute batch run = Some run' \<and> run_in_range run'"
proof -
  have "\<exists>run'. fold_o (simulate_change executor options recompute (fst batch)) (snd batch) (run\<lparr>rn_dropped := {||}\<rparr>) = Some run' \<and> run_in_range run'"
    by (rule fold_o_invariant) (use assms simulate_change_total in auto)
  then show ?thesis
    by (auto simp: simulate_phase_def case_prod_beta preflight_in_range_def intro!: trans_less_add1)
qed

lemma finish_preflight_total:
  "(\<And>key position. (key, position) \<in> set preflight \<Longrightarrow> position < length findings) \<Longrightarrow>
     \<exists>findings'. finish_preflight_findings preflight findings = Some findings'"
proof (induction preflight arbitrary: findings)
  case (Cons entry preflight)
  obtain phase kind position where e: "entry = ((phase, kind), position)" by (metis surj_pair)
  have "position < length findings" using Cons.prems[of "(phase, kind)" position] e by simp
  then have u: "update_finding position f findings = Some (findings[position := f (findings ! position)])" for f
    by (simp add: update_finding_def)
  show ?case unfolding e finish_preflight_findings.simps u Option.bind.simps
    by (rule Cons.IH) (use Cons.prems in force)
qed simp

lemma start_run_total: "\<exists>run. start_run graph executor options = Some run \<and> run_in_range run"
proof -
  obtain set_role usage admin_options where f: "initial_edge_facts graph executor (po_pg_major_version options) = (set_role, usage, admin_options)"
    by (cases "initial_edge_facts graph executor (po_pg_major_version options)")
  show ?thesis
    using reach_both_total[of executor "po_authority_graph_complete options"
        "\<lparr>sm_graph = graph, sm_set_role = set_role, sm_usage = usage, sm_admin_options = admin_options\<rparr>" "initial_attributes graph executor"]
    by (auto simp: start_run_def f Let_def preflight_in_range_def)
qed

lemma simulate_total: "\<exists>r. simulate graph changes executor options recompute = Some r"
proof -
  obtain start where start: "start_run graph executor options = Some start" "run_in_range start" using start_run_total by blast
  have "\<exists>run. fold_o (simulate_phase executor options recompute) (grouped_phases changes) start = Some run \<and> run_in_range run"
    by (rule fold_o_invariant) (use start(2) simulate_phase_total in auto)
  then obtain run where run: "fold_o (simulate_phase executor options recompute) (grouped_phases changes) start = Some run" "run_in_range run"
    by blast
  have "\<exists>findings'. finish_preflight_findings (bt_entries (rn_preflight run)) (rn_findings run) = Some findings'"
    by (rule finish_preflight_total) (use run(2) in \<open>auto simp: preflight_in_range_def\<close>)
  then show ?thesis using start run by (auto simp: simulate_def)
qed


section \<open>Recomputing only when needed\<close>

lemma fmdom_update_role [simp]: "fmdom (rg_roles (update_role name f graph)) = fmdom (rg_roles graph)"
  by (auto simp: update_role_def fmlookup_dom_iff split: option.splits)

lemma roles_update_schema [simp]: "rg_roles (update_schema name f graph) = rg_roles graph"
  by (simp add: update_schema_def split: option.splits)

lemma roles_explore_revoke [simp]: "rg_roles (explore_revoke key privileges grantor graph) = rg_roles graph"
  by (simp add: explore_revoke_def Let_def)

lemma unaffected_facts:
  assumes "\<not> affects_reachability change" "explore_change executor pg change s = Some s'"
  shows "sm_set_role s' = sm_set_role s" "sm_usage s' = sm_usage s" "fmdom (rg_roles (sm_graph s')) = fmdom (rg_roles (sm_graph s))"
  using assms by (cases change; auto simp: affects_reachability_def on_graph_def Let_def split: option.splits if_splits)+

lemma unaffected_superuser:
  assumes "\<not> affects_reachability change"
  shows "ea_superuser (apply_attributes executor change attributes) = ea_superuser attributes"
proof -
  have "ea_superuser (fold executor_attribute xs a) = ea_superuser a"
    if "\<not> list_ex (\<lambda>x. case x of Superuser _ \<Rightarrow> True | Inherit _ \<Rightarrow> True | _ \<Rightarrow> False) xs" for xs a
    using that
  proof (induction xs arbitrary: a)
    case (Cons x xs)
    then show ?case by (cases x) auto
  qed simp
  then show ?thesis using assms by (cases change) (auto simp: apply_attributes_def affects_reachability_def)
qed

lemma reachability_cong:
  "fmdom (rg_roles graph) = fmdom (rg_roles graph') \<Longrightarrow>
     reachability graph facts executor superuser complete = reachability graph' facts executor superuser complete"
  by (simp add: reachability_def all_roles_def)

lemma unaffected_reach_both:
  assumes "\<not> affects_reachability change" "explore_change executor pg change s = Some s'"
  shows "reach_both executor complete s' (apply_attributes executor change attributes) = reach_both executor complete s attributes"
  using reachability_cong[OF unaffected_facts(3)[OF assms]]
  by (simp add: reach_both_def unaffected_facts(1,2)[OF assms] unaffected_superuser[OF assms(1)])

definition fresh_run :: "executor_facts \<Rightarrow> plan_analysis_options \<Rightarrow> run_state \<Rightarrow> bool" where
  "fresh_run executor options run \<longleftrightarrow>
     reach_both executor (po_authority_graph_complete options) (rn_sim run) (rn_attributes run) = Some (rn_reachability run, rn_usage run)"

text \<open>Two runs that differ in the number of computations only.\<close>

definition same_run :: "executor_facts \<Rightarrow> plan_analysis_options \<Rightarrow> run_state \<Rightarrow> run_state \<Rightarrow> bool" where
  "same_run executor options run run' \<longleftrightarrow> fresh_run executor options run \<and> run'\<lparr>rn_computations := 0\<rparr> = run\<lparr>rn_computations := 0\<rparr>"

lemma same_computationsD:
  assumes "run'\<lparr>rn_computations := 0\<rparr> = run\<lparr>rn_computations := 0\<rparr>"
  shows "\<exists>n. run' = run\<lparr>rn_computations := n\<rparr>"
  using assms by (cases run; cases run') auto

lemma same_runE:
  assumes "same_run executor options run run'"
  obtains n where "run' = run\<lparr>rn_computations := n\<rparr>" "fresh_run executor options run"
  using assms by (auto simp: same_run_def dest: same_computationsD)

lemma simulate_change_same:
  assumes "same_run executor options run run'"
  shows "rel_option (same_run executor options) (simulate_change executor options WhenAffected phase change run)
    (simulate_change executor options Always phase change run')"
proof -
  obtain n where run': "run' = run\<lparr>rn_computations := n\<rparr>" and fresh: "fresh_run executor options run" using assms by (rule same_runE)
  have au: "authority_of options run' = authority_of options run" by (simp add: authority_of_def run')
  let ?a = "analyze_required_authority change phase (rn_index run) (authority_of options run) (rn_findings run, rn_preflight run)"
  let ?attributes = "apply_attributes executor change (rn_attributes run)" and ?complete = "po_authority_graph_complete options"
  obtain sim where sim: "explore_change executor (po_pg_major_version options) change (rn_sim run) = Some sim" using explore_change_total by blast
  obtain r u where both: "reach_both executor ?complete sim ?attributes = Some (r, u)" using reach_both_total by fastforce
  show ?thesis
  proof (cases ?a)
    case None
    then show ?thesis by (simp add: simulate_change_def run' au[unfolded run'])
  next
    case (Some fp)
    obtain findings preflight where fp: "fp = (findings, preflight)" by (cases fp)
    show ?thesis
    proof (cases "affects_reachability change")
      case True
      then show ?thesis using Some sim both by (auto simp: simulate_change_def run' au[unfolded run'] fp Let_def same_run_def fresh_run_def
          cong del: change.case_cong_weak)
    next
      case False
      have "r = rn_reachability run \<and> u = rn_usage run"
        using unaffected_reach_both[OF False sim, of ?complete "rn_attributes run"] both fresh by (simp add: fresh_run_def)
      then show ?thesis using Some sim both False by (auto simp: simulate_change_def run' au[unfolded run'] fp Let_def same_run_def fresh_run_def
          cong del: change.case_cong_weak)
    qed
  qed
qed

lemma fold_o_rel:
  assumes "R s s'" "\<And>x s s'. R s s' \<Longrightarrow> rel_option R (f x s) (g x s')"
  shows "rel_option R (fold_o f xs s) (fold_o g xs s')"
  using assms(1)
proof (induction xs arbitrary: s s')
  case (Cons x xs)
  from assms(2)[OF Cons.prems, of x] Cons.IH show ?case by (cases "f x s"; cases "g x s'") auto
qed simp

lemma simulate_phase_same:
  assumes "same_run executor options run run'"
  shows "rel_option (same_run executor options) (simulate_phase executor options WhenAffected batch run) (simulate_phase executor options Always batch run')"
proof -
  obtain phase changes where b: "batch = (phase, changes)" by (cases batch)
  obtain n where run': "run' = run\<lparr>rn_computations := n\<rparr>" using assms by (rule same_runE)
  have "same_run executor options (run\<lparr>rn_dropped := {||}\<rparr>) (run'\<lparr>rn_dropped := {||}\<rparr>)"
    using assms by (simp add: same_run_def fresh_run_def run')
  from fold_o_rel[where f = "simulate_change executor options WhenAffected phase" and g = "simulate_change executor options Always phase",
      OF this simulate_change_same, of changes]
  show ?thesis by (auto simp: simulate_phase_def b option_rel_Some1 option_rel_Some2 rel_option_iff same_run_def fresh_run_def run'
        split: option.splits dest!: same_computationsD)
qed

text \<open>
  C34: the analysis that recomputes reachability only after changes that can affect it is the analysis that recomputes it after every
  change: the same phases with the same reachable roles, and the same findings.
\<close>

theorem recomputing_when_affected_suffices:
  "map_option fst (simulate graph changes executor options WhenAffected) = map_option fst (simulate graph changes executor options Always)"
proof (cases "start_run graph executor options")
  case (Some start)
  then have "same_run executor options start start"
    by (auto simp: same_run_def fresh_run_def start_run_def Let_def split: prod.splits)
  from fold_o_rel[where f = "simulate_phase executor options WhenAffected" and g = "simulate_phase executor options Always",
      OF this simulate_phase_same, of "grouped_phases changes"]
  show ?thesis using Some
    by (cases "fold_o (simulate_phase executor options WhenAffected) (grouped_phases changes) start";
        cases "fold_o (simulate_phase executor options Always) (grouped_phases changes) start")
      (auto simp: simulate_def option.map_comp comp_def elim: same_runE)
qed (simp add: simulate_def)

section \<open>The verdict on a membership change\<close>

definition proven_by :: "reachability_status \<times> set_role_capability \<Rightarrow> bool" where
  "proven_by = (\<lambda>(member, admin). member = Reachable \<and> admin = CapAllowed)"

definition possible_by :: "reachability_status \<times> set_role_capability \<Rightarrow> bool" where
  "possible_by = (\<lambda>(member, admin). member \<noteq> Unreachable \<and> admin \<noteq> CapDenied)"

lemma fold_better_admin:
  "fold better_admin xs best =
     (if best = Reachable \<or> list_ex proven_by xs then Reachable else if list_ex possible_by xs then StatusUnknown else best)"
  by (induction xs arbitrary: best) (auto simp: better_admin_def proven_by_def possible_by_def split: prod.splits)

lemma role_interval:
  "takeWhile (\<lambda>((granted_role, _), _). granted_role = role) (range_from (role, []) facts) =
     filter (\<lambda>((granted_role, _), _). granted_role = role) (bt_entries (facts :: edge_facts))"
proof -
  have "takeWhile (\<lambda>x. fst (fst x) = role) (dropWhile (\<lambda>x. fst x < (role, [])) (bt_entries facts)) =
      filter (\<lambda>x. fst (fst x) = role) (bt_entries facts)"
    by (rule takeWhile_dropWhile_interval) (auto simp: less_eq_prod_def)
  then show ?thesis unfolding range_from_def split_def .
qed

lemma admin_option_exact:
  "admin_option au role =
     (if \<exists>holder. fmlookup (au_admin_options au) (role, holder) = Some CapAllowed \<and>
           status_in (au_complete au) (au_usage_reachable au) holder = Reachable then Reachable
      else if \<exists>holder cap. fmlookup (au_admin_options au) (role, holder) = Some cap \<and> cap \<noteq> CapDenied \<and>
           status_in (au_complete au) (au_usage_reachable au) holder \<noteq> Unreachable then StatusUnknown
      else unseen (au_complete au))"
proof -
  let ?xs = "map (\<lambda>((_, member), admin). (status_in (au_complete au) (au_usage_reachable au) member, admin))
      (filter (\<lambda>((granted_role, _), _). granted_role = role) (bt_entries (au_admin_options au)))"
  have member: "x \<in> set ?xs \<longleftrightarrow> (\<exists>holder cap. fmlookup (au_admin_options au) (role, holder) = Some cap \<and>
      x = (status_in (au_complete au) (au_usage_reachable au) holder, cap))" for x by force
  have "list_ex proven_by ?xs \<longleftrightarrow> (\<exists>holder. fmlookup (au_admin_options au) (role, holder) = Some CapAllowed \<and>
      status_in (au_complete au) (au_usage_reachable au) holder = Reachable)"
    unfolding list_ex_iff Bex_def member by (auto simp: proven_by_def)
  moreover have "list_ex possible_by ?xs \<longleftrightarrow> (\<exists>holder cap. fmlookup (au_admin_options au) (role, holder) = Some cap \<and> cap \<noteq> CapDenied \<and>
      status_in (au_complete au) (au_usage_reachable au) holder \<noteq> Unreachable)"
    unfolding list_ex_iff Bex_def member by (auto simp: possible_by_def)
  moreover have "unseen (au_complete au) \<noteq> Reachable" by (simp add: unseen_def)
  ultimately show ?thesis unfolding admin_option_def role_interval fold_better_admin by presburger
qed

text \<open>
  On PostgreSQL 16 and later the verdict on a membership change by an executor that is no superuser is exact. No finding is made
  when the executor provably inherits from a holder of the admin option; an error is reported when the graph is complete and not even
  a possible path leads to a possible holder; every other case is a warning. A change in a superuser role is always an error.
\<close>

theorem membership_verdict_exact:
  assumes "reachability (au_graph au) usage executor False (au_complete au) = Some (au_usage_reachable au)"
    and "\<not> au_is_superuser au" and "16 \<le> au_pg_major_version au" and "option_role change = Some role"
  shows "map af_severity (membership_findings change phase index au) =
    (if (case fmlookup (rg_roles (au_graph au)) role of None \<Rightarrow> False | Some st \<Rightarrow> rs_superuser st) then [SeverityError]
     else if \<exists>holder. fmlookup (au_admin_options au) (role, holder) = Some CapAllowed \<and>
       (executor, holder) \<in> (follows (\<lambda>cap. cap = CapAllowed) usage)\<^sup>* then []
     else if au_complete au \<and> (\<forall>holder cap. fmlookup (au_admin_options au) (role, holder) = Some cap \<longrightarrow> cap = CapDenied \<or>
       (executor, holder) \<notin> (follows (\<lambda>cap. cap \<noteq> CapDenied) usage)\<^sup>*) then [SeverityError]
     else [SeverityWarning])"
proof -
  have status: "status_in (au_complete au) (au_usage_reachable au) holder =
      (if (executor, holder) \<in> (follows (\<lambda>cap. cap = CapAllowed) usage)\<^sup>* then Reachable
       else if (executor, holder) \<in> (follows (\<lambda>cap. cap \<noteq> CapDenied) usage)\<^sup>* \<or> \<not> au_complete au then StatusUnknown else Unreachable)" for holder
  proof (cases "holder |\<in>| all_roles (au_graph au) usage executor")
    case True
    then show ?thesis
      using assms(1) reachability_exact[of "au_graph au" usage executor False "au_complete au"] by (auto simp: status_in_def)
  next
    case False
    have "holder |\<in>| all_roles (au_graph au) usage executor" if "(executor, holder) \<in> (follows P usage)\<^sup>*" for P
      using that by (cases rule: rtranclE) (force simp: all_roles_def follows_def fmlookup_dom_iff)+
    then show ?thesis
      using False assms(1) reachability_exact[of "au_graph au" usage executor False "au_complete au"] by (auto simp: status_in_def unseen_def)
  qed
  have role: "membership_role change = Some role" using assms(4) by (auto simp: option_role_def membership_role_def split: change.splits option.splits)
  have "admin_option au role =
    (if \<exists>holder. fmlookup (au_admin_options au) (role, holder) = Some CapAllowed \<and>
       (executor, holder) \<in> (follows (\<lambda>cap. cap = CapAllowed) usage)\<^sup>* then Reachable
     else if au_complete au \<and> (\<forall>holder cap. fmlookup (au_admin_options au) (role, holder) = Some cap \<longrightarrow> cap = CapDenied \<or>
       (executor, holder) \<notin> (follows (\<lambda>cap. cap \<noteq> CapDenied) usage)\<^sup>*) then Unreachable else StatusUnknown)"
  proof -
    have "follows (\<lambda>cap. cap = CapAllowed) usage \<subseteq> follows (\<lambda>cap. cap \<noteq> CapDenied) usage" by (auto simp: follows_def)
    then have "(executor, holder) \<in> (follows (\<lambda>cap. cap = CapAllowed) usage)\<^sup>* \<Longrightarrow> (executor, holder) \<in> (follows (\<lambda>cap. cap \<noteq> CapDenied) usage)\<^sup>*" for holder
      using rtrancl_mono by blast
    then have reach: "status_in (au_complete au) (au_usage_reachable au) holder = Reachable \<longleftrightarrow>
        (executor, holder) \<in> (follows (\<lambda>cap. cap = CapAllowed) usage)\<^sup>*"
      "status_in (au_complete au) (au_usage_reachable au) holder \<noteq> Unreachable \<longleftrightarrow>
        (executor, holder) \<in> (follows (\<lambda>cap. cap \<noteq> CapDenied) usage)\<^sup>* \<or> \<not> au_complete au" for holder
      by (simp_all add: status)
    have "(\<forall>holder cap. fmlookup (au_admin_options au) (role, holder) = Some cap \<longrightarrow> cap = CapDenied \<or>
        (executor, holder) \<notin> (follows (\<lambda>cap. cap \<noteq> CapDenied) usage)\<^sup>*) \<longleftrightarrow>
        \<not> (\<exists>holder cap. fmlookup (au_admin_options au) (role, holder) = Some cap \<and> cap \<noteq> CapDenied \<and>
        (executor, holder) \<in> (follows (\<lambda>cap. cap \<noteq> CapDenied) usage)\<^sup>*)" by blast
    moreover have "(if \<not> b then x else y) = (if b then y else x)" for b and x y :: reachability_status by simp
    ultimately show ?thesis unfolding admin_option_exact reach unseen_def
      by (cases "au_complete au") (simp_all only: simp_thms if_True if_False if_cancel refl)
  qed
  then show ?thesis
    using assms(2-4) by (auto simp: membership_findings_def membership_authority_status_def role new_finding_def Let_def)
qed

section \<open>A concrete verdict\<close>

definition ex_usage :: edge_facts where
  "ex_usage = fmap_of_list [((''ops'', ''deploy''), CapAllowed)]"

definition ex_verdict_state :: "edge_facts \<Rightarrow> authority_state" where
  "ex_verdict_state admins =
     \<lparr>au_graph = empty_graph, au_set_reachable = fmempty,
      au_usage_reachable = fmap_of_list [(''deploy'', Reachable), (''ops'', Reachable)], au_admin_options = admins,
      au_is_superuser = False, au_createrole = CapUnknown, au_complete = True, au_pg_major_version = 16\<rparr>"

theorem membership_verdict_exact_witness:
  "map af_severity (membership_findings (AddMember ''app'' ''bob'' True False) PhaseMembershipAdd 0
      (ex_verdict_state (fmap_of_list [((''app'', ''ops''), CapAllowed)]))) = [] \<and>
   map af_severity (membership_findings (AddMember ''app'' ''bob'' True False) PhaseMembershipAdd 0 (ex_verdict_state fmempty)) = [SeverityError]"
proof -
  let ?x = "AddMember ''app'' ''bob'' True False"
  have reach: "reachability (au_graph (ex_verdict_state admins)) ex_usage ''deploy'' False (au_complete (ex_verdict_state admins)) =
      Some (au_usage_reachable (ex_verdict_state admins))" for admins
  proof -
    have "reachability empty_graph ex_usage ''deploy'' False True = Some (fmap_of_list [(''deploy'', Reachable), (''ops'', Reachable)])" by code_simp
    then show ?thesis by (simp add: ex_verdict_state_def)
  qed
  have "(''deploy'', ''ops'') \<in> (follows (\<lambda>cap. cap = CapAllowed) ex_usage)\<^sup>*"
    by (rule r_into_rtrancl) (simp add: follows_def ex_usage_def)
  then have path: "\<exists>holder. fmlookup (fmap_of_list [((''app'', ''ops''), CapAllowed)]) (''app'', holder) = Some CapAllowed \<and>
      (''deploy'', holder) \<in> (follows (\<lambda>cap. cap = CapAllowed) ex_usage)\<^sup>*" by (intro exI[of _ "''ops''"]) simp
  have others: "\<not> au_is_superuser (ex_verdict_state admins)" "16 \<le> au_pg_major_version (ex_verdict_state admins)"
    "option_role ?x = Some ''app''" for admins by (simp_all add: ex_verdict_state_def option_role_def membership_role_def)
  note verdict = membership_verdict_exact[OF reach others, where phase = PhaseMembershipAdd and index = 0]
  show ?thesis
    unfolding verdict using path by (simp add: ex_verdict_state_def empty_graph_def)
qed

end
