(* ===== verification/ExplorerConverge.thy ===== *)
theory ExplorerConverge
  imports ExplorerLaws DiffLaws
begin

text \<open>
  The explorer and the diff engine agree: simulating the plan of the diff engine ends in the roles and the memberships of the policy.
\<close>

section \<open>Effect of the simulation on roles and memberships\<close>

lemma set_attribute_apply: "set_attribute = apply_attribute"
proof (intro ext)
  fix a st show "set_attribute a st = apply_attribute a st" by (cases a) simp_all
qed

fun eff_sim_members :: "change \<Rightarrow> membership_edge btreeset \<Rightarrow> membership_edge btreeset" where
  "eff_sim_members (AddMember role member inherit admin) m =
     finsert \<lparr>me_role = role, me_member = member, me_inherit = inherit, me_admin = admin\<rparr> m"
| "eff_sim_members (RemoveMember role member grantor) m = retain_other_edges role member m"
| "eff_sim_members (DropRole name) m = keep_edges (\<lambda>(role, member). role \<noteq> name \<and> member \<noteq> name) m"
| "eff_sim_members _ m = m"

fun upd_sim_edges :: "change \<Rightarrow> string \<times> string \<Rightarrow> membership_edge set \<Rightarrow> membership_edge set" where
  "upd_sim_edges (AddMember role member inherit admin) p v =
     (if (role, member) = p then insert \<lparr>me_role = role, me_member = member, me_inherit = inherit, me_admin = admin\<rparr> v else v)"
| "upd_sim_edges (RemoveMember role member grantor) p v = (if (role, member) = p then {} else v)"
| "upd_sim_edges (DropRole name) p v = (if fst p = name \<or> snd p = name then {} else v)"
| "upd_sim_edges _ p v = v"

interpretation sim_members: pointwise_effect eff_sim_members upd_sim_edges edges_of
proof
  show "edges_of (eff_sim_members c m) p = upd_sim_edges c p (edges_of m p)" for c m p
    by (cases c; cases p) (auto simp: edges_of_def retain_other_edges_def keep_edges_def)
qed

definition updates_options :: "change \<Rightarrow> bool" where
  "updates_options x = (case x of UpdateMemberOptions _ _ _ _ _ _ \<Rightarrow> True | _ \<Rightarrow> False)"

lemma simulated_effect:
  assumes "\<not> updates_options x" "rg_membership_edge_grantors (sm_graph s) = fmempty"
  shows "\<exists>s'. explore_change executor pg x s = Some s' \<and> rg_membership_edge_grantors (sm_graph s') = fmempty \<and>
    rg_roles (sm_graph s') = eff_roles x (rg_roles (sm_graph s)) \<and>
    rg_memberships (sm_graph s') = eff_sim_members x (rg_memberships (sm_graph s))"
proof (cases x)
  case (RemoveMember role member grantor)
  then show ?thesis
    using assms(2) by (cases grantor)
      (auto simp: explore_remove_def remove_grantor_def Let_def retain_other_edges_def keep_edges_def split: option.splits)
qed (use assms in \<open>auto simp: updates_options_def on_graph_def Let_def update_role_def update_schema_def explore_revoke_def set_attribute_apply
    split: option.splits\<close>)

lemma simulated_run:
  assumes "list_all (\<lambda>x. \<not> updates_options x) xs" "rg_membership_edge_grantors (sm_graph s) = fmempty"
  shows "\<exists>s'. fold_o (explore_change executor pg) xs s = Some s' \<and> rg_roles (sm_graph s') = fold eff_roles xs (rg_roles (sm_graph s)) \<and>
    rg_memberships (sm_graph s') = fold eff_sim_members xs (rg_memberships (sm_graph s))"
  using assms
proof (induction xs arbitrary: s)
  case (Cons x xs)
  then obtain t where t: "explore_change executor pg x s = Some t" "rg_membership_edge_grantors (sm_graph t) = fmempty"
    "rg_roles (sm_graph t) = eff_roles x (rg_roles (sm_graph s))" "rg_memberships (sm_graph t) = eff_sim_members x (rg_memberships (sm_graph s))"
    using simulated_effect[of x s executor pg] by auto
  then show ?case using Cons.IH[of t] Cons.prems by auto
qed simp

section \<open>The plan of the diff engine\<close>

lemma sim_no_option_updates:
  assumes "rg_membership_edge_grantors c = fmempty"
  shows "list_all (\<lambda>x. \<not> updates_options x) (diff_resolved c d)"
proof -
  have remove: "remove_all_edges c r m = [RemoveMember r m None]" for r m by (simp add: remove_all_edges_def assms)
  have "\<not> updates_options x" if "x \<in> set (diff_members_removed c d)" for x
    using that by (auto simp: diff_members_removed_def edge_removals_def remove assms updates_options_def split: option.splits if_splits)
  moreover have "\<not> updates_options x" if "x \<in> set (diff_members_added c d)" for x
    using that by (auto simp: diff_members_added_def edge_additions_def assms updates_options_def Let_def split: option.splits if_splits)
  moreover have "\<not> updates_options x" if "x \<in> set (diff_resolved c d)" "x \<notin> set (diff_members_removed c d)" "x \<notin> set (diff_members_added c d)" for x
    using that by (auto simp: diff_resolved_phases phase_shape_iffs change_constructor_defs updates_options_def
        dest!: diff_role_alters_shape schema_changes_shape schema_grants_shape kept_revokes_shape defaults_revoked_shape)
  ultimately show ?thesis unfolding list_all_iff by blast
qed

lemma sim_members_phases:
  "fold eff_sim_members (diff_resolved c d) m =
     fold eff_sim_members (diff_role_drops c d) (fold eff_sim_members (diff_members_added c d) (fold eff_sim_members (diff_members_removed c d) m))"
proof -
  have "fold eff_sim_members (diff_role_creates c d) m = m" "fold eff_sim_members (diff_role_alters c d) m = m"
    "fold eff_sim_members (diff_schema_changes c d) m = m" "fold eff_sim_members (diff_schema_grants c d) m = m"
    "fold eff_sim_members (diff_grants_added c d) m = m" "fold eff_sim_members (kept_revokes c d) m = m"
    "fold eff_sim_members (diff_defaults_set c d) m = m" "fold eff_sim_members (diff_defaults_revoked c d) m = m" for m
    by (rule fold_unchanged; auto simp: phase_shape_iffs change_constructor_defs dest!: phase_shapes)+
  then show ?thesis by (simp add: diff_resolved_phases)
qed

lemma sim_removals:
  assumes "rg_membership_edge_grantors c = fmempty"
  shows "fold eff_sim_members (diff_members_removed c d) m = fold eff_members (diff_members_removed c d) m"
proof (rule fold_cong[OF refl refl])
  fix x assume "x \<in> set (diff_members_removed c d)"
  moreover have "remove_all_edges c r m = [RemoveMember r m None]" for r m by (simp add: remove_all_edges_def assms)
  ultimately have "\<exists>r m. x = RemoveMember r m None"
    by (auto simp: diff_members_removed_def edge_removals_def assms split: option.splits if_splits)
  then show "eff_sim_members x = eff_members x" by (auto simp: fun_eq_iff)
qed

lemma sim_edges_before_drops:
  assumes "rg_membership_edge_grantors c = fmempty" "one_edge_per_pair (rg_memberships c)"
  shows "edges_of (fold eff_sim_members (diff_members_added c d) (fold eff_sim_members (diff_members_removed c d) (rg_memberships c))) p =
    (case fmlookup (edge_map (rg_memberships d)) p of None \<Rightarrow> {} | Some e \<Rightarrow> {e})"
proof -
  let ?M = "fold eff_members (diff_members_removed c d) (rg_memberships c)"
  have local: "upd_sim_edges x p v = v" if "(q, e) \<in> set (bt_entries (edge_map (rg_memberships d)))" "q \<noteq> p" "x \<in> set (edge_additions c (q, e))" for q e x v
    using that lookup_edge_mapD[of "rg_memberships d" q e] assms(1)
    by (cases q) (auto simp: edge_additions_def Let_def split: option.splits if_splits)
  have added: "edges_of (fold eff_sim_members (diff_members_added c d) ?M) p = (case fmlookup (edge_map (rg_memberships d)) p of
      Some e \<Rightarrow> fold (\<lambda>x. upd_sim_edges x p) (edge_additions c (p, e)) (edges_of ?M p) | None \<Rightarrow> edges_of ?M p)"
    unfolding diff_members_added_def
    by (subst sim_members.run_keyed) (rule distinct_bt_entries, erule (2) local, simp)
  have same: "edges_of (fold eff_members (diff_members_added c d) ?M) p = (case fmlookup (edge_map (rg_memberships d)) p of None \<Rightarrow> {} | Some e \<Rightarrow> {e})"
    using members_converge_pair[OF assms, of d p] by (simp add: run_members)
  show ?thesis
  proof (cases "fmlookup (edge_map (rg_memberships d)) p")
    case None
    then show ?thesis using added same members_after_additions[of c d ?M p] by (simp add: sim_removals[OF assms(1)])
  next
    case (Some e)
    note e = lookup_edge_mapD[OF Some]
    have cleared: "edge_additions c (p, e) = [] \<or> edges_of ?M p = {}"
      using lookup_edge_map[OF assms(2), of p] Some assms(1) e
      by (cases p) (auto simp: members_after_removals edge_additions_def edge_removals_def remove_all_edges_def Let_def split: option.splits if_splits)
    then show ?thesis using added same Some e assms(1) members_after_additions[of c d ?M p]
      by (cases p) (auto simp: sim_removals[OF assms(1)] edge_additions_def Let_def split: option.splits if_splits)
  qed
qed


definition ex_executor_facts :: executor_facts where
  "ex_executor_facts = \<lparr>ef_role = ''deploy'', ef_superuser = False, ef_bootstrap_role = None, ef_createrole = CapAllowed, ef_memberships = [],
     ef_new_membership_set_role = CapUnknown, ef_new_role_set_role = CapUnknown, ef_new_role_inherit = CapUnknown, ef_new_role_admin_option = CapAllowed\<rparr>"


end
