(* ===== verification/Reconciler.thy ===== *)
theory Reconciler
  imports Plan Retention Promotion "HOL-Library.Word"
begin

unbundle bit_operations_syntax

text \<open>
  Retries, statuses and passwords of the policy reconciler (\<open>crates/pgroles-operator/src/reconciler.rs\<close>). The clock, the entropy of
  the jitter and the outcome of the locked phase are arguments. Counters and durations keep their machine width: the release profile
  does not check overflow, so \<open>u64\<close> sums wrap.
\<close>

section \<open>Intervals\<close>

definition DEFAULT_REQUEUE_SECS :: nat where "DEFAULT_REQUEUE_SECS = 300"
definition LOCK_CONTENTION_BASE_SECS :: nat where "LOCK_CONTENTION_BASE_SECS = 10"
definition LOCK_CONTENTION_JITTER_SECS :: nat where "LOCK_CONTENTION_JITTER_SECS = 20"
definition TRANSIENT_BACKOFF_BASE_SECS :: nat where "TRANSIENT_BACKOFF_BASE_SECS = 5"
definition TRANSIENT_BACKOFF_MAX_SECS :: nat where "TRANSIENT_BACKOFF_MAX_SECS = 300"

datatype interval_error = NumberBefore string rust_char | UnknownUnit string rust_char | TrailingNumber string

text \<open>The seconds of a unit, in the \<open>u64\<close> the sum is kept in.\<close>

definition interval_unit :: "rust_char \<Rightarrow> 64 word option" where
  "interval_unit c = (if c = ''h'' then Some 3600 else if c = ''m'' then Some 60 else if c = ''s'' then Some 1 else None)"

definition interval_end :: "string \<Rightarrow> 64 word \<Rightarrow> string \<Rightarrow> interval_error + nat" where
  "interval_end interval total_secs number =
     bind_r (if number = [] then Inr total_secs
             else (case parse_u64_digits number of None \<Rightarrow> Inl (TrailingNumber interval) | Some num \<Rightarrow> Inr (total_secs + of_nat num))) (\<lambda>total_secs.
       Inr (if total_secs = 0 then DEFAULT_REQUEUE_SECS else unat total_secs))"

fun interval_loop :: "string \<Rightarrow> 64 word \<Rightarrow> string \<Rightarrow> rust_char list \<Rightarrow> interval_error + nat" where
  "interval_loop interval total_secs number [] = interval_end interval total_secs number"
| "interval_loop interval total_secs number (c # cs) =
     (if is_digit_char c then interval_loop interval total_secs (number @ c) cs
      else (case parse_u64_digits number of
              None \<Rightarrow> Inl (NumberBefore interval c)
            | Some num \<Rightarrow>
                (case interval_unit c of
                   None \<Rightarrow> Inl (UnknownUnit interval c)
                 | Some seconds \<Rightarrow> interval_loop interval (total_secs + of_nat num * seconds) [] cs)))"

definition parse_interval :: "string \<Rightarrow> interval_error + nat" where
  "parse_interval interval =
     (let interval = trim interval in
      if interval = [] then Inr DEFAULT_REQUEUE_SECS else interval_loop interval 0 [] (chars interval))"

definition slow_retry_delay :: "string \<Rightarrow> nat" where
  "slow_retry_delay interval = (case parse_interval interval of Inl _ \<Rightarrow> DEFAULT_REQUEUE_SECS | Inr secs \<Rightarrow> secs)"

section \<open>Delays\<close>

text \<open>The jitter mixes the sub-second nanoseconds of the clock with a hash of the thread.\<close>

record entropy =
  en_nanos :: "32 word"
  en_thread :: "32 word"

definition jitter_delay :: "entropy \<Rightarrow> nat" where
  "jitter_delay e = LOCK_CONTENTION_BASE_SECS + unat (en_nanos e XOR en_thread e) mod (LOCK_CONTENTION_JITTER_SECS + 1)"

definition pseudo_random_window :: "entropy \<Rightarrow> nat \<Rightarrow> nat" where
  "pseudo_random_window e window_secs = (if window_secs = 0 then 0 else unat (en_nanos e XOR en_thread e) mod (window_secs + 1))"

definition transient_backoff_delay :: "entropy \<Rightarrow> 32 word \<Rightarrow> nat" where
  "transient_backoff_delay e attempts =
     (let exponent = min (unat attempts - 1) 10;
          base_delay = min (min (TRANSIENT_BACKOFF_BASE_SECS * unat (push_bit exponent 1 :: 64 word)) U64_MAX) TRANSIENT_BACKOFF_MAX_SECS;
          remaining_headroom = TRANSIENT_BACKOFF_MAX_SECS - base_delay;
          jitter_window = min remaining_headroom (max (base_delay div 2) 1);
          jitter_secs = (if jitter_window = 0 then 0 else pseudo_random_window e jitter_window) in
      min (base_delay + jitter_secs) TRANSIENT_BACKOFF_MAX_SECS)"

definition next_transient_failure_count :: "32 word option \<Rightarrow> 32 word" where
  "next_transient_failure_count status =
     (let count = (case status of None \<Rightarrow> 0 | Some n \<Rightarrow> if sint n < 0 then 0 else n) in
      if count = -1 then -1 else count + 1)"

section \<open>Errors and retry classes\<close>

text \<open>Of a database error the \<open>SQLSTATE\<close> is read, of an error of the API server the HTTP code.\<close>

type_synonym sqlx_error = "string option"

datatype kube_error = KubeApiStatus nat | KubeTransport

datatype azure_auth_error =
    AzMissingEnvironment | AzInvalidTenant | AzInvalidResponse | AzInvalidAuthority | AzInvalidConnection | AzEmptyAssertion | AzConnection
  | AzReadAssertion bool | AzRejected nat | AzRequest

datatype context_error =
    SecretFetch kube_error | SecretMissing string string | DatabaseConnect sqlx_error | SetRoleFailed string sqlx_error | EmptyResolvedValue string
  | InvalidDatabaseUrl string | InvalidResolvedPort string | InvalidResolvedSslMode string | GcpAuthHttp | GcpAuthRejected nat
  | GcpAuthInvalidResponse string | AzureAuthConfiguration string | AzureAuth azure_auth_error

datatype password_error = PwMissingKey string string | PwEmptyPassword string string | PwKubeApi string kube_error

datatype inspect_error =
    InspectDatabase sqlx_error | RoutineTarget sqlx_error | ConflictingRoutineRules | UnresolvedRoutine | ScopeNotCovered string
  | DerivationTask string | DatabaseTargetMismatch

datatype reconcile_error =
    PlanningOptions | PlanningDatabase sqlx_error | SqlRender | Context context_error | ManifestExpansion manifest_error
  | Inspect inspect_error | SqlExec sqlx_error | UnsafeRoleDrops string | OwnerTransferBlocked string | Kube kube_error | NoNamespace
  | RequestIndexNotReady | PendingEphemeralAccessCleanup nat | InvalidInterval interval_error | InvalidSpec string
  | PlanRetryDeferred string string | NonConvergentPlan string | ApprovalDigest | MissingDatabaseObjects string
  | UnsatisfiableWildcardGrant string | ExecutorAuthority string | PlanDenied string | ConflictingPolicy string
  | LockContention string string | EmptyPasswordSecret string string string | PasswordGeneration password_error | PlanSqlStorage string
  | PlanNameCollision string | ApiStalled string

datatype sql_error_kind = InsufficientPrivileges | MissingDatabaseObject | SqlTransient

definition classify_sqlx_error :: "sqlx_error \<Rightarrow> sql_error_kind" where
  "classify_sqlx_error error =
     (if error = Some ''42501'' then InsufficientPrivileges
      else if error \<in> {Some ''3F000'', Some ''42P01'', Some ''42883'', Some ''42704''} then MissingDatabaseObject
      else SqlTransient)"

definition sqlx_error_is_non_transient :: "sqlx_error \<Rightarrow> bool" where
  "sqlx_error_is_non_transient error = (classify_sqlx_error error \<noteq> SqlTransient)"

definition routine_target_is_invalid :: "sqlx_error \<Rightarrow> bool" where
  "routine_target_is_invalid error =
     (case error of None \<Rightarrow> False | Some code \<Rightarrow> take 2 code = ''22'' \<or> (take 2 code = ''42'' \<and> code \<noteq> ''42501''))"

definition inspect_error_is_non_transient :: "inspect_error \<Rightarrow> bool" where
  "inspect_error_is_non_transient error =
     (case error of
        InspectDatabase source \<Rightarrow> sqlx_error_is_non_transient source
      | RoutineTarget source \<Rightarrow> routine_target_is_invalid source \<or> sqlx_error_is_non_transient source
      | _ \<Rightarrow> True)"

definition client_error :: "nat \<Rightarrow> bool" where
  "client_error code = (400 \<le> code \<and> code < 500 \<and> code \<noteq> 429)"

definition azure_is_non_transient :: "azure_auth_error \<Rightarrow> bool" where
  "azure_is_non_transient error =
     (case error of AzReadAssertion not_found \<Rightarrow> not_found | AzRejected status \<Rightarrow> client_error status | AzRequest \<Rightarrow> False | _ \<Rightarrow> True)"

definition is_secret_fetch_non_transient :: "context_error \<Rightarrow> bool" where
  "is_secret_fetch_non_transient error = (case error of SecretFetch (KubeApiStatus code) \<Rightarrow> client_error code | _ \<Rightarrow> False)"

definition is_auth_non_transient :: "context_error \<Rightarrow> bool" where
  "is_auth_non_transient error =
     (case error of
        GcpAuthRejected status \<Rightarrow> client_error status
      | GcpAuthInvalidResponse _ \<Rightarrow> True
      | AzureAuthConfiguration _ \<Rightarrow> True
      | AzureAuth azure \<Rightarrow> azure_is_non_transient azure
      | _ \<Rightarrow> False)"

definition password_is_transient :: "password_error \<Rightarrow> bool" where
  "password_is_transient error =
     (case error of
        PwKubeApi _ (KubeApiStatus code) \<Rightarrow> \<not> (400 \<le> code \<and> code < 500) \<or> code = 409 \<or> code = 429
      | PwKubeApi _ KubeTransport \<Rightarrow> True
      | _ \<Rightarrow> False)"

datatype retry_class = RetrySlow | RetryLockContention | RetryCleanupPending | RetryTransient

definition slow_if :: "bool \<Rightarrow> retry_class" where
  "slow_if non_transient = (if non_transient then RetrySlow else RetryTransient)"

definition retry_class_for_context :: "context_error \<Rightarrow> retry_class" where
  "retry_class_for_context error =
     (case error of
        SecretMissing _ _ \<Rightarrow> RetrySlow
      | SecretFetch _ \<Rightarrow> slow_if (is_secret_fetch_non_transient error)
      | GcpAuthRejected _ \<Rightarrow> slow_if (is_auth_non_transient error)
      | GcpAuthInvalidResponse _ \<Rightarrow> slow_if (is_auth_non_transient error)
      | AzureAuth _ \<Rightarrow> slow_if (is_auth_non_transient error)
      | AzureAuthConfiguration _ \<Rightarrow> slow_if (is_auth_non_transient error)
      | GcpAuthHttp \<Rightarrow> RetryTransient
      | DatabaseConnect _ \<Rightarrow> RetryTransient
      | SetRoleFailed _ _ \<Rightarrow> RetrySlow
      | EmptyResolvedValue _ \<Rightarrow> RetrySlow
      | InvalidDatabaseUrl _ \<Rightarrow> RetrySlow
      | InvalidResolvedPort _ \<Rightarrow> RetrySlow
      | InvalidResolvedSslMode _ \<Rightarrow> RetrySlow)"

definition retry_class_for_reconcile_error :: "reconcile_error \<Rightarrow> retry_class" where
  "retry_class_for_reconcile_error error =
     (case error of
        PlanningDatabase source \<Rightarrow> slow_if (sqlx_error_is_non_transient source)
      | LockContention _ _ \<Rightarrow> RetryLockContention
      | RequestIndexNotReady \<Rightarrow> RetryTransient
      | PlanNameCollision _ \<Rightarrow> RetryTransient
      | PendingEphemeralAccessCleanup _ \<Rightarrow> RetryCleanupPending
      | PasswordGeneration source \<Rightarrow> if password_is_transient source then RetryTransient else RetrySlow
      | Context source \<Rightarrow> retry_class_for_context source
      | Inspect source \<Rightarrow> slow_if (inspect_error_is_non_transient source)
      | SqlExec source \<Rightarrow> slow_if (sqlx_error_is_non_transient source)
      | Kube _ \<Rightarrow> RetryTransient
      | ApiStalled _ \<Rightarrow> RetryTransient
      | _ \<Rightarrow> RetrySlow)"

text \<open>The errors of the finalizer around a reconcile.\<close>

datatype finalizer_error =
    ApplyFailed reconcile_error | CleanupFailed reconcile_error | AddFinalizer kube_error | RemoveFinalizer kube_error | UnnamedObject | InvalidFinalizer

definition retry_class_of :: "finalizer_error \<Rightarrow> retry_class" where
  "retry_class_of error =
     (case error of
        ApplyFailed reconcile_error \<Rightarrow> retry_class_for_reconcile_error reconcile_error
      | CleanupFailed (PendingEphemeralAccessCleanup _) \<Rightarrow> RetryCleanupPending
      | _ \<Rightarrow> RetryTransient)"

text \<open>The delay of the requeue an error leads to; \<open>failures\<close> is the counter in the policy's status, if it has one.\<close>

definition retry_action :: "entropy \<Rightarrow> string \<Rightarrow> 32 word option \<Rightarrow> finalizer_error \<Rightarrow> nat" where
  "retry_action e interval failures error =
     (case retry_class_of error of
        RetryLockContention \<Rightarrow> jitter_delay e
      | RetrySlow \<Rightarrow> slow_retry_delay interval
      | RetryCleanupPending \<Rightarrow> 10
      | RetryTransient \<Rightarrow> transient_backoff_delay e (next_transient_failure_count failures))"

definition sql_reason :: "string \<Rightarrow> sqlx_error \<Rightarrow> string" where
  "sql_reason otherwise error =
     (case classify_sqlx_error error of
        InsufficientPrivileges \<Rightarrow> ''InsufficientPrivileges'' | MissingDatabaseObject \<Rightarrow> ''MissingDatabaseObject'' | SqlTransient \<Rightarrow> otherwise)"

definition context_reason :: "context_error \<Rightarrow> string" where
  "context_reason error =
     (case error of
        SecretFetch _ \<Rightarrow> ''SecretFetchFailed''
      | SecretMissing _ _ \<Rightarrow> ''SecretMissing''
      | GcpAuthHttp \<Rightarrow> ''GcpAuthFailed''
      | GcpAuthRejected _ \<Rightarrow> ''GcpAuthFailed''
      | GcpAuthInvalidResponse _ \<Rightarrow> ''GcpAuthFailed''
      | AzureAuth _ \<Rightarrow> ''AzureAuthFailed''
      | AzureAuthConfiguration _ \<Rightarrow> ''AzureAuthFailed''
      | DatabaseConnect _ \<Rightarrow> ''DatabaseConnectionFailed''
      | SetRoleFailed _ _ \<Rightarrow> ''SetRoleFailed''
      | _ \<Rightarrow> ''InvalidConnectionParams'')"

definition inspect_reason :: "inspect_error \<Rightarrow> string" where
  "inspect_reason error =
     (case error of
        ConflictingRoutineRules \<Rightarrow> ''ValidationFailed''
      | UnresolvedRoutine \<Rightarrow> ''InvalidRoutineTarget''
      | RoutineTarget source \<Rightarrow> if routine_target_is_invalid source then ''InvalidRoutineTarget'' else sql_reason ''DatabaseInspectionFailed'' source
      | InspectDatabase source \<Rightarrow> sql_reason ''DatabaseInspectionFailed'' source
      | DatabaseTargetMismatch \<Rightarrow> ''InvalidDatabaseTarget''
      | _ \<Rightarrow> ''DatabaseInspectionFailed'')"

definition error_reason :: "reconcile_error \<Rightarrow> string" where
  "error_reason error =
     (case error of
        PlanningOptions \<Rightarrow> ''MembershipPlanningFailed''
      | PlanningDatabase _ \<Rightarrow> ''MembershipPlanningFailed''
      | SqlRender \<Rightarrow> ''SqlRenderFailed''
      | ManifestExpansion _ \<Rightarrow> ''InvalidSpec''
      | InvalidInterval _ \<Rightarrow> ''InvalidSpec''
      | InvalidSpec _ \<Rightarrow> ''InvalidSpec''
      | PlanRetryDeferred _ _ \<Rightarrow> ''PlanRetryDeferred''
      | NonConvergentPlan _ \<Rightarrow> ''NonConvergentPlan''
      | ApprovalDigest \<Rightarrow> ''ApprovalDigestFailed''
      | ConflictingPolicy _ \<Rightarrow> ''ConflictingPolicy''
      | UnsatisfiableWildcardGrant _ \<Rightarrow> ''UnsatisfiableWildcardGrant''
      | ExecutorAuthority _ \<Rightarrow> ''ExecutorAuthority''
      | PlanDenied _ \<Rightarrow> ''PlanDenied''
      | LockContention _ _ \<Rightarrow> ''LockContention''
      | RequestIndexNotReady \<Rightarrow> ''RequestIndexNotReady''
      | Context source \<Rightarrow> context_reason source
      | Inspect source \<Rightarrow> inspect_reason source
      | SqlExec source \<Rightarrow> sql_reason ''ApplyFailed'' source
      | UnsafeRoleDrops _ \<Rightarrow> ''UnsafeRoleDrops''
      | OwnerTransferBlocked _ \<Rightarrow> ''OwnerTransferBlocked''
      | EmptyPasswordSecret _ _ _ \<Rightarrow> ''InvalidSpec''
      | MissingDatabaseObjects _ \<Rightarrow> ''MissingDatabaseObject''
      | PasswordGeneration _ \<Rightarrow> ''SecretFetchFailed''
      | PlanSqlStorage _ \<Rightarrow> ''PlanSqlStorageFailed''
      | PlanNameCollision _ \<Rightarrow> ''PlanNameCollision''
      | Kube _ \<Rightarrow> ''KubernetesApiError''
      | ApiStalled _ \<Rightarrow> ''KubernetesApiStalled''
      | NoNamespace \<Rightarrow> ''InvalidResource''
      | PendingEphemeralAccessCleanup _ \<Rightarrow> ''EphemeralAccessCleanupPending'')"

section \<open>The status of a policy\<close>

record change_summary =
  cs_roles_created :: "32 word"
  cs_roles_altered :: "32 word"
  cs_schemas_created :: "32 word"
  cs_schema_owners_altered :: "32 word"
  cs_roles_dropped :: "32 word"
  cs_sessions_terminated :: "32 word"
  cs_grants_added :: "32 word"
  cs_grants_revoked :: "32 word"
  cs_default_privileges_set :: "32 word"
  cs_default_privileges_revoked :: "32 word"
  cs_members_added :: "32 word"
  cs_members_options_changed :: "32 word"
  cs_members_removed :: "32 word"
  cs_passwords_set :: "32 word"
  cs_total :: "32 word"

text \<open>The fields of the status that the functions below read or write.\<close>

record policy_status =
  pst_conditions :: "policy_condition list"
  pst_last_attempted_generation :: "int option"
  pst_last_handled_reconcile_at :: "string option"
  pst_last_attempted_reconcile_at :: "string option"
  pst_change_summary :: "change_summary option"
  pst_plan_warnings :: "string list"
  pst_last_error :: "string option"
  pst_applied_password_source_versions :: "(string, string) btreemap"
  pst_transient_failure_count :: "32 word"
  pst_current_plan_ref :: "string option"

definition default_policy_status :: policy_status where
  "default_policy_status =
     \<lparr>pst_conditions = [], pst_last_attempted_generation = None, pst_last_handled_reconcile_at = None, pst_last_attempted_reconcile_at = None,
      pst_change_summary = None, pst_plan_warnings = [], pst_last_error = None, pst_applied_password_source_versions = fmempty,
      pst_transient_failure_count = 0, pst_current_plan_ref = None\<rparr>"

definition make_condition :: "string \<Rightarrow> string \<Rightarrow> string \<Rightarrow> string \<Rightarrow> string \<Rightarrow> policy_condition" where
  "make_condition now condition_type status reason message =
     \<lparr>pc_type = condition_type, pc_status = status, pc_reason = Some reason, pc_message = Some message, pc_last_transition_time = Some now\<rparr>"

definition without_condition :: "string \<Rightarrow> policy_condition list \<Rightarrow> policy_condition list" where
  "without_condition condition_type conditions = filter (\<lambda>c. pc_type c \<noteq> condition_type) conditions"

definition set_condition :: "policy_condition \<Rightarrow> policy_condition list \<Rightarrow> policy_condition list" where
  "set_condition c conditions =
     (let updated = (case List.find (\<lambda>x. pc_type x = pc_type c) conditions of
            Some existing \<Rightarrow> if pc_status existing = pc_status c then c\<lparr>pc_last_transition_time := pc_last_transition_time existing\<rparr> else c
          | None \<Rightarrow> c) in
      without_condition (pc_type c) conditions @ [updated])"

definition ready_condition :: "string \<Rightarrow> bool \<Rightarrow> string \<Rightarrow> string \<Rightarrow> policy_condition" where
  "ready_condition now status reason message = make_condition now ''Ready'' (if status then ''True'' else ''False'') reason message"

definition degraded_condition :: "string \<Rightarrow> string \<Rightarrow> string \<Rightarrow> policy_condition" where
  "degraded_condition now reason message = make_condition now ''Degraded'' ''True'' reason message"

definition reconciling_condition :: "string \<Rightarrow> string \<Rightarrow> policy_condition" where
  "reconciling_condition now message = make_condition now ''Reconciling'' ''True'' ''Reconciling'' message"

definition should_announce_reconciling :: "policy_status \<Rightarrow> int option \<Rightarrow> bool" where
  "should_announce_reconciling status generation =
     (let attempted_this_generation = (generation \<noteq> None \<and> pst_last_attempted_generation status = generation);
          has_settled_before = list_ex (\<lambda>c. pc_type c = ''Ready'') (pst_conditions status) in
      \<not> (attempted_this_generation \<and> has_settled_before))"

text \<open>The update at the start of an attempt (\<open>reconcile_apply_inner\<close>).\<close>

definition start_attempt :: "string \<Rightarrow> int option \<Rightarrow> policy_status \<Rightarrow> policy_status" where
  "start_attempt now generation status =
     status\<lparr>pst_conditions := filter (\<lambda>c. pc_type c \<noteq> ''Paused'' \<and> pc_type c \<noteq> ''Drifted'')
         (if should_announce_reconciling status generation
          then set_condition (reconciling_condition now ''Reconciliation in progress'') (pst_conditions status) else pst_conditions status),
       pst_last_attempted_generation := generation\<rparr>"

definition mark_reconcile_failure_status :: "string \<Rightarrow> string \<Rightarrow> string \<Rightarrow> bool \<Rightarrow> bool \<Rightarrow> policy_status \<Rightarrow> policy_status" where
  "mark_reconcile_failure_status now reason message is_transient_failure clear_current_plan_ref status =
     status\<lparr>pst_conditions := filter (\<lambda>c. pc_type c \<noteq> ''Reconciling'' \<and> pc_type c \<noteq> ''Paused'' \<and> pc_type c \<noteq> ''Drifted'' \<and> pc_type c \<noteq> ''Conflict'')
         (set_condition (degraded_condition now reason message) (set_condition (ready_condition now False reason message) (pst_conditions status))),
       pst_change_summary := None, pst_plan_warnings := [],
       pst_current_plan_ref := (if clear_current_plan_ref then None else pst_current_plan_ref status),
       pst_last_error := Some message,
       pst_transient_failure_count := (if is_transient_failure then pst_transient_failure_count status + 1 else 0)\<rparr>"

subsection \<open>Conditions that follow the specification\<close>

text \<open>The parts of a policy's specification the central conditions are computed from.\<close>

record policy_resource = policy +
  pr_reconciliation_mode :: reconciliation_mode
  pr_manifest :: policy_manifest

definition approval_unset_condition :: "string \<Rightarrow> approval_mode \<Rightarrow> policy_condition" where
  "approval_unset_condition now inferred =
     (let name = (case inferred of ApprovalAuto \<Rightarrow> ''auto'' | ApprovalManual \<Rightarrow> ''manual'') in
      make_condition now ''ApprovalUnset'' ''True'' ''InferredFromMode''
        (''spec.approval is not set and is currently inferred as '' @ name @ '' from spec.mode. '' @
         ''This inference is deprecated and will become an error in a future release: set '' @
         ''`approval: '' @ name @ ''` explicitly to keep the current behaviour.''))"

definition mode_value_deprecated_condition :: "string \<Rightarrow> policy_condition" where
  "mode_value_deprecated_condition now =
     make_condition now ''ModeValueDeprecated'' ''True'' ''PlanSpelledObserve''
       (''spec.mode is `plan`, the deprecated spelling of `observe`. Behaviour is identical: '' @
        ''plans are computed and published, nothing executes. Change the manifest to '' @
        ''`mode: observe` '' @ em_dash @ '' a future release removes the `plan` value.'')"

definition absence_assertions_ignored_condition :: "string \<Rightarrow> policy_condition" where
  "absence_assertions_ignored_condition now =
     make_condition now ''AbsenceAssertionsIgnored'' ''True'' ''AdditiveModeNeverRevokes''
       (''spec.reconciliation_mode is `additive`, so every `ensure: absent` assertion is '' @
        ''ignored. Use `adopt` or `authoritative` to enforce absence.'')"

definition apply_approval_deprecation_condition :: "string \<Rightarrow> policy_resource \<Rightarrow> policy_condition list \<Rightarrow> policy_condition list" where
  "apply_approval_deprecation_condition now resource conditions =
     (if pol_approval resource \<noteq> None then without_condition ''ApprovalUnset'' conditions
      else set_condition (approval_unset_condition now (effective_approval (policy.truncate resource))) conditions)"

definition apply_mode_deprecation_condition :: "string \<Rightarrow> policy_resource \<Rightarrow> policy_condition list \<Rightarrow> policy_condition list" where
  "apply_mode_deprecation_condition now resource conditions =
     (if pol_mode resource \<noteq> ModePlan then without_condition ''ModeValueDeprecated'' conditions
      else set_condition (mode_value_deprecated_condition now) conditions)"

definition declares_absence :: "policy_manifest \<Rightarrow> bool" where
  "declares_absence manifest =
     (list_ex (\<lambda>grant. g_ensure grant = Absent) (pm_grants manifest) \<or>
      list_ex (\<lambda>defaults. list_ex (\<lambda>grant. dpg_ensure grant = Absent) (dp_grant defaults)) (pm_default_privileges manifest))"

definition apply_additive_absence_condition :: "string \<Rightarrow> policy_resource \<Rightarrow> policy_condition list \<Rightarrow> policy_condition list" where
  "apply_additive_absence_condition now resource conditions =
     (if pr_reconciliation_mode resource = Additive \<and> declares_absence (pr_manifest resource)
      then set_condition (absence_assertions_ignored_condition now) conditions
      else without_condition ''AbsenceAssertionsIgnored'' conditions)"

definition clear_stale_approval_ignored_condition :: "policy_resource \<Rightarrow> policy_condition list \<Rightarrow> policy_condition list" where
  "clear_stale_approval_ignored_condition resource conditions =
     (if \<not> never_executes (pol_mode resource) then without_condition ''ApprovalIgnored'' conditions else conditions)"

definition central_conditions :: "string \<Rightarrow> policy_resource \<Rightarrow> policy_condition list \<Rightarrow> policy_condition list" where
  "central_conditions now resource conditions =
     clear_stale_approval_ignored_condition resource
       (apply_additive_absence_condition now resource
         (apply_mode_deprecation_condition now resource
           (apply_approval_deprecation_condition now resource conditions)))"

text \<open>A status update: the status to write, or \<open>None\<close> when it is what is stored already.\<close>

definition update_status ::
  "string \<Rightarrow> policy_resource \<Rightarrow> (policy_status \<Rightarrow> policy_status) \<Rightarrow> policy_status option \<Rightarrow> policy_status option" where
  "update_status now resource mutate stored =
     (let status = mutate (unwrap_or stored default_policy_status);
          status = status\<lparr>pst_conditions := central_conditions now resource (pst_conditions status)\<rparr> in
      if stored = Some status then None else Some status)"

section \<open>One reconcile\<close>

datatype reconcile_outcome = OutReconciled | OutPlanned | OutSuspended | OutConflict | OutLockContention | OutTargetIdentityBlocked

definition marks_requested_reconcile_handled :: "reconcile_outcome \<Rightarrow> bool" where
  "marks_requested_reconcile_handled outcome = (outcome = OutReconciled \<or> outcome = OutPlanned)"

datatype parent_outcome = ParentConverged | ParentUnstable | ParentExecutionBlocked

definition is_execution_guard_refusal :: "reconcile_error \<Rightarrow> bool" where
  "is_execution_guard_refusal error =
     (case error of ExecutorAuthority _ \<Rightarrow> True | OwnerTransferBlocked _ \<Rightarrow> True | UnsafeRoleDrops _ \<Rightarrow> True | _ \<Rightarrow> False)"

definition candidate_parent_outcome :: "reconcile_error + 'action \<times> reconcile_outcome \<Rightarrow> parent_outcome option" where
  "candidate_parent_outcome result =
     (case result of
        Inr (_, outcome) \<Rightarrow> if outcome = OutReconciled \<or> outcome = OutPlanned then Some ParentConverged else Some ParentUnstable
      | Inl error \<Rightarrow> if is_execution_guard_refusal error then Some ParentExecutionBlocked else None)"

definition candidate_evaluation_unavailable :: "reconcile_error + 'action \<times> reconcile_outcome \<Rightarrow> bool" where
  "candidate_evaluation_unavailable result =
     (case result of
        Inr (_, outcome) \<Rightarrow> \<not> (outcome = OutReconciled \<or> outcome = OutPlanned \<or> outcome = OutLockContention)
      | Inl (LockContention _ _) \<Rightarrow> False
      | Inl error \<Rightarrow> \<not> is_execution_guard_refusal error)"

definition acknowledge :: "string \<Rightarrow> bool \<Rightarrow> policy_status \<Rightarrow> policy_status" where
  "acknowledge requested handled status =
     (let status = status\<lparr>pst_last_attempted_reconcile_at := Some requested\<rparr> in
      if handled then status\<lparr>pst_last_handled_reconcile_at := Some requested\<rparr> else status)"

definition failure_status :: "string \<Rightarrow> reconcile_error \<Rightarrow> string \<Rightarrow> string option \<Rightarrow> policy_status \<Rightarrow> policy_status" where
  "failure_status now error message requested status =
     (let status = mark_reconcile_failure_status now (error_reason error) message
            (retry_class_for_reconcile_error error = RetryTransient)
            (case error of UnsatisfiableWildcardGrant _ \<Rightarrow> True | _ \<Rightarrow> False) status in
      case requested of None \<Rightarrow> status | Some r \<Rightarrow> status\<lparr>pst_last_attempted_reconcile_at := Some r\<rparr>)"

text \<open>
  The frame around the locked phase, whose result is an argument: what is written to the status, whether earlier candidate results are
  withdrawn, and what the controller gets. \<open>show_error\<close> is the text of an error, \<open>api_error\<close> a failure of the status update itself.
\<close>

definition reconcile_apply ::
  "(reconcile_error \<Rightarrow> string) \<Rightarrow> string \<Rightarrow> policy_resource \<Rightarrow> string option \<Rightarrow> string option \<Rightarrow> policy_status option \<Rightarrow> reconcile_error option \<Rightarrow>
     reconcile_error + 'action \<times> reconcile_outcome \<Rightarrow> policy_status option \<times> bool \<times> (reconcile_error + 'action)" where
  "reconcile_apply show_error now resource namespace requested stored api_error result =
     (if namespace = None then (None, False, Inl NoNamespace)
      else
        (let withdrawn = candidate_evaluation_unavailable result;
             write = (\<lambda>mutate. if api_error = None then update_status now resource mutate stored else None) in
         case result of
           Inr (action, outcome) \<Rightarrow>
             if outcome = OutLockContention \<or> requested = None then (None, withdrawn, Inr action)
             else (write (acknowledge (unwrap_or requested []) (marks_requested_reconcile_handled outcome)), withdrawn,
                   case api_error of None \<Rightarrow> Inr action | Some error \<Rightarrow> Inl error)
         | Inl (LockContention db reason) \<Rightarrow> (None, withdrawn, Inl (LockContention db reason))
         | Inl error \<Rightarrow> (write (failure_status now error (show_error error) requested), withdrawn, Inl error)))"

section \<open>Passwords\<close>

record resolved_password =
  rp_cleartext :: string
  rp_source_version :: string
  rp_pending_materialization :: bool

definition select_password_changes ::
  "change list \<Rightarrow> (string, resolved_password) btreemap \<Rightarrow> policy_status option \<Rightarrow> (string, string) btreemap \<times> (string, string) btreemap" where
  "select_password_changes changes resolved_passwords status =
     (let created_roles = set (concat (map (\<lambda>change. case change of CreateRole name _ \<Rightarrow> [name] | _ \<Rightarrow> []) changes));
          previous_versions = (case status of None \<Rightarrow> fmempty | Some st \<Rightarrow> pst_applied_password_source_versions st) in
      fold (\<lambda>(role, resolved) (password_changes, current_versions).
          (if role \<in> created_roles \<or> rp_pending_materialization resolved \<or> fmlookup previous_versions role \<noteq> Some (rp_source_version resolved)
           then fmupd role (rp_cleartext resolved) password_changes else password_changes,
           fmupd role (rp_source_version resolved) current_versions))
        (bt_entries resolved_passwords) (fmempty, fmempty))"

text \<open>
  Secrets of generated passwords are written before the plan runs. \<open>ensure\<close> is the create-or-read of a Secret: the password and the
  source version it holds then. When another writer was first, the plan's verifier is rebuilt from the Secret.
\<close>

definition materialize_one ::
  "(string \<Rightarrow> string) \<Rightarrow> (string \<Rightarrow> reconcile_error + string \<times> string) \<Rightarrow> string \<times> resolved_password \<Rightarrow> change list \<times> (string, string) btreemap \<Rightarrow>
     reconcile_error + change list \<times> (string, string) btreemap" where
  "materialize_one compute_verifier ensure = (\<lambda>(role, resolved) (changes, versions).
     if \<not> rp_pending_materialization resolved then Inr (changes, versions)
     else bind_r (ensure role) (\<lambda>(password, source_version).
       Inr (if password \<noteq> rp_cleartext resolved
            then map (\<lambda>change. case change of SetPassword name _ \<Rightarrow> if name = role then SetPassword name (compute_verifier password) else change | _ \<Rightarrow> change) changes
            else changes,
            fmupd role source_version versions)))"

definition materialize_pending_generated_secrets ::
  "(string \<Rightarrow> string) \<Rightarrow> (string \<Rightarrow> reconcile_error + string \<times> string) \<Rightarrow> (string, resolved_password) btreemap \<Rightarrow>
     change list \<Rightarrow> (string, string) btreemap \<Rightarrow> reconcile_error + change list \<times> (string, string) btreemap" where
  "materialize_pending_generated_secrets compute_verifier ensure resolved_passwords changes versions =
     fold_r (materialize_one compute_verifier ensure) (bt_entries resolved_passwords) (changes, versions)"

section \<open>Summary of a plan\<close>

definition empty_summary :: change_summary where
  "empty_summary =
     \<lparr>cs_roles_created = 0, cs_roles_altered = 0, cs_schemas_created = 0, cs_schema_owners_altered = 0, cs_roles_dropped = 0,
      cs_sessions_terminated = 0, cs_grants_added = 0, cs_grants_revoked = 0, cs_default_privileges_set = 0, cs_default_privileges_revoked = 0,
      cs_members_added = 0, cs_members_options_changed = 0, cs_members_removed = 0, cs_passwords_set = 0, cs_total = 0\<rparr>"

fun accumulate_summary :: "change \<Rightarrow> change_summary \<Rightarrow> change_summary" where
  "accumulate_summary (CreateRole _ _) s = s\<lparr>cs_roles_created := cs_roles_created s + 1\<rparr>"
| "accumulate_summary (CreateSchema _ _) s = s\<lparr>cs_schemas_created := cs_schemas_created s + 1\<rparr>"
| "accumulate_summary (AlterSchemaOwner _ _) s = s\<lparr>cs_schema_owners_altered := cs_schema_owners_altered s + 1\<rparr>"
| "accumulate_summary (AlterRole _ _) s = s\<lparr>cs_roles_altered := cs_roles_altered s + 1\<rparr>"
| "accumulate_summary (SetComment _ _) s = s\<lparr>cs_roles_altered := cs_roles_altered s + 1\<rparr>"
| "accumulate_summary (DropRole _) s = s\<lparr>cs_roles_dropped := cs_roles_dropped s + 1\<rparr>"
| "accumulate_summary (TerminateSessions _) s = s\<lparr>cs_sessions_terminated := cs_sessions_terminated s + 1\<rparr>"
| "accumulate_summary (ReassignOwned _ _) s = s"
| "accumulate_summary (DropOwned _) s = s"
| "accumulate_summary (Grant _ _ _ _ _) s = s\<lparr>cs_grants_added := cs_grants_added s + 1\<rparr>"
| "accumulate_summary (EnsureSchemaOwnerPrivileges _ _ _) s = s\<lparr>cs_grants_added := cs_grants_added s + 1\<rparr>"
| "accumulate_summary (Revoke _ _ _ _ _ _) s = s\<lparr>cs_grants_revoked := cs_grants_revoked s + 1\<rparr>"
| "accumulate_summary (SetDefaultPrivilege _ _ _ _ _) s = s\<lparr>cs_default_privileges_set := cs_default_privileges_set s + 1\<rparr>"
| "accumulate_summary (RevokeDefaultPrivilege _ _ _ _ _) s = s\<lparr>cs_default_privileges_revoked := cs_default_privileges_revoked s + 1\<rparr>"
| "accumulate_summary (UpdateMemberOptions _ _ _ _ _ _) s = s\<lparr>cs_members_options_changed := cs_members_options_changed s + 1\<rparr>"
| "accumulate_summary (AddMember _ _ _ _) s = s\<lparr>cs_members_added := cs_members_added s + 1\<rparr>"
| "accumulate_summary (RemoveMember _ _ _) s = s\<lparr>cs_members_removed := cs_members_removed s + 1\<rparr>"
| "accumulate_summary (SetPassword _ _) s = s\<lparr>cs_passwords_set := cs_passwords_set s + 1\<rparr>"

definition summary_sum :: "change_summary \<Rightarrow> 32 word" where
  "summary_sum s =
     cs_roles_created s + cs_roles_altered s + cs_schemas_created s + cs_schema_owners_altered s + cs_roles_dropped s + cs_sessions_terminated s +
     cs_grants_added s + cs_grants_revoked s + cs_default_privileges_set s + cs_default_privileges_revoked s + cs_members_options_changed s +
     cs_members_added s + cs_members_removed s + cs_passwords_set s"

definition summarize_changes :: "change list \<Rightarrow> change_summary" where
  "summarize_changes changes = (let s = fold accumulate_summary changes empty_summary in s\<lparr>cs_total := summary_sum s\<rparr>)"

end
