(* ===== verification/ReconcilerLaws.thy ===== *)
theory ReconcilerLaws
  imports Reconciler "HOL-Library.Code_Target_Nat"
begin

text \<open>
  Retry delays stay within their bounds, intervals are read as the checked durations are, a failure that repeats writes nothing, and a
  password is set exactly when it has to be.
\<close>

section \<open>Delays\<close>

lemma backoff_bounds:
  "min (5 * 2 ^ min (unat attempts - 1) 10) 300 \<le> transient_backoff_delay e attempts \<and> transient_backoff_delay e attempts \<le> 300"
proof -
  have "unat (push_bit k 1 :: 64 word) = 2 ^ k" if "k \<le> 10" for k
  proof -
    have "(2::nat) ^ k < 2 ^ 64" using that by (intro power_strict_increasing) auto
    moreover have "push_bit k 1 = (of_nat (2 ^ k) :: 64 word)" by (simp add: push_bit_eq_mult)
    ultimately show ?thesis by (simp only: unat_of_nat) simp
  qed
  moreover have "(5::nat) * 2 ^ k \<le> U64_MAX" if "k \<le> 10" for k
  proof -
    have "(2::nat) ^ k \<le> 2 ^ 10" using that by (intro power_increasing) auto
    then show ?thesis by (simp add: U64_MAX_def)
  qed
  ultimately have base: "min (min (5 * unat (push_bit k 1 :: 64 word)) U64_MAX) 300 = min (5 * 2 ^ k) 300" if "k \<le> 10" for k
    using that by (simp add: min_absorb1)
  have "\<exists>j. transient_backoff_delay e attempts = min (min (5 * 2 ^ min (unat attempts - 1) 10) 300 + j) 300"
    unfolding transient_backoff_delay_def Let_def TRANSIENT_BACKOFF_BASE_SECS_def TRANSIENT_BACKOFF_MAX_SECS_def base[OF min.cobounded2] by blast
  then show ?thesis by auto
qed

lemma interval_end_positive: "interval_end v t number = Inr d \<Longrightarrow> 0 < d"
  by (auto simp: interval_end_def DEFAULT_REQUEUE_SECS_def unat_gt_0 split: if_splits option.splits)

lemma interval_loop_positive: "interval_loop v t number cs = Inr d \<Longrightarrow> 0 < d"
  by (induction v t number cs rule: interval_loop.induct) (auto intro: interval_end_positive split: if_splits option.splits)

lemma slow_retry_delay_positive: "0 < slow_retry_delay interval"
  using interval_loop_positive
  by (auto simp: slow_retry_delay_def parse_interval_def Let_def DEFAULT_REQUEUE_SECS_def split: sum.splits if_splits)

text \<open>
  A failed reconcile is always retried after a positive delay, within the bounds of its class: 10 to 30 seconds after contention for
  the database lock, 10 seconds while ephemeral access is being cleaned up, at least the exponential base and at most 300 seconds after
  a transient failure, and the policy's own interval otherwise.
\<close>

theorem retry_delay_within_bounds:
  "0 < retry_action e interval failures error \<and>
   (case retry_class_of error of
      RetryLockContention \<Rightarrow> retry_action e interval failures error \<in> {10..30}
    | RetryCleanupPending \<Rightarrow> retry_action e interval failures error = 10
    | RetryTransient \<Rightarrow> retry_action e interval failures error \<in> {min (5 * 2 ^ min (unat (next_transient_failure_count failures) - 1) 10) 300..300}
    | RetrySlow \<Rightarrow> retry_action e interval failures error = slow_retry_delay interval)"
proof -
  have jitter: "jitter_delay e \<in> {10..30}"
    using mod_less_divisor[of 21 "unat (en_nanos e XOR en_thread e)"]
    by (simp add: jitter_delay_def LOCK_CONTENTION_BASE_SECS_def LOCK_CONTENTION_JITTER_SECS_def)
  have "0 < transient_backoff_delay e n" for n 
  proof -
    have "0 < min (5 * 2 ^ min (unat n - 1) 10) (300::nat)" by simp
    then show ?thesis using backoff_bounds[of n e] by linarith
  qed
  then show ?thesis
    using jitter backoff_bounds slow_retry_delay_positive by (auto simp: retry_action_def split: retry_class.splits)
qed

section \<open>Intervals\<close>

lemma interval_unit_seconds: "interval_unit c = map_option of_nat (unit_seconds c)"
  by (simp add: interval_unit_def unit_seconds_def)

lemma interval_loop_duration:
  "duration_loop w acc number cs = Inr d \<Longrightarrow> acc \<le> U64_MAX \<Longrightarrow> interval_loop v (of_nat acc) number cs = Inr d"
proof (induction w acc number cs rule: duration_loop.induct)
  case (1 w acc number)
  then have "acc = d" "0 < acc" "number = []" by (auto split: if_splits)
  moreover have "unat (of_nat acc :: 64 word) = acc" using 1 by (auto simp: unat_of_nat U64_MAX_def split: if_splits)
  moreover from calculation have "(of_nat acc :: 64 word) \<noteq> 0" by (metis unat_0 less_irrefl)
  ultimately show ?case by (simp add: interval_end_def)
next
  case (2 w acc number c cs)
  show ?case
  proof (cases "is_digit_char c")
    case True
    then show ?thesis using 2 by simp
  next
    case False
    then obtain amount multiplier where "parse_u64_digits number = Some amount" "unit_seconds c = Some multiplier"
      "acc + amount * multiplier \<le> U64_MAX" "duration_loop w (acc + amount * multiplier) [] cs = Inr d"
      using 2 by (auto split: option.splits if_splits)
    then show ?thesis using 2(2)[OF False] 2 False by (auto simp: interval_unit_seconds split: if_splits)
  qed
qed

text \<open>Whatever is a valid duration is read by the unchecked interval parser as that duration.\<close>

theorem interval_reads_durations:
  assumes "parse_duration v = Inr d"
  shows "parse_interval v = Inr d"
  using assms interval_loop_duration[of "trim v" 0 "[]" "chars (trim v)" d "trim v"]
  by (auto simp: parse_duration_def parse_interval_def Let_def split: if_splits)

text \<open>
  The interval parser does not check its sums. An interval of more than 10 to the 17th hours is accepted and read as 16 seconds.
\<close>

theorem interval_overflow_wraps: "parse_interval ''1147797409030816545h'' = Inr 16"
  by code_simp

section \<open>Conditions\<close>

text \<open>The condition a status gets when it is set: with the old transition time if the state did not change.\<close>

definition stamped :: "policy_condition list \<Rightarrow> policy_condition \<Rightarrow> policy_condition" where
  "stamped cs c =
     (case List.find (\<lambda>x. pc_type x = pc_type c) cs of
        Some existing \<Rightarrow> if pc_status existing = pc_status c then c\<lparr>pc_last_transition_time := pc_last_transition_time existing\<rparr> else c
      | None \<Rightarrow> c)"

lemma set_condition_stamped: "set_condition c cs = without_condition (pc_type c) cs @ [stamped cs c]"
  by (simp add: set_condition_def stamped_def Let_def)

lemma pc_type_stamped [simp]: "pc_type (stamped cs c) = pc_type c"
  by (simp add: stamped_def split: option.splits)

text \<open>A sequence of updates: conditions set and types removed.\<close>

datatype condition_op = SetOp policy_condition | DropOp string

fun op_type :: "condition_op \<Rightarrow> string" where
  "op_type (SetOp c) = pc_type c"
| "op_type (DropOp t) = t"

fun op_set :: "condition_op \<Rightarrow> policy_condition list" where
  "op_set (SetOp c) = [c]"
| "op_set (DropOp t) = []"

fun run_op :: "condition_op \<Rightarrow> policy_condition list \<Rightarrow> policy_condition list" where
  "run_op (SetOp c) cs = set_condition c cs"
| "run_op (DropOp t) cs = without_condition t cs"

lemma find_without: "t \<noteq> t' \<Longrightarrow> List.find (\<lambda>x. pc_type x = t) (without_condition t' cs) = List.find (\<lambda>x. pc_type x = t) cs"
  by (induction cs) (auto simp: without_condition_def)

lemma find_append: "List.find P (xs @ ys) = (case List.find P xs of None \<Rightarrow> List.find P ys | Some x \<Rightarrow> Some x)"
  by (induction xs) auto

lemma stamped_run_op: "pc_type c \<noteq> op_type x \<Longrightarrow> stamped (run_op x cs) c = stamped cs c"
proof (cases x)
  case (SetOp y)
  moreover assume "pc_type c \<noteq> op_type x"
  ultimately show ?thesis by (simp add: stamped_def[of _ c] set_condition_stamped find_append find_without split: option.splits)
qed (simp add: stamped_def find_without)

lemma run_ops_normal:
  assumes "distinct (map op_type ops)"
  shows "fold run_op ops cs = filter (\<lambda>c. pc_type c \<notin> set (map op_type ops)) cs @ map (stamped cs) (concat (map op_set ops))"
  using assms
proof (induction ops arbitrary: cs)
  case (Cons x ops)
  have later: "pc_type c \<noteq> op_type x" if c: "c \<in> set (concat (map op_set ops))" for c
  proof -
    obtain y where "y \<in> set ops" "c \<in> set (op_set y)" using c by auto
    then have "pc_type c = op_type y" by (cases y rule: condition_op.exhaust) auto
    then show ?thesis using \<open>y \<in> set ops\<close> Cons.prems by (metis distinct.simps(2) image_eqI list.map(2) list.set_map)
  qed
  have stamps: "map (stamped (run_op x cs)) (concat (map op_set ops)) = map (stamped cs) (concat (map op_set ops))"
    using later stamped_run_op by (intro map_cong) auto
  have "filter (\<lambda>c. pc_type c \<notin> set (map op_type ops)) (run_op x cs) =
      filter (\<lambda>c. pc_type c \<notin> set (map op_type (x # ops))) cs @ map (stamped cs) (op_set x)"
    using Cons.prems by (cases x) (auto simp: set_condition_stamped without_condition_def conj_commute)
  then show ?case using Cons.IH[of "run_op x cs"] Cons.prems stamps by simp
qed simp

text \<open>Conditions set once are found again with the same state, so setting them a second time keeps their times.\<close>

definition same_state :: "policy_condition \<Rightarrow> policy_condition \<Rightarrow> bool" where
  "same_state c c' \<longleftrightarrow> c'\<lparr>pc_last_transition_time := None\<rparr> = c\<lparr>pc_last_transition_time := None\<rparr>"

lemma stamped_again:
  assumes "List.find (\<lambda>x. pc_type x = pc_type c) cs = Some (stamped cs0 c0)" "same_state c0 c"
  shows "stamped cs c = stamped cs0 c0"
proof -
  have "c = c0\<lparr>pc_last_transition_time := pc_last_transition_time c\<rparr>" using assms(2) by (cases c; cases c0) (simp add: same_state_def)
  moreover have "pc_status (stamped cs0 c0) = pc_status c0" "(stamped cs0 c0) = c0\<lparr>pc_last_transition_time := pc_last_transition_time (stamped cs0 c0)\<rparr>"
    by (auto simp: stamped_def split: option.splits)
  ultimately show ?thesis using assms(1) unfolding stamped_def[of cs c] by (cases c; cases c0) (auto split: option.splits)
qed

lemma find_by_type:
  assumes "distinct (map pc_type xs)" "x \<in> set xs"
  shows "List.find (\<lambda>y. pc_type y = pc_type x) xs = Some x"
  using assms by (induction xs) (auto simp: image_iff)

lemma op_set_types: "map pc_type (concat (map op_set ops)) = map op_type (filter (\<lambda>x. op_set x \<noteq> []) ops)"
proof (induction ops)
  case (Cons x ops)
  then show ?case by (cases x) auto
qed simp

lemma ops_absorbed:
  assumes F: "distinct (map op_type F)" and S: "distinct (map op_type S)" and sub: "set (map op_type S) \<subseteq> set (map op_type F)"
    and sets: "concat (map op_set F) = A @ B" "list_all2 same_state B (concat (map op_set S))"
    and keep: "pc_type ` set A \<inter> set (map op_type S) = {}" and again: "pc_type ` set B \<subseteq> set (map op_type S)"
  shows "fold run_op S (fold run_op F cs) = fold run_op F cs"
proof -
  let ?base = "filter (\<lambda>c. pc_type c \<notin> set (map op_type F)) cs"
  let ?X = "?base @ map (stamped cs) (A @ B)"
  have X: "fold run_op F cs = ?X" using run_ops_normal[OF F] sets(1) by simp
  have dist: "distinct (map pc_type (A @ B))" unfolding sets(1)[symmetric] op_set_types using F by (simp add: distinct_map_filter)
  have notin: "List.find (\<lambda>x. pc_type x = pc_type b) ?base = None" if "b \<in> set B" for b
  proof -
    have "pc_type b \<in> set (map op_type F)" using again sub that by blast
    then show ?thesis by (auto simp: find_None_iff)
  qed
  have found: "List.find (\<lambda>x. pc_type x = pc_type b) ?X = Some (stamped cs b)" if "b \<in> set B" for b
    using find_by_type[of "map (stamped cs) (A @ B)" "stamped cs b"] dist that notin[OF that] by (simp add: find_append comp_def)
  have "map (stamped ?X) (concat (map op_set S)) = map (stamped cs) B"
  proof (rule nth_equalityI)
    fix i assume "i < length (map (stamped ?X) (concat (map op_set S)))"
    then have i: "i < length B" "same_state (B ! i) (concat (map op_set S) ! i)" using sets(2) by (auto simp: list_all2_conv_all_nth)
    then have "pc_type (concat (map op_set S) ! i) = pc_type (B ! i)" by (cases "B ! i"; cases "concat (map op_set S) ! i") (simp add: same_state_def)
    then have "List.find (\<lambda>x. pc_type x = pc_type (concat (map op_set S) ! i)) ?X = Some (stamped cs (B ! i))" using found[of "B ! i"] i(1) by simp
    from stamped_again[OF this i(2)] show "map (stamped ?X) (concat (map op_set S)) ! i = map (stamped cs) B ! i"
      using i(1) sets(2) by (simp add: list_all2_lengthD)
  qed (use sets(2) in \<open>simp add: list_all2_lengthD\<close>)
  moreover have "filter (\<lambda>c. pc_type c \<notin> set (map op_type S)) ?X = ?base @ map (stamped cs) A"
  proof -
    have "filter (\<lambda>c. pc_type c \<notin> set (map op_type S)) ?base = ?base" by (rule filter_True) (use sub in auto)
    moreover have "filter (\<lambda>c. pc_type c \<notin> set (map op_type S)) (map (stamped cs) A) = map (stamped cs) A" using keep by (auto simp: filter_id_conv)
    moreover have "filter (\<lambda>c. pc_type c \<notin> set (map op_type S)) (map (stamped cs) B) = []" using again by (auto simp: filter_empty_conv)
    ultimately show ?thesis by simp
  qed
  ultimately show ?thesis unfolding X run_ops_normal[OF S] by simp
qed

section \<open>A failure that repeats\<close>

definition central_ops :: "string \<Rightarrow> policy_resource \<Rightarrow> condition_op list" where
  "central_ops now resource =
     [if pol_approval resource \<noteq> None then DropOp ''ApprovalUnset'' else SetOp (approval_unset_condition now (effective_approval (policy.truncate resource))),
      if pol_mode resource \<noteq> ModePlan then DropOp ''ModeValueDeprecated'' else SetOp (mode_value_deprecated_condition now),
      if pr_reconciliation_mode resource = Additive \<and> declares_absence (pr_manifest resource) then SetOp (absence_assertions_ignored_condition now)
        else DropOp ''AbsenceAssertionsIgnored''] @
     (if \<not> never_executes (pol_mode resource) then [DropOp ''ApprovalIgnored''] else [])"

lemma central_conditions_ops: "central_conditions now resource cs = fold run_op (central_ops now resource) cs"
  by (simp add: central_conditions_def central_ops_def apply_approval_deprecation_condition_def apply_mode_deprecation_condition_def
      apply_additive_absence_condition_def clear_stale_approval_ignored_condition_def)

definition failure_ops :: "string \<Rightarrow> string \<Rightarrow> string \<Rightarrow> condition_op list" where
  "failure_ops now reason message =
     [SetOp (ready_condition now False reason message), SetOp (degraded_condition now reason message),
      DropOp ''Reconciling'', DropOp ''Paused'', DropOp ''Drifted'', DropOp ''Conflict'']"

lemma failure_conditions_ops:
  "pst_conditions (failure_status now error message requested status) = fold run_op (failure_ops now (error_reason error) message) (pst_conditions status)"
  by (simp add: failure_status_def mark_reconcile_failure_status_def failure_ops_def without_condition_def conj_ac Let_def split: option.splits)

lemmas condition_defs = make_condition_def ready_condition_def degraded_condition_def approval_unset_condition_def mode_value_deprecated_condition_def
  absence_assertions_ignored_condition_def same_state_def

lemma central_types: "distinct (map op_type (central_ops now resource)) \<and>
    map op_type (central_ops now' resource) = map op_type (central_ops now resource) \<and>
    set (map op_type (central_ops now resource)) \<subseteq> {''ApprovalUnset'', ''ModeValueDeprecated'', ''AbsenceAssertionsIgnored'', ''ApprovalIgnored''}"
  by (simp add: central_ops_def condition_defs Let_def)

lemma central_sets: "list_all2 same_state (concat (map op_set (central_ops now resource))) (concat (map op_set (central_ops now' resource)))"
  by (simp add: central_ops_def condition_defs Let_def)

lemma central_set_types: "pc_type ` set (concat (map op_set ops)) \<subseteq> set (map op_type ops)"
proof -
  have "set (map pc_type (concat (map op_set ops))) \<subseteq> set (map op_type ops)" unfolding op_set_types by auto
  then show ?thesis by simp
qed

text \<open>What is stored after an update, whether it was written or was there already.\<close>

definition stored_after :: "string \<Rightarrow> policy_resource \<Rightarrow> (policy_status \<Rightarrow> policy_status) \<Rightarrow> policy_status option \<Rightarrow> policy_status option" where
  "stored_after now resource mutate stored = (case update_status now resource mutate stored of None \<Rightarrow> stored | Some s \<Rightarrow> Some s)"

lemma stored_after_eq:
  "stored_after now resource mutate stored =
     (let s = mutate (unwrap_or stored default_policy_status) in Some (s\<lparr>pst_conditions := central_conditions now resource (pst_conditions s)\<rparr>))"
  by (auto simp: stored_after_def update_status_def Let_def)

text \<open>
  C36: a permanent failure is written once. When the retry of the same generation fails with the same error, neither the update at its
  start nor the one at its end changes the stored status, at whatever times they happen: conditions keep their order and their
  transition times, so a policy that keeps failing does not wake itself up.
\<close>

theorem repeated_failure_is_quiet:
  assumes "generation \<noteq> None" and "retry_class_for_reconcile_error error \<noteq> RetryTransient"
    and "after = stored_after t2 resource (failure_status t2 error message requested) (stored_after t1 resource (start_attempt t1 generation) stored)"
  shows "update_status t3 resource (start_attempt t3 generation) after = None \<and>
    update_status t4 resource (failure_status t4 error message requested) after = None"
proof -
  obtain s1 where s1: "stored_after t1 resource (start_attempt t1 generation) stored = Some s1" "pst_last_attempted_generation s1 = generation"
    by (simp add: stored_after_eq Let_def start_attempt_def)
  let ?F = "\<lambda>now. failure_ops now (error_reason error) message @ central_ops now resource"
  define t where "t = (failure_status t2 error message requested s1)\<lparr>pst_conditions := fold run_op (?F t2) (pst_conditions s1)\<rparr>"
  have after: "after = Some t"
    unfolding assms(3) s1(1) unfolding stored_after_eq t_def Let_def by (simp add: failure_conditions_ops central_conditions_ops)
  have types: "distinct (map op_type (?F now))" "set (map op_type (central_ops now resource)) \<subseteq> set (map op_type (?F t2))"
    "set (map op_type (?F now)) \<subseteq> set (map op_type (?F t2))" for now
    using central_types[of now resource t2] by (auto simp: failure_ops_def condition_defs)
  have sets: "concat (map op_set (?F now)) = [ready_condition now False (error_reason error) message, degraded_condition now (error_reason error) message] @
      concat (map op_set (central_ops now resource))" for now by (simp add: failure_ops_def)
  have failing: "fold run_op (?F t4) (pst_conditions t) = pst_conditions t"
  proof -
    have "list_all2 same_state (concat (map op_set (?F t2))) (concat (map op_set (?F t4)))"
      unfolding sets using central_sets[of t2 resource t4] by (simp add: condition_defs)
    moreover have "pc_type ` set (concat (map op_set (?F t2))) \<subseteq> set (map op_type (?F t4))"
      using central_set_types[of "?F t2"] central_types[of t4 resource t2] by (auto simp: failure_ops_def condition_defs)
    ultimately have "fold run_op (?F t4) (fold run_op (?F t2) cs) = fold run_op (?F t2) cs" for cs
      by (intro ops_absorbed[where A = "[]" and B = "concat (map op_set (?F t2))", OF types(1) types(1) types(3)]) simp_all
    then show ?thesis by (simp add: t_def)
  qed
  have starting: "fold run_op (DropOp ''Paused'' # DropOp ''Drifted'' # central_ops t3 resource) (pst_conditions t) = pst_conditions t"
  proof -
    let ?S = "DropOp ''Paused'' # DropOp ''Drifted'' # central_ops t3 resource"
    have "distinct (map op_type ?S)" "set (map op_type ?S) \<subseteq> set (map op_type (?F t2))"
      using central_types[of t3 resource t2] types(2)[of t3] by (auto simp: failure_ops_def condition_defs)
    moreover have "pc_type ` set [ready_condition t2 False (error_reason error) message, degraded_condition t2 (error_reason error) message] \<inter> set (map op_type ?S) = {}"
      using central_types[of t3 resource t2] by (auto simp: condition_defs)
    moreover have "pc_type ` set (concat (map op_set (central_ops t2 resource))) \<subseteq> set (map op_type ?S)"
      using central_set_types[of "central_ops t2 resource"] central_types[of t3 resource t2] by auto
    moreover have "list_all2 same_state (concat (map op_set (central_ops t2 resource))) (concat (map op_set ?S))" using central_sets by simp
    ultimately have "fold run_op ?S (fold run_op (?F t2) cs) = fold run_op (?F t2) cs" for cs
      by (intro ops_absorbed[OF types(1) _ _ sets])
    then show ?thesis by (simp add: t_def)
  qed
  have generation: "pst_last_attempted_generation t = generation"
    using s1(2) by (simp add: t_def failure_status_def mark_reconcile_failure_status_def Let_def split: option.splits)
  have "list_ex (\<lambda>c. pc_type c = ''Ready'') (pst_conditions t)"
    unfolding t_def using run_ops_normal[OF types(1)[of t2]] by (simp only: policy_status.simps sets) (simp add: condition_defs)
  then have settled: "\<not> should_announce_reconciling t generation"
    using assms(1) generation by (simp add: should_announce_reconciling_def)
  have "(start_attempt t3 generation t)\<lparr>pst_conditions := central_conditions t3 resource (pst_conditions (start_attempt t3 generation t))\<rparr> = t"
    using settled starting generation by (simp add: start_attempt_def central_conditions_ops without_condition_def conj_commute)
  moreover have "(failure_status t4 error message requested t)\<lparr>pst_conditions := central_conditions t4 resource (pst_conditions (failure_status t4 error message requested t))\<rparr> = t"
  proof -
    have "pst_conditions (failure_status t4 error message requested t) = fold run_op (failure_ops t4 (error_reason error) message) (pst_conditions t)"
      by (rule failure_conditions_ops)
    then have "central_conditions t4 resource (pst_conditions (failure_status t4 error message requested t)) = pst_conditions t"
      using failing by (simp add: central_conditions_ops)
    moreover have "(failure_status t4 error message requested t)\<lparr>pst_conditions := pst_conditions t\<rparr> = t"
      using assms(2) by (simp add: t_def failure_status_def mark_reconcile_failure_status_def Let_def split: option.splits reconcile_error.splits)
    ultimately show ?thesis by simp
  qed
  ultimately show ?thesis by (simp add: after update_status_def Let_def)
qed

section \<open>Passwords\<close>

definition creates_role :: "change list \<Rightarrow> string \<Rightarrow> bool" where
  "creates_role changes role = list_ex (\<lambda>change. case change of CreateRole name _ \<Rightarrow> name = role | _ \<Rightarrow> False) changes"

lemma creates_role_set: "role \<in> set (concat (map (\<lambda>change. case change of CreateRole name _ \<Rightarrow> [name] | _ \<Rightarrow> []) changes)) \<longleftrightarrow> creates_role changes role"
  by (induction changes) (auto simp: creates_role_def split: change.splits)

definition password_due :: "change list \<Rightarrow> policy_status option \<Rightarrow> string \<Rightarrow> resolved_password \<Rightarrow> bool" where
  "password_due changes status role r = (creates_role changes role \<or> rp_pending_materialization r \<or>
     Option.bind status (\<lambda>st. fmlookup (pst_applied_password_source_versions st) role) \<noteq> Some (rp_source_version r))"

lemma password_step:
  "select_password_changes changes resolved status =
     fold (\<lambda>(role, r) (p, v). (if password_due changes status role r then fmupd role (rp_cleartext r) p else p, fmupd role (rp_source_version r) v))
       (bt_entries resolved) (fmempty, fmempty)"
  unfolding select_password_changes_def Let_def creates_role_set password_due_def by (cases status) (simp_all add: case_prod_beta)

lemma password_fold:
  "distinct (map fst xs) \<Longrightarrow>
   fmlookup (fst (fold (\<lambda>(role, r) (p, v). (if due role r then fmupd role (f r) p else p, fmupd role (g r) v)) xs (p, v))) role =
     (case map_of xs role of None \<Rightarrow> fmlookup p role | Some r \<Rightarrow> if due role r then Some (f r) else fmlookup p role) \<and>
   fmlookup (snd (fold (\<lambda>(role, r) (p, v). (if due role r then fmupd role (f r) p else p, fmupd role (g r) v)) xs (p, v))) role =
     (case map_of xs role of None \<Rightarrow> fmlookup v role | Some r \<Rightarrow> Some (g r))"
proof (induction xs arbitrary: p v)
  case (Cons x xs)
  obtain k r where x: "x = (k, r)" by (cases x)
  have "map_of xs k = None" using Cons.prems x by (auto simp: map_of_eq_None_iff)
  moreover have "distinct (map fst xs)" using Cons.prems by simp
  note IH = Cons.IH[OF this]
  show ?case using calculation x by (cases "due k r"; cases "k = role") (auto simp: IH split: option.splits)
qed simp

lemma password_changes_lookup:
  "fmlookup (fst (select_password_changes changes resolved status)) role =
     Option.bind (fmlookup resolved role) (\<lambda>r. if password_due changes status role r then Some (rp_cleartext r) else None)"
  "fmlookup (snd (select_password_changes changes resolved status)) role = map_option rp_source_version (fmlookup resolved role)"
  unfolding password_step by (simp_all add: password_fold split: option.splits)

text \<open>
  A password is set exactly when the plan creates its role, its Secret is still to be written, or its source is not the one recorded
  last; the versions to record are the current sources of all passwords. Recording them settles the matter: with the same sources, no
  Secret to write and no role to create, the next pass selects nothing.
\<close>

theorem password_selection_exact:
  "fmlookup (fst (select_password_changes changes resolved status)) role =
     (case fmlookup resolved role of
        None \<Rightarrow> None
      | Some r \<Rightarrow> if creates_role changes role \<or> rp_pending_materialization r \<or>
            Option.bind status (\<lambda>st. fmlookup (pst_applied_password_source_versions st) role) \<noteq> Some (rp_source_version r)
          then Some (rp_cleartext r) else None) \<and>
   fmlookup (snd (select_password_changes changes resolved status)) role = map_option rp_source_version (fmlookup resolved role) \<and>
   (list_all (\<lambda>(_, r). \<not> rp_pending_materialization r) (bt_entries resolved) \<and> list_all (\<lambda>name. \<not> creates_role later name) (bt_keys resolved) \<longrightarrow>
     fst (select_password_changes later resolved (Some (st\<lparr>pst_applied_password_source_versions := snd (select_password_changes changes resolved status)\<rparr>))) = fmempty)"
proof -
  have "fst (select_password_changes later resolved (Some (st\<lparr>pst_applied_password_source_versions := snd (select_password_changes changes resolved status)\<rparr>))) = fmempty"
    if quiet: "list_all (\<lambda>(_, r). \<not> rp_pending_materialization r) (bt_entries resolved)" "list_all (\<lambda>name. \<not> creates_role later name) (bt_keys resolved)"
  proof (rule fmap_ext)
    fix role
    have "\<not> rp_pending_materialization r \<and> \<not> creates_role later role" if "fmlookup resolved role = Some r" for r
      using quiet that by (force simp: list_all_iff contains_key_def)
    then show "fmlookup (fst (select_password_changes later resolved (Some (st\<lparr>pst_applied_password_source_versions := snd (select_password_changes changes resolved status)\<rparr>)))) role = fmlookup fmempty role"
      by (cases "fmlookup resolved role") (simp_all add: password_changes_lookup password_due_def)
  qed
  then show ?thesis by (auto simp: password_changes_lookup password_due_def split: option.splits)
qed

section \<open>Summaries\<close>

definition counted :: "change \<Rightarrow> bool" where
  "counted change = (case change of ReassignOwned _ _ \<Rightarrow> False | DropOwned _ \<Rightarrow> False | _ \<Rightarrow> True)"

lemma accumulate_counts: "summary_sum (accumulate_summary change s) = summary_sum s + (if counted change then 1 else 0)"
  by (cases change) (simp_all add: summary_sum_def counted_def)

lemma fold_accumulate: "summary_sum (fold accumulate_summary changes s) = summary_sum s + of_nat (length (filter counted changes))"
  by (induction changes arbitrary: s) (simp_all add: accumulate_counts)

text \<open>
  The total of a plan's summary counts every change but the transfers and removals of owned objects, which a retirement adds: the
  summary of a plan that reassigns and drops what a role owns before it drops the role counts one change out of three.
\<close>

theorem summary_total_exact:
  "cs_total (summarize_changes changes) = of_nat (length (filter counted changes)) \<and>
   cs_total (summarize_changes [ReassignOwned ''old'' ''new'', DropOwned ''old'', DropRole ''old'']) = 1"
proof -
  have zero: "summary_sum empty_summary = 0" by (simp add: summary_sum_def empty_summary_def)
  have "cs_total (summarize_changes changes) = of_nat (length (filter counted changes))" for changes
    using fold_accumulate[of changes empty_summary] unfolding zero by (simp add: summarize_changes_def Let_def)
  then show ?thesis by (simp add: counted_def)
qed

section \<open>Concrete inputs\<close>

theorem interval_reads_durations_witness: "parse_duration ''2h30m'' = Inr 9000 \<and> parse_interval ''2h30m'' = Inr 9000"
proof -
  have "parse_duration ''2h30m'' = Inr 9000" by code_simp
  then show ?thesis using interval_reads_durations by blast
qed

definition ex_resource :: policy_resource where
  "ex_resource = \<lparr>pol_name = ''main'', pol_uid = None, pol_mode = ModePlan, pol_approval = None, pol_content_digest = None,
     pr_reconciliation_mode = Additive,
     pr_manifest = \<lparr>pm_role_pattern = None, pm_default_owner = None, pm_auth_providers = [], pm_profiles = fmempty, pm_schemas = [],
       pm_roles = [], pm_grants = [], pm_default_privileges = [], pm_memberships = [], pm_retirements = []\<rparr>\<rparr>"

theorem repeated_failure_is_quiet_witness:
  "\<exists>status. stored_after ''2'' ex_resource (failure_status ''2'' (InvalidSpec ''x'') ''bad'' None)
      (stored_after ''1'' ex_resource (start_attempt ''1'' (Some 7)) None) = Some status \<and>
    pst_last_attempted_generation status = Some 7 \<and> pst_last_error status = Some ''bad'' \<and>
    update_status ''3'' ex_resource (start_attempt ''3'' (Some 7)) (Some status) = None \<and>
    update_status ''4'' ex_resource (failure_status ''4'' (InvalidSpec ''x'') ''bad'' None) (Some status) = None"
proof -
  have cls: "retry_class_for_reconcile_error (InvalidSpec ''x'') \<noteq> RetryTransient" by (simp add: retry_class_for_reconcile_error_def)
  let ?after = "stored_after ''2'' ex_resource (failure_status ''2'' (InvalidSpec ''x'') ''bad'' None) (stored_after ''1'' ex_resource (start_attempt ''1'' (Some 7)) None)"
  obtain status where "?after = Some status" "pst_last_attempted_generation status = Some 7" "pst_last_error status = Some ''bad''"
    by (simp add: stored_after_eq Let_def start_attempt_def failure_status_def mark_reconcile_failure_status_def)
  then show ?thesis using repeated_failure_is_quiet[of "Some 7" "InvalidSpec ''x''", OF _ cls, of ?after "''2''" ex_resource "''bad''" None "''1''" None "''3''" "''4''"] by auto
qed

theorem password_selection_exact_witness:
  "fst (select_password_changes [] (fmap_of_list [(''app'', \<lparr>rp_cleartext = ''pw'', rp_source_version = ''s:k:2'', rp_pending_materialization = False\<rparr>)])
     (Some (default_policy_status\<lparr>pst_applied_password_source_versions :=
        snd (select_password_changes [] (fmap_of_list [(''app'', \<lparr>rp_cleartext = ''pw'', rp_source_version = ''s:k:2'', rp_pending_materialization = False\<rparr>)]) None)\<rparr>))) = fmempty"
proof -
  let ?r = "fmap_of_list [(''app'', \<lparr>rp_cleartext = ''pw'', rp_source_version = ''s:k:2'', rp_pending_materialization = False\<rparr>)]"
  have "list_all (\<lambda>(_, r). \<not> rp_pending_materialization r) (bt_entries ?r)" "list_all (\<lambda>name. \<not> creates_role [] name) (bt_keys ?r)" by code_simp+
  then show ?thesis using password_selection_exact[of "[]" ?r None _ "[]" default_policy_status] by blast
qed

end
