(* ===== verification/RequestIndex.thy ===== *)
theory RequestIndex
  imports Ephemeral
begin

text \<open>
  The index of access requests that is fed by the watch (\<open>crates/pgroles-operator/src/request_index.rs\<close>): the objects seen, three
  secondary indexes over them, and the events that keep them up to date. A full resync fills a buffer that replaces the live index when it
  is complete. Hash maps and sets are finite maps and sets, so the order of a lookup's result is not part of the model; the wait for the
  first sync is a lookup that fails while the index is not ready.
\<close>

section \<open>State\<close>

record indexed_request = access_request +
  rq_namespace :: "string option"

text \<open>A reference: the name and the namespace of an object.\<close>

type_synonym request_ref = "string \<times> string option"
type_synonym namespaced = "string \<times> string"
type_synonym ref_index = "(namespaced, request_ref fset) fmap"

record index_state =
  is_objects :: "(request_ref, indexed_request) fmap"
  is_by_access_policy_name :: ref_index
  is_by_access_policy_uid :: ref_index
  is_by_target_policy_uid :: ref_index

definition empty_index_state :: index_state where
  "empty_index_state = \<lparr>is_objects = fmempty, is_by_access_policy_name = fmempty, is_by_access_policy_uid = fmempty, is_by_target_policy_uid = fmempty\<rparr>"

definition object_ref :: "indexed_request \<Rightarrow> request_ref" where
  "object_ref request = (rq_name request, rq_namespace request)"

definition namespaced_key :: "indexed_request \<Rightarrow> string \<Rightarrow> namespaced" where
  "namespaced_key request v = (unwrap_or (rq_namespace request) [], v)"

definition resolved_of :: "indexed_request \<Rightarrow> resolved_access option" where
  "resolved_of request = Option.bind (rq_status request) rs_resolved_access"

section \<open>Updates\<close>

definition remove_ref :: "namespaced \<Rightarrow> request_ref \<Rightarrow> ref_index \<Rightarrow> ref_index" where
  "remove_ref key ref index =
     (case fmlookup index key of
        None \<Rightarrow> index
      | Some refs \<Rightarrow>
          (let refs = refs |-| {|ref|} in if refs = {||} then fmdrop key index else fmupd key refs index))"

definition add_ref :: "namespaced \<Rightarrow> request_ref \<Rightarrow> ref_index \<Rightarrow> ref_index" where
  "add_ref key ref index = fmupd key (finsert ref (unwrap_or (fmlookup index key) {||})) index"

definition index_remove :: "request_ref \<Rightarrow> index_state \<Rightarrow> index_state" where
  "index_remove ref s =
     (case fmlookup (is_objects s) ref of
        None \<Rightarrow> s
      | Some request \<Rightarrow>
          (let s = s\<lparr>is_objects := fmdrop ref (is_objects s),
                 is_by_access_policy_name := remove_ref (namespaced_key request (rq_access_policy_ref request)) ref (is_by_access_policy_name s)\<rparr> in
           case resolved_of request of
             None \<Rightarrow> s
           | Some resolved \<Rightarrow>
               s\<lparr>is_by_access_policy_uid := remove_ref (namespaced_key request (ra_access_policy_uid resolved)) ref (is_by_access_policy_uid s),
                 is_by_target_policy_uid := remove_ref (namespaced_key request (ra_target_policy_uid resolved)) ref (is_by_target_policy_uid s)\<rparr>))"

definition index_upsert :: "indexed_request \<Rightarrow> index_state \<Rightarrow> index_state" where
  "index_upsert request s =
     (let ref = object_ref request;
          s = index_remove ref s;
          s = s\<lparr>is_by_access_policy_name := add_ref (namespaced_key request (rq_access_policy_ref request)) ref (is_by_access_policy_name s)\<rparr>;
          s = (case resolved_of request of
                 None \<Rightarrow> s
               | Some resolved \<Rightarrow>
                   s\<lparr>is_by_access_policy_uid := add_ref (namespaced_key request (ra_access_policy_uid resolved)) ref (is_by_access_policy_uid s),
                     is_by_target_policy_uid := add_ref (namespaced_key request (ra_target_policy_uid resolved)) ref (is_by_target_policy_uid s)\<rparr>) in
      s\<lparr>is_objects := fmupd ref request (is_objects s)\<rparr>)"

definition values_for :: "index_state \<Rightarrow> ref_index \<Rightarrow> namespaced \<Rightarrow> indexed_request fset" where
  "values_for s index key =
     (case fmlookup index key of
        None \<Rightarrow> {||}
      | Some refs \<Rightarrow> (\<lambda>ref. the (fmlookup (is_objects s) ref)) |`| ffilter (\<lambda>ref. fmlookup (is_objects s) ref \<noteq> None) refs)"

section \<open>Events and lookups\<close>

record request_index =
  ri_live :: index_state
  ri_initializing :: "index_state option"
  ri_ready :: bool

definition new_request_index :: request_index where
  "new_request_index = \<lparr>ri_live = empty_index_state, ri_initializing = None, ri_ready = False\<rparr>"

datatype watch_event = EvApply indexed_request | EvDelete indexed_request | EvInit | EvInitApply indexed_request | EvInitDone

fun observe :: "watch_event \<Rightarrow> request_index \<Rightarrow> request_index" where
  "observe (EvApply request) x = x\<lparr>ri_live := index_upsert request (ri_live x)\<rparr>"
| "observe (EvDelete request) x = x\<lparr>ri_live := index_remove (object_ref request) (ri_live x)\<rparr>"
| "observe EvInit x = x\<lparr>ri_initializing := Some empty_index_state\<rparr>"
| "observe (EvInitApply request) x = x\<lparr>ri_initializing := map_option (index_upsert request) (ri_initializing x)\<rparr>"
| "observe EvInitDone x =
     (case ri_initializing x of
        None \<Rightarrow> x\<lparr>ri_ready := True\<rparr>
      | Some buffer \<Rightarrow> x\<lparr>ri_live := buffer, ri_initializing := None, ri_ready := True\<rparr>)"

definition lookup_in :: "(index_state \<Rightarrow> ref_index) \<Rightarrow> request_index \<Rightarrow> string \<Rightarrow> string \<Rightarrow> indexed_request fset option" where
  "lookup_in index_of x namespace v = (if ri_ready x then Some (values_for (ri_live x) (index_of (ri_live x)) (namespace, v)) else None)"

definition for_access_policy_name :: "request_index \<Rightarrow> string \<Rightarrow> string \<Rightarrow> indexed_request fset option" where
  "for_access_policy_name = lookup_in is_by_access_policy_name"

definition for_access_policy_uid :: "request_index \<Rightarrow> string \<Rightarrow> string \<Rightarrow> indexed_request fset option" where
  "for_access_policy_uid = lookup_in is_by_access_policy_uid"

definition for_target_policy_uid :: "request_index \<Rightarrow> string \<Rightarrow> string \<Rightarrow> indexed_request fset option" where
  "for_target_policy_uid = lookup_in is_by_target_policy_uid"

definition index_len :: "request_index \<Rightarrow> nat" where
  "index_len x = fcard (fmdom (is_objects (ri_live x)))"

section \<open>A secondary index is exact\<close>

text \<open>What the objects of a state are after an update, whatever the indexes do.\<close>

lemma objects_remove [simp]: "is_objects (index_remove ref s) = fmdrop ref (is_objects s)"
  by (auto simp: index_remove_def Let_def fmdrop_idle' fmdom'_notI split: option.splits)

lemma objects_upsert [simp]: "is_objects (index_upsert r s) = fmupd (object_ref r) r (is_objects s)"
  by (auto simp: index_upsert_def Let_def intro!: fmap_ext split: option.splits)

lemma lookup_remove_ref:
  "fmlookup (remove_ref key ref index) k =
     (if k = key then Option.bind (fmlookup index key) (\<lambda>refs. if refs |-| {|ref|} = {||} then None else Some (refs |-| {|ref|})) else fmlookup index k)"
  by (cases "fmlookup index key") (simp_all add: remove_ref_def Let_def)

lemma lookup_add_ref:
  "fmlookup (add_ref key ref index) k = (if k = key then Some (finsert ref (unwrap_or (fmlookup index key) {||})) else fmlookup index k)"
  by (simp add: add_ref_def)

definition refs_of :: "(indexed_request \<Rightarrow> namespaced option) \<Rightarrow> (request_ref, indexed_request) fmap \<Rightarrow> namespaced \<Rightarrow> request_ref fset" where
  "refs_of key objects k = ffilter (\<lambda>ref. Option.bind (fmlookup objects ref) key = Some k) (fmdom objects)"

lemma in_refs_of: "ref |\<in>| refs_of key objects k \<longleftrightarrow> (\<exists>r. fmlookup objects ref = Some r \<and> key r = Some k)"
  by (auto simp: refs_of_def fmdom_notI bind_eq_Some_conv dest: fmdomI)

definition exact_index :: "(indexed_request \<Rightarrow> namespaced option) \<Rightarrow> (request_ref, indexed_request) fmap \<Rightarrow> ref_index \<Rightarrow> bool" where
  "exact_index key objects index \<longleftrightarrow>
     (\<forall>k. fmlookup index k = (if refs_of key objects k = {||} then None else Some (refs_of key objects k)))"

text \<open>
  An index is exact when it lists, for every key, the references of the objects with that key, and has no entry for other keys. The
  contract of an index with its state: an update of the objects adds or removes the reference at the key of the object, if it has one.
\<close>

locale secondary_index =
  fixes index_of :: "index_state \<Rightarrow> ref_index"
    and key_of :: "indexed_request \<Rightarrow> namespaced option"
  assumes index_empty: "index_of empty_index_state = fmempty"
    and index_removed: "index_of (index_remove ref s) =
      (case fmlookup (is_objects s) ref of
         None \<Rightarrow> index_of s
       | Some r \<Rightarrow> (case key_of r of None \<Rightarrow> index_of s | Some k \<Rightarrow> remove_ref k ref (index_of s)))"
    and index_upserted: "index_of (index_upsert r s) =
      (case key_of r of
         None \<Rightarrow> index_of (index_remove (object_ref r) s)
       | Some k \<Rightarrow> add_ref k (object_ref r) (index_of (index_remove (object_ref r) s)))"
begin

definition exact :: "index_state \<Rightarrow> bool" where
  "exact s = exact_index key_of (is_objects s) (index_of s)"

lemma exactI:
  "(\<And>k. fmlookup (index_of s) k = (if refs_of key_of (is_objects s) k = {||} then None else Some (refs_of key_of (is_objects s) k))) \<Longrightarrow> exact s"
  by (simp only: exact_def exact_index_def) blast

lemma exactD:
  "exact s \<Longrightarrow> fmlookup (index_of s) k = (if refs_of key_of (is_objects s) k = {||} then None else Some (refs_of key_of (is_objects s) k))"
  by (simp only: exact_def exact_index_def)

lemma exact_empty: "exact empty_index_state"
proof (rule exactI)
  fix k
  have "refs_of key_of (is_objects empty_index_state) k = {||}" by (simp add: refs_of_def empty_index_state_def)
  then show "fmlookup (index_of empty_index_state) k =
      (if refs_of key_of (is_objects empty_index_state) k = {||} then None else Some (refs_of key_of (is_objects empty_index_state) k))"
    by (simp add: index_empty)
qed

lemma exact_remove:
  assumes "exact s"
  shows "exact (index_remove ref s)"
proof (rule exactI)
  fix k
  have refs: "refs_of key_of (is_objects (index_remove ref s)) k = refs_of key_of (is_objects s) k |-| {|ref|}"
    by (rule fset_eqI) (auto simp: in_refs_of split: if_splits)
  have other: "Option.bind (fmlookup (is_objects s) ref) key_of \<noteq> Some k \<Longrightarrow>
      refs_of key_of (is_objects s) k |-| {|ref|} = refs_of key_of (is_objects s) k"
    by (intro fset_eqI) (auto simp: in_refs_of)
  show "fmlookup (index_of (index_remove ref s)) k =
      (if refs_of key_of (is_objects (index_remove ref s)) k = {||} then None else Some (refs_of key_of (is_objects (index_remove ref s)) k))"
  proof (cases "Option.bind (fmlookup (is_objects s) ref) key_of = Some k")
    case True
    then obtain r where "fmlookup (is_objects s) ref = Some r" "key_of r = Some k" by (auto simp: bind_eq_Some_conv)
    then show ?thesis unfolding refs index_removed using exactD[OF assms, of k]
      by (cases "refs_of key_of (is_objects s) k = {||}") (simp_all add: lookup_remove_ref)
  next
    case False
    then have "fmlookup (index_of (index_remove ref s)) k = fmlookup (index_of s) k"
      by (cases "fmlookup (is_objects s) ref"; cases "key_of (the (fmlookup (is_objects s) ref))") (simp_all add: index_removed lookup_remove_ref)
    then show ?thesis unfolding refs other[OF False] using exactD[OF assms, of k] by simp
  qed
qed

lemma exact_upsert:
  assumes "exact s"
  shows "exact (index_upsert r s)"
proof (rule exactI)
  fix k
  let ?t = "index_remove (object_ref r) s"
  have refs: "refs_of key_of (is_objects (index_upsert r s)) k =
      (if key_of r = Some k then finsert (object_ref r) (refs_of key_of (is_objects ?t) k) else refs_of key_of (is_objects ?t) k)"
    by (rule fset_eqI) (auto simp: in_refs_of split: if_splits)
  show "fmlookup (index_of (index_upsert r s)) k =
      (if refs_of key_of (is_objects (index_upsert r s)) k = {||} then None else Some (refs_of key_of (is_objects (index_upsert r s)) k))"
    unfolding refs index_upserted using exactD[OF exact_remove[OF assms], of "object_ref r" k]
    by (cases "key_of r"; cases "refs_of key_of (is_objects ?t) k = {||}") (auto simp: lookup_add_ref simp del: objects_remove)
qed

lemma values_exact:
  assumes "exact s"
  shows "values_for s (index_of s) k = ffilter (\<lambda>r. key_of r = Some k) (fmran (is_objects s))"
proof (rule fset_eqI)
  fix r
  let ?refs = "refs_of key_of (is_objects s) k"
  have "values_for s (index_of s) k = (\<lambda>ref. the (fmlookup (is_objects s) ref)) |`| ffilter (\<lambda>ref. fmlookup (is_objects s) ref \<noteq> None) ?refs"
    unfolding values_for_def exactD[OF assms, of k] by (cases "?refs = {||}") auto
  also have "r |\<in>| \<dots> \<longleftrightarrow> (\<exists>ref. ref |\<in>| ?refs \<and> fmlookup (is_objects s) ref = Some r)"
    by (force simp: image_iff simp del: split_paired_Ex)
  finally have "r |\<in>| values_for s (index_of s) k \<longleftrightarrow> (\<exists>ref. ref |\<in>| ?refs \<and> fmlookup (is_objects s) ref = Some r)" .
  then show "r |\<in>| values_for s (index_of s) k \<longleftrightarrow> r |\<in>| ffilter (\<lambda>r. key_of r = Some k) (fmran (is_objects s))"
    by (auto simp: in_refs_of fmlookup_ran_iff simp del: split_paired_All split_paired_Ex)
qed

end

definition policy_name_key :: "indexed_request \<Rightarrow> namespaced option" where
  "policy_name_key r = Some (namespaced_key r (rq_access_policy_ref r))"

definition policy_uid_key :: "indexed_request \<Rightarrow> namespaced option" where
  "policy_uid_key r = map_option (\<lambda>resolved. namespaced_key r (ra_access_policy_uid resolved)) (resolved_of r)"

definition target_uid_key :: "indexed_request \<Rightarrow> namespaced option" where
  "target_uid_key r = map_option (\<lambda>resolved. namespaced_key r (ra_target_policy_uid resolved)) (resolved_of r)"

interpretation by_name: secondary_index is_by_access_policy_name policy_name_key
  by unfold_locales (auto simp: empty_index_state_def index_remove_def index_upsert_def policy_name_key_def Let_def split: option.splits)

interpretation by_policy: secondary_index is_by_access_policy_uid policy_uid_key
  by unfold_locales (auto simp: empty_index_state_def index_remove_def index_upsert_def policy_uid_key_def Let_def split: option.splits)

interpretation by_target: secondary_index is_by_target_policy_uid target_uid_key
  by unfold_locales (auto simp: empty_index_state_def index_remove_def index_upsert_def target_uid_key_def Let_def split: option.splits)

section \<open>Lookups after any events\<close>

text \<open>
  The specification: a plain map of objects that follows the events, a staging map during a resync, and a flag.
\<close>

record request_store =
  st_objects :: "(request_ref, indexed_request) fmap"
  st_staging :: "(request_ref, indexed_request) fmap option"
  st_synced :: bool

definition new_store :: request_store where
  "new_store = \<lparr>st_objects = fmempty, st_staging = None, st_synced = False\<rparr>"

fun store_event :: "watch_event \<Rightarrow> request_store \<Rightarrow> request_store" where
  "store_event (EvApply r) x = x\<lparr>st_objects := fmupd (object_ref r) r (st_objects x)\<rparr>"
| "store_event (EvDelete r) x = x\<lparr>st_objects := fmdrop (object_ref r) (st_objects x)\<rparr>"
| "store_event EvInit x = x\<lparr>st_staging := Some fmempty\<rparr>"
| "store_event (EvInitApply r) x = x\<lparr>st_staging := map_option (fmupd (object_ref r) r) (st_staging x)\<rparr>"
| "store_event EvInitDone x = x\<lparr>st_objects := unwrap_or (st_staging x) (st_objects x), st_staging := None, st_synced := True\<rparr>"

definition abs_index :: "request_index \<Rightarrow> request_store" where
  "abs_index x = \<lparr>st_objects = is_objects (ri_live x), st_staging = map_option is_objects (ri_initializing x), st_synced = ri_ready x\<rparr>"

definition all_exact :: "index_state \<Rightarrow> bool" where
  "all_exact s \<longleftrightarrow> by_name.exact s \<and> by_policy.exact s \<and> by_target.exact s"

lemma all_exact_updates [simp, intro]:
  "all_exact empty_index_state"
  "all_exact s \<Longrightarrow> all_exact (index_remove ref s)"
  "all_exact s \<Longrightarrow> all_exact (index_upsert r s)"
  by (simp_all add: all_exact_def by_name.exact_empty by_policy.exact_empty by_target.exact_empty by_name.exact_remove by_policy.exact_remove
      by_target.exact_remove by_name.exact_upsert by_policy.exact_upsert by_target.exact_upsert)

definition index_invariant :: "request_index \<Rightarrow> bool" where
  "index_invariant x \<longleftrightarrow> all_exact (ri_live x) \<and> pred_option all_exact (ri_initializing x)"

lemma observe_refines:
  assumes "index_invariant x"
  shows "index_invariant (observe e x) \<and> abs_index (observe e x) = store_event e (abs_index x)"
  using assms by (cases e; cases "ri_initializing x") (auto simp: index_invariant_def abs_index_def empty_index_state_def[THEN arg_cong[of _ _ is_objects]])

lemma observe_all_refines:
  "index_invariant x \<Longrightarrow> index_invariant (fold observe es x) \<and> abs_index (fold observe es x) = fold store_event es (abs_index x)"
  by (induction es arbitrary: x) (simp_all add: observe_refines)

lemma new_index_refines: "index_invariant new_request_index" "abs_index new_request_index = new_store"
  by (simp_all add: index_invariant_def new_request_index_def abs_index_def new_store_def empty_index_state_def all_exact_updates(1)[unfolded empty_index_state_def])

text \<open>
  C37: the request index refines a plain store of requests. After any sequence of watch events, a lookup fails exactly when no sync has
  completed, and otherwise returns exactly the stored requests of the namespace that name the access policy, or whose recorded bundle
  has the UID of the access policy or of the target. Nothing removed is still found and nothing stored is missed, also across a resync.
\<close>

theorem request_index_exact:
  "let x = fold observe events new_request_index; store = fold store_event events new_store;
       found = (\<lambda>key. if st_synced store then Some (ffilter (\<lambda>r. key r = Some (namespace, v)) (fmran (st_objects store))) else None) in
   for_access_policy_name x namespace v = found (\<lambda>r. Some (namespaced_key r (rq_access_policy_ref r))) \<and>
   for_access_policy_uid x namespace v = found (\<lambda>r. map_option (\<lambda>b. namespaced_key r (ra_access_policy_uid b)) (resolved_of r)) \<and>
   for_target_policy_uid x namespace v = found (\<lambda>r. map_option (\<lambda>b. namespaced_key r (ra_target_policy_uid b)) (resolved_of r)) \<and>
   index_len x = fcard (fmdom (st_objects store))"
proof -
  let ?x = "fold observe events new_request_index" and ?store = "fold store_event events new_store"
  have run: "index_invariant ?x" "abs_index ?x = ?store"
    using observe_all_refines[OF new_index_refines(1), of events] by (simp_all add: new_index_refines(2))
  have store: "st_synced ?store = ri_ready ?x" "st_objects ?store = is_objects (ri_live ?x)"
    unfolding run(2)[symmetric] by (simp_all add: abs_index_def)
  have exact: "by_name.exact (ri_live ?x)" "by_policy.exact (ri_live ?x)" "by_target.exact (ri_live ?x)"
    using run(1) by (simp_all add: index_invariant_def all_exact_def)
  show ?thesis
    unfolding Let_def for_access_policy_name_def for_access_policy_uid_def for_target_policy_uid_def lookup_in_def index_len_def store
    by (simp add: by_name.values_exact[OF exact(1)] by_policy.values_exact[OF exact(2)] by_target.values_exact[OF exact(3)]
        policy_name_key_def policy_uid_key_def target_uid_key_def)
qed

end
