(* ===== verification/K8sNames.thy ===== *)
theory K8sNames
  imports Expand
begin

text \<open>
  Identifiers of Kubernetes objects (\<open>crates/pgroles-operator/src/k8s_names.rs\<close>), the names of plans (\<open>plan.rs\<close>) and of the Secrets of
  generated passwords (\<open>password.rs\<close>). Strings are their UTF-8 bytes; a \<open>char\<close> of the source is a group of \<open>chars\<close>.
\<close>

section \<open>Validity\<close>

definition MAX_LABEL_VALUE_LENGTH :: nat where "MAX_LABEL_VALUE_LENGTH = 63"
definition MAX_RESOURCE_NAME_LENGTH :: nat where "MAX_RESOURCE_NAME_LENGTH = 253"

definition is_label_char :: "char \<Rightarrow> bool" where
  "is_label_char b = (is_ascii_alphanumeric b \<or> b = CHR ''.'' \<or> b = CHR ''-'' \<or> b = CHR ''_'')"

definition is_valid_label_value :: "string \<Rightarrow> bool" where
  "is_valid_label_value v =
     (if v = [] then True
      else if length v > MAX_LABEL_VALUE_LENGTH then False
      else if \<not> is_ascii_alphanumeric (hd v) \<or> \<not> is_ascii_alphanumeric (last v) then False
      else list_all is_label_char v)"

definition is_lower_alnum :: "char \<Rightarrow> bool" where
  "is_lower_alnum b = (is_ascii_lowercase b \<or> is_ascii_digit b)"

definition is_dns1123_label :: "string \<Rightarrow> bool" where
  "is_dns1123_label v =
     (if v = [] then False
      else if \<not> is_lower_alnum (hd v) \<or> \<not> is_lower_alnum (last v) then False
      else list_all (\<lambda>b. is_lower_alnum b \<or> b = CHR ''-'') v)"

definition is_valid_resource_name :: "string \<Rightarrow> bool" where
  "is_valid_resource_name v =
     (if v = [] \<or> length v > MAX_RESOURCE_NAME_LENGTH then False else list_all is_dns1123_label (split_on CHR ''.'' v))"

section \<open>Construction\<close>

definition trim_end_matches :: "('a \<Rightarrow> bool) \<Rightarrow> 'a list \<Rightarrow> 'a list" where
  "trim_end_matches p xs = rev (dropWhile p (rev xs))"

definition is_name_separator :: "char \<Rightarrow> bool" where
  "is_name_separator b = (b = CHR ''.'' \<or> b = CHR ''-'')"

text \<open>The largest character boundary at or below the limit.\<close>

fun boundary_below :: "string \<Rightarrow> nat \<Rightarrow> nat" where
  "boundary_below v 0 = 0"
| "boundary_below v (Suc n) = (if is_char_boundary v (Suc n) then Suc n else boundary_below v n)"

definition truncate_name_prefix :: "string \<Rightarrow> nat \<Rightarrow> string" where
  "truncate_name_prefix name_prefix max_bytes =
     (let cut = (if length name_prefix \<le> max_bytes then length name_prefix else boundary_below name_prefix max_bytes) in
      trim_end_matches is_name_separator (take cut name_prefix))"

text \<open>An ASCII character of the source is a group of one byte; the methods for ASCII classes are false on all others.\<close>

definition char_is :: "(char \<Rightarrow> bool) \<Rightarrow> rust_char \<Rightarrow> bool" where
  "char_is p c = (length c = 1 \<and> p (hd c))"

definition push_segment :: "rust_char \<Rightarrow> string \<times> bool \<Rightarrow> string \<times> bool" where
  "push_segment ch = (\<lambda>(acc, last_was_dash).
     (let normalized = map to_ascii_lowercase_char ch in
      if char_is is_ascii_lowercase normalized \<or> char_is is_ascii_digit normalized then (acc @ normalized, False)
      else if \<not> last_was_dash \<and> acc \<noteq> [] then (acc @ ''-'', True)
      else (acc, last_was_dash)))"

definition trim_matches :: "char \<Rightarrow> string \<Rightarrow> string" where
  "trim_matches d s = trim_end_matches (\<lambda>b. b = d) (dropWhile (\<lambda>b. b = d) s)"

definition sanitize_dns_label_segment :: "string \<Rightarrow> string \<Rightarrow> string" where
  "sanitize_dns_label_segment input fallback =
     (let trimmed = trim_matches CHR ''-'' (fst (fold push_segment (chars input) ([], False))) in
      if trimmed = [] then fallback else trimmed)"

definition label_char :: "rust_char \<Rightarrow> rust_char" where
  "label_char c = (if char_is is_label_char c then c else ''_'')"

definition sanitize_label_value :: "string \<Rightarrow> string" where
  "sanitize_label_value v =
     (let alnum = char_is is_ascii_alphanumeric;
          sanitized = take MAX_LABEL_VALUE_LENGTH (map label_char (dropWhile (\<lambda>c. \<not> alnum c) (chars v))) in
      concat (trim_end_matches (\<lambda>c. \<not> alnum c) sanitized))"

datatype invalid_identifier = InvalidIdentifier string string

definition label_try_new :: "string \<Rightarrow> invalid_identifier + string" where
  "label_try_new v = (if is_valid_label_value v then Inr v else Inl (InvalidIdentifier ''label value'' v))"

definition resource_try_new :: "string \<Rightarrow> invalid_identifier + string" where
  "resource_try_new v = (if is_valid_resource_name v then Inr v else Inl (InvalidIdentifier ''resource name'' v))"

section \<open>Names the operator derives\<close>

text \<open>\<open>timestamp\<close> is the compact time stamp of the moment, of 15 characters. A prefix length below zero is a panic.\<close>

definition generate_plan_name :: "string \<Rightarrow> string \<Rightarrow> string \<Rightarrow> string option" where
  "generate_plan_name timestamp policy_name sql_hash =
     (let suffix = take (min 12 (length sql_hash)) sql_hash;
          max_name_len = MAX_RESOURCE_NAME_LENGTH - 4;
          used = length ''-plan-'' + length timestamp + length ''-'' + length suffix in
      if used > max_name_len then None
      else Some (truncate_name_prefix policy_name (max_name_len - used) @ ''-plan-'' @ timestamp @ ''-'' @ suffix))"

definition configmap_name :: "string \<Rightarrow> string" where
  "configmap_name plan_name = plan_name @ ''-sql''"

definition configmap_plan_name :: "string \<Rightarrow> string" where
  "configmap_plan_name name = (if suffix ''-sql'' name then take (length name - 4) name else name)"

definition default_generated_secret_name :: "string \<Rightarrow> string \<Rightarrow> string" where
  "default_generated_secret_name policy_name role_name =
     (let name = sanitize_dns_label_segment policy_name ''policy'' @ ''-pgr-'' @ sanitize_dns_label_segment role_name ''role'';
          truncated = truncate_name_prefix name MAX_RESOURCE_NAME_LENGTH in
      if truncated = [] then ''pgroles-generated-password'' else truncated)"

section \<open>Names as words of an automaton\<close>

text \<open>
  A resource name read from left to right: at the start of a label, after a letter or digit, or after a dash. Cutting a name and
  appending to it are steps of this automaton, which is what the proofs below use instead of the split at dots.
\<close>

datatype name_state = AtStart | AfterAlnum | AfterDash

fun name_step :: "char \<Rightarrow> name_state \<Rightarrow> name_state option" where
  "name_step b AtStart = (if is_lower_alnum b then Some AfterAlnum else None)"
| "name_step b AfterAlnum =
     (if is_lower_alnum b then Some AfterAlnum else if b = CHR ''-'' then Some AfterDash else if b = CHR ''.'' then Some AtStart else None)"
| "name_step b AfterDash = (if is_lower_alnum b then Some AfterAlnum else if b = CHR ''-'' then Some AfterDash else None)"

fun name_run :: "string \<Rightarrow> name_state \<Rightarrow> name_state option" where
  "name_run [] q = Some q"
| "name_run (b # bs) q = Option.bind (name_step b q) (name_run bs)"

lemma name_run_append: "name_run (s @ t) q = Option.bind (name_run s q) (name_run t)"
proof (induction s arbitrary: q)
  case (Cons b s)
  then show ?case by (cases "name_step b q") simp_all
qed simp

definition label_rest :: "string \<Rightarrow> bool" where
  "label_rest s = (list_all (\<lambda>b. is_lower_alnum b \<or> b = CHR ''-'') s \<and> (s \<noteq> [] \<longrightarrow> is_lower_alnum (last s)))"

lemma label_by_rest: "is_dns1123_label (b # s) \<longleftrightarrow> is_lower_alnum b \<and> label_rest s"
  by (cases s) (auto simp: is_dns1123_label_def label_rest_def)

lemma not_dot [simp]: "is_lower_alnum CHR ''.'' = False" "is_lower_alnum CHR ''-'' = False"
  by (simp_all add: is_lower_alnum_def is_ascii_lowercase_def is_ascii_digit_def)

lemma dashes_label [simp]: "is_dns1123_label [] = False" by (simp add: is_dns1123_label_def)

lemma label_rest_Cons [simp]: "label_rest (b # s) \<longleftrightarrow> (is_lower_alnum b \<and> label_rest s) \<or> (b = CHR ''-'' \<and> s \<noteq> [] \<and> label_rest s)"
  by (auto simp: label_rest_def)

lemma label_rest_Nil [simp]: "label_rest []" by (simp add: label_rest_def)

lemma split_on_nonempty [simp]: "split_on d s \<noteq> []"
  by (induction s) (auto split: list.splits)

lemma name_run_split:
  "name_run s q = Some AfterAlnum \<longleftrightarrow>
     (case split_on CHR ''.'' s of
        [] \<Rightarrow> False
      | seg # segs \<Rightarrow>
          list_all is_dns1123_label segs \<and>
          (case q of AtStart \<Rightarrow> is_dns1123_label seg | AfterAlnum \<Rightarrow> label_rest seg | AfterDash \<Rightarrow> seg \<noteq> [] \<and> label_rest seg))"
proof (induction s arbitrary: q)
  case Nil
  then show ?case by (cases q) simp_all
next
  case (Cons b s)
  obtain seg segs where split: "split_on CHR ''.'' s = seg # segs" by (cases "split_on CHR ''.'' s") auto
  show ?case
  proof (cases "b = CHR ''.''")
    case True
    then show ?thesis using Cons split by (cases q) auto
  next
    case False
    then show ?thesis using Cons split by (cases q) (auto simp: label_by_rest)
  qed
qed

lemma valid_name_run:
  "is_valid_resource_name v \<longleftrightarrow> length v \<le> 253 \<and> name_run v AtStart = Some AfterAlnum"
proof (cases "v = []")
  case False
  obtain seg segs where "split_on CHR ''.'' v = seg # segs" by (cases "split_on CHR ''.'' v") auto
  then show ?thesis using False by (auto simp: is_valid_resource_name_def name_run_split MAX_RESOURCE_NAME_LENGTH_def)
qed (simp add: is_valid_resource_name_def)

section \<open>Cutting names\<close>

lemma trim_end_snoc: "trim_end_matches p (xs @ [x]) = (if p x then trim_end_matches p xs else xs @ [x])"
  by (simp add: trim_end_matches_def)

lemma trim_end_Nil [simp]: "trim_end_matches p [] = []"
  by (simp add: trim_end_matches_def)

lemma length_trim_end: "length (trim_end_matches p xs) \<le> length xs"
  using length_dropWhile_le[of p "rev xs"] by (simp add: trim_end_matches_def)

lemma step_to_alnum: "name_step b q = Some q' \<Longrightarrow> \<not> is_name_separator b \<Longrightarrow> q' = AfterAlnum"
  by (cases q) (auto simp: is_name_separator_def split: if_splits)

lemma trimmed_run:
  assumes "name_run v AtStart = Some q" and "v \<noteq> []"
  shows "trim_end_matches is_name_separator v \<noteq> [] \<and> name_run (trim_end_matches is_name_separator v) AtStart = Some AfterAlnum"
  using assms
proof (induction v arbitrary: q rule: rev_induct)
  case (snoc b w)
  from snoc.prems(1) obtain r where r: "name_run w AtStart = Some r" "name_step b r = Some q"
    by (auto simp: name_run_append bind_eq_Some_conv)
  show ?case
  proof (cases "is_name_separator b")
    case True
    then have "w \<noteq> []" using r by (auto simp: is_name_separator_def)
    with True snoc.IH[OF r(1)] show ?thesis by (simp add: trim_end_snoc)
  next
    case False
    then show ?thesis using snoc.prems(1) step_to_alnum[OF r(2) False] by (simp add: trim_end_snoc)
  qed
qed simp

lemma run_prefix: "name_run v q = Some r \<Longrightarrow> \<exists>r'. name_run (take n v) q = Some r'"
  using name_run_append[of "take n v" "drop n v" q] by (cases "name_run (take n v) q") auto

lemma name_bytes_ascii: "name_run v q = Some r \<Longrightarrow> list_all (\<lambda>b. \<not> is_continuation b) v"
proof (induction v arbitrary: q)
  case (Cons b v)
  then obtain q' where "name_step b q = Some q'" "name_run v q' = Some r" by (auto simp: bind_eq_Some_conv)
  moreover from this(1) have "\<not> is_continuation b"
    by (cases q) (auto simp: is_continuation_def is_lower_alnum_def is_ascii_lowercase_def is_ascii_digit_def split: if_splits)
  ultimately show ?case using Cons.IH by simp
qed simp

lemma boundary_ascii: "list_all (\<lambda>b. \<not> is_continuation b) v \<Longrightarrow> n < length v \<Longrightarrow> boundary_below v n = n"
  by (cases n) (auto simp: is_char_boundary_def list_all_length)

text \<open>Cutting a valid name leaves a valid name, and never nothing.\<close>

lemma truncated_name_run:
  assumes "name_run v AtStart = Some AfterAlnum" and "0 < n"
  shows "truncate_name_prefix v n \<noteq> [] \<and> name_run (truncate_name_prefix v n) AtStart = Some AfterAlnum \<and> length (truncate_name_prefix v n) \<le> n"
proof -
  have "v \<noteq> []" using assms(1) by auto
  define cut where "cut = (if length v \<le> n then length v else boundary_below v n)"
  have cut: "0 < cut" "cut \<le> n"
    using assms(2) \<open>v \<noteq> []\<close> boundary_ascii[OF name_bytes_ascii[OF assms(1)]] by (auto simp: cut_def)
  obtain r where r: "name_run (take cut v) AtStart = Some r" using run_prefix[OF assms(1)] by blast
  have "take cut v \<noteq> []" using cut(1) \<open>v \<noteq> []\<close> by simp
  from trimmed_run[OF r this] show ?thesis
    using length_trim_end[of is_name_separator "take cut v"] cut(2) by (simp add: truncate_name_prefix_def cut_def[symmetric] Let_def)
qed

section \<open>Segments\<close>

definition segment_invariant :: "string \<times> bool \<Rightarrow> bool" where
  "segment_invariant = (\<lambda>(acc, dash).
     (acc = [] \<and> \<not> dash) \<or> name_run acc AtStart = Some (if dash then AfterDash else AfterAlnum) \<and> CHR ''.'' \<notin> set acc)"

lemma lowercase_alnum: "char_is is_ascii_lowercase c \<or> char_is is_ascii_digit c \<Longrightarrow> \<exists>b. c = [b] \<and> is_lower_alnum b"
  by (cases c) (auto simp: char_is_def is_lower_alnum_def)

lemma alnum_step: "is_lower_alnum b \<Longrightarrow> name_step b q = Some AfterAlnum"
  by (cases q) auto

lemma push_segment_invariant:
  assumes "segment_invariant st"
  shows "segment_invariant (push_segment c st)"
proof -
  obtain acc dash where st: "st = (acc, dash)" by (cases st)
  let ?c = "map to_ascii_lowercase_char c"
  show ?thesis
  proof (cases "char_is is_ascii_lowercase ?c \<or> char_is is_ascii_digit ?c")
    case True
    from lowercase_alnum[OF True] obtain b where "?c = [b] \<and> is_lower_alnum b" ..
    then have b: "?c = [b]" "is_lower_alnum b" "b \<noteq> CHR ''.''" by auto
    have "push_segment c st = (acc @ [b], False)" using True unfolding push_segment_def st Let_def b(1) by simp
    then show ?thesis using assms b(2,3) by (auto simp: st segment_invariant_def name_run_append alnum_step)
  next
    case False
    then show ?thesis using assms
      by (auto simp: st segment_invariant_def push_segment_def Let_def name_run_append)
  qed
qed

lemma segment_run: "segment_invariant (fold push_segment cs st)" if "segment_invariant st"
  using that by (induction cs arbitrary: st) (simp_all add: push_segment_invariant)

lemma no_dot_label: "CHR ''.'' \<notin> set v \<Longrightarrow> name_run v AtStart = Some AfterAlnum \<longleftrightarrow> is_dns1123_label v"
proof -
  assume "CHR ''.'' \<notin> set v"
  then have "split_on CHR ''.'' v = [v]" by (induction v) auto
  then show ?thesis by (simp add: name_run_split)
qed

lemma trim_separators_no_dot: "CHR ''.'' \<notin> set v \<Longrightarrow> trim_end_matches (\<lambda>b. b = CHR ''-'') v = trim_end_matches is_name_separator v"
  by (induction v rule: rev_induct) (auto simp: trim_end_snoc is_name_separator_def)

lemma set_trim_end: "set (trim_end_matches p v) \<subseteq> set v"
  using set_dropWhileD[of _ p "rev v"] by (auto simp: trim_end_matches_def)

text \<open>A sanitized segment is a DNS label whenever the fallback is one.\<close>

lemma sanitized_segment_label:
  assumes "is_dns1123_label fallback"
  shows "is_dns1123_label (sanitize_dns_label_segment input fallback)"
proof -
  obtain acc dash where run: "fold push_segment (chars input) ([], False) = (acc, dash)" by (cases "fold push_segment (chars input) ([], False)")
  have "segment_invariant (acc, dash)" using segment_run[of "([], False)" "chars input"] by (simp add: run segment_invariant_def)
  then consider "acc = []" | q where "name_run acc AtStart = Some q" "CHR ''.'' \<notin> set acc" "acc \<noteq> []"
    by (cases "acc = []") (auto simp: segment_invariant_def)
  then show ?thesis
  proof cases
    case 1
    then show ?thesis using assms by (simp add: sanitize_dns_label_segment_def run trim_matches_def Let_def)
  next
    case 2
    then have "hd acc \<noteq> CHR ''-''" by (cases acc) (auto simp: bind_eq_Some_conv split: if_splits)
    then have "dropWhile (\<lambda>b. b = CHR ''-'') acc = acc" using 2(3) by (cases acc) auto
    then have "trim_matches CHR ''-'' acc = trim_end_matches is_name_separator acc"
      by (simp add: trim_matches_def trim_separators_no_dot[OF 2(2)])
    moreover have "CHR ''.'' \<notin> set (trim_end_matches is_name_separator acc)" using set_trim_end[of is_name_separator acc] 2(2) by auto
    ultimately show ?thesis using trimmed_run[OF 2(1,3)] no_dot_label[of "trim_end_matches is_name_separator acc"]
      by (simp add: sanitize_dns_label_segment_def run Let_def)
  qed
qed

section \<open>Label values\<close>

lemma chars_ascii: "list_all (\<lambda>b. \<not> is_continuation b) v \<Longrightarrow> chars v = map (\<lambda>b. [b]) v"
proof (induction v)
  case (Cons b v)
  then have "takeWhile is_continuation v = []" "dropWhile is_continuation v = v" by (cases v; simp)+
  with Cons show ?case by (simp add: chars.simps)
qed simp

lemma alnum_label_char [simp]: "is_ascii_alphanumeric b \<Longrightarrow> is_label_char b"
  by (simp add: is_label_char_def)

lemma label_char_single: "\<exists>b. label_char c = [b] \<and> is_label_char b"
  by (cases c) (auto simp: label_char_def char_is_def is_label_char_def)

lemma alnum_kept: "char_is is_ascii_alphanumeric c \<Longrightarrow> label_char c = c"
  by (simp add: label_char_def char_is_def)

lemma last_trim_end: "trim_end_matches p xs \<noteq> [] \<Longrightarrow> \<not> p (last (trim_end_matches p xs))"
  by (induction xs rule: rev_induct) (auto simp: trim_end_snoc split: if_splits)

lemma hd_trim_end: "trim_end_matches p xs \<noteq> [] \<Longrightarrow> hd (trim_end_matches p xs) = hd xs"
  by (induction xs rule: rev_induct) (auto simp: trim_end_snoc hd_append split: if_splits)

lemma trim_end_id: "xs = [] \<or> \<not> p (last xs) \<Longrightarrow> trim_end_matches p xs = xs"
  by (cases xs rule: rev_cases) (auto simp: trim_end_snoc)

lemma label_bytes_ascii: "list_all is_label_char v \<Longrightarrow> list_all (\<lambda>b. \<not> is_continuation b) v"
  by (auto simp: list_all_iff is_label_char_def is_continuation_def is_ascii_alphanumeric_def is_ascii_alphabetic_def is_ascii_lowercase_def
      is_ascii_uppercase_def is_ascii_digit_def)

lemma sanitized_label_valid: "is_valid_label_value (sanitize_label_value v)"
proof -
  let ?alnum = "char_is is_ascii_alphanumeric"
  define cs where "cs = dropWhile (\<lambda>c. \<not> ?alnum c) (chars v)"
  define rs where "rs = trim_end_matches (\<lambda>c. \<not> ?alnum c) (take 63 (map label_char cs))"
  have single: "\<forall>c \<in> set rs. \<exists>b. c = [b] \<and> is_label_char b"
    using set_trim_end[of "\<lambda>c. \<not> ?alnum c" "take 63 (map label_char cs)"] set_take_subset[of 63 "map label_char cs"] label_char_single
    unfolding rs_def by fastforce
  then have flat: "concat rs = map hd rs" by (induction rs) auto
  have len: "length rs \<le> 63" using length_trim_end[of "\<lambda>c. \<not> ?alnum c" "take 63 (map label_char cs)"] by (simp add: rs_def)
  have sanitized: "sanitize_label_value v = map hd rs"
    by (simp only: sanitize_label_value_def MAX_LABEL_VALUE_LENGTH_def Let_def cs_def[symmetric] rs_def[symmetric] flat)
  show ?thesis
  proof (cases "rs = []")
    case False
    then have "cs \<noteq> []" by (auto simp: rs_def)
    then have "?alnum (hd cs)" using hd_dropWhile[of "\<lambda>c. \<not> ?alnum c" "chars v"] by (simp add: cs_def)
    moreover have "hd rs = label_char (hd cs)" using hd_trim_end[of "\<lambda>c. \<not> ?alnum c" "take 63 (map label_char cs)"] False \<open>cs \<noteq> []\<close>
      by (simp add: rs_def[symmetric] hd_map)
    ultimately have "?alnum (hd rs)" by (simp add: alnum_kept)
    moreover have "?alnum (last rs)" using last_trim_end[of "\<lambda>c. \<not> ?alnum c" "take 63 (map label_char cs)"] False by (simp add: rs_def[symmetric])
    ultimately show ?thesis using single False len unfolding sanitized
      by (auto simp: is_valid_label_value_def MAX_LABEL_VALUE_LENGTH_def hd_map last_map char_is_def list_all_iff)
  next
    case True
    then show ?thesis unfolding sanitized by (simp add: is_valid_label_value_def)
  qed
qed

lemma valid_label_kept:
  assumes "is_valid_label_value v"
  shows "sanitize_label_value v = v"
proof (cases "v = []")
  case False
  have ok: "length v \<le> 63" "is_ascii_alphanumeric (hd v)" "is_ascii_alphanumeric (last v)" "list_all is_label_char v"
    using assms False by (simp_all add: is_valid_label_value_def MAX_LABEL_VALUE_LENGTH_def split: if_splits)
  have chars: "chars v = map (\<lambda>b. [b]) v" by (rule chars_ascii[OF label_bytes_ascii[OF ok(4)]])
  have "dropWhile (\<lambda>c. \<not> char_is is_ascii_alphanumeric c) (chars v) = chars v" using ok(2) False unfolding chars by (cases v) (auto simp: char_is_def)
  moreover have "map label_char (chars v) = chars v" using ok(4) by (simp add: chars label_char_def char_is_def list_all_iff)
  moreover have "trim_end_matches (\<lambda>c. \<not> char_is is_ascii_alphanumeric c) (chars v) = chars v"
    using ok(3) False by (intro trim_end_id) (simp add: chars last_map char_is_def)
  moreover have "length (chars v) \<le> 63" using ok(1) by (simp add: chars)
  ultimately show ?thesis by (simp add: sanitize_label_value_def MAX_LABEL_VALUE_LENGTH_def Let_def)
qed (simp add: sanitize_label_value_def trim_end_matches_def Let_def)

section \<open>Derived names\<close>

definition lower_hex_or_dash :: "string \<Rightarrow> bool" where
  "lower_hex_or_dash s = (list_all (\<lambda>b. is_lower_alnum b \<or> b = CHR ''-'') s \<and> s \<noteq> [] \<and> is_lower_alnum (last s))"

lemma suffix_run:
  assumes "list_all (\<lambda>b. is_lower_alnum b \<or> b = CHR ''-'') s" and "q \<noteq> AtStart" and "s \<noteq> []" and "is_lower_alnum (last s)"
  shows "name_run s q = Some AfterAlnum"
  using assms
proof (induction s arbitrary: q)
  case (Cons b s)
  have step: "name_step b q = Some (if is_lower_alnum b then AfterAlnum else AfterDash)" using Cons.prems by (cases q) auto
  show ?case
  proof (cases "s = []")
    case True
    then show ?thesis using Cons.prems step by simp
  next
    case False
    then show ?thesis using Cons.prems step Cons.IH[of "if is_lower_alnum b then AfterAlnum else AfterDash"] by simp
  qed
qed simp

lemma plan_name_valid:
  assumes "is_valid_resource_name policy_name" and "length timestamp = 15" and "lower_hex_or_dash timestamp"
    and "list_all is_lower_alnum sql_hash" and "sql_hash \<noteq> []"
  shows "\<exists>name. generate_plan_name timestamp policy_name sql_hash = Some name \<and> length name \<le> 249 \<and>
    name_run name AtStart = Some AfterAlnum \<and> name_run (name @ ''-sql'') AtStart = Some AfterAlnum"
proof -
  define hash where "hash = take (min 12 (length sql_hash)) sql_hash"
  define n where "n = 249 - (22 + length hash)"
  define base where "base = truncate_name_prefix policy_name n"
  define tail where "tail = ''-plan-'' @ timestamp @ ''-'' @ hash"
  have "length hash \<le> 12" by (simp add: hash_def)
  then have base: "name_run base AtStart = Some AfterAlnum" "length base \<le> n"
    using truncated_name_run[of policy_name n] assms(1) by (auto simp: valid_name_run base_def n_def)
  have name: "generate_plan_name timestamp policy_name sql_hash = Some (base @ tail)"
    using assms(2) \<open>length hash \<le> 12\<close>
    by (simp add: generate_plan_name_def MAX_RESOURCE_NAME_LENGTH_def Let_def hash_def[symmetric] base_def n_def tail_def)
  have alnum: "list_all is_lower_alnum hash" "hash \<noteq> []" using assms(4,5) by (auto simp: hash_def list_all_iff dest: in_set_takeD)
  then have last_alnum: "is_lower_alnum (last hash)" using last_in_set[OF alnum(2)] unfolding list_all_iff by blast
  have letters: "list_all (\<lambda>b. is_lower_alnum b \<or> b = CHR ''-'') ''-plan-''" "list_all (\<lambda>b. is_lower_alnum b \<or> b = CHR ''-'') ''-sql''" "is_lower_alnum CHR ''l''"
    by (simp_all add: is_lower_alnum_def is_ascii_lowercase_def)
  have tail: "name_run tail AfterAlnum = Some AfterAlnum"
    using assms(3) alnum last_alnum letters(1)
    by (intro suffix_run) (auto simp: tail_def lower_hex_or_dash_def list_all_iff)
  have sql: "name_run ''-sql'' AfterAlnum = Some AfterAlnum" using letters by (intro suffix_run) auto
  have "length (base @ tail) \<le> 249" using base(2) assms(2) \<open>length hash \<le> 12\<close> by (simp add: n_def tail_def)
  moreover have "name_run (base @ tail) AtStart = Some AfterAlnum" using base(1) tail by (simp add: name_run_append)
  moreover from this have "name_run ((base @ tail) @ ''-sql'') AtStart = Some AfterAlnum" using sql by (subst name_run_append) simp
  ultimately show ?thesis using name by blast
qed

lemma dns_label_run: "is_dns1123_label v \<Longrightarrow> name_run v AtStart = Some AfterAlnum"
proof -
  assume v: "is_dns1123_label v"
  then have "CHR ''.'' \<notin> set v" by (auto simp: is_dns1123_label_def list_all_iff split: if_splits)
  then show ?thesis using v no_dot_label by blast
qed

lemma label_suffix_run: "is_dns1123_label v \<Longrightarrow> name_run v AfterDash = Some AfterAlnum"
  by (rule suffix_run) (auto simp: is_dns1123_label_def split: if_splits)

lemma secret_name_valid: "is_valid_resource_name (default_generated_secret_name policy_name role_name)"
proof -
  let ?p = "sanitize_dns_label_segment policy_name ''policy''" and ?r = "sanitize_dns_label_segment role_name ''role''"
  have labels: "is_dns1123_label ?p" "is_dns1123_label ?r"
    by (rule sanitized_segment_label; simp add: is_dns1123_label_def is_lower_alnum_def is_ascii_lowercase_def)+
  have "name_run ''-pgr-'' AfterAlnum = Some AfterDash" by (simp add: is_lower_alnum_def is_ascii_lowercase_def is_ascii_digit_def)
  then have "name_run (?p @ ''-pgr-'' @ ?r) AtStart = Some AfterAlnum"
    using dns_label_run[OF labels(1)] label_suffix_run[OF labels(2)] by (simp only: name_run_append Option.bind.simps)
  from truncated_name_run[OF this, of 253] show ?thesis
    by (auto simp: default_generated_secret_name_def Let_def MAX_RESOURCE_NAME_LENGTH_def valid_name_run)
qed



text \<open>
  The Secret of a generated password is named by sanitized segments, which are not injective: two roles of one policy that
  differ in a separator only share the Secret, and so the password.
\<close>

theorem generated_secret_shared:
  "default_generated_secret_name ''main'' ''app_reader'' = default_generated_secret_name ''main'' ''app-reader'' \<and>
   default_generated_secret_name ''main'' ''app_reader'' = ''main-pgr-app-reader''"
  by code_simp

end
