(* ===== verification/Calendar.thy ===== *)
theory Calendar
  imports EphemeralLaws "HOL-Library.Code_Target_Nat"
begin

text \<open>
  Time stamps of statuses: \<open>now_rfc3339\<close> and \<open>days_to_date\<close> (\<open>crates/pgroles-operator/src/crd.rs\<close>), the compact form in plan names
  (\<open>plan.rs\<close>) and the reader \<open>parse_rfc3339_to_epoch_secs\<close> (\<open>reconciler.rs\<close>). The specification is the Gregorian calendar as a step from
  one day to the next. The seconds since the epoch are an argument. The reader computes on \<open>u64\<close> without checks, so its
  intermediate results are integers taken modulo \<open>2 ^ 64\<close>.
\<close>

section \<open>Writing\<close>

definition days_to_date :: "nat \<Rightarrow> nat \<times> nat \<times> nat" where
  "days_to_date days_since_epoch =
     (let z = days_since_epoch + 719468;
          era = z div 146097;
          doe = z - era * 146097;
          yoe = (doe - doe div 1460 + doe div 36524 - doe div 146096) div 365;
          y = yoe + era * 400;
          doy = doe - (365 * yoe + yoe div 4 - yoe div 100);
          mp = (5 * doy + 2) div 153;
          d = doy - (153 * mp + 2) div 5 + 1;
          m = (if mp < 10 then mp + 3 else mp - 9);
          y = (if m \<le> 2 then y + 1 else y) in
      (y, m, d))"

text \<open>\<open>{n:0w}\<close>: decimal with leading zeros.\<close>

definition pad :: "nat \<Rightarrow> nat \<Rightarrow> string" where
  "pad w n = replicate (w - length (show_nat n)) CHR ''0'' @ show_nat n"

definition now_rfc3339 :: "nat \<Rightarrow> string" where
  "now_rfc3339 secs =
     (let days = secs div 86400;
          remaining = secs mod 86400;
          hours = remaining div 3600;
          minutes = (remaining mod 3600) div 60;
          seconds = remaining mod 60;
          (year, month, day) = days_to_date days in
      pad 4 year @ ''-'' @ pad 2 month @ ''-'' @ pad 2 day @ ''T'' @ pad 2 hours @ '':'' @ pad 2 minutes @ '':'' @ pad 2 seconds @ ''Z'')"

definition format_timestamp_compact :: "nat \<Rightarrow> string" where
  "format_timestamp_compact secs =
     (let (year, month, day) = days_to_date (secs div 86400);
          remaining = secs mod 86400;
          hours = remaining div 3600;
          minutes = (remaining mod 3600) div 60;
          seconds = remaining mod 60 in
      pad 4 year @ pad 2 month @ pad 2 day @ ''-'' @ pad 2 hours @ pad 2 minutes @ pad 2 seconds)"

section \<open>Reading\<close>

definition u64 :: "int \<Rightarrow> int" where "u64 i = i mod 2 ^ 64"

definition field :: "string \<Rightarrow> nat \<Rightarrow> nat \<Rightarrow> int option" where
  "field timestamp a b = map_option int (Option.bind (slice timestamp a b) parse_usize)"

definition epoch_secs :: "int \<Rightarrow> int \<Rightarrow> int \<Rightarrow> int \<Rightarrow> int \<Rightarrow> int \<Rightarrow> int" where
  "epoch_secs year month day hours minutes seconds =
     (let (y, m) = (if month \<le> 2 then (u64 (year - 1), u64 (month + 9)) else (year, u64 (month - 3)));
          era = y div 400;
          yoe = u64 (y - era * 400);
          doy = u64 ((153 * m + 2) div 5 + day - 1);
          doe = u64 (yoe * 365 + yoe div 4 - yoe div 100 + doy);
          days_since_epoch = u64 (era * 146097 + doe - 719468) in
      u64 (days_since_epoch * 86400 + hours * 3600 + minutes * 60 + seconds))"

definition parse_rfc3339_to_epoch_secs :: "string \<Rightarrow> int option" where
  "parse_rfc3339_to_epoch_secs timestamp =
     (if length timestamp < 20 \<or> last timestamp \<noteq> CHR ''Z'' then None
      else Option.bind (field timestamp 0 4) (\<lambda>year.
           Option.bind (field timestamp 5 7) (\<lambda>month.
           Option.bind (field timestamp 8 10) (\<lambda>day.
           Option.bind (field timestamp 11 13) (\<lambda>hours.
           Option.bind (field timestamp 14 16) (\<lambda>minutes.
           Option.bind (field timestamp 17 19) (\<lambda>seconds.
             Some (epoch_secs year month day hours minutes seconds))))))))"

section \<open>The calendar\<close>

definition leap_year :: "nat \<Rightarrow> bool" where
  "leap_year y = (y mod 4 = 0 \<and> y mod 100 \<noteq> 0 \<or> y mod 400 = 0)"

definition days_in_month :: "nat \<Rightarrow> nat \<Rightarrow> nat" where
  "days_in_month y m = (if m = 2 then if leap_year y then 29 else 28 else if m \<in> {4, 6, 9, 11} then 30 else 31)"

fun next_day :: "nat \<times> nat \<times> nat \<Rightarrow> nat \<times> nat \<times> nat" where
  "next_day (y, m, d) =
     (if d < days_in_month y m then (y, m, d + 1) else if m < 12 then (y, m + 1, 1) else (y + 1, 1, 1))"

subsection \<open>Years that start in March\<close>

text \<open>
  The algorithm counts years from March, so that a leap day is the last day of a year. \<open>year_start\<close> is the number of days before such a
  year, \<open>year_len\<close> its length, and \<open>march_date\<close> the part of the algorithm that finds the year and the day in it.
\<close>

definition year_start :: "nat \<Rightarrow> nat" where
  "year_start y = 365 * y + y div 4 - y div 100 + y div 400"

definition year_len :: "nat \<Rightarrow> nat" where
  "year_len y = (if leap_year (Suc y) then 366 else 365)"

definition year_of :: "nat \<Rightarrow> nat" where
  "year_of doe = (doe - doe div 1460 + doe div 36524 - doe div 146096) div 365"

definition march_date :: "nat \<Rightarrow> nat \<times> nat" where
  "march_date z =
     (let era = z div 146097; doe = z - era * 146097; yoe = year_of doe in
      (yoe + era * 400, doe - (365 * yoe + yoe div 4 - yoe div 100)))"

definition civil_date :: "nat \<times> nat \<Rightarrow> nat \<times> nat \<times> nat" where
  "civil_date = (\<lambda>(y, doy).
     (let mp = (5 * doy + 2) div 153; m = (if mp < 10 then mp + 3 else mp - 9) in
      (if m \<le> 2 then y + 1 else y, m, doy - (153 * mp + 2) div 5 + 1)))"

lemma days_to_date_parts: "days_to_date n = civil_date (march_date (n + 719468))"
  by (simp only: days_to_date_def civil_date_def march_date_def year_of_def Let_def prod.case)

text \<open>A year as its era, century, cycle of four and year in the cycle.\<close>

lemma year_parts:
  obtains e c q a :: nat where "y = 400 * e + 100 * c + 4 * q + a" "c < 4" "q < 25" "a < 4"
proof -
  define e r where "e = y div 400" and "r = y mod 400"
  define c s where "c = r div 100" and "s = r mod 100"
  define q a where "q = s div 4" and "a = s mod 4"
  have eqs: "y = 400 * e + r" "r = 100 * c + s" "s = 4 * q + a" by (simp_all add: e_def r_def c_def s_def q_def a_def)
  have "r < 400" "s < 100" "a < 4" by (simp_all add: r_def s_def a_def)
  with eqs have "y = 400 * e + 100 * c + 4 * q + a" "c < 4" "q < 25" "a < 4" by simp_all
  then show ?thesis using that by blast
qed

lemma year_start_parts:
  assumes "c < 4" "q < 25" "a < (4 :: nat)"
  shows "year_start (400 * e + 100 * c + 4 * q + a) = 146097 * e + 36524 * c + 1461 * q + 365 * a"
proof -
  let ?y = "400 * e + 100 * c + 4 * q + a"
  have "?y div 4 = 100 * e + 25 * c + q" "?y div 100 = 4 * e + c" "?y div 400 = e"
    using assms by (auto intro!: div_nat_eqI)
  then show ?thesis by (simp add: year_start_def)
qed

lemma leap_parts:
  assumes "c < 4" "q < 25" "a < (4 :: nat)"
  shows "leap_year (Suc (400 * e + 100 * c + 4 * q + a)) \<longleftrightarrow> a = 3 \<and> (q < 24 \<or> c = 3)"
proof -
  let ?y = "Suc (400 * e + 100 * c + 4 * q + a)"
  have eqs: "?y = Suc a + 4 * (100 * e + 25 * c + q)" "?y = (4 * q + Suc a) + 100 * (4 * e + c)" "?y = (100 * c + 4 * q + Suc a) + 400 * e"
    by simp_all
  have "?y mod 4 = Suc a mod 4" by (subst eqs(1), rule mod_mult_self2)
  moreover have "?y mod 100 = (4 * q + Suc a) mod 100" by (subst eqs(2), rule mod_mult_self2)
  moreover have "?y mod 400 = (100 * c + 4 * q + Suc a) mod 400" by (subst eqs(3), rule mod_mult_self2)
  moreover have "Suc a mod 4 = 0 \<longleftrightarrow> a = 3" using assms(3) by (cases "a = 3") simp_all
  moreover have "(4 * q + Suc a) mod 100 = 0 \<longleftrightarrow> 4 * q + Suc a = 100"
    using assms by (cases "4 * q + Suc a = 100") simp_all
  moreover have "(100 * c + 4 * q + Suc a) mod 400 = 0 \<longleftrightarrow> 100 * c + 4 * q + Suc a = 400"
    using assms by (cases "100 * c + 4 * q + Suc a = 400") simp_all
  moreover have "4 * q + Suc a = 100 \<longleftrightarrow> a = 3 \<and> q = 24" using assms by presburger
  moreover have "100 * c + 4 * q + Suc a = 400 \<longleftrightarrow> c = 3 \<and> 4 * q + Suc a = 100"
  proof (cases "c \<le> 2")
    case False
    then have "c = 3" using assms(1) by simp
    then show ?thesis by simp
  qed (use assms in simp)
  ultimately show ?thesis using assms(2) unfolding leap_year_def by auto
qed

lemma year_start_Suc: "year_start (Suc y) = year_start y + year_len y"
proof -
  obtain e c q a where y: "y = 400 * e + 100 * c + 4 * q + a" "c < 4" "q < 25" "a < (4 :: nat)" by (rule year_parts)
  note here = year_start_parts[OF y(2-4), of e] leap_parts[OF y(2-4), of e]
  consider "a < 3" | "a = 3" "q < 24" | "a = 3" "q = 24" "c < 3" | "a = 3" "q = 24" "c = 3" using y(2-4) by linarith
  then show ?thesis
  proof cases
    case 1
    then show ?thesis using here year_start_parts[of c q "Suc a" e] y by (simp add: year_len_def ac_simps)
  next
    case 2
    then show ?thesis using here year_start_parts[of c "Suc q" 0 e] y by (simp add: year_len_def ac_simps)
  next
    case 3
    then show ?thesis using here year_start_parts[of "Suc c" 0 0 e] y by (simp add: year_len_def ac_simps)
  next
    case 4
    then show ?thesis using here year_start_parts[of 0 0 0 "Suc e"] y by (simp add: year_len_def ac_simps)
  qed
qed

lemma year_of_parts:
  assumes "c < 4" "q < 25" "a < (4 :: nat)" and "t < 365 \<or> t = 365 \<and> a = 3 \<and> (q < 24 \<or> c = 3)"
  shows "year_of (36524 * c + 1461 * q + 365 * a + t) = 100 * c + 4 * q + a"
proof -
  let ?d = "36524 * c + 1461 * q + 365 * a + t"
  let ?e = "if 24 * c + q + 365 * a + t < 1460 then 0 else 1 :: nat"
  let ?l = "if c = 3 \<and> q = 24 \<and> a = 3 \<and> t = 365 then 1 else 0 :: nat"
  have "?d div 1460 = 25 * c + q + ?e" using assms by (auto intro!: div_nat_eqI split: if_splits)
  moreover have "?d div 36524 = c + ?l" using assms by (auto intro!: div_nat_eqI split: if_splits)
  moreover have "?d div 146096 = ?l" using assms by (auto intro!: div_nat_eqI split: if_splits)
  ultimately have "year_of ?d = (365 * (100 * c + 4 * q + a) + (t - ?e)) div 365" using assms by (auto simp: year_of_def split: if_splits)
  also have "\<dots> = 100 * c + 4 * q + a" using assms by (auto intro!: div_nat_eqI split: if_splits)
  finally show ?thesis .
qed

lemma march_date_exact:
  assumes "t < year_len y"
  shows "march_date (year_start y + t) = (y, t)"
proof -
  obtain e c q a where y: "y = 400 * e + 100 * c + 4 * q + a" "c < 4" "q < 25" "a < (4 :: nat)" by (rule year_parts)
  note start = year_start_parts[OF y(2-4), of e]
  let ?d = "36524 * c + 1461 * q + 365 * a + t"
  have t: "t < 365 \<or> t = 365 \<and> a = 3 \<and> (q < 24 \<or> c = 3)"
    using assms leap_parts[OF y(2-4), of e] by (auto simp: year_len_def y(1) split: if_splits)
  then have "?d < 146097" using y(2-4) by auto
  then have era: "(year_start y + t) div 146097 = e" using start by (intro div_nat_eqI) (simp_all add: y(1))
  have "(year_start y + t) - e * 146097 = ?d" using start by (simp add: y(1))
  moreover have "(100 * c + 4 * q + a) div 4 = 25 * c + q" "(100 * c + 4 * q + a) div 100 = c" using y(2-4) by (auto intro!: div_nat_eqI)
  ultimately show ?thesis by (simp add: march_date_def era year_of_parts[OF y(2-4) t] Let_def) (simp add: y(1))
qed

lemma march_date_exists: "\<exists>y t. z = year_start y + t \<and> t < year_len y"
proof (induction z)
  case 0
  have "0 = year_start 0 + 0 \<and> 0 < year_len 0" by (simp add: year_start_def year_len_def)
  then show ?case by blast
next
  case (Suc z)
  then obtain y t where z: "z = year_start y + t" "t < year_len y" by blast
  show ?case
  proof (cases "Suc t < year_len y")
    case True
    then show ?thesis using z(1) by (intro exI[of _ y] exI[of _ "Suc t"]) simp
  next
    case False
    then have "Suc z = year_start (Suc y) + 0 \<and> 0 < year_len (Suc y)" using z by (simp add: year_start_Suc year_len_def)
    then show ?thesis by blast
  qed
qed

lemma march_date_Suc:
  assumes "z = year_start y + t" and "t < year_len y"
  shows "march_date (Suc z) = (if Suc t < year_len y then (y, Suc t) else (Suc y, 0))"
proof (cases "Suc t < year_len y")
  case True
  then show ?thesis using march_date_exact[of "Suc t" y] assms(1) by simp
next
  case False
  then have "Suc z = year_start (Suc y) + 0" "0 < year_len (Suc y)" using assms by (simp_all add: year_start_Suc year_len_def)
  then show ?thesis using march_date_exact[of 0 "Suc y"] False by simp
qed

subsection \<open>Months\<close>

lemma month_index:
  assumes "t < 366"
  shows "(5 * t + 2) div 153 =
    (if t < 31 then 0 else if t < 61 then 1 else if t < 92 then 2 else if t < 122 then 3 else if t < 153 then 4 else if t < 184 then 5
     else if t < 214 then 6 else if t < 245 then 7 else if t < 275 then 8 else if t < 306 then 9 else if t < 337 then 10 else 11 :: nat)"
  using assms by (auto intro!: div_nat_eqI)

lemma civil_table:
  assumes "t < 366"
  shows "civil_date (y, t) =
    (if t < 31 then (y, 3, t + 1) else if t < 61 then (y, 4, t - 30) else if t < 92 then (y, 5, t - 60) else if t < 122 then (y, 6, t - 91)
     else if t < 153 then (y, 7, t - 121) else if t < 184 then (y, 8, t - 152) else if t < 214 then (y, 9, t - 183)
     else if t < 245 then (y, 10, t - 213) else if t < 275 then (y, 11, t - 244) else if t < 306 then (y, 12, t - 274)
     else if t < 337 then (y + 1, 1, t - 305) else (y + 1, 2, t - 336))"
  using assms unfolding civil_date_def prod.case month_index[OF assms] Let_def by auto

lemma next_civil:
  assumes "t < year_len y"
  shows "next_day (civil_date (y, t)) = civil_date (if Suc t < year_len y then (y, Suc t) else (Suc y, 0))"
proof -
  have t: "t < 366" using assms by (simp add: year_len_def split: if_splits)
  note here = civil_table[OF t, of y] and start = civil_table[of 0 "Suc y"]
  consider "t < 31" | "31 \<le> t" "t < 61" | "61 \<le> t" "t < 92" | "92 \<le> t" "t < 122" | "122 \<le> t" "t < 153" | "153 \<le> t" "t < 184"
    | "184 \<le> t" "t < 214" | "214 \<le> t" "t < 245" | "245 \<le> t" "t < 275" | "275 \<le> t" "t < 306" | "306 \<le> t" "t < 337" | "337 \<le> t"
    by (atomize_elim) arith
  then show ?thesis
    using here start civil_table[of "Suc t" y] assms
    by cases (auto simp: days_in_month_def year_len_def split: if_splits)
qed

section \<open>Dates are right\<close>

text \<open>
  The conversion of days to dates is the Gregorian calendar. Day 0 is 1 January 1970, and the date of every day is the day
  after the date of the day before, with the leap years of the calendar.
\<close>

theorem days_to_date_is_calendar:
  "days_to_date 0 = (1970, 1, 1) \<and> days_to_date (Suc n) = next_day (days_to_date n)"
proof -
  obtain y t where z: "n + 719468 = year_start y + t" "t < year_len y" using march_date_exists by blast
  have "days_to_date n = civil_date (y, t)" using march_date_exact[OF z(2)] z(1) by (simp add: days_to_date_parts)
  moreover have "days_to_date (Suc n) = civil_date (if Suc t < year_len y then (y, Suc t) else (Suc y, 0))"
    using march_date_Suc[OF z] by (simp add: days_to_date_parts)
  moreover have "days_to_date 0 = (1970, 1, 1)" by code_simp
  ultimately show ?thesis using next_civil[OF z(2)] by simp
qed

section \<open>Round trip\<close>

lemma u64_id: "0 \<le> i \<Longrightarrow> i < 18446744073709551616 \<Longrightarrow> u64 i = i"
  by (simp add: u64_def)

text \<open>The year in March counting, the month index and the day give back the number of the day.\<close>

lemma civil_inverse:
  assumes "t < 366" and "civil_date (y, t) = (year, month, day)"
  shows "(if month \<le> 2 then (year - 1, month + 9) else (year, month - 3)) = (y, (5 * t + 2) div 153) \<and>
    (153 * ((5 * t + 2) div 153) + 2) div 5 + day - 1 = t \<and> 1 \<le> month \<and> month \<le> 12 \<and> 1 \<le> day \<and> day \<le> 31 \<and> year = (if month \<le> 2 then Suc y else y) \<and> (month \<le> 2 \<longleftrightarrow> 306 \<le> t)"
  using assms civil_table[OF assms(1), of y] month_index[OF assms(1)]
  by (auto split: if_splits)

lemma epoch_days:
  assumes "z = year_start y + t" and "719468 \<le> z" and "z < 2 ^ 40" and "t < year_len y" and "civil_date (y, t) = (year, month, day)"
    and "hours < 24" and "minutes < 60" and "seconds < 60"
  shows "epoch_secs (int year) (int month) (int day) (int hours) (int minutes) (int seconds) =
    (int z - 719468) * 86400 + int hours * 3600 + int minutes * 60 + int seconds"
proof -
  have t: "t < 366" using assms(4) by (simp add: year_len_def split: if_splits)
  define mp where "mp = (5 * t + 2) div 153"
  note inv = civil_inverse[OF t assms(5), folded mp_def]
  have mp: "mp < 12" unfolding mp_def using t by (intro less_mult_imp_div_less) simp
  obtain e c q a where y: "y = 400 * e + 100 * c + 4 * q + a" "c < 4" "q < 25" "a < (4 :: nat)" by (rule year_parts)
  have small: "y < 2 ^ 40" using assms(1,3) by (simp add: year_start_def)
  have ym: "(if int month \<le> 2 then (u64 (int year - 1), u64 (int month + 9)) else (int year, u64 (int month - 3))) = (int y, int mp)"
  proof (cases "month \<le> 2")
    case True
    then have "int year - 1 = int y" "int month + 9 = int mp" using inv by (auto simp: of_nat_diff)
    then show ?thesis using True small mp by (simp add: u64_id)
  next
    case False
    then have "int year = int y" "int month - 3 = int mp" using inv by (auto simp: of_nat_diff)
    then show ?thesis using False mp by (simp add: u64_id)
  qed
  have era: "int y div 400 = int e" "int y - int e * 400 = int (100 * c + 4 * q + a)"
    using y by (auto simp: zdiv_int[symmetric] of_nat_eq_iff[symmetric] intro!: div_nat_eqI) 
  have yoe: "int (100 * c + 4 * q + a) div 4 = int (25 * c + q)" "int (100 * c + 4 * q + a) div 100 = int c"
    using y(2-4) by (auto simp: zdiv_int[symmetric] of_nat_eq_iff intro!: div_nat_eqI)
  have doy: "(153 * int mp + 2) div 5 + int day - 1 = int t"
  proof -
    have "(153 * mp + 2) div 5 + day - 1 = t" "1 \<le> day" using inv by simp_all
    then have "int ((153 * mp + 2) div 5) + int day - 1 = int t" by linarith
    then show ?thesis by (simp add: zdiv_int)
  qed
  have start: "year_start y = 146097 * e + 36524 * c + 1461 * q + 365 * a" using year_start_parts[OF y(2-4), of e] by (simp add: y(1))
  then have z: "int z = 146097 * int e + 36524 * int c + 1461 * int q + 365 * int a + int t" using assms(1) by simp
  have u: "u64 (int (100 * c + 4 * q + a)) = int (100 * c + 4 * q + a)" "u64 (int t) = int t" using y(2-4) t by (simp_all add: u64_id)
  have doe: "u64 (int (100 * c + 4 * q + a) * 365 + int (25 * c + q) - int c + int t) = 36524 * int c + 1461 * int q + 365 * int a + int t"
    using y(2-4) t by (subst u64_id) (auto simp: algebra_simps)
  have days: "u64 (int e * 146097 + (36524 * int c + 1461 * int q + 365 * int a + int t) - 719468) = int z - 719468"
    using assms(2,3) z by (subst u64_id) (auto simp: algebra_simps)
  show ?thesis
    unfolding epoch_secs_def ym Let_def prod.case era yoe doy u doe days
    using assms(2,3,6-8) by (intro u64_id) auto
qed

subsection \<open>Decimal fields\<close>

lemma length_show_nat: "n < 10 ^ Suc w \<Longrightarrow> length (show_nat n) \<le> Suc w"
proof (induction w arbitrary: n)
  case 0
  then show ?case by (simp add: show_nat.simps)
next
  case (Suc w)
  show ?case
  proof (cases "n < 10")
    case False
    then have "n div 10 < 10 ^ Suc w" using Suc.prems by (intro less_mult_imp_div_less) simp
    then show ?thesis using Suc.IH[of "n div 10"] False by (subst show_nat.simps) simp
  qed (simp add: show_nat.simps)
qed

lemma digits_value_zeros: "digits_value (replicate k CHR ''0'' @ ds) = digits_value ds"
  by (induction k) (simp_all add: digits_value_def)

lemma pad_digits:
  assumes "n < 10 ^ Suc w"
  shows "length (pad (Suc w) n) = Suc w \<and> list_all is_ascii_digit (pad (Suc w) n) \<and> digits_value (pad (Suc w) n) = n"
  using length_show_nat[OF assms] show_nat_digits[of n]
  by (auto simp: pad_def digits_value_zeros digits_value_show_nat list_all_iff is_ascii_digit_def)

lemma field_at:
  assumes "list_all (\<lambda>b. \<not> is_continuation b) (u @ v @ w)" and "list_all is_ascii_digit v" and "v \<noteq> []" and "digits_value v < 10000"
    and "length u = a" and "length u + length v = b"
  shows "field (u @ v @ w) a b = Some (int (digits_value v))"
proof -
  have nth: "\<not> is_continuation ((u @ v @ w) ! i)" if "i < length (u @ v @ w)" for i
    using assms(1) that unfolding list_all_length by blast
  have "is_char_boundary (u @ v @ w) a" "is_char_boundary (u @ v @ w) b"
    using nth[of a] nth[of b] assms(5,6) by (auto simp: is_char_boundary_def)
  then have "slice (u @ v @ w) a b = Some v" using assms(5,6) by (auto simp: slice_def)
  moreover have "parse_usize v = Some (digits_value v)"
    using assms(2-4) by (cases v) (auto simp: parse_usize_def parse_u64_digits_def U64_MAX_def is_ascii_digit_def Let_def)
  ultimately show ?thesis by (simp add: field_def)
qed

lemma pad_field:
  assumes "n < 10 ^ Suc w" and "w < 4" and "list_all (\<lambda>b. \<not> is_continuation b) (u @ w')" and "length u = a" and "b = a + Suc w"
  shows "field (u @ pad (Suc w) n @ w') a b = Some (int n)"
proof -
  note pd = pad_digits[OF assms(1)]
  have "n < 10000" using assms(1,2) power_increasing[of "Suc w" 4 "10 :: nat"] by simp
  moreover have "list_all (\<lambda>b. \<not> is_continuation b) (pad (Suc w) n)" using pd digit_not_continuation by (auto simp: list_all_iff)
  moreover have "pad (Suc w) n \<noteq> []" using pd by (metis list.size(3) nat.distinct(1))
  ultimately show ?thesis using field_at[of u "pad (Suc w) n" w' a b] pd assms(3-5) by auto
qed

lemma year_start_mono: "y \<le> y' \<Longrightarrow> year_start y \<le> year_start y'"
  by (rule lift_Suc_mono_le) (simp_all add: year_start_Suc)

text \<open>Up to the end of the year 9999 the date has a year of four digits.\<close>

lemma date_fields:
  assumes "n < 2932897" and "days_to_date n = (year, month, day)"
  obtains y t where "n + 719468 = year_start y + t" "t < year_len y" "civil_date (y, t) = (year, month, day)"
    "year < 10000" "month < 100" "day < 100"
proof -
  obtain y t where z: "n + 719468 = year_start y + t" "t < year_len y" using march_date_exists by blast
  have date: "civil_date (y, t) = (year, month, day)" using assms(2) march_date_exact[OF z(2)] z(1) by (simp add: days_to_date_parts)
  have t: "t < 366" using z(2) by (simp add: year_len_def split: if_splits)
  note inv = civil_inverse[OF t date]
  have bound: "year_start y + t < year_start 9999 + 306" using z(1) assms(1) by (simp add: year_start_def)
  then have "y \<le> 9999" using year_start_mono[of 10000 y] by (auto simp: year_start_def not_le)
  moreover have "y < 9999 \<or> t < 306" using bound calculation by (cases "y = 9999") auto
  ultimately have "year < 10000" using inv by (auto split: if_splits)
  with inv show ?thesis using that z date by simp
qed

definition no_utf8_tail :: "string \<Rightarrow> bool" where
  "no_utf8_tail s = list_all (\<lambda>b. \<not> is_continuation b) s"

lemma no_utf8_tail_simps [simp]:
  "no_utf8_tail []" "no_utf8_tail (c # s) \<longleftrightarrow> \<not> is_continuation c \<and> no_utf8_tail s" "no_utf8_tail (s @ s') \<longleftrightarrow> no_utf8_tail s \<and> no_utf8_tail s'"
  by (simp_all add: no_utf8_tail_def)

lemma no_utf8_tail_pad: "n < 10 ^ Suc w \<Longrightarrow> no_utf8_tail (pad (Suc w) n)"
  using pad_digits[of n w] digit_not_continuation by (auto simp: list_all_iff no_utf8_tail_def)

lemma parse_fields:
  assumes "year < 10000" "month < 100" "day < 100" "hours < 100" "minutes < 100" "seconds < 100"
  shows "parse_rfc3339_to_epoch_secs (pad 4 year @ ''-'' @ pad 2 month @ ''-'' @ pad 2 day @ ''T'' @ pad 2 hours @ '':'' @ pad 2 minutes @ '':'' @ pad 2 seconds @ ''Z'')
    = Some (epoch_secs (int year) (int month) (int day) (int hours) (int minutes) (int seconds))"
    (is "parse_rfc3339_to_epoch_secs ?s = _")
proof -
  have num: "Suc 3 = 4" "Suc 1 = 2" by simp_all
  have len: "length (pad 4 year) = 4" "length (pad 2 month) = 2" "length (pad 2 day) = 2" "length (pad 2 hours) = 2" "length (pad 2 minutes) = 2"
    "length (pad 2 seconds) = 2"
    using assms pad_digits[of _ 3, unfolded num] pad_digits[of _ 1, unfolded num] by simp_all
  have asc: "no_utf8_tail (pad 4 year)" "no_utf8_tail (pad 2 month)" "no_utf8_tail (pad 2 day)" "no_utf8_tail (pad 2 hours)" "no_utf8_tail (pad 2 minutes)"
    "no_utf8_tail (pad 2 seconds)"
    using assms no_utf8_tail_pad[of _ 3, unfolded num] no_utf8_tail_pad[of _ 1, unfolded num] by simp_all
  have sep: "\<not> is_continuation CHR ''-''" "\<not> is_continuation CHR ''T''" "\<not> is_continuation CHR '':''" "\<not> is_continuation CHR ''Z''"
    by (simp_all add: is_continuation_def)
  note f4 = pad_field[of _ 3, unfolded num, folded no_utf8_tail_def] and f2 = pad_field[of _ 1, unfolded num, folded no_utf8_tail_def]
  have "field ?s 0 4 = Some (int year)" using f4[of year "[]"] assms asc sep by simp
  moreover have "field ?s 5 7 = Some (int month)" using f2[of month "pad 4 year @ ''-''"] assms asc sep len by simp
  moreover have "field ?s 8 10 = Some (int day)" using f2[of day "pad 4 year @ ''-'' @ pad 2 month @ ''-''"] assms asc sep len by simp
  moreover have "field ?s 11 13 = Some (int hours)"
    using f2[of hours "pad 4 year @ ''-'' @ pad 2 month @ ''-'' @ pad 2 day @ ''T''"] assms asc sep len by simp
  moreover have "field ?s 14 16 = Some (int minutes)"
    using f2[of minutes "pad 4 year @ ''-'' @ pad 2 month @ ''-'' @ pad 2 day @ ''T'' @ pad 2 hours @ '':''"] assms asc sep len by simp
  moreover have "field ?s 17 19 = Some (int seconds)"
    using f2[of seconds "pad 4 year @ ''-'' @ pad 2 month @ ''-'' @ pad 2 day @ ''T'' @ pad 2 hours @ '':'' @ pad 2 minutes @ '':''"] assms asc sep len by simp
  ultimately show ?thesis by (simp add: parse_rfc3339_to_epoch_secs_def len)
qed

text \<open>
  C39: a status time stamp is read back as the second it was written for, up to the end of the year 9999: the arithmetic of the reader
  does not wrap there, and every field has the width the reader cuts.
\<close>

theorem timestamp_round_trip:
  assumes "secs < 253402300800"
  shows "parse_rfc3339_to_epoch_secs (now_rfc3339 secs) = Some (int secs)"
proof -
  define n r where "n = secs div 86400" and "r = secs mod 86400"
  obtain year month day where date: "days_to_date n = (year, month, day)" by (cases "days_to_date n") auto
  have n: "n < 2932897" using assms by (simp add: n_def less_mult_imp_div_less)
  obtain y t where z: "n + 719468 = year_start y + t" "t < year_len y" "civil_date (y, t) = (year, month, day)"
    and small: "year < 10000" "month < 100" "day < 100" by (rule date_fields[OF n date])
  have clock: "r div 3600 < 24" "r mod 3600 div 60 < 60" "r mod 60 < 60" by (simp_all add: r_def less_mult_imp_div_less)
  have "int (r div 3600) * 3600 + int (r mod 3600 div 60) * 60 + int (r mod 60) = int r"
  proof -
    have "r mod 60 = r mod 3600 mod 60" by (simp add: mod_mod_cancel)
    then have "r div 3600 * 3600 + r mod 3600 div 60 * 60 + r mod 60 = r" by (metis add.assoc div_mult_mod_eq)
    moreover have "int h * 3600 + int m * 60 + int s = int r" if "h * 3600 + m * 60 + s = r" for h m s using that by linarith
    ultimately show ?thesis by blast
  qed
  moreover have "int n * 86400 + int r = int secs"
  proof -
    have "n * 86400 + r = secs" by (simp add: n_def r_def)
    then show ?thesis by linarith
  qed
  moreover have "now_rfc3339 secs = pad 4 year @ ''-'' @ pad 2 month @ ''-'' @ pad 2 day @ ''T'' @ pad 2 (r div 3600) @ '':'' @ pad 2 (r mod 3600 div 60) @ '':'' @ pad 2 (r mod 60) @ ''Z''"
    by (simp add: now_rfc3339_def n_def[symmetric] r_def[symmetric] date)
  moreover have "epoch_secs (int year) (int month) (int day) (int (r div 3600)) (int (r mod 3600 div 60)) (int (r mod 60)) =
    int n * 86400 + int (r div 3600) * 3600 + int (r mod 3600 div 60) * 60 + int (r mod 60)"
    using epoch_days[OF z(1) _ _ z(2,3) clock] n by simp
  moreover have "r div 3600 < 100" "r mod 3600 div 60 < 100" "r mod 60 < 100" using clock by linarith+
  note parse_fields[OF small this]
  ultimately show ?thesis by simp
qed

text \<open>An instance, on the leap day of 2024.\<close>

lemma timestamp_round_trip_witness:
  "(1709164800 :: nat) < 253402300800 \<and> now_rfc3339 1709164800 = ''2024-02-29T00:00:00Z'' \<and>
   parse_rfc3339_to_epoch_secs (now_rfc3339 1709164800) = Some 1709164800"
proof -
  have "days_to_date 19782 = (2024, 2, 29)" by code_simp
  moreover have "pad 4 2024 = ''2024''" "pad 2 2 = ''02''" "pad 2 29 = ''29''" "pad 2 0 = ''00''" by code_simp+
  ultimately have "now_rfc3339 1709164800 = ''2024-02-29T00:00:00Z''" by (simp add: now_rfc3339_def)
  then show ?thesis using timestamp_round_trip[of 1709164800] by simp
qed

end
