(* ===== verification/Suggest.thy ===== *)
theory Suggest
  imports Export Diff
begin

text \<open>
  Suggestion of profiles (\<open>crates/pgroles-core/src/suggest.rs\<close>): a flat manifest is rewritten so that roles with the same privileges
  in different schemas come from one profile. Candidates are found by a signature that leaves the schema out, named by a pattern all
  of them follow, and the rewritten manifest is kept only when comparing the two role graphs finds no change but comments. The
  reasons of the report keep their data; their wording is left out.
\<close>

section \<open>Report\<close>

type_synonym inventory = "(string \<times> object_type, string btreeset) btreemap"

record suggest_options =
  so_min_schemas :: nat
  so_full_inventory :: "inventory option"

definition default_suggest_options :: suggest_options where
  "default_suggest_options = \<lparr>so_min_schemas = 2, so_full_inventory = None\<rparr>"

record suggested_profile =
  sp_profile_name :: string
  sp_role_pattern :: string
  sp_schema_to_role :: "(string, string) btreemap"

datatype inventory_gap =
    MissingBucket "string \<times> object_type" nat
  | MissingName "string \<times> object_type" string

datatype round_trip_error =
    OriginalExpand manifest_error
  | OriginalGraph manifest_error
  | CandidateExpand manifest_error
  | CandidateGraph manifest_error
  | StructuralChanges nat "change option"

datatype skip_reason =
    MultiSchema string "string list"
  | SchemaNotDeclared string string
  | OwnerMismatch string string
  | UniqueAttributes string
  | UnrepresentableGrant string
  | SoleSchema string string
  | NoUniformPattern "string list"
  | SchemaPatternConflict string string "string list"
  | RoundTripFailure round_trip_error
  | IncompleteFullInventory inventory_gap

record suggest_report =
  sr_manifest :: policy_manifest
  sr_profiles :: "suggested_profile list"
  sr_skipped :: "skip_reason list"
  sr_round_trip_ok :: bool

section \<open>Inventories\<close>

text \<open>The bucket of a grant on a named object in a schema, with the name.\<close>

definition bucket_of :: "grant \<Rightarrow> ((string \<times> object_type) \<times> string) option" where
  "bucket_of g =
     (case (ot_object_type (g_object g), ot_schema (g_object g), ot_name (g_object g)) of
        (Schema, _, _) \<Rightarrow> None
      | (Database, _, _) \<Rightarrow> None
      | (object_type, Some schema, Some name) \<Rightarrow> Some ((schema, object_type), name)
      | _ \<Rightarrow> None)"

definition build_inventory :: "policy_manifest \<Rightarrow> inventory" where
  "build_inventory m =
     fold (\<lambda>g objects. case bucket_of g of
             None \<Rightarrow> objects
           | Some (key, name) \<Rightarrow> if name = ''*'' then objects else entry_extend key {|name|} objects)
       (pm_grants m) fmempty"

definition validate_full_inventory :: "inventory \<Rightarrow> inventory \<Rightarrow> inventory_gap + unit" where
  "validate_full_inventory grant_inventory full_inventory =
     for_each (\<lambda>(key, granted_names).
         case fmlookup full_inventory key of
           None \<Rightarrow> Inl (MissingBucket key (length (bt_elements granted_names)))
         | Some full_names \<Rightarrow>
             (case find (\<lambda>n. n |\<notin>| full_names) (bt_elements granted_names) of
                Some missing \<Rightarrow> Inl (MissingName key missing)
              | None \<Rightarrow> Inr ()))
       (bt_entries grant_inventory)"

fun privilege_sort_key :: "privilege \<Rightarrow> nat" where
  "privilege_sort_key Select = 0"
| "privilege_sort_key Insert = 1"
| "privilege_sort_key Update = 2"
| "privilege_sort_key Delete = 3"
| "privilege_sort_key Truncate = 4"
| "privilege_sort_key References = 5"
| "privilege_sort_key Trigger = 6"
| "privilege_sort_key Execute = 7"
| "privilege_sort_key Usage = 8"
| "privilege_sort_key Create = 9"
| "privilege_sort_key Connect = 10"
| "privilege_sort_key Temporary = 11"

definition canonical_privs :: "privilege list \<Rightarrow> privilege list" where
  "canonical_privs privs = remdups_adj (sort_key privilege_sort_key privs)"

section \<open>Collapse to wildcards\<close>

definition add_to_bucket ::
  "nat \<times> grant \<Rightarrow> (string \<times> object_type, nat list) btreemap \<times> (string \<times> object_type) btreeset \<Rightarrow>
   (string \<times> object_type, nat list) btreemap \<times> (string \<times> object_type) btreeset" where
  "add_to_bucket = (\<lambda>(i, g) (buckets, has_wildcard).
     case bucket_of g of
       None \<Rightarrow> (buckets, has_wildcard)
     | Some (key, name) \<Rightarrow>
         if name = ''*'' then (buckets, finsert key has_wildcard) else (entry_push key i buckets, has_wildcard))"

definition collapse_bucket ::
  "grant list \<Rightarrow> inventory \<Rightarrow> (string \<times> object_type) \<times> nat list \<Rightarrow> nat btreeset \<times> grant list \<Rightarrow> nat btreeset \<times> grant list" where
  "collapse_bucket grants objects = (\<lambda>((schema, object_type), idxs) (to_remove, to_add).
     let first_privs = canonical_privs (g_privileges (grants ! hd idxs));
         covered = fset_of_list (List.map_filter (\<lambda>i. ot_name (g_object (grants ! i))) idxs) in
     if \<not> list_all (\<lambda>i. canonical_privs (g_privileges (grants ! i)) = first_privs) idxs then (to_remove, to_add)
     else if fmlookup objects (schema, object_type) \<noteq> Some covered then (to_remove, to_add)
     else (to_remove |\<union>| fset_of_list idxs,
           to_add @ [\<lparr>g_role = g_role (grants ! hd idxs), g_privileges = first_privs,
                      g_object = \<lparr>ot_object_type = object_type, ot_schema = Some schema, ot_name = Some ''*''\<rparr>,
                      g_ensure = Present\<rparr>]))"

definition collapse_full_coverage_grants :: "inventory \<Rightarrow> grant list \<Rightarrow> grant list" where
  "collapse_full_coverage_grants objects grants =
     (let (buckets, has_wildcard) = fold add_to_bucket (enumerate 0 grants) (fmempty, {||});
          buckets = fmfilter (\<lambda>key. key |\<notin>| has_wildcard) buckets;
          (to_remove, to_add) = fold (collapse_bucket grants objects) (bt_entries buckets) ({||}, []) in
      map snd (filter (\<lambda>(i, g). i |\<notin>| to_remove) (enumerate 0 grants)) @ to_add)"

section \<open>Signatures\<close>

type_synonym signature_grant = "object_type \<times> string option \<times> privilege list"
type_synonym signature_default = "object_type \<times> privilege list"
type_synonym role_signature = "signature_grant list \<times> signature_default list"

text \<open>A default privilege of a role: its owner, its schema and the entry.\<close>

type_synonym role_default = "string \<times> string \<times> default_privilege_grant"

definition signature_grant_of :: "string \<Rightarrow> grant \<Rightarrow> signature_grant" where
  "signature_grant_of schema g =
     (let name = (if ot_object_type (g_object g) = Schema \<and> ot_name (g_object g) = Some schema then None
                  else ot_name (g_object g)) in
      (ot_object_type (g_object g), name, canonical_privs (g_privileges g)))"

definition signature_default_of :: "role_default \<Rightarrow> signature_default" where
  "signature_default_of = (\<lambda>(_, _, dpg). (dpg_on_type dpg, canonical_privs (dpg_privileges dpg)))"

definition compute_signature :: "grant list \<Rightarrow> role_default list \<Rightarrow> string \<Rightarrow> role_signature" where
  "compute_signature grants dps schema =
     (remdups_adj (sort (map (signature_grant_of schema) grants)), remdups_adj (sort (map signature_default_of dps)))"

section \<open>Names\<close>

definition strip_prefix :: "string \<Rightarrow> string \<Rightarrow> string option" where
  "strip_prefix p s = (if prefix p s then Some (drop (length p) s) else None)"

definition strip_suffix :: "string \<Rightarrow> string \<Rightarrow> string option" where
  "strip_suffix p s = (if suffix p s then Some (take (length s - length p) s) else None)"

definition nonempty_str :: "string \<Rightarrow> string option" where
  "nonempty_str s = (if s = [] then None else Some s)"

definition match_pattern :: "string \<Rightarrow> string \<Rightarrow> string \<Rightarrow> string option" where
  "match_pattern pattern role_name schema =
     (if pattern = ''{schema}-{profile}''
      then Option.bind (Option.bind (strip_prefix schema role_name) (strip_prefix ''-'')) nonempty_str
      else if pattern = ''{schema}_{profile}''
      then Option.bind (Option.bind (strip_prefix schema role_name) (strip_prefix ''_'')) nonempty_str
      else if pattern = ''{profile}-{schema}''
      then Option.bind (Option.bind (strip_suffix schema role_name) (strip_suffix ''-'')) nonempty_str
      else if pattern = ''{profile}_{schema}''
      then Option.bind (Option.bind (strip_suffix schema role_name) (strip_suffix ''_'')) nonempty_str
      else None)"

definition is_auto_profile_comment :: "string \<Rightarrow> bool" where
  "is_auto_profile_comment c =
     (starts_with c (''Generated from profile '' @ [SQ]) \<and> contains_str c ([SQ] @ '' for schema '' @ [SQ]) \<and> suffix [SQ] c)"

definition is_valid_identifier :: "string \<Rightarrow> bool" where
  "is_valid_identifier s =
     (s \<noteq> [] \<and> list_all (\<lambda>c. is_ascii_alphanumeric c \<or> c = CHR ''_'' \<or> c = CHR ''-'') s \<and>
      \<not> starts_with s ''-'' \<and> \<not> starts_with s ''_'')"

section \<open>Classification\<close>

definition role_has_absent_default_privilege :: "policy_manifest \<Rightarrow> string \<Rightarrow> bool" where
  "role_has_absent_default_privilege input role =
     list_ex (\<lambda>dp. list_ex (\<lambda>grant. dpg_role grant = Some role \<and> dpg_ensure grant = Absent) (dp_grant dp)) (pm_default_privileges input)"

definition role_has_global_default_privilege :: "policy_manifest \<Rightarrow> string \<Rightarrow> bool" where
  "role_has_global_default_privilege input role =
     list_ex (\<lambda>dp. (case resolved_scope dp of Inl _ \<Rightarrow> False | Inr scope \<Rightarrow> scope_schema scope = None) \<and>
                   list_ex (\<lambda>grant. dpg_role grant = Some role) (dp_grant dp))
       (pm_default_privileges input)"

definition bucket_grants :: "policy_manifest \<Rightarrow> (string, grant list) btreemap" where
  "bucket_grants input = fold (\<lambda>g. entry_push (g_role g) g) (pm_grants input) fmempty"

definition bucket_default :: "policy_manifest \<Rightarrow> default_privilege \<Rightarrow> (string, role_default list) btreemap \<Rightarrow> (string, role_default list) btreemap" where
  "bucket_default input dp dps =
     (case resolved_scope dp of
        Inl _ \<Rightarrow> dps
      | Inr scope \<Rightarrow>
          (case scope_schema scope of
             None \<Rightarrow> dps
           | Some schema \<Rightarrow>
               let owner = unwrap_or (or_option (dp_owner dp) (pm_default_owner input)) [] in
               fold (\<lambda>grant dps. case dpg_role grant of None \<Rightarrow> dps | Some role \<Rightarrow> entry_push role (owner, schema, grant) dps)
                 (dp_grant dp) dps))"

definition bucket_defaults :: "policy_manifest \<Rightarrow> (string, role_default list) btreemap" where
  "bucket_defaults input = fold (bucket_default input) (pm_default_privileges input) fmempty"

definition schema_owners :: "policy_manifest \<Rightarrow> (string, string option) btreemap" where
  "schema_owners input = collect_map (map (\<lambda>s. (sb_name s, or_option (sb_owner s) (pm_default_owner input))) (pm_schemas input))"

record eligible =
  el_role_name :: string
  el_schema :: string
  el_signature :: role_signature
  el_login :: "bool option"
  el_inherit :: "bool option"

datatype classification = SkipRole skip_reason | KeepFlat | Promote eligible

definition has_unique_attributes :: "role_definition \<Rightarrow> bool" where
  "has_unique_attributes role_def =
     (rd_superuser role_def \<noteq> None \<or> rd_createdb role_def \<noteq> None \<or> rd_createrole role_def \<noteq> None \<or>
      rd_replication role_def \<noteq> None \<or> rd_bypassrls role_def \<noteq> None \<or> rd_connection_limit role_def \<noteq> None \<or>
      rd_password role_def \<noteq> None \<or> rd_password_valid_until role_def \<noteq> None \<or> bt_keys (rd_config role_def) \<noteq> [] \<or>
      (case rd_comment role_def of None \<Rightarrow> False | Some c \<Rightarrow> \<not> is_auto_profile_comment c))"

definition grant_schema :: "grant \<Rightarrow> string option" where
  "grant_schema g =
     (case ot_object_type (g_object g) of
        Schema \<Rightarrow> ot_name (g_object g)
      | Database \<Rightarrow> None
      | _ \<Rightarrow> ot_schema (g_object g))"

definition unrepresentable_grant :: "grant \<Rightarrow> bool" where
  "unrepresentable_grant g = (g_ensure g = Absent \<or> grant_schema g = None)"

definition classify_role ::
  "policy_manifest \<Rightarrow> (string, grant list) btreemap \<Rightarrow> (string, role_default list) btreemap \<Rightarrow> role_definition \<Rightarrow> classification" where
  "classify_role input role_grants role_dps role_def =
     (let role_name = rd_name role_def;
          role_grants_vec = unwrap_or (fmlookup role_grants role_name) [];
          role_dp_vec = unwrap_or (fmlookup role_dps role_name) [];
          schemas_seen = fset_of_list (List.map_filter grant_schema role_grants_vec @ map (\<lambda>(_, schema, _). schema) role_dp_vec) in
      if has_unique_attributes role_def then SkipRole (UniqueAttributes role_name)
      else if list_ex unrepresentable_grant role_grants_vec then SkipRole (UnrepresentableGrant role_name)
      else if role_has_global_default_privilege input role_name \<or> role_has_absent_default_privilege input role_name
      then SkipRole (UnrepresentableGrant role_name)
      else (case bt_elements schemas_seen of
              [] \<Rightarrow> KeepFlat
            | [schema] \<Rightarrow>
                (case fmlookup (schema_owners input) schema of
                   None \<Rightarrow> SkipRole (SchemaNotDeclared role_name schema)
                 | Some owner_for_schema \<Rightarrow>
                     if list_ex (\<lambda>(owner, _, _). Some owner \<noteq> owner_for_schema) role_dp_vec
                     then SkipRole (OwnerMismatch role_name schema)
                     else Promote \<lparr>el_role_name = role_name, el_schema = schema,
                                   el_signature = compute_signature role_grants_vec role_dp_vec schema,
                                   el_login = rd_login role_def, el_inherit = rd_inherit role_def\<rparr>)
            | schemas \<Rightarrow> SkipRole (MultiSchema role_name schemas)))"

definition eligible_of :: "classification list \<Rightarrow> eligible list" where
  "eligible_of cs = List.map_filter (\<lambda>c. case c of Promote el \<Rightarrow> Some el | _ \<Rightarrow> None) cs"

definition skips_of :: "classification list \<Rightarrow> skip_reason list" where
  "skips_of cs = List.map_filter (\<lambda>c. case c of SkipRole reason \<Rightarrow> Some reason | _ \<Rightarrow> None) cs"

section \<open>Clusters\<close>

type_synonym cluster_key = "role_signature \<times> bool option \<times> bool option"

definition cluster_roles :: "eligible list \<Rightarrow> (cluster_key \<times> eligible list) list" where
  "cluster_roles els =
     (let clusters = fold (\<lambda>el. entry_push (el_signature el, el_login el, el_inherit el) el) els fmempty in
      sort_key (\<lambda>(key, members). (- int (length members), key)) (bt_entries clusters))"

definition pattern_priority :: "string list" where
  "pattern_priority = [''{schema}-{profile}'', ''{schema}_{profile}'', ''{profile}-{schema}'', ''{profile}_{schema}'']"

text \<open>The state of the loop over the clusters.\<close>

record cluster_state =
  cs_schema_pattern :: "(string, string) btreemap"
  cs_schema_profiles :: "(string, string list) btreemap"
  cs_profiles_out :: "(string, profile) btreemap"
  cs_suggested :: "suggested_profile list"
  cs_taken :: "string btreeset"
  cs_clustered :: "string btreeset"
  cs_skipped :: "skip_reason list"

definition start_clusters :: "skip_reason list \<Rightarrow> cluster_state" where
  "start_clusters skipped =
     \<lparr>cs_schema_pattern = fmempty, cs_schema_profiles = fmempty, cs_profiles_out = fmempty, cs_suggested = [],
      cs_taken = {||}, cs_clustered = {||}, cs_skipped = skipped\<rparr>"

fun first_per_schema :: "string btreeset \<Rightarrow> eligible list \<Rightarrow> eligible list" where
  "first_per_schema seen [] = []"
| "first_per_schema seen (m # ms) =
     (if el_schema m |\<in>| seen then first_per_schema seen ms
      else m # first_per_schema (finsert (el_schema m) seen) ms)"

definition viable_name :: "policy_manifest \<Rightarrow> string btreeset \<Rightarrow> eligible list \<Rightarrow> string \<Rightarrow> string option" where
  "viable_name input taken members pat =
     (case those (map (\<lambda>m. match_pattern pat (el_role_name m) (el_schema m)) members) of
        None \<Rightarrow> None
      | Some names \<Rightarrow>
          (case bt_elements (fset_of_list names) of
             [n] \<Rightarrow> if \<not> is_valid_identifier n \<or> n |\<in>| taken \<or> contains_key (pm_profiles input) n then None else Some n
           | _ \<Rightarrow> None))"

definition blocked_by_schema :: "(string, string) btreemap \<Rightarrow> eligible list \<Rightarrow> string \<Rightarrow> (string \<times> string) option" where
  "blocked_by_schema schema_pattern members pat =
     map_option (\<lambda>m. (el_schema m, the (fmlookup schema_pattern (el_schema m))))
       (find (\<lambda>m. case fmlookup schema_pattern (el_schema m) of None \<Rightarrow> False | Some committed \<Rightarrow> committed \<noteq> pat) members)"

fun choose_pattern ::
  "policy_manifest \<Rightarrow> cluster_state \<Rightarrow> eligible list \<Rightarrow> string list \<Rightarrow> (string \<times> string) option \<Rightarrow>
   (string \<times> string) option + (string \<times> string)" where
  "choose_pattern input s members [] conflict = Inl conflict"
| "choose_pattern input s members (pat # pats) conflict =
     (case (viable_name input (cs_taken s) members pat, blocked_by_schema (cs_schema_pattern s) members pat) of
        (Some name, None) \<Rightarrow> Inr (pat, name)
      | (Some _, Some c) \<Rightarrow> choose_pattern input s members pats (if conflict = None then Some c else conflict)
      | _ \<Rightarrow> choose_pattern input s members pats conflict)"

section \<open>Profiles\<close>

definition profile_grant_of :: "grant \<Rightarrow> profile_grant" where
  "profile_grant_of g =
     \<lparr>pg_privileges = canonical_privs (g_privileges g),
      pg_object = \<lparr>pot_object_type = ot_object_type (g_object g),
                   pot_name = (if ot_object_type (g_object g) = Schema then None else ot_name (g_object g))\<rparr>,
      pg_ensure = Present\<rparr>"

definition profile_default_of :: "role_default \<Rightarrow> default_privilege_grant" where
  "profile_default_of = (\<lambda>(_, _, dpg).
     \<lparr>dpg_role = None, dpg_privileges = canonical_privs (dpg_privileges dpg), dpg_on_type = dpg_on_type dpg, dpg_ensure = Present\<rparr>)"

definition build_profile :: "bool option \<Rightarrow> bool option \<Rightarrow> grant list \<Rightarrow> role_default list \<Rightarrow> profile" where
  "build_profile login inherit grants dps =
     \<lparr>p_login = login, p_inherit = inherit,
      p_grants = sort_key (\<lambda>pg. (pot_object_type (pg_object pg), pot_name (pg_object pg))) (map profile_grant_of grants),
      p_default_privileges = sort_key dpg_on_type (map profile_default_of dps),
      p_config = fmempty\<rparr>"

definition commit_member :: "string \<Rightarrow> string \<Rightarrow> eligible \<Rightarrow> cluster_state \<Rightarrow> cluster_state" where
  "commit_member pattern profile_name m s =
     s\<lparr>cs_schema_pattern := fmupd (el_schema m) pattern (cs_schema_pattern s),
       cs_schema_profiles := entry_push (el_schema m) profile_name (cs_schema_profiles s),
       cs_clustered := finsert (el_role_name m) (cs_clustered s)\<rparr>"

definition suggest_cluster ::
  "policy_manifest \<Rightarrow> nat \<Rightarrow> (string, grant list) btreemap \<Rightarrow> (string, role_default list) btreemap \<Rightarrow>
   cluster_key \<times> eligible list \<Rightarrow> cluster_state \<Rightarrow> cluster_state" where
  "suggest_cluster input min_schemas role_grants role_dps = (\<lambda>((_, login, inherit), members) s.
     if fcard (fset_of_list (map el_schema members)) < min_schemas
     then s\<lparr>cs_skipped := cs_skipped s @ map (\<lambda>m. SoleSchema (el_role_name m) (el_schema m)) members\<rparr>
     else
       let unique_members = first_per_schema {||} members in
       case choose_pattern input s unique_members pattern_priority None of
         Inl (Some (schema, winning_pattern)) \<Rightarrow>
           s\<lparr>cs_skipped := cs_skipped s @ [SchemaPatternConflict schema winning_pattern (map el_role_name unique_members)]\<rparr>
       | Inl None \<Rightarrow> s\<lparr>cs_skipped := cs_skipped s @ [NoUniformPattern (map el_role_name unique_members)]\<rparr>
       | Inr (pattern, profile_name) \<Rightarrow>
           let s = fold (commit_member pattern profile_name) unique_members s;
               representative = hd unique_members;
               rep_grants = unwrap_or (fmlookup role_grants (el_role_name representative)) [];
               rep_dps = unwrap_or (fmlookup role_dps (el_role_name representative)) [] in
           s\<lparr>cs_profiles_out := fmupd profile_name (build_profile login inherit rep_grants rep_dps) (cs_profiles_out s),
             cs_taken := finsert profile_name (cs_taken s),
             cs_suggested := cs_suggested s @
               [\<lparr>sp_profile_name = profile_name, sp_role_pattern = pattern,
                 sp_schema_to_role = collect_map (map (\<lambda>m. (el_schema m, el_role_name m)) unique_members)\<rparr>]\<rparr>)"

section \<open>The candidate manifest\<close>

definition bind_profiles :: "cluster_state \<Rightarrow> schema_binding \<Rightarrow> schema_binding" where
  "bind_profiles s b =
     \<lparr>sb_name = sb_name b, sb_profiles = sort (unwrap_or (fmlookup (cs_schema_profiles s) (sb_name b)) []),
      sb_role_pattern = or_option (fmlookup (cs_schema_pattern s) (sb_name b)) (sb_role_pattern b), sb_owner = sb_owner b\<rparr>"

definition keep_default :: "string btreeset \<Rightarrow> default_privilege \<Rightarrow> default_privilege option" where
  "keep_default clustered dp =
     (let kept = filter (\<lambda>g. case dpg_role g of Some r \<Rightarrow> r |\<notin>| clustered | None \<Rightarrow> True) (dp_grant dp) in
      if kept = [] then None else Some (dp\<lparr>dp_grant := kept\<rparr>))"

definition candidate_manifest :: "policy_manifest \<Rightarrow> cluster_state \<Rightarrow> policy_manifest" where
  "candidate_manifest input s =
     \<lparr>pm_role_pattern = pm_role_pattern input, pm_default_owner = pm_default_owner input, pm_auth_providers = pm_auth_providers input,
      pm_profiles = cs_profiles_out s,
      pm_schemas = sort_key sb_name (map (bind_profiles s) (pm_schemas input)),
      pm_roles = filter (\<lambda>r. rd_name r |\<notin>| cs_clustered s) (pm_roles input),
      pm_grants = filter (\<lambda>g. g_role g |\<notin>| cs_clustered s) (pm_grants input),
      pm_default_privileges = List.map_filter (keep_default (cs_clustered s)) (pm_default_privileges input),
      pm_memberships = pm_memberships input, pm_retirements = pm_retirements input\<rparr>"

section \<open>Round-trip check\<close>

definition expand_wildcard_grant :: "inventory \<Rightarrow> grant \<Rightarrow> grant list" where
  "expand_wildcard_grant objects g =
     (case (ot_object_type (g_object g) \<noteq> Schema \<and> ot_object_type (g_object g) \<noteq> Database \<and> ot_name (g_object g) = Some ''*'',
            ot_schema (g_object g)) of
        (True, Some schema) \<Rightarrow>
          (case fmlookup objects (schema, ot_object_type (g_object g)) of
             Some names \<Rightarrow> map (\<lambda>name. g\<lparr>g_object := (g_object g)\<lparr>ot_name := Some name\<rparr>\<rparr>) (bt_elements names)
           | None \<Rightarrow> [g])
      | _ \<Rightarrow> [g])"

definition expand_wildcards_in_place :: "inventory \<Rightarrow> grant list \<Rightarrow> grant list" where
  "expand_wildcards_in_place objects grants = concat (map (expand_wildcard_grant objects) grants)"

definition round_trip_graph ::
  "(manifest_error \<Rightarrow> 'e) \<Rightarrow> (manifest_error \<Rightarrow> 'e) \<Rightarrow> inventory \<Rightarrow> policy_manifest \<Rightarrow> 'e + role_graph" where
  "round_trip_graph expand_error graph_error objects m =
     (case expand_manifest m of
        Inl e \<Rightarrow> Inl (expand_error e)
      | Inr expanded \<Rightarrow>
          (case from_expanded (expanded\<lparr>em_grants := expand_wildcards_in_place objects (em_grants expanded)\<rparr>) (pm_default_owner m) of
             Inl e \<Rightarrow> Inl (graph_error e)
           | Inr graph \<Rightarrow> Inr graph))"

definition is_set_comment :: "change \<Rightarrow> bool" where
  "is_set_comment c = (case c of SetComment _ _ \<Rightarrow> True | _ \<Rightarrow> False)"

definition check_round_trip :: "policy_manifest \<Rightarrow> policy_manifest \<Rightarrow> inventory \<Rightarrow> round_trip_error + unit" where
  "check_round_trip original candidate objects =
     bind_r (round_trip_graph OriginalExpand OriginalGraph objects original) (\<lambda>original_graph.
     bind_r (round_trip_graph CandidateExpand CandidateGraph objects candidate) (\<lambda>candidate_graph.
     let unacceptable = filter (\<lambda>c. \<not> is_set_comment c) (diff original_graph candidate_graph) in
     if unacceptable \<noteq> [] then Inl (StructuralChanges (length unacceptable) (Some (hd unacceptable))) else Inr ()))"

section \<open>Suggestion\<close>

definition collapse_inventory :: "policy_manifest \<Rightarrow> suggest_options \<Rightarrow> inventory option \<times> skip_reason list" where
  "collapse_inventory input opts =
     (case so_full_inventory opts of
        None \<Rightarrow> (None, [])
      | Some full \<Rightarrow>
          (case validate_full_inventory (build_inventory input) full of
             Inr _ \<Rightarrow> (Some full, [])
           | Inl gap \<Rightarrow> (None, [IncompleteFullInventory gap])))"

definition suggestion_grants :: "policy_manifest \<Rightarrow> inventory option \<Rightarrow> (string, grant list) btreemap" where
  "suggestion_grants input collapse =
     (case collapse of None \<Rightarrow> bucket_grants input | Some objects \<Rightarrow> fmmap (collapse_full_coverage_grants objects) (bucket_grants input))"

definition suggest_profiles :: "policy_manifest \<Rightarrow> suggest_options \<Rightarrow> suggest_report" where
  "suggest_profiles input opts =
     (if bt_keys (pm_profiles input) \<noteq> []
      then \<lparr>sr_manifest = input, sr_profiles = [], sr_skipped = [], sr_round_trip_ok = True\<rparr>
      else
        let (collapse, skipped) = collapse_inventory input opts;
            role_grants = suggestion_grants input collapse;
            role_dps = bucket_defaults input;
            classes = map (classify_role input role_grants role_dps) (pm_roles input);
            s = fold (suggest_cluster input (so_min_schemas opts) role_grants role_dps) (cluster_roles (eligible_of classes))
                  (start_clusters (skipped @ skips_of classes));
            candidate = candidate_manifest input s in
        case check_round_trip input candidate (unwrap_or collapse (build_inventory input)) of
          Inr _ \<Rightarrow> \<lparr>sr_manifest = candidate, sr_profiles = cs_suggested s, sr_skipped = cs_skipped s, sr_round_trip_ok = True\<rparr>
        | Inl reason \<Rightarrow>
            \<lparr>sr_manifest = input, sr_profiles = [], sr_skipped = cs_skipped s @ [RoundTripFailure reason], sr_round_trip_ok = False\<rparr>)"

end
