(* ===== verification/SuggestCollapse.thy ===== *)
theory SuggestCollapse
  imports Suggest
begin

text \<open>
  The parts of a suggestion that look at one role: buckets, signatures and the collapse of named grants to wildcards. Over the
  inventory it was computed with, a collapsed list of grants asserts the same privileges on the same objects as the list it came
  from.
\<close>

section \<open>Buckets\<close>

lemma fold_entry_push:
  "unwrap_or (fmlookup (fold (\<lambda>x. entry_push (f x) (h x)) xs m) k) [] =
     unwrap_or (fmlookup m k) [] @ map h (filter (\<lambda>x. f x = k) xs)"
  by (induction xs arbitrary: m) (auto simp: entry_push_def)

lemma bucket_grants_of: "unwrap_or (fmlookup (bucket_grants input) r) [] = filter (\<lambda>g. g_role g = r) (pm_grants input)"
  unfolding bucket_grants_def using fold_entry_push[of g_role "\<lambda>g. g" "pm_grants input" fmempty r] by simp

lemma set_canonical_privs [simp]: "set (canonical_privs ps) = set ps"
  by (simp add: canonical_privs_def)

lemma set_compute_signature:
  "set (fst (compute_signature gs dps s)) = signature_grant_of s ` set gs"
  "set (snd (compute_signature gs dps s)) = signature_default_of ` set dps"
  by (simp_all add: compute_signature_def)

text \<open>The default privileges of a role within schemas.\<close>

lemma bucket_default_of:
  "set (unwrap_or (fmlookup (bucket_default input dp dps) r) []) =
     set (unwrap_or (fmlookup dps r) []) \<union>
     {(unwrap_or (or_option (dp_owner dp) (pm_default_owner input)) [], s, g) | s g.
        resolved_scope dp = Inr (SchemaScope s) \<and> g \<in> set (dp_grant dp) \<and> dpg_role g = Some r}"
proof -
  have push: "set (unwrap_or (fmlookup (fold (\<lambda>grant dps. case dpg_role grant of None \<Rightarrow> dps
          | Some role \<Rightarrow> entry_push role (owner, schema, grant) dps) gs dps) r) []) =
      set (unwrap_or (fmlookup dps r) []) \<union> {(owner, schema, g) | g. g \<in> set gs \<and> dpg_role g = Some r}" for owner schema gs
    by (induction gs arbitrary: dps) (auto simp: entry_push_def split: option.splits)
  show ?thesis
  proof (cases "resolved_scope dp")
    case (Inr scope)
    then show ?thesis by (cases scope) (auto simp: bucket_default_def push Let_def)
  qed (simp add: bucket_default_def)
qed

lemma bucket_defaults_of:
  "set (unwrap_or (fmlookup (bucket_defaults input) r) []) =
     {(unwrap_or (or_option (dp_owner dp) (pm_default_owner input)) [], s, g) | dp s g.
        dp \<in> set (pm_default_privileges input) \<and> resolved_scope dp = Inr (SchemaScope s) \<and> g \<in> set (dp_grant dp) \<and> dpg_role g = Some r}"
proof -
  have "set (unwrap_or (fmlookup (fold (bucket_default input) xs m) r) []) = set (unwrap_or (fmlookup m r) []) \<union>
      {(unwrap_or (or_option (dp_owner dp) (pm_default_owner input)) [], s, g) | dp s g.
        dp \<in> set xs \<and> resolved_scope dp = Inr (SchemaScope s) \<and> g \<in> set (dp_grant dp) \<and> dpg_role g = Some r}" for xs m
    by (induction xs arbitrary: m) (auto simp: bucket_default_of)
  then show ?thesis by (simp add: bucket_defaults_def)
qed

section \<open>What grants assert\<close>

text \<open>The object and privilege pairs a grant mentions once wildcards are expanded over an inventory.\<close>

definition grant_facts :: "inventory \<Rightarrow> grant \<Rightarrow> (grant_key \<times> privilege) set" where
  "grant_facts objects g = (\<Union>h\<in>set (expand_wildcard_grant objects g). Pair (grant_key_from_manifest h) ` set (g_privileges h))"

definition facts_of :: "inventory \<Rightarrow> grant list \<Rightarrow> (grant_key \<times> privilege) set" where
  "facts_of objects gs = (\<Union>g\<in>set gs. grant_facts objects g)"

lemma policy_facts_simps [simp]:
  "facts_of objects [] = {}" "facts_of objects (g # gs) = grant_facts objects g \<union> facts_of objects gs"
  "facts_of objects (gs @ hs) = facts_of objects gs \<union> facts_of objects hs"
  by (auto simp: facts_of_def)

lemma expanded_fields:
  "h \<in> set (expand_wildcard_grant objects g) \<Longrightarrow>
     g_role h = g_role g \<and> g_privileges h = g_privileges g \<and> g_ensure h = g_ensure g \<and>
     ot_object_type (g_object h) = ot_object_type (g_object g) \<and> ot_schema (g_object h) = ot_schema (g_object g)"
  by (auto simp: expand_wildcard_grant_def split: option.splits bool.splits)

lemma bucket_ofD:
  assumes "bucket_of g = Some ((s, t), n)"
  shows "ot_object_type (g_object g) = t" "ot_schema (g_object g) = Some s" "ot_name (g_object g) = Some n" "t \<noteq> Schema" "t \<noteq> Database"
  using assms by (auto simp: bucket_of_def split: object_type.splits option.splits)

lemma named_grant_facts:
  assumes "bucket_of g = Some ((s, t), n)" and "n \<noteq> ''*''"
  shows "grant_facts objects g = {(\<lparr>gk_role = grantee_parse (g_role g), gk_object_type = t, gk_schema = Some s, gk_name = Some n\<rparr>, p) | p. p \<in> set (g_privileges g)}"
  using bucket_ofD[OF assms(1)] assms(2) by (auto simp: grant_facts_def expand_wildcard_grant_def grant_key_from_manifest_def)

lemma wildcard_grant_facts:
  assumes "fmlookup objects (s, t) = Some names" and "t \<noteq> Schema" and "t \<noteq> Database"
  shows "grant_facts objects \<lparr>g_role = r, g_privileges = ps, g_object = \<lparr>ot_object_type = t, ot_schema = Some s, ot_name = Some ''*''\<rparr>, g_ensure = e\<rparr> =
    {(\<lparr>gk_role = grantee_parse r, gk_object_type = t, gk_schema = Some s, gk_name = Some n\<rparr>, p) | n p. n |\<in>| names \<and> p \<in> set ps}"
  using assms by (auto simp: grant_facts_def expand_wildcard_grant_def grant_key_from_manifest_def)

section \<open>Collapse\<close>

definition bucketed :: "grant list \<Rightarrow> string \<times> object_type \<Rightarrow> nat list \<Rightarrow> bool" where
  "bucketed grants key idxs \<longleftrightarrow>
     idxs \<noteq> [] \<and> (\<forall>i\<in>set idxs. i < length grants \<and> (\<exists>n. bucket_of (grants ! i) = Some (key, n) \<and> n \<noteq> ''*''))"

lemma buckets_ok:
  assumes "\<forall>(i, g)\<in>set xs. i < length grants \<and> g = grants ! i" and "\<And>key idxs. fmlookup b key = Some idxs \<Longrightarrow> bucketed grants key idxs"
    and "fmlookup (fst (fold add_to_bucket xs (b, w))) key = Some idxs"
  shows "bucketed grants key idxs"
  using assms
proof (induction xs arbitrary: b w)
  case (Cons x xs)
  obtain i g where x: "x = (i, g)" by (cases x)
  have i: "i < length grants" "g = grants ! i" using Cons.prems(1) by (auto simp: x)
  obtain b' w' where step: "add_to_bucket x (b, w) = (b', w')" by (cases "add_to_bucket x (b, w)")
  have ok: "bucketed grants key' idxs'" if "fmlookup b' key' = Some idxs'" for key' idxs'
  proof (cases "bucket_of g")
    case None
    then show ?thesis using Cons.prems(2) that step by (simp add: add_to_bucket_def x)
  next
    case (Some kn)
    obtain k n where kn: "kn = (k, n)" by (cases kn)
    show ?thesis
    proof (cases "n = ''*''")
      case True
      then show ?thesis using Cons.prems(2) that step Some by (simp add: add_to_bucket_def x kn)
    next
      case False
      then have b': "b' = entry_push k i b" using step Some by (simp add: add_to_bucket_def x kn)
      show ?thesis
      proof (cases "key' = k")
        case True
        then have "idxs' = unwrap_or (fmlookup b k) [] @ [i]" using that by (simp add: b' entry_push_def)
        then show ?thesis using Cons.prems(2)[of k] True i Some False
          by (cases "fmlookup b k") (auto simp: bucketed_def kn)
      qed (use Cons.prems(2) that in \<open>simp add: b' entry_push_def\<close>)
    qed
  qed
  then show ?case using Cons.IH[of b' w'] Cons.prems(1,3) step by simp
qed simp

definition collapse_invariant :: "inventory \<Rightarrow> string \<Rightarrow> grant list \<Rightarrow> nat btreeset \<times> grant list \<Rightarrow> bool" where
  "collapse_invariant objects r grants = (\<lambda>(to_remove, to_add).
     (\<forall>i. i |\<in>| to_remove \<longrightarrow> i < length grants) \<and>
     (\<forall>g\<in>set to_add. g_role g = r \<and> ot_object_type (g_object g) \<noteq> Schema) \<and>
     facts_of objects to_add = (\<Union>i\<in>fset to_remove. grant_facts objects (grants ! i)))"

lemma collapse_bucket_invariant:
  assumes "collapse_invariant objects r grants acc" and "bucketed grants key idxs" and "\<forall>g\<in>set grants. g_role g = r"
  shows "collapse_invariant objects r grants (collapse_bucket grants objects (key, idxs) acc)"
proof -
  obtain s t where key: "key = (s, t)" by (cases key)
  obtain R A where acc: "acc = (R, A)" by (cases acc)
  let ?first = "canonical_privs (g_privileges (grants ! hd idxs))"
  let ?covered = "fset_of_list (List.map_filter (\<lambda>i. ot_name (g_object (grants ! i))) idxs)"
  have idx: "i < length grants" "\<exists>n. bucket_of (grants ! i) = Some ((s, t), n) \<and> n \<noteq> ''*''" "g_role (grants ! i) = r" if "i \<in> set idxs" for i
    using assms(2,3) that by (auto simp: bucketed_def key)
  have hd: "hd idxs \<in> set idxs" using assms(2) by (auto simp: bucketed_def)
  show ?thesis
  proof (cases "list_all (\<lambda>i. canonical_privs (g_privileges (grants ! i)) = ?first) idxs \<and> fmlookup objects (s, t) = Some ?covered")
    case True
    have privs: "set (g_privileges (grants ! i)) = set ?first" if "i \<in> set idxs" for i
    proof -
      have "canonical_privs (g_privileges (grants ! i)) = ?first" using True that by (auto simp: list_all_iff)
      from arg_cong[OF this, of set] show ?thesis by simp
    qed
    let ?k = "\<lambda>n. \<lparr>gk_role = grantee_parse r, gk_object_type = t, gk_schema = Some s, gk_name = Some n\<rparr>"
    have t: "t \<noteq> Schema" "t \<noteq> Database" using idx(2)[OF hd] bucket_ofD by blast+
    have one: "grant_facts objects (grants ! i) = {(?k (the (ot_name (g_object (grants ! i)))), p) | p. p \<in> set ?first}" if "i \<in> set idxs" for i
      using idx(2)[OF that] named_grant_facts[of "grants ! i" s t] privs[OF that] idx(3)[OF that] bucket_ofD(3) by fastforce
    have "fset ?covered = (\<lambda>i. the (ot_name (g_object (grants ! i)))) ` set idxs"
    proof -
      have "ot_name (g_object (grants ! i)) = Some (the (ot_name (g_object (grants ! i))))" if "i \<in> set idxs" for i
        using idx(2)[OF that] bucket_ofD(3) by fastforce
      then show ?thesis by (force simp: fset_of_list.rep_eq List.map_filter_def image_iff)
    qed
    then have "{(?k n, p) | n p. n |\<in>| ?covered \<and> p \<in> set ?first} = (\<Union>i\<in>set idxs. grant_facts objects (grants ! i))"
      using one by auto
    then have "facts_of objects [\<lparr>g_role = g_role (grants ! hd idxs), g_privileges = ?first,
          g_object = \<lparr>ot_object_type = t, ot_schema = Some s, ot_name = Some ''*''\<rparr>, g_ensure = Present\<rparr>] =
        (\<Union>i\<in>set idxs. grant_facts objects (grants ! i))"
      using wildcard_grant_facts[of objects s t ?covered r] True t idx(3)[OF hd] by simp
    then show ?thesis
      using assms(1) True idx(1) idx(3)[OF hd] t unfolding collapse_invariant_def collapse_bucket_def
      by (auto simp: acc key Let_def fset_of_list.rep_eq)
  next
    case False
    then have "collapse_bucket grants objects (key, idxs) acc = acc" by (auto simp: collapse_bucket_def key acc Let_def)
    then show ?thesis using assms(1) by simp
  qed
qed

lemma collapse_keeps_facts:
  assumes "\<forall>g\<in>set grants. g_role g = r"
  shows "facts_of objects (collapse_full_coverage_grants objects grants) = facts_of objects grants"
    "g \<in> set (collapse_full_coverage_grants objects grants) \<Longrightarrow> g_role g = r \<and> (ot_object_type (g_object g) = Schema \<longrightarrow> g \<in> set grants)"
proof -
  obtain b w where buckets: "fold add_to_bucket (enumerate 0 grants) (fmempty, {||}) = (b, w)" by fastforce
  let ?b = "fmfilter (\<lambda>key. key |\<notin>| w) b"
  have indexed: "\<forall>(i, g)\<in>set (enumerate 0 grants). i < length grants \<and> g = grants ! i" by (auto simp: in_set_enumerate_eq)
  have ok: "bucketed grants key idxs" if "fmlookup ?b key = Some idxs" for key idxs
    using buckets_ok[OF indexed, of fmempty "{||}" key idxs] that by (auto simp: buckets split: if_splits)
  have inv: "collapse_invariant objects r grants (fold (collapse_bucket grants objects) es acc)"
    if "collapse_invariant objects r grants acc" "set es \<subseteq> set (bt_entries ?b)" for es acc
    using that
  proof (induction es arbitrary: acc)
    case (Cons e es)
    obtain key idxs where e: "e = (key, idxs)" by (cases e)
    have "bucketed grants key idxs" using Cons.prems(2) by (intro ok) (simp add: e in_bt_entries_iff)
    then show ?case using Cons.IH[OF collapse_bucket_invariant[OF Cons.prems(1) _ assms]] Cons.prems(2) by (simp add: e)
  qed simp
  obtain R A where run: "fold (collapse_bucket grants objects) (bt_entries ?b) ({||}, []) = (R, A)" by fastforce
  have "collapse_invariant objects r grants (R, A)" using inv[of "({||}, [])" "bt_entries ?b"] by (simp add: run collapse_invariant_def)
  then have R: "\<And>i. i |\<in>| R \<Longrightarrow> i < length grants" and roles: "\<forall>g\<in>set A. g_role g = r \<and> ot_object_type (g_object g) \<noteq> Schema"
    and A: "facts_of objects A = (\<Union>i\<in>fset R. grant_facts objects (grants ! i))"
    by (auto simp: collapse_invariant_def)
  have "facts_of objects (map snd (filter (\<lambda>(i, g). i |\<notin>| R) (enumerate 0 grants))) = (\<Union>i\<in>{i. i < length grants \<and> i |\<notin>| R}. grant_facts objects (grants ! i))"
    by (auto simp: facts_of_def in_set_enumerate_eq)
  moreover have "facts_of objects grants = (\<Union>i\<in>{i. i < length grants}. grant_facts objects (grants ! i))"
    by (auto simp: facts_of_def set_conv_nth)
  ultimately show "facts_of objects (collapse_full_coverage_grants objects grants) = facts_of objects grants"
    using R A unfolding collapse_full_coverage_grants_def by (auto simp: buckets run)
  show "g \<in> set (collapse_full_coverage_grants objects grants) \<Longrightarrow> g_role g = r \<and> (ot_object_type (g_object g) = Schema \<longrightarrow> g \<in> set grants)"
    using roles assms unfolding collapse_full_coverage_grants_def by (auto simp: buckets run in_set_enumerate_eq)
qed

end
