(* ===== verification/SuggestLaws.thy ===== *)
theory SuggestLaws
  imports SuggestCollapse
begin

text \<open>
  A suggestion that passes the round-trip check changes nothing but comments: the graph of the suggested manifest has the roles,
  schemas, memberships, privileges, default privileges and asserted absences of the graph of the original.
\<close>

section \<open>The graph of an expanded manifest\<close>

lemma add_default_grants_exact:
  assumes "fold_r (add_default_grant owner scope) gs g = Inr h"
  shows "p \<in> held_default h k \<longleftrightarrow> p \<in> held_default g k \<or> (\<exists>x\<in>set gs. \<exists>role. dpg_role x = Some role \<and> dpg_ensure x = Present \<and>
      p \<in> set (dpg_privileges x) \<and> k = default_key owner scope (dpg_on_type x) (grantee_parse role))" (is ?held)
    "p \<in> absent_default h k \<longleftrightarrow> p \<in> absent_default g k \<or> (\<exists>x\<in>set gs. \<exists>role. dpg_role x = Some role \<and> dpg_ensure x = Absent \<and>
      p \<in> set (dpg_privileges x) \<and> k = default_key owner scope (dpg_on_type x) (grantee_parse role))" (is ?absent)
    "\<exists>d a. h = g\<lparr>rg_default_privileges := d, rg_default_privilege_absences := a\<rparr>" (is ?rest)
proof -
  have "?held \<and> ?absent \<and> ?rest"
    using assms
  proof (induction gs arbitrary: g)
    case Nil
    have "\<exists>d a. g = g\<lparr>rg_default_privileges := d, rg_default_privilege_absences := a\<rparr>"
      by (rule exI[of _ "rg_default_privileges g"], rule exI[of _ "rg_default_privilege_absences g"]) simp
    then show ?case using Nil by simp
  next
    case (Cons x gs)
    obtain g' where step: "add_default_grant owner scope x g = Inr g'" and rest: "fold_r (add_default_grant owner scope) gs g' = Inr h"
      using Cons.prems by auto
    obtain role where role: "dpg_role x = Some role" using step by (auto simp: add_default_grant_def split: option.splits)
    note IH = Cons.IH[OF rest]
    let ?k = "default_key owner scope (dpg_on_type x) (grantee_parse role)"
    show ?case
    proof (cases "dpg_ensure x")
      case Present
      then have "g' = g\<lparr>rg_default_privileges := entry_extend ?k (fset_of_list (dpg_privileges x)) (rg_default_privileges g)\<rparr>"
        using step by (simp add: add_default_grant_def role Let_def)
      then show ?thesis using IH role Present by (auto simp: fset_of_list.rep_eq split: if_splits)
    next
      case Absent
      then have "g' = g\<lparr>rg_default_privilege_absences := entry_extend ?k (fset_of_list (dpg_privileges x)) (rg_default_privilege_absences g)\<rparr>"
        using step by (simp add: add_default_grant_def role Let_def)
      then show ?thesis using IH role Absent by (auto simp: fset_of_list.rep_eq split: if_splits)
    qed
  qed
  then show ?held ?absent ?rest by blast+
qed

lemma add_default_privileges_exact:
  assumes "fold_r (add_default_privilege owner) dps g = Inr h"
  shows "p \<in> held_default h k \<longleftrightarrow> p \<in> held_default g k \<or> sourced owner dps Present k p" (is ?held)
    "p \<in> absent_default h k \<longleftrightarrow> p \<in> absent_default g k \<or> sourced owner dps Absent k p" (is ?absent)
    "\<exists>d a. h = g\<lparr>rg_default_privileges := d, rg_default_privilege_absences := a\<rparr>" (is ?rest)
proof -
  have "?held \<and> ?absent \<and> ?rest"
    using assms
  proof (induction dps arbitrary: g)
    case Nil
    have "\<exists>d a. g = g\<lparr>rg_default_privileges := d, rg_default_privilege_absences := a\<rparr>"
      by (rule exI[of _ "rg_default_privileges g"], rule exI[of _ "rg_default_privilege_absences g"]) simp
    then show ?case using Nil by (simp add: sourced_def)
  next
    case (Cons dp dps)
    obtain g' where dp: "add_default_privilege owner dp g = Inr g'" and rest: "fold_r (add_default_privilege owner) dps g' = Inr h"
      using Cons.prems by auto
    obtain scope where scope: "resolved_scope dp = Inr scope"
      and step: "fold_r (add_default_grant (default_priv_owner owner dp) scope) (dp_grant dp) g = Inr g'"
      using dp by (auto simp: add_default_privilege_def)
    have src: "sourced owner (dp # dps) e k p \<longleftrightarrow> sourced owner dps e k p \<or> (\<exists>x\<in>set (dp_grant dp). \<exists>role. dpg_role x = Some role \<and> dpg_ensure x = e \<and>
        p \<in> set (dpg_privileges x) \<and> k = default_key (default_priv_owner owner dp) scope (dpg_on_type x) (grantee_parse role))" for e
      using scope by (auto simp: sourced_def)
    obtain d a where g': "g' = g\<lparr>rg_default_privileges := d, rg_default_privilege_absences := a\<rparr>"
      using add_default_grants_exact(3)[OF step] by blast
    obtain d' a' where "h = g'\<lparr>rg_default_privileges := d', rg_default_privilege_absences := a'\<rparr>" using Cons.IH[OF rest] by blast
    then have "h = g\<lparr>rg_default_privileges := d', rg_default_privilege_absences := a'\<rparr>" using g' by simp
    then show ?case using Cons.IH[OF rest] add_default_grants_exact(1,2)[OF step, of p k] src by blast
  qed
  then show ?held ?absent ?rest by blast+
qed

lemma members_only_members:
  "\<exists>x m. fold add_membership ms g = g\<lparr>rg_exclusive_membership_roles := x, rg_memberships := m\<rparr>"
  "rg_memberships g = rg_memberships h \<Longrightarrow> rg_exclusive_membership_roles g = rg_exclusive_membership_roles h \<Longrightarrow>
   rg_memberships (fold add_membership ms g) = rg_memberships (fold add_membership ms h) \<and>
   rg_exclusive_membership_roles (fold add_membership ms g) = rg_exclusive_membership_roles (fold add_membership ms h)"
proof -
  show "\<exists>x m. fold add_membership ms g = g\<lparr>rg_exclusive_membership_roles := x, rg_memberships := m\<rparr>"
  proof (induction ms arbitrary: g)
    case Nil
    show ?case by (auto intro!: exI[of _ "rg_exclusive_membership_roles g"] exI[of _ "rg_memberships g"])
  next
    case (Cons m ms)
    from Cons[of "add_membership m g"] show ?case by (auto simp: add_membership_def)
  qed
  show "rg_memberships g = rg_memberships h \<Longrightarrow> rg_exclusive_membership_roles g = rg_exclusive_membership_roles h \<Longrightarrow>
     rg_memberships (fold add_membership ms g) = rg_memberships (fold add_membership ms h) \<and>
     rg_exclusive_membership_roles (fold add_membership ms g) = rg_exclusive_membership_roles (fold add_membership ms h)"
    by (induction ms arbitrary: g h) (simp_all add: add_membership_def)
qed

lemma grants_only_grants: "\<exists>a b. fold add_grant gs g = g\<lparr>rg_grants := a, rg_grant_absences := b\<rparr>"
proof (induction gs arbitrary: g)
  case Nil
  show ?case by (rule exI[of _ "rg_grants g"], rule exI[of _ "rg_grant_absences g"]) simp
next
  case (Cons x gs)
  from Cons[of "add_grant x g"] show ?case by (cases "g_ensure x") (auto simp: add_grant_def Let_def)
qed

definition declared_members :: "membership list \<Rightarrow> role_graph" where
  "declared_members ms = fold add_membership ms empty_graph"

lemma from_expanded_exact:
  assumes "from_expanded e owner = Inr g"
  shows "rg_roles g = collect_map (map (\<lambda>d. (rd_name d, from_definition d)) (em_roles e))"
    "rg_schemas g = collect_map (map (\<lambda>s. (es_name s, schema_state_of s)) (em_schemas e))"
    "held_grant g k = \<Union> {set (g_privileges x) | x. x \<in> set (em_grants e) \<and> g_ensure x = Present \<and> grant_key_from_manifest x = k}"
    "absent_grant g k = \<Union> {set (g_privileges x) | x. x \<in> set (em_grants e) \<and> g_ensure x = Absent \<and> grant_key_from_manifest x = k}"
    "held_default g dk = {p. sourced owner (em_default_privileges e) Present dk p}"
    "absent_default g dk = {p. sourced owner (em_default_privileges e) Absent dk p}"
    "rg_memberships g = rg_memberships (declared_members (em_memberships e))"
    "rg_exclusive_membership_roles g = rg_exclusive_membership_roles (declared_members (em_memberships e))"
    "rg_routine_aliases g = fmempty"
proof -
  let ?start = "empty_graph\<lparr>rg_roles := collect_map (map (\<lambda>d. (rd_name d, from_definition d)) (em_roles e)),
      rg_schemas := collect_map (map (\<lambda>s. (es_name s, schema_state_of s)) (em_schemas e))\<rparr>"
  let ?granted = "fold add_grant (em_grants e) ?start"
  obtain h where h: "fold_r (add_default_privilege owner) (em_default_privileges e) ?granted = Inr h"
    and g: "g = fold add_membership (em_memberships e) h"
    using assms by (auto simp: from_expanded_def Let_def)
  obtain a b where granted: "?granted = ?start\<lparr>rg_grants := a, rg_grant_absences := b\<rparr>" using grants_only_grants by blast
  obtain d d' where h_def: "h = ?granted\<lparr>rg_default_privileges := d, rg_default_privilege_absences := d'\<rparr>"
    using add_default_privileges_exact(3)[OF h] by blast
  obtain x m where g_def: "g = h\<lparr>rg_exclusive_membership_roles := x, rg_memberships := m\<rparr>" using members_only_members(1) g by blast
  show "rg_roles g = collect_map (map (\<lambda>d. (rd_name d, from_definition d)) (em_roles e))"
    "rg_schemas g = collect_map (map (\<lambda>s. (es_name s, schema_state_of s)) (em_schemas e))" "rg_routine_aliases g = fmempty"
    unfolding g_def h_def granted by (simp_all add: empty_graph_def)
  show "held_grant g k = \<Union> {set (g_privileges x) | x. x \<in> set (em_grants e) \<and> g_ensure x = Present \<and> grant_key_from_manifest x = k}"
    "absent_grant g k = \<Union> {set (g_privileges x) | x. x \<in> set (em_grants e) \<and> g_ensure x = Absent \<and> grant_key_from_manifest x = k}"
    using fold_add_grant(4,5)[where k = k and gs = "em_grants e" and ?g0.0 = ?start] by (simp_all add: g_def h_def empty_graph_def)
  have none: "held_default ?granted dk = {}" "absent_default ?granted dk = {}" unfolding granted by (simp_all add: empty_graph_def)
  show "held_default g dk = {p. sourced owner (em_default_privileges e) Present dk p}"
    "absent_default g dk = {p. sourced owner (em_default_privileges e) Absent dk p}"
    using add_default_privileges_exact(1,2)[OF h, where k = dk] none by (auto simp: g_def)
  have "rg_memberships h = rg_memberships empty_graph" "rg_exclusive_membership_roles h = rg_exclusive_membership_roles empty_graph"
    unfolding h_def granted by simp_all
  from members_only_members(2)[OF this, of "em_memberships e"]
  show "rg_memberships g = rg_memberships (declared_members (em_memberships e))"
    "rg_exclusive_membership_roles g = rg_exclusive_membership_roles (declared_members (em_memberships e))"
    by (simp_all add: g declared_members_def)
qed

section \<open>Names\<close>

lemma replace_at_end:
  assumes "\<not> contains_str s pat" and "c \<notin> set pat" and "pat \<noteq> []" and "replace_str u pat n = v"
  shows "replace_str (s @ c # u) pat n = s @ c # v"
  using assms(1)
proof (induction s)
  case Nil
  have "\<not> prefix pat (c # u)" using assms(2,3) by (cases pat) auto
  then show ?case using assms(3,4) by (simp add: replace_str.simps)
next
  case (Cons x s)
  have "\<not> prefix pat (x # s @ c # u)"
  proof
    assume "prefix pat (x # s @ c # u)"
    then have "prefix pat ((x # s) @ c # u)" by simp
    then consider "prefix pat (x # s)" | zs where "pat = (x # s) @ zs" "prefix zs (c # u)" unfolding prefix_append by blast
    then show False
    proof cases
      case 1
      then show ?thesis using Cons.prems by simp
    next
      case 2
      then show ?thesis using assms(2) Cons.prems by (cases zs) auto
    qed
  qed
  then show ?case using Cons assms(3) by (simp add: replace_str.simps)
qed

lemma strip_prefix_Some: "strip_prefix p s = Some t \<longleftrightarrow> s = p @ t"
  by (auto simp: strip_prefix_def prefix_def)

lemma strip_suffix_Some: "strip_suffix p s = Some t \<longleftrightarrow> s = t @ p"
  by (auto simp: strip_suffix_def suffix_def)

lemma nonempty_str_Some: "nonempty_str s = Some t \<longleftrightarrow> s = t \<and> t \<noteq> []"
  by (auto simp: nonempty_str_def)

text \<open>A pattern that matches a role name gives the name back when the profile is expanded.\<close>

lemma match_pattern_expands:
  assumes "match_pattern pat r s = Some n" and "pat \<in> set pattern_priority" and "\<not> contains_str s ''{profile}''"
  shows "replace_str (replace_str pat ''{schema}'' s) ''{profile}'' n = r"
proof -
  have tail: "replace_str (s @ CHR ''-'' # ''{profile}'') ''{profile}'' n = s @ CHR ''-'' # n"
    "replace_str (s @ CHR ''_'' # ''{profile}'') ''{profile}'' n = s @ CHR ''_'' # n"
    by (rule replace_at_end[OF assms(3)]; simp)+
  have keep: "replace_str s ''{profile}'' n = s"
    using assms(3) by (induction s) auto
  consider "pat = ''{schema}-{profile}''" | "pat = ''{schema}_{profile}''" | "pat = ''{profile}-{schema}''" | "pat = ''{profile}_{schema}''"
    using assms(2) by (auto simp: pattern_priority_def)
  then show ?thesis
  proof cases
    case 1
    then have "r = s @ CHR ''-'' # n" using assms(1)
      by (auto simp: match_pattern_def bind_eq_Some_conv strip_prefix_Some nonempty_str_Some)
    then show ?thesis using tail(1) by (simp add: 1)
  next
    case 2
    then have "r = s @ CHR ''_'' # n" using assms(1)
      by (auto simp: match_pattern_def bind_eq_Some_conv strip_prefix_Some nonempty_str_Some)
    then show ?thesis using tail(2) by (simp add: 2)
  next
    case 3
    then have "r = n @ CHR ''-'' # s" using assms(1)
      by (auto simp: match_pattern_def bind_eq_Some_conv strip_suffix_Some nonempty_str_Some)
    then show ?thesis using keep by (simp add: 3)
  next
    case 4
    then have "r = n @ CHR ''_'' # s" using assms(1)
      by (auto simp: match_pattern_def bind_eq_Some_conv strip_suffix_Some nonempty_str_Some)
    then show ?thesis using keep by (simp add: 4)
  qed
qed

section \<open>Clusters\<close>

text \<open>
  The state of the loop over the clusters, described by the set of links made so far: a role and the profile it comes from.
\<close>

definition links_ok ::
  "eligible set \<Rightarrow> (string, grant list) btreemap \<Rightarrow> (string, role_default list) btreemap \<Rightarrow> cluster_state \<Rightarrow> (eligible \<times> string) set \<Rightarrow> bool" where
  "links_ok els role_grants role_dps s L \<longleftrightarrow>
     fset (cs_clustered s) = (\<lambda>(m, n). el_role_name m) ` L \<and>
     (\<forall>b n. n \<in> set (unwrap_or (fmlookup (cs_schema_profiles s) b) []) \<longleftrightarrow> (\<exists>m. (m, n) \<in> L \<and> el_schema m = b)) \<and>
     (\<forall>(m, n)\<in>L. m \<in> els \<and> n |\<in>| cs_taken s \<and>
        (\<exists>pat\<in>set pattern_priority. fmlookup (cs_schema_pattern s) (el_schema m) = Some pat \<and>
           match_pattern pat (el_role_name m) (el_schema m) = Some n) \<and>
        (\<exists>rep\<in>els. el_signature rep = el_signature m \<and>
           fmlookup (cs_profiles_out s) n = Some (build_profile (el_login m) (el_inherit m)
             (unwrap_or (fmlookup role_grants (el_role_name rep)) []) (unwrap_or (fmlookup role_dps (el_role_name rep)) []))))"

lemma choose_patternD:
  assumes "choose_pattern input s members pats c = Inr (pat, n)"
  shows "pat \<in> set pats \<and> viable_name input (cs_taken s) members pat = Some n \<and> blocked_by_schema (cs_schema_pattern s) members pat = None"
  using assms by (induction pats arbitrary: c) (auto split: option.splits)

lemma those_SomeD: "those (map f xs) = Some ys \<Longrightarrow> x \<in> set xs \<Longrightarrow> \<exists>y\<in>set ys. f x = Some y"
  by (induction xs arbitrary: ys) (fastforce split: option.splits)+

lemma viable_nameD:
  assumes "viable_name input taken members pat = Some n"
  shows "n |\<notin>| taken" "m \<in> set members \<Longrightarrow> match_pattern pat (el_role_name m) (el_schema m) = Some n"
proof -
  obtain names where names: "those (map (\<lambda>m. match_pattern pat (el_role_name m) (el_schema m)) members) = Some names"
    and one: "bt_elements (fset_of_list names) = [n]" and free: "n |\<notin>| taken"
    using assms by (auto simp: viable_name_def split: option.splits list.splits if_splits)
  show "n |\<notin>| taken" by (rule free)
  have "set names = {n}" using arg_cong[OF one, of set] by (simp add: fset_of_list.rep_eq)
  then show "m \<in> set members \<Longrightarrow> match_pattern pat (el_role_name m) (el_schema m) = Some n"
    using those_SomeD[OF names, of m] by auto
qed

lemma not_blocked:
  "blocked_by_schema committed members pat = None \<Longrightarrow> m \<in> set members \<Longrightarrow> fmlookup committed (el_schema m) \<in> {None, Some pat}"
  by (cases "fmlookup committed (el_schema m)") (auto simp: blocked_by_schema_def find_None_iff split: option.splits)

lemma first_per_schema_subset: "set (first_per_schema seen ms) \<subseteq> set ms"
  by (induction ms arbitrary: seen) auto

lemma commit_members:
  "fmlookup (cs_schema_pattern (fold (commit_member pat n) ms s)) b =
     (if b \<in> el_schema ` set ms then Some pat else fmlookup (cs_schema_pattern s) b)"
  "set (unwrap_or (fmlookup (cs_schema_profiles (fold (commit_member pat n) ms s)) b) []) =
     set (unwrap_or (fmlookup (cs_schema_profiles s) b) []) \<union> (if b \<in> el_schema ` set ms then {n} else {})"
  "fset (cs_clustered (fold (commit_member pat n) ms s)) = fset (cs_clustered s) \<union> el_role_name ` set ms"
  "cs_profiles_out (fold (commit_member pat n) ms s) = cs_profiles_out s" "cs_taken (fold (commit_member pat n) ms s) = cs_taken s"
  by (induction ms arbitrary: s) (auto simp: commit_member_def entry_push_def)

lemma suggest_cluster_links:
  assumes "links_ok els role_grants role_dps s L" and "members \<noteq> []"
    and "\<forall>m\<in>set members. m \<in> els \<and> key = (el_signature m, el_login m, el_inherit m)"
  shows "\<exists>L'. links_ok els role_grants role_dps (suggest_cluster input k role_grants role_dps (key, members) s) L'"
proof -
  let ?s' = "suggest_cluster input k role_grants role_dps (key, members) s"
  obtain sig login inherit where key: "key = (sig, login, inherit)" by (cases key)
  let ?ms = "first_per_schema {||} members"
  have ms: "?ms \<noteq> []" "set ?ms \<subseteq> set members"
    using first_per_schema_subset by (cases members, simp_all add: assms(2))
  consider (skip) sk where "?s' = s\<lparr>cs_skipped := sk\<rparr>"
    | (new) pat n where "choose_pattern input s ?ms pattern_priority None = Inr (pat, n)"
  proof (cases "choose_pattern input s ?ms pattern_priority None")
    case (Inl c)
    then have "\<exists>sk. ?s' = s\<lparr>cs_skipped := sk\<rparr>" by (cases c) (auto simp: suggest_cluster_def key Let_def)
    then show ?thesis using that(1) by blast
  next
    case (Inr r)
    then show ?thesis using that(2) by (cases r) simp
  qed
  then show ?thesis
  proof cases
    case skip
    then have "links_ok els role_grants role_dps ?s' L" using assms(1) by (simp add: links_ok_def)
    then show ?thesis by blast
  next
    case new
    show ?thesis
    proof (cases "fcard (fset_of_list (map el_schema members)) < k")
      case True
      then have "links_ok els role_grants role_dps ?s' L" using assms(1) by (simp add: links_ok_def suggest_cluster_def key)
      then show ?thesis by blast
    next
      case False
      let ?rep = "hd ?ms"
      let ?profile = "build_profile login inherit (unwrap_or (fmlookup role_grants (el_role_name ?rep)) [])
          (unwrap_or (fmlookup role_dps (el_role_name ?rep)) [])"
      let ?c = "fold (commit_member pat n) ?ms s"
      note chosen = choose_patternD[OF new]
      have fields: "cs_schema_pattern ?s' = cs_schema_pattern ?c" "cs_schema_profiles ?s' = cs_schema_profiles ?c"
        "cs_clustered ?s' = cs_clustered ?c" "cs_profiles_out ?s' = fmupd n ?profile (cs_profiles_out s)" "cs_taken ?s' = finsert n (cs_taken s)"
        using False new by (simp_all add: suggest_cluster_def key Let_def commit_members)
      have els: "m \<in> els" "el_signature m = sig" "el_login m = login" "el_inherit m = inherit" if "m \<in> set ?ms" for m
        using that ms(2) assms(3) by (auto simp: key)
      have rep: "?rep \<in> set ?ms" using ms(1) by simp
      have old: "m \<in> els \<and> n' |\<in>| cs_taken ?s' \<and>
          (\<exists>pat\<in>set pattern_priority. fmlookup (cs_schema_pattern ?s') (el_schema m) = Some pat \<and> match_pattern pat (el_role_name m) (el_schema m) = Some n') \<and>
          (\<exists>rep\<in>els. el_signature rep = el_signature m \<and> fmlookup (cs_profiles_out ?s') n' = Some (build_profile (el_login m) (el_inherit m)
             (unwrap_or (fmlookup role_grants (el_role_name rep)) []) (unwrap_or (fmlookup role_dps (el_role_name rep)) [])))"
        if link: "(m, n') \<in> L" for m n'
      proof -
        from assms(1) link have here: "m \<in> els" "n' |\<in>| cs_taken s"
          "\<exists>pat\<in>set pattern_priority. fmlookup (cs_schema_pattern s) (el_schema m) = Some pat \<and> match_pattern pat (el_role_name m) (el_schema m) = Some n'"
          "\<exists>rep\<in>els. el_signature rep = el_signature m \<and> fmlookup (cs_profiles_out s) n' = Some (build_profile (el_login m) (el_inherit m)
             (unwrap_or (fmlookup role_grants (el_role_name rep)) []) (unwrap_or (fmlookup role_dps (el_role_name rep)) []))"
          by (auto simp: links_ok_def)
        have "n' \<noteq> n" using here(2) viable_nameD(1) chosen by blast
        moreover have "fmlookup (cs_schema_pattern ?c) (el_schema m) = fmlookup (cs_schema_pattern s) (el_schema m)"
        proof (cases "el_schema m \<in> el_schema ` set ?ms")
          case True
          then obtain m' where "m' \<in> set ?ms" "el_schema m' = el_schema m" by auto
          then have "fmlookup (cs_schema_pattern s) (el_schema m) \<in> {None, Some pat}" using not_blocked[of _ ?ms pat m'] chosen by metis
          then show ?thesis using here(3) True by (auto simp: commit_members)
        qed (simp add: commit_members)
        ultimately show ?thesis using here by (simp add: fields)
      qed
      have new_link: "m \<in> els \<and> n |\<in>| cs_taken ?s' \<and>
          (\<exists>pat\<in>set pattern_priority. fmlookup (cs_schema_pattern ?s') (el_schema m) = Some pat \<and> match_pattern pat (el_role_name m) (el_schema m) = Some n) \<and>
          (\<exists>rep\<in>els. el_signature rep = el_signature m \<and> fmlookup (cs_profiles_out ?s') n = Some (build_profile (el_login m) (el_inherit m)
             (unwrap_or (fmlookup role_grants (el_role_name rep)) []) (unwrap_or (fmlookup role_dps (el_role_name rep)) [])))"
        if "m \<in> set ?ms" for m
        using els[OF that] els[OF rep] rep chosen viable_nameD(2)[of input "cs_taken s" ?ms pat n m] that
        by (auto simp: fields commit_members intro!: bexI[of _ pat] bexI[of _ ?rep])
      have "links_ok els role_grants role_dps ?s' (L \<union> (\<lambda>m. (m, n)) ` set ?ms)"
        unfolding links_ok_def
      proof (intro conjI)
        show "fset (cs_clustered ?s') = (\<lambda>(m, n). el_role_name m) ` (L \<union> (\<lambda>m. (m, n)) ` set ?ms)"
          using assms(1) by (simp add: fields commit_members links_ok_def image_Un image_image)
        show "\<forall>b n'. n' \<in> set (unwrap_or (fmlookup (cs_schema_profiles ?s') b) []) \<longleftrightarrow> (\<exists>m. (m, n') \<in> L \<union> (\<lambda>m. (m, n)) ` set ?ms \<and> el_schema m = b)"
          using assms(1) by (auto simp: fields commit_members links_ok_def)
      qed (use old new_link in auto)
      then show ?thesis by blast
    qed
  qed
qed

lemma clusters_of:
  assumes "(key, members) \<in> set (cluster_roles els)"
  shows "members \<noteq> []" "m \<in> set members \<Longrightarrow> m \<in> set els \<and> key = (el_signature m, el_login m, el_inherit m)"
proof -
  let ?f = "\<lambda>el. (el_signature el, el_login el, el_inherit el)"
  let ?clusters = "fold (\<lambda>el. entry_push (?f el) el) els fmempty"
  have lookup: "fmlookup ?clusters key = Some members" using assms by (simp add: cluster_roles_def Let_def in_bt_entries_iff)
  then have "members = filter (\<lambda>el. ?f el = key) els" using fold_entry_push[of ?f "\<lambda>x. x" els fmempty key] by simp
  then show "m \<in> set members \<Longrightarrow> m \<in> set els \<and> key = ?f m" by auto
  have "fmlookup (fold (\<lambda>el. entry_push (?f el) el) xs c) k \<noteq> Some []" if "\<And>k. fmlookup c k \<noteq> Some []" for xs c k
    using that by (induction xs arbitrary: c) (auto simp: entry_push_def)
  from this[of fmempty els key] show "members \<noteq> []" using lookup by auto
qed

lemma clusters_linked:
  "\<exists>L. links_ok (set els) role_grants role_dps
     (fold (suggest_cluster input k role_grants role_dps) (cluster_roles els) (start_clusters skipped)) L"
proof -
  have "\<exists>L'. links_ok (set els) role_grants role_dps (fold (suggest_cluster input k role_grants role_dps) cs s) L'"
    if "set cs \<subseteq> set (cluster_roles els)" "\<exists>L. links_ok (set els) role_grants role_dps s L" for cs s
    using that
  proof (induction cs arbitrary: s)
    case (Cons c cs)
    obtain key members where c: "c = (key, members)" by (cases c)
    have "(key, members) \<in> set (cluster_roles els)" using Cons.prems(1) by (simp add: c)
    then have "\<exists>L'. links_ok (set els) role_grants role_dps (suggest_cluster input k role_grants role_dps c s) L'"
      using Cons.prems(2) suggest_cluster_links[of "set els" role_grants role_dps s _ members key] clusters_of by (metis c)
    then show ?case using Cons by simp
  qed simp
  moreover have "links_ok (set els) role_grants role_dps (start_clusters skipped) {}" by (simp add: links_ok_def start_clusters_def)
  ultimately show ?thesis by blast
qed

end
