(* ===== verification/SuggestRoundTrip.thy ===== *)
theory SuggestRoundTrip
  imports SuggestLaws
begin

text \<open>
  The round trip of a suggestion: the graph of an accepted candidate manifest against the graph of the original.
\<close>

section \<open>Eligible roles\<close>

lemma promoteD:
  assumes "classify_role input role_grants role_dps d = Promote m"
  shows "el_role_name m = rd_name d" "el_login m = rd_login d" "el_inherit m = rd_inherit d" "\<not> has_unique_attributes d"
    "\<forall>g\<in>set (unwrap_or (fmlookup role_grants (rd_name d)) []). g_ensure g = Present \<and> grant_schema g = Some (el_schema m)"
    "\<not> role_has_global_default_privilege input (rd_name d)" "\<not> role_has_absent_default_privilege input (rd_name d)"
    "\<forall>(owner, schema, g)\<in>set (unwrap_or (fmlookup role_dps (rd_name d)) []).
       schema = el_schema m \<and> fmlookup (schema_owners input) schema = Some (Some owner)"
    "el_signature m = compute_signature (unwrap_or (fmlookup role_grants (rd_name d)) []) (unwrap_or (fmlookup role_dps (rd_name d)) []) (el_schema m)"
    "fmlookup (schema_owners input) (el_schema m) \<noteq> None"
proof -
  let ?gs = "unwrap_or (fmlookup role_grants (rd_name d)) []" and ?ds = "unwrap_or (fmlookup role_dps (rd_name d)) []"
  let ?seen = "fset_of_list (List.map_filter grant_schema ?gs @ map (\<lambda>(_, schema, _). schema) ?ds)"
  obtain schema owner where facts: "\<not> has_unique_attributes d" "\<not> list_ex unrepresentable_grant ?gs"
      "\<not> role_has_global_default_privilege input (rd_name d)" "\<not> role_has_absent_default_privilege input (rd_name d)"
    and one: "bt_elements ?seen = [schema]" and owner: "fmlookup (schema_owners input) schema = Some owner"
      "\<not> list_ex (\<lambda>(own, _, _). Some own \<noteq> owner) ?ds"
    and m: "m = \<lparr>el_role_name = rd_name d, el_schema = schema, el_signature = compute_signature ?gs ?ds schema,
        el_login = rd_login d, el_inherit = rd_inherit d\<rparr>"
    using assms by (auto simp: classify_role_def Let_def split: if_splits list.splits option.splits)
  have seen: "set (List.map_filter grant_schema ?gs) \<union> (\<lambda>(_, schema, _). schema) ` set ?ds = {schema}"
    using arg_cong[OF one, of set] by (simp add: fset_of_list.rep_eq)
  have gs: "grant_schema g = Some schema" if "g \<in> set ?gs" for g
  proof -
    have "grant_schema g \<noteq> None" using that facts(2) by (auto simp: list_ex_iff unrepresentable_grant_def)
    then obtain s where s: "grant_schema g = Some s" by blast
    then have "s \<in> set (List.map_filter grant_schema ?gs)" using that by (force simp: List.map_filter_def)
    then show ?thesis using seen s by auto
  qed
  show "el_role_name m = rd_name d" "el_login m = rd_login d" "el_inherit m = rd_inherit d" "\<not> has_unique_attributes d"
    "\<not> role_has_global_default_privilege input (rd_name d)" "\<not> role_has_absent_default_privilege input (rd_name d)"
    "el_signature m = compute_signature ?gs ?ds (el_schema m)" "fmlookup (schema_owners input) (el_schema m) \<noteq> None"
    using facts owner by (simp_all add: m)
  show "\<forall>g\<in>set ?gs. g_ensure g = Present \<and> grant_schema g = Some (el_schema m)"
    using facts(2) gs by (auto simp: list_ex_iff unrepresentable_grant_def m) (metis ensure.exhaust)
  have "schema' = schema" if "(own, schema', g) \<in> set ?ds" for own schema' g
    using that seen by force
  then show "\<forall>(owner, schema, g)\<in>set ?ds. schema = el_schema m \<and> fmlookup (schema_owners input) schema = Some (Some owner)"
    using owner by (fastforce simp: m list_ex_iff)
qed

lemma eligible_ofD:
  assumes "m \<in> set (eligible_of (map f ds))"
  shows "\<exists>d\<in>set ds. f d = Promote m"
  using assms by (auto simp: eligible_of_def List.map_filter_def split: classification.splits)

section \<open>Instances of a signature\<close>

definition instance_grant :: "string \<Rightarrow> string \<Rightarrow> signature_grant \<Rightarrow> grant" where
  "instance_grant r s = (\<lambda>(t, n, ps).
     \<lparr>g_role = r, g_privileges = ps,
      g_object = (if t = Schema then \<lparr>ot_object_type = Schema, ot_schema = None, ot_name = Some s\<rparr>
                  else \<lparr>ot_object_type = t, ot_schema = Some s, ot_name = n\<rparr>),
      g_ensure = Present\<rparr>)"

lemma expand_profile_grant_of:
  "expand_profile_grant b n r (profile_grant_of g) = Inr (instance_grant r (sb_name b) (signature_grant_of s g))"
  by (simp add: expand_profile_grant_def profile_grant_of_def instance_grant_def signature_grant_of_def Let_def)

lemma instance_facts:
  assumes "g_role g = r" and "grant_schema g = Some s" and "ot_object_type (g_object g) = Schema \<longrightarrow> ot_schema (g_object g) = None"
  shows "grant_facts objects (instance_grant r s (signature_grant_of s g)) = grant_facts objects g"
proof -
  let ?h = "instance_grant r s (signature_grant_of s g)"
  have object: "g_object ?h = g_object g"
    using assms(2,3) by (auto simp: instance_grant_def signature_grant_of_def Let_def grant_schema_def split: object_type.splits
        intro!: object_target.equality)
  have role: "g_role ?h = g_role g" "set (g_privileges ?h) = set (g_privileges g)"
    using assms(1) by (simp_all add: instance_grant_def signature_grant_of_def Let_def)
  show ?thesis
    unfolding grant_facts_def expand_wildcard_grant_def object using role
    by (auto simp: grant_key_from_manifest_def object split: option.splits bool.splits)
qed

lemma map_r_set: "map_r f xs = Inr ys \<Longrightarrow> set ys = {y. \<exists>x\<in>set xs. f x = Inr y}"
  by (induction xs arbitrary: ys) auto

lemma map_r_all: "map_r f xs = Inr ys \<Longrightarrow> x \<in> set xs \<Longrightarrow> \<exists>y\<in>set ys. f x = Inr y"
  by (induction xs arbitrary: ys) auto

definition instance_default :: "string \<Rightarrow> signature_default \<Rightarrow> default_privilege_grant" where
  "instance_default r = (\<lambda>(t, ps). \<lparr>dpg_role = Some r, dpg_privileges = ps, dpg_on_type = t, dpg_ensure = Present\<rparr>)"

lemma expand_profile_default_of:
  "expand_profile_default n r (profile_default_of x) = Inr (instance_default r (signature_default_of x))"
  by (cases x) (simp add: expand_profile_default_def profile_default_of_def instance_default_def signature_default_of_def)

lemma expand_profile_sets:
  assumes "profile = build_profile login inherit gs ds"
  shows "map_r (expand_profile_grant b n r) (p_grants profile) = Inr xs \<Longrightarrow>
      set xs = instance_grant r (sb_name b) ` signature_grant_of s ` set gs"
    "map_r (expand_profile_default n r) (p_default_privileges profile) = Inr ys \<Longrightarrow>
      set ys = instance_default r ` signature_default_of ` set ds"
    "p_default_privileges profile = [] \<longleftrightarrow> ds = []" "p_login profile = login" "p_inherit profile = inherit" "p_config profile = fmempty"
proof -
  show "map_r (expand_profile_grant b n r) (p_grants profile) = Inr xs \<Longrightarrow>
      set xs = instance_grant r (sb_name b) ` signature_grant_of s ` set gs"
    using map_r_set by (fastforce simp: assms build_profile_def expand_profile_grant_of[where s = s])
  show "map_r (expand_profile_default n r) (p_default_privileges profile) = Inr ys \<Longrightarrow>
      set ys = instance_default r ` signature_default_of ` set ds"
    using map_r_set by (fastforce simp: assms build_profile_def expand_profile_default_of)
  show "p_default_privileges profile = [] \<longleftrightarrow> ds = []"
    by (simp add: assms build_profile_def) (metis list.map_disc_iff sort_key_simps(1) length_0_conv length_sort)
qed (simp_all add: assms build_profile_def)

section \<open>Accepted suggestions\<close>

text \<open>
  What the structure of a suggestion does not rule out by itself: a schema name that contains the placeholder of a profile, a schema
  whose owner is the empty string, and a grant on a schema that also names a schema.
\<close>

definition plain_manifest :: "policy_manifest \<Rightarrow> bool" where
  "plain_manifest m =
     (list_all (\<lambda>b. \<not> contains_str (sb_name b) ''{profile}'' \<and> sb_owner b \<noteq> Some []) (pm_schemas m) \<and>
      list_all (\<lambda>g. ot_object_type (g_object g) = Schema \<longrightarrow> ot_schema (g_object g) = None) (pm_grants m))"

text \<open>The values a run of \<open>suggest_profiles\<close> computes when its candidate passes the check.\<close>

definition accepted ::
  "policy_manifest \<Rightarrow> inventory \<Rightarrow> (string, grant list) btreemap \<Rightarrow> cluster_state \<Rightarrow> (eligible \<times> string) set \<Rightarrow>
   expanded_manifest \<Rightarrow> expanded_manifest \<Rightarrow> role_graph \<Rightarrow> role_graph \<Rightarrow> bool" where
  "accepted input objects role_grants s L e0 e1 g0 g1 \<longleftrightarrow>
     pm_profiles input = fmempty \<and> plain_manifest input \<and>
     (role_grants = suggestion_grants input None \<or> role_grants = suggestion_grants input (Some objects)) \<and>
     links_ok (set (eligible_of (map (classify_role input role_grants (bucket_defaults input)) (pm_roles input))))
       role_grants (bucket_defaults input) s L \<and>
     expand_manifest input = Inr e0 \<and> expand_manifest (candidate_manifest input s) = Inr e1 \<and>
     from_expanded (e0\<lparr>em_grants := expand_wildcards_in_place objects (em_grants e0)\<rparr>) (pm_default_owner input) = Inr g0 \<and>
     from_expanded (e1\<lparr>em_grants := expand_wildcards_in_place objects (em_grants e1)\<rparr>) (pm_default_owner input) = Inr g1 \<and>
     (\<forall>c\<in>set (diff g0 g1). is_set_comment c)"

abbreviation grants_of :: "(string, grant list) btreemap \<Rightarrow> string \<Rightarrow> grant list" where
  "grants_of role_grants r \<equiv> unwrap_or (fmlookup role_grants r) []"

abbreviation defaults_of :: "policy_manifest \<Rightarrow> string \<Rightarrow> role_default list" where
  "defaults_of input r \<equiv> unwrap_or (fmlookup (bucket_defaults input) r) []"

lemma accepted_grants:
  assumes "accepted input objects role_grants s L e0 e1 g0 g1"
  shows "facts_of objects (grants_of role_grants r) = facts_of objects (filter (\<lambda>g. g_role g = r) (pm_grants input))"
    "g \<in> set (grants_of role_grants r) \<Longrightarrow> g_role g = r \<and> (ot_object_type (g_object g) = Schema \<longrightarrow> ot_schema (g_object g) = None)"
proof -
  let ?gs = "filter (\<lambda>g. g_role g = r) (pm_grants input)"
  have plain: "\<forall>g\<in>set ?gs. g_role g = r \<and> (ot_object_type (g_object g) = Schema \<longrightarrow> ot_schema (g_object g) = None)"
    using assms by (auto simp: accepted_def plain_manifest_def list_all_iff)
  have cases: "grants_of role_grants r = ?gs \<or> grants_of role_grants r = collapse_full_coverage_grants objects ?gs"
  proof -
    have "collapse_full_coverage_grants objects [] = []" by (simp add: collapse_full_coverage_grants_def)
    then have "grants_of (fmmap (collapse_full_coverage_grants objects) (bucket_grants input)) r =
        collapse_full_coverage_grants objects (grants_of (bucket_grants input) r)" by (cases "fmlookup (bucket_grants input) r") simp_all
    then show ?thesis using assms by (auto simp: accepted_def suggestion_grants_def bucket_grants_of)
  qed
  show "facts_of objects (grants_of role_grants r) = facts_of objects ?gs"
    using cases
  proof
    assume "grants_of role_grants r = collapse_full_coverage_grants objects ?gs"
    then show ?thesis using collapse_keeps_facts(1)[of ?gs r objects] plain by metis
  qed (rule arg_cong)
  show "g \<in> set (grants_of role_grants r) \<Longrightarrow> g_role g = r \<and> (ot_object_type (g_object g) = Schema \<longrightarrow> ot_schema (g_object g) = None)"
    using cases collapse_keeps_facts(2)[of ?gs r g objects] plain by metis
qed

lemma accepted_link:
  assumes "accepted input objects role_grants s L e0 e1 g0 g1" and "(m, n) \<in> L"
  obtains d where "d \<in> set (pm_roles input)" "classify_role input role_grants (bucket_defaults input) d = Promote m"
proof -
  have "m \<in> set (eligible_of (map (classify_role input role_grants (bucket_defaults input)) (pm_roles input)))"
    using assms by (auto simp: accepted_def links_ok_def)
  then show ?thesis using eligible_ofD that by blast
qed

lemma declared_schema:
  assumes "fmlookup (schema_owners input) x = Some owner"
  shows "\<exists>b\<in>set (pm_schemas input). sb_name b = x \<and> owner = or_option (sb_owner b) (pm_default_owner input)"
  using assms by (auto simp: schema_owners_def lookup_collect_map dest!: map_of_SomeD)

section \<open>The expanded candidate\<close>

lemma accepted_binding:
  assumes "accepted input objects role_grants s L e0 e1 g0 g1"
  shows "(b, n) \<in> set (binding_pairs (candidate_manifest input s)) \<longleftrightarrow>
    (\<exists>b0\<in>set (pm_schemas input). b = bind_profiles s b0 \<and> (\<exists>m. (m, n) \<in> L \<and> el_schema m = sb_name b0))"
proof -
  have "n \<in> set (unwrap_or (fmlookup (cs_schema_profiles s) x) []) \<longleftrightarrow> (\<exists>m. (m, n) \<in> L \<and> el_schema m = x)" for x
    using assms by (simp add: accepted_def links_ok_def)
  then show ?thesis by (auto simp: binding_pairs_def candidate_manifest_def bind_profiles_def)
qed

lemma expand_link:
  assumes "accepted input objects role_grants s L e0 e1 g0 g1" and "(m, n) \<in> L" and "b0 \<in> set (pm_schemas input)"
    and "el_schema m = sb_name b0" and "expand_binding (candidate_manifest input s) (bind_profiles s b0) n = Inr (role, gs, dps)"
  shows "rd_name role = el_role_name m" "rd_login role = el_login m" "rd_inherit role = el_inherit m" "\<not> has_unique_attributes (role\<lparr>rd_comment := None\<rparr>)"
    "set gs = instance_grant (el_role_name m) (el_schema m) ` set (fst (el_signature m))"
    "\<forall>dp\<in>set dps. dp_owner dp = or_option (sb_owner b0) (pm_default_owner input) \<and> dp_schema dp = Some (el_schema m) \<and> dp_scope dp = None"
    "(\<Union>dp\<in>set dps. set (dp_grant dp)) = instance_default (el_role_name m) ` set (snd (el_signature m))"
proof -
  let ?c = "candidate_manifest input s" and ?b = "bind_profiles s b0" and ?els = "set (eligible_of (map (classify_role input role_grants (bucket_defaults input)) (pm_roles input)))"
  have links: "links_ok ?els role_grants (bucket_defaults input) s L" using assms(1) by (simp add: accepted_def)
  then obtain pat rep where pat: "pat \<in> set pattern_priority" "fmlookup (cs_schema_pattern s) (el_schema m) = Some pat"
      "match_pattern pat (el_role_name m) (el_schema m) = Some n"
    and rep: "rep \<in> ?els" "el_signature rep = el_signature m"
      "fmlookup (cs_profiles_out s) n = Some (build_profile (el_login m) (el_inherit m) (grants_of role_grants (el_role_name rep)) (defaults_of input (el_role_name rep)))"
    using assms(2) unfolding links_ok_def by blast
  obtain d where d: "classify_role input role_grants (bucket_defaults input) d = Promote rep" using eligible_ofD[OF rep(1)] by blast
  have sig: "el_signature m = compute_signature (grants_of role_grants (el_role_name rep)) (defaults_of input (el_role_name rep)) (el_schema rep)"
    using promoteD(1,9)[OF d] rep(2) by simp
  define profile where "profile = build_profile (el_login m) (el_inherit m) (grants_of role_grants (el_role_name rep)) (defaults_of input (el_role_name rep))"
  note sets = expand_profile_sets[OF profile_def]
  have plain: "\<not> contains_str (el_schema m) ''{profile}''"
    using assms(1,3,4) by (auto simp: accepted_def plain_manifest_def list_all_iff)
  have "role_pattern_of ?c ?b = pat" using pat(2) assms(4) by (simp add: role_pattern_of_def bind_profiles_def)
  then have name: "replace_str (replace_str (role_pattern_of ?c ?b) ''{schema}'' (el_schema m)) ''{profile}'' n = el_role_name m"
    using match_pattern_expands[OF pat(3,1) plain] by simp
  have lookup: "fmlookup (pm_profiles ?c) n = Some profile" using rep(3) by (simp add: candidate_manifest_def profile_def)
  have b: "sb_name ?b = el_schema m" "sb_owner ?b = sb_owner b0" "pm_default_owner ?c = pm_default_owner input"
    using assms(4) by (simp_all add: bind_profiles_def candidate_manifest_def)
  from assms(5) have role: "role = expanded_role ?b n profile (el_role_name m)"
    and grants: "map_r (expand_profile_grant ?b n (el_role_name m)) (p_grants profile) = Inr gs"
    and dps: "if p_default_privileges profile = [] then dps = []
        else \<exists>xs. map_r (expand_profile_default n (el_role_name m)) (p_default_privileges profile) = Inr xs \<and>
          dps = [\<lparr>dp_owner = or_option (sb_owner b0) (pm_default_owner input), dp_schema = Some (el_schema m), dp_scope = None, dp_grant = xs\<rparr>]"
    by (auto simp: expand_binding_def lookup name Let_def b split: if_splits)
  show "rd_name role = el_role_name m" "rd_login role = el_login m" "rd_inherit role = el_inherit m" "\<not> has_unique_attributes (role\<lparr>rd_comment := None\<rparr>)"
    by (simp_all add: role expanded_role_def sets has_unique_attributes_def)
  show "set gs = instance_grant (el_role_name m) (el_schema m) ` set (fst (el_signature m))"
    using sets(1)[OF grants] by (simp add: sig set_compute_signature b)
  show "\<forall>dp\<in>set dps. dp_owner dp = or_option (sb_owner b0) (pm_default_owner input) \<and> dp_schema dp = Some (el_schema m) \<and> dp_scope dp = None"
    using dps by (auto split: if_splits)
  show "(\<Union>dp\<in>set dps. set (dp_grant dp)) = instance_default (el_role_name m) ` set (snd (el_signature m))"
  proof (cases "p_default_privileges profile = []")
    case True
    then show ?thesis using dps sets(3) by (simp add: sig set_compute_signature)
  next
    case False
    then show ?thesis using dps sets(2) by (auto simp: sig set_compute_signature)
  qed
qed

lemma accepted_expansions:
  assumes "accepted input objects role_grants s L e0 e1 g0 g1"
  obtains xs where "e1 = assemble_expansion (candidate_manifest input s) xs"
    "\<forall>x\<in>set xs. \<exists>m n b0. (m, n) \<in> L \<and> b0 \<in> set (pm_schemas input) \<and> el_schema m = sb_name b0 \<and>
       expand_binding (candidate_manifest input s) (bind_profiles s b0) n = Inr x"
    "\<forall>(m, n)\<in>L. \<exists>b0 x. b0 \<in> set (pm_schemas input) \<and> el_schema m = sb_name b0 \<and> x \<in> set xs \<and>
       expand_binding (candidate_manifest input s) (bind_profiles s b0) n = Inr x"
proof -
  let ?c = "candidate_manifest input s"
  have "expand_manifest ?c = Inr e1" using assms by (simp add: accepted_def)
  then obtain xs where xs: "map_r (\<lambda>(b, p). expand_binding ?c b p) (binding_pairs ?c) = Inr xs" "e1 = assemble_expansion ?c xs"
    using expand_manifest_InrD(7) by blast
  have set: "set xs = {x. \<exists>p\<in>set (binding_pairs ?c). expand_binding ?c (fst p) (snd p) = Inr x}"
    using map_r_set[OF xs(1)] by (simp add: case_prod_unfold)
  have total: "\<exists>x\<in>set xs. expand_binding ?c b n = Inr x" if "(b, n) \<in> set (binding_pairs ?c)" for b n
    using map_r_all[OF xs(1) that] by simp
  show ?thesis
  proof (rule that[OF xs(2)]; safe?)
    fix x assume "x \<in> set xs"
    then show "\<exists>m n b0. (m, n) \<in> L \<and> b0 \<in> set (pm_schemas input) \<and> el_schema m = sb_name b0 \<and> expand_binding ?c (bind_profiles s b0) n = Inr x"
      unfolding set using accepted_binding[OF assms] by fastforce
  next
    fix m n assume link: "(m, n) \<in> L"
    obtain d where "classify_role input role_grants (bucket_defaults input) d = Promote m" by (rule accepted_link[OF assms link])
    then obtain b0 where b0: "b0 \<in> set (pm_schemas input)" "sb_name b0 = el_schema m"
      using promoteD(10) declared_schema by blast
    then have "(bind_profiles s b0, n) \<in> set (binding_pairs ?c)" using accepted_binding[OF assms] link by fastforce
    then show "\<exists>b0 x. b0 \<in> set (pm_schemas input) \<and> el_schema m = sb_name b0 \<and> x \<in> set xs \<and> expand_binding ?c (bind_profiles s b0) n = Inr x"
      using total b0 by metis
  qed
qed

section \<open>The two graphs\<close>

lemma accepted_original:
  assumes "accepted input objects role_grants s L e0 e1 g0 g1"
  shows "e0 = assemble_expansion input []"
proof -
  obtain xs where xs: "map_r (\<lambda>(b, p). expand_binding input b p) (binding_pairs input) = Inr xs" "e0 = assemble_expansion input xs"
    using assms expand_manifest_InrD(7)[of input e0] by (auto simp: accepted_def)
  have "expand_binding input b p \<noteq> Inr x" for b p x using assms by (simp add: expand_binding_def accepted_def)
  then have "set xs = {}" unfolding map_r_set[OF xs(1)] by (auto split: prod.splits)
  then have "xs = []" by simp
  then show ?thesis using xs(2) by simp
qed

lemma graph_grants:
  assumes "from_expanded (e\<lparr>em_grants := expand_wildcards_in_place objects (em_grants e)\<rparr>) owner = Inr g"
  shows "held_grant g k = {p. \<exists>x\<in>set (em_grants e). g_ensure x = Present \<and> (k, p) \<in> grant_facts objects x}"
    "absent_grant g k = {p. \<exists>x\<in>set (em_grants e). g_ensure x = Absent \<and> (k, p) \<in> grant_facts objects x}"
  using from_expanded_exact(3,4)[OF assms, of k] expanded_fields[of _ objects]
  by (fastforce simp: expand_wildcards_in_place_def grant_facts_def)+

lemma facts_role: "(k, p) \<in> grant_facts objects x \<Longrightarrow> gk_role k = grantee_parse (g_role x)"
  using expanded_fields by (fastforce simp: grant_facts_def grant_key_from_manifest_def)

lemma facts_overlap:
  assumes "(k, p) \<in> grant_facts objects x" and "(k, p) \<in> grant_facts objects y"
  shows "targets_overlap x y \<and> p \<in> set (g_privileges x) \<and> p \<in> set (g_privileges y)"
proof -
  obtain x' y' where x': "x' \<in> set (expand_wildcard_grant objects x)" "k = grant_key_from_manifest x'" "p \<in> set (g_privileges x')"
    and y': "y' \<in> set (expand_wildcard_grant objects y)" "k = grant_key_from_manifest y'" "p \<in> set (g_privileges y')"
    using assms by (auto simp: grant_facts_def)
  have named: "x' = x \<or> ot_schema (g_object x) \<noteq> None \<and> ot_name (g_object x) = Some ''*'' \<and> ot_name (g_object x') \<noteq> None"
    if "x' \<in> set (expand_wildcard_grant objects x)" for x x'
    using that by (auto simp: expand_wildcard_grant_def split: option.splits bool.splits)
  have "g_role x = g_role y" using x'(2) y'(2) expanded_fields[OF x'(1)] expanded_fields[OF y'(1)]
    by (simp add: grant_key_from_manifest_def grantee_parse_inject)
  moreover have "ot_object_type (g_object x) = ot_object_type (g_object y)" "ot_schema (g_object x) = ot_schema (g_object y)"
    using x'(2) y'(2) expanded_fields[OF x'(1)] expanded_fields[OF y'(1)] by (auto simp: grant_key_from_manifest_def)
  moreover have "names_overlap (g_object x) (g_object y)"
  proof -
    have "ot_name (g_object x') = ot_name (g_object y')" using x'(2) y'(2) by (auto simp: grant_key_from_manifest_def)
    then show ?thesis using named[OF x'(1)] named[OF y'(1)] calculation(3)
      by (elim disjE conjE) (simp_all add: names_overlap_def)
  qed
  ultimately show ?thesis using x'(3) y'(3) expanded_fields[OF x'(1)] expanded_fields[OF y'(1)] by (simp add: targets_overlap_def)
qed

lemma accepted_no_additions:
  assumes "accepted input objects role_grants s L e0 e1 g0 g1"
  shows "held_grant g1 k \<subseteq> held_grant g0 k"
proof -
  have aliases: "rg_routine_aliases g0 = fmempty" using assms from_expanded_exact(9) by (auto simp: accepted_def)
  have comments: "\<forall>c\<in>set (diff g0 g1). is_set_comment c" using assms by (simp add: accepted_def)
  have no_grant: "\<not> is_set_comment (change_grant k' ps)" for k' ps by (simp add: is_set_comment_def change_grant_def)
  have "diff_grants_added g0 g1 = []"
  proof (intro Nil_eqI notI)
    fix x assume x: "x \<in> set (diff_grants_added g0 g1)"
    then have "is_set_comment x" using comments by (simp add: diff_def aliases resolve_routine_aliases_def diff_resolved_phases)
    moreover obtain k' ps where "x = change_grant k' ps" using bspec[OF grants_are_additions x] by (elim exE) (rule that)
    ultimately show False using no_grant by simp
  qed
  then show ?thesis using grants_added_privileges[of g0 g1 k] by (simp add: grant_changes.added_def)
qed

lemma accepted_candidate_grants:
  assumes "accepted input objects role_grants s L e0 e1 g0 g1"
  shows "x \<in> set (em_grants e1) \<longleftrightarrow>
    (\<exists>m n. (m, n) \<in> L \<and> x \<in> instance_grant (el_role_name m) (el_schema m) ` set (fst (el_signature m))) \<or>
    x \<in> set (pm_grants input) \<and> g_role x |\<notin>| cs_clustered s"
proof -
  obtain xs where xs: "e1 = assemble_expansion (candidate_manifest input s) xs"
    and from_xs: "\<forall>x\<in>set xs. \<exists>m n b0. (m, n) \<in> L \<and> b0 \<in> set (pm_schemas input) \<and> el_schema m = sb_name b0 \<and>
       expand_binding (candidate_manifest input s) (bind_profiles s b0) n = Inr x"
    and to_xs: "\<forall>(m, n)\<in>L. \<exists>b0 x. b0 \<in> set (pm_schemas input) \<and> el_schema m = sb_name b0 \<and> x \<in> set xs \<and>
       expand_binding (candidate_manifest input s) (bind_profiles s b0) n = Inr x"
    by (rule accepted_expansions[OF assms])
  have "(\<exists>y\<in>set xs. x \<in> set (fst (snd y))) \<longleftrightarrow>
      (\<exists>m n. (m, n) \<in> L \<and> x \<in> instance_grant (el_role_name m) (el_schema m) ` set (fst (el_signature m)))"
  proof
    assume "\<exists>y\<in>set xs. x \<in> set (fst (snd y))"
    then obtain role gs dps where y: "(role, gs, dps) \<in> set xs" "x \<in> set gs" by auto
    then show "\<exists>m n. (m, n) \<in> L \<and> x \<in> instance_grant (el_role_name m) (el_schema m) ` set (fst (el_signature m))"
      using bspec[OF from_xs y(1)] expand_link(5)[OF assms] by metis
  next
    assume "\<exists>m n. (m, n) \<in> L \<and> x \<in> instance_grant (el_role_name m) (el_schema m) ` set (fst (el_signature m))"
    then obtain m n where link: "(m, n) \<in> L" and x: "x \<in> instance_grant (el_role_name m) (el_schema m) ` set (fst (el_signature m))" by blast
    obtain b0 y where y: "b0 \<in> set (pm_schemas input)" "el_schema m = sb_name b0" "y \<in> set xs"
      "expand_binding (candidate_manifest input s) (bind_profiles s b0) n = Inr y" using to_xs link by blast
    obtain role gs dps where parts: "y = (role, gs, dps)" by (cases y)
    have "x \<in> set gs" using expand_link(5)[OF assms link y(1,2), of role gs dps] y(4) x parts by simp
    then show "\<exists>y\<in>set xs. x \<in> set (fst (snd y))" using y(3) parts by (intro bexI[of _ y]) simp_all
  qed
  then show ?thesis by (auto simp: xs assemble_expansion_def candidate_manifest_def)
qed

text \<open>Privileges and asserted absences.\<close>

lemma accepted_same_grants:
  assumes "accepted input objects role_grants s L e0 e1 g0 g1"
  shows "held_grant g1 k = held_grant g0 k \<and> absent_grant g1 k = absent_grant g0 k"
proof -
  have e0: "em_grants e0 = pm_grants input" using accepted_original[OF assms] by (simp add: assemble_expansion_def)
  have graphs: "from_expanded (e0\<lparr>em_grants := expand_wildcards_in_place objects (em_grants e0)\<rparr>) (pm_default_owner input) = Inr g0"
    "from_expanded (e1\<lparr>em_grants := expand_wildcards_in_place objects (em_grants e1)\<rparr>) (pm_default_owner input) = Inr g1"
    using assms by (simp_all add: accepted_def)
  note fields0 = graph_grants[OF graphs(1), of k, unfolded e0] and fields1 = graph_grants[OF graphs(2), of k]
  note e1 = accepted_candidate_grants[OF assms]
  have clustered: "fset (cs_clustered s) = (\<lambda>(m, n). el_role_name m) ` L" using assms by (simp add: accepted_def links_ok_def)
  have link: "(\<Union>x\<in>instance_grant (el_role_name m) (el_schema m) ` set (fst (el_signature m)). grant_facts objects x) =
      facts_of objects (filter (\<lambda>g. g_role g = el_role_name m) (pm_grants input))" if l: "(m, n) \<in> L" for m n
  proof -
    obtain d where d: "classify_role input role_grants (bucket_defaults input) d = Promote m" by (rule accepted_link[OF assms l])
    note promoted = promoteD[OF d] and own = accepted_grants(2)[OF assms]
    have "grant_facts objects (instance_grant (el_role_name m) (el_schema m) (signature_grant_of (el_schema m) g)) = grant_facts objects g"
      if "g \<in> set (grants_of role_grants (el_role_name m))" for g
      using own[OF that] promoted(1,5) that by (intro instance_facts) auto
    then have "(\<Union>x\<in>instance_grant (el_role_name m) (el_schema m) ` set (fst (el_signature m)). grant_facts objects x) =
        facts_of objects (grants_of role_grants (el_role_name m))"
      using promoted(1,9) by (simp add: set_compute_signature facts_of_def)
    then show ?thesis using accepted_grants(1)[OF assms] by simp
  qed
  show ?thesis
  proof (cases "\<exists>r. r |\<in>| cs_clustered s \<and> gk_role k = grantee_parse r")
    case True
    then obtain r where r: "r |\<in>| cs_clustered s" "gk_role k = grantee_parse r" by blast
    have other: "(k, p) \<in> grant_facts objects x \<Longrightarrow> g_role x = r" for x p using facts_role r(2) by (metis grantee_parse_inject)
    let ?facts = "{p. (k, p) \<in> facts_of objects (filter (\<lambda>g. g_role g = r) (pm_grants input))}"
    have inst: "g_role x = el_role_name m \<and> g_ensure x = Present"
      if "x \<in> instance_grant (el_role_name m) (el_schema m) ` set (fst (el_signature m))" for x m
      using that by (auto simp: instance_grant_def)
    obtain m0 n0 where m0: "(m0, n0) \<in> L" "el_role_name m0 = r" using r(1) clustered by force
    have g1: "held_grant g1 k = ?facts"
    proof (intro set_eqI iffI)
      fix p assume "p \<in> held_grant g1 k"
      then obtain x where x: "x \<in> set (em_grants e1)" "(k, p) \<in> grant_facts objects x" unfolding fields1 by blast
      then have "g_role x = r" using other by blast
      then obtain m n where l: "(m, n) \<in> L" and i: "x \<in> instance_grant (el_role_name m) (el_schema m) ` set (fst (el_signature m))"
        using x(1) r(1) unfolding e1 by auto
      then show "p \<in> ?facts" using link[OF l] x(2) inst[OF i] \<open>g_role x = r\<close> by auto
    next
      fix p assume "p \<in> ?facts"
      then have "(k, p) \<in> (\<Union>x\<in>instance_grant (el_role_name m0) (el_schema m0) ` set (fst (el_signature m0)). grant_facts objects x)"
        unfolding link[OF m0(1)] by (simp add: m0(2))
      then obtain x where "x \<in> instance_grant (el_role_name m0) (el_schema m0) ` set (fst (el_signature m0))" "(k, p) \<in> grant_facts objects x" by blast
      then show "p \<in> held_grant g1 k" unfolding fields1 using e1 m0(1) inst by blast
    qed
    have "absent_grant g1 k = {}"
    proof -
      have "g_ensure x = Present" if "x \<in> set (em_grants e1)" "(k, p) \<in> grant_facts objects x" for x p
        using that(1) other[OF that(2)] r(1) inst unfolding e1 by auto
      then show ?thesis unfolding fields1 by fastforce
    qed
    moreover have "held_grant g0 k \<union> absent_grant g0 k = ?facts"
    proof -
      have "g_ensure x = Present \<or> g_ensure x = Absent" for x :: grant by (cases "g_ensure x") auto
      then show ?thesis unfolding fields0 facts_of_def using other by fastforce
    qed
    moreover have "held_grant g0 k \<inter> absent_grant g0 k = {}"
    proof -
      have "ensure_consistent (pm_grants input)"
        using validate_ensure_conflicts_grants[OF expansion_checks(3)[of input e0]] assms by (simp add: accepted_def e0)
      then have agree: "g_ensure x = g_ensure y" if "x \<in> set (pm_grants input)" "y \<in> set (pm_grants input)" "(k, p) \<in> grant_facts objects x"
          "(k, p) \<in> grant_facts objects y" for x y p
        using facts_overlap[OF that(3,4)] that(1,2) unfolding ensure_consistent_def by (metis disjoint_iff)
      have False if both: "p \<in> held_grant g0 k" "p \<in> absent_grant g0 k" for p
      proof -
        obtain x where x: "x \<in> set (pm_grants input)" "g_ensure x = Present" "(k, p) \<in> grant_facts objects x" using both(1) unfolding fields0 by blast
        obtain y where y: "y \<in> set (pm_grants input)" "g_ensure y = Absent" "(k, p) \<in> grant_facts objects y" using both(2) unfolding fields0 by blast
        show False using agree[OF x(1) y(1) x(3) y(3)] x(2) y(2) by simp
      qed
      then show ?thesis by blast
    qed
    ultimately show ?thesis using accepted_no_additions[OF assms, of k] g1 by blast
  next
    case False
    have kept: "x \<in> set (em_grants e1) \<longleftrightarrow> x \<in> set (pm_grants input)" if "(k, p) \<in> grant_facts objects x" for x p
    proof -
      have role: "g_role x |\<notin>| cs_clustered s" using False facts_role[OF that] by blast
      have "\<not> (\<exists>m n. (m, n) \<in> L \<and> x \<in> instance_grant (el_role_name m) (el_schema m) ` set (fst (el_signature m)))"
        using role clustered by (force simp: instance_grant_def)
      then show ?thesis using role unfolding e1 by blast
    qed
    then show ?thesis unfolding fields0 fields1 by blast
  qed
qed

text \<open>Roles, up to their comments, and schemas.\<close>

abbreviation no_comment :: "role_state \<Rightarrow> role_state" where
  "no_comment st \<equiv> st\<lparr>rs_comment := None\<rparr>"

lemma bt_keys_Nil: "bt_keys m = [] \<longleftrightarrow> m = fmempty"
proof
  assume "bt_keys m = []"
  then have "\<not> contains_key m k" for k using set_bt_keys[of k m] by simp
  then show "m = fmempty" by (intro fmap_ext) (simp add: contains_key_def)
qed simp

lemma same_role_state:
  assumes "\<not> has_unique_attributes d" and "\<not> has_unique_attributes (d'\<lparr>rd_comment := None\<rparr>)"
    and "rd_login d = rd_login d'" and "rd_inherit d = rd_inherit d'"
  shows "no_comment (from_definition d) = no_comment (from_definition d')"
  using assms by (simp add: has_unique_attributes_def from_definition_def bt_keys_Nil)

lemma role_lookup:
  assumes "expand_manifest m = Inr e" and "from_expanded (e\<lparr>em_grants := gs\<rparr>) owner = Inr g"
  shows "fmlookup (rg_roles g) r = Some st \<longleftrightarrow> (\<exists>d\<in>set (em_roles e). rd_name d = r \<and> st = from_definition d)"
proof -
  have "distinct (map fst (map (\<lambda>d. (rd_name d, from_definition d)) (em_roles e)))"
    using expansion_checks(4)[OF assms(1)] by (simp add: comp_def)
  then show ?thesis
    unfolding from_expanded_exact(1)[OF assms(2)] by (auto simp: lookup_collect_map_distinct map_of_eq_Some_iff)
qed

lemma accepted_same_roles:
  assumes "accepted input objects role_grants s L e0 e1 g0 g1"
  shows "map_option no_comment (fmlookup (rg_roles g1) r) = map_option no_comment (fmlookup (rg_roles g0) r)"
proof -
  have e0: "em_roles e0 = pm_roles input" using accepted_original[OF assms] by (simp add: assemble_expansion_def)
  have "expand_manifest input = Inr e0" "expand_manifest (candidate_manifest input s) = Inr e1" using assms by (simp_all add: accepted_def)
  note lookups = role_lookup[OF this(1)] role_lookup[OF this(2)]
  have g0: "fmlookup (rg_roles g0) r = Some st \<longleftrightarrow> (\<exists>d\<in>set (pm_roles input). rd_name d = r \<and> st = from_definition d)" for r st
    using lookups(1) assms by (auto simp: accepted_def e0)
  have g1: "fmlookup (rg_roles g1) r = Some st \<longleftrightarrow> (\<exists>d\<in>set (em_roles e1). rd_name d = r \<and> st = from_definition d)" for r st
    using lookups(2) assms by (auto simp: accepted_def)
  obtain xs where xs: "e1 = assemble_expansion (candidate_manifest input s) xs"
    and from_xs: "\<forall>x\<in>set xs. \<exists>m n b0. (m, n) \<in> L \<and> b0 \<in> set (pm_schemas input) \<and> el_schema m = sb_name b0 \<and>
       expand_binding (candidate_manifest input s) (bind_profiles s b0) n = Inr x"
    and to_xs: "\<forall>(m, n)\<in>L. \<exists>b0 x. b0 \<in> set (pm_schemas input) \<and> el_schema m = sb_name b0 \<and> x \<in> set xs \<and>
       expand_binding (candidate_manifest input s) (bind_profiles s b0) n = Inr x"
    by (rule accepted_expansions[OF assms])
  have roles: "em_roles e1 = map fst xs @ filter (\<lambda>d. rd_name d |\<notin>| cs_clustered s) (pm_roles input)"
    by (simp add: xs assemble_expansion_def candidate_manifest_def)
  have clustered: "fset (cs_clustered s) = (\<lambda>(m, n). el_role_name m) ` L" using assms by (simp add: accepted_def links_ok_def)
  show ?thesis
  proof (cases "r |\<in>| cs_clustered s")
    case True
    then obtain m n where link: "(m, n) \<in> L" "el_role_name m = r" using clustered by force
    obtain d where d: "d \<in> set (pm_roles input)" "classify_role input role_grants (bucket_defaults input) d = Promote m"
      by (rule accepted_link[OF assms link(1)])
    obtain b0 role gs dps where b0: "b0 \<in> set (pm_schemas input)" "el_schema m = sb_name b0" and x: "(role, gs, dps) \<in> set xs"
      and expand: "expand_binding (candidate_manifest input s) (bind_profiles s b0) n = Inr (role, gs, dps)"
      using bspec[OF to_xs link(1)] by auto
    note role = expand_link[OF assms link(1) b0 expand] and old = promoteD[OF d(2)]
    have "role \<in> set (em_roles e1)" using x unfolding roles by force
    then have "fmlookup (rg_roles g1) r = Some (from_definition role)" using g1 role(1) link(2) by blast
    moreover have "fmlookup (rg_roles g0) r = Some (from_definition d)" using g0 d(1) old(1) link(2) by auto
    moreover have "no_comment (from_definition d) = no_comment (from_definition role)"
      using same_role_state[OF old(4) role(4)] role(2,3) old(2,3) by simp
    ultimately show ?thesis by simp
  next
    case False
    have "rd_name (fst x) \<noteq> r" if mem: "x \<in> set xs" for x
    proof -
      obtain role gs dps where x: "x = (role, gs, dps)" by (cases x)
      obtain m n b0 where "(m, n) \<in> L" "b0 \<in> set (pm_schemas input)" "el_schema m = sb_name b0"
        "expand_binding (candidate_manifest input s) (bind_profiles s b0) n = Inr (role, gs, dps)"
        using bspec[OF from_xs mem] by (auto simp: x)
      then show ?thesis using expand_link(1)[OF assms] False clustered by (force simp: x)
    qed
    then have "fmlookup (rg_roles g1) r = Some st \<longleftrightarrow> fmlookup (rg_roles g0) r = Some st" for st
      using False unfolding g0 g1 roles by auto
    then show ?thesis by (metis option.exhaust)
  qed
qed

lemma accepted_same_schemas:
  assumes "accepted input objects role_grants s L e0 e1 g0 g1"
  shows "rg_schemas g1 = rg_schemas g0"
proof -
  have ok: "expand_manifest input = Inr e0" "expand_manifest (candidate_manifest input s) = Inr e1" using assms by (simp_all add: accepted_def)
  obtain xs where e1: "e1 = assemble_expansion (candidate_manifest input s) xs" using expand_manifest_InrD(7)[OF ok(2)] by blast
  have schema: "expand_schema (candidate_manifest input s) (bind_profiles s b) = expand_schema input b" for b
    by (simp add: expand_schema_def bind_profiles_def candidate_manifest_def)
  let ?f = "\<lambda>x. (es_name x, schema_state_of x)"
  have sets: "set (map ?f (em_schemas e1)) = set (map ?f (em_schemas e0))"
    using accepted_original[OF assms] by (simp add: e1 assemble_expansion_def candidate_manifest_def image_image schema[unfolded candidate_manifest_def])
  have distinct: "distinct (map fst (map ?f (em_schemas e0)))" "distinct (map fst (map ?f (em_schemas e1)))"
    using expand_manifest_InrD(4)[OF ok(1)] expand_manifest_InrD(4)[OF ok(2)] accepted_original[OF assms]
    by (simp_all add: e1 assemble_expansion_def comp_def expand_schema_def)
  have "rg_schemas g0 = collect_map (map ?f (em_schemas e0))" "rg_schemas g1 = collect_map (map ?f (em_schemas e1))"
    using assms from_expanded_exact(2)[of "e0\<lparr>em_grants := expand_wildcards_in_place objects (em_grants e0)\<rparr>"]
      from_expanded_exact(2)[of "e1\<lparr>em_grants := expand_wildcards_in_place objects (em_grants e1)\<rparr>"] by (auto simp: accepted_def)
  then show ?thesis
    using map_of_inject_set[THEN iffD2, OF distinct(2,1) sets] by (intro fmap_ext) (simp add: lookup_collect_map_distinct[OF distinct(1)] lookup_collect_map_distinct[OF distinct(2)])
qed

text \<open>Default privileges.\<close>

lemma resolved_scope_owner: "resolved_scope (dp\<lparr>dp_owner := w\<rparr>) = Inr sc \<longleftrightarrow> resolved_scope dp = Inr sc"
  by (auto simp: resolved_scope_def split: option.splits default_privilege_scope_type.splits)

lemma sourced_normalize:
  assumes "pm_default_owner m = owner"
  shows "sourced owner (map (normalize_owner m) dps) e k p \<longleftrightarrow> sourced owner dps e k p"
proof -
  have "default_priv_owner owner (normalize_owner m dp) = default_priv_owner owner dp" for dp
    using assms by (cases owner) (simp_all add: default_priv_owner_def normalize_owner_def)
  moreover have "resolved_scope (normalize_owner m dp) = Inr sc \<longleftrightarrow> resolved_scope dp = Inr sc" for dp sc
    by (simp add: normalize_owner_def resolved_scope_owner)
  moreover have "dp_grant (normalize_owner m dp) = dp_grant dp" for dp by (simp add: normalize_owner_def)
  ultimately show ?thesis unfolding sourced_def by simp
qed

lemma sourced_append: "sourced owner (xs @ ys) e k p \<longleftrightarrow> sourced owner xs e k p \<or> sourced owner ys e k p"
  unfolding sourced_def set_append bex_Un ..

lemma sourced_concat: "sourced owner (concat xss) e k p \<longleftrightarrow> (\<exists>xs\<in>set xss. sourced owner xs e k p)"
  by (induction xss) (simp add: sourced_def, simp add: sourced_append)

lemma sourced_kept:
  "sourced owner (List.map_filter (keep_default cl) dps) e k p \<longleftrightarrow>
     (\<exists>dp\<in>set dps. \<exists>g\<in>set (dp_grant dp). \<exists>scope role. resolved_scope dp = Inr scope \<and> dpg_role g = Some role \<and> role |\<notin>| cl \<and>
        dpg_ensure g = e \<and> p \<in> set (dpg_privileges g) \<and>
        k = default_key (default_priv_owner owner dp) scope (dpg_on_type g) (grantee_parse role))"
    (is "?kept \<longleftrightarrow> ?own")
proof
  have scope: "resolved_scope (dp\<lparr>dp_grant := gs\<rparr>) = Inr sc \<longleftrightarrow> resolved_scope dp = Inr sc" for dp gs sc
    by (auto simp: resolved_scope_def owner_context_def split: option.splits default_privilege_scope_type.splits)
  have owner: "default_priv_owner owner (dp\<lparr>dp_grant := gs\<rparr>) = default_priv_owner owner dp" for dp gs by (simp add: default_priv_owner_def)
  show ?own if ?kept
    using that unfolding sourced_def by (fastforce simp: List.map_filter_def keep_default_def Let_def scope owner split: if_splits)
  show ?kept if ?own
  proof -
    obtain dp g sc role where dp: "dp \<in> set dps" "g \<in> set (dp_grant dp)" "resolved_scope dp = Inr sc" "dpg_role g = Some role" "role |\<notin>| cl"
        "dpg_ensure g = e" "p \<in> set (dpg_privileges g)" "k = default_key (default_priv_owner owner dp) sc (dpg_on_type g) (grantee_parse role)"
      using \<open>?own\<close> by (elim bexE exE conjE) (rule that)
    let ?gs = "filter (\<lambda>g. case dpg_role g of Some r \<Rightarrow> r |\<notin>| cl | None \<Rightarrow> True) (dp_grant dp)"
    have g: "g \<in> set ?gs" using dp(2,4,5) by simp
    then have "?gs \<noteq> []" by (metis list.distinct(1) list.set_cases)
    then have "keep_default cl dp = Some (dp\<lparr>dp_grant := ?gs\<rparr>)" unfolding keep_default_def Let_def by (simp only: if_False)
    then have mem: "dp\<lparr>dp_grant := ?gs\<rparr> \<in> set (List.map_filter (keep_default cl) dps)"
      using dp(1) by (force simp: List.map_filter_def)
    show ?thesis unfolding sourced_def
      by (rule bexI[OF _ mem], rule bexI[of _ g]) (use g dp scope owner in auto)
  qed
qed

text \<open>The default privileges of one role, as the suggestion collects them.\<close>

definition role_sourced :: "policy_manifest \<Rightarrow> string \<Rightarrow> default_priv_key \<Rightarrow> privilege \<Rightarrow> bool" where
  "role_sourced input r k p \<longleftrightarrow> (\<exists>(owner, schema, g)\<in>set (defaults_of input r).
     p \<in> set (dpg_privileges g) \<and> k = default_key owner (SchemaScope schema) (dpg_on_type g) (grantee_parse r))"

lemma role_sourced_original:
  assumes "accepted input objects role_grants s L e0 e1 g0 g1" and "(m, n) \<in> L" and "dk_grantee k = grantee_parse (el_role_name m)"
  shows "sourced (pm_default_owner input) (pm_default_privileges input) e k p \<longleftrightarrow> e = Present \<and> role_sourced input (el_role_name m) k p"
proof -
  let ?owner = "pm_default_owner input" and ?r = "el_role_name m"
  obtain d where d: "classify_role input role_grants (bucket_defaults input) d = Promote m" by (rule accepted_link[OF assms(1,2)])
  note promoted = promoteD[OF d]
  have default: "g \<in> set (dp_grant dp) \<Longrightarrow> dpg_role g = Some ?r \<Longrightarrow> dp \<in> set (pm_default_privileges input) \<Longrightarrow> resolved_scope dp = Inr sc \<Longrightarrow>
      dpg_ensure g = Present \<and> (\<exists>x. sc = SchemaScope x \<and>
        (default_priv_owner ?owner dp, x, g) \<in> set (defaults_of input ?r) \<and> unwrap_or (or_option (dp_owner dp) ?owner) [] = default_priv_owner ?owner dp)" for dp g sc
  proof -
    assume g: "g \<in> set (dp_grant dp)" "dpg_role g = Some ?r" "dp \<in> set (pm_default_privileges input)" "resolved_scope dp = Inr sc"
    have "dpg_ensure g = Present" using promoted(1,7) g(1-3) by (cases "dpg_ensure g") (auto simp: role_has_absent_default_privilege_def list_ex_iff)
    moreover obtain x where x: "sc = SchemaScope x"
      using promoted(1,6) g by (cases sc) (auto simp: role_has_global_default_privilege_def list_ex_iff)
    let ?own = "unwrap_or (or_option (dp_owner dp) ?owner) []"
    have mem: "(?own, x, g) \<in> set (defaults_of input ?r)" unfolding bucket_defaults_of using g x by blast
    then have "fmlookup (schema_owners input) x = Some (Some ?own)" using promoted(1,8) by auto
    then obtain b where b: "b \<in> set (pm_schemas input)" "Some ?own = or_option (sb_owner b) ?owner" using declared_schema by blast
    have "sb_owner b \<noteq> Some []" using assms(1) b(1) by (auto simp: accepted_def plain_manifest_def list_all_iff)
    then have "or_option (dp_owner dp) ?owner \<noteq> None" using b(2) by (cases "dp_owner dp"; cases ?owner; cases "sb_owner b") auto
    then have "?own = default_priv_owner ?owner dp" by (auto simp: default_priv_owner_def)
    ultimately show ?thesis using x mem by auto
  qed
  show ?thesis
  proof
    assume "sourced ?owner (pm_default_privileges input) e k p"
    then obtain dp g sc role where src: "dp \<in> set (pm_default_privileges input)" "g \<in> set (dp_grant dp)" "resolved_scope dp = Inr sc"
        "dpg_role g = Some role" "dpg_ensure g = e" "p \<in> set (dpg_privileges g)"
        "k = default_key (default_priv_owner ?owner dp) sc (dpg_on_type g) (grantee_parse role)" unfolding sourced_def by blast
    have "role = ?r" using src(7) assms(3) by simp
    then show "e = Present \<and> role_sourced input ?r k p"
      using default[of g dp sc] src by (fastforce simp: role_sourced_def)
  next
    assume rs: "e = Present \<and> role_sourced input ?r k p"
    then obtain dp sc g where dp: "dp \<in> set (pm_default_privileges input)" "resolved_scope dp = Inr (SchemaScope sc)" "g \<in> set (dp_grant dp)"
        "dpg_role g = Some ?r" "p \<in> set (dpg_privileges g)"
        "k = default_key (unwrap_or (or_option (dp_owner dp) ?owner) []) (SchemaScope sc) (dpg_on_type g) (grantee_parse ?r)"
      unfolding role_sourced_def bucket_defaults_of by blast
    then show "sourced ?owner (pm_default_privileges input) e k p"
      using default[OF dp(3,4,1,2)] rs unfolding sourced_def by auto
  qed
qed

lemma role_sourced_profile:
  assumes "accepted input objects role_grants s L e0 e1 g0 g1" and "(m, n) \<in> L" and "b0 \<in> set (pm_schemas input)" and "el_schema m = sb_name b0"
    and "expand_binding (candidate_manifest input s) (bind_profiles s b0) n = Inr (role, gs, dps)"
  shows "sourced (pm_default_owner input) dps e k p \<longleftrightarrow> e = Present \<and> role_sourced input (el_role_name m) k p"
proof -
  let ?owner = "pm_default_owner input" and ?r = "el_role_name m"
  obtain d where d: "classify_role input role_grants (bucket_defaults input) d = Promote m" by (rule accepted_link[OF assms(1,2)])
  note promoted = promoteD[OF d] and link = expand_link[OF assms]
  have ok: "expand_manifest input = Inr e0" using assms(1) by (simp add: accepted_def)
  have own: "sc = el_schema m \<and> or_option (sb_owner b0) ?owner = Some own" if "(own, sc, g) \<in> set (defaults_of input ?r)" for own sc g
  proof -
    have sc: "sc = el_schema m" "fmlookup (schema_owners input) (el_schema m) = Some (Some own)" using promoted(1,8) that by auto
    have "distinct (map fst (map (\<lambda>b. (sb_name b, or_option (sb_owner b) ?owner)) (pm_schemas input)))"
      using expand_manifest_InrD(4)[OF ok] by (simp add: comp_def)
    then have "fmlookup (schema_owners input) (sb_name b0) = Some (or_option (sb_owner b0) ?owner)"
      using assms(3) by (auto simp: schema_owners_def lookup_collect_map_distinct map_of_eq_Some_iff)
    then show ?thesis using sc assms(4) by simp
  qed
  have dps: "resolved_scope dp = Inr (SchemaScope (el_schema m)) \<and> default_priv_owner ?owner dp = unwrap_or (or_option (sb_owner b0) ?owner) ''postgres''"
    if "dp \<in> set dps" for dp
    using bspec[OF link(6) that] by (cases "sb_owner b0"; cases ?owner) (simp_all add: resolved_scope_def default_priv_owner_def)
  have signature: "(\<Union>dp\<in>set dps. set (dp_grant dp)) = (\<lambda>x. instance_default ?r (signature_default_of x)) ` set (defaults_of input ?r)"
    using link(7) promoted(1,9) by (simp add: set_compute_signature image_image)
  have entry: "x \<in> set (dp_grant dp) \<Longrightarrow> dp \<in> set dps \<Longrightarrow> \<exists>own sc g. (own, sc, g) \<in> set (defaults_of input ?r) \<and> x = instance_default ?r (signature_default_of (own, sc, g))" for x dp
    using signature by fastforce
  show ?thesis
  proof
    assume "sourced ?owner dps e k p"
    then obtain dp x sc role' where src: "dp \<in> set dps" "x \<in> set (dp_grant dp)" "resolved_scope dp = Inr sc" "dpg_role x = Some role'"
        "dpg_ensure x = e" "p \<in> set (dpg_privileges x)" "k = default_key (default_priv_owner ?owner dp) sc (dpg_on_type x) (grantee_parse role')"
      unfolding sourced_def by blast
    obtain own sc' g where g: "(own, sc', g) \<in> set (defaults_of input ?r)" "x = instance_default ?r (signature_default_of (own, sc', g))"
      using entry[OF src(2,1)] by blast
    show "e = Present \<and> role_sourced input ?r k p"
      using src own[OF g(1)] dps[OF src(1)] g by (auto simp: role_sourced_def instance_default_def signature_default_of_def)
  next
    assume rs: "e = Present \<and> role_sourced input ?r k p"
    then obtain own sc g where g: "(own, sc, g) \<in> set (defaults_of input ?r)" "p \<in> set (dpg_privileges g)"
        "k = default_key own (SchemaScope sc) (dpg_on_type g) (grantee_parse ?r)" unfolding role_sourced_def by blast
    let ?x = "instance_default ?r (signature_default_of (own, sc, g))"
    have "?x \<in> (\<Union>dp\<in>set dps. set (dp_grant dp))" unfolding signature using g(1) by blast
    then obtain dp where dp: "dp \<in> set dps" "?x \<in> set (dp_grant dp)" by blast
    show "sourced ?owner dps e k p" unfolding sourced_def
      by (rule bexI[OF _ dp(1)], rule bexI[OF _ dp(2)])
        (use rs g own[OF g(1)] dps[OF dp(1)] in \<open>simp add: instance_default_def signature_default_of_def\<close>)
  qed
qed

lemma accepted_same_defaults:
  assumes "accepted input objects role_grants s L e0 e1 g0 g1"
  shows "held_default g1 k = held_default g0 k \<and> absent_default g1 k = absent_default g0 k"
proof -
  let ?owner = "pm_default_owner input"
  obtain xs where xs: "e1 = assemble_expansion (candidate_manifest input s) xs"
    and from_xs: "\<forall>x\<in>set xs. \<exists>m n b0. (m, n) \<in> L \<and> b0 \<in> set (pm_schemas input) \<and> el_schema m = sb_name b0 \<and>
       expand_binding (candidate_manifest input s) (bind_profiles s b0) n = Inr x"
    and to_xs: "\<forall>(m, n)\<in>L. \<exists>b0 x. b0 \<in> set (pm_schemas input) \<and> el_schema m = sb_name b0 \<and> x \<in> set xs \<and>
       expand_binding (candidate_manifest input s) (bind_profiles s b0) n = Inr x"
    by (rule accepted_expansions[OF assms])
  have clustered: "fset (cs_clustered s) = (\<lambda>(m, n). el_role_name m) ` L" using assms by (simp add: accepted_def links_ok_def)
  have d0: "sourced ?owner (em_default_privileges e0) e k p \<longleftrightarrow> sourced ?owner (pm_default_privileges input) e k p" for e p
    using accepted_original[OF assms] by (simp add: assemble_expansion_def sourced_normalize)
  have d1: "sourced ?owner (em_default_privileges e1) e k p \<longleftrightarrow> (\<exists>x\<in>set xs. sourced ?owner (snd (snd x)) e k p) \<or>
      sourced ?owner (List.map_filter (keep_default (cs_clustered s)) (pm_default_privileges input)) e k p" for e p
    by (simp add: xs assemble_expansion_def sourced_normalize sourced_append sourced_concat candidate_manifest_def del: map_append)
  have expansion: "\<exists>m n. (m, n) \<in> L \<and> (\<forall>e p. sourced ?owner (snd (snd x)) e k p \<longleftrightarrow> e = Present \<and> role_sourced input (el_role_name m) k p)"
    if mem: "x \<in> set xs" for x
  proof -
    obtain role gs dps where x: "x = (role, gs, dps)" by (cases x)
    obtain m n b0 where "(m, n) \<in> L" "b0 \<in> set (pm_schemas input)" "el_schema m = sb_name b0"
      "expand_binding (candidate_manifest input s) (bind_profiles s b0) n = Inr (role, gs, dps)"
      using bspec[OF from_xs mem] by (auto simp: x)
    then show ?thesis using role_sourced_profile[OF assms] by (auto simp: x)
  qed
  have grantee: "dk_grantee k = grantee_parse r" if "role_sourced input r k p" for r p
    using that by (auto simp: role_sourced_def)
  have "sourced ?owner (em_default_privileges e1) e k p \<longleftrightarrow> sourced ?owner (em_default_privileges e0) e k p" for e p
  proof (cases "\<exists>m n. (m, n) \<in> L \<and> dk_grantee k = grantee_parse (el_role_name m)")
    case True
    then obtain m n where link: "(m, n) \<in> L" "dk_grantee k = grantee_parse (el_role_name m)" by blast
    have r: "el_role_name m |\<in>| cs_clustered s" using link(1) clustered by force
    have "\<not> sourced ?owner (List.map_filter (keep_default (cs_clustered s)) (pm_default_privileges input)) e k p"
      unfolding sourced_kept using link(2) r by auto
    moreover have "(\<exists>x\<in>set xs. sourced ?owner (snd (snd x)) e k p) \<longleftrightarrow> e = Present \<and> role_sourced input (el_role_name m) k p"
    proof
      assume "\<exists>x\<in>set xs. sourced ?owner (snd (snd x)) e k p"
      then show "e = Present \<and> role_sourced input (el_role_name m) k p"
        using expansion grantee link(2) by (metis grantee_parse_inject)
    next
      assume rs: "e = Present \<and> role_sourced input (el_role_name m) k p"
      obtain b0 role gs dps where "b0 \<in> set (pm_schemas input)" "el_schema m = sb_name b0" "(role, gs, dps) \<in> set xs"
        "expand_binding (candidate_manifest input s) (bind_profiles s b0) n = Inr (role, gs, dps)" using bspec[OF to_xs link(1)] by auto
      then show "\<exists>x\<in>set xs. sourced ?owner (snd (snd x)) e k p"
        using role_sourced_profile[OF assms link(1)] rs by (metis snd_conv)
    qed
    ultimately show ?thesis using role_sourced_original[OF assms link] d0 d1 by simp
  next
    case False
    have "\<not> (\<exists>x\<in>set xs. sourced ?owner (snd (snd x)) e k p)" using expansion grantee False by metis
    moreover have "sourced ?owner (List.map_filter (keep_default (cs_clustered s)) (pm_default_privileges input)) e k p \<longleftrightarrow>
        sourced ?owner (pm_default_privileges input) e k p"
    proof -
      have "role |\<notin>| cs_clustered s" if "k = default_key w sc t (grantee_parse role)" for w sc t role
        using False that clustered by force
      then show ?thesis unfolding sourced_kept unfolding sourced_def by blast
    qed
    ultimately show ?thesis using d0 d1 by simp
  qed
  then show ?thesis
    using assms from_expanded_exact(5,6)[of "e0\<lparr>em_grants := expand_wildcards_in_place objects (em_grants e0)\<rparr>" ?owner g0 k]
      from_expanded_exact(5,6)[of "e1\<lparr>em_grants := expand_wildcards_in_place objects (em_grants e1)\<rparr>" ?owner g1 k]
    by (simp add: accepted_def)
qed

section \<open>Suggestions are safe\<close>

lemma suggestion_accepted:
  assumes "pm_profiles input = fmempty" and "plain_manifest input" and "sr_round_trip_ok (suggest_profiles input opts)"
  obtains objects role_grants s L e0 e1 g0 g1 where "accepted input objects role_grants s L e0 e1 g0 g1"
    "sr_manifest (suggest_profiles input opts) = candidate_manifest input s"
    "objects = build_inventory input \<or> so_full_inventory opts = Some objects"
proof -
  obtain collapse skipped where ci: "collapse_inventory input opts = (collapse, skipped)" by fastforce
  define role_grants where "role_grants = suggestion_grants input collapse"
  define classes where "classes = map (classify_role input role_grants (bucket_defaults input)) (pm_roles input)"
  define s where "s = fold (suggest_cluster input (so_min_schemas opts) role_grants (bucket_defaults input)) (cluster_roles (eligible_of classes))
      (start_clusters (skipped @ skips_of classes))"
  define objects where "objects = unwrap_or collapse (build_inventory input)"
  have run: "suggest_profiles input opts =
      (case check_round_trip input (candidate_manifest input s) objects of
         Inr _ \<Rightarrow> \<lparr>sr_manifest = candidate_manifest input s, sr_profiles = cs_suggested s, sr_skipped = cs_skipped s, sr_round_trip_ok = True\<rparr>
       | Inl reason \<Rightarrow> \<lparr>sr_manifest = input, sr_profiles = [], sr_skipped = cs_skipped s @ [RoundTripFailure reason], sr_round_trip_ok = False\<rparr>)"
    using assms(1) by (simp add: suggest_profiles_def ci role_grants_def classes_def s_def objects_def Let_def split: sum.split)
  then have check: "check_round_trip input (candidate_manifest input s) objects = Inr ()"
    and manifest: "sr_manifest (suggest_profiles input opts) = candidate_manifest input s"
    using assms(3) by (auto split: sum.splits)
  obtain g0 g1 where graphs: "round_trip_graph OriginalExpand OriginalGraph objects input = Inr g0"
      "round_trip_graph CandidateExpand CandidateGraph objects (candidate_manifest input s) = Inr g1"
    and comments: "filter (\<lambda>c. \<not> is_set_comment c) (diff g0 g1) = []"
    using check by (auto simp: check_round_trip_def Let_def split: if_splits)
  obtain e0 e1 where "expand_manifest input = Inr e0" "expand_manifest (candidate_manifest input s) = Inr e1"
      "from_expanded (e0\<lparr>em_grants := expand_wildcards_in_place objects (em_grants e0)\<rparr>) (pm_default_owner input) = Inr g0"
      "from_expanded (e1\<lparr>em_grants := expand_wildcards_in_place objects (em_grants e1)\<rparr>) (pm_default_owner input) = Inr g1"
    using graphs by (auto simp: round_trip_graph_def candidate_manifest_def split: sum.splits)
  moreover obtain L where "links_ok (set (eligible_of classes)) role_grants (bucket_defaults input) s L"
    using clusters_linked unfolding s_def by blast
  moreover have "role_grants = suggestion_grants input None \<or> role_grants = suggestion_grants input (Some objects)"
    by (cases collapse) (simp_all add: role_grants_def objects_def)
  moreover have "\<forall>c\<in>set (diff g0 g1). is_set_comment c" using comments by (simp add: filter_empty_conv)
  ultimately have "accepted input objects role_grants s L e0 e1 g0 g1" using assms(1,2) by (simp add: accepted_def classes_def)
  moreover have "objects = build_inventory input \<or> so_full_inventory opts = Some objects"
  proof -
    have "collapse = None \<or> collapse = so_full_inventory opts" using ci by (auto simp: collapse_inventory_def split: option.splits sum.splits)
    then show ?thesis unfolding objects_def by (metis option.exhaust unwrap_or.simps)
  qed
  ultimately show ?thesis using that manifest by blast
qed

text \<open>
  C27: a suggestion is safe. When it is accepted, the suggested manifest and the original one have the same graph over the inventory
  of the check, up to the comments of roles: the same roles with the same attributes, schemas, memberships, privileges, default
  privileges and asserted absences. Otherwise the original manifest is returned, with no profile.
\<close>

theorem suggestion_keeps_policy:
  assumes "pm_profiles input = fmempty" and "plain_manifest input"
  shows "if sr_round_trip_ok (suggest_profiles input opts)
    then \<exists>objects g0 g1.
      (objects = build_inventory input \<or> so_full_inventory opts = Some objects) \<and>
      round_trip_graph id id objects input = Inr g0 \<and>
      round_trip_graph id id objects (sr_manifest (suggest_profiles input opts)) = Inr g1 \<and>
      (\<forall>n. map_option no_comment (fmlookup (rg_roles g1) n) = map_option no_comment (fmlookup (rg_roles g0) n)) \<and>
      rg_schemas g1 = rg_schemas g0 \<and> rg_memberships g1 = rg_memberships g0 \<and>
      rg_exclusive_membership_roles g1 = rg_exclusive_membership_roles g0 \<and>
      (\<forall>k. held_grant g1 k = held_grant g0 k \<and> absent_grant g1 k = absent_grant g0 k) \<and>
      (\<forall>k. held_default g1 k = held_default g0 k \<and> absent_default g1 k = absent_default g0 k)
    else sr_manifest (suggest_profiles input opts) = input \<and> sr_profiles (suggest_profiles input opts) = []"
proof (cases "sr_round_trip_ok (suggest_profiles input opts)")
  case True
  obtain objects role_grants s L e0 e1 g0 g1 where acc: "accepted input objects role_grants s L e0 e1 g0 g1"
    and manifest: "sr_manifest (suggest_profiles input opts) = candidate_manifest input s"
    and objects: "objects = build_inventory input \<or> so_full_inventory opts = Some objects"
    by (rule suggestion_accepted[OF assms True])
  have graphs: "round_trip_graph id id objects input = Inr g0" "round_trip_graph id id objects (candidate_manifest input s) = Inr g1"
    using acc by (simp_all add: accepted_def round_trip_graph_def candidate_manifest_def)
  obtain xs where "e1 = assemble_expansion (candidate_manifest input s) xs" using acc expand_manifest_InrD(7) by (auto simp: accepted_def)
  then have "em_memberships e1 = em_memberships e0" using accepted_original[OF acc] by (simp add: assemble_expansion_def candidate_manifest_def)
  then have "rg_memberships g1 = rg_memberships g0" "rg_exclusive_membership_roles g1 = rg_exclusive_membership_roles g0"
    using acc from_expanded_exact(7,8)[of "e0\<lparr>em_grants := expand_wildcards_in_place objects (em_grants e0)\<rparr>" "pm_default_owner input" g0]
      from_expanded_exact(7,8)[of "e1\<lparr>em_grants := expand_wildcards_in_place objects (em_grants e1)\<rparr>" "pm_default_owner input" g1]
    by (simp_all add: accepted_def)
  then show ?thesis
    unfolding manifest using True objects graphs accepted_same_roles[OF acc] accepted_same_schemas[OF acc] accepted_same_grants[OF acc] accepted_same_defaults[OF acc]
    by auto
next
  case False
  then show ?thesis using assms(1) by (auto simp: suggest_profiles_def Let_def split: sum.splits prod.splits)
qed

section \<open>Examples\<close>

definition ex_flat_role :: "bool \<Rightarrow> string \<Rightarrow> role_definition" where
  "ex_flat_role external name =
     \<lparr>rd_name = name, rd_external = external, rd_preserve_undeclared_grants = False, rd_login = None, rd_superuser = None,
      rd_createdb = None, rd_createrole = None, rd_inherit = None, rd_replication = None, rd_bypassrls = None, rd_connection_limit = None,
      rd_comment = None, rd_password = None, rd_password_valid_until = None, rd_config = fmempty\<rparr>"

definition ex_flat_grant :: "ensure \<Rightarrow> string \<Rightarrow> string \<Rightarrow> grant" where
  "ex_flat_grant ens role schema =
     \<lparr>g_role = role, g_privileges = [Select], g_object = \<lparr>ot_object_type = Table, ot_schema = Some schema, ot_name = Some ''t''\<rparr>, g_ensure = ens\<rparr>"

definition ex_flat :: "bool \<Rightarrow> ensure \<Rightarrow> policy_manifest" where
  "ex_flat external ens =
     \<lparr>pm_role_pattern = None, pm_default_owner = None, pm_auth_providers = [], pm_profiles = fmempty,
      pm_schemas = map (\<lambda>n. \<lparr>sb_name = n, sb_profiles = [], sb_role_pattern = None, sb_owner = None\<rparr>) [''a'', ''b''],
      pm_roles = map (ex_flat_role external) [''a-ro'', ''b-ro''],
      pm_grants = [ex_flat_grant ens ''a-ro'' ''a'', ex_flat_grant ens ''b-ro'' ''b''],
      pm_default_privileges = [], pm_memberships = [], pm_retirements = []\<rparr>"

definition ex_objects :: suggest_options where
  "ex_objects = default_suggest_options\<lparr>so_full_inventory := Some (fmap_of_list [((''a'', Table), {|''t''|}), ((''b'', Table), {|''t''|})])\<rparr>"

theorem suggestion_keeps_policy_witness:
  "sr_round_trip_ok (suggest_profiles (ex_flat False Present) ex_objects) \<and>
   map rd_name (pm_roles (sr_manifest (suggest_profiles (ex_flat False Present) ex_objects))) = [] \<and>
   (\<exists>objects g0 g1. round_trip_graph id id objects (ex_flat False Present) = Inr g0 \<and>
      round_trip_graph id id objects (sr_manifest (suggest_profiles (ex_flat False Present) ex_objects)) = Inr g1 \<and>
      rg_schemas g1 = rg_schemas g0 \<and> (\<forall>k. held_grant g1 k = held_grant g0 k \<and> absent_grant g1 k = absent_grant g0 k))"
proof -
  have ok: "sr_round_trip_ok (suggest_profiles (ex_flat False Present) ex_objects)"
    "map rd_name (pm_roles (sr_manifest (suggest_profiles (ex_flat False Present) ex_objects))) = []" by code_simp+
  have "pm_profiles (ex_flat False Present) = fmempty" "plain_manifest (ex_flat False Present)" by (simp add: ex_flat_def) code_simp
  from suggestion_keeps_policy[OF this, of ex_objects] show ?thesis using ok by auto
qed

text \<open>
  The attribute \<open>external\<close> of a role is not seen by the check, and a profile cannot express it: the roles of the suggested
  manifest are managed, although every role of the original was external.
\<close>

theorem suggestion_forgets_external:
  "sr_round_trip_ok (suggest_profiles (ex_flat True Present) default_suggest_options) \<and>
   list_all rd_external (pm_roles (ex_flat True Present)) \<and>
   (case expand_manifest (sr_manifest (suggest_profiles (ex_flat True Present) default_suggest_options)) of
      Inr e \<Rightarrow> map (\<lambda>d. (rd_name d, rd_external d)) (em_roles e) = [(''a-ro'', False), (''b-ro'', False)]
    | Inl _ \<Rightarrow> False)"
  by code_simp

text \<open>
  The collapse to wildcards ignores \<open>ensure\<close>: asserted absences that cover a schema become one privilege to grant, the role passes as
  eligible, and the round-trip check then gives up the whole suggestion. Without an inventory the same role is skipped alone.
\<close>

lemma collapse_forgets_absence:
  "\<not> sr_round_trip_ok (suggest_profiles (ex_flat False Absent) ex_objects) \<and>
   sr_round_trip_ok (suggest_profiles (ex_flat False Absent) default_suggest_options) \<and>
   sr_skipped (suggest_profiles (ex_flat False Absent) default_suggest_options) = [UnrepresentableGrant ''a-ro'', UnrepresentableGrant ''b-ro'']"
  by code_simp

end
