(* ===== verification/PolicySpec.thy ===== *)
theory PolicySpec
  imports Retention Promotion K8sNames Model "HOL-Library.Word"
begin

text \<open>
  The custom resource of a policy (\<open>crates/pgroles-operator/src/crd.rs\<close>): the connection and its identity and cache keys, the
  validation of connections and password sources, the conversion of the spec to a core manifest, the ownership claims of a policy and
  the detection of policies that claim the same objects of one database (\<open>reconciler.rs\<close>). Strings are their UTF-8 bytes; the
  \<open>HashMap\<close> of profiles is a finite map, whose iteration order cannot be observed because the code collects it into a \<open>BTreeMap\<close>.
\<close>

section \<open>Connections\<close>

record secret_key_selector =
  sks_name :: string
  sks_key :: string

datatype connection_auth =
    GcpWorkloadIdentity "string option" "string option"
  | AzureWorkloadIdentity "(string, json) btreemap"

record connection_params =
  cp_host :: "string option"
  cp_host_secret :: "secret_key_selector option"
  cp_port :: "16 word option"
  cp_port_secret :: "secret_key_selector option"
  cp_dbname :: "string option"
  cp_dbname_secret :: "secret_key_selector option"
  cp_username :: "string option"
  cp_username_secret :: "secret_key_selector option"
  cp_password :: "string option"
  cp_password_secret :: "secret_key_selector option"
  cp_auth :: "connection_auth option"
  cp_ssl_mode :: "string option"
  cp_ssl_mode_secret :: "secret_key_selector option"
  cp_set_role :: "string option"

text \<open>\<open>SecretReference\<close> has one field, the name of the Secret.\<close>

record connection_spec =
  cn_secret_ref :: "string option"
  cn_secret_key :: "string option"
  cn_params :: "connection_params option"
  cn_require_physical_identity :: "bool option"

definition requires_physical_identity :: "connection_spec \<Rightarrow> bool" where
  "requires_physical_identity c = unwrap_or (cn_require_physical_identity c) False"

definition effective_secret_key :: "connection_spec \<Rightarrow> string" where
  "effective_secret_key c = unwrap_or (cn_secret_key c) ''DATABASE_URL''"

definition insert_all :: "string list \<Rightarrow> string btreeset \<Rightarrow> string btreeset" where
  "insert_all xs s = fold finsert xs s"

definition collect_secret_names :: "connection_spec \<Rightarrow> string btreeset \<Rightarrow> string btreeset" where
  "collect_secret_names c names =
     (let names = (case cn_secret_ref c of None \<Rightarrow> names | Some name \<Rightarrow> finsert name names) in
      case cn_params c of
        None \<Rightarrow> names
      | Some params \<Rightarrow> insert_all (map sks_name (List.map_filter id
          [cp_host_secret params, cp_port_secret params, cp_dbname_secret params, cp_username_secret params,
           cp_password_secret params, cp_ssl_mode_secret params])) names)"

definition NUL :: string where "NUL = [CHR 0x00]"

definition secret_repr :: "secret_key_selector \<Rightarrow> string" where
  "secret_repr sel = ''secret='' @ sks_name sel @ NUL @ sks_key sel"

definition field_identity_repr :: "string option \<Rightarrow> secret_key_selector option \<Rightarrow> string" where
  "field_identity_repr literal secret =
     (case literal of
        Some v \<Rightarrow> ''literal='' @ v
      | None \<Rightarrow> (case secret of Some sel \<Rightarrow> secret_repr sel | None \<Rightarrow> []))"

definition show_port :: "16 word \<Rightarrow> string" where
  "show_port p = show_nat (unat p)"

definition identity_key :: "connection_spec \<Rightarrow> string" where
  "identity_key c =
     (case cn_secret_ref c of
        Some name \<Rightarrow> name @ ''/'' @ effective_secret_key c
      | None \<Rightarrow>
          (case cn_params c of
             Some params \<Rightarrow>
               let port_part = unwrap_or (or_option (map_option (\<lambda>p. ''literal='' @ show_port p) (cp_port params))
                                  (map_option secret_repr (cp_port_secret params))) ''5432'' in
               ''params'' @ NUL @ field_identity_repr (cp_host params) (cp_host_secret params) @ NUL @
                 field_identity_repr (cp_dbname params) (cp_dbname_secret params) @ NUL @ port_part
           | None \<Rightarrow> ''invalid-connection''))"

definition DEFAULT_GCP_CLOUD_SQL_LOGIN_SCOPE :: string where
  "DEFAULT_GCP_CLOUD_SQL_LOGIN_SCOPE = ''https://www.googleapis.com/auth/sqlservice.login''"

fun auth_cache_key :: "connection_auth \<Rightarrow> string" where
  "auth_cache_key (GcpWorkloadIdentity impersonate scope) =
     ''gcp_workload_identity'' @ NUL @ ''impersonate='' @ unwrap_or impersonate [] @ NUL @ ''scope='' @
       unwrap_or scope DEFAULT_GCP_CLOUD_SQL_LOGIN_SCOPE"
| "auth_cache_key (AzureWorkloadIdentity _) = ''azure_workload_identity''"

definition cache_key :: "string \<Rightarrow> connection_spec \<Rightarrow> string" where
  "cache_key namespace c =
     (case cn_params c of
        Some params \<Rightarrow>
          let user_part = field_identity_repr (cp_username params) (cp_username_secret params);
              pass_part = field_identity_repr (cp_password params) (cp_password_secret params);
              auth_part = unwrap_or (map_option auth_cache_key (cp_auth params)) [];
              ssl_part = unwrap_or (or_option (map_option (\<lambda>v. ''literal='' @ v) (cp_ssl_mode params))
                           (map_option secret_repr (cp_ssl_mode_secret params))) [];
              role_part = unwrap_or (cp_set_role params) [] in
          namespace @ ''/'' @ identity_key c @ NUL @ ''user='' @ user_part @ NUL @ ''pass='' @ pass_part @ NUL @ ''auth='' @
            auth_part @ NUL @ ''ssl='' @ ssl_part @ NUL @ ''role='' @ role_part
      | None \<Rightarrow> namespace @ ''/'' @ identity_key c)"

definition from_connection :: "string \<Rightarrow> connection_spec \<Rightarrow> string" where
  "from_connection namespace c = namespace @ ''/'' @ identity_key c"


section \<open>Validation of connections\<close>

datatype connection_validation_error =
    BothModesSet
  | NeitherModeSet
  | EmptySecretKeyRef string string
  | InvalidSslMode string
  | EmptyLiteral string
  | NeitherFieldSet string
  | BothFieldsSet string
  | EmptyAuthField string
  | AuthWithPassword
  | UnsupportedAuthField string
  | InvalidRoleName string

definition VALID_SSL_MODES :: "string list" where
  "VALID_SSL_MODES = [''disable'', ''allow'', ''prefer'', ''require'', ''verify-ca'', ''verify-full'']"

definition is_set_role_char :: "char \<Rightarrow> bool" where
  "is_set_role_char b = (is_ascii_alphanumeric b \<or> b = CHR ''_'' \<or> b = CHR ''$'' \<or> b = CHR ''-'')"

fun is_valid_set_role_identifier :: "string \<Rightarrow> bool" where
  "is_valid_set_role_identifier [] = False"
| "is_valid_set_role_identifier (b # bytes) = ((is_ascii_alphabetic b \<or> b = CHR ''_'') \<and> list_all is_set_role_char bytes)"

definition validate_secret_selector :: "string \<Rightarrow> secret_key_selector \<Rightarrow> connection_validation_error + unit" where
  "validate_secret_selector field sel =
     (if trim (sks_name sel) = [] then Inl (EmptySecretKeyRef field ''name must not be empty'')
      else if trim (sks_key sel) = [] then Inl (EmptySecretKeyRef field ''key must not be empty'')
      else Inr ())"

definition validate_required_field ::
  "string \<Rightarrow> string option \<Rightarrow> secret_key_selector option \<Rightarrow> connection_validation_error + unit" where
  "validate_required_field field literal secret =
     (case (literal, secret) of
        (Some _, Some _) \<Rightarrow> Inl (BothFieldsSet field)
      | (None, None) \<Rightarrow> Inl (NeitherFieldSet field)
      | (Some s, None) \<Rightarrow> if trim s = [] then Inl (EmptyLiteral field) else Inr ()
      | (None, Some sel) \<Rightarrow> validate_secret_selector field sel)"

definition validate_optional_field ::
  "string \<Rightarrow> string option \<Rightarrow> secret_key_selector option \<Rightarrow> connection_validation_error + unit" where
  "validate_optional_field field literal secret =
     (if literal \<noteq> None \<and> secret \<noteq> None then Inl (BothFieldsSet field)
      else if (case literal of Some s \<Rightarrow> trim s = [] | None \<Rightarrow> False) then Inl (EmptyLiteral field)
      else case secret of Some sel \<Rightarrow> validate_secret_selector field sel | None \<Rightarrow> Inr ())"

definition blank :: "string option \<Rightarrow> bool" where
  "blank v = (case v of Some s \<Rightarrow> trim s = [] | None \<Rightarrow> False)"

definition validate_auth :: "connection_params \<Rightarrow> connection_validation_error + unit" where
  "validate_auth params =
     (case cp_auth params of
        Some auth \<Rightarrow>
          if cp_password params \<noteq> None \<or> cp_password_secret params \<noteq> None then Inl AuthWithPassword
          else (case auth of
                  GcpWorkloadIdentity impersonate scope \<Rightarrow>
                    if blank impersonate then Inl (EmptyAuthField ''impersonateServiceAccount'')
                    else if blank scope then Inl (EmptyAuthField ''scope'')
                    else Inr ()
                | AzureWorkloadIdentity unsupported \<Rightarrow>
                    for_each (\<lambda>field. if contains_key unsupported field then Inl (UnsupportedAuthField field) else Inr ())
                      [''scope'', ''impersonateServiceAccount''])
      | None \<Rightarrow> validate_required_field ''password'' (cp_password params) (cp_password_secret params))"

definition validate_set_role :: "connection_params \<Rightarrow> connection_validation_error + unit" where
  "validate_set_role params =
     (case cp_set_role params of
        None \<Rightarrow> Inr ()
      | Some v \<Rightarrow> if trim v = [] then Inl (EmptyLiteral ''setRole'')
                  else if \<not> is_valid_set_role_identifier v then Inl (InvalidRoleName v) else Inr ())"

definition validate_params :: "connection_params \<Rightarrow> connection_validation_error + unit" where
  "validate_params params =
     sequence_r
       [validate_required_field ''host'' (cp_host params) (cp_host_secret params),
        validate_required_field ''dbname'' (cp_dbname params) (cp_dbname_secret params),
        validate_required_field ''username'' (cp_username params) (cp_username_secret params),
        validate_auth params,
        validate_optional_field ''port'' (map_option show_port (cp_port params)) (cp_port_secret params),
        validate_optional_field ''sslMode'' (cp_ssl_mode params) (cp_ssl_mode_secret params),
        (case cp_ssl_mode params of
           Some v \<Rightarrow> if v \<notin> set VALID_SSL_MODES then Inl (InvalidSslMode v) else Inr ()
         | None \<Rightarrow> Inr ()),
        validate_set_role params]"

definition validate_connection :: "connection_spec \<Rightarrow> connection_validation_error + unit" where
  "validate_connection c =
     (case (cn_secret_ref c, cn_params c) of
        (Some _, None) \<Rightarrow> Inr ()
      | (None, Some params) \<Rightarrow> validate_params params
      | (Some _, Some _) \<Rightarrow> Inl BothModesSet
      | (None, None) \<Rightarrow> Inl NeitherModeSet)"


section \<open>Spec of a policy\<close>

record profile_object_target_spec =
  pos_object_type :: object_type
  pos_name :: "string option"

record profile_grant_spec =
  pgs_privileges :: "privilege list"
  pgs_object :: profile_object_target_spec
  pgs_ensure :: ensure

record default_privilege_grant_spec =
  dgs_role :: "string option"
  dgs_privileges :: "privilege list"
  dgs_on_type :: object_type
  dgs_ensure :: ensure

record profile_spec =
  prs_login :: "bool option"
  prs_inherit :: "bool option"
  prs_grants :: "profile_grant_spec list"
  prs_default_privileges :: "default_privilege_grant_spec list"
  prs_config :: "(string, string) btreemap"

record generate_password_spec =
  gps_length :: "32 word option"
  gps_secret_name :: "string option"
  gps_secret_key :: "string option"

record password_spec =
  pws_secret_ref :: "string option"
  pws_secret_key :: "string option"
  pws_generate :: "generate_password_spec option"

record role_spec =
  ros_name :: string
  ros_external :: bool
  ros_preserve_undeclared_grants :: bool
  ros_login :: "bool option"
  ros_superuser :: "bool option"
  ros_createdb :: "bool option"
  ros_createrole :: "bool option"
  ros_inherit :: "bool option"
  ros_replication :: "bool option"
  ros_bypassrls :: "bool option"
  ros_connection_limit :: "int option"
  ros_comment :: "string option"
  ros_password :: "password_spec option"
  ros_password_valid_until :: "string option"
  ros_config :: "(string, string) btreemap"

record policy_content =
  pc_reconciliation_mode :: reconciliation_mode
  pc_default_owner :: "string option"
  pc_role_pattern :: "string option"
  pc_profiles :: "(string, profile_spec) btreemap"
  pc_schemas :: "schema_binding list"
  pc_roles :: "role_spec list"
  pc_grants :: "grant list"
  pc_default_privileges :: "default_privilege list"
  pc_memberships :: "membership list"
  pc_retirements :: "role_retirement list"

record policy_spec =
  ps_connection :: connection_spec
  ps_interval :: string
  ps_suspend :: bool
  ps_mode :: policy_mode
  ps_reconciliation_mode :: reconciliation_mode
  ps_allow_schema_owner_transfers :: bool
  ps_default_owner :: "string option"
  ps_role_pattern :: "string option"
  ps_profiles :: "(string, profile_spec) btreemap"
  ps_schemas :: "schema_binding list"
  ps_roles :: "role_spec list"
  ps_grants :: "grant list"
  ps_default_privileges :: "default_privilege list"
  ps_memberships :: "membership list"
  ps_retirements :: "role_retirement list"
  ps_approval :: "approval_mode option"

definition validate_connection_spec :: "policy_spec \<Rightarrow> connection_validation_error + unit" where
  "validate_connection_spec spec = validate_connection (ps_connection spec)"


section \<open>Password sources\<close>

datatype password_validation_error =
    PvPasswordWithoutLogin string
  | PvInvalidPasswordMode string
  | PvInvalidGeneratedLength string "32 word" "32 word"
  | PvInvalidGeneratedSecretName string string
  | PvInvalidSecretKey string string string
  | PvReservedGeneratedSecretKey string string

definition MIN_PASSWORD_LENGTH :: "32 word" where "MIN_PASSWORD_LENGTH = 16"
definition MAX_PASSWORD_LENGTH :: "32 word" where "MAX_PASSWORD_LENGTH = 128"
definition GENERATED_VERIFIER_KEY :: string where "GENERATED_VERIFIER_KEY = ''verifier''"

definition is_secret_ref :: "password_spec \<Rightarrow> bool" where
  "is_secret_ref pw = (pws_secret_ref pw \<noteq> None)"

definition is_generate :: "password_spec \<Rightarrow> bool" where
  "is_generate pw = (pws_generate pw \<noteq> None)"

definition is_valid_secret_name :: "string \<Rightarrow> bool" where
  "is_valid_secret_name name = is_valid_resource_name name"

definition is_valid_secret_key :: "string \<Rightarrow> bool" where
  "is_valid_secret_key key =
     (key \<noteq> [] \<and> list_all (\<lambda>b. is_ascii_alphanumeric b \<or> b \<in> {CHR ''-'', CHR ''_'', CHR ''.''}) key)"

definition generated_secret_name :: "string \<Rightarrow> string \<Rightarrow> generate_password_spec \<Rightarrow> string" where
  "generated_secret_name policy_name role_name spec =
     (case gps_secret_name spec of Some name \<Rightarrow> name | None \<Rightarrow> default_generated_secret_name policy_name role_name)"

definition generated_secret_key :: "generate_password_spec \<Rightarrow> string" where
  "generated_secret_key spec = unwrap_or (gps_secret_key spec) ''password''"

definition validate_generate :: "string \<Rightarrow> string \<Rightarrow> generate_password_spec \<Rightarrow> password_validation_error + unit" where
  "validate_generate policy_name role generate =
     (let secret_name = generated_secret_name policy_name role generate; secret_key = generated_secret_key generate in
      if (case gps_length generate of Some n \<Rightarrow> \<not> (MIN_PASSWORD_LENGTH \<le> n \<and> n \<le> MAX_PASSWORD_LENGTH) | None \<Rightarrow> False)
      then Inl (PvInvalidGeneratedLength role MIN_PASSWORD_LENGTH MAX_PASSWORD_LENGTH)
      else if \<not> is_valid_secret_name secret_name then Inl (PvInvalidGeneratedSecretName role secret_name)
      else if \<not> is_valid_secret_key secret_key then Inl (PvInvalidSecretKey role ''generate.secretKey'' secret_key)
      else if secret_key = GENERATED_VERIFIER_KEY then Inl (PvReservedGeneratedSecretKey role secret_key)
      else Inr ())"

definition validate_password :: "string \<Rightarrow> role_spec \<Rightarrow> password_validation_error + unit" where
  "validate_password policy_name role =
     (case ros_password role of
        None \<Rightarrow> Inr ()
      | Some password \<Rightarrow>
          if ros_login role \<noteq> Some True then Inl (PvPasswordWithoutLogin (ros_name role))
          else (case (pws_secret_ref password, pws_generate password) of
                  (Some _, None) \<Rightarrow>
                    let secret_key = unwrap_or (pws_secret_key password) (ros_name role) in
                    if \<not> is_valid_secret_key secret_key then Inl (PvInvalidSecretKey (ros_name role) ''secretKey'' secret_key) else Inr ()
                | (None, Some generate) \<Rightarrow> validate_generate policy_name (ros_name role) generate
                | _ \<Rightarrow> Inl (PvInvalidPasswordMode (ros_name role))))"

definition validate_password_specs :: "policy_spec \<Rightarrow> string \<Rightarrow> password_validation_error + unit" where
  "validate_password_specs spec policy_name = for_each (validate_password policy_name) (ps_roles spec)"

definition role_secret_names :: "string \<Rightarrow> role_spec \<Rightarrow> string list" where
  "role_secret_names policy_name role =
     (case ros_password role of
        None \<Rightarrow> []
      | Some pw \<Rightarrow>
          (case pws_secret_ref pw of Some name \<Rightarrow> [name] | None \<Rightarrow> []) @
          (case pws_generate pw of Some generate \<Rightarrow> [generated_secret_name policy_name (ros_name role) generate] | None \<Rightarrow> []))"

definition referenced_secret_names :: "policy_spec \<Rightarrow> string \<Rightarrow> string btreeset" where
  "referenced_secret_names spec policy_name =
     fold (\<lambda>role names. insert_all (role_secret_names policy_name role) names) (ps_roles spec)
       (collect_secret_names (ps_connection spec) {||})"


section \<open>Conversion to a core manifest\<close>

definition profile_of_spec :: "profile_spec \<Rightarrow> profile" where
  "profile_of_spec spec =
     \<lparr>p_login = prs_login spec, p_inherit = prs_inherit spec,
      p_grants = map (\<lambda>g. \<lparr>pg_privileges = pgs_privileges g,
          pg_object = \<lparr>pot_object_type = pos_object_type (pgs_object g), pot_name = pos_name (pgs_object g)\<rparr>,
          pg_ensure = pgs_ensure g\<rparr>) (prs_grants spec),
      p_default_privileges = map (\<lambda>dp. \<lparr>dpg_role = dgs_role dp, dpg_privileges = dgs_privileges dp, dpg_on_type = dgs_on_type dp,
          dpg_ensure = dgs_ensure dp\<rparr>) (prs_default_privileges spec),
      p_config = prs_config spec\<rparr>"

definition role_of_spec :: "role_spec \<Rightarrow> role_definition" where
  "role_of_spec r =
     \<lparr>rd_name = ros_name r, rd_external = ros_external r, rd_preserve_undeclared_grants = ros_preserve_undeclared_grants r,
      rd_login = ros_login r, rd_superuser = ros_superuser r, rd_createdb = ros_createdb r, rd_createrole = ros_createrole r,
      rd_inherit = ros_inherit r, rd_replication = ros_replication r, rd_bypassrls = ros_bypassrls r,
      rd_connection_limit = ros_connection_limit r, rd_comment = ros_comment r, rd_password = None,
      rd_password_valid_until = ros_password_valid_until r, rd_config = ros_config r\<rparr>"

definition membership_of_spec :: "membership \<Rightarrow> membership" where
  "membership_of_spec m =
     \<lparr>m_role = m_role m,
      m_members = map (\<lambda>ms. \<lparr>ms_name = ms_name ms, ms_inherit = ms_inherit ms, ms_admin = ms_admin ms\<rparr>) (m_members m),
      m_exclusive = m_exclusive m\<rparr>"

definition build_policy_manifest ::
  "string option \<Rightarrow> string option \<Rightarrow> (string, profile_spec) btreemap \<Rightarrow> schema_binding list \<Rightarrow> role_spec list \<Rightarrow> grant list \<Rightarrow>
   default_privilege list \<Rightarrow> membership list \<Rightarrow> role_retirement list \<Rightarrow> policy_manifest" where
  "build_policy_manifest default_owner role_pattern profiles schemas roles grants default_privileges memberships retirements =
     \<lparr>pm_role_pattern = role_pattern, pm_default_owner = default_owner, pm_auth_providers = [],
      pm_profiles = fmmap profile_of_spec profiles, pm_schemas = schemas, pm_roles = map role_of_spec roles, pm_grants = grants,
      pm_default_privileges = default_privileges, pm_memberships = map membership_of_spec memberships,
      pm_retirements = retirements\<rparr>"

definition content_to_policy_manifest :: "policy_content \<Rightarrow> policy_manifest" where
  "content_to_policy_manifest c =
     build_policy_manifest (pc_default_owner c) (pc_role_pattern c) (pc_profiles c) (pc_schemas c) (pc_roles c) (pc_grants c)
       (pc_default_privileges c) (pc_memberships c) (pc_retirements c)"

definition policy_content_of :: "policy_spec \<Rightarrow> policy_content" where
  "policy_content_of spec =
     \<lparr>pc_reconciliation_mode = ps_reconciliation_mode spec, pc_default_owner = ps_default_owner spec,
      pc_role_pattern = ps_role_pattern spec, pc_profiles = ps_profiles spec, pc_schemas = ps_schemas spec, pc_roles = ps_roles spec,
      pc_grants = ps_grants spec, pc_default_privileges = ps_default_privileges spec, pc_memberships = ps_memberships spec,
      pc_retirements = ps_retirements spec\<rparr>"

definition to_policy_manifest :: "policy_spec \<Rightarrow> policy_manifest" where
  "to_policy_manifest spec =
     build_policy_manifest (ps_default_owner spec) (ps_role_pattern spec) (ps_profiles spec) (ps_schemas spec) (ps_roles spec)
       (ps_grants spec) (ps_default_privileges spec) (ps_memberships spec) (ps_retirements spec)"


section \<open>Ownership claims\<close>

record ownership_claims =
  oc_roles :: "string btreeset"
  oc_schemas :: "string btreeset"
  oc_public_databases :: "string btreeset"

definition is_disjoint :: "string btreeset \<Rightarrow> string btreeset \<Rightarrow> bool" where
  "is_disjoint a b = (a |\<inter>| b = {||})"

definition claims_overlap :: "ownership_claims \<Rightarrow> ownership_claims \<Rightarrow> bool" where
  "claims_overlap self other =
     (\<not> is_disjoint (oc_roles self) (oc_roles other) \<or> \<not> is_disjoint (oc_schemas self) (oc_schemas other) \<or>
      \<not> is_disjoint (oc_public_databases self) (oc_public_databases other))"

definition overlap_summary :: "ownership_claims \<Rightarrow> ownership_claims \<Rightarrow> string" where
  "overlap_summary self other =
     (let overlapping_roles = bt_elements (oc_roles self |\<inter>| oc_roles other);
          overlapping_schemas = bt_elements (oc_schemas self |\<inter>| oc_schemas other);
          overlapping_databases = bt_elements (oc_public_databases self |\<inter>| oc_public_databases other) in
      join_str ''; ''
        ((if overlapping_roles \<noteq> [] then [''roles: '' @ join_str '', '' overlapping_roles] else []) @
         (if overlapping_schemas \<noteq> [] then [''schemas: '' @ join_str '', '' overlapping_schemas] else []) @
         (if overlapping_databases \<noteq> [] then [''PUBLIC on databases: '' @ join_str '', '' overlapping_databases] else [])))"

definition grant_schema_claim :: "grant \<Rightarrow> string option" where
  "grant_schema_claim g =
     (case ot_object_type (g_object g) of
        Database \<Rightarrow> None
      | Schema \<Rightarrow> ot_name (g_object g)
      | _ \<Rightarrow> ot_schema (g_object g))"

definition claim_default :: "policy_manifest \<Rightarrow> default_privilege \<Rightarrow> string btreeset \<times> string btreeset \<Rightarrow> string btreeset \<times> string btreeset" where
  "claim_default manifest dp = (\<lambda>(roles, schemas).
     case resolved_scope dp of
       Inl _ \<Rightarrow> (roles, schemas)
     | Inr scope \<Rightarrow>
         (case scope_schema scope of
            Some schema \<Rightarrow> (roles, finsert schema schemas)
          | None \<Rightarrow>
              (case or_option (dp_owner dp) (pm_default_owner manifest) of
                 Some owner \<Rightarrow> (finsert owner roles, schemas)
               | None \<Rightarrow> (roles, schemas))))"

definition ownership_claims_of :: "policy_spec \<Rightarrow> manifest_error + ownership_claims" where
  "ownership_claims_of spec =
     (let manifest = to_policy_manifest spec in
      bind_r (expand_manifest manifest) (\<lambda>expanded.
        let roles = fset_of_list (map rd_name (em_roles expanded));
            schemas = fset_of_list (map sb_name (ps_schemas spec));
            public_databases = fset_of_list (List.map_filter (\<lambda>g. ot_name (g_object g))
              (filter (\<lambda>g. ot_object_type (g_object g) = Database \<and> g_role g = ''PUBLIC'') (pm_grants manifest)));
            roles = insert_all (map rr_role (pm_retirements manifest)) roles;
            roles = insert_all (filter (\<lambda>role. role \<noteq> ''PUBLIC'') (map g_role (pm_grants manifest))) roles;
            roles = insert_all (filter (\<lambda>role. role \<noteq> ''PUBLIC'')
              (concat (map (\<lambda>dp. List.map_filter dpg_role (dp_grant dp)) (pm_default_privileges manifest)))) roles;
            roles = insert_all (map m_role (pm_memberships manifest)) roles;
            roles = insert_all (concat (map (\<lambda>m. map ms_name (m_members m)) (pm_memberships manifest))) roles;
            schemas = insert_all (List.map_filter grant_schema_claim (pm_grants manifest)) schemas;
            (roles, schemas) = fold (claim_default manifest) (pm_default_privileges manifest) (roles, schemas) in
        Inr \<lparr>oc_roles = roles, oc_schemas = schemas, oc_public_databases = public_databases\<rparr>))"


section \<open>Conflicts between policies\<close>

text \<open>\<open>pp_name\<close> is the value of \<open>name_any\<close>.\<close>

record postgres_policy =
  pp_namespace :: "string option"
  pp_name :: string
  pp_spec :: policy_spec

definition conflict_with :: "postgres_policy \<Rightarrow> string \<Rightarrow> string \<Rightarrow> ownership_claims \<Rightarrow> postgres_policy \<Rightarrow> string option" where
  "conflict_with resource this_ns identity ownership other =
     (case pp_namespace other of
        None \<Rightarrow> None
      | Some other_ns \<Rightarrow>
          let other_name = pp_name other in
          if other_ns = this_ns \<and> other_name = pp_name resource then None
          else if from_connection other_ns (ps_connection (pp_spec other)) \<noteq> identity then None
          else case validate_password_specs (pp_spec other) other_name of
                 Inl _ \<Rightarrow> None
               | Inr _ \<Rightarrow>
                   (case ownership_claims_of (pp_spec other) of
                      Inl _ \<Rightarrow> None
                    | Inr other_ownership \<Rightarrow>
                        if claims_overlap ownership other_ownership
                        then Some (other_ns @ ''/'' @ other_name @ '' ('' @ overlap_summary ownership other_ownership @ '')'')
                        else None))"

definition detect_policy_conflict_in_list ::
  "postgres_policy \<Rightarrow> string \<Rightarrow> ownership_claims \<Rightarrow> postgres_policy list \<Rightarrow> string option" where
  "detect_policy_conflict_in_list resource identity ownership policies =
     (case pp_namespace resource of
        None \<Rightarrow> None
      | Some this_ns \<Rightarrow>
          let conflicts = List.map_filter (conflict_with resource this_ns identity ownership) policies in
          if conflicts = [] then None
          else Some (''policy ownership overlaps with '' @ join_str '', '' conflicts @ '' on database target '' @ identity))"
end
