(* ===== verification/PolicyClaims.thy ===== *)
theory PolicyClaims
  imports PolicySpec SuggestLaws
begin

text \<open>
  Policies that pass the conflict check declare separate parts of their database. Everything a policy declares (the facts of the
  graph its spec expands to, and its retirements) has a locus, the claims it falls under; the claims of a spec cover the loci of
  what the spec declares, so that policies with disjoint claims declare nothing in common except what no claim can express.
\<close>

section \<open>Claims that cover declarations\<close>

text \<open>
  What a conflict check by claims rests on: every fact a policy declares lies within the claims of the policy. Then policies with
  disjoint claims declare facts at disjoint loci.
\<close>

locale claim_scheme =
  fixes claims :: "'p \<Rightarrow> 'k set" and declares :: "'p \<Rightarrow> 'x \<Rightarrow> bool" and locus :: "'x \<Rightarrow> 'k set"
  assumes covered: "declares p x \<Longrightarrow> locus x \<subseteq> claims p"
begin

lemma separate:
  assumes "claims p \<inter> claims q = {}" and "declares p x" and "declares q y"
  shows "locus x \<inter> locus y = {}"
  using assms covered by blast

lemma shared_unclaimed:
  assumes "claims p \<inter> claims q = {}" and "declares p x" and "declares q x"
  shows "locus x = {}"
  using separate[OF assms(1,2,3)] by simp

end

section \<open>Facts and loci\<close>

datatype ownership_claim = ClaimRole string | ClaimSchema string | ClaimPublicDatabase string

fun claim_set :: "ownership_claims \<Rightarrow> ownership_claim set" where
  "claim_set c = ClaimRole ` fset (oc_roles c) \<union> ClaimSchema ` fset (oc_schemas c) \<union> ClaimPublicDatabase ` fset (oc_public_databases c)"

declare claim_set.simps [simp del]

lemma claims_overlap_iff: "claims_overlap a b \<longleftrightarrow> claim_set a \<inter> claim_set b \<noteq> {}"
  by (auto simp: claims_overlap_def is_disjoint_def claim_set.simps fset_eq_iff)

datatype declared =
    DRole string
  | DSchema string
  | DGrant grant_key
  | DDefault default_priv_key
  | DMember string string
  | DRetired string

definition object_claims :: "grant_key \<Rightarrow> ownership_claim set" where
  "object_claims k =
     (case gk_object_type k of
        Database \<Rightarrow> (if gk_role k = Public then ClaimPublicDatabase ` set_option (gk_name k) else {})
      | Schema \<Rightarrow> ClaimSchema ` set_option (gk_name k)
      | _ \<Rightarrow> ClaimSchema ` set_option (gk_schema k))"

fun grantee_claims :: "grantee \<Rightarrow> ownership_claim set" where
  "grantee_claims Public = {}"
| "grantee_claims (Role r) = {ClaimRole r}"

text \<open>An entry without an owner acts as \<open>postgres\<close>, which the claims of the entry leave out.\<close>

fun scope_claims :: "string \<Rightarrow> default_privilege_scope \<Rightarrow> ownership_claim set" where
  "scope_claims owner Global = (if owner = ''postgres'' then {} else {ClaimRole owner})"
| "scope_claims owner (SchemaScope s) = {ClaimSchema s}"

fun locus :: "declared \<Rightarrow> ownership_claim set" where
  "locus (DRole r) = {ClaimRole r}"
| "locus (DSchema s) = {ClaimSchema s}"
| "locus (DGrant k) = grantee_claims (gk_role k) \<union> object_claims k"
| "locus (DDefault k) = grantee_claims (dk_grantee k) \<union> scope_claims (dk_owner k) (dk_scope k)"
| "locus (DMember r m) = {ClaimRole r, ClaimRole m}"
| "locus (DRetired r) = {ClaimRole r}"

text \<open>What no claim expresses: a rule for PUBLIC that names no schema, and a global default for PUBLIC of the owner \<open>postgres\<close>.\<close>

fun unclaimable :: "declared \<Rightarrow> bool" where
  "unclaimable (DGrant k) =
     (gk_role k = Public \<and> (if gk_object_type k \<in> {Database, Schema} then gk_name k else gk_schema k) = None)"
| "unclaimable (DDefault k) = (dk_grantee k = Public \<and> dk_scope k = Global \<and> dk_owner k = ''postgres'')"
| "unclaimable _ = False"

lemma locus_empty_iff: "locus x = {} \<longleftrightarrow> unclaimable x"
proof (cases x)
  case (DGrant k)
  then show ?thesis by (cases "gk_role k"; cases "gk_object_type k") (auto simp: object_claims_def)
next
  case (DDefault k)
  then show ?thesis by (cases "dk_grantee k"; cases "dk_scope k") auto
qed auto

fun graph_declares :: "role_graph \<Rightarrow> declared \<Rightarrow> bool" where
  "graph_declares g (DRole r) = contains_key (rg_roles g) r"
| "graph_declares g (DSchema s) = contains_key (rg_schemas g) s"
| "graph_declares g (DGrant k) = (held_grant g k \<union> absent_grant g k \<noteq> {})"
| "graph_declares g (DDefault k) = (held_default g k \<union> absent_default g k \<noteq> {})"
| "graph_declares g (DMember r m) = (\<exists>edge. edge |\<in>| rg_memberships g \<and> me_role edge = r \<and> me_member edge = m)"
| "graph_declares g (DRetired r) = False"

definition spec_claims :: "policy_spec \<Rightarrow> ownership_claim set" where
  "spec_claims spec = (case ownership_claims_of spec of Inl _ \<Rightarrow> {} | Inr c \<Rightarrow> claim_set c)"

definition spec_declares :: "policy_spec \<Rightarrow> declared \<Rightarrow> bool" where
  "spec_declares spec x \<longleftrightarrow>
     (\<exists>e g. expand_manifest (to_policy_manifest spec) = Inr e \<and> from_expanded e (ps_default_owner spec) = Inr g \<and>
        (graph_declares g x \<or> (\<exists>r\<in>set (ps_retirements spec). x = DRetired (rr_role r))))"

section \<open>The claims of a spec\<close>

lemma fset_insert_all [simp]: "fset (insert_all xs s) = set xs \<union> fset s"
  by (induction xs arbitrary: s) (auto simp: insert_all_def)

lemma set_map_filter_iff [simp]: "y \<in> set (List.map_filter f xs) \<longleftrightarrow> (\<exists>x\<in>set xs. f x = Some y)"
  by (force simp: List.map_filter_def)

definition default_role_claims :: "string option \<Rightarrow> default_privilege \<Rightarrow> string set" where
  "default_role_claims owner dp = (if resolved_scope dp = Inr Global then set_option (or_option (dp_owner dp) owner) else {})"

definition default_schema_claims :: "default_privilege \<Rightarrow> string set" where
  "default_schema_claims dp = {s. resolved_scope dp = Inr (SchemaScope s)}"

lemma claim_default_sets:
  "fset (fst (claim_default m dp c)) = default_role_claims (pm_default_owner m) dp \<union> fset (fst c)"
  "fset (snd (claim_default m dp c)) = default_schema_claims dp \<union> fset (snd c)"
  by (cases c; auto simp: claim_default_def default_role_claims_def default_schema_claims_def split: sum.splits option.splits
      elim!: scope_schema.elims)+

lemma claim_defaults_sets:
  "fset (fst (fold (claim_default m) dps c)) = (\<Union>dp\<in>set dps. default_role_claims (pm_default_owner m) dp) \<union> fset (fst c)"
  "fset (snd (fold (claim_default m) dps c)) = (\<Union>dp\<in>set dps. default_schema_claims dp) \<union> fset (snd c)"
  by (induction dps arbitrary: c) (simp_all add: claim_default_sets Un_ac)

lemma membership_of_spec_id [simp]: "membership_of_spec m = m"
  by (cases m) (simp add: membership_of_spec_def map_idI)

lemma manifest_fields [simp]:
  "pm_default_owner (to_policy_manifest spec) = ps_default_owner spec" "pm_schemas (to_policy_manifest spec) = ps_schemas spec"
  "pm_grants (to_policy_manifest spec) = ps_grants spec" "pm_default_privileges (to_policy_manifest spec) = ps_default_privileges spec"
  "pm_retirements (to_policy_manifest spec) = ps_retirements spec" "pm_memberships (to_policy_manifest spec) = ps_memberships spec"
  by (simp_all add: to_policy_manifest_def build_policy_manifest_def map_idI)

lemma claims_exist:
  assumes "expand_manifest (to_policy_manifest spec) = Inr e"
  shows "\<exists>c. ownership_claims_of spec = Inr c"
  using assms by (simp add: ownership_claims_of_def Let_def case_prod_beta)

lemma claims_of_spec:
  assumes "expand_manifest (to_policy_manifest spec) = Inr e" and "ownership_claims_of spec = Inr c"
  shows
    "fset (oc_roles c) = (\<Union>dp\<in>set (ps_default_privileges spec). default_role_claims (ps_default_owner spec) dp) \<union>
       (set (concat (map (\<lambda>m. map ms_name (m_members m)) (ps_memberships spec))) \<union> (set (map m_role (ps_memberships spec)) \<union>
       (set (filter (\<lambda>role. role \<noteq> ''PUBLIC'') (concat (map (\<lambda>dp. List.map_filter dpg_role (dp_grant dp)) (ps_default_privileges spec)))) \<union>
       (set (filter (\<lambda>role. role \<noteq> ''PUBLIC'') (map g_role (ps_grants spec))) \<union>
       (set (map rr_role (ps_retirements spec)) \<union> set (map rd_name (em_roles e)))))))"
    "fset (oc_schemas c) = (\<Union>dp\<in>set (ps_default_privileges spec). default_schema_claims dp) \<union>
       (set (List.map_filter grant_schema_claim (ps_grants spec)) \<union> set (map sb_name (ps_schemas spec)))"
    "fset (oc_public_databases c) = set (List.map_filter (\<lambda>g. ot_name (g_object g))
       (filter (\<lambda>g. ot_object_type (g_object g) = Database \<and> g_role g = ''PUBLIC'') (ps_grants spec)))"
  using assms(2)[symmetric] unfolding ownership_claims_of_def assms(1) Let_def bind_r.simps case_prod_beta sum.inject manifest_fields
  by (simp_all only: ownership_claims.simps claim_defaults_sets manifest_fields fst_conv snd_conv fset_insert_all fset_of_list.rep_eq)

lemma claims_cover:
  assumes "expand_manifest (to_policy_manifest spec) = Inr e" and "ownership_claims_of spec = Inr c"
  shows "r \<in> set (em_roles e) \<Longrightarrow> rd_name r \<in> fset (oc_roles c)"
    "retirement \<in> set (ps_retirements spec) \<Longrightarrow> rr_role retirement \<in> fset (oc_roles c)"
    "x \<in> set (ps_grants spec) \<Longrightarrow> g_role x \<noteq> ''PUBLIC'' \<Longrightarrow> g_role x \<in> fset (oc_roles c)"
    "dp \<in> set (ps_default_privileges spec) \<Longrightarrow> y \<in> set (dp_grant dp) \<Longrightarrow> dpg_role y = Some role \<Longrightarrow> role \<noteq> ''PUBLIC'' \<Longrightarrow>
       role \<in> fset (oc_roles c)"
    "m \<in> set (ps_memberships spec) \<Longrightarrow> m_role m \<in> fset (oc_roles c)"
    "m \<in> set (ps_memberships spec) \<Longrightarrow> member \<in> set (m_members m) \<Longrightarrow> ms_name member \<in> fset (oc_roles c)"
    "dp \<in> set (ps_default_privileges spec) \<Longrightarrow> resolved_scope dp = Inr Global \<Longrightarrow> or_option (dp_owner dp) (ps_default_owner spec) = Some owner \<Longrightarrow>
       owner \<in> fset (oc_roles c)"
    "b \<in> set (ps_schemas spec) \<Longrightarrow> sb_name b \<in> fset (oc_schemas c)"
    "x \<in> set (ps_grants spec) \<Longrightarrow> grant_schema_claim x = Some schema \<Longrightarrow> schema \<in> fset (oc_schemas c)"
    "dp \<in> set (ps_default_privileges spec) \<Longrightarrow> resolved_scope dp = Inr (SchemaScope schema) \<Longrightarrow> schema \<in> fset (oc_schemas c)"
    "x \<in> set (ps_grants spec) \<Longrightarrow> ot_object_type (g_object x) = Database \<Longrightarrow> g_role x = ''PUBLIC'' \<Longrightarrow> ot_name (g_object x) = Some database \<Longrightarrow>
       database \<in> fset (oc_public_databases c)"
  unfolding claims_of_spec[OF assms] by (force simp: default_role_claims_def default_schema_claims_def)+

section \<open>The claims cover what a spec declares\<close>

lemma expand_binding_grants:
  assumes "expand_binding m b p = Inr (r, gs, dps)"
  shows "\<exists>pr :: profile. map_r (expand_profile_grant b p (rd_name r)) (p_grants pr) = Inr gs"
proof -
  obtain pr where "r = expanded_role b p pr (rd_name r)" "map_r (expand_profile_grant b p (rd_name r)) (p_grants pr) = Inr gs"
    using assms by (auto simp: expand_binding_def expanded_role_def Let_def split: option.splits if_splits)
  then show ?thesis by blast
qed

lemma expanded_grant_source:
  assumes "expand_manifest m = Inr e" and "x \<in> set (em_grants e)"
  obtains "x \<in> set (pm_grants m)"
  | b r where "b \<in> set (pm_schemas m)" "r \<in> set (em_roles e)" "g_role x = rd_name r"
      "if ot_object_type (g_object x) = Schema then ot_name (g_object x) = Some (sb_name b) else ot_schema (g_object x) = Some (sb_name b)"
proof -
  from expand_manifest_InrD(7)[OF assms(1)] obtain xs where
    xs: "map_r (\<lambda>(b, p). expand_binding m b p) (binding_pairs m) = Inr xs" and e: "e = assemble_expansion m xs" by blast
  consider (direct) "x \<in> set (pm_grants m)" | (profile) r gs dps where "(r, gs, dps) \<in> set xs" "x \<in> set gs"
    using assms(2) by (auto simp: e assemble_expansion_def)
  then show ?thesis
  proof cases
    case profile
    then obtain b p where b: "b \<in> set (pm_schemas m)" and bp: "expand_binding m b p = Inr (r, gs, dps)"
      using map_r_setD[OF xs profile(1)] by (auto simp: binding_pairs_def)
    have r: "r \<in> set (em_roles e)" using profile(1) by (force simp: e assemble_expansion_def)
    obtain pr :: profile where "map_r (expand_profile_grant b p (rd_name r)) (p_grants pr) = Inr gs" using expand_binding_grants[OF bp] by blast
    from map_r_setD[OF this profile(2)] obtain pg where "expand_profile_grant b p (rd_name r) pg = Inr x" by blast
    then show ?thesis using that(2)[OF b r] by (auto simp: expand_profile_grant_def split: if_splits)
  qed (rule that(1))
qed

lemma expanded_default_source:
  assumes "expand_manifest m = Inr e" and "dp \<in> set (em_default_privileges e)"
  obtains dp0 where "dp0 \<in> set (pm_default_privileges m)" "dp = normalize_owner m dp0"
  | b r where "b \<in> set (pm_schemas m)" "r \<in> set (em_roles e)" "dp_schema dp = Some (sb_name b)" "dp_scope dp = None"
      "\<forall>g\<in>set (dp_grant dp). dpg_role g = Some (rd_name r)"
proof -
  from expand_manifest_InrD(7)[OF assms(1)] obtain xs where
    xs: "map_r (\<lambda>(b, p). expand_binding m b p) (binding_pairs m) = Inr xs" and e: "e = assemble_expansion m xs" by blast
  obtain dp0 where dp: "dp = normalize_owner m dp0"
    and "dp0 \<in> set (pm_default_privileges m) \<or> (\<exists>r gs dps. (r, gs, dps) \<in> set xs \<and> dp0 \<in> set dps)"
    using assms(2) by (auto simp: e assemble_expansion_def) (metis prod.collapse)
  then consider (direct) "dp0 \<in> set (pm_default_privileges m)" | (profile) r gs dps where "(r, gs, dps) \<in> set xs" "dp0 \<in> set dps" by blast
  then show ?thesis
  proof cases
    case profile
    then obtain b p where b: "b \<in> set (pm_schemas m)" and bp: "expand_binding m b p = Inr (r, gs, dps)"
      using map_r_setD[OF xs profile(1)] by (auto simp: binding_pairs_def)
    have r: "r \<in> set (em_roles e)" using profile(1) by (force simp: e assemble_expansion_def)
    show ?thesis using that(2)[OF b r] expand_binding_InrD(5)[OF bp] profile(2) by (auto simp: dp normalize_owner_def)
  qed (use that(1) dp in blast)
qed

lemma claim_set_iff [simp]:
  "ClaimRole r \<in> claim_set c \<longleftrightarrow> r \<in> fset (oc_roles c)" "ClaimSchema s \<in> claim_set c \<longleftrightarrow> s \<in> fset (oc_schemas c)"
  "ClaimPublicDatabase d \<in> claim_set c \<longleftrightarrow> d \<in> fset (oc_public_databases c)"
  by (auto simp: claim_set.simps)

lemma grantee_claims_parse: "grantee_claims (grantee_parse r) = (if r = ''PUBLIC'' then {} else {ClaimRole r})"
  by (simp add: grantee_parse_def PUBLIC_ROLE_def)

lemma grant_locus:
  "locus (DGrant (grant_key_from_manifest x)) =
     (if g_role x = ''PUBLIC'' then {} else {ClaimRole (g_role x)}) \<union>
     (if ot_object_type (g_object x) = Database
      then if g_role x = ''PUBLIC'' then ClaimPublicDatabase ` set_option (ot_name (g_object x)) else {}
      else ClaimSchema ` set_option (grant_schema_claim x))"
  by (cases "ot_object_type (g_object x)")
    (simp_all add: grant_key_from_manifest_def object_claims_def grant_schema_claim_def grantee_parse_def PUBLIC_ROLE_def)

lemma grant_locus_covered:
  assumes e: "expand_manifest (to_policy_manifest spec) = Inr e" and c: "ownership_claims_of spec = Inr c" and x: "x \<in> set (em_grants e)"
  shows "locus (DGrant (grant_key_from_manifest x)) \<subseteq> claim_set c"
  using e x
proof (cases rule: expanded_grant_source)
  case 1
  then have "x \<in> set (ps_grants spec)" by simp
  then show ?thesis unfolding grant_locus using claims_cover(3,9,11)[OF e c] by auto
next
  case (2 b r)
  have "rd_name r \<noteq> ''PUBLIC''" using expansion_checks(1)[OF e] 2(2) by (auto simp: validate_public_reservation_def)
  moreover have "rd_name r \<in> fset (oc_roles c)" "sb_name b \<in> fset (oc_schemas c)" using 2(1,2) claims_cover(1,8)[OF e c] by simp_all
  moreover have "ot_object_type (g_object x) \<noteq> Database \<Longrightarrow> grant_schema_claim x = Some (sb_name b)"
    using 2(4) by (cases "ot_object_type (g_object x)") (simp_all add: grant_schema_claim_def)
  ultimately show ?thesis unfolding grant_locus using 2(3) by auto
qed

lemma normalized_default:
  "dp_grant (normalize_owner m dp) = dp_grant dp" "resolved_scope (normalize_owner m dp) = Inr scope \<longleftrightarrow> resolved_scope dp = Inr scope"
  "default_priv_owner (pm_default_owner m) (normalize_owner m dp) = default_priv_owner (pm_default_owner m) dp"
  by (cases "pm_default_owner m"; auto simp: normalize_owner_def resolved_scope_def default_priv_owner_def
      split: option.splits default_privilege_scope_type.splits)+

lemma default_locus_covered:
  assumes e: "expand_manifest (to_policy_manifest spec) = Inr e" and c: "ownership_claims_of spec = Inr c"
    and src: "sourced (ps_default_owner spec) (em_default_privileges e) ens k p"
  shows "locus (DDefault k) \<subseteq> claim_set c"
proof -
  let ?m = "to_policy_manifest spec" and ?owner = "ps_default_owner spec"
  obtain dp g scope role where dp: "dp \<in> set (em_default_privileges e)" and g: "g \<in> set (dp_grant dp)" and scope: "resolved_scope dp = Inr scope"
    and role: "dpg_role g = Some role" and k: "k = default_key (default_priv_owner ?owner dp) scope (dpg_on_type g) (grantee_parse role)"
    using src unfolding sourced_def by blast
  have locus_k: "locus (DDefault k) = (if role = ''PUBLIC'' then {} else {ClaimRole role}) \<union> scope_claims (default_priv_owner ?owner dp) scope"
    by (simp add: k grantee_claims_parse)
  from e dp show ?thesis
  proof (cases rule: expanded_default_source)
    case (1 dp0)
    have dp0: "dp0 \<in> set (ps_default_privileges spec)" "g \<in> set (dp_grant dp0)" "resolved_scope dp0 = Inr scope"
        "default_priv_owner ?owner dp = default_priv_owner ?owner dp0"
      using 1 g scope normalized_default[of ?m dp0] by simp_all
    have "scope_claims (default_priv_owner ?owner dp0) scope \<subseteq> claim_set c"
    proof (cases scope)
      case Global
      then show ?thesis using claims_cover(7)[OF e c dp0(1)] dp0(3)
        by (cases "or_option (dp_owner dp0) ?owner") (auto simp: default_priv_owner_def)
    next
      case (SchemaScope s)
      then show ?thesis using claims_cover(10)[OF e c dp0(1)] dp0(3) by simp
    qed
    then show ?thesis unfolding locus_k dp0(4) using claims_cover(4)[OF e c dp0(1,2) role] by simp
  next
    case (2 b r)
    then have "scope = SchemaScope (sb_name b)" "role = rd_name r" using scope role g by (auto simp: resolved_scope_def)
    then show ?thesis unfolding locus_k using 2(1,2) claims_cover(1,8)[OF e c] by simp
  qed
qed

lemma declared_edges:
  "edge |\<in>| rg_memberships (fold add_membership ms g) \<Longrightarrow> edge |\<in>| rg_memberships g \<or>
     (\<exists>m\<in>set ms. me_role edge = m_role m \<and> me_member edge \<in> ms_name ` set (m_members m))"
proof (induction ms arbitrary: g)
  case (Cons m ms)
  have one: "edge |\<in>| fold (\<lambda>spec. finsert \<lparr>me_role = r, me_member = ms_name spec, me_inherit = member_inherit spec, me_admin = member_admin spec\<rparr>) specs E \<Longrightarrow>
      edge |\<in>| E \<or> me_role edge = r \<and> me_member edge \<in> ms_name ` set specs" for r specs E
    by (induction specs arbitrary: E) fastforce+
  show ?case using Cons.IH[of "add_membership m g"] Cons.prems one[of "m_role m" "m_members m" "rg_memberships g"]
    by (auto simp: add_membership_def)
qed simp

lemma spec_declares_covered:
  assumes "spec_declares spec x"
  shows "locus x \<subseteq> spec_claims spec"
proof -
  obtain e g where e: "expand_manifest (to_policy_manifest spec) = Inr e" and g: "from_expanded e (ps_default_owner spec) = Inr g"
    and x: "graph_declares g x \<or> (\<exists>r\<in>set (ps_retirements spec). x = DRetired (rr_role r))"
    using assms by (auto simp: spec_declares_def)
  obtain c where c: "ownership_claims_of spec = Inr c" using claims_exist[OF e] by blast
  have "locus x \<subseteq> claim_set c"
  proof (cases x)
    case (DRole r)
    then show ?thesis using x claims_cover(1)[OF e c] by (auto simp: from_expanded_exact(1)[OF g] contains_key_collect_map)
  next
    case (DSchema s)
    have "es_name ` set (em_schemas e) = sb_name ` set (ps_schemas spec)"
      using expand_manifest_InrD(7)[OF e] by (auto simp: assemble_expansion_def expand_schema_def image_image)
    then show ?thesis using DSchema x claims_cover(8)[OF e c] by (auto simp: from_expanded_exact(2)[OF g] contains_key_collect_map image_image)
  next
    case (DGrant k)
    then obtain y where "y \<in> set (em_grants e)" "k = grant_key_from_manifest y"
      using x from_expanded_exact(3,4)[OF g, of k] by auto
    then show ?thesis using DGrant grant_locus_covered[OF e c] by blast
  next
    case (DDefault k)
    then obtain ens p where "sourced (ps_default_owner spec) (em_default_privileges e) ens k p"
      using x from_expanded_exact(5,6)[OF g, of k] by auto
    then show ?thesis using DDefault default_locus_covered[OF e c] by blast
  next
    case (DMember r m)
    have no_edges: "rg_memberships empty_graph = {||}" by (simp add: empty_graph_def)
    have "em_memberships e = ps_memberships spec" using expand_manifest_InrD(7)[OF e] by (auto simp: assemble_expansion_def)
    moreover obtain edge where "edge |\<in>| rg_memberships (fold add_membership (em_memberships e) empty_graph)" "me_role edge = r" "me_member edge = m"
      using DMember x by (auto simp: from_expanded_exact(7)[OF g] declared_members_def)
    ultimately obtain y where "y \<in> set (ps_memberships spec)" "r = m_role y" "m \<in> ms_name ` set (m_members y)"
      using declared_edges[of edge "em_memberships e" empty_graph] no_edges by auto
    then show ?thesis using DMember claims_cover(5,6)[OF e c] by auto
  next
    case (DRetired r)
    then show ?thesis using x claims_cover(2)[OF e c] by auto
  qed
  then show ?thesis using c by (simp add: spec_claims_def)
qed

interpretation policy_claims: claim_scheme spec_claims spec_declares locus
  by unfold_locales (rule spec_declares_covered)

section \<open>Policies that pass the conflict check\<close>

lemma undetected_disjoint:
  assumes "detect_policy_conflict_in_list self (from_connection ns (ps_connection (pp_spec self))) c policies = None"
    and "pp_namespace self = Some ns" and "ownership_claims_of (pp_spec self) = Inr c"
    and "other \<in> set policies" and "pp_namespace other = Some ns'" and "(ns', pp_name other) \<noteq> (ns, pp_name self)"
    and "from_connection ns' (ps_connection (pp_spec other)) = from_connection ns (ps_connection (pp_spec self))"
    and "validate_password_specs (pp_spec other) (pp_name other) = Inr ()"
  shows "spec_claims (pp_spec self) \<inter> spec_claims (pp_spec other) = {}"
proof (cases "ownership_claims_of (pp_spec other)")
  case (Inr c')
  have "conflict_with self ns (from_connection ns (ps_connection (pp_spec self))) c other = None"
    using assms(1,2,4) by (auto simp: detect_policy_conflict_in_list_def Let_def List.map_filter_def filter_empty_conv split: if_splits)
  then have "\<not> claims_overlap c c'" using assms(5-8) Inr by (auto simp: conflict_with_def split: if_splits)
  then show ?thesis using assms(3) Inr by (simp add: spec_claims_def claims_overlap_iff)
qed (simp add: spec_claims_def)

text \<open>
  C24: a policy for which the conflict check reports nothing shares no part of the database with any peer that has the same database
  identity and valid password sources: whatever the two declare (roles, schemas, grants and defaults present or absent, membership
  edges, retirements) lies at disjoint claims. In particular the only facts that both can declare are those that no claim expresses:
  a PUBLIC rule that names neither a schema nor a database, and a global default for PUBLIC of the owner \<open>postgres\<close>.
\<close>

theorem accepted_policies_separate:
  assumes "detect_policy_conflict_in_list self (from_connection ns (ps_connection (pp_spec self))) c policies = None"
    and "pp_namespace self = Some ns" and "ownership_claims_of (pp_spec self) = Inr c"
    and "other \<in> set policies" and "pp_namespace other = Some ns'" and "(ns', pp_name other) \<noteq> (ns, pp_name self)"
    and "from_connection ns' (ps_connection (pp_spec other)) = from_connection ns (ps_connection (pp_spec self))"
    and "validate_password_specs (pp_spec other) (pp_name other) = Inr ()"
    and "spec_declares (pp_spec self) x" and "spec_declares (pp_spec other) y"
  shows "locus x \<inter> locus y = {} \<and> (x = y \<longrightarrow> unclaimable x)"
proof -
  note disjoint = undetected_disjoint[OF assms(1-8)]
  have "locus x \<inter> locus y = {}" by (rule policy_claims.separate[OF disjoint assms(9,10)])
  moreover have "unclaimable x" if "x = y"
    using policy_claims.shared_unclaimed[OF disjoint assms(9)] assms(10) that by (simp add: locus_empty_iff)
  ultimately show ?thesis by blast
qed

definition ex_connection :: connection_spec where
  "ex_connection = \<lparr>cn_secret_ref = Some ''pg'', cn_secret_key = None, cn_params = None, cn_require_physical_identity = None\<rparr>"

definition ex_global_default :: "string option \<Rightarrow> default_privilege_grant \<Rightarrow> default_privilege" where
  "ex_global_default schema grant =
     \<lparr>dp_owner = None, dp_schema = schema,
      dp_scope = (if schema = None then Some \<lparr>dss_scope_type = GlobalType, dss_schema = None\<rparr> else None), dp_grant = [grant]\<rparr>"

definition ex_public_default :: "ensure \<Rightarrow> default_privilege_grant" where
  "ex_public_default ens = \<lparr>dpg_role = Some ''PUBLIC'', dpg_privileges = [Execute], dpg_on_type = Function, dpg_ensure = ens\<rparr>"

definition ex_spec :: "grant list \<Rightarrow> default_privilege list \<Rightarrow> policy_spec" where
  "ex_spec grants defaults =
     \<lparr>ps_connection = ex_connection, ps_interval = ''5m'', ps_suspend = False, ps_mode = ModeApply, ps_reconciliation_mode = Authoritative,
      ps_allow_schema_owner_transfers = False, ps_default_owner = None, ps_role_pattern = None, ps_profiles = fmempty, ps_schemas = [],
      ps_roles = [], ps_grants = grants, ps_default_privileges = defaults, ps_memberships = [], ps_retirements = [], ps_approval = None\<rparr>"

definition ex_named_policy :: "string \<Rightarrow> policy_spec \<Rightarrow> postgres_policy" where
  "ex_named_policy name spec = \<lparr>pp_namespace = Some ''prod'', pp_name = name, pp_spec = spec\<rparr>"

definition ex_schema_grant :: "string \<Rightarrow> string \<Rightarrow> grant" where
  "ex_schema_grant role schema =
     \<lparr>g_role = role, g_privileges = [Usage], g_object = \<lparr>ot_object_type = Schema, ot_schema = None, ot_name = Some schema\<rparr>, g_ensure = Present\<rparr>"

definition ex_schema_key :: "string \<Rightarrow> string \<Rightarrow> grant_key" where
  "ex_schema_key role schema = grant_key_from_manifest (ex_schema_grant role schema)"

definition graph_of_spec :: "policy_spec \<Rightarrow> role_graph option" where
  "graph_of_spec spec =
     (case expand_manifest (to_policy_manifest spec) of
        Inl _ \<Rightarrow> None
      | Inr e \<Rightarrow> (case from_expanded e (ps_default_owner spec) of Inl _ \<Rightarrow> None | Inr g \<Rightarrow> Some g))"

lemma spec_declares_graph:
  assumes "graph_of_spec spec = Some g" and "graph_declares g x"
  shows "spec_declares spec x"
  using assms by (auto simp: graph_of_spec_def spec_declares_def split: sum.splits)

lemma declares_grantI:
  assumes "(case graph_of_spec spec of None \<Rightarrow> False | Some g \<Rightarrow> held_grant g k \<noteq> {})"
  shows "spec_declares spec (DGrant k)"
  using assms spec_declares_graph by (fastforce split: option.splits)

theorem accepted_policies_separate_witness:
  "locus (DGrant (ex_schema_key ''reader'' ''app'')) \<inter> locus (DGrant (ex_schema_key ''PUBLIC'' ''web'')) = {}"
proof -
  let ?self = "ex_named_policy ''a'' (ex_spec [ex_schema_grant ''reader'' ''app''] [])"
  let ?other = "ex_named_policy ''b'' (ex_spec [ex_schema_grant ''PUBLIC'' ''web''] [])"
  have "case ownership_claims_of (pp_spec ?self) of Inl _ \<Rightarrow> False
    | Inr c \<Rightarrow> detect_policy_conflict_in_list ?self (from_connection ''prod'' (ps_connection (pp_spec ?self))) c [?other] = None" by code_simp
  then obtain c where c: "ownership_claims_of (pp_spec ?self) = Inr c"
      "detect_policy_conflict_in_list ?self (from_connection ''prod'' (ps_connection (pp_spec ?self))) c [?other] = None"
    by (auto split: sum.splits)
  have declared: "spec_declares (pp_spec ?self) (DGrant (ex_schema_key ''reader'' ''app''))"
      "spec_declares (pp_spec ?other) (DGrant (ex_schema_key ''PUBLIC'' ''web''))"
    by (rule declares_grantI, code_simp)+
  have facts: "pp_namespace ?self = Some ''prod''" "pp_namespace ?other = Some ''prod''" "(''prod'', pp_name ?other) \<noteq> (''prod'', pp_name ?self)"
      "from_connection ''prod'' (ps_connection (pp_spec ?other)) = from_connection ''prod'' (ps_connection (pp_spec ?self))"
      "validate_password_specs (pp_spec ?other) (pp_name ?other) = Inr ()" "?other \<in> set [?other]"
    by (simp_all add: ex_named_policy_def ex_spec_def validate_password_specs_def)
  show ?thesis
    using accepted_policies_separate[OF c(2) facts(1) c(1) facts(6,2,3,4,5) declared] by blast
qed

section \<open>Rules the claims leave out\<close>

text \<open>
  A global default privilege for PUBLIC without an owner acts as \<open>postgres\<close>, but claims nothing: a policy that asserts it present and one that
  asserts it absent, on the same database, both pass the conflict check.
\<close>

theorem unowned_default_unclaimed:
  "(let k = \<lparr>dk_owner = ''postgres'', dk_scope = Global, dk_on_type = Function, dk_grantee = Public\<rparr>;
        present = ex_named_policy ''a'' (ex_spec [] [ex_global_default None (ex_public_default Present)]);
        absent = ex_named_policy ''b'' (ex_spec [] [ex_global_default None (ex_public_default Absent)]) in
    case (ownership_claims_of (pp_spec present), graph_of_spec (pp_spec present), graph_of_spec (pp_spec absent)) of
      (Inr c, Some g, Some g') \<Rightarrow>
        detect_policy_conflict_in_list present (from_connection ''prod'' ex_connection) c [absent] = None \<and>
        Execute \<in> held_default g k \<and> Execute \<in> absent_default g' k
    | _ \<Rightarrow> False)"
  by code_simp

end
