(* ===== verification/PolicyConnection.thy ===== *)
theory PolicyConnection
  imports PolicySpec EphemeralLaws
begin

text \<open>
  The keys a connection is known by. \<open>identity_key\<close> separates databases for locking and conflict detection, \<open>cache_key\<close> separates
  connection pools. Both are texts joined by NUL bytes; read segment by segment they determine exactly where each part of the
  connection comes from. The validation of connections and password sources is characterised by what it accepts.
\<close>

section \<open>Texts joined by NUL\<close>

definition nul_free :: "string \<Rightarrow> bool" where
  "nul_free s \<longleftrightarrow> CHR 0x00 \<notin> set s"

lemma nul_split:
  assumes "nul_free a" and "nul_free b" and "a @ CHR 0x00 # s = b @ CHR 0x00 # t"
  shows "a = b \<and> s = t"
  using assms
proof (induction a arbitrary: b)
  case Nil
  then show ?case by (cases b) (auto simp: nul_free_def)
next
  case (Cons x a)
  then show ?case by (cases b) (auto simp: nul_free_def)
qed

lemma nul_unsplit: "nul_free a \<Longrightarrow> a \<noteq> b @ CHR 0x00 # s"
  by (auto simp: nul_free_def)

lemma join_str_Cons: "xs \<noteq> [] \<Longrightarrow> join_str sep (x # xs) = x @ sep @ join_str sep xs"
  by (cases xs) simp_all

lemma join_nul_inject:
  assumes "list_all nul_free xs" and "list_all nul_free ys" and "xs \<noteq> []" and "ys \<noteq> []" and "join_str NUL xs = join_str NUL ys"
  shows "xs = ys"
  using assms
proof (induction xs arbitrary: ys)
  case (Cons x xs)
  obtain y ys' where ys: "ys = y # ys'" using Cons.prems(4) by (cases ys) auto
  consider "xs = []" "ys' = []" | "xs = []" "ys' \<noteq> []" | "xs \<noteq> []" "ys' = []" | "xs \<noteq> []" "ys' \<noteq> []" by blast
  then show ?case
  proof cases
    case 4
    have "x @ CHR 0x00 # join_str NUL xs = y @ CHR 0x00 # join_str NUL ys'"
      using Cons.prems(5) 4 by (simp add: ys join_str_Cons NUL_def)
    then have "x = y \<and> join_str NUL xs = join_str NUL ys'" using nul_split[of x y] Cons.prems(1,2) ys by simp
    then show ?thesis using Cons.IH[of ys'] Cons.prems(1,2) 4 ys by simp
  qed (use Cons.prems ys nul_unsplit nul_unsplit[symmetric] in \<open>auto simp: join_str_Cons NUL_def\<close>)
qed simp

section \<open>Where the parts of a connection come from\<close>

datatype field_source = Literal string | FromSecret string string | Unset

definition field_source_of :: "string option \<Rightarrow> secret_key_selector option \<Rightarrow> field_source" where
  "field_source_of literal secret =
     (case literal of Some v \<Rightarrow> Literal v
      | None \<Rightarrow> (case secret of Some sel \<Rightarrow> FromSecret (sks_name sel) (sks_key sel) | None \<Rightarrow> Unset))"

fun source_segments :: "string \<Rightarrow> string \<Rightarrow> field_source \<Rightarrow> string list" where
  "source_segments p unset (Literal v) = [p @ ''literal='' @ v]"
| "source_segments p unset (FromSecret n k) = [p @ ''secret='' @ n, k]"
| "source_segments p unset Unset = [p @ unset]"

lemma source_segments_decode:
  assumes "unset = [] \<or> unset = ''5432''"
  shows "source_segments p unset a @ xs = source_segments p unset b @ ys \<longleftrightarrow> a = b \<and> xs = ys"
  using assms by (cases a; cases b) auto

lemma source_segments_inject:
  assumes "unset = [] \<or> unset = ''5432''"
  shows "source_segments p unset a = source_segments p unset b \<longleftrightarrow> a = b"
  using source_segments_decode[OF assms, of p a "[]" b "[]"] by simp

datatype target_source = UrlTarget string string | ParamsTarget field_source field_source field_source | NoTarget

definition port_source :: "connection_params \<Rightarrow> field_source" where
  "port_source params = field_source_of (map_option show_port (cp_port params)) (cp_port_secret params)"

definition target_source_of :: "connection_spec \<Rightarrow> target_source" where
  "target_source_of c =
     (case cn_secret_ref c of
        Some name \<Rightarrow> UrlTarget name (effective_secret_key c)
      | None \<Rightarrow>
          (case cn_params c of
             Some params \<Rightarrow> ParamsTarget (field_source_of (cp_host params) (cp_host_secret params))
                 (field_source_of (cp_dbname params) (cp_dbname_secret params)) (port_source params)
           | None \<Rightarrow> NoTarget))"

datatype auth_source = NoAuth | GcpAuth string string | AzureAuth

fun auth_source_of :: "connection_auth option \<Rightarrow> auth_source" where
  "auth_source_of None = NoAuth"
| "auth_source_of (Some (GcpWorkloadIdentity impersonate scope)) =
     GcpAuth (unwrap_or impersonate []) (unwrap_or scope DEFAULT_GCP_CLOUD_SQL_LOGIN_SCOPE)"
| "auth_source_of (Some (AzureWorkloadIdentity _)) = AzureAuth"

text \<open>How the pool logs in: user, password, provider authentication, SSL mode and the role set on each connection.\<close>

type_synonym login_source = "field_source \<times> field_source \<times> auth_source \<times> field_source \<times> string"

definition login_source_of :: "connection_spec \<Rightarrow> login_source option" where
  "login_source_of c = map_option (\<lambda>params.
     (field_source_of (cp_username params) (cp_username_secret params), field_source_of (cp_password params) (cp_password_secret params),
      auth_source_of (cp_auth params), field_source_of (cp_ssl_mode params) (cp_ssl_mode_secret params),
      unwrap_or (cp_set_role params) [])) (cn_params c)"

fun target_segments :: "target_source \<Rightarrow> string list" where
  "target_segments (UrlTarget n k) = [n @ ''/'' @ k]"
| "target_segments (ParamsTarget h d p) = ''params'' # source_segments [] [] h @ source_segments [] [] d @ source_segments [] ''5432'' p"
| "target_segments NoTarget = [''invalid-connection'']"

fun auth_segments :: "auth_source \<Rightarrow> string list" where
  "auth_segments NoAuth = [''auth='']"
| "auth_segments (GcpAuth i s) = [''auth=gcp_workload_identity'', ''impersonate='' @ i, ''scope='' @ s]"
| "auth_segments AzureAuth = [''auth=azure_workload_identity'']"

lemma auth_segments_decode: "auth_segments a @ xs = auth_segments b @ ys \<longleftrightarrow> a = b \<and> xs = ys"
  by (cases a; cases b) auto

fun login_segments :: "login_source option \<Rightarrow> string list" where
  "login_segments None = []"
| "login_segments (Some (u, p, a, s, r)) =
     source_segments ''user='' [] u @ source_segments ''pass='' [] p @ auth_segments a @ source_segments ''ssl='' [] s @ [''role='' @ r]"

lemma login_segments_inject: "login_segments a = login_segments b \<longleftrightarrow> a = b"
  by (cases a; cases b) (auto simp: source_segments_decode source_segments_inject auth_segments_decode)

fun slash_free_target :: "target_source \<Rightarrow> bool" where
  "slash_free_target (UrlTarget n k) = (CHR ''/'' \<notin> set n)"
| "slash_free_target _ = True"

lemma slash_split:
  assumes "CHR ''/'' \<notin> set a" and "CHR ''/'' \<notin> set b"
  shows "a @ CHR ''/'' # s = b @ CHR ''/'' # t \<longleftrightarrow> a = b \<and> s = t"
  using assms
proof (induction a arbitrary: b)
  case Nil
  then show ?case by (cases b) auto
next
  case (Cons x a)
  then show ?case by (cases b) auto
qed

lemma target_segments_decode:
  assumes "slash_free_target a" and "slash_free_target b"
  shows "target_segments a @ xs = target_segments b @ ys \<longleftrightarrow> a = b \<and> xs = ys"
proof -
  have "CHR ''/'' \<notin> set ''params''" "CHR ''/'' \<notin> set ''invalid-connection''" by simp_all
  then have no_slash: "''params'' \<noteq> n @ CHR ''/'' # k" "''invalid-connection'' \<noteq> n @ CHR ''/'' # k" for n k
    by (metis in_set_conv_decomp)+
  show ?thesis using assms
    by (cases a; cases b) (auto simp: slash_split source_segments_decode no_slash no_slash[symmetric])
qed

section \<open>The keys determine the sources\<close>

definition nul_free_selector :: "secret_key_selector option \<Rightarrow> bool" where
  "nul_free_selector sel = (case sel of None \<Rightarrow> True | Some s \<Rightarrow> nul_free (sks_name s) \<and> nul_free (sks_key s))"

definition nul_free_option :: "string option \<Rightarrow> bool" where
  "nul_free_option v = (case v of None \<Rightarrow> True | Some s \<Rightarrow> nul_free s)"

definition nul_free_auth :: "connection_auth option \<Rightarrow> bool" where
  "nul_free_auth auth = (case auth of Some (GcpWorkloadIdentity impersonate scope) \<Rightarrow> nul_free_option impersonate \<and> nul_free_option scope | _ \<Rightarrow> True)"

definition nul_free_params :: "connection_params \<Rightarrow> bool" where
  "nul_free_params p \<longleftrightarrow>
     list_all nul_free_option [cp_host p, cp_dbname p, cp_username p, cp_password p, cp_ssl_mode p, cp_set_role p] \<and>
     list_all nul_free_selector [cp_host_secret p, cp_port_secret p, cp_dbname_secret p, cp_username_secret p, cp_password_secret p,
       cp_ssl_mode_secret p] \<and> nul_free_auth (cp_auth p)"

text \<open>No NUL byte in any text of the connection, and no slash in the name of the Secret of a connection URL.\<close>

definition plain_connection :: "connection_spec \<Rightarrow> bool" where
  "plain_connection c \<longleftrightarrow>
     (case cn_secret_ref c of None \<Rightarrow> True | Some name \<Rightarrow> nul_free name \<and> CHR ''/'' \<notin> set name \<and> nul_free (effective_secret_key c)) \<and>
     (case cn_params c of None \<Rightarrow> True | Some p \<Rightarrow> nul_free_params p)"

lemma nul_free_simps [simp]:
  "nul_free []" "nul_free (x # s) \<longleftrightarrow> x \<noteq> CHR 0x00 \<and> nul_free s" "nul_free (s @ t) \<longleftrightarrow> nul_free s \<and> nul_free t"
  by (auto simp: nul_free_def)

lemma nul_free_port: "nul_free (show_port p)"
proof -
  have "\<not> is_ascii_digit (CHR 0x00)" by (simp add: is_ascii_digit_def)
  then show ?thesis using show_nat_digits[of "unat p"] by (auto simp: show_port_def nul_free_def list_all_iff)
qed

lemma source_segments_nul_free:
  assumes "nul_free_option literal" and "nul_free_selector secret" and "nul_free p" and "nul_free unset"
  shows "list_all nul_free (source_segments p unset (field_source_of literal secret))"
  using assms by (auto simp: nul_free_option_def nul_free_selector_def field_source_of_def split: option.splits)

lemma target_segments_nul_free:
  assumes "plain_connection c"
  shows "list_all nul_free (target_segments (target_source_of c))" "slash_free_target (target_source_of c)"
proof -
  have port: "nul_free_option (map_option show_port p)" for p by (cases p) (simp_all add: nul_free_option_def nul_free_port)
  show "list_all nul_free (target_segments (target_source_of c))" "slash_free_target (target_source_of c)"
    using assms port
    by (auto simp: plain_connection_def target_source_of_def port_source_def nul_free_params_def source_segments_nul_free split: option.splits)
qed

lemma login_segments_nul_free:
  assumes "plain_connection c"
  shows "list_all nul_free (login_segments (login_source_of c))"
proof (cases "cn_params c")
  case (Some p)
  then have plain: "nul_free_params p" using assms by (simp add: plain_connection_def)
  have "list_all nul_free (auth_segments (auth_source_of (cp_auth p)))"
    using plain by (cases "cp_auth p" rule: auth_source_of.cases)
      (auto simp: nul_free_params_def nul_free_auth_def nul_free_option_def DEFAULT_GCP_CLOUD_SQL_LOGIN_SCOPE_def elim!: unwrap_or.elims split: option.splits)
  moreover have "nul_free (unwrap_or (cp_set_role p) [])"
    using plain by (cases "cp_set_role p") (simp_all add: nul_free_params_def nul_free_option_def)
  ultimately show ?thesis using Some plain by (simp add: login_source_of_def nul_free_params_def source_segments_nul_free)
qed (simp add: login_source_of_def)

lemma target_segments_nonempty [simp]: "target_segments t \<noteq> []"
  by (cases t) simp_all

lemma join_append: "xs \<noteq> [] \<Longrightarrow> ys \<noteq> [] \<Longrightarrow> join_str sep (xs @ ys) = join_str sep xs @ sep @ join_str sep ys"
proof (induction xs)
  case (Cons x xs)
  then show ?case by (cases "xs = []") (auto simp: join_str_Cons)
qed simp

lemma join_source:
  "join_str NUL (source_segments p unset (field_source_of literal secret)) =
     p @ unwrap_or (or_option (map_option (\<lambda>v. ''literal='' @ v) literal) (map_option secret_repr secret)) unset"
  by (simp add: field_source_of_def secret_repr_def NUL_def split: option.splits)

lemma field_identity_repr_unwrap:
  "field_identity_repr literal secret = unwrap_or (or_option (map_option (\<lambda>v. ''literal='' @ v) literal) (map_option secret_repr secret)) []"
  by (simp add: field_identity_repr_def split: option.splits)

lemma source_segments_nonempty [simp]: "source_segments p unset a \<noteq> []"
  by (cases a) simp_all

lemma auth_segments_nonempty [simp]: "auth_segments a \<noteq> []"
  by (cases a) simp_all

lemma identity_key_segments: "identity_key c = join_str NUL (target_segments (target_source_of c))"
  by (simp add: identity_key_def target_source_of_def port_source_def field_identity_repr_unwrap join_str_Cons join_append join_source option.map_comp comp_def
      split: option.splits)

lemma join_auth: "join_str NUL (auth_segments (auth_source_of auth)) = ''auth='' @ unwrap_or (map_option auth_cache_key auth) []"
  by (cases auth rule: auth_source_of.cases) (simp_all add: NUL_def)

lemma cache_key_segments:
  "cache_key namespace c = namespace @ ''/'' @ join_str NUL (target_segments (target_source_of c) @ login_segments (login_source_of c))"
  by (simp add: cache_key_def login_source_of_def identity_key_segments join_append join_source join_auth join_str_Cons field_identity_repr_unwrap Let_def
      split: option.splits)

text \<open>
  C26: the keys of a connection are exact. For connections without NUL bytes, two have the same database identity iff they are in the same
  namespace and take host, database name and port from the same sources (in URL mode, the same Secret and key); they share a pool iff
  moreover user, password, authentication, SSL mode and session role come from the same sources. So a change of any of these opens a new
  pool, and policies that differ in credentials only are still checked against each other.
\<close>

theorem connection_keys_exact:
  assumes "plain_connection c" and "plain_connection c'" and "CHR ''/'' \<notin> set ns" and "CHR ''/'' \<notin> set ns'"
  shows "(from_connection ns c = from_connection ns' c' \<longleftrightarrow> ns = ns' \<and> target_source_of c = target_source_of c') \<and>
    (cache_key ns c = cache_key ns' c' \<longleftrightarrow>
       ns = ns' \<and> target_source_of c = target_source_of c' \<and> login_source_of c = login_source_of c')"
proof -
  let ?t = "target_segments (target_source_of c)" and ?t' = "target_segments (target_source_of c')"
  let ?l = "login_segments (login_source_of c)" and ?l' = "login_segments (login_source_of c')"
  note plain = target_segments_nul_free[OF assms(1)] target_segments_nul_free[OF assms(2)]
    login_segments_nul_free[OF assms(1)] login_segments_nul_free[OF assms(2)]
  have decode: "?t @ xs = ?t' @ ys \<longleftrightarrow> target_source_of c = target_source_of c' \<and> xs = ys" for xs ys
    by (rule target_segments_decode[OF plain(2,4)])
  have "join_str NUL ?t = join_str NUL ?t' \<longleftrightarrow> target_source_of c = target_source_of c'"
    using join_nul_inject[of ?t ?t'] plain decode[of "[]" "[]"] by auto
  moreover have "join_str NUL (?t @ ?l) = join_str NUL (?t' @ ?l') \<longleftrightarrow>
      target_source_of c = target_source_of c' \<and> login_source_of c = login_source_of c'"
    using join_nul_inject[of "?t @ ?l" "?t' @ ?l'"] plain decode[of ?l ?l'] by (auto simp: login_segments_inject)
  ultimately show ?thesis
    by (auto simp: from_connection_def cache_key_segments identity_key_segments slash_split[OF assms(3,4)])
qed

text \<open>
  A port that is left out means 5432, yet it is not the same identity as the port 5432 written out: two policies for one database,
  one of which spells the port, are not checked against each other and do not share the lock.
\<close>

definition ex_params :: "16 word option \<Rightarrow> connection_spec" where
  "ex_params port =
     \<lparr>cn_secret_ref = None, cn_secret_key = None,
      cn_params = Some \<lparr>cp_host = Some ''db'', cp_host_secret = None, cp_port = port, cp_port_secret = None, cp_dbname = Some ''app'',
        cp_dbname_secret = None, cp_username = Some ''op'', cp_username_secret = None, cp_password = None,
        cp_password_secret = Some \<lparr>sks_name = ''pg'', sks_key = ''pw''\<rparr>, cp_auth = None, cp_ssl_mode = Some ''require'',
        cp_ssl_mode_secret = None, cp_set_role = None\<rparr>,
      cn_require_physical_identity = None\<rparr>"

theorem default_port_splits_identity:
  "validate_connection (ex_params None) = Inr () \<and> validate_connection (ex_params (Some 5432)) = Inr () \<and>
   from_connection ''prod'' (ex_params None) \<noteq> from_connection ''prod'' (ex_params (Some 5432))"
  by code_simp

theorem connection_keys_exact_witness:
  "from_connection ''prod'' (ex_params None) \<noteq> from_connection ''prod'' (ex_params (Some 5432))"
proof -
  have "plain_connection (ex_params None)" "plain_connection (ex_params (Some 5432))" by code_simp+
  moreover have "target_source_of (ex_params None) \<noteq> target_source_of (ex_params (Some 5432))" by code_simp
  moreover have "CHR ''/'' \<notin> set ''prod''" by simp
  ultimately show ?thesis using connection_keys_exact[of "ex_params None" "ex_params (Some 5432)" "''prod''" "''prod''"] by blast
qed

end
