(* ===== verification/GeneratedSecrets.thy ===== *)
theory GeneratedSecrets
  imports PolicySpec Reconciler
begin

text \<open>
  Secrets of generated passwords (\<open>crates/pgroles-operator/src/password.rs\<close>). A replica of the operator reads the Secret, creates it when
  it is missing and reads it again when another replica was first. The Kubernetes API, the random numbers, the clock and the SCRAM
  verifier are parameters; between two calls of one replica the others may act, so that runs are interleavings of the calls.
\<close>

section \<open>Passwords\<close>

definition DEFAULT_PASSWORD_LENGTH :: "32 word" where "DEFAULT_PASSWORD_LENGTH = 32"

definition CHARSET :: string where
  "CHARSET = ''ABCDEFGHIJKLMNOPQRSTUVWXYZabcdefghijklmnopqrstuvwxyz0123456789!@#$%^&*-_=+''"

definition clamp :: "32 word \<Rightarrow> 32 word \<Rightarrow> 32 word \<Rightarrow> 32 word" where
  "clamp lo hi n = (if n < lo then lo else if hi < n then hi else n)"

text \<open>\<open>draw i\<close> is the \<open>i\<close>-th number drawn from \<open>0..CHARSET.len()\<close>.\<close>

definition generate_password :: "(nat \<Rightarrow> nat) \<Rightarrow> 32 word \<Rightarrow> string" where
  "generate_password draw n = map (\<lambda>i. CHARSET ! draw i) [0..<unat (clamp MIN_PASSWORD_LENGTH MAX_PASSWORD_LENGTH n)]"

text \<open>\<open>String::from_utf8\<close>: the well-formed byte sequences of Unicode.\<close>

definition byte_in :: "nat \<Rightarrow> nat \<Rightarrow> char \<Rightarrow> bool" where
  "byte_in lo hi b = (lo \<le> (of_char b :: nat) \<and> (of_char b :: nat) \<le> hi)"

abbreviation tail_byte :: "char \<Rightarrow> bool" where "tail_byte \<equiv> byte_in 0x80 0xBF"

fun is_utf8 :: "string \<Rightarrow> bool" where
  "is_utf8 [] = True"
| "is_utf8 (a # s) =
     (if byte_in 0x00 0x7F a then is_utf8 s
      else case s of
        [] \<Rightarrow> False
      | b # s \<Rightarrow>
          if byte_in 0xC2 0xDF a then tail_byte b \<and> is_utf8 s
          else (case s of
            [] \<Rightarrow> False
          | c # s \<Rightarrow>
              if byte_in 0xE0 0xEF a
              then byte_in (if byte_in 0xE0 0xE0 a then 0xA0 else 0x80) (if byte_in 0xED 0xED a then 0x9F else 0xBF) b \<and> tail_byte c \<and> is_utf8 s
              else (case s of
                [] \<Rightarrow> False
              | d # s \<Rightarrow>
                  byte_in 0xF0 0xF4 a \<and>
                  byte_in (if byte_in 0xF0 0xF0 a then 0x90 else 0x80) (if byte_in 0xF4 0xF4 a then 0x8F else 0xBF) b \<and>
                  tail_byte c \<and> tail_byte d \<and> is_utf8 s)))"

section \<open>Secrets\<close>

text \<open>Of an owner reference the record keeps kind, uid and controller; the reference also names the policy.\<close>

record kube_secret =
  ks_name :: string
  ks_namespace :: string
  ks_owner_references :: "owner_reference list"
  ks_labels :: "(string, string) btreemap"
  ks_annotations :: "(string, string) btreemap"
  ks_data :: "(string, string) btreemap option"
  ks_resource_version :: "string option"

record generated_password_secret =
  gp_password :: string
  gp_source_version :: string

definition secret_source_version :: "kube_secret \<Rightarrow> string \<Rightarrow> string \<Rightarrow> string" where
  "secret_source_version secret secret_name secret_key =
     secret_name @ '':'' @ secret_key @ '':'' @ unwrap_or (ks_resource_version secret) ''unknown''"

definition missing_generated_secret_source_version :: "string \<Rightarrow> string \<Rightarrow> string" where
  "missing_generated_secret_source_version secret_name secret_key = secret_name @ '':'' @ secret_key @ '':missing''"

definition generated_password_from_existing_secret ::
  "kube_secret \<Rightarrow> string \<Rightarrow> string \<Rightarrow> password_error + generated_password_secret" where
  "generated_password_from_existing_secret secret secret_name secret_key =
     (case ks_data secret of
        None \<Rightarrow> Inl (PwMissingKey secret_name secret_key)
      | Some entries \<Rightarrow>
          (case fmlookup entries secret_key of
             None \<Rightarrow> Inl (PwMissingKey secret_name secret_key)
           | Some password \<Rightarrow>
               if \<not> is_utf8 password then Inl (PwMissingKey secret_name secret_key)
               else if password = [] then Inl (PwEmptyPassword secret_name secret_key)
               else Inr \<lparr>gp_password = password, gp_source_version = secret_source_version secret secret_name secret_key\<rparr>))"

text \<open>What one call of \<open>ensure_generated_secret\<close> is about; the random numbers and the clock are those of the calling replica.\<close>

record ensure_request =
  en_namespace :: string
  en_policy :: string
  en_policy_uid :: "string option"
  en_role :: string
  en_spec :: generate_password_spec
  en_draw :: "nat \<Rightarrow> nat"
  en_now :: string

definition request_secret_name :: "ensure_request \<Rightarrow> string" where
  "request_secret_name r = generated_secret_name (en_policy r) (en_role r) (en_spec r)"

definition request_secret_key :: "ensure_request \<Rightarrow> string" where
  "request_secret_key r = generated_secret_key (en_spec r)"

definition request_password :: "ensure_request \<Rightarrow> string" where
  "request_password r = generate_password (en_draw r) (unwrap_or (gps_length (en_spec r)) DEFAULT_PASSWORD_LENGTH)"

definition generated_secret :: "(string \<Rightarrow> string) \<Rightarrow> ensure_request \<Rightarrow> kube_secret" where
  "generated_secret compute_verifier r =
     \<lparr>ks_name = request_secret_name r, ks_namespace = en_namespace r,
      ks_owner_references = [\<lparr>or_kind = ''PostgresPolicy'', or_uid = unwrap_or (en_policy_uid r) [], or_controller = Some True\<rparr>],
      ks_labels = collect_map [(''app.kubernetes.io/managed-by'', ''pgroles-operator''), (''pgroles.io/policy'', en_policy r),
        (''pgroles.io/role'', en_role r)],
      ks_annotations = collect_map [(''pgroles.io/generated-at'', en_now r)],
      ks_data = Some (collect_map [(request_secret_key r, request_password r), (GENERATED_VERIFIER_KEY, compute_verifier (request_password r))]),
      ks_resource_version = None\<rparr>"

section \<open>Ensuring a Secret\<close>

text \<open>
  The API of the cluster, over a type of its states: \<open>get_opt\<close>, \<open>get\<close> and \<open>create\<close> of Secrets in the namespace of the policy.
\<close>

record 's secret_api =
  sa_get_opt :: "'s \<Rightarrow> string \<Rightarrow> kube_error + kube_secret option"
  sa_get :: "'s \<Rightarrow> string \<Rightarrow> kube_error + kube_secret"
  sa_create :: "'s \<Rightarrow> kube_secret \<Rightarrow> 's \<times> (kube_error + kube_secret)"

text \<open>A call in progress: before the first read, before the creation, before the read after a conflict, or finished.\<close>

datatype ensure_phase = EnsureRead | EnsureCreate | EnsureReread | EnsureDone "password_error + generated_password_secret"

definition kube_failure :: "ensure_request \<Rightarrow> kube_error \<Rightarrow> ensure_phase" where
  "kube_failure r err = EnsureDone (Inl (PwKubeApi (request_secret_name r) err))"

definition existing_secret :: "ensure_request \<Rightarrow> kube_secret \<Rightarrow> ensure_phase" where
  "existing_secret r secret = EnsureDone (generated_password_from_existing_secret secret (request_secret_name r) (request_secret_key r))"

definition after_get_opt :: "ensure_request \<Rightarrow> kube_error + kube_secret option \<Rightarrow> ensure_phase" where
  "after_get_opt r response =
     (case response of
        Inl err \<Rightarrow> kube_failure r err
      | Inr None \<Rightarrow> EnsureCreate
      | Inr (Some existing) \<Rightarrow> existing_secret r existing)"

definition after_create :: "ensure_request \<Rightarrow> kube_error + kube_secret \<Rightarrow> ensure_phase" where
  "after_create r response =
     (case response of
        Inr created \<Rightarrow> EnsureDone (Inr \<lparr>gp_password = request_password r,
            gp_source_version = secret_source_version created (request_secret_name r) (request_secret_key r)\<rparr>)
      | Inl err \<Rightarrow> if err = KubeApiStatus 409 then EnsureReread else kube_failure r err)"

definition after_get :: "ensure_request \<Rightarrow> kube_error + kube_secret \<Rightarrow> ensure_phase" where
  "after_get r response = (case response of Inl err \<Rightarrow> kube_failure r err | Inr existing \<Rightarrow> existing_secret r existing)"

fun ensure_step :: "'s secret_api \<Rightarrow> (string \<Rightarrow> string) \<Rightarrow> ensure_request \<Rightarrow> 's \<Rightarrow> ensure_phase \<Rightarrow> 's \<times> ensure_phase" where
  "ensure_step api verifier r s EnsureRead = (s, after_get_opt r (sa_get_opt api s (request_secret_name r)))"
| "ensure_step api verifier r s EnsureCreate =
     (let (s', response) = sa_create api s (generated_secret verifier r) in (s', after_create r response))"
| "ensure_step api verifier r s EnsureReread = (s, after_get r (sa_get api s (request_secret_name r)))"
| "ensure_step api verifier r s (EnsureDone result) = (s, EnsureDone result)"

text \<open>A call that runs without interference makes at most three calls of the API.\<close>

definition ensure_generated_secret ::
  "'s secret_api \<Rightarrow> (string \<Rightarrow> string) \<Rightarrow> ensure_request \<Rightarrow> 's \<Rightarrow> 's \<times> ensure_phase" where
  "ensure_generated_secret api verifier r s = ((\<lambda>(s, phase). ensure_step api verifier r s phase) ^^ 3) (s, EnsureRead)"

definition get_generated_secret :: "'s secret_api \<Rightarrow> string \<Rightarrow> string \<Rightarrow> generate_password_spec \<Rightarrow> 's \<Rightarrow>
    password_error + generated_password_secret option" where
  "get_generated_secret api policy_name role_name spec s =
     (let secret_name = generated_secret_name policy_name role_name spec; secret_key = generated_secret_key spec in
      case sa_get_opt api s secret_name of
        Inl err \<Rightarrow> Inl (PwKubeApi secret_name err)
      | Inr None \<Rightarrow> Inr None
      | Inr (Some existing) \<Rightarrow>
          (case generated_password_from_existing_secret existing secret_name secret_key of
             Inl err \<Rightarrow> Inl err | Inr found \<Rightarrow> Inr (Some found)))"

section \<open>A single call\<close>

lemma charset_ascii: "b \<in> set CHARSET \<Longrightarrow> byte_in 0x00 0x7F b"
proof -
  have "list_all (byte_in 0x00 0x7F) CHARSET" by code_simp
  then show "b \<in> set CHARSET \<Longrightarrow> byte_in 0x00 0x7F b" by (simp add: list_all_iff)
qed

lemma ascii_is_utf8: "list_all (byte_in 0x00 0x7F) s \<Longrightarrow> is_utf8 s"
  by (induction s) simp_all

lemma clamp_bounds: "unat (clamp MIN_PASSWORD_LENGTH MAX_PASSWORD_LENGTH n) \<in> {16..128}"
  by (auto simp: clamp_def MIN_PASSWORD_LENGTH_def MAX_PASSWORD_LENGTH_def not_less word_le_nat_alt)

lemma generate_password_ok:
  assumes "\<And>i. draw i < length CHARSET"
  shows "is_utf8 (generate_password draw n)" "length (generate_password draw n) \<in> {16..128}"
    "MIN_PASSWORD_LENGTH \<le> n \<Longrightarrow> n \<le> MAX_PASSWORD_LENGTH \<Longrightarrow> length (generate_password draw n) = unat n"
proof -
  have "CHARSET ! draw i \<in> set CHARSET" for i using assms by simp
  then have "list_all (byte_in 0x00 0x7F) (generate_password draw n)"
    using charset_ascii by (simp add: generate_password_def list_all_iff)
  then show "is_utf8 (generate_password draw n)" by (rule ascii_is_utf8)
  show "length (generate_password draw n) \<in> {16..128}" using clamp_bounds[of n] by (simp add: generate_password_def)
  show "MIN_PASSWORD_LENGTH \<le> n \<Longrightarrow> n \<le> MAX_PASSWORD_LENGTH \<Longrightarrow> length (generate_password draw n) = unat n"
    by (auto simp: generate_password_def clamp_def not_less)
qed

lemma ensure_finishes: "\<exists>s' result. ensure_generated_secret api verifier r s = (s', EnsureDone result)"
proof -
  have read: "\<exists>result. after_get r resp = EnsureDone result" for resp
    by (cases resp) (simp_all add: after_get_def kube_failure_def existing_secret_def)
  have create: "after_create r resp = EnsureReread \<or> (\<exists>result. after_create r resp = EnsureDone result)" for resp
    by (cases resp) (simp_all add: after_create_def kube_failure_def)
  have first: "after_get_opt r resp = EnsureCreate \<or> (\<exists>result. after_get_opt r resp = EnsureDone result)" for resp
    by (auto simp: after_get_opt_def kube_failure_def existing_secret_def split: sum.splits option.splits)
  obtain s1 resp where c: "sa_create api s (generated_secret verifier r) = (s1, resp)" by fastforce
  show ?thesis
    using first[of "sa_get_opt api s (request_secret_name r)"] create[of resp] read c
    by (auto simp: ensure_generated_secret_def eval_nat_numeral)
qed

text \<open>The key of the password is not the key of the verifier, so the created Secret reads back as the password that was generated.\<close>

lemma created_secret_reads_back:
  assumes "validate_generate (en_policy r) (en_role r) (en_spec r) = Inr ()" and "\<And>i. en_draw r i < length CHARSET"
    and "ks_data secret = ks_data (generated_secret verifier r)"
  shows "existing_secret r secret = after_create r (Inr secret)"
proof -
  have key: "request_secret_key r \<noteq> GENERATED_VERIFIER_KEY"
    using assms(1) by (auto simp: validate_generate_def request_secret_key_def Let_def split: if_splits)
  have "is_utf8 (request_password r)" "request_password r \<noteq> []"
    using generate_password_ok(1,2)[of "en_draw r" "unwrap_or (gps_length (en_spec r)) DEFAULT_PASSWORD_LENGTH", OF assms(2)]
    by (auto simp: request_password_def)
  then show ?thesis using key assms(3)
    by (simp add: existing_secret_def generated_password_from_existing_secret_def generated_secret_def after_create_def lookup_collect_map)
qed

section \<open>Replicas that race for a Secret\<close>

text \<open>
  What the code relies on of the API: a read that returns a Secret returns the one the cluster holds under the name, a creation
  that succeeds leaves the Secret with the data that was sent and returns it, and no creation replaces a Secret that exists. Reads and
  creations may fail at any time, and a creation that took effect may still report an error.
\<close>

definition faithful_api :: "'s secret_api \<Rightarrow> ('s \<Rightarrow> string \<Rightarrow> kube_secret option) \<Rightarrow> bool" where
  "faithful_api api held \<longleftrightarrow>
     (\<forall>s n x. sa_get_opt api s n = Inr (Some x) \<longrightarrow> held s n = Some x) \<and>
     (\<forall>s n x. sa_get api s n = Inr x \<longrightarrow> held s n = Some x) \<and>
     (\<forall>s new s' x. sa_create api s new = (s', Inr x) \<longrightarrow> held s' (ks_name new) = Some x \<and> ks_data x = ks_data new) \<and>
     (\<forall>s new s' response n x. sa_create api s new = (s', response) \<longrightarrow> held s n = Some x \<longrightarrow> held s' n = Some x)"

lemma faithful_apiD:
  assumes "faithful_api api held"
  shows "sa_get_opt api s n = Inr (Some x) \<Longrightarrow> held s n = Some x" "sa_get api s n = Inr x \<Longrightarrow> held s n = Some x"
    "sa_create api s new = (s', Inr x) \<Longrightarrow> held s' (ks_name new) = Some x \<and> ks_data x = ks_data new"
    "sa_create api s new = (s', response) \<Longrightarrow> held s n = Some x \<Longrightarrow> held s' n = Some x"
  using assms unfolding faithful_api_def by metis+

text \<open>
  The replicas \<open>i\<close> run calls \<open>request i\<close>; a step is one API call of one replica, or anything else that keeps the Secrets the cluster holds.
\<close>

inductive ensure_run ::
  "'s secret_api \<Rightarrow> ('s \<Rightarrow> string \<Rightarrow> kube_secret option) \<Rightarrow> (string \<Rightarrow> string) \<Rightarrow> (nat \<Rightarrow> ensure_request) \<Rightarrow> 's \<Rightarrow> (nat \<Rightarrow> ensure_phase) \<Rightarrow> bool"
  for api held verifier request where
  start: "ensure_run api held verifier request s (\<lambda>_. EnsureRead)"
| replica: "ensure_run api held verifier request s phases \<Longrightarrow> ensure_step api verifier (request i) s (phases i) = (s', phase) \<Longrightarrow>
    ensure_run api held verifier request s' (phases(i := phase))"
| others: "ensure_run api held verifier request s phases \<Longrightarrow> (\<And>n x. held s n = Some x \<Longrightarrow> held s' n = Some x) \<Longrightarrow>
    ensure_run api held verifier request s' phases"

definition agrees :: "('s \<Rightarrow> string \<Rightarrow> kube_secret option) \<Rightarrow> ensure_request \<Rightarrow> 's \<Rightarrow> ensure_phase \<Rightarrow> bool" where
  "agrees held r s phase \<longleftrightarrow>
     (\<forall>found. phase = EnsureDone (Inr found) \<longrightarrow> (\<exists>x. held s (request_secret_name r) = Some x \<and> existing_secret r x = phase))"

lemma agrees_step:
  assumes api: "faithful_api api held" and "agrees held r s phase" and step: "ensure_step api verifier r s phase = (s', phase')"
    and ok: "validate_generate (en_policy r) (en_role r) (en_spec r) = Inr ()" "\<And>i. en_draw r i < length CHARSET"
  shows "agrees held r s' phase'" and "held s n = Some x \<Longrightarrow> held s' n = Some x"
proof -
  show "agrees held r s' phase'"
  proof (cases phase)
    case EnsureRead
    then show ?thesis using step faithful_apiD(1)[OF api]
      by (auto simp: agrees_def after_get_opt_def kube_failure_def split: sum.splits option.splits)
  next
    case EnsureReread
    then show ?thesis using step faithful_apiD(2)[OF api]
      by (auto simp: agrees_def after_get_def kube_failure_def split: sum.splits)
  next
    case EnsureCreate
    then obtain response where create: "sa_create api s (generated_secret verifier r) = (s', response)" "phase' = after_create r response"
      using step by (auto split: prod.splits)
    show ?thesis
    proof (cases response)
      case (Inr x)
      then have "held s' (request_secret_name r) = Some x" "ks_data x = ks_data (generated_secret verifier r)"
        using faithful_apiD(3)[OF api, of s "generated_secret verifier r" s' x] create by (auto simp: generated_secret_def)
      then show ?thesis using created_secret_reads_back[OF ok] create(2) Inr by (auto simp: agrees_def)
    qed (use create(2) in \<open>auto simp: agrees_def after_create_def kube_failure_def split: if_splits\<close>)
  qed (use assms(2) step in \<open>auto simp: agrees_def\<close>)
  show "held s n = Some x \<Longrightarrow> held s' n = Some x"
    using step faithful_apiD(4)[OF api] by (cases phase) (auto split: prod.splits)
qed

lemma run_agrees:
  assumes "ensure_run api held verifier request s phases" and "faithful_api api held"
    and "\<And>i. validate_generate (en_policy (request i)) (en_role (request i)) (en_spec (request i)) = Inr ()"
    and "\<And>i n. en_draw (request i) n < length CHARSET"
  shows "agrees held (request i) s (phases i)"
  using assms(1)
proof (induction arbitrary: i)
  case (replica s phases j s' phase)
  note step = agrees_step[OF assms(2) replica.IH replica.hyps(2) assms(3,4)]
  show ?case
  proof (cases "i = j")
    case False
    then show ?thesis using replica.IH[of i] step(2) by (fastforce simp: agrees_def)
  qed (use step(1) in simp)
next
  case (others s phases s')
  then show ?case by (fastforce simp: agrees_def)
qed (simp add: agrees_def)

text \<open>
  C25: replicas agree on a generated password. However the API calls of any number of replicas interleave, and whichever of them fail,
  all calls that succeed for one Secret return the same password and source version, and these are what the Secret that the cluster
  holds reads back as; the password sources have passed validation, and nobody else edits or deletes the Secret.
\<close>

theorem generated_password_agreed:
  assumes "ensure_run api held verifier request s phases" and "faithful_api api held"
    and "\<And>i. validate_generate (en_policy (request i)) (en_role (request i)) (en_spec (request i)) = Inr ()"
    and "\<And>i n. en_draw (request i) n < length CHARSET"
    and "\<And>i. request_secret_name (request i) = name" and "\<And>i. request_secret_key (request i) = key"
    and "phases i = EnsureDone (Inr a)" and "phases j = EnsureDone (Inr b)"
  shows "a = b \<and> (\<exists>x. held s name = Some x \<and> generated_password_from_existing_secret x name key = Inr a)"
  using run_agrees[OF assms(1-4), of i] run_agrees[OF assms(1-4), of j] assms(5-8)
  by (auto simp: agrees_def existing_secret_def)

definition ex_api :: "(string, kube_secret) fmap secret_api" where
  "ex_api =
     \<lparr>sa_get_opt = (\<lambda>s n. Inr (fmlookup s n)),
      sa_get = (\<lambda>s n. case fmlookup s n of Some x \<Rightarrow> Inr x | None \<Rightarrow> Inl (KubeApiStatus 404)),
      sa_create = (\<lambda>s new. case fmlookup s (ks_name new) of
          Some _ \<Rightarrow> (s, Inl (KubeApiStatus 409))
        | None \<Rightarrow> (let x = new\<lparr>ks_resource_version := Some ''7''\<rparr> in (fmupd (ks_name new) x s, Inr x)))\<rparr>"

lemma ex_api_faithful: "faithful_api ex_api fmlookup"
  by (auto simp: faithful_api_def ex_api_def Let_def split: option.splits)

definition ex_ensure :: "nat \<Rightarrow> ensure_request" where
  "ex_ensure i =
     \<lparr>en_namespace = ''prod'', en_policy = ''main'', en_policy_uid = None, en_role = ''app'',
      en_spec = \<lparr>gps_length = Some 16, gps_secret_name = None, gps_secret_key = None\<rparr>, en_draw = (\<lambda>_. min i 1), en_now = ''now''\<rparr>"

fun run_schedule :: "'s secret_api \<Rightarrow> (string \<Rightarrow> string) \<Rightarrow> (nat \<Rightarrow> ensure_request) \<Rightarrow> nat list \<Rightarrow> 's \<Rightarrow> (nat \<Rightarrow> ensure_phase) \<Rightarrow> 's \<times> (nat \<Rightarrow> ensure_phase)" where
  "run_schedule api verifier request [] s phases = (s, phases)"
| "run_schedule api verifier request (i # is) s phases =
     (let (s', phase) = ensure_step api verifier (request i) s (phases i) in run_schedule api verifier request is s' (phases(i := phase)))"

lemma run_schedule_runs:
  assumes "ensure_run api held verifier request s phases" and "run_schedule api verifier request is s phases = (s', phases')"
  shows "ensure_run api held verifier request s' phases'"
  using assms
  by (induction "is" arbitrary: s phases) (auto intro: ensure_run.replica split: prod.splits)

text \<open>Two replicas find no Secret; the second loses the race, reads again and returns the password of the first.\<close>

theorem generated_password_agreed_witness:
  "\<exists>s phases a. ensure_run ex_api fmlookup (\<lambda>_. ''v'') ex_ensure s phases \<and> phases 0 = EnsureDone (Inr a) \<and> phases 1 = EnsureDone (Inr a) \<and>
     request_password (ex_ensure 0) \<noteq> request_password (ex_ensure 1)"
proof -
  let ?run = "run_schedule ex_api (\<lambda>_. ''v'') ex_ensure [0, 1, 0, 1, 1] fmempty (\<lambda>_. EnsureRead)"
  have "case ?run of (s, phases) \<Rightarrow> (case (phases 0, phases 1) of (EnsureDone (Inr _), EnsureDone (Inr _)) \<Rightarrow> True | _ \<Rightarrow> False)" by code_simp
  then obtain s phases a b where run: "?run = (s, phases)" "phases 0 = EnsureDone (Inr a)" "phases 1 = EnsureDone (Inr b)"
    by (auto split: prod.splits ensure_phase.splits sum.splits)
  have reached: "ensure_run ex_api fmlookup (\<lambda>_. ''v'') ex_ensure s phases" by (rule run_schedule_runs[OF ensure_run.start run(1)])
  have "validate_generate ''main'' ''app'' \<lparr>gps_length = Some 16, gps_secret_name = None, gps_secret_key = None\<rparr> = Inr ()" by code_simp
  then have ok: "\<And>i. validate_generate (en_policy (ex_ensure i)) (en_role (ex_ensure i)) (en_spec (ex_ensure i)) = Inr ()"
    by (simp add: ex_ensure_def)
  have draws: "\<And>i n. en_draw (ex_ensure i) n < length CHARSET" by (simp add: ex_ensure_def CHARSET_def)
  have names: "\<And>i. request_secret_name (ex_ensure i) = request_secret_name (ex_ensure 0)" "\<And>i. request_secret_key (ex_ensure i) = request_secret_key (ex_ensure 0)"
    by (simp_all add: request_secret_name_def request_secret_key_def ex_ensure_def)
  have "a = b" using generated_password_agreed[OF reached ex_api_faithful ok draws names run(2,3)] by blast
  moreover have "request_password (ex_ensure 0) \<noteq> request_password (ex_ensure 1)" by code_simp
  ultimately show ?thesis using reached run(2,3) by blast
qed

section \<open>Labels of a generated Secret\<close>

text \<open>
  The Secret is labelled with the names of the policy and the role as they are. A role name such as that of an IAM principal is not a
  label value, so the creation of the Secret of a policy that passed validation is rejected by the cluster.
\<close>

theorem generated_secret_label_invalid:
  "(let spec = \<lparr>gps_length = None, gps_secret_name = None, gps_secret_key = None\<rparr>;
        r = \<lparr>en_namespace = ''prod'', en_policy = ''main'', en_policy_uid = None, en_role = ''svc@project.iam'', en_spec = spec,
             en_draw = (\<lambda>_. 0), en_now = ''now''\<rparr> in
    validate_generate ''main'' ''svc@project.iam'' spec = Inr () \<and>
    (case fmlookup (ks_labels (generated_secret (\<lambda>_. ''v'') r)) ''pgroles.io/role'' of
       Some label \<Rightarrow> \<not> is_valid_label_value label | None \<Rightarrow> False))"
  by code_simp

end
