(* ===== verification/Spec2Isabelle.thy ===== *)
theory Spec2Isabelle
  imports Findings RenderLaws CompositionLaws Overlap OwnershipLaws Export OperatorFindings
    EphemeralScopeLaws ExplorerConverge ReconcilerLaws
    RequestIndex K8sNames Calendar SuggestRoundTrip PolicyClaims PolicyConnection GeneratedSecrets
begin

text \<open>
  A model of pgroles, a program that manages PostgreSQL roles and privileges declaratively.

  \<^bold>\<open>The program.\<close> A YAML manifest declares roles, schemas, privileges, default privileges and memberships. The core
  library (\<open>crates/pgroles-core\<close>) expands and validates it, builds the desired role graph, compares it with the
  graph inspected from the database and emits an ordered plan of changes. The plan is filtered by reconciliation
  mode and by the roles the manifest does not manage, enriched with retirements, passwords and membership grantors, and
  rendered as SQL. Around this path, several policy documents may be composed into one, a plan is checked
  against the surface a bundle manages, its digest is what an approval binds, and effects of plans and overlays are
  compared. The command line and the Kubernetes operator call these functions.

  \<^bold>\<open>Theories and sources\<close> (under \<open>crates/pgroles-core/src\<close> unless said otherwise):

  \<^item> \<open>Prelude\<close>: results (\<open>bind_r\<close>, \<open>fold_r\<close>, \<open>for_each\<close>, \<open>sequence_r\<close>), ordered maps and sets
    (\<open>btreemap\<close>, \<open>btreeset\<close> with iteration in key order), UTF-8 lengths, decimal printing and reading.
  \<^item> \<open>Types\<close>, \<open>Manifest\<close>, \<open>Expand\<close>: \<open>manifest.rs\<close>, \<open>bounds.rs\<close>; \<open>Consistency\<close>, \<open>ManifestLaws\<close>: what validation
    guarantees.
  \<^item> \<open>Guc\<close>: \<open>guc.rs\<close>, list-valued configuration parameters, with their round trip.
  \<^item> \<open>Model\<close>: \<open>model.rs\<close>, role states, keys and their orders, the role graph and its construction.
  \<^item> \<open>Change\<close>, \<open>Diff\<close>, \<open>Plan\<close>: \<open>diff.rs\<close>; one definition per phase of \<open>diff\<close>, then the filters of \<open>plan_changes\<close>.
  \<^item> \<open>Apply\<close>: the interpreter of plans over role graphs, as written in \<open>tests/diff_property.rs\<close>.
  \<^item> \<open>Phases\<close>, \<open>RolesConverge\<close>, \<open>DefaultsConverge\<close>, \<open>GrantsConverge\<close>, \<open>MembersConverge\<close>, \<open>Convergence\<close>: running a
    plan reaches the desired graph, and a second plan is empty. The locale \<open>pointwise_effect\<close> reduces a run to the fold of
    an update at one key and is interpreted for roles, schemas, privileges, default privileges and memberships.
  \<^item> \<open>DiffLaws\<close>, \<open>PlanLaws\<close>: what plans never do (inherent privileges, \<open>PUBLIC\<close>, declared privileges, external roles,
    preserved grants, executor authority, additive plans).
  \<^item> \<open>Sql\<close>: \<open>sql.rs\<close>, every statement form. \<open>SqlLex\<close> is a specification of the SQL lexer (quotes, doubled quotes,
    dollar quotes, comments); \<open>SqlLaws\<close> shows that statements read back as one statement, that the session
    role is right for every change, and that redacted text hides passwords. \<open>MembershipOptions\<close>:
    \<open>membership_options.rs\<close>; \<open>RenderLaws\<close>: resolved plans always render.
  \<^item> \<open>Ownership\<close>, \<open>Overlap\<close>: \<open>ownership.rs\<close>, \<open>overlap.rs\<close>. \<open>Frame\<close> gives the cells of a graph a change touches; its locale
    \<open>framed_effect\<close> extends \<open>pointwise_effect\<close> by the law that untouched cells keep their value, from which follow
    containment in the managed surface (\<open>OwnershipLaws\<close>) and commutation of plans that do not overlap.
  \<^item> \<open>Json\<close>, \<open>Approval\<close>: \<open>candidate.rs\<close>, \<open>approval.rs\<close>; digests bind exactly the content they are meant to bind.
  \<^item> \<open>Composition\<close>, \<open>CompositionLaws\<close>: \<open>composition.rs\<close>; the locale \<open>registry\<close> states what the five registration
    functions share.
  \<^item> \<open>Export\<close>: \<open>export.rs\<close>; an exported manifest expands to the graph it was exported from.
  \<^item> \<open>Suggest\<close>: \<open>suggest.rs\<close>, the rewriting of a flat manifest with profiles. \<open>SuggestCollapse\<close>: collapsing named grants to wildcards keeps
    what they assert; \<open>SuggestLaws\<close>: the graph of an expanded manifest, name patterns and clusters; \<open>SuggestRoundTrip\<close>: an accepted
    suggestion changes nothing but comments.
  \<^item> \<open>PlanStatus\<close>, \<open>PlanWrites\<close>: the status of a plan object in the operator (\<open>crates/pgroles-operator/src/plan.rs\<close>,
    \<open>crd.rs\<close>), the decisions taken on it, the writes to it against the validation rules of the resource, and the gate before
    execution (\<open>reconciler.rs\<close>): what is executed is what was approved.
  \<^item> \<open>Retention\<close>: which finished plans are deleted, the bounds from the environment and the duration syntax
    (\<open>plan.rs\<close>, \<open>ephemeral.rs\<close>).
  \<^item> \<open>Promotion\<close>: \<open>promotion.rs\<close>; which candidate's plan a policy may execute, and the bookkeeping afterwards.
  \<^item> \<open>Ephemeral\<close>, \<open>EphemeralScope\<close>: time-limited access in the operator (\<open>ephemeral.rs\<close>, \<open>crd.rs\<close>): the lifecycle of a request as
    one pass with its list of writes, acceptance of access policies, the overlay of granted memberships on the desired graph,
    and the changes of a scoped activation or revocation. \<open>EphemeralLaws\<close>: authorised activation, the lifecycle and the write rules of the
    resource as an invariant of reachable statuses, revocation of expired access. \<open>EphemeralScopeLaws\<close>: the scoped changes and the overlay are
    exact, and a full reconcile leaves live access alone.
  \<^item> \<open>Explorer\<close>: \<open>explorer.rs\<close>, the simulation of a plan with reachability and authority findings. \<open>ExplorerLaws\<close>: reachability is
    exact, the analysis always returns, recomputing only after relevant changes loses nothing. \<open>ExplorerConverge\<close>: the simulation of a plan
    of \<open>diff\<close> reaches what running the plan reaches, through an interpretation of \<open>pointwise_effect\<close> for the simulated memberships.
  \<^item> \<open>Reconciler\<close>, \<open>ReconcilerLaws\<close>: \<open>reconciler.rs\<close> around one reconcile: error classes and retry delays at their machine
    widths, status conditions and the central status write, passwords and summaries; a failure that repeats writes nothing.
  \<^item> \<open>RequestIndex\<close>: \<open>request_index.rs\<close>, the index of access requests fed by a watch; the locale \<open>secondary_index\<close> states what its three
    indexes share, and every lookup is a filter of the observed requests.
  \<^item> \<open>K8sNames\<close>: \<open>k8s_names.rs\<close> and the names derived in \<open>plan.rs\<close> and \<open>password.rs\<close>; every derived name is valid.
  \<^item> \<open>PolicySpec\<close>: the resource of a policy (\<open>crd.rs\<close>): connection and its keys, validation of connections and password sources, conversion to a
    manifest, ownership claims, and the conflict check of \<open>reconciler.rs\<close> (\<open>detect_policy_conflict_in_list\<close>). \<open>PolicyClaims\<close>: the claims cover
    everything a spec declares, so policies that pass the check declare separate parts of a database. \<open>PolicyConnection\<close>: identity and pool
    keys determine exactly where the parts of a connection come from.
  \<^item> \<open>GeneratedSecrets\<close>: the Secrets of generated passwords (\<open>password.rs\<close>) as interleaved API calls of racing replicas, which agree.
  \<^item> \<open>Calendar\<close>: time stamps (\<open>crd.rs\<close>, \<open>plan.rs\<close>, \<open>reconciler.rs\<close>); dates are those of the Gregorian calendar and are read back.
  \<^item> \<open>Examples\<close>, \<open>Findings\<close>, \<open>OperatorFindings\<close>: inputs for the witnesses, and inputs on which the code departs from its documentation.

  \<^bold>\<open>Modelling.\<close> Structures are records, enumerations are datatypes, \<open>Result\<close> is a sum with the error on the left,
  \<open>BTreeMap\<close> and \<open>BTreeSet\<close> are finite maps and sets that are traversed in key order, strings are lists of characters
  where only their text matters and UTF-8 byte lists where the source works on bytes. A panic is a value of the error
  type. Loops are folds over finite collections or recursions on their input; the one that runs until a queue is empty (the
  traversal of \<open>Explorer\<close>) is a \<open>while_option\<close> that is shown to end. No fuel is needed. Parsing with serde, JSON text, SHA-256, SCRAM verifiers, the process environment and the database
  are parameters of the definitions that use them; hypotheses about them (injectivity of an encoding, a fixed
  digest length) are premises of the theorems, discharged for concrete functions in the witnesses.

  \<^bold>\<open>Not modelled.\<close> Asynchronous catalog queries (\<open>pgroles-inspect\<close>), argument parsing and I/O of the command line,
  the calls of the operator to the Kubernetes API (its decisions take the listed objects as arguments and return the writes; for the
  Secrets of generated passwords the API is a parameter), connection pools and tokens (\<open>context.rs\<close>),
  the planning of candidates, WebAssembly bindings, and the presentation of graphs (visual, reviews, reports): they call or
  display what is modelled here.
\<close>

end
